(* ===== verification/Prelude.thy ===== *)
theory Prelude
  imports Main "HOL-Library.Sublist" "HOL-Library.Char_ord" "HOL-Library.List_Lexorder"
begin

text \<open>
  What every component of the development shares.

  JavaScript strings are modelled as \<^typ>\<open>string\<close> (sequences of code units below
  256); \<open>js_trim\<close>, \<open>js_lower\<close> and \<open>js_upper\<close> are String.prototype.trim,
  toLowerCase and toUpperCase on those code units.  A value the source may leave undefined or null
  is an \<^typ>\<open>'a option\<close>; \<open>nullish\<close> is the operator \<open>??\<close>.  A call that may throw
  returns \<^typ>\<open>'e + 'a\<close> with the thrown error on the left.  Tables of the relational store
  are lists of rows; \<open>sql_update\<close> and \<open>sql_delete\<close> are the two statements that rewrite
  a table in place, with the lemmas about them that every service uses.
\<close>

named_theorems js_defs \<open>definitions of the JavaScript library functions the source uses\<close>
named_theorems sql_simps \<open>how the table operations act on columns and membership\<close>

section \<open>Options, results, maps\<close>

definition nullish :: "'a option \<Rightarrow> 'a \<Rightarrow> 'a" where
  "nullish x d = (case x of Some v \<Rightarrow> v | None \<Rightarrow> d)"

definition orelse :: "'a option \<Rightarrow> 'a option \<Rightarrow> 'a option" where
  "orelse x y = (case x of Some v \<Rightarrow> Some v | None \<Rightarrow> y)"

lemma nullish_simps [simp]: "nullish None d = d" "nullish (Some v) d = v"
  by (simp_all add: nullish_def)

lemma orelse_simps [simp]: "orelse None y = y" "orelse (Some v) y = Some v" "orelse x None = x"
  by (simp_all add: orelse_def split: option.split)

lemma orelse_assoc: "orelse (orelse x y) z = orelse x (orelse y z)"
  by (cases x) simp_all

lemma orelse_idem [simp]: "orelse x x = x" "orelse x (orelse x y) = orelse x y"
  by (cases x; simp)+

text \<open>A JavaScript string used as a condition: undefined, null and the empty string are falsy.\<close>

definition truthy :: "string option \<Rightarrow> bool" where
  "truthy x = (case x of None \<Rightarrow> False | Some s \<Rightarrow> s \<noteq> [])"

definition or_str :: "string option \<Rightarrow> string option \<Rightarrow> string option" where
  "or_str x y = (if truthy x then x else y)"

lemma truthy_simps [simp]: "\<not> truthy None" "truthy (Some s) \<longleftrightarrow> s \<noteq> []"
  by (simp_all add: truthy_def)

definition is_inr :: "'e + 'a \<Rightarrow> bool" where
  "is_inr r = (case r of Inl _ \<Rightarrow> False | Inr _ \<Rightarrow> True)"

lemma is_inr_iff: "is_inr r \<longleftrightarrow> (\<exists>x. r = Inr x)"
  by (cases r) (simp_all add: is_inr_def)

lemma op_ok: "is_inr (snd r) \<Longrightarrow> \<exists>d x. r = (d, Inr x)"
  by (cases r) (auto simp: is_inr_iff)

lemma is_inr_simps [simp]: "\<not> is_inr (Inl e)" "is_inr (Inr x)"
  by (simp_all add: is_inr_def)

section \<open>Strings\<close>

definition code :: "char \<Rightarrow> nat" where
  "code c = of_char c"

text \<open>The JavaScript white space and line terminators below 256: TAB, LF, VT, FF, CR, space, NBSP.\<close>

definition is_space :: "char \<Rightarrow> bool" where
  "is_space c = (code c \<in> {9, 10, 11, 12, 13, 32, 160})"

definition is_digit :: "char \<Rightarrow> bool" where
  "is_digit c = (48 \<le> code c \<and> code c \<le> 57)"

definition is_upper :: "char \<Rightarrow> bool" where
  "is_upper c = (65 \<le> code c \<and> code c \<le> 90)"

definition is_lower :: "char \<Rightarrow> bool" where
  "is_lower c = (97 \<le> code c \<and> code c \<le> 122)"

definition lower_char :: "char \<Rightarrow> char" where
  "lower_char c =
     (if is_upper c \<or> (192 \<le> code c \<and> code c \<le> 222 \<and> code c \<noteq> 215)
      then char_of (code c + 32) else c)"

definition upper_char :: "char \<Rightarrow> char" where
  "upper_char c =
     (if is_lower c \<or> (224 \<le> code c \<and> code c \<le> 254 \<and> code c \<noteq> 247)
      then char_of (code c - 32) else c)"

definition js_lower :: "string \<Rightarrow> string" where
  "js_lower = map lower_char"

definition js_upper :: "string \<Rightarrow> string" where
  "js_upper = map upper_char"

definition trim_left :: "string \<Rightarrow> string" where
  "trim_left = dropWhile is_space"

definition js_trim :: "string \<Rightarrow> string" where
  "js_trim s = rev (trim_left (rev (trim_left s)))"

fun js_split :: "char \<Rightarrow> string \<Rightarrow> string list" where
  "js_split d [] = [[]]"
| "js_split d (c # cs) =
     (if c = d then [] # js_split d cs
      else case js_split d cs of [] \<Rightarrow> [[c]] | w # ws \<Rightarrow> (c # w) # ws)"

fun js_join :: "string \<Rightarrow> string list \<Rightarrow> string" where
  "js_join sep [] = []"
| "js_join sep [w] = w"
| "js_join sep (w # ws) = w @ sep @ js_join sep ws"

definition js_includes :: "string \<Rightarrow> string \<Rightarrow> bool" where
  "js_includes s t = sublist t s"

definition starts_with :: "string \<Rightarrow> string \<Rightarrow> bool" where
  "starts_with s p = (take (length p) s = p)"

definition digit_char :: "nat \<Rightarrow> char" where
  "digit_char n = char_of (48 + n mod 10)"

fun show_nat :: "nat \<Rightarrow> string" where
  "show_nat n = (if n < 10 then [digit_char n] else show_nat (n div 10) @ [digit_char n])"

declare show_nat.simps [simp del]

definition show_int :: "int \<Rightarrow> string" where
  "show_int i = (if i < 0 then ''-'' @ show_nat (nat (- i)) else show_nat (nat i))"

text \<open>
  \<open>parseInt\<close> without a radix: leading white space and a sign, then hexadecimal digits after
  \<open>0x\<close>, decimal digits otherwise; \<open>None\<close> is NaN.
\<close>

definition hex_val :: "char \<Rightarrow> int option" where
  "hex_val c =
     (if is_digit c then Some (int (code c) - 48)
      else if 97 \<le> code c \<and> code c \<le> 102 then Some (int (code c) - 87)
      else if 65 \<le> code c \<and> code c \<le> 70 then Some (int (code c) - 55) else None)"

definition digits_in :: "int \<Rightarrow> string \<Rightarrow> int option" where
  "digits_in base ds =
     (if ds = [] then None else Some (foldl (\<lambda>acc c. base * acc + the (hex_val c)) 0 ds))"

definition parse_digits :: "string \<Rightarrow> int option" where
  "parse_digits r =
     (if take 1 r = ''0'' \<and> take 1 (drop 1 r) \<in> {''x'', ''X''}
      then digits_in 16 (takeWhile (\<lambda>c. hex_val c \<noteq> None) (drop 2 r))
      else digits_in 10 (takeWhile is_digit r))"

definition js_parse_int :: "string \<Rightarrow> int option" where
  "js_parse_int s =
     (case trim_left s of
        [] \<Rightarrow> None
      | c # r \<Rightarrow> if c = CHR ''-'' then map_option uminus (parse_digits r)
                else if c = CHR ''+'' then parse_digits r
                else parse_digits (c # r))"

lemmas [js_defs] =
  js_trim_def trim_left_def js_lower_def js_upper_def lower_char_def upper_char_def
  is_space_def is_digit_def is_upper_def is_lower_def starts_with_def digit_char_def

lemma trim_left_Nil [simp]: "trim_left [] = []"
  by (simp add: trim_left_def)

lemma js_trim_Nil [simp]: "js_trim [] = []"
  by (simp add: js_trim_def)

lemma trim_left_hd: "trim_left s \<noteq> [] \<Longrightarrow> \<not> is_space (hd (trim_left s))"
  by (simp add: trim_left_def hd_dropWhile)

lemma trim_left_idem [simp]: "trim_left (trim_left s) = trim_left s"
  by (induction s) (auto simp: trim_left_def)

lemma js_lower_append [simp]: "js_lower (s @ t) = js_lower s @ js_lower t"
  by (simp add: js_lower_def)

lemma length_js_lower [simp]: "length (js_lower s) = length s"
  by (simp add: js_lower_def)

lemma js_lower_Nil [simp]: "js_lower [] = []"
  by (simp add: js_lower_def)

lemma js_split_not_Nil [simp]: "js_split d s \<noteq> []"
  by (induction s) (auto split: list.splits)

lemma js_split_none: "d \<notin> set s \<Longrightarrow> js_split d s = [s]"
  by (induction s) auto

lemma js_split_join: "js_split d (s @ d # t) = js_split d s @ js_split d t"
proof (induction s)
  case (Cons c s)
  obtain w ws where "js_split d s = w # ws" by (cases "js_split d s") simp_all
  with Cons show ?case by simp
qed simp

lemma code_digit_char [simp]: "code (digit_char n) = 48 + n mod 10"
  by (simp add: code_def digit_char_def of_char_of)

lemma is_digit_digit_char [simp]: "is_digit (digit_char n)"
  by (simp add: is_digit_def)

lemma show_nat_digits: "\<forall>c \<in> set (show_nat n). is_digit c"
proof (induction n rule: show_nat.induct)
  case (1 n)
  then show ?case by (subst show_nat.simps) auto
qed

lemma show_nat_not_Nil [simp]: "show_nat n \<noteq> []"
  by (subst show_nat.simps) simp

lemma takeWhile_digits: "\<forall>c \<in> set ds. is_digit c \<Longrightarrow> takeWhile is_digit (ds @ r) = ds @ takeWhile is_digit r"
  by (induction ds) auto

lemma dropWhile_digits: "\<forall>c \<in> set ds. is_digit c \<Longrightarrow> dropWhile is_digit (ds @ r) = dropWhile is_digit r"
  by (induction ds) auto

lemma digit_not_space: "is_digit c \<Longrightarrow> \<not> is_space c"
  by (auto simp: is_digit_def is_space_def)

section \<open>Lists\<close>

text \<open>\<open>Array.from(new Set(xs))\<close>: the distinct elements in order of first occurrence.\<close>

definition js_uniq :: "'a list \<Rightarrow> 'a list" where
  "js_uniq xs = rev (remdups (rev xs))"

lemma set_js_uniq [simp]: "set (js_uniq xs) = set xs"
  by (simp add: js_uniq_def)

lemma distinct_js_uniq [simp]: "distinct (js_uniq xs)"
  by (simp add: js_uniq_def)

lemma js_uniq_Nil [simp]: "js_uniq [] = []"
  by (simp add: js_uniq_def)

lemma js_uniq_distinct: "distinct xs \<Longrightarrow> js_uniq xs = xs"
  by (simp add: js_uniq_def distinct_remdups_id)

definition set_mem :: "'a list \<Rightarrow> 'a \<Rightarrow> bool" where
  "set_mem xs x = list_ex (\<lambda>y. y = x) xs"

lemma set_mem_iff [simp]: "set_mem xs x \<longleftrightarrow> x \<in> set xs"
  by (auto simp: set_mem_def list_ex_iff)

lemma inj_on_map_id: "(\<And>x. x \<in> set xs \<Longrightarrow> f x = x) \<Longrightarrow> map f xs = xs"
  by (induction xs) auto

section \<open>Tables\<close>

text \<open>
  \<open>sql_update p f t\<close> is \<open>UPDATE t SET f WHERE p\<close> and \<open>sql_delete p t\<close> is
  \<open>DELETE FROM t WHERE p\<close>; \<open>filter p t\<close> is the SELECT.
\<close>

definition sql_update :: "('r \<Rightarrow> bool) \<Rightarrow> ('r \<Rightarrow> 'r) \<Rightarrow> 'r list \<Rightarrow> 'r list" where
  "sql_update p f t = map (\<lambda>r. if p r then f r else r) t"

definition sql_delete :: "('r \<Rightarrow> bool) \<Rightarrow> 'r list \<Rightarrow> 'r list" where
  "sql_delete p t = filter (\<lambda>r. \<not> p r) t"

lemma sql_update_Nil [simp]: "sql_update p f [] = []"
  by (simp add: sql_update_def)

lemma sql_update_Cons [simp]:
  "sql_update p f (r # t) = (if p r then f r else r) # sql_update p f t"
  by (simp add: sql_update_def)

lemma length_sql_update [simp]: "length (sql_update p f t) = length t"
  by (simp add: sql_update_def)

lemma set_sql_update [sql_simps]:
  "set (sql_update p f t) = (\<lambda>r. if p r then f r else r) ` set t"
  by (simp add: sql_update_def)

lemma image_except [simp]: "c ` {r \<in> S. c r \<noteq> v} = c ` S - {v}"
  by auto

lemma ball_sql_update: "(\<forall>x \<in> set (sql_update p f t). Q x) \<longleftrightarrow> (\<forall>x \<in> set t. Q (if p x then f x else x))"
  by (induction t) simp_all

lemma bex_sql_update: "(\<exists>x \<in> set (sql_update p f t). Q x) \<longleftrightarrow> (\<exists>x \<in> set t. Q (if p x then f x else x))"
  by (induction t) simp_all

lemma set_sql_delete [simp]: "set (sql_delete p t) = {r \<in> set t. \<not> p r}"
  by (simp add: sql_delete_def)

lemma sql_update_none: "(\<And>r. r \<in> set t \<Longrightarrow> \<not> p r) \<Longrightarrow> sql_update p f t = t"
  by (induction t) auto

lemma sql_delete_none: "(\<And>r. r \<in> set t \<Longrightarrow> \<not> p r) \<Longrightarrow> sql_delete p t = t"
  by (simp add: sql_delete_def)

text \<open>A column that the assignment does not write keeps its values.\<close>

lemma map_sql_update_frame [sql_simps]:
  "(\<And>r. c (f r) = c r) \<Longrightarrow> map c (sql_update p f t) = map c t"
  by (induction t) auto

lemma distinct_sql_delete: "distinct (map c t) \<Longrightarrow> distinct (map c (sql_delete p t))"
  by (simp add: sql_delete_def distinct_map_filter)

text \<open>
  A unique column stays unique when the assignment writes one fresh value to at most one row.
\<close>

lemma distinct_sql_update_one:
  assumes "distinct (map c t)"
    and "\<And>r. r \<in> set t \<Longrightarrow> p r \<Longrightarrow> c (f r) = v"
    and "\<And>r. r \<in> set t \<Longrightarrow> \<not> p r \<Longrightarrow> c r \<noteq> v"
    and "\<And>r r'. r \<in> set t \<Longrightarrow> r' \<in> set t \<Longrightarrow> p r \<Longrightarrow> p r' \<Longrightarrow> c r = c r'"
  shows "distinct (map c (sql_update p f t))"
  using assms
proof (induction t)
  case Nil
  then show ?case by simp
next
  case (Cons r t)
  have IH: "distinct (map c (sql_update p f t))"
    by (rule Cons.IH) (use Cons.prems in simp_all)
  have "(if p r then c (f r) else c r) \<notin> set (map c (sql_update p f t))"
  proof (cases "p r")
    case True
    have np: "\<not> p r'" if "r' \<in> set t" for r'
    proof
      assume "p r'"
      then have "c r = c r'" using Cons.prems(4) [of r r'] True that by simp
      with Cons.prems(1) that show False by simp
    qed
    then have eq: "sql_update p f t = t" by (rule sql_update_none)
    have "v \<notin> c ` set t"
      using Cons.prems(3) np by (metis imageE list.set_intros(2))
    then show ?thesis using True Cons.prems(2) [of r] eq by simp
  next
    case False
    with Cons.prems(3) have "c r \<noteq> v" by simp
    moreover have "c r' \<noteq> c r" if "r' \<in> set t" for r'
      using Cons.prems(1) that by (metis distinct.simps(2) imageI list.map(2) list.set_map)
    ultimately show ?thesis using False Cons.prems(2) by (force simp: set_sql_update)
  qed
  with IH show ?case by (auto split: if_splits)
qed

text \<open>Looking one row up by a unique column.\<close>

lemma filter_unique:
  "distinct (map c t) \<Longrightarrow> r \<in> set t \<Longrightarrow> filter (\<lambda>x. c x = c r) t = [r]"
proof (induction t)
  case (Cons x t)
  then show ?case
    by (cases "x = r") (auto simp: filter_empty_conv image_iff)
qed simp

lemma unique_row: "distinct (map c t) \<Longrightarrow> r \<in> set t \<Longrightarrow> r' \<in> set t \<Longrightarrow> c r = c r' \<Longrightarrow> r = r'"
  by (meson distinct_map inj_onD)

lemma filter_hd_memb: "filter p t = r # rs \<Longrightarrow> r \<in> set t \<and> p r"
  by (auto simp: filter_eq_Cons_iff)

end
