(* ===== verification/Auth_Types.thy ===== *)
theory Auth_Types
  imports Prelude
begin

text \<open>
  The vocabulary of auth-service (src/services/auth-service/src): the error classes of
  utils/errors.ts with the HTTP status each carries, the role helper of utils/roles.ts, the
  duration parser of utils/duration.ts, and the session policy that services/auth.service.ts
  derives from the environment.  \<open>process_env\<close> is the process environment.

  Durations are parsed to an exact decimal fraction \<open>n / 10 ^ k\<close>; the source computes the same
  product in double precision and rounds it to a whole number of milliseconds.
\<close>

section \<open>Errors (utils/errors.ts)\<close>

text \<open>
  The constructors are the classes of errors.ts; \<open>PgError\<close> stands for an error thrown by the
  database driver (with the constraint that was violated) and \<open>JsError\<close> for a plain
  \<open>Error\<close>; neither of the two has a \<open>statusCode\<close>.
\<close>

datatype app_error =
    AppError string nat
  | ValidationError string
  | AuthenticationError string "string option"
  | AuthorizationError string
  | NotFoundError string
  | ConflictError string
  | PgError string
  | JsError string

fun statusCode :: "app_error \<Rightarrow> nat option" where
  "statusCode (AppError m s) = Some s"
| "statusCode (ValidationError m) = Some 400"
| "statusCode (AuthenticationError m c) = Some 401"
| "statusCode (AuthorizationError m) = Some 403"
| "statusCode (NotFoundError r) = Some 404"
| "statusCode (ConflictError m) = Some 409"
| "statusCode (PgError m) = None"
| "statusCode (JsError m) = None"

fun error_message :: "app_error \<Rightarrow> string" where
  "error_message (AppError m s) = m"
| "error_message (ValidationError m) = m"
| "error_message (AuthenticationError m c) = m"
| "error_message (AuthorizationError m) = m"
| "error_message (NotFoundError r) = r @ '' not found''"
| "error_message (ConflictError m) = m"
| "error_message (PgError m) = m"
| "error_message (JsError m) = m"

fun error_code :: "app_error \<Rightarrow> string option" where
  "error_code (AuthenticationError m c) = c"
| "error_code _ = None"

text \<open>\<open>error.statusCode || 500\<close>, the status every controller answers with.\<close>

definition http_status :: "app_error \<Rightarrow> nat" where
  "http_status e = (case statusCode e of Some s \<Rightarrow> if s = 0 then 500 else s | None \<Rightarrow> 500)"

text \<open>An operation that reads and rewrites the store and may throw.\<close>

type_synonym ('s, 'a) op = "'s \<Rightarrow> 's \<times> (app_error + 'a)"

section \<open>Roles (utils/roles.ts)\<close>

definition APP_ROLES :: "string list" where
  "APP_ROLES = [''Admin'', ''Engineer'', ''Operator'', ''Viewer'']"

definition hasElevatedRole :: "string option \<Rightarrow> bool" where
  "hasElevatedRole role = (js_lower (js_trim (nullish role [])) = ''admin'')"

section \<open>Durations (utils/duration.ts)\<close>

fun digits_val :: "string \<Rightarrow> int \<Rightarrow> int" where
  "digits_val [] acc = acc"
| "digits_val (c # cs) acc = digits_val cs (10 * acc + (int (code c) - 48))"

definition UNIT_MS :: "string \<Rightarrow> int option" where
  "UNIT_MS u =
     (if u = ''ms'' then Some 1
      else if u = ''s'' then Some 1000
      else if u = ''m'' then Some (60 * 1000)
      else if u = ''h'' then Some (60 * 60 * 1000)
      else if u = ''d'' then Some (24 * 60 * 60 * 1000)
      else None)"

text \<open>
  The regular expression \<open>/^\s*(\d+(?:\.\d+)?)\s*(ms|s|m|h|d)?\s*$/i\<close>: the number
  as \<open>n / 10 ^ k\<close> and the unit, lower case, \<open>ms\<close> when there is none.
\<close>

definition match_unit :: "string \<Rightarrow> string option" where
  "match_unit rest =
     (let u = js_lower (js_trim rest)
      in if u = [] then Some ''ms'' else if UNIT_MS u = None then None else Some u)"

definition match_duration :: "string \<Rightarrow> (int \<times> nat \<times> string) option" where
  "match_duration s =
     (let t = trim_left s;
          ds = takeWhile is_digit t;
          r = dropWhile is_digit t
      in if ds = [] then None
         else case r of
           c # r' \<Rightarrow>
             if c = CHR ''.'' then
               (let fs = takeWhile is_digit r'
                in if fs = [] then None
                   else map_option (\<lambda>u. (digits_val (ds @ fs) 0, length fs, u))
                          (match_unit (dropWhile is_digit r')))
             else map_option (\<lambda>u. (digits_val ds 0, 0, u)) (match_unit r)
         | [] \<Rightarrow> Some (digits_val ds 0, 0, ''ms''))"

text \<open>\<open>Number.isFinite\<close> of a product: it does not round to infinity in double precision.\<close>

definition finite_double :: "int \<Rightarrow> nat \<Rightarrow> bool" where
  "finite_double n k = (n < (2 ^ 1024 - 2 ^ 970) * 10 ^ k)"

text \<open>\<open>Math.round\<close> of \<open>n / 10 ^ k\<close>: the floor of the value plus one half.\<close>

definition round_dec :: "int \<Rightarrow> nat \<Rightarrow> int" where
  "round_dec n k = (2 * n + 10 ^ k) div (2 * 10 ^ k)"

definition parseDuration :: "string option \<Rightarrow> int \<Rightarrow> int" where
  "parseDuration value fallbackMs =
     (if \<not> truthy value then fallbackMs
      else case match_duration (the value) of
        None \<Rightarrow> fallbackMs
      | Some (n, k, unit) \<Rightarrow>
          (let ms = n * the (UNIT_MS unit)
           in if finite_double ms k \<and> 0 < ms then round_dec ms k else fallbackMs))"

section \<open>Session policy (services/auth.service.ts)\<close>

type_synonym process_env = "string \<Rightarrow> string option"

definition env_or :: "process_env \<Rightarrow> string \<Rightarrow> string \<Rightarrow> string" where
  "env_or env name d = (if truthy (env name) then the (env name) else d)"

definition JWT_EXPIRES_IN :: "process_env \<Rightarrow> string" where
  "JWT_EXPIRES_IN env = env_or env ''JWT_EXPIRES_IN'' ''1h''"

definition JWT_REFRESH_EXPIRES_IN :: "process_env \<Rightarrow> string" where
  "JWT_REFRESH_EXPIRES_IN env = env_or env ''JWT_REFRESH_EXPIRES_IN'' ''7d''"

definition JWT_ISSUER :: "process_env \<Rightarrow> string" where
  "JWT_ISSUER env = env_or env ''JWT_ISSUER'' ''traverse-auth''"

definition JWT_AUDIENCE :: "process_env \<Rightarrow> string" where
  "JWT_AUDIENCE env = env_or env ''JWT_AUDIENCE'' ''ams-services''"

definition SESSION_IDLE_TIMEOUT_MS :: "process_env \<Rightarrow> int" where
  "SESSION_IDLE_TIMEOUT_MS env =
     parseDuration (Some (env_or env ''SESSION_IDLE_TIMEOUT'' ''30m'')) (30 * 60 * 1000)"

definition SESSION_ABSOLUTE_TIMEOUT_MS :: "process_env \<Rightarrow> int" where
  "SESSION_ABSOLUTE_TIMEOUT_MS env =
     parseDuration (Some (env_or env ''SESSION_ABSOLUTE_TIMEOUT'' ''12h'')) (12 * 60 * 60 * 1000)"

definition env_role_char :: "char \<Rightarrow> char" where
  "env_role_char c = (if is_upper c \<or> is_digit c then c else CHR ''_'')"

definition idleTimeoutMsForRole :: "process_env \<Rightarrow> string option \<Rightarrow> int" where
  "idleTimeoutMsForRole env role =
     (if \<not> truthy role then SESSION_IDLE_TIMEOUT_MS env
      else
        (let override = env (''SESSION_IDLE_TIMEOUT_'' @ map env_role_char (js_upper (the role)))
         in if truthy override then parseDuration override (SESSION_IDLE_TIMEOUT_MS env)
            else if js_lower (the role) = ''operator''
            then parseDuration (Some ''8h'') (8 * 60 * 60 * 1000)
            else SESSION_IDLE_TIMEOUT_MS env))"

record session_policy =
  sp_idleMs :: int
  sp_absoluteMs :: int

definition sessionPolicyForRole :: "process_env \<Rightarrow> string option \<Rightarrow> session_policy" where
  "sessionPolicyForRole env role =
     \<lparr>sp_idleMs = idleTimeoutMsForRole env role,
      sp_absoluteMs = SESSION_ABSOLUTE_TIMEOUT_MS env\<rparr>"

section \<open>Facts about durations\<close>

lemma digits_val_append: "digits_val (s @ t) acc = digits_val t (digits_val s acc)"
  by (induction s arbitrary: acc) auto

lemma digits_val_show_nat: "digits_val (show_nat n) 0 = int n"
proof (induction n rule: show_nat.induct)
  case (1 n)
  then show ?case
    by (subst show_nat.simps) (auto simp: digits_val_append zdiv_int zmod_int)
qed

lemma match_duration_nat:
  assumes "u \<in> {''ms'', ''s'', ''m'', ''h'', ''d''}"
  shows "match_duration (show_nat n @ u) = Some (int n, 0, u)"
proof -
  have tl: "trim_left (show_nat n @ u) = show_nat n @ u"
    using show_nat_digits [of n] digit_not_space
    by (cases "show_nat n") (auto simp: trim_left_def)
  have "\<forall>u \<in> set [''ms'', ''s'', ''m'', ''h'', ''d'']. takeWhile is_digit u = []
      \<and> dropWhile is_digit u = u \<and> match_unit u = Some u \<and> hd u \<noteq> CHR ''.'' \<and> u \<noteq> []"
    by code_simp
  with assms have unit: "takeWhile is_digit u = []" "dropWhile is_digit u = u"
    "match_unit u = Some u" "hd u \<noteq> CHR ''.''" "u \<noteq> []"
    by auto
  have tw: "takeWhile is_digit (trim_left (show_nat n @ u)) = show_nat n"
    by (simp only: tl takeWhile_digits [OF show_nat_digits] unit append_Nil2)
  have dw: "dropWhile is_digit (trim_left (show_nat n @ u)) = u"
    by (simp only: tl dropWhile_digits [OF show_nat_digits] unit)
  obtain c r where u: "u = c # r" "c \<noteq> CHR ''.''"
    using unit(4,5) by (cases u) auto
  show ?thesis
    by (simp only: match_duration_def Let_def tw dw) (simp add: u unit(3) [unfolded u]
        digits_val_show_nat)
qed

lemma round_dec_whole [simp]: "round_dec n 0 = n"
  by (simp add: round_dec_def)

lemma round_dec_pos:
  assumes "0 < n"
  shows "0 < round_dec n k \<longleftrightarrow> 10 ^ k \<le> 2 * n"
proof -
  have pos: "(0::int) < 2 * 10 ^ k" by simp
  have "0 < round_dec n k \<longleftrightarrow> 2 * 10 ^ k \<le> 2 * n + 10 ^ k"
    unfolding round_dec_def using assms pos by (simp add: pos_imp_zdiv_pos_iff)
  then show ?thesis by linarith
qed

lemma round_dec_nonneg: "0 \<le> n \<Longrightarrow> 0 \<le> round_dec n k"
  by (simp add: round_dec_def pos_imp_zdiv_nonneg_iff)

lemma match_unit_known: "match_unit r = Some u \<Longrightarrow> \<exists>w. UNIT_MS u = Some w \<and> 0 < w"
  by (auto simp: match_unit_def Let_def UNIT_MS_def split: if_splits)

end
