(* ===== verification/Auth_Db.thy ===== *)
theory Auth_Db
  imports Auth_Types Rbac_Catalog
begin

text \<open>
  The relational store of auth-service: the tables of database/schema.sql with the two session
  columns of database/scripts/41_auth_session_clocks.sql, and the statements the services issue
  against it.  A statement either yields the new store or the driver error \<open>PgError\<close> naming the
  violated constraint, so that widths, unique keys and foreign keys are enforced as the schema
  declares them (\<open>role_permissions\<close> and \<open>refresh_tokens\<close> cascade on delete,
  \<open>users.role\<close> does not).  \<open>with_txn\<close> is BEGIN / COMMIT / ROLLBACK.

  Timestamps are microseconds of the database clock.  The type variable stands for the opaque JWT
  strings of the \<open>token\<close> column.  User ids are UUID values; malformed ids and lost connections
  are not modelled.
\<close>

section \<open>Tables (database/schema.sql)\<close>

record role_row =
  r_role_name :: string
  r_description :: "string option"
  r_is_system_role :: bool
  r_created_at :: int

record perm_row =
  p_permission_key :: string
  p_description :: "string option"
  p_category :: "string option"
  p_created_at :: int

record user_row =
  u_user_id :: string
  u_username :: string
  u_email :: string
  u_password_hash :: string
  u_full_name :: "string option"
  u_role :: string
  u_is_active :: bool
  u_credentials_changed_at :: int
  u_created_at :: int
  u_updated_at :: int

record 'tok refresh_row =
  rt_user_id :: string
  rt_token :: 'tok
  rt_expires_at :: int
  rt_created_at :: int
  rt_last_used_at :: "int option"
  rt_session_started_at :: "int option"

record 'tok db =
  roles_t :: "role_row list"
  permissions_t :: "perm_row list"
  role_permissions_t :: "(string \<times> string) list"
  users_t :: "user_row list"
  refresh_tokens_t :: "'tok refresh_row list"

section \<open>Constraints\<close>

definition opt_width :: "nat \<Rightarrow> string option \<Rightarrow> bool" where
  "opt_width n x = (case x of None \<Rightarrow> True | Some s \<Rightarrow> length s \<le> n)"

definition role_widths :: "role_row \<Rightarrow> bool" where
  "role_widths r \<longleftrightarrow> length (r_role_name r) \<le> 50 \<and> opt_width 500 (r_description r)"

definition perm_widths :: "perm_row \<Rightarrow> bool" where
  "perm_widths p \<longleftrightarrow> length (p_permission_key p) \<le> 100 \<and> opt_width 500 (p_description p)
     \<and> opt_width 50 (p_category p)"

definition user_widths :: "user_row \<Rightarrow> bool" where
  "user_widths u \<longleftrightarrow> length (u_username u) \<le> 100 \<and> length (u_email u) \<le> 255
     \<and> length (u_password_hash u) \<le> 255 \<and> opt_width 200 (u_full_name u)
     \<and> length (u_role u) \<le> 50"

definition role_names :: "'tok db \<Rightarrow> string list" where
  "role_names d = map r_role_name (roles_t d)"

definition perm_keys :: "'tok db \<Rightarrow> string list" where
  "perm_keys d = map p_permission_key (permissions_t d)"

definition user_ids :: "'tok db \<Rightarrow> string list" where
  "user_ids d = map u_user_id (users_t d)"

definition roles_ok :: "'tok db \<Rightarrow> bool" where
  "roles_ok d \<longleftrightarrow> list_all role_widths (roles_t d) \<and> distinct (role_names d)"

definition perms_ok :: "'tok db \<Rightarrow> bool" where
  "perms_ok d \<longleftrightarrow> list_all perm_widths (permissions_t d) \<and> distinct (perm_keys d)"

definition mapping_ok :: "'tok db \<Rightarrow> bool" where
  "mapping_ok d \<longleftrightarrow> distinct (role_permissions_t d)
     \<and> list_all (\<lambda>m. set_mem (role_names d) (fst m) \<and> set_mem (perm_keys d) (snd m)) (role_permissions_t d)"

definition users_ok :: "'tok db \<Rightarrow> bool" where
  "users_ok d \<longleftrightarrow> list_all user_widths (users_t d) \<and> distinct (user_ids d)
     \<and> distinct (map u_username (users_t d)) \<and> distinct (map u_email (users_t d))
     \<and> list_all (\<lambda>u. set_mem (role_names d) (u_role u)) (users_t d)"

definition tokens_ok :: "'tok db \<Rightarrow> bool" where
  "tokens_ok d \<longleftrightarrow> distinct (map rt_token (refresh_tokens_t d))
     \<and> list_all (\<lambda>t. set_mem (user_ids d) (rt_user_id t)) (refresh_tokens_t d)"

definition db_inv :: "'tok db \<Rightarrow> bool" where
  "db_inv d \<longleftrightarrow> roles_ok d \<and> perms_ok d \<and> mapping_ok d \<and> users_ok d \<and> tokens_ok d"

lemmas ok_defs = roles_ok_def perms_ok_def mapping_ok_def users_ok_def tokens_ok_def
lemmas column_defs = role_names_def perm_keys_def user_ids_def

section \<open>Statements\<close>

text \<open>
  An INSERT or UPDATE is applied and the constraints of its table are checked in the order the
  server reports them: value widths, primary and unique keys, foreign keys.
\<close>

definition check_users :: "'tok db \<Rightarrow> app_error + 'tok db" where
  "check_users d =
     (if \<not> list_all user_widths (users_t d) then Inl (PgError ''value too long'')
      else if \<not> distinct (user_ids d) then Inl (PgError ''users_pkey'')
      else if \<not> distinct (map u_username (users_t d)) then Inl (PgError ''users_username_key'')
      else if \<not> distinct (map u_email (users_t d)) then Inl (PgError ''users_email_key'')
      else if \<not> list_all (\<lambda>u. set_mem (role_names d) (u_role u)) (users_t d)
      then Inl (PgError ''users_role_fkey'')
      else Inr d)"

definition insert_user :: "user_row \<Rightarrow> 'tok db \<Rightarrow> app_error + 'tok db" where
  "insert_user u d = check_users (d\<lparr>users_t := users_t d @ [u]\<rparr>)"

definition update_users ::
  "(user_row \<Rightarrow> bool) \<Rightarrow> (user_row \<Rightarrow> user_row) \<Rightarrow> 'tok db \<Rightarrow> app_error + 'tok db" where
  "update_users p f d = check_users (d\<lparr>users_t := sql_update p f (users_t d)\<rparr>)"

definition delete_tokens :: "('tok refresh_row \<Rightarrow> bool) \<Rightarrow> 'tok db \<Rightarrow> 'tok db" where
  "delete_tokens p d = d\<lparr>refresh_tokens_t := sql_delete p (refresh_tokens_t d)\<rparr>"

text \<open>DELETE FROM users cascades to the user's refresh tokens.\<close>

definition delete_user_row :: "string \<Rightarrow> 'tok db \<Rightarrow> 'tok db" where
  "delete_user_row uid d =
     delete_tokens (\<lambda>t. rt_user_id t = uid) (d\<lparr>users_t := sql_delete (\<lambda>u. u_user_id u = uid) (users_t d)\<rparr>)"

definition check_roles :: "'tok db \<Rightarrow> app_error + 'tok db" where
  "check_roles d =
     (if \<not> list_all role_widths (roles_t d) then Inl (PgError ''value too long'')
      else if \<not> distinct (role_names d) then Inl (PgError ''roles_pkey'')
      else Inr d)"

definition insert_role :: "role_row \<Rightarrow> 'tok db \<Rightarrow> app_error + 'tok db" where
  "insert_role r d = check_roles (d\<lparr>roles_t := roles_t d @ [r]\<rparr>)"

definition update_role_description :: "string \<Rightarrow> string option \<Rightarrow> 'tok db \<Rightarrow> app_error + 'tok db" where
  "update_role_description role desc d =
     check_roles (d\<lparr>roles_t := sql_update (\<lambda>r. r_role_name r = role)
                                (\<lambda>r. r\<lparr>r_description := desc\<rparr>) (roles_t d)\<rparr>)"

definition check_perms :: "'tok db \<Rightarrow> app_error + 'tok db" where
  "check_perms d =
     (if \<not> list_all perm_widths (permissions_t d) then Inl (PgError ''value too long'')
      else if \<not> distinct (perm_keys d) then Inl (PgError ''permissions_pkey'')
      else Inr d)"

definition insert_perm :: "perm_row \<Rightarrow> 'tok db \<Rightarrow> app_error + 'tok db" where
  "insert_perm r d = check_perms (d\<lparr>permissions_t := permissions_t d @ [r]\<rparr>)"

definition update_perms ::
  "(perm_row \<Rightarrow> bool) \<Rightarrow> (perm_row \<Rightarrow> perm_row) \<Rightarrow> 'tok db \<Rightarrow> app_error + 'tok db" where
  "update_perms p f d = check_perms (d\<lparr>permissions_t := sql_update p f (permissions_t d)\<rparr>)"

definition delete_mapping :: "string \<Rightarrow> 'tok db \<Rightarrow> 'tok db" where
  "delete_mapping role d =
     d\<lparr>role_permissions_t := sql_delete (\<lambda>m. fst m = role) (role_permissions_t d)\<rparr>"

text \<open>DELETE FROM roles is refused while a user refers to the role, and cascades to the mapping.\<close>

definition delete_role_row :: "string \<Rightarrow> 'tok db \<Rightarrow> app_error + 'tok db" where
  "delete_role_row role d =
     (if set_mem (role_names d) role \<and> list_ex (\<lambda>u. u_role u = role) (users_t d)
      then Inl (PgError ''users_role_fkey'')
      else Inr (delete_mapping role (d\<lparr>roles_t := sql_delete (\<lambda>r. r_role_name r = role) (roles_t d)\<rparr>)))"

definition check_mapping :: "'tok db \<Rightarrow> app_error + 'tok db" where
  "check_mapping d =
     (if \<not> list_all (\<lambda>m. length (fst m) \<le> 50 \<and> length (snd m) \<le> 100) (role_permissions_t d)
      then Inl (PgError ''value too long'')
      else if \<not> distinct (role_permissions_t d) then Inl (PgError ''role_permissions_pkey'')
      else if \<not> list_all (\<lambda>m. set_mem (role_names d) (fst m)) (role_permissions_t d)
      then Inl (PgError ''role_permissions_role_name_fkey'')
      else if \<not> list_all (\<lambda>m. set_mem (perm_keys d) (snd m)) (role_permissions_t d)
      then Inl (PgError ''role_permissions_permission_key_fkey'')
      else Inr d)"

definition insert_mapping :: "string \<Rightarrow> string \<Rightarrow> 'tok db \<Rightarrow> app_error + 'tok db" where
  "insert_mapping role key d =
     check_mapping (d\<lparr>role_permissions_t := role_permissions_t d @ [(role, key)]\<rparr>)"

definition rename_mapping :: "string \<Rightarrow> string \<Rightarrow> 'tok db \<Rightarrow> app_error + 'tok db" where
  "rename_mapping newName role d =
     check_mapping (d\<lparr>role_permissions_t :=
        sql_update (\<lambda>m. fst m = role) (\<lambda>m. (newName, snd m)) (role_permissions_t d)\<rparr>)"

definition check_tokens :: "'tok db \<Rightarrow> app_error + 'tok db" where
  "check_tokens d =
     (if \<not> distinct (map rt_token (refresh_tokens_t d)) then Inl (PgError ''refresh_tokens_token_key'')
      else if \<not> list_all (\<lambda>t. set_mem (user_ids d) (rt_user_id t)) (refresh_tokens_t d)
      then Inl (PgError ''refresh_tokens_user_id_fkey'')
      else Inr d)"

definition insert_token :: "'tok refresh_row \<Rightarrow> 'tok db \<Rightarrow> app_error + 'tok db" where
  "insert_token t d = check_tokens (d\<lparr>refresh_tokens_t := refresh_tokens_t d @ [t]\<rparr>)"

definition update_tokens ::
  "('tok refresh_row \<Rightarrow> bool) \<Rightarrow> ('tok refresh_row \<Rightarrow> 'tok refresh_row) \<Rightarrow> 'tok db \<Rightarrow> app_error + 'tok db" where
  "update_tokens p f d = check_tokens (d\<lparr>refresh_tokens_t := sql_update p f (refresh_tokens_t d)\<rparr>)"

section \<open>Transactions (config/database.ts)\<close>

text \<open>
  The body runs on one client between BEGIN and COMMIT; an exception rolls the store back to what
  it was at BEGIN and is rethrown.
\<close>

definition withTransaction :: "('s \<Rightarrow> app_error + ('s \<times> 'a)) \<Rightarrow> ('s, 'a) op" where
  "withTransaction body d =
     (case body d of Inl e \<Rightarrow> (d, Inl e) | Inr (d', x) \<Rightarrow> (d', Inr x))"

definition bindE :: "('e + 'a) \<Rightarrow> ('a \<Rightarrow> 'e + 'b) \<Rightarrow> 'e + 'b" where
  "bindE m f = (case m of Inl e \<Rightarrow> Inl e | Inr x \<Rightarrow> f x)"

lemma bindE_simps [simp]: "bindE (Inl e) f = Inl e" "bindE (Inr x) f = f x"
  by (simp_all add: bindE_def)

lemma bindE_Inr: "bindE m f = Inr y \<longleftrightarrow> (\<exists>x. m = Inr x \<and> f x = Inr y)"
  by (cases m) simp_all

lemma bindE_Inl: "bindE m f = Inl e \<longleftrightarrow> m = Inl e \<or> (\<exists>x. m = Inr x \<and> f x = Inl e)"
  by (cases m) simp_all

lemma withTransaction_error: "withTransaction body d = (d', Inl e) \<longleftrightarrow> d' = d \<and> body d = Inl e"
  by (auto simp: withTransaction_def split: sum.splits)

lemma withTransaction_ok: "withTransaction body d = (d', Inr x) \<longleftrightarrow> body d = Inr (d', x)"
  by (auto simp: withTransaction_def split: sum.splits)

text \<open>
  \<open>ensures m Q\<close>: a computation that succeeds does so with a result in \<open>Q\<close>; it composes
  along \<open>bindE\<close>.
\<close>

definition ensures :: "('e + 'a) \<Rightarrow> ('a \<Rightarrow> bool) \<Rightarrow> bool" where
  "ensures m Q \<longleftrightarrow> (case m of Inl e \<Rightarrow> True | Inr x \<Rightarrow> Q x)"

lemma ensures_simps [simp]: "ensures (Inl e) Q" "ensures (Inr x) Q \<longleftrightarrow> Q x"
  by (simp_all add: ensures_def)

lemma ensuresD: "ensures m Q \<Longrightarrow> m = Inr x \<Longrightarrow> Q x"
  by simp

lemma ensuresI: "(\<And>x. m = Inr x \<Longrightarrow> Q x) \<Longrightarrow> ensures m Q"
  by (cases m) simp_all

lemma ensures_bindE: "ensures m P \<Longrightarrow> (\<And>x. P x \<Longrightarrow> ensures (f x) Q) \<Longrightarrow> ensures (bindE m f) Q"
  by (cases m) simp_all

text \<open>
  The contract of a transaction: what the body keeps is kept by the transaction, whatever happens,
  and a call that throws leaves the store as it was.
\<close>

locale transaction_body =
  fixes inv :: "'s \<Rightarrow> bool" and body :: "'s \<Rightarrow> app_error + ('s \<times> 'a)"
  assumes body_keeps: "inv d \<Longrightarrow> ensures (body d) (\<lambda>(d', x). inv d')"
begin

lemma txn_keeps: "inv d \<Longrightarrow> inv (fst (withTransaction body d))"
  using body_keeps [of d] by (auto simp: withTransaction_def split: sum.splits)

lemma txn_atomic: "snd (withTransaction body d) = Inl e \<Longrightarrow> fst (withTransaction body d) = d"
  by (auto simp: withTransaction_def split: sum.splits)

end

section \<open>What a statement that succeeds guarantees\<close>

named_theorems db_ok \<open>a checked statement succeeds exactly when its constraints hold\<close>

lemma check_users_Inr [db_ok]: "check_users d = Inr d' \<longleftrightarrow> d' = d \<and> users_ok d"
  by (auto simp: check_users_def users_ok_def)

lemma check_roles_Inr [db_ok]: "check_roles d = Inr d' \<longleftrightarrow> d' = d \<and> roles_ok d"
  by (auto simp: check_roles_def roles_ok_def)

lemma check_perms_Inr [db_ok]: "check_perms d = Inr d' \<longleftrightarrow> d' = d \<and> perms_ok d"
  by (auto simp: check_perms_def perms_ok_def)

lemma check_tokens_Inr [db_ok]: "check_tokens d = Inr d' \<longleftrightarrow> d' = d \<and> tokens_ok d"
  by (auto simp: check_tokens_def tokens_ok_def)

lemma check_mapping_Inr:
  "check_mapping d = Inr d' \<Longrightarrow> d' = d \<and> mapping_ok d"
  by (auto simp: check_mapping_def mapping_ok_def list_all_iff split: if_splits)

lemma check_mapping_ok [db_ok]:
  assumes "roles_ok d" and "perms_ok d"
  shows "check_mapping d = Inr d' \<longleftrightarrow> d' = d \<and> mapping_ok d"
proof -
  have "length (fst m) \<le> 50" if "set_mem (role_names d) (fst m)" for m :: "string \<times> string"
    using assms(1) that by (auto simp: roles_ok_def role_names_def role_widths_def list_all_iff)
  moreover have "length (snd m) \<le> 100" if "set_mem (perm_keys d) (snd m)" for m :: "string \<times> string"
    using assms(2) that by (auto simp: perms_ok_def perm_keys_def perm_widths_def list_all_iff)
  ultimately have "mapping_ok d \<Longrightarrow> list_all (\<lambda>m. length (fst m) \<le> 50 \<and> length (snd m) \<le> 100) (role_permissions_t d)"
    by (simp add: mapping_ok_def list_all_iff)
  then show ?thesis
    by (auto simp: check_mapping_def mapping_ok_def list_all_iff)
qed

lemma db_invI:
  "roles_ok d \<Longrightarrow> perms_ok d \<Longrightarrow> mapping_ok d \<Longrightarrow> users_ok d \<Longrightarrow> tokens_ok d \<Longrightarrow> db_inv d"
  by (simp add: db_inv_def)

lemma db_invD:
  assumes "db_inv d"
  shows "roles_ok d" "perms_ok d" "mapping_ok d" "users_ok d" "tokens_ok d"
  using assms by (simp_all add: db_inv_def)

lemma user_ids_distinct: "db_inv d \<Longrightarrow> distinct (map u_user_id (users_t d))"
  by (simp add: db_inv_def users_ok_def user_ids_def)

lemma usernames_distinct: "db_inv d \<Longrightarrow> distinct (map u_username (users_t d))"
  by (simp add: db_inv_def users_ok_def)

lemma tokens_distinct: "db_inv d \<Longrightarrow> distinct (map rt_token (refresh_tokens_t d))"
  by (simp add: db_inv_def tokens_ok_def)

lemma role_names_distinct: "db_inv d \<Longrightarrow> distinct (map r_role_name (roles_t d))"
  by (simp add: db_inv_def roles_ok_def role_names_def)

section \<open>Every statement keeps the integrity of the store\<close>

named_theorems db_keeps \<open>statements keep the integrity invariant\<close>

lemma insert_user_keeps [db_keeps]:
  "db_inv d \<Longrightarrow> insert_user u d = Inr d' \<Longrightarrow> db_inv d'"
  by (auto simp: db_inv_def insert_user_def db_ok ok_defs column_defs list_all_iff)

lemma update_users_keeps [db_keeps]:
  assumes "db_inv d" and "update_users p f d = Inr d'" and "\<And>u. u_user_id (f u) = u_user_id u"
  shows "db_inv d'"
proof -
  have "map u_user_id (sql_update p f (users_t d)) = map u_user_id (users_t d)"
    by (rule map_sql_update_frame) (rule assms(3))
  with assms(1,2) show ?thesis
    by (auto simp: db_inv_def update_users_def db_ok ok_defs column_defs simp del: list.map_comp)
qed

lemma delete_tokens_keeps [db_keeps]: "db_inv d \<Longrightarrow> db_inv (delete_tokens p d)"
  by (auto simp: db_inv_def delete_tokens_def ok_defs column_defs list_all_iff distinct_sql_delete)

lemma delete_user_row_keeps [db_keeps]: "db_inv d \<Longrightarrow> db_inv (delete_user_row uid d)"
  by (auto simp: db_inv_def delete_user_row_def delete_tokens_def ok_defs column_defs list_all_iff
      distinct_sql_delete)

lemma insert_role_keeps [db_keeps]: "db_inv d \<Longrightarrow> insert_role r d = Inr d' \<Longrightarrow> db_inv d'"
  by (auto simp: db_inv_def insert_role_def db_ok ok_defs column_defs list_all_iff)

lemma update_role_description_keeps [db_keeps]:
  "db_inv d \<Longrightarrow> update_role_description role desc d = Inr d' \<Longrightarrow> db_inv d'"
  by (auto simp: db_inv_def update_role_description_def db_ok ok_defs column_defs list_all_iff sql_simps)

lemma delete_mapping_keeps [db_keeps]: "db_inv d \<Longrightarrow> db_inv (delete_mapping role d)"
  by (auto simp: db_inv_def delete_mapping_def ok_defs column_defs list_all_iff sql_delete_def)

lemma delete_role_row_keeps [db_keeps]:
  "db_inv d \<Longrightarrow> delete_role_row role d = Inr d' \<Longrightarrow> db_inv d'"
  by (fastforce simp: db_inv_def delete_role_row_def delete_mapping_def ok_defs column_defs
      list_all_iff list_ex_iff distinct_sql_delete sql_delete_def distinct_map_filter split: if_splits)

lemma check_mapping_keeps:
  assumes "db_inv d" and "check_mapping (d\<lparr>role_permissions_t := t\<rparr>) = Inr d'"
  shows "db_inv d'"
proof -
  from assms(2) have "d' = d\<lparr>role_permissions_t := t\<rparr>" "mapping_ok (d\<lparr>role_permissions_t := t\<rparr>)"
    by (auto dest: check_mapping_Inr)
  with assms(1) show ?thesis
    by (auto simp: db_inv_def ok_defs column_defs)
qed

lemma insert_mapping_keeps [db_keeps]:
  "db_inv d \<Longrightarrow> insert_mapping role key d = Inr d' \<Longrightarrow> db_inv d'"
  by (auto simp: insert_mapping_def intro: check_mapping_keeps)

lemma rename_mapping_keeps [db_keeps]:
  "db_inv d \<Longrightarrow> rename_mapping newName role d = Inr d' \<Longrightarrow> db_inv d'"
  by (auto simp: rename_mapping_def intro: check_mapping_keeps)

lemma insert_perm_keeps [db_keeps]: "db_inv d \<Longrightarrow> insert_perm r d = Inr d' \<Longrightarrow> db_inv d'"
  by (auto simp: db_inv_def insert_perm_def db_ok ok_defs column_defs list_all_iff)

lemma update_perms_keeps [db_keeps]:
  assumes "db_inv d" and "update_perms p f d = Inr d'"
    and "\<And>r. p_permission_key (f r) = p_permission_key r"
  shows "db_inv d'"
proof -
  have "map p_permission_key (sql_update p f (permissions_t d)) = map p_permission_key (permissions_t d)"
    by (rule map_sql_update_frame) (rule assms(3))
  with assms(1,2) show ?thesis
    by (auto simp: db_inv_def update_perms_def db_ok ok_defs column_defs list_all_iff simp del: list.map_comp)
qed

lemma insert_token_keeps [db_keeps]: "db_inv d \<Longrightarrow> insert_token t d = Inr d' \<Longrightarrow> db_inv d'"
  by (auto simp: db_inv_def insert_token_def db_ok ok_defs column_defs)

lemma update_tokens_keeps [db_keeps]: "db_inv d \<Longrightarrow> update_tokens p f d = Inr d' \<Longrightarrow> db_inv d'"
  by (auto simp: db_inv_def update_tokens_def db_ok ok_defs column_defs)

end
