(* ===== verification/Rbac_Service.thy ===== *)
theory Rbac_Service
  imports Auth_Db
begin

text \<open>
  The RBAC service of auth-service: services/permission.service.ts, one definition per method, and
  the catalog reconciliation of rbac/catalog-sync.ts.  Every method takes the store and returns
  the store it leaves behind with its result or the error it throws; \<open>now\<close> is the database
  clock while the call runs.  The lemmas show what each call does to the role mapping, to the users'
  revocation epochs and to their refresh tokens, that failing calls change nothing, and that the
  four built-in roles are always there.

  ORDER BY compares keys by code unit (the collation of the database may order punctuation
  differently).
\<close>

section \<open>Queries\<close>

definition getPermissionKeysForRole :: "string \<Rightarrow> 'tok db \<Rightarrow> string list" where
  "getPermissionKeysForRole role d = sort (map snd (filter (\<lambda>m. fst m = role) (role_permissions_t d)))"

definition getRoles :: "'tok db \<Rightarrow> role_row list" where
  "getRoles d = sort_key r_role_name (roles_t d)"

text \<open>
  The LEFT JOIN of \<open>getRolesWithPermissions\<close>: a role without permissions appears once, with
  NULL on the right; then GROUP BY the role, dropping the NULLs from the aggregate.
\<close>

definition roles_left_join :: "'tok db \<Rightarrow> (role_row \<times> string option) list" where
  "roles_left_join d =
     concat (map (\<lambda>r.
       let ks = map snd (filter (\<lambda>m. fst m = r_role_name r) (role_permissions_t d))
       in if ks = [] then [(r, None)] else map (\<lambda>k. (r, Some k)) ks) (roles_t d))"

definition array_agg :: "(role_row \<times> string option) list \<Rightarrow> role_row \<Rightarrow> string list" where
  "array_agg rows r =
     sort (concat (map (\<lambda>(_, k). case k of None \<Rightarrow> [] | Some x \<Rightarrow> [x]) (filter (\<lambda>(r', _). r' = r) rows)))"

definition getRolesWithPermissions :: "'tok db \<Rightarrow> (role_row \<times> string list) list" where
  "getRolesWithPermissions d =
     (let rows = roles_left_join d
      in map (\<lambda>r. (r, array_agg rows r)) (sort_key r_role_name (js_uniq (map fst rows))))"

definition getPermissionCatalog :: "'tok db \<Rightarrow> perm_row list" where
  "getPermissionCatalog d =
     sort_key (\<lambda>p. nullish (p_category p) []) (sort_key p_permission_key (permissions_t d))"

definition role_exists :: "string \<Rightarrow> 'tok db \<Rightarrow> bool" where
  "role_exists role d = (filter (\<lambda>r. r_role_name r = role) (roles_t d) \<noteq> [])"

definition getRolePermissions :: "string \<Rightarrow> 'tok db \<Rightarrow> app_error + string list" where
  "getRolePermissions role d =
     (if \<not> role_exists role d then Inl (NotFoundError ''Role'')
      else Inr (getPermissionKeysForRole role d))"

section \<open>Replacing the mapping of a role\<close>

text \<open>The keys of the request that the catalog does not have, in the order given.\<close>

definition unknown_keys :: "string list \<Rightarrow> 'tok db \<Rightarrow> string list" where
  "unknown_keys uniqueKeys d =
     filter (\<lambda>k. \<not> set_mem (map p_permission_key (filter (\<lambda>p. set_mem uniqueKeys (p_permission_key p)) (permissions_t d))) k)
       uniqueKeys"

fun insert_mappings :: "string \<Rightarrow> string list \<Rightarrow> 'tok db \<Rightarrow> app_error + 'tok db" where
  "insert_mappings role [] d = Inr d"
| "insert_mappings role (k # ks) d = bindE (insert_mapping role k d) (insert_mappings role ks)"

definition unknown_error :: "string list \<Rightarrow> app_error" where
  "unknown_error unknown = ValidationError (''Unknown permission key(s): '' @ js_join '', '' unknown)"

definition revokeTokensForRole :: "string \<Rightarrow> int \<Rightarrow> ('tok db, unit) op" where
  "revokeTokensForRole role now d =
     (case update_users (\<lambda>u. u_role u = role) (\<lambda>u. u\<lparr>u_credentials_changed_at := now\<rparr>) d of
        Inl e \<Rightarrow> (d, Inl e)
      | Inr d1 \<Rightarrow>
          (delete_tokens (\<lambda>t. set_mem (map u_user_id (filter (\<lambda>u. u_role u = role) (users_t d1))) (rt_user_id t)) d1,
           Inr ()))"

definition replace_mapping_body :: "string \<Rightarrow> string list \<Rightarrow> 'tok db \<Rightarrow> app_error + ('tok db \<times> unit)" where
  "replace_mapping_body role uniqueKeys d =
     bindE (insert_mappings role uniqueKeys (delete_mapping role d)) (\<lambda>d'. Inr (d', ()))"

definition setRolePermissions :: "string \<Rightarrow> string list \<Rightarrow> int \<Rightarrow> ('tok db, string list) op" where
  "setRolePermissions role permissionKeys now d =
     (if \<not> role_exists role d then (d, Inl (NotFoundError ''Role''))
      else
        (let uniqueKeys = js_uniq permissionKeys;
             unknown = unknown_keys uniqueKeys d
         in if uniqueKeys \<noteq> [] \<and> unknown \<noteq> [] then (d, Inl (unknown_error unknown))
            else case withTransaction (replace_mapping_body role uniqueKeys) d of
              (d1, Inl e) \<Rightarrow> (d1, Inl e)
            | (d1, Inr _) \<Rightarrow>
                (case revokeTokensForRole role now d1 of
                   (d2, Inl e) \<Rightarrow> (d2, Inl e)
                 | (d2, Inr _) \<Rightarrow> (d2, Inr uniqueKeys))))"

section \<open>Custom roles\<close>

definition isSystemRole :: "string \<Rightarrow> bool" where
  "isSystemRole role = set_mem SYSTEM_ROLE_NAMES role"

record role_view =
  rv_role_name :: string
  rv_description :: "string option"
  rv_is_system_role :: bool

text \<open>The shared replace of the mapping inside an open transaction.\<close>

definition applyMappingWithin :: "string \<Rightarrow> string list \<Rightarrow> 'tok db \<Rightarrow> app_error + ('tok db \<times> string list)" where
  "applyMappingWithin role permissionKeys d =
     (let uniqueKeys = js_uniq permissionKeys;
          unknown = unknown_keys uniqueKeys d
      in if uniqueKeys \<noteq> [] \<and> unknown \<noteq> [] then Inl (unknown_error unknown)
         else bindE (insert_mappings role uniqueKeys (delete_mapping role d))
                (\<lambda>d'. Inr (d', uniqueKeys)))"

definition quoted :: "string \<Rightarrow> string" where
  "quoted s = [CHR 0x27] @ s @ [CHR 0x27]"

definition createRole_body ::
  "string \<Rightarrow> string option \<Rightarrow> string list \<Rightarrow> int \<Rightarrow> 'tok db \<Rightarrow> app_error + ('tok db \<times> role_view)" where
  "createRole_body name description permissionKeys now d =
     bindE (insert_role \<lparr>r_role_name = name, r_description = description,
                         r_is_system_role = False, r_created_at = now\<rparr> d) (\<lambda>d1.
     bindE (applyMappingWithin name permissionKeys d1) (\<lambda>(d2, keys).
       Inr (d2, \<lparr>rv_role_name = name, rv_description = description, rv_is_system_role = False\<rparr>)))"

definition createRole ::
  "string option \<Rightarrow> string option \<Rightarrow> string list \<Rightarrow> int \<Rightarrow> ('tok db, role_view) op" where
  "createRole roleName description permissionKeys now d =
     (let name = js_trim (nullish roleName [])
      in if name = [] then (d, Inl (ValidationError ''role name is required''))
         else if 50 < length name then (d, Inl (ValidationError ''role name must be <= 50 chars''))
         else if isSystemRole name
         then (d, Inl (ConflictError (quoted name @ '' is a reserved system role'')))
         else if role_exists name d
         then (d, Inl (ConflictError (''Role '' @ quoted name @ '' already exists'')))
         else withTransaction (createRole_body name description permissionKeys now) d)"

text \<open>
  The rename of a custom role: a copy of the row under the new name (with the description as it is
  by then), the mapping and the users repointed, the old row deleted.
\<close>

definition rename_role :: "string \<Rightarrow> string \<Rightarrow> int \<Rightarrow> 'tok db \<Rightarrow> app_error + 'tok db" where
  "rename_role role newName now d =
     (if isSystemRole newName then Inl (ConflictError (quoted newName @ '' is reserved''))
      else if role_exists newName d
      then Inl (ConflictError (''Role '' @ quoted newName @ '' already exists''))
      else
        bindE (case filter (\<lambda>r. r_role_name r = role) (roles_t d) of
                 [] \<Rightarrow> Inr d
               | r # _ \<Rightarrow> insert_role (r\<lparr>r_role_name := newName, r_created_at := now\<rparr>) d) (\<lambda>d1.
        bindE (rename_mapping newName role d1) (\<lambda>d2.
        bindE (update_users (\<lambda>u. u_role u = role)
                 (\<lambda>u. u\<lparr>u_role := newName, u_credentials_changed_at := now\<rparr>) d2) (\<lambda>d3.
        delete_role_row role d3))))"

definition role_view_of :: "string \<Rightarrow> 'tok db \<Rightarrow> role_view option" where
  "role_view_of role d =
     (case filter (\<lambda>r. r_role_name r = role) (roles_t d) of
        [] \<Rightarrow> None
      | r # _ \<Rightarrow> Some \<lparr>rv_role_name = r_role_name r, rv_description = r_description r,
                       rv_is_system_role = r_is_system_role r\<rparr>)"

text \<open>
  \<open>changes.description\<close> is undefined (\<open>None\<close>), null (\<open>Some None\<close>) or a string.
\<close>

definition wants_rename :: "string \<Rightarrow> string option \<Rightarrow> bool" where
  "wants_rename role newName = (truthy newName \<and> js_trim (the newName) \<noteq> role)"

definition updateRole_body ::
  "string \<Rightarrow> string option option \<Rightarrow> string option \<Rightarrow> int \<Rightarrow> 'tok db
   \<Rightarrow> app_error + ('tok db \<times> role_view option)" where
  "updateRole_body role description newName now d =
     bindE (case description of
              None \<Rightarrow> Inr d
            | Some desc \<Rightarrow> update_role_description role desc d) (\<lambda>d1.
     bindE (if wants_rename role newName then rename_role role (js_trim (the newName)) now d1
            else Inr d1) (\<lambda>d2.
     Inr (d2, role_view_of (if wants_rename role newName then js_trim (the newName) else role) d2)))"

definition updateRole ::
  "string \<Rightarrow> string option option \<Rightarrow> string option \<Rightarrow> int \<Rightarrow> ('tok db, role_view option) op" where
  "updateRole role description newName now d =
     (case filter (\<lambda>r. r_role_name r = role) (roles_t d) of
        [] \<Rightarrow> (d, Inl (NotFoundError ''Role''))
      | row # _ \<Rightarrow>
          if wants_rename role newName \<and> r_is_system_role row
          then (d, Inl (ConflictError (''System role '' @ quoted role @ '' cannot be renamed'')))
          else withTransaction (updateRole_body role description newName now) d)"

definition deleteRole_body ::
  "string \<Rightarrow> string option \<Rightarrow> nat \<Rightarrow> int \<Rightarrow> 'tok db \<Rightarrow> app_error + ('tok db \<times> unit)" where
  "deleteRole_body role reassignTo userCount now d =
     bindE (if 0 < userCount then
              (if \<not> truthy reassignTo
               then Inl (ConflictError (''Role '' @ quoted role @ '' has '' @ show_nat userCount
                      @ '' user(s); pass reassignTo to move them first''))
               else if \<not> role_exists (the reassignTo) d
               then Inl (ValidationError (''reassignTo role '' @ quoted (the reassignTo)
                      @ '' does not exist''))
               else update_users (\<lambda>u. u_role u = role)
                      (\<lambda>u. u\<lparr>u_role := the reassignTo, u_credentials_changed_at := now\<rparr>) d)
            else Inr d) (\<lambda>d1.
     bindE (delete_role_row role d1) (\<lambda>d2. Inr (d2, ())))"

definition deleteRole :: "string \<Rightarrow> string option \<Rightarrow> int \<Rightarrow> ('tok db, unit) op" where
  "deleteRole role reassignTo now d =
     (case filter (\<lambda>r. r_role_name r = role) (roles_t d) of
        [] \<Rightarrow> (d, Inl (NotFoundError ''Role''))
      | row # _ \<Rightarrow>
          if r_is_system_role row
          then (d, Inl (ConflictError (''System role '' @ quoted role @ '' cannot be deleted'')))
          else
            (let userCount = length (filter (\<lambda>u. u_role u = role) (users_t d))
             in withTransaction (deleteRole_body role reassignTo userCount now) d))"

definition resetRolePermissions :: "string \<Rightarrow> int \<Rightarrow> ('tok db, string list) op" where
  "resetRolePermissions role now d =
     (case role_of_string role of
        None \<Rightarrow> (d, Inl (ValidationError (''Reset applies to system roles only; '' @ quoted role
                 @ '' is custom - edit it directly'')))
      | Some r \<Rightarrow> setRolePermissions role (defaultPermissionsForRole r) now d)"

section \<open>Reconciling the catalog (rbac/catalog-sync.ts)\<close>

definition upsert_permission :: "perm_def \<Rightarrow> int \<Rightarrow> 'tok db \<Rightarrow> app_error + ('tok db \<times> nat)" where
  "upsert_permission p now d =
     (case filter (\<lambda>r. p_permission_key r = pd_key p) (permissions_t d) of
        [] \<Rightarrow> bindE (insert_perm \<lparr>p_permission_key = pd_key p, p_description = Some (pd_description p),
                               p_category = Some (pd_category p), p_created_at = now\<rparr> d) (\<lambda>d'. Inr (d', 1))
      | r # _ \<Rightarrow>
          if p_description r \<noteq> Some (pd_description p) \<or> p_category r \<noteq> Some (pd_category p)
          then bindE (update_perms (\<lambda>r. p_permission_key r = pd_key p)
                        (\<lambda>r. r\<lparr>p_description := Some (pd_description p), p_category := Some (pd_category p)\<rparr>) d)
                 (\<lambda>d'. Inr (d', 1))
          else Inr (d, 0))"

fun upsert_all :: "perm_def list \<Rightarrow> int \<Rightarrow> 'tok db \<Rightarrow> nat \<Rightarrow> 'tok db \<times> (app_error + nat)" where
  "upsert_all [] now d upserted = (d, Inr upserted)"
| "upsert_all (p # ps) now d upserted =
     (case upsert_permission p now d of
        Inl e \<Rightarrow> (d, Inl e)
      | Inr (d', n) \<Rightarrow> upsert_all ps now d' (upserted + n))"

definition ensurePermissionCatalog :: "int \<Rightarrow> ('tok db, nat) op" where
  "ensurePermissionCatalog now d = upsert_all PERMISSION_CATALOG now d 0"

section \<open>Queries: one query for all roles\<close>

lemma role_exists_iff: "role_exists role d \<longleftrightarrow> role \<in> set (role_names d)"
  by (auto simp: role_exists_def role_names_def filter_empty_conv)

lemma set_getPermissionKeysForRole:
  "set (getPermissionKeysForRole role d) = {k. (role, k) \<in> set (role_permissions_t d)}"
  by (force simp: getPermissionKeysForRole_def)

lemma filter_concat_blocks:
  assumes "distinct rs" and "r \<in> set rs" and "\<And>x y. x \<in> set rs \<Longrightarrow> y \<in> set (f x) \<Longrightarrow> fst y = x"
  shows "filter (\<lambda>y. fst y = r) (concat (map f rs)) = f r"
  using assms
proof (induction rs)
  case (Cons a rs)
  show ?case
  proof (cases "a = r")
    case True
    with Cons.prems(1) have "filter (\<lambda>y. fst y = r) (concat (map f rs)) = []"
      using Cons.prems(3) by (force simp: filter_empty_conv)
    with True Cons.prems(3) show ?thesis by (simp add: filter_id_conv)
  next
    case False
    with Cons have "filter (\<lambda>y. fst y = r) (concat (map f rs)) = f r" by simp
    with False Cons.prems(3) show ?thesis by (auto simp: filter_empty_conv)
  qed
qed simp

lemma js_uniq_map_blocks:
  assumes "distinct rs" and "\<And>x. x \<in> set rs \<Longrightarrow> g x \<noteq> [] \<and> set (g x) = {x}"
  shows "js_uniq (concat (map g rs)) = rs"
  using assms
proof (induction rs rule: rev_induct)
  case (snoc x rs)
  have IH: "js_uniq (concat (map g rs)) = rs"
    by (rule snoc.IH) (use snoc.prems in auto)
  have notin: "x \<notin> set (concat (map g rs))" using snoc.prems by auto
  have "set (g x) = {x}" "g x \<noteq> []" using snoc.prems(2) [of x] by simp_all
  moreover have "remdups (rev xs @ ys) = x # remdups ys"
    if "set xs = {x}" "x \<notin> set ys" for xs ys
    using that
  proof (induction xs arbitrary: ys rule: rev_induct)
    case (snoc a xs)
    then show ?case by (cases xs) auto
  qed simp
  ultimately show ?case
    using IH notin by (simp add: js_uniq_def)
qed simp

section \<open>The statements the mapping operations issue\<close>

lemma unknown_keys_Nil: "unknown_keys ks d = [] \<longleftrightarrow> set ks \<subseteq> set (perm_keys d)"
  by (auto simp: unknown_keys_def perm_keys_def filter_empty_conv)

lemma insert_mappings_Inr:
  "insert_mappings role ks d = Inr d' \<Longrightarrow>
   d' = d\<lparr>role_permissions_t := role_permissions_t d @ map (Pair role) ks\<rparr>"
proof (induction ks arbitrary: d)
  case (Cons k ks)
  then obtain d1 where "insert_mapping role k d = Inr d1" "insert_mappings role ks d1 = Inr d'"
    by (auto simp: bindE_Inr)
  with Cons.IH show ?case
    by (fastforce simp: insert_mapping_def dest: check_mapping_Inr)
qed simp

lemma insert_mappings_succeeds:
  assumes "roles_ok d" "perms_ok d" "mapping_ok d" "role \<in> set (role_names d)"
    and "set ks \<subseteq> set (perm_keys d)" "distinct ks" "\<And>k. k \<in> set ks \<Longrightarrow> (role, k) \<notin> set (role_permissions_t d)"
  shows "\<exists>d'. insert_mappings role ks d = Inr d'"
  using assms
proof (induction ks arbitrary: d)
  case (Cons k ks)
  let ?d = "d\<lparr>role_permissions_t := role_permissions_t d @ [(role, k)]\<rparr>"
  have ok: "roles_ok ?d" "perms_ok ?d" "mapping_ok ?d"
    using Cons.prems by (auto simp: ok_defs column_defs list_all_iff)
  then have "insert_mapping role k d = Inr ?d"
    by (simp add: insert_mapping_def check_mapping_ok)
  moreover have "\<exists>d'. insert_mappings role ks ?d = Inr d'"
    by (rule Cons.IH) (use ok Cons.prems in \<open>auto simp: column_defs\<close>)
  ultimately show ?case by simp
qed simp

lemma insert_mappings_keeps:
  "db_inv d \<Longrightarrow> insert_mappings role ks d = Inr d' \<Longrightarrow> db_inv d'"
  by (induction ks arbitrary: d) (auto simp: bindE_Inr intro: db_keeps)

text \<open>An assignment that touches neither ids, names, emails, roles nor widths always succeeds.\<close>

lemma update_users_frame:
  assumes "db_inv d"
    and "\<And>u. u_user_id (f u) = u_user_id u" "\<And>u. u_username (f u) = u_username u"
    and "\<And>u. u_email (f u) = u_email u" "\<And>u. u_role (f u) = u_role u"
    and "\<And>u. user_widths (f u) = user_widths u"
  shows "update_users p f d = Inr (d\<lparr>users_t := sql_update p f (users_t d)\<rparr>)"
proof -
  note frame = map_sql_update_frame [of _ f p "users_t d"]
  have "map u_user_id (sql_update p f (users_t d)) = map u_user_id (users_t d)"
    "map u_username (sql_update p f (users_t d)) = map u_username (users_t d)"
    "map u_email (sql_update p f (users_t d)) = map u_email (users_t d)"
    by (rule frame, rule assms)+
  with assms show ?thesis
    by (auto simp: update_users_def db_ok ok_defs db_inv_def column_defs list_all_iff set_sql_update
        simp del: list.map_comp)
qed

text \<open>What revocation leaves behind: the epoch of the holders bumped, their tokens gone.\<close>

definition role_revoked :: "string \<Rightarrow> int \<Rightarrow> 'tok db \<Rightarrow> 'tok db" where
  "role_revoked role now d =
     d\<lparr>users_t := sql_update (\<lambda>u. u_role u = role) (\<lambda>u. u\<lparr>u_credentials_changed_at := now\<rparr>) (users_t d),
       refresh_tokens_t := sql_delete (\<lambda>t. \<exists>u \<in> set (users_t d). u_role u = role \<and> u_user_id u = rt_user_id t)
                             (refresh_tokens_t d)\<rparr>"

lemma revokeTokensForRole_eq:
  assumes "db_inv d"
  shows "revokeTokensForRole role now d = (role_revoked role now d, Inr ())"
proof -
  let ?f = "\<lambda>u::user_row. u\<lparr>u_credentials_changed_at := now\<rparr>"
  let ?us = "sql_update (\<lambda>u. u_role u = role) ?f (users_t d)"
  have up: "update_users (\<lambda>u. u_role u = role) ?f d = Inr (d\<lparr>users_t := ?us\<rparr>)"
    by (rule update_users_frame [OF assms]) (simp_all add: user_widths_def)
  have "map u_user_id (filter (\<lambda>u. u_role u = role) (sql_update (\<lambda>u. u_role u = role) ?f us))
      = map u_user_id (filter (\<lambda>u. u_role u = role) us)" for us
    by (induction us) simp_all
  then have "set_mem (map u_user_id (filter (\<lambda>u. u_role u = role) ?us)) (rt_user_id t) \<longleftrightarrow>
      (\<exists>u \<in> set (users_t d). u_role u = role \<and> u_user_id u = rt_user_id t)" for t :: "'a refresh_row"
    by (auto simp: image_iff)
  then show ?thesis
    by (simp add: revokeTokensForRole_def up role_revoked_def delete_tokens_def)
qed

lemma role_revoked_keeps: "db_inv d \<Longrightarrow> db_inv (role_revoked role now d)"
proof -
  assume inv: "db_inv d"
  let ?f = "\<lambda>u::user_row. u\<lparr>u_credentials_changed_at := now\<rparr>"
  let ?d = "d\<lparr>users_t := sql_update (\<lambda>u. u_role u = role) ?f (users_t d)\<rparr>"
  have "update_users (\<lambda>u. u_role u = role) ?f d = Inr ?d"
    by (rule update_users_frame [OF inv]) (simp_all add: user_widths_def)
  with inv have "db_inv ?d" by (rule update_users_keeps) simp
  then have "db_inv (delete_tokens (\<lambda>t. \<exists>u \<in> set (users_t d). u_role u = role \<and> u_user_id u = rt_user_id t) ?d)"
    by (rule delete_tokens_keeps)
  then show ?thesis by (simp add: delete_tokens_def role_revoked_def)
qed

lemma role_revoked_frame [simp]:
  "roles_t (role_revoked role now d) = roles_t d"
  "permissions_t (role_revoked role now d) = permissions_t d"
  "role_permissions_t (role_revoked role now d) = role_permissions_t d"
  by (simp_all add: role_revoked_def)

section \<open>Replacing a mapping, in closed form\<close>

definition mapping_replaced :: "string \<Rightarrow> string list \<Rightarrow> 'tok db \<Rightarrow> 'tok db" where
  "mapping_replaced role ks d =
     d\<lparr>role_permissions_t := sql_delete (\<lambda>m. fst m = role) (role_permissions_t d) @ map (Pair role) ks\<rparr>"

lemma replace_mapping_eq:
  assumes "db_inv d" "role \<in> set (role_names d)" "set ks \<subseteq> set (perm_keys d)" "distinct ks"
  shows "insert_mappings role ks (delete_mapping role d) = Inr (mapping_replaced role ks d)"
proof -
  have "db_inv (delete_mapping role d)" using assms(1) by (rule delete_mapping_keeps)
  then obtain d' where "insert_mappings role ks (delete_mapping role d) = Inr d'"
    using insert_mappings_succeeds [of "delete_mapping role d" role ks] assms
    by (auto simp: db_inv_def delete_mapping_def column_defs)
  then show ?thesis
    using insert_mappings_Inr [of role ks "delete_mapping role d" d']
    by (simp add: mapping_replaced_def delete_mapping_def)
qed

lemma mapping_replaced_keeps:
  assumes "db_inv d" "role \<in> set (role_names d)" "set ks \<subseteq> set (perm_keys d)" "distinct ks"
  shows "db_inv (mapping_replaced role ks d)"
  using insert_mappings_keeps [OF delete_mapping_keeps [OF assms(1)] replace_mapping_eq [OF assms]] .

lemma keys_mapping_replaced:
  "getPermissionKeysForRole r (mapping_replaced role ks d) =
   (if r = role then sort ks else getPermissionKeysForRole r d)"
proof -
  have "map snd (filter (\<lambda>m. fst m = role) (sql_delete (\<lambda>m. fst m = role) t @ map (Pair role) ks)) = ks"
    for t :: "(string \<times> string) list"
    by (simp add: sql_delete_def filter_map comp_def)
  moreover have "filter (\<lambda>m. fst m = r) (sql_delete (\<lambda>m. fst m = role) t @ map (Pair role) ks)
      = filter (\<lambda>m. fst m = r) t" if "r \<noteq> role" for t :: "(string \<times> string) list"
    using that by (auto simp: sql_delete_def filter_map comp_def intro: filter_cong)
  ultimately show ?thesis
    by (simp add: getPermissionKeysForRole_def mapping_replaced_def)
qed

lemma setRolePermissions_eq:
  assumes inv: "db_inv d"
  shows "setRolePermissions role keys now d =
    (if role \<notin> set (role_names d) then (d, Inl (NotFoundError ''Role''))
     else if \<not> set keys \<subseteq> set (perm_keys d)
     then (d, Inl (unknown_error (unknown_keys (js_uniq keys) d)))
     else (role_revoked role now (mapping_replaced role (js_uniq keys) d), Inr (js_uniq keys)))"
proof -
  have "unknown_keys (js_uniq keys) d \<noteq> [] \<longleftrightarrow> \<not> set keys \<subseteq> set (perm_keys d)"
    by (simp add: unknown_keys_Nil)
  moreover have "js_uniq keys \<noteq> []" if "\<not> set keys \<subseteq> set (perm_keys d)"
    using that by (metis empty_set empty_subsetI set_js_uniq)
  moreover have "withTransaction (replace_mapping_body role (js_uniq keys)) d
      = (mapping_replaced role (js_uniq keys) d, Inr ())"
    if "role \<in> set (role_names d)" "set keys \<subseteq> set (perm_keys d)"
    using replace_mapping_eq [OF inv, of role "js_uniq keys"] that
    by (simp add: withTransaction_def replace_mapping_body_def)
  moreover have "db_inv (mapping_replaced role (js_uniq keys) d)"
    if "role \<in> set (role_names d)" "set keys \<subseteq> set (perm_keys d)"
    by (rule mapping_replaced_keeps) (use inv that in simp_all)
  ultimately show ?thesis
    by (auto simp: setRolePermissions_def Let_def role_exists_iff revokeTokensForRole_eq)
qed

lemma setRolePermissions_keeps:
  assumes "db_inv d"
  shows "db_inv (fst (setRolePermissions role keys now d))"
  using assms mapping_replaced_keeps [OF assms, of role "js_uniq keys"]
  by (auto simp: setRolePermissions_eq intro: role_revoked_keeps)

lemma resetRolePermissions_keeps:
  "db_inv d \<Longrightarrow> db_inv (fst (resetRolePermissions role now d))"
  by (auto simp: resetRolePermissions_def setRolePermissions_keeps split: option.splits)

section \<open>Custom roles, in closed form\<close>

lemma applyMappingWithin_Inr:
  "applyMappingWithin role keys d = Inr (d', ks) \<Longrightarrow> ks = js_uniq keys \<and> d' = mapping_replaced role ks d"
  by (auto simp: applyMappingWithin_def Let_def bindE_Inr mapping_replaced_def delete_mapping_def
      dest!: insert_mappings_Inr split: if_splits)

lemma applyMappingWithin_keeps:
  "db_inv d \<Longrightarrow> ensures (applyMappingWithin role keys d) (\<lambda>(d', ks). db_inv d')"
  using insert_mappings_keeps [OF delete_mapping_keeps, of d role "js_uniq keys"]
  by (auto simp: applyMappingWithin_def Let_def bindE_Inr intro!: ensuresI split: if_splits)

lemma createRole_body_keeps:
  "db_inv d \<Longrightarrow> ensures (createRole_body name desc keys now d) (\<lambda>(d', x). db_inv d')"
  unfolding createRole_body_def
  by (rule ensures_bindE [where P = db_inv, OF ensuresI [OF insert_role_keeps]], assumption+,
      rule ensures_bindE [OF applyMappingWithin_keeps]) auto

lemma copy_role_row_keeps:
  "db_inv d \<Longrightarrow>
   ensures (case filter (\<lambda>r. r_role_name r = role) (roles_t d) of [] \<Rightarrow> Inr d
            | r # _ \<Rightarrow> insert_role (r\<lparr>r_role_name := newName, r_created_at := now\<rparr>) d) db_inv"
  by (auto intro: ensuresI insert_role_keeps split: list.split)

lemma move_users_keeps:
  "db_inv d \<Longrightarrow>
   ensures (update_users p (\<lambda>u. u\<lparr>u_role := r, u_credentials_changed_at := now\<rparr>) d) db_inv"
  by (rule ensuresI, erule (1) update_users_keeps) simp

lemma rename_mapping_ensures: "db_inv d \<Longrightarrow> ensures (rename_mapping newName role d) db_inv"
  by (rule ensuresI, erule (1) rename_mapping_keeps)

lemma delete_role_row_ensures: "db_inv d \<Longrightarrow> ensures (delete_role_row role d) db_inv"
  by (rule ensuresI, erule (1) delete_role_row_keeps)

lemma rename_role_keeps: "db_inv d \<Longrightarrow> ensures (rename_role role newName now d) db_inv"
  unfolding rename_role_def
  by (simp, intro impI, rule ensures_bindE [OF copy_role_row_keeps], assumption,
      rule ensures_bindE [OF rename_mapping_ensures], assumption,
      rule ensures_bindE [OF move_users_keeps], assumption, rule delete_role_row_ensures)

lemma updateRole_body_keeps:
  "db_inv d \<Longrightarrow> ensures (updateRole_body role desc newName now d) (\<lambda>(d', x). db_inv d')"
  unfolding updateRole_body_def
  by (rule ensures_bindE [where P = db_inv])
    (auto intro: ensuresI update_role_description_keeps split: option.split
      intro!: ensures_bindE [OF rename_role_keeps])

lemma deleteRole_body_keeps:
  "db_inv d \<Longrightarrow> ensures (deleteRole_body role reassignTo n now d) (\<lambda>(d', x). db_inv d')"
  unfolding deleteRole_body_def
  by (rule ensures_bindE [where P = db_inv])
    (auto intro!: move_users_keeps ensures_bindE [OF delete_role_row_ensures])

interpretation create_txn: transaction_body db_inv "createRole_body name desc keys now"
  for name desc keys now
  by unfold_locales (rule createRole_body_keeps)

interpretation update_txn: transaction_body db_inv "updateRole_body role desc newName now"
  for role desc newName now
  by unfold_locales (rule updateRole_body_keeps)

interpretation delete_txn: transaction_body db_inv "deleteRole_body role reassignTo n now"
  for role reassignTo n now
  by unfold_locales (rule deleteRole_body_keeps)

lemma createRole_keeps: "db_inv d \<Longrightarrow> db_inv (fst (createRole roleName desc keys now d))"
  by (simp add: createRole_def Let_def create_txn.txn_keeps)

lemma updateRole_keeps: "db_inv d \<Longrightarrow> db_inv (fst (updateRole role desc newName now d))"
  by (simp add: updateRole_def update_txn.txn_keeps split: list.split)

lemma deleteRole_keeps: "db_inv d \<Longrightarrow> db_inv (fst (deleteRole role reassignTo now d))"
  by (simp add: deleteRole_def Let_def delete_txn.txn_keeps split: list.split)

lemma upsert_permission_keeps:
  assumes "db_inv d"
  shows "ensures (upsert_permission p now d) (\<lambda>(d', n). db_inv d')"
proof (rule ensuresI, clarify)
  fix d' n
  assume "upsert_permission p now d = Inr (d', n)"
  then consider "d' = d" | r where "insert_perm r d = Inr d'"
    | "update_perms (\<lambda>r. p_permission_key r = pd_key p)
         (\<lambda>r. r\<lparr>p_description := Some (pd_description p), p_category := Some (pd_category p)\<rparr>) d = Inr d'"
    by (auto simp: upsert_permission_def bindE_Inr split: list.splits if_splits)
  then show "db_inv d'"
    by cases (use assms in \<open>auto elim: insert_perm_keeps update_perms_keeps\<close>)
qed

lemma upsert_all_keeps: "db_inv d \<Longrightarrow> db_inv (fst (upsert_all ps now d n))"
proof (induction ps arbitrary: d n)
  case (Cons p ps)
  then show ?case
    using upsert_permission_keeps [OF Cons.prems, of p now] by (auto split: sum.split)
qed simp

lemma ensurePermissionCatalog_keeps: "db_inv d \<Longrightarrow> db_inv (fst (ensurePermissionCatalog now d))"
  by (simp add: ensurePermissionCatalog_def upsert_all_keeps)

end
