(* ===== verification/Rbac_Laws.thy ===== *)
theory Rbac_Laws
  imports Rbac_Service
begin

text \<open>
  What the role operations of services/permission.service.ts do, as closed forms: for a store that
  satisfies its constraints, every outcome of \<open>createRole\<close>, \<open>updateRole\<close> and \<open>deleteRole\<close> (errors
  of the database included) and the exact store left behind.  The properties of the RBAC service
  are read off these forms.
\<close>

section \<open>Statements that succeed\<close>

lemma insert_role_eq:
  assumes "db_inv d" and "r_role_name r \<notin> set (role_names d)"
  shows "insert_role r d =
    (if role_widths r then Inr (d\<lparr>roles_t := roles_t d @ [r]\<rparr>) else Inl (PgError ''value too long''))"
  using assms by (auto simp: insert_role_def check_roles_def db_inv_def roles_ok_def column_defs)

lemma mapping_role_exists: "db_inv d \<Longrightarrow> (r, k) \<in> set (role_permissions_t d) \<Longrightarrow> r \<in> set (role_names d)"
  by (auto simp: db_inv_def mapping_ok_def list_all_iff)

lemma user_role_exists: "db_inv d \<Longrightarrow> u \<in> set (users_t d) \<Longrightarrow> u_role u \<in> set (role_names d)"
  by (auto simp: db_inv_def users_ok_def list_all_iff)

definition mapping_renamed :: "string \<Rightarrow> string \<Rightarrow> 'tok db \<Rightarrow> 'tok db" where
  "mapping_renamed newName role d =
     d\<lparr>role_permissions_t := sql_update (\<lambda>m. fst m = role) (\<lambda>m. (newName, snd m)) (role_permissions_t d)\<rparr>"

lemma rename_mapping_eq:
  assumes inv: "db_inv d" and new: "newName \<in> set (role_names d)"
    and fresh: "\<And>k. (newName, k) \<notin> set (role_permissions_t d)"
  shows "rename_mapping newName role d = Inr (mapping_renamed newName role d)"
proof -
  let ?f = "\<lambda>m::string \<times> string. if fst m = role then (newName, snd m) else m"
  have "inj_on ?f (set (role_permissions_t d))"
    using fresh by (auto simp: inj_on_def split: if_splits)
  then have "distinct (sql_update (\<lambda>m. fst m = role) (\<lambda>m. (newName, snd m)) (role_permissions_t d))"
    using inv by (simp add: sql_update_def distinct_map db_inv_def mapping_ok_def)
  then have "mapping_ok (mapping_renamed newName role d)"
    using inv new by (auto simp: db_inv_def mapping_ok_def mapping_renamed_def column_defs list_all_iff set_sql_update)
  then show ?thesis
    using inv check_mapping_ok [of "mapping_renamed newName role d" "mapping_renamed newName role d"]
    by (simp add: rename_mapping_def mapping_renamed_def db_inv_def roles_ok_def perms_ok_def column_defs)
qed

definition users_moved :: "string \<Rightarrow> string \<Rightarrow> int \<Rightarrow> 'tok db \<Rightarrow> 'tok db" where
  "users_moved newName role now d =
     d\<lparr>users_t := sql_update (\<lambda>u. u_role u = role)
                    (\<lambda>u. u\<lparr>u_role := newName, u_credentials_changed_at := now\<rparr>) (users_t d)\<rparr>"

lemma move_users_eq:
  assumes inv: "db_inv d" and new: "newName \<in> set (role_names d)"
  shows "update_users (\<lambda>u. u_role u = role)
           (\<lambda>u. u\<lparr>u_role := newName, u_credentials_changed_at := now\<rparr>) d = Inr (users_moved newName role now d)"
proof -
  let ?f = "\<lambda>u::user_row. u\<lparr>u_role := newName, u_credentials_changed_at := now\<rparr>"
  note frame = map_sql_update_frame [of _ ?f "\<lambda>u. u_role u = role" "users_t d"]
  have "map u_user_id (sql_update (\<lambda>u. u_role u = role) ?f (users_t d)) = map u_user_id (users_t d)"
    "map u_username (sql_update (\<lambda>u. u_role u = role) ?f (users_t d)) = map u_username (users_t d)"
    "map u_email (sql_update (\<lambda>u. u_role u = role) ?f (users_t d)) = map u_email (users_t d)"
    by (rule frame, simp)+
  moreover have "length newName \<le> 50"
    using inv new by (auto simp: db_inv_def roles_ok_def role_widths_def column_defs list_all_iff)
  ultimately show ?thesis
    using inv new
    by (auto simp: update_users_def users_moved_def db_ok ok_defs db_inv_def column_defs list_all_iff
        set_sql_update user_widths_def simp del: list.map_comp)
qed

definition role_dropped :: "string \<Rightarrow> 'tok db \<Rightarrow> 'tok db" where
  "role_dropped role d =
     d\<lparr>roles_t := sql_delete (\<lambda>r. r_role_name r = role) (roles_t d),
       role_permissions_t := sql_delete (\<lambda>m. fst m = role) (role_permissions_t d)\<rparr>"

lemma delete_role_row_eq:
  "role \<in> set (role_names d) \<Longrightarrow> delete_role_row role d =
    (if \<exists>u \<in> set (users_t d). u_role u = role then Inl (PgError ''users_role_fkey'')
     else Inr (role_dropped role d))"
  by (auto simp: delete_role_row_def delete_mapping_def role_dropped_def list_ex_iff)

section \<open>createRole\<close>

lemma createRole_body_eq:
  assumes inv: "db_inv d" and new: "name \<notin> set (role_names d)" and len: "length name \<le> 50"
  shows "createRole_body name desc keys now d =
    (if \<not> opt_width 500 desc then Inl (PgError ''value too long'')
     else if \<not> set keys \<subseteq> set (perm_keys d) then Inl (unknown_error (unknown_keys (js_uniq keys) d))
     else Inr (d\<lparr>roles_t := roles_t d @ [\<lparr>r_role_name = name, r_description = desc,
                                          r_is_system_role = False, r_created_at = now\<rparr>],
                 role_permissions_t := role_permissions_t d @ map (Pair name) (js_uniq keys)\<rparr>,
               \<lparr>rv_role_name = name, rv_description = desc, rv_is_system_role = False\<rparr>))"
proof -
  let ?r = "\<lparr>r_role_name = name, r_description = desc, r_is_system_role = False, r_created_at = now\<rparr>"
  let ?d = "d\<lparr>roles_t := roles_t d @ [?r]\<rparr>"
  have ins: "insert_role ?r d = (if opt_width 500 desc then Inr ?d else Inl (PgError ''value too long''))"
    using insert_role_eq [OF inv, of ?r] new len by (simp add: role_widths_def)
  have nomap: "sql_delete (\<lambda>m. fst m = name) (role_permissions_t d) = role_permissions_t d"
    using new mapping_role_exists [OF inv] by (intro sql_delete_none) auto
  have "applyMappingWithin name keys ?d =
    (if \<not> set keys \<subseteq> set (perm_keys d) then Inl (unknown_error (unknown_keys (js_uniq keys) d))
     else Inr (mapping_replaced name (js_uniq keys) ?d, js_uniq keys))" if "opt_width 500 desc"
  proof -
    have inv': "db_inv ?d" using ins that by (intro insert_role_keeps [OF inv]) simp
    have "unknown_keys (js_uniq keys) ?d = unknown_keys (js_uniq keys) d" by (simp add: unknown_keys_def)
    moreover have "js_uniq keys \<noteq> []" if "\<not> set keys \<subseteq> set (perm_keys d)"
      using that by (metis empty_set empty_subsetI set_js_uniq)
    ultimately show ?thesis
      using replace_mapping_eq [OF inv', of name "js_uniq keys"] unknown_keys_Nil [of "js_uniq keys" d]
      by (auto simp: applyMappingWithin_def Let_def column_defs)
  qed
  then show ?thesis
    by (simp add: createRole_body_def ins mapping_replaced_def nomap)
qed

lemma createRole_eq:
  assumes "db_inv d"
  shows "createRole roleName desc keys now d =
   (let name = js_trim (nullish roleName []) in
    if name = [] then (d, Inl (ValidationError ''role name is required''))
    else if 50 < length name then (d, Inl (ValidationError ''role name must be <= 50 chars''))
    else if isSystemRole name then (d, Inl (ConflictError (quoted name @ '' is a reserved system role'')))
    else if name \<in> set (role_names d)
    then (d, Inl (ConflictError (''Role '' @ quoted name @ '' already exists'')))
    else if \<not> opt_width 500 desc then (d, Inl (PgError ''value too long''))
    else if \<not> set keys \<subseteq> set (perm_keys d) then (d, Inl (unknown_error (unknown_keys (js_uniq keys) d)))
    else (d\<lparr>roles_t := roles_t d @ [\<lparr>r_role_name = name, r_description = desc,
                                     r_is_system_role = False, r_created_at = now\<rparr>],
            role_permissions_t := role_permissions_t d @ map (Pair name) (js_uniq keys)\<rparr>,
          Inr \<lparr>rv_role_name = name, rv_description = desc, rv_is_system_role = False\<rparr>))"
  by (simp add: createRole_def Let_def role_exists_iff withTransaction_def
      createRole_body_eq [OF assms])

section \<open>Renaming\<close>

definition role_renamed :: "role_row \<Rightarrow> string \<Rightarrow> int \<Rightarrow> 'tok db \<Rightarrow> 'tok db" where
  "role_renamed row newName now d =
     d\<lparr>roles_t := sql_delete (\<lambda>r. r_role_name r = r_role_name row) (roles_t d)
                    @ [row\<lparr>r_role_name := newName, r_created_at := now\<rparr>],
       role_permissions_t := sql_update (\<lambda>m. fst m = r_role_name row) (\<lambda>m. (newName, snd m)) (role_permissions_t d),
       users_t := sql_update (\<lambda>u. u_role u = r_role_name row)
                    (\<lambda>u. u\<lparr>u_role := newName, u_credentials_changed_at := now\<rparr>) (users_t d)\<rparr>"

lemma filter_role_row: "db_inv d \<Longrightarrow> row \<in> set (roles_t d) \<Longrightarrow>
   filter (\<lambda>r. r_role_name r = r_role_name row) (roles_t d) = [row]"
  using filter_unique [of r_role_name "roles_t d" row] role_names_distinct [of d] by simp

lemma rename_role_eq:
  assumes inv: "db_inv d" and row: "row \<in> set (roles_t d)"
  shows "rename_role (r_role_name row) newName now d =
    (if isSystemRole newName then Inl (ConflictError (quoted newName @ '' is reserved''))
     else if newName \<in> set (role_names d)
     then Inl (ConflictError (''Role '' @ quoted newName @ '' already exists''))
     else if 50 < length newName then Inl (PgError ''value too long'')
     else Inr (role_renamed row newName now d))"
proof -
  let ?role = "r_role_name row" and ?r = "row\<lparr>r_role_name := newName, r_created_at := now\<rparr>"
  let ?d1 = "d\<lparr>roles_t := roles_t d @ [?r]\<rparr>"
  have desc: "opt_width 500 (r_description row)"
    using inv row by (auto simp: db_inv_def roles_ok_def role_widths_def list_all_iff)
  have old: "?role \<in> set (role_names d)" using row by (auto simp: column_defs)
  show ?thesis
  proof (cases "isSystemRole newName \<or> newName \<in> set (role_names d) \<or> 50 < length newName")
    case True
    then show ?thesis
      using insert_role_eq [OF inv, of ?r] filter_role_row [OF inv row]
      by (auto simp: rename_role_def role_exists_iff role_widths_def)
  next
    case False
    then have ins: "insert_role ?r d = Inr ?d1"
      using insert_role_eq [OF inv, of ?r] desc by (simp add: role_widths_def)
    have inv1: "db_inv ?d1" using insert_role_keeps [OF inv ins] .
    let ?d2 = "mapping_renamed newName ?role ?d1"
    have ren: "rename_mapping newName ?role ?d1 = Inr ?d2"
      using False mapping_role_exists [OF inv] by (intro rename_mapping_eq [OF inv1]) (auto simp: column_defs)
    have inv2: "db_inv ?d2" using rename_mapping_keeps [OF inv1 ren] .
    let ?d3 = "users_moved newName ?role now ?d2"
    have mov: "update_users (\<lambda>u. u_role u = ?role)
       (\<lambda>u. u\<lparr>u_role := newName, u_credentials_changed_at := now\<rparr>) ?d2 = Inr ?d3"
      by (rule move_users_eq [OF inv2]) (simp add: mapping_renamed_def column_defs)
    have ne: "newName \<noteq> ?role" using False old by auto
    have "\<not> (\<exists>u \<in> set (users_t ?d3). u_role u = ?role)"
      using ne by (auto simp: users_moved_def set_sql_update)
    then have del: "delete_role_row ?role ?d3 = Inr (role_dropped ?role ?d3)"
      using old by (subst delete_role_row_eq) (auto simp: users_moved_def mapping_renamed_def column_defs)
    have "sql_delete (\<lambda>m. fst m = ?role) (sql_update (\<lambda>m. fst m = ?role) (\<lambda>m. (newName, snd m)) t)
        = sql_update (\<lambda>m. fst m = ?role) (\<lambda>m. (newName, snd m)) t" for t :: "(string \<times> string) list"
      using ne by (intro sql_delete_none) (auto simp: set_sql_update)
    then have "role_dropped ?role ?d3 = role_renamed row newName now d"
      using ne by (simp add: role_dropped_def role_renamed_def users_moved_def mapping_renamed_def sql_delete_def)
    then show ?thesis
      using False filter_role_row [OF inv row]
      by (simp add: rename_role_def role_exists_iff ins ren mov del)
  qed
qed


section \<open>updateRole and deleteRole\<close>

text \<open>The row after the optional change of its description.\<close>

definition described :: "string option option \<Rightarrow> role_row \<Rightarrow> role_row" where
  "described desc r = (case desc of None \<Rightarrow> r | Some x \<Rightarrow> r\<lparr>r_description := x\<rparr>)"

definition role_described :: "string \<Rightarrow> string option option \<Rightarrow> 'tok db \<Rightarrow> 'tok db" where
  "role_described role desc d = d\<lparr>roles_t := sql_update (\<lambda>r. r_role_name r = role) (described desc) (roles_t d)\<rparr>"

lemma described_simps [simp]:
  "r_role_name (described desc r) = r_role_name r" "r_is_system_role (described desc r) = r_is_system_role r"
  "described None r = r" "described (Some x) r = r\<lparr>r_description := x\<rparr>"
  by (simp_all add: described_def split: option.split)

lemma role_described_frame [simp]:
  "role_names (role_described role desc d) = role_names d"
  "permissions_t (role_described role desc d) = permissions_t d"
  "role_permissions_t (role_described role desc d) = role_permissions_t d"
  "users_t (role_described role desc d) = users_t d"
  "refresh_tokens_t (role_described role desc d) = refresh_tokens_t d"
  by (simp_all add: role_described_def role_names_def sql_simps)

lemma role_described_None [simp]: "role_described role None d = d"
proof -
  have "sql_update p (described None) t = t" for p t by (induction t) simp_all
  then show ?thesis by (simp add: role_described_def)
qed

lemma describe_step_eq:
  assumes inv: "db_inv d" and row: "row \<in> set (roles_t d)"
  shows "(case desc of None \<Rightarrow> Inr d | Some x \<Rightarrow> update_role_description (r_role_name row) x d) =
    (if desc \<noteq> None \<and> \<not> opt_width 500 (the desc) then Inl (PgError ''value too long'')
     else Inr (role_described (r_role_name row) desc d))"
proof (cases desc)
  case (Some x)
  have "role_names (role_described (r_role_name row) (Some x) d) = role_names d" by simp
  moreover have "list_all role_widths (sql_update (\<lambda>r. r_role_name r = r_role_name row) (\<lambda>r. r\<lparr>r_description := x\<rparr>) (roles_t d))
      \<longleftrightarrow> opt_width 500 x"
    using inv row by (auto simp: db_inv_def roles_ok_def role_widths_def list_all_iff ball_sql_update split: if_splits)
  ultimately show ?thesis
    using inv Some
    by (simp add: update_role_description_def check_roles_def role_described_def db_inv_def roles_ok_def
        described_def [abs_def])
qed simp

lemma role_described_keeps:
  assumes "db_inv d" "row \<in> set (roles_t d)" "desc = None \<or> opt_width 500 (the desc)"
  shows "db_inv (role_described (r_role_name row) desc d)"
  using describe_step_eq [OF assms(1,2), of desc] assms(1,3)
  by (cases desc) (auto dest: update_role_description_keeps)

definition renamed_or_same :: "role_row \<Rightarrow> string option \<Rightarrow> int \<Rightarrow> 'tok db \<Rightarrow> 'tok db" where
  "renamed_or_same row newName now d =
     (if wants_rename (r_role_name row) newName then role_renamed row (js_trim (the newName)) now d else d)"

lemma described_row:
  "row \<in> set (roles_t d) \<Longrightarrow> described desc row \<in> set (roles_t (role_described (r_role_name row) desc d))"
  by (auto simp: role_described_def set_sql_update image_iff intro!: bexI [of _ row])

lemma role_view_of_row:
  "db_inv d \<Longrightarrow> row \<in> set (roles_t d) \<Longrightarrow> role_view_of (r_role_name row) d =
    Some \<lparr>rv_role_name = r_role_name row, rv_description = r_description row, rv_is_system_role = r_is_system_role row\<rparr>"
  using filter_role_row [of d row] by (simp add: role_view_of_def)

lemma updateRole_eq:
  assumes inv: "db_inv d" and row: "row \<in> set (roles_t d)"
  shows "updateRole (r_role_name row) desc newName now d =
   (let new = js_trim (the newName); ren = wants_rename (r_role_name row) newName in
    if ren \<and> r_is_system_role row
    then (d, Inl (ConflictError (''System role '' @ quoted (r_role_name row) @ '' cannot be renamed'')))
    else if desc \<noteq> None \<and> \<not> opt_width 500 (the desc) then (d, Inl (PgError ''value too long''))
    else if ren \<and> isSystemRole new then (d, Inl (ConflictError (quoted new @ '' is reserved'')))
    else if ren \<and> new \<in> set (role_names d)
    then (d, Inl (ConflictError (''Role '' @ quoted new @ '' already exists'')))
    else if ren \<and> 50 < length new then (d, Inl (PgError ''value too long''))
    else (renamed_or_same (described desc row) newName now (role_described (r_role_name row) desc d),
          Inr (Some \<lparr>rv_role_name = (if ren then new else r_role_name row),
                     rv_description = r_description (described desc row),
                     rv_is_system_role = r_is_system_role row\<rparr>)))"
proof (cases "desc = None \<or> opt_width 500 (the desc)")
  case False
  then have "updateRole_body (r_role_name row) desc newName now d = Inl (PgError ''value too long'')"
    using describe_step_eq [OF inv row, of desc] by (simp add: updateRole_body_def)
  then show ?thesis
    using False filter_role_row [OF inv row] by (simp add: updateRole_def withTransaction_def Let_def)
next
  case True
  let ?d = "role_described (r_role_name row) desc d"
  have inv': "db_inv ?d" by (rule role_described_keeps [OF inv row True])
  have row': "described desc row \<in> set (roles_t ?d)" by (rule described_row [OF row])
  note ren = rename_role_eq [OF inv' row', of _ now]
  have view: "role_view_of new (role_renamed (described desc row) new now ?d) =
      Some \<lparr>rv_role_name = new, rv_description = r_description (described desc row),
            rv_is_system_role = r_is_system_role row\<rparr>" if "new \<notin> set (role_names d)" for new
  proof -
    have "filter (\<lambda>r. r_role_name r = new) (sql_delete p (roles_t ?d)) = []" for p
      using that role_described_frame(1) [of "r_role_name row" desc d]
      by (simp add: filter_empty_conv role_names_def sql_delete_def) (metis image_eqI list.set_map)
    then show ?thesis by (simp add: role_view_of_def role_renamed_def)
  qed
  let ?ren = "wants_rename (r_role_name row) newName" and ?new = "js_trim (the newName)"
  have names: "role_names ?d = role_names d" by simp
  have step: "(case desc of None \<Rightarrow> Inr d | Some x \<Rightarrow> update_role_description (r_role_name row) x d) = Inr ?d"
    using describe_step_eq [OF inv row, of desc] True by simp
  have body: "updateRole_body (r_role_name row) desc newName now d =
      (if \<not> ?ren then Inr (?d, role_view_of (r_role_name row) ?d)
       else bindE (rename_role (r_role_name row) ?new now ?d) (\<lambda>d2. Inr (d2, role_view_of ?new d2)))"
    by (simp add: updateRole_body_def step)
  show ?thesis
  proof (cases ?ren)
    case False
    then show ?thesis
      using True role_view_of_row [OF inv' row']
      by (simp add: updateRole_def filter_role_row [OF inv row] withTransaction_def body
          renamed_or_same_def Let_def)
  next
    case ren': True
    have "rename_role (r_role_name row) ?new now ?d =
       (if isSystemRole ?new then Inl (ConflictError (quoted ?new @ '' is reserved''))
        else if ?new \<in> set (role_names d)
        then Inl (ConflictError (''Role '' @ quoted ?new @ '' already exists''))
        else if 50 < length ?new then Inl (PgError ''value too long'')
        else Inr (role_renamed (described desc row) ?new now ?d))"
      using ren [of ?new] names by simp
    moreover have "\<not> (desc \<noteq> None \<and> \<not> opt_width 500 (the desc))" using True by blast
    ultimately show ?thesis
      using ren'
      by (simp del: not_None_eq de_Morgan_conj add: updateRole_def filter_role_row [OF inv row] withTransaction_def body
          renamed_or_same_def Let_def view)
  qed
qed

lemma filter_role_missing: "role \<notin> set (role_names d) \<Longrightarrow> filter (\<lambda>r. r_role_name r = role) (roles_t d) = []"
  by (auto simp: filter_empty_conv role_names_def)

lemma updateRole_missing:
  "role \<notin> set (role_names d) \<Longrightarrow> updateRole role desc newName now d = (d, Inl (NotFoundError ''Role''))"
  by (simp add: updateRole_def filter_role_missing)

lemma deleteRole_missing:
  "role \<notin> set (role_names d) \<Longrightarrow> deleteRole role to now d = (d, Inl (NotFoundError ''Role''))"
  by (simp add: deleteRole_def filter_role_missing)

lemma deleteRole_eq:
  assumes inv: "db_inv d" and row: "row \<in> set (roles_t d)"
  shows "deleteRole (r_role_name row) to now d =
   (let role = r_role_name row; holders = filter (\<lambda>u. u_role u = role) (users_t d) in
    if r_is_system_role row
    then (d, Inl (ConflictError (''System role '' @ quoted role @ '' cannot be deleted'')))
    else if holders = [] then (role_dropped role d, Inr ())
    else if \<not> truthy to
    then (d, Inl (ConflictError (''Role '' @ quoted role @ '' has '' @ show_nat (length holders)
                    @ '' user(s); pass reassignTo to move them first'')))
    else if the to \<notin> set (role_names d)
    then (d, Inl (ValidationError (''reassignTo role '' @ quoted (the to) @ '' does not exist'')))
    else if the to = role then (d, Inl (PgError ''users_role_fkey''))
    else (role_dropped role (users_moved (the to) role now d), Inr ()))"
proof -
  let ?role = "r_role_name row"
  have old: "?role \<in> set (role_names d)" using row by (auto simp: column_defs)
  have nohold: "filter (\<lambda>u. u_role u = ?role) (users_t d) = [] \<longleftrightarrow> \<not> (\<exists>u \<in> set (users_t d). u_role u = ?role)"
    by (auto simp: filter_empty_conv)
  have moved: "(\<exists>u \<in> set (users_t (users_moved t ?role now d)). u_role u = ?role) \<longleftrightarrow>
      t = ?role \<and> (\<exists>u \<in> set (users_t d). u_role u = ?role)" for t
    by (auto simp: users_moved_def bex_sql_update)
  have names: "role_names (users_moved t ?role now d) = role_names d" for t
    by (simp add: users_moved_def column_defs)
  have body: "deleteRole_body ?role to (length holders) now d =
    (if holders = [] then bindE (delete_role_row ?role d) (\<lambda>d2. Inr (d2, ()))
     else if \<not> truthy to then Inl (ConflictError (''Role '' @ quoted ?role @ '' has '' @ show_nat (length holders)
                    @ '' user(s); pass reassignTo to move them first''))
     else if the to \<notin> set (role_names d)
     then Inl (ValidationError (''reassignTo role '' @ quoted (the to) @ '' does not exist''))
     else bindE (delete_role_row ?role (users_moved (the to) ?role now d)) (\<lambda>d2. Inr (d2, ())))"
    for holders :: "user_row list"
    by (simp add: deleteRole_body_def role_exists_iff move_users_eq [OF inv])
  show ?thesis
    using old nohold names
    by (simp add: deleteRole_def filter_role_row [OF inv row] withTransaction_def Let_def body
        delete_role_row_eq moved)
qed

end
