(* ===== verification/Keys.thy ===== *)
theory Keys
  imports Auth_Types
begin

text \<open>
  Signing keys and their rotation: config/keys.ts (the current signing key, the verification key set
  with the previous key of a rotation overlap, \<open>publicKeyForKid\<close>, the JWKS document) and the tool
  tools/rotate-keys.ts.  The functions of node's \<open>crypto\<close> are a record of parameters over an opaque
  type of key objects; the file system is a map from normalised paths to contents; a process start
  is \<open>load_keys\<close>.  The lemmas show that a rotation keeps the outgoing key available for verification
  and when it does not.
\<close>

section \<open>Paths and files\<close>

type_synonym file_sys = "string \<Rightarrow> string option"

fun norm_segs :: "bool \<Rightarrow> string list \<Rightarrow> string list \<Rightarrow> string list" where
  "norm_segs root acc [] = rev acc"
| "norm_segs root acc (s # ss) =
     (if s = [] \<or> s = ''.'' then norm_segs root acc ss
      else if s = ''..'' then
        (case acc of
           [] \<Rightarrow> if root then norm_segs root [] ss else norm_segs root [s] ss
         | a # as \<Rightarrow> if a = ''..'' then norm_segs root (s # acc) ss else norm_segs root as ss)
      else norm_segs root (s # acc) ss)"

definition path_normalize :: "string \<Rightarrow> string" where
  "path_normalize p =
     (let root = (take 1 p = ''/''); q = js_join ''/'' (norm_segs root [] (js_split (CHR ''/'') p))
      in if root then ''/'' @ q else if q = [] then ''.'' else q)"

definition path_join :: "string \<Rightarrow> string \<Rightarrow> string" where
  "path_join a b = path_normalize (a @ ''/'' @ b)"

definition path_dirname :: "string \<Rightarrow> string" where
  "path_dirname p =
     (let root = (take 1 p = ''/'');
          r = dropWhile (\<lambda>c. c \<noteq> CHR ''/'') (dropWhile (\<lambda>c. c = CHR ''/'') (rev (drop 1 p)))
      in if r = [] then (if root then ''/'' else ''.'')
         else if root \<and> length r = 1 then ''//''
         else take 1 p @ rev (tl r))"

definition readFile :: "file_sys \<Rightarrow> string \<Rightarrow> string option" where
  "readFile fs p = fs (path_normalize p)"

definition writeFile :: "string \<Rightarrow> string \<Rightarrow> file_sys \<Rightarrow> file_sys" where
  "writeFile p c fs = fs(path_normalize p \<mapsto> c)"

definition removeFile :: "string \<Rightarrow> file_sys \<Rightarrow> file_sys" where
  "removeFile p fs = fs(path_normalize p := None)"

section \<open>Node's crypto\<close>

text \<open>
  \<open>c_private\<close> is \<open>createPrivateKey\<close>, \<open>c_public\<close> is \<open>createPublicKey\<close> of a PEM (public or private),
  \<open>c_publicOf\<close> of a key object; \<open>c_spki\<close> exports the public PEM, \<open>c_pkcs8\<close> the private one, and
  \<open>c_digest\<close> is the base64url of the SHA-256 of the DER encoding.  \<open>None\<close> is a thrown error.
\<close>

record 'k crypto =
  c_private :: "string \<Rightarrow> 'k option"
  c_public :: "string \<Rightarrow> 'k option"
  c_publicOf :: "'k \<Rightarrow> 'k"
  c_spki :: "'k \<Rightarrow> string"
  c_pkcs8 :: "'k \<Rightarrow> string"
  c_digest :: "'k \<Rightarrow> string"

section \<open>config/keys.ts\<close>

definition ALGORITHM :: string where
  "ALGORITHM = ''RS256''"

text \<open>\<open>inline.replace(/\\n/g, '\n')\<close> applied when the two-character escape occurs.\<close>

fun unescape_newlines :: "string \<Rightarrow> string" where
  "unescape_newlines (a # b # cs) =
     (if a = CHR 0x5C \<and> b = CHR ''n'' then CHR 0x0A # unescape_newlines cs
      else a # unescape_newlines (b # cs))"
| "unescape_newlines cs = cs"

definition inline_pem :: "string \<Rightarrow> string" where
  "inline_pem inline = (if js_includes inline [CHR 0x5C, CHR ''n''] then unescape_newlines inline else inline)"

definition NODE_ENV :: "process_env \<Rightarrow> string" where
  "NODE_ENV env = env_or env ''NODE_ENV'' ''development''"

definition nonblank :: "string option \<Rightarrow> bool" where
  "nonblank s = (truthy s \<and> js_trim (the s) \<noteq> [])"

text \<open>\<open>generated\<close> is the key pair the development fallback would generate.\<close>

definition loadPrivateKeyPem ::
  "process_env \<Rightarrow> file_sys \<Rightarrow> string \<Rightarrow> app_error + (string \<times> bool)" where
  "loadPrivateKeyPem env fs generated =
     (let inline = env ''JWT_PRIVATE_KEY''; keyPath = env ''JWT_PRIVATE_KEY_PATH'' in
      if nonblank inline then Inr (inline_pem (the inline), False)
      else if truthy keyPath \<and> readFile fs (the keyPath) \<noteq> None
      then Inr (the (readFile fs (the keyPath)), False)
      else if NODE_ENV env = ''production''
      then Inl (JsError ''JWT_PRIVATE_KEY or JWT_PRIVATE_KEY_PATH is required in production (RS256).'')
      else Inr (generated, True))"

definition computeKidFor :: "'k crypto \<Rightarrow> 'k \<Rightarrow> string option \<Rightarrow> string" where
  "computeKidFor c pub override =
     (if nonblank override then js_trim (the override) else take 16 (c_digest c pub))"

definition keysDir :: "process_env \<Rightarrow> string \<Rightarrow> string" where
  "keysDir env dflt =
     (if truthy (env ''JWT_PRIVATE_KEY_PATH'') then path_dirname (the (env ''JWT_PRIVATE_KEY_PATH'')) else dflt)"

definition loadPreviousPublicPems :: "process_env \<Rightarrow> file_sys \<Rightarrow> string \<Rightarrow> string list" where
  "loadPreviousPublicPems env fs dflt =
     (let inline = env ''JWT_PREVIOUS_PUBLIC_KEY'';
          explicit = env ''JWT_PREVIOUS_PUBLIC_KEY_PATH'';
          filePath = (if nonblank explicit then js_trim (the explicit)
                      else path_join (keysDir env dflt) ''jwt-previous-public.pem'')
      in (if nonblank inline then [inline_pem (the inline)] else [])
         @ (case readFile fs filePath of Some pem \<Rightarrow> [pem] | None \<Rightarrow> []))"

record 'k verification_key =
  vk_kid :: string
  vk_key :: 'k
  vk_publicPem :: string

text \<open>
  The loop over the previous keys: an unreadable PEM is skipped, a key whose id is taken is not added.
\<close>

fun add_previous ::
  "'k crypto \<Rightarrow> string option \<Rightarrow> string list \<Rightarrow> 'k verification_key list \<Rightarrow> 'k verification_key list" where
  "add_previous c prevId [] vks = vks"
| "add_previous c prevId (pem # pems) vks =
     (case c_public c pem of
        None \<Rightarrow> add_previous c prevId pems vks
      | Some pub \<Rightarrow>
          let prevKid = computeKidFor c pub prevId
          in if list_ex (\<lambda>v. vk_kid v = prevKid) vks then add_previous c prevId pems vks
             else add_previous c prevId pems
                    (vks @ [\<lparr>vk_kid = prevKid, vk_key = pub, vk_publicPem = c_spki c pub\<rparr>]))"

record 'k key_config =
  kc_algorithm :: string
  kc_privateKey :: 'k
  kc_publicKey :: 'k
  kc_publicPem :: string
  kc_kid :: string
  kc_ephemeral :: bool
  kc_verificationKeys :: "'k verification_key list"

text \<open>The module's top level: what a start of the service computes.\<close>

definition load_keys ::
  "'k crypto \<Rightarrow> process_env \<Rightarrow> file_sys \<Rightarrow> string \<Rightarrow> string \<Rightarrow> app_error + 'k key_config" where
  "load_keys c env fs dflt generated =
     (case loadPrivateKeyPem env fs generated of
        Inl e \<Rightarrow> Inl e
      | Inr (pem, ephemeral) \<Rightarrow>
          (case c_private c pem of
             None \<Rightarrow> Inl (JsError ''createPrivateKey'')
           | Some priv \<Rightarrow>
               (let pub = c_publicOf c priv; kid = computeKidFor c pub (env ''JWT_KEY_ID'')
                in Inr \<lparr>kc_algorithm = ALGORITHM, kc_privateKey = priv, kc_publicKey = pub,
                        kc_publicPem = c_spki c pub, kc_kid = kid, kc_ephemeral = ephemeral,
                        kc_verificationKeys = add_previous c (env ''JWT_PREVIOUS_KEY_ID'')
                          (loadPreviousPublicPems env fs dflt)
                          [\<lparr>vk_kid = kid, vk_key = pub, vk_publicPem = c_spki c pub\<rparr>]\<rparr>)))"

definition publicKeyForKid :: "'k key_config \<Rightarrow> string option \<Rightarrow> 'k" where
  "publicKeyForKid kc headerKid =
     (if truthy headerKid then
        (case filter (\<lambda>v. vk_kid v = the headerKid) (kc_verificationKeys kc) of
           v # _ \<Rightarrow> vk_key v
         | [] \<Rightarrow> kc_publicKey kc)
      else kc_publicKey kc)"

text \<open>A JWKS entry: the public key with its id, use and algorithm.\<close>

record 'k jwk =
  jwk_key :: 'k
  jwk_kid :: string
  jwk_use :: string
  jwk_alg :: string

definition getJwks :: "'k key_config \<Rightarrow> 'k jwk list" where
  "getJwks kc = map (\<lambda>v. \<lparr>jwk_key = vk_key v, jwk_kid = vk_kid v, jwk_use = ''sig'', jwk_alg = ALGORITHM\<rparr>)
                  (kc_verificationKeys kc)"

section \<open>tools/rotate-keys.ts and tools/generate-keys.ts\<close>

text \<open>\<open>newPriv\<close> is the generated private key; the result is the file system left behind.\<close>

definition rotate_begin ::
  "'k crypto \<Rightarrow> process_env \<Rightarrow> string \<Rightarrow> 'k \<Rightarrow> file_sys \<Rightarrow> file_sys \<times> (app_error + unit)" where
  "rotate_begin c env dflt newPriv fs =
     (let dir = keysDir env dflt;
          privatePath = path_join dir ''jwt-private.pem'';
          publicPath = path_join dir ''jwt-public.pem'';
          previousPublicPath = path_join dir ''jwt-previous-public.pem'';
          write_new = (\<lambda>fs. writeFile publicPath (c_spki c (c_publicOf c newPriv))
                              (writeFile privatePath (c_pkcs8 c newPriv) fs))
      in case readFile fs privatePath of
           None \<Rightarrow> (write_new fs, Inr ())
         | Some pem \<Rightarrow>
             (case c_public c pem of
                None \<Rightarrow> (fs, Inl (JsError ''createPublicKey''))
              | Some pub \<Rightarrow> (write_new (writeFile previousPublicPath (c_spki c pub) fs), Inr ())))"

definition rotate_finalize :: "process_env \<Rightarrow> string \<Rightarrow> file_sys \<Rightarrow> file_sys" where
  "rotate_finalize env dflt fs =
     (let previousPublicPath = path_join (keysDir env dflt) ''jwt-previous-public.pem''
      in if readFile fs previousPublicPath \<noteq> None then removeFile previousPublicPath fs else fs)"

definition generate_keys :: "'k crypto \<Rightarrow> string \<Rightarrow> 'k \<Rightarrow> file_sys \<Rightarrow> file_sys" where
  "generate_keys c dflt newPriv fs =
     (if readFile fs (path_join dflt ''jwt-private.pem'') \<noteq> None then fs
      else writeFile (path_join dflt ''jwt-public.pem'') (c_spki c (c_publicOf c newPriv))
             (writeFile (path_join dflt ''jwt-private.pem'') (c_pkcs8 c newPriv) fs))"

section \<open>Paths with distinct file names\<close>

definition simple_name :: "string \<Rightarrow> bool" where
  "simple_name n \<longleftrightarrow> \<not> set_mem n (CHR ''/'') \<and> n \<noteq> [] \<and> n \<noteq> ''.'' \<and> n \<noteq> ''..''"

lemma norm_segs_snoc: "simple_name n \<Longrightarrow> norm_segs root acc (ss @ [n]) = norm_segs root acc ss @ [n]"
  by (induction root acc ss rule: norm_segs.induct) (auto simp: simple_name_def split: list.splits)

lemma js_join_snoc: "js_join sep (ws @ [w]) = (if ws = [] then w else js_join sep ws @ sep @ w)"
  by (induction sep ws rule: js_join.induct) simp_all

lemma normalize_file:
  "\<exists>pre. (pre = [] \<or> (\<exists>q. pre = q @ ''/'')) \<and>
     (\<forall>n. simple_name n \<longrightarrow> path_normalize (dir @ ''/'' @ n) = pre @ n)"
proof -
  define root where "root = (take 1 (dir @ ''/'') = ''/'')"
  define ss where "ss = norm_segs root [] (js_split (CHR ''/'') dir)"
  have "path_normalize (dir @ ''/'' @ n) =
      (if root then ''/'' else []) @ (if ss = [] then n else js_join ''/'' ss @ ''/'' @ n)" if "simple_name n" for n
  proof -
    have root: "(take 1 (dir @ ''/'' @ n) = ''/'') = root"
      by (cases dir) (simp_all add: root_def)
    have "js_split (CHR ''/'') (dir @ ''/'' @ n) = js_split (CHR ''/'') dir @ [n]"
      using that js_split_join [of "CHR ''/''" dir n] by (simp add: js_split_none simple_name_def)
    then have segs: "norm_segs root [] (js_split (CHR ''/'') (dir @ ''/'' @ n)) = ss @ [n]"
      using that by (simp add: norm_segs_snoc ss_def)
    have "n \<noteq> []" using that by (simp add: simple_name_def)
    then show ?thesis
      unfolding path_normalize_def Let_def root segs by (simp add: js_join_snoc)
  qed
  then show ?thesis
    by (intro exI [of _ "(if root then ''/'' else []) @ (if ss = [] then [] else js_join ''/'' ss @ ''/'')"])
      (auto split: if_splits)
qed

lemma path_normalize_simple: "simple_name n \<Longrightarrow> path_normalize n = n"
  by (cases n) (auto simp: path_normalize_def js_split_none simple_name_def Let_def)

text \<open>Two file names in one directory are two files.\<close>

lemma path_join_distinct:
  assumes "simple_name a" "simple_name b" "a \<noteq> b"
  shows "path_normalize (path_join dir a) \<noteq> path_normalize (path_join dir b)"
proof -
  obtain pre where pre: "pre = [] \<or> (\<exists>q. pre = q @ ''/'')"
    "\<And>n. simple_name n \<Longrightarrow> path_normalize (dir @ ''/'' @ n) = pre @ n"
    using normalize_file by blast
  show ?thesis
  proof (cases "pre = []")
    case True
    with assms pre(2) show ?thesis by (simp add: path_join_def path_normalize_simple)
  next
    case False
    with pre(1) obtain q where q: "pre = q @ ''/''" by blast
    obtain pre' where "\<And>n. simple_name n \<Longrightarrow> path_normalize (q @ ''/'' @ n) = pre' @ n"
      using normalize_file by blast
    with assms pre(2) show ?thesis by (simp add: path_join_def q)
  qed
qed

lemma key_files_distinct:
  "path_normalize (path_join dir ''jwt-private.pem'') \<noteq> path_normalize (path_join dir ''jwt-public.pem'')"
  "path_normalize (path_join dir ''jwt-private.pem'') \<noteq> path_normalize (path_join dir ''jwt-previous-public.pem'')"
  "path_normalize (path_join dir ''jwt-public.pem'') \<noteq> path_normalize (path_join dir ''jwt-previous-public.pem'')"
  by (rule path_join_distinct; code_simp)+

section \<open>The verification key set\<close>

lemma add_previous_kids:
  "distinct (map vk_kid vks) \<Longrightarrow> distinct (map vk_kid (add_previous c i pems vks))"
proof (induction pems arbitrary: vks)
  case (Cons pem pems)
  have "distinct (map vk_kid (vks @ [\<lparr>vk_kid = computeKidFor c pub i, vk_key = pub, vk_publicPem = x\<rparr>]))"
    if "\<not> list_ex (\<lambda>v. vk_kid v = computeKidFor c pub i) vks" for pub x
    using that Cons.prems by (auto simp: list_ex_iff)
  with Cons show ?case by (simp add: Let_def split: option.split)
qed simp

lemma add_previous_prefix: "\<exists>more. add_previous c i pems vks = vks @ more"
proof (induction pems arbitrary: vks)
  case (Cons pem pems)
  show ?case
  proof (cases "c_public c pem")
    case (Some pub)
    have "\<exists>more. add_previous c i pems (vks @ [v]) = vks @ more" for v
      using Cons.IH [of "vks @ [v]"] by auto
    with Some Cons.IH [of vks] show ?thesis by (simp add: Let_def)
  qed (use Cons.IH in simp)
qed simp

lemma load_keys_verification:
  assumes "load_keys c env fs dflt g = Inr kc"
  shows "\<exists>more. kc_verificationKeys kc = \<lparr>vk_kid = kc_kid kc, vk_key = kc_publicKey kc, vk_publicPem = kc_publicPem kc\<rparr> # more"
    and "distinct (map vk_kid (kc_verificationKeys kc))"
proof -
  obtain pems where ks: "kc_verificationKeys kc = add_previous c (env ''JWT_PREVIOUS_KEY_ID'') pems
      [\<lparr>vk_kid = kc_kid kc, vk_key = kc_publicKey kc, vk_publicPem = kc_publicPem kc\<rparr>]"
    using assms by (auto simp: load_keys_def Let_def split: sum.splits option.splits)
  then show "distinct (map vk_kid (kc_verificationKeys kc))"
    by (simp only: ks) (rule add_previous_kids, simp)
  show "\<exists>more. kc_verificationKeys kc = \<lparr>vk_kid = kc_kid kc, vk_key = kc_publicKey kc, vk_publicPem = kc_publicPem kc\<rparr> # more"
    using add_previous_prefix [of c "env ''JWT_PREVIOUS_KEY_ID''" pems] ks by (metis append_Cons append_Nil)
qed

lemma current_kid_resolves:
  assumes "load_keys c env fs dflt g = Inr kc"
  shows "publicKeyForKid kc (Some (kc_kid kc)) = kc_publicKey kc"
  using load_keys_verification(1) [OF assms] by (auto simp: publicKeyForKid_def)

text \<open>A key of the set is found under its own id.\<close>

lemma publicKeyForKid_member:
  assumes "distinct (map vk_kid (kc_verificationKeys kc))" "v \<in> set (kc_verificationKeys kc)" "vk_kid v \<noteq> []"
  shows "publicKeyForKid kc (Some (vk_kid v)) = vk_key v"
  using filter_unique [OF assms(1,2)] assms(3) by (simp add: publicKeyForKid_def)

section \<open>Rotation\<close>

text \<open>
  The documented behaviour of node's crypto that rotation relies on: exporting a generated key and
  reading it back gives the key, and the public key of a private PEM is the one of its key object.
\<close>

definition keypair_ok :: "'k crypto \<Rightarrow> 'k \<Rightarrow> bool" where
  "keypair_ok c priv \<longleftrightarrow> c_private c (c_pkcs8 c priv) = Some priv
     \<and> c_public c (c_spki c (c_publicOf c priv)) = Some (c_publicOf c priv)"

definition pem_ok :: "'k crypto \<Rightarrow> string \<Rightarrow> bool" where
  "pem_ok c pem \<longleftrightarrow> (case c_private c pem of
      None \<Rightarrow> True
    | Some p \<Rightarrow> c_public c pem = Some (c_publicOf c p) \<and> c_public c (c_spki c (c_publicOf c p)) = Some (c_publicOf c p))"

text \<open>The deployment the runbook describes: the key is the file \<open>jwt-private.pem\<close>, nothing inline.\<close>

definition file_keys_env :: "process_env \<Rightarrow> string \<Rightarrow> bool" where
  "file_keys_env env kp \<longleftrightarrow> env ''JWT_PRIVATE_KEY_PATH'' = Some kp \<and> kp \<noteq> []
     \<and> \<not> nonblank (env ''JWT_PRIVATE_KEY'') \<and> \<not> nonblank (env ''JWT_PREVIOUS_PUBLIC_KEY'')
     \<and> \<not> nonblank (env ''JWT_PREVIOUS_PUBLIC_KEY_PATH'') \<and> \<not> nonblank (env ''JWT_PREVIOUS_KEY_ID'')
     \<and> path_normalize (path_join (path_dirname kp) ''jwt-private.pem'') = path_normalize kp"

lemma computeKidFor_plain: "\<not> nonblank i \<Longrightarrow> computeKidFor c k i = take 16 (c_digest c k)"
  by (simp add: computeKidFor_def)

lemma load_keys_file:
  assumes "file_keys_env env kp" and "readFile fs kp = Some pem" and "c_private c pem = Some priv"
  shows "load_keys c env fs dflt g =
    (let pub = c_publicOf c priv; kid = computeKidFor c pub (env ''JWT_KEY_ID'') in
     Inr \<lparr>kc_algorithm = ALGORITHM, kc_privateKey = priv, kc_publicKey = pub, kc_publicPem = c_spki c pub,
          kc_kid = kid, kc_ephemeral = False,
          kc_verificationKeys = add_previous c (env ''JWT_PREVIOUS_KEY_ID'')
            (case readFile fs (path_join (path_dirname kp) ''jwt-previous-public.pem'') of Some p \<Rightarrow> [p] | None \<Rightarrow> [])
            [\<lparr>vk_kid = kid, vk_key = pub, vk_publicPem = c_spki c pub\<rparr>]\<rparr>)"
  using assms
  by (simp add: load_keys_def loadPrivateKeyPem_def loadPreviousPublicPems_def file_keys_env_def
      keysDir_def Let_def)

lemma rotate_begin_files:
  assumes env: "file_keys_env env kp" and pem: "readFile fs kp = Some pem"
    and pub: "c_public c pem = Some pub"
  shows "\<exists>fs'. rotate_begin c env dflt newPriv fs = (fs', Inr ())
    \<and> readFile fs' kp = Some (c_pkcs8 c newPriv)
    \<and> readFile fs' (path_join (path_dirname kp) ''jwt-previous-public.pem'') = Some (c_spki c pub)
    \<and> readFile (rotate_finalize env dflt fs') kp = Some (c_pkcs8 c newPriv)
    \<and> readFile (rotate_finalize env dflt fs') (path_join (path_dirname kp) ''jwt-previous-public.pem'') = None"
proof -
  have priv: "path_normalize (path_join (path_dirname kp) ''jwt-private.pem'') = path_normalize kp"
    and dir: "keysDir env dflt = path_dirname kp"
    using env by (simp_all add: file_keys_env_def keysDir_def)
  note ne = key_files_distinct [of "path_dirname kp", unfolded priv]
  have "readFile fs (path_join (path_dirname kp) ''jwt-private.pem'') = Some pem"
    using pem by (simp add: readFile_def priv)
  then show ?thesis
    using pub ne
    by (simp add: rotate_begin_def rotate_finalize_def Let_def dir readFile_def writeFile_def removeFile_def priv)
qed

text \<open>
  Rotating the signing key and restarting: new tokens are signed with the new key, tokens that carry
  the id of the outgoing key still resolve to the outgoing public key, and the key set publishes
  exactly the two; after the overlap is finalized and the service restarted, only the new key is left.
\<close>

theorem rotation_overlap:
  assumes env: "file_keys_env env kp" "\<not> nonblank (env ''JWT_KEY_ID'')"
    and pem: "readFile fs kp = Some pem" "pem_ok c pem" and new: "keypair_ok c newPriv"
    and old: "load_keys c env fs dflt g = Inr old"
    and kids: "take 16 (c_digest c (c_publicOf c newPriv)) \<noteq> kc_kid old" "kc_kid old \<noteq> []"
  shows "\<exists>fs' kc fin. rotate_begin c env dflt newPriv fs = (fs', Inr ())
    \<and> load_keys c env fs' dflt g = Inr kc \<and> kc_privateKey kc = newPriv
    \<and> publicKeyForKid kc (Some (kc_kid kc)) = c_publicOf c newPriv
    \<and> publicKeyForKid kc (Some (kc_kid old)) = kc_publicKey old
    \<and> map jwk_kid (getJwks kc) = [kc_kid kc, kc_kid old]
    \<and> load_keys c env (rotate_finalize env dflt fs') dflt g = Inr fin
    \<and> map jwk_kid (getJwks fin) = [kc_kid kc]"
proof -
  have "c_private c pem \<noteq> None"
    using old env(1) pem(1)
    by (auto simp: load_keys_def loadPrivateKeyPem_def file_keys_env_def split: option.splits)
  then obtain priv where priv: "c_private c pem = Some priv" by blast
  then have pub: "c_public c pem = Some (c_publicOf c priv)"
    and rt: "c_public c (c_spki c (c_publicOf c priv)) = Some (c_publicOf c priv)"
    using pem(2) by (simp_all add: pem_ok_def)
  have "kc_kid old = computeKidFor c (c_publicOf c priv) (env ''JWT_KEY_ID'')" "kc_publicKey old = c_publicOf c priv"
    using old load_keys_file [OF env(1) pem(1) priv, of dflt g] by (auto simp: Let_def)
  then have oldkid: "kc_kid old = take 16 (c_digest c (c_publicOf c priv))" "kc_publicKey old = c_publicOf c priv"
    using env(2) by (simp_all add: computeKidFor_plain)
  obtain fs' where fs': "rotate_begin c env dflt newPriv fs = (fs', Inr ())"
    "readFile fs' kp = Some (c_pkcs8 c newPriv)"
    "readFile fs' (path_join (path_dirname kp) ''jwt-previous-public.pem'') = Some (c_spki c (c_publicOf c priv))"
    "readFile (rotate_finalize env dflt fs') kp = Some (c_pkcs8 c newPriv)"
    "readFile (rotate_finalize env dflt fs') (path_join (path_dirname kp) ''jwt-previous-public.pem'') = None"
    using rotate_begin_files [OF env(1) pem(1) pub, of dflt newPriv] by blast
  have npriv: "c_private c (c_pkcs8 c newPriv) = Some newPriv" using new by (simp add: keypair_ok_def)
  have prevId: "\<not> nonblank (env ''JWT_PREVIOUS_KEY_ID'')" using env(1) by (simp add: file_keys_env_def)
  show ?thesis
    using fs' kids oldkid rt prevId env(2)
    by (simp add: load_keys_file [OF env(1) fs'(2) npriv] load_keys_file [OF env(1) fs'(4) npriv] Let_def
        computeKidFor_plain publicKeyForKid_def getJwks_def)
qed

text \<open>A small instance of node's crypto: a PEM is a tag followed by the key material.\<close>

datatype demo_key = DPriv string | DPub string

fun demo_public_of :: "demo_key \<Rightarrow> demo_key" where
  "demo_public_of (DPriv s) = DPub s"
| "demo_public_of (DPub s) = DPub s"

fun demo_material :: "demo_key \<Rightarrow> string" where
  "demo_material (DPriv s) = s"
| "demo_material (DPub s) = s"

definition demo_read :: "(string \<Rightarrow> demo_key) \<Rightarrow> string list \<Rightarrow> string \<Rightarrow> demo_key option" where
  "demo_read f tags pem = (if set_mem tags (take 1 pem) then Some (f (drop 1 pem)) else None)"

definition demo_crypto :: "demo_key crypto" where
  "demo_crypto = \<lparr>c_private = demo_read DPriv [''S''], c_public = demo_read DPub [''S'', ''P''],
     c_publicOf = demo_public_of, c_spki = (\<lambda>k. ''P'' @ demo_material k), c_pkcs8 = (\<lambda>k. ''S'' @ demo_material k),
     c_digest = demo_material\<rparr>"

definition demo_key_env :: process_env where
  "demo_key_env = [''JWT_PRIVATE_KEY_PATH'' \<mapsto> ''/k/jwt-private.pem'']"

definition demo_fs :: file_sys where
  "demo_fs = [''/k/jwt-private.pem'' \<mapsto> ''Sold'']"

definition demo_old :: "demo_key key_config" where
  "demo_old = \<lparr>kc_algorithm = ALGORITHM, kc_privateKey = DPriv ''old'', kc_publicKey = DPub ''old'',
     kc_publicPem = ''Pold'', kc_kid = ''old'', kc_ephemeral = False,
     kc_verificationKeys = [\<lparr>vk_kid = ''old'', vk_key = DPub ''old'', vk_publicPem = ''Pold''\<rparr>]\<rparr>"

lemma demo_keys_facts:
  "file_keys_env demo_key_env ''/k/jwt-private.pem''" "\<not> nonblank (demo_key_env ''JWT_KEY_ID'')"
  "readFile demo_fs ''/k/jwt-private.pem'' = Some ''Sold''" "pem_ok demo_crypto ''Sold''"
  "keypair_ok demo_crypto (DPriv ''new'')"
  "load_keys demo_crypto demo_key_env demo_fs ''/app/keys'' [] = Inr demo_old"
  "take 16 (c_digest demo_crypto (c_publicOf demo_crypto (DPriv ''new''))) \<noteq> kc_kid demo_old" "kc_kid demo_old \<noteq> []"
  by code_simp+

theorem rotation_overlap_witness:
  "\<exists>fs' kc. rotate_begin demo_crypto demo_key_env ''/app/keys'' (DPriv ''new'') demo_fs = (fs', Inr ())
    \<and> load_keys demo_crypto demo_key_env fs' ''/app/keys'' [] = Inr kc
    \<and> publicKeyForKid kc (Some ''old'') = DPub ''old''"
  using rotation_overlap [OF demo_keys_facts] by (auto simp: demo_old_def)

text \<open>
  Where \<open>JWT_KEY_ID\<close> pins the key id, the overlap is lost: after the rotation a token minted before
  it, which carries that same id, is checked against the new key.
\<close>

theorem rotation_pinned_kid:
  assumes env: "file_keys_env env kp" and pem: "readFile fs kp = Some pem" "pem_ok c pem" and new: "keypair_ok c newPriv"
    and old: "load_keys c env fs dflt g = Inr old" and pinned: "nonblank (env ''JWT_KEY_ID'')"
  shows "\<exists>fs' kc. rotate_begin c env dflt newPriv fs = (fs', Inr ()) \<and> load_keys c env fs' dflt g = Inr kc
    \<and> kc_kid kc = kc_kid old \<and> publicKeyForKid kc (Some (kc_kid old)) = c_publicOf c newPriv"
proof -
  have "c_private c pem \<noteq> None"
    using old env pem(1)
    by (auto simp: load_keys_def loadPrivateKeyPem_def file_keys_env_def split: option.splits)
  then obtain priv where priv: "c_private c pem = Some priv" by blast
  then have pub: "c_public c pem = Some (c_publicOf c priv)"
    using pem(2) by (simp add: pem_ok_def)
  obtain fs' where fs': "rotate_begin c env dflt newPriv fs = (fs', Inr ())"
    "readFile fs' kp = Some (c_pkcs8 c newPriv)"
    using rotate_begin_files [OF env pem(1) pub, of dflt newPriv] by blast
  have npriv: "c_private c (c_pkcs8 c newPriv) = Some newPriv" using new by (simp add: keypair_ok_def)
  obtain kc where kc: "load_keys c env fs' dflt g = Inr kc" "kc_publicKey kc = c_publicOf c newPriv"
    "kc_kid kc = js_trim (the (env ''JWT_KEY_ID''))"
    using load_keys_file [OF env fs'(2) npriv, of dflt g] pinned by (auto simp: Let_def computeKidFor_def)
  moreover have "kc_kid old = js_trim (the (env ''JWT_KEY_ID''))"
    using old load_keys_file [OF env pem(1) priv, of dflt g] pinned by (auto simp: Let_def computeKidFor_def)
  ultimately show ?thesis
    using fs'(1) current_kid_resolves [OF kc(1)] by auto
qed

theorem rotation_pinned_kid_witness:
  "\<exists>fs' kc. rotate_begin demo_crypto (demo_key_env(''JWT_KEY_ID'' \<mapsto> ''k1'')) ''/app/keys'' (DPriv ''new'') demo_fs = (fs', Inr ())
    \<and> load_keys demo_crypto (demo_key_env(''JWT_KEY_ID'' \<mapsto> ''k1'')) fs' ''/app/keys'' [] = Inr kc
    \<and> publicKeyForKid kc (Some ''k1'') = DPub ''new''"
proof -
  let ?env = "demo_key_env(''JWT_KEY_ID'' \<mapsto> ''k1'')"
  have env: "file_keys_env ?env ''/k/jwt-private.pem''" and pin: "nonblank (?env ''JWT_KEY_ID'')"
    and old: "load_keys demo_crypto ?env demo_fs ''/app/keys'' [] = Inr (demo_old\<lparr>kc_kid := ''k1'',
       kc_verificationKeys := [\<lparr>vk_kid = ''k1'', vk_key = DPub ''old'', vk_publicPem = ''Pold''\<rparr>]\<rparr>)"
    and new: "c_publicOf demo_crypto (DPriv ''new'') = DPub ''new''"
    by code_simp+
  show ?thesis
    using rotation_pinned_kid [OF env demo_keys_facts(3-5) old pin] unfolding new by (auto simp del: fun_upd_apply)
qed

text \<open>
  The published key set never has two keys under one id, starts with the signing key, and every
  published key with an id is the one a token carrying that id is checked against.
\<close>

theorem jwks_unambiguous:
  assumes "load_keys c env fs dflt g = Inr kc"
  shows "distinct (map jwk_kid (getJwks kc)) \<and> getJwks kc \<noteq> []
    \<and> jwk_kid (hd (getJwks kc)) = kc_kid kc \<and> jwk_key (hd (getJwks kc)) = kc_publicKey kc
    \<and> (\<forall>j \<in> set (getJwks kc). jwk_kid j \<noteq> [] \<longrightarrow> publicKeyForKid kc (Some (jwk_kid j)) = jwk_key j)"
proof -
  have kids: "map jwk_kid (getJwks kc) = map vk_kid (kc_verificationKeys kc)"
    by (simp add: getJwks_def)
  have "publicKeyForKid kc (Some (jwk_kid j)) = jwk_key j" if "j \<in> set (getJwks kc)" "jwk_kid j \<noteq> []" for j
    using that publicKeyForKid_member [OF load_keys_verification(2) [OF assms]] by (auto simp: getJwks_def)
  moreover have "distinct (map jwk_kid (getJwks kc))"
    unfolding kids by (rule load_keys_verification(2) [OF assms])
  ultimately show ?thesis
    using load_keys_verification(1) [OF assms] by (auto simp: getJwks_def)
qed

theorem jwks_unambiguous_witness: "distinct (map jwk_kid (getJwks demo_old))"
  using jwks_unambiguous [OF demo_keys_facts(6)] by simp

end
