(* ===== verification/Auth_Session.thy ===== *)
theory Auth_Session
  imports Rbac_Laws Keys
begin

text \<open>
  Sessions of auth-service: login, token verification, refresh rotation, logout and revocation
  (services/auth.service.ts).  jsonwebtoken and bcrypt are parameters, collected with the process
  environment and the loaded keys in the record \<open>env\<close>; tokens are an opaque type.  The record
  \<open>tick\<close> holds what a call takes from outside while it runs: the database clock (microseconds) at
  its first and at its last statement, the node clock (milliseconds) and the random ids.

  The refresh is modelled as the two steps the database sees, \<open>refresh_check\<close> (the reads, with the
  deletion of a session that timed out) and \<open>refresh_commit\<close> (the rotation), so that other calls
  may run in between; \<open>refreshToken\<close> runs one after the other.
\<close>

section \<open>Parameters\<close>

text \<open>The claims of a token; \<open>c_type\<close> is \<open>refresh\<close> on refresh tokens.\<close>

record claims =
  cl_sub :: "string option"
  cl_user_id :: "string option"
  cl_preferred_username :: "string option"
  cl_username :: "string option"
  cl_email :: "string option"
  cl_role :: "string option"
  cl_permission :: "string list option"
  cl_type :: "string option"
  cl_iat :: "int option"
  cl_exp :: "int option"

record sign_options =
  so_algorithm :: string
  so_expiresIn :: string
  so_issuer :: string
  so_audience :: "string option"
  so_keyid :: string
  so_jwtid :: string

record verify_options =
  vo_algorithms :: "string list"
  vo_issuer :: string
  vo_audience :: "string option"

datatype jwt_error = TokenExpiredError | JsonWebTokenError | OtherJwtError

text \<open>
  \<open>e_sign\<close> and \<open>e_verify\<close> take the node clock; \<open>e_decode\<close> gives the header's key id and the claims
  without checking anything, None for a string that is not a token.  \<open>e_hash\<close> takes the salt.
\<close>

record ('tok, 'k) env =
  e_process :: process_env
  e_keys :: "'k key_config"
  e_sign :: "claims \<Rightarrow> 'k \<Rightarrow> sign_options \<Rightarrow> int \<Rightarrow> app_error + 'tok"
  e_verify :: "'tok \<Rightarrow> 'k \<Rightarrow> verify_options \<Rightarrow> int \<Rightarrow> jwt_error + claims"
  e_decode :: "'tok \<Rightarrow> (string option \<times> claims) option"
  e_compare :: "string \<Rightarrow> string \<Rightarrow> bool"
  e_hash :: "string \<Rightarrow> int option \<Rightarrow> string \<Rightarrow> string"

record tick =
  tk_db :: int
  tk_db2 :: int
  tk_node :: int
  tk_id1 :: string
  tk_id2 :: string

section \<open>Tokens\<close>

definition kidOf :: "('tok, 'k) env \<Rightarrow> 'tok \<Rightarrow> string option" where
  "kidOf E token = (case e_decode E token of None \<Rightarrow> None | Some (kid, _) \<Rightarrow> kid)"

definition access_claims :: "user_row \<Rightarrow> string list \<Rightarrow> claims" where
  "access_claims user permissions =
     \<lparr>cl_sub = Some (u_user_id user), cl_user_id = Some (u_user_id user),
      cl_preferred_username = Some (u_username user), cl_username = Some (u_username user),
      cl_email = Some (u_email user), cl_role = Some (u_role user), cl_permission = Some permissions,
      cl_type = None, cl_iat = None, cl_exp = None\<rparr>"

definition signAccessToken ::
  "('tok, 'k) env \<Rightarrow> tick \<Rightarrow> user_row \<Rightarrow> string list \<Rightarrow> app_error + 'tok" where
  "signAccessToken E t user permissions =
     e_sign E (access_claims user permissions) (kc_privateKey (e_keys E))
       \<lparr>so_algorithm = kc_algorithm (e_keys E), so_expiresIn = JWT_EXPIRES_IN (e_process E),
        so_issuer = JWT_ISSUER (e_process E), so_audience = Some (JWT_AUDIENCE (e_process E)),
        so_keyid = kc_kid (e_keys E), so_jwtid = tk_id1 t\<rparr> (tk_node t)"

definition refresh_claims :: "user_row \<Rightarrow> claims" where
  "refresh_claims user =
     \<lparr>cl_sub = Some (u_user_id user), cl_user_id = Some (u_user_id user),
      cl_preferred_username = None, cl_username = Some (u_username user),
      cl_email = None, cl_role = None, cl_permission = None,
      cl_type = Some ''refresh'', cl_iat = None, cl_exp = None\<rparr>"

definition signRefreshToken :: "('tok, 'k) env \<Rightarrow> tick \<Rightarrow> user_row \<Rightarrow> app_error + 'tok" where
  "signRefreshToken E t user =
     e_sign E (refresh_claims user) (kc_privateKey (e_keys E))
       \<lparr>so_algorithm = kc_algorithm (e_keys E), so_expiresIn = JWT_REFRESH_EXPIRES_IN (e_process E),
        so_issuer = JWT_ISSUER (e_process E), so_audience = None,
        so_keyid = kc_kid (e_keys E), so_jwtid = tk_id2 t\<rparr> (tk_node t)"

text \<open>
  The expiry stored with a refresh token, in microseconds: the \<open>exp\<close> claim, or seven days from the
  node clock when the token carries none (or zero).
\<close>

definition expires_at :: "('tok, 'k) env \<Rightarrow> tick \<Rightarrow> 'tok \<Rightarrow> int" where
  "expires_at E t token =
     (let exp = (case e_decode E token of None \<Rightarrow> None | Some (_, cl) \<Rightarrow> cl_exp cl)
      in 1000 * (if exp \<noteq> None \<and> the exp \<noteq> 0 then the exp * 1000
                 else tk_node t + 7 * 24 * 60 * 60 * 1000))"

definition storeRefreshToken ::
  "('tok, 'k) env \<Rightarrow> tick \<Rightarrow> string \<Rightarrow> 'tok \<Rightarrow> 'tok db \<Rightarrow> app_error + 'tok db" where
  "storeRefreshToken E t userId token d =
     insert_token \<lparr>rt_user_id = userId, rt_token = token, rt_expires_at = expires_at E t token,
       rt_created_at = tk_db t, rt_last_used_at = Some (tk_db t), rt_session_started_at = Some (tk_db t)\<rparr> d"

section \<open>Login\<close>

record user_public =
  up_user_id :: string
  up_username :: string
  up_email :: string
  up_full_name :: "string option"
  up_role :: string
  up_is_active :: bool
  up_created_at :: int

definition to_public :: "user_row \<Rightarrow> user_public" where
  "to_public u = \<lparr>up_user_id = u_user_id u, up_username = u_username u, up_email = u_email u,
     up_full_name = u_full_name u, up_role = u_role u, up_is_active = u_is_active u,
     up_created_at = u_created_at u\<rparr>"

record 'tok auth_tokens =
  at_token :: 'tok
  at_refreshToken :: 'tok
  at_permissions :: "string list"
  at_sessionPolicy :: session_policy
  at_user :: user_public

definition auth_error :: "string \<Rightarrow> app_error" where
  "auth_error m = AuthenticationError m None"

definition login ::
  "('tok, 'k) env \<Rightarrow> tick \<Rightarrow> string \<Rightarrow> string \<Rightarrow> ('tok db, 'tok auth_tokens) op" where
  "login E t username password d =
     (case filter (\<lambda>u. u_username u = username) (users_t d) of
        [] \<Rightarrow> (d, Inl (auth_error ''Invalid credentials''))
      | user # _ \<Rightarrow>
          if \<not> u_is_active user then (d, Inl (auth_error ''ACCOUNT_DEACTIVATED''))
          else if \<not> e_compare E password (u_password_hash user)
          then (d, Inl (auth_error ''Invalid credentials''))
          else
            (let permissions = getPermissionKeysForRole (u_role user) d in
             case bindE (signAccessToken E t user permissions) (\<lambda>token.
                  bindE (signRefreshToken E t user) (\<lambda>refresh.
                  bindE (storeRefreshToken E t (u_user_id user) refresh d) (\<lambda>d'.
                  Inr (d', token, refresh)))) of
               Inl e \<Rightarrow> (d, Inl e)
             | Inr (d', token, refresh) \<Rightarrow>
                 (d', Inr \<lparr>at_token = token, at_refreshToken = refresh, at_permissions = permissions,
                          at_sessionPolicy = sessionPolicyForRole (e_process E) (Some (u_role user)),
                          at_user = to_public user\<rparr>)))"

section \<open>Verification\<close>

definition jwt_failure :: "jwt_error \<Rightarrow> app_error" where
  "jwt_failure e = (case e of
      TokenExpiredError \<Rightarrow> auth_error ''Token expired''
    | JsonWebTokenError \<Rightarrow> auth_error ''Invalid token''
    | OtherJwtError \<Rightarrow> auth_error ''Token verification failed'')"

text \<open>\<open>EXTRACT(EPOCH FROM ...)::bigint\<close>: the cast rounds to the nearest second.\<close>

definition epoch_bigint :: "int \<Rightarrow> int" where
  "epoch_bigint us = (us + 500000) div 1000000"

definition verifyToken :: "('tok, 'k) env \<Rightarrow> tick \<Rightarrow> 'tok \<Rightarrow> 'tok db \<Rightarrow> app_error + claims" where
  "verifyToken E t token d =
     (case e_verify E token (publicKeyForKid (e_keys E) (kidOf E token))
            \<lparr>vo_algorithms = [kc_algorithm (e_keys E)], vo_issuer = JWT_ISSUER (e_process E),
             vo_audience = Some (JWT_AUDIENCE (e_process E))\<rparr> (tk_node t) of
        Inl e \<Rightarrow> Inl (jwt_failure e)
      | Inr decoded \<Rightarrow>
          (let uid = or_str (cl_sub decoded) (cl_user_id decoded) in
           if \<not> truthy uid then Inr decoded
           else case filter (\<lambda>u. u_user_id u = the uid) (users_t d) of
             [] \<Rightarrow> Inl (auth_error ''Account is inactive'')
           | u # _ \<Rightarrow>
               if \<not> u_is_active u then Inl (auth_error ''Account is inactive'')
               else
                 (let changed = epoch_bigint (u_credentials_changed_at u); iat = nullish (cl_iat decoded) 0
                  in if iat \<noteq> 0 \<and> changed \<noteq> 0 \<and> iat < changed
                     then Inl (auth_error ''Token revoked; please sign in again'')
                     else Inr decoded)))"

section \<open>Refresh\<close>

record 'tok refresh_result =
  rr_token :: 'tok
  rr_refreshToken :: 'tok
  rr_sessionPolicy :: session_policy

text \<open>The row of the join: a live refresh token with the role of its owner.\<close>

definition refresh_rows :: "'tok \<Rightarrow> int \<Rightarrow> 'tok db \<Rightarrow> ('tok refresh_row \<times> string) list" where
  "refresh_rows token now d =
     concat (map (\<lambda>r. map (\<lambda>u. (r, u_role u)) (filter (\<lambda>u. u_user_id u = rt_user_id r) (users_t d)))
       (filter (\<lambda>r. rt_token r = token \<and> now < rt_expires_at r) (refresh_tokens_t d)))"

definition idle_us :: "int \<Rightarrow> 'tok refresh_row \<Rightarrow> int" where
  "idle_us now r = now - nullish (rt_last_used_at r) (rt_created_at r)"

definition session_age_us :: "int \<Rightarrow> 'tok refresh_row \<Rightarrow> int" where
  "session_age_us now r = now - nullish (rt_session_started_at r) (rt_created_at r)"

definition delete_token :: "'tok \<Rightarrow> 'tok db \<Rightarrow> 'tok db" where
  "delete_token token d = delete_tokens (\<lambda>r. rt_token r = token) d"

definition refresh_check ::
  "('tok, 'k) env \<Rightarrow> tick \<Rightarrow> 'tok \<Rightarrow> ('tok db, 'tok refresh_result) op" where
  "refresh_check E t token d =
     (case e_verify E token (publicKeyForKid (e_keys E) (kidOf E token))
            \<lparr>vo_algorithms = [kc_algorithm (e_keys E)], vo_issuer = JWT_ISSUER (e_process E),
             vo_audience = None\<rparr> (tk_node t) of
        Inl _ \<Rightarrow> (d, Inl (auth_error ''Invalid refresh token''))
      | Inr decoded \<Rightarrow>
          if cl_type decoded \<noteq> Some ''refresh'' then (d, Inl (auth_error ''Invalid refresh token''))
          else case refresh_rows token (tk_db t) d of
            [] \<Rightarrow> (d, Inl (auth_error ''Refresh token not found or expired''))
          | (row, user_role) # _ \<Rightarrow>
              if 1000 * SESSION_ABSOLUTE_TIMEOUT_MS (e_process E) < session_age_us (tk_db t) row
              then (delete_token token d,
                    Inl (AuthenticationError ''Maximum session duration reached'' (Some ''SESSION_MAX_DURATION'')))
              else if 1000 * idleTimeoutMsForRole (e_process E) (Some user_role) < idle_us (tk_db t) row
              then (delete_token token d,
                    Inl (AuthenticationError ''Session expired due to inactivity'' (Some ''SESSION_IDLE_TIMEOUT'')))
              else case filter (\<lambda>u. Some (u_user_id u) = or_str (cl_user_id decoded) (cl_sub decoded)
                                    \<and> u_is_active u) (users_t d) of
                [] \<Rightarrow> (d, Inl (auth_error ''User not found or inactive''))
              | user # _ \<Rightarrow>
                  (d, bindE (signAccessToken E t user (getPermissionKeysForRole (u_role user) d)) (\<lambda>newToken.
                      bindE (signRefreshToken E t user) (\<lambda>newRefresh.
                      Inr \<lparr>rr_token = newToken, rr_refreshToken = newRefresh,
                           rr_sessionPolicy = sessionPolicyForRole (e_process E) (Some (u_role user))\<rparr>))))"

text \<open>The rotation; \<open>session_started_at\<close> is not written and the row count is not looked at.\<close>

definition rotate_token :: "'tok \<Rightarrow> 'tok \<Rightarrow> int \<Rightarrow> int \<Rightarrow> 'tok db \<Rightarrow> app_error + 'tok db" where
  "rotate_token old new expiresAt now d =
     update_tokens (\<lambda>r. rt_token r = old)
       (\<lambda>r. r\<lparr>rt_token := new, rt_expires_at := expiresAt, rt_last_used_at := Some now\<rparr>) d"

definition refresh_commit ::
  "('tok, 'k) env \<Rightarrow> tick \<Rightarrow> 'tok \<Rightarrow> 'tok refresh_result \<Rightarrow> ('tok db, 'tok refresh_result) op" where
  "refresh_commit E t token res d =
     (case rotate_token token (rr_refreshToken res) (expires_at E t (rr_refreshToken res)) (tk_db2 t) d of
        Inl e \<Rightarrow> (d, Inl e)
      | Inr d' \<Rightarrow> (d', Inr res))"

definition refreshToken :: "('tok, 'k) env \<Rightarrow> tick \<Rightarrow> 'tok \<Rightarrow> ('tok db, 'tok refresh_result) op" where
  "refreshToken E t token d =
     (case refresh_check E t token d of
        (d', Inl e) \<Rightarrow> (d', Inl e)
      | (d', Inr res) \<Rightarrow> refresh_commit E t token res d')"

section \<open>Logout and revocation\<close>

definition logout :: "'tok \<Rightarrow> ('tok db, unit) op" where
  "logout token d = (delete_token token d, Inr ())"

definition revokeUserTokens :: "string \<Rightarrow> int \<Rightarrow> ('tok db, unit) op" where
  "revokeUserTokens userId now d =
     (case update_users (\<lambda>u. u_user_id u = userId) (\<lambda>u. u\<lparr>u_credentials_changed_at := now\<rparr>) d of
        Inl e \<Rightarrow> (d, Inl e)
      | Inr d1 \<Rightarrow> (delete_tokens (\<lambda>r. rt_user_id r = userId) d1, Inr ()))"

end
