(* ===== verification/Auth_Users.thy ===== *)
theory Auth_Users
  imports Auth_Session
begin

text \<open>
  User management of services/auth.service.ts: creating, reading, updating and deleting users, the
  self-service profile and password, the paged listing with its filters and statistics, and the
  bootstrap of the first administrator (database/seed-admin.ts).
\<close>

section \<open>Creating and reading\<close>

definition BCRYPT_ROUNDS :: "process_env \<Rightarrow> int option" where
  "BCRYPT_ROUNDS env = js_parse_int (env_or env ''BCRYPT_ROUNDS'' ''10'')"

record create_user_request =
  cu_username :: string
  cu_email :: string
  cu_password :: string
  cu_full_name :: "string option"
  cu_role :: "string option"

text \<open>\<open>x || null\<close> and \<open>x || d\<close> on strings.\<close>

definition or_null :: "string option \<Rightarrow> string option" where
  "or_null x = (if truthy x then x else None)"

definition or_default :: "string option \<Rightarrow> string \<Rightarrow> string" where
  "or_default x d = (if truthy x then the x else d)"

definition new_user_row :: "string \<Rightarrow> int \<Rightarrow> string \<Rightarrow> string \<Rightarrow> string \<Rightarrow> string option \<Rightarrow> string \<Rightarrow> user_row" where
  "new_user_row uid now username email hash full_name role =
     \<lparr>u_user_id = uid, u_username = username, u_email = email, u_password_hash = hash,
      u_full_name = full_name, u_role = role, u_is_active = True, u_credentials_changed_at = now,
      u_created_at = now, u_updated_at = now\<rparr>"

definition createUser ::
  "('tok, 'k) env \<Rightarrow> tick \<Rightarrow> create_user_request \<Rightarrow> ('tok db, user_public) op" where
  "createUser E t req d =
     (if filter (\<lambda>u. u_username u = cu_username req) (users_t d) \<noteq> []
      then (d, Inl (ConflictError ''Username already exists''))
      else if filter (\<lambda>u. u_email u = cu_email req) (users_t d) \<noteq> []
      then (d, Inl (ConflictError ''Email already exists''))
      else
        (let password_hash = e_hash E (cu_password req) (BCRYPT_ROUNDS (e_process E)) (tk_id2 t);
             row = new_user_row (tk_id1 t) (tk_db t) (cu_username req) (cu_email req) password_hash
                     (or_null (cu_full_name req)) (or_default (cu_role req) ''Viewer'')
         in case insert_user row d of
              Inl e \<Rightarrow> (d, Inl e)
            | Inr d' \<Rightarrow> (d', Inr (to_public row))))"

definition getUserById :: "string \<Rightarrow> 'tok db \<Rightarrow> app_error + user_public" where
  "getUserById userId d =
     (case filter (\<lambda>u. u_user_id u = userId) (users_t d) of
        [] \<Rightarrow> Inl (NotFoundError ''User'')
      | u # _ \<Rightarrow> Inr (to_public u))"

section \<open>Updating\<close>

text \<open>The fields of a request that are present; \<open>full_name\<close> may be present and null.\<close>

record update_user_request =
  uu_email :: "string option"
  uu_full_name :: "string option option"
  uu_role :: "string option"
  uu_is_active :: "bool option"

definition email_taken :: "string \<Rightarrow> string \<Rightarrow> 'tok db \<Rightarrow> bool" where
  "email_taken email userId d = (filter (\<lambda>u. u_email u = email \<and> u_user_id u \<noteq> userId) (users_t d) \<noteq> [])"

definition apply_update :: "update_user_request \<Rightarrow> int \<Rightarrow> user_row \<Rightarrow> user_row" where
  "apply_update req now u =
     u\<lparr>u_email := nullish (uu_email req) (u_email u),
       u_full_name := (case uu_full_name req of None \<Rightarrow> u_full_name u | Some n \<Rightarrow> or_null n),
       u_role := nullish (uu_role req) (u_role u),
       u_is_active := nullish (uu_is_active req) (u_is_active u),
       u_updated_at := now\<rparr>"

definition no_fields :: "update_user_request \<Rightarrow> bool" where
  "no_fields req \<longleftrightarrow> uu_email req = None \<and> uu_full_name req = None \<and> uu_role req = None \<and> uu_is_active req = None"

text \<open>The part that \<open>updateUser\<close> and \<open>updateProfile\<close> have in common: the check and the UPDATE.\<close>

definition update_fields :: "string \<Rightarrow> update_user_request \<Rightarrow> int \<Rightarrow> ('tok db, user_public) op" where
  "update_fields userId req now d =
     (if uu_email req \<noteq> None \<and> email_taken (the (uu_email req)) userId d
      then (d, Inl (ConflictError ''Email already exists''))
      else if no_fields req then (d, Inl (ValidationError ''No fields to update''))
      else case update_users (\<lambda>u. u_user_id u = userId) (apply_update req now) d of
        Inl e \<Rightarrow> (d, Inl e)
      | Inr d' \<Rightarrow>
          (case filter (\<lambda>u. u_user_id u = userId) (users_t d') of
             [] \<Rightarrow> (d', Inl (NotFoundError ''User''))
           | u # _ \<Rightarrow> (d', Inr (to_public u))))"

definition updateUser :: "string \<Rightarrow> update_user_request \<Rightarrow> tick \<Rightarrow> ('tok db, user_public) op" where
  "updateUser userId req t d =
     (case update_fields userId req (tk_db t) d of
        (d', Inl e) \<Rightarrow> (d', Inl e)
      | (d', Inr u) \<Rightarrow>
          if uu_role req \<noteq> None \<or> uu_is_active req \<noteq> None
          then (case revokeUserTokens userId (tk_db2 t) d' of
                  (d'', Inl e) \<Rightarrow> (d'', Inl e)
                | (d'', Inr _) \<Rightarrow> (d'', Inr u))
          else (d', Inr u))"

record update_profile_request =
  up_req_email :: "string option"
  up_req_full_name :: "string option option"

definition updateProfile :: "string \<Rightarrow> update_profile_request \<Rightarrow> tick \<Rightarrow> ('tok db, user_public) op" where
  "updateProfile userId req t d =
     update_fields userId \<lparr>uu_email = up_req_email req, uu_full_name = up_req_full_name req,
                           uu_role = None, uu_is_active = None\<rparr> (tk_db t) d"

definition changePassword ::
  "('tok, 'k) env \<Rightarrow> tick \<Rightarrow> string \<Rightarrow> string \<Rightarrow> string \<Rightarrow> ('tok db, unit) op" where
  "changePassword E t userId current_password new_password d =
     (case filter (\<lambda>u. u_user_id u = userId) (users_t d) of
        [] \<Rightarrow> (d, Inl (NotFoundError ''User''))
      | user # _ \<Rightarrow>
          if \<not> e_compare E current_password (u_password_hash user)
          then (d, Inl (auth_error ''Current password is incorrect''))
          else
            (let newPasswordHash = e_hash E new_password (BCRYPT_ROUNDS (e_process E)) (tk_id1 t)
             in case update_users (\<lambda>u. u_user_id u = userId)
                       (\<lambda>u. u\<lparr>u_password_hash := newPasswordHash, u_updated_at := tk_db t\<rparr>) d of
                  Inl e \<Rightarrow> (d, Inl e)
                | Inr d' \<Rightarrow> revokeUserTokens userId (tk_db2 t) d'))"

definition deleteUser :: "string \<Rightarrow> ('tok db, unit) op" where
  "deleteUser userId d =
     (case filter (\<lambda>u. u_user_id u = userId) (users_t d) of
        [] \<Rightarrow> (d, Inl (NotFoundError ''User''))
      | _ # _ \<Rightarrow> (delete_user_row userId d, Inr ()))"

section \<open>Listing\<close>

text \<open>LIMIT and OFFSET; the server refuses negative values.\<close>

definition sql_page :: "int \<Rightarrow> int \<Rightarrow> 'a list \<Rightarrow> app_error + 'a list" where
  "sql_page limit offset rows =
     (if offset < 0 then Inl (PgError ''OFFSET must not be negative'')
      else if limit < 0 then Inl (PgError ''LIMIT must not be negative'')
      else Inr (take (nat limit) (drop (nat offset) rows)))"

definition newest_first :: "user_row list \<Rightarrow> user_row list" where
  "newest_first us = sort_key (\<lambda>u. - u_created_at u) us"

definition getAllUsers :: "int \<Rightarrow> int \<Rightarrow> 'tok db \<Rightarrow> app_error + (user_public list \<times> nat)" where
  "getAllUsers page pageSize d =
     bindE (sql_page pageSize ((page - 1) * pageSize) (newest_first (users_t d))) (\<lambda>us.
     Inr (map to_public us, length (users_t d)))"

text \<open>
  The LIKE of the server: \<open>%\<close> any substring, \<open>_\<close> any character, backslash escapes the next one.
\<close>

fun sql_like :: "string \<Rightarrow> string \<Rightarrow> bool" where
  "sql_like [] s = (s = [])"
| "sql_like (p # ps) [] = (p = CHR ''%'' \<and> sql_like ps [])"
| "sql_like (p # ps) (c # cs) =
     (if p = CHR ''%'' then sql_like ps (c # cs) \<or> sql_like (p # ps) cs
      else if p = CHR ''_'' then sql_like ps cs
      else if p = CHR 0x5C then (case ps of [] \<Rightarrow> False | q # qs \<Rightarrow> q = c \<and> sql_like qs cs)
      else p = c \<and> sql_like ps cs)"

record user_filters =
  f_search :: "string option"
  f_role :: "string option"
  f_status :: "string option"

definition search_pattern :: "string \<Rightarrow> string" where
  "search_pattern search = ''%'' @ js_trim search @ ''%''"

definition matches_search :: "string \<Rightarrow> user_row \<Rightarrow> bool" where
  "matches_search search u =
     (let p = js_lower (search_pattern search)
      in (case u_full_name u of None \<Rightarrow> False | Some n \<Rightarrow> sql_like p (js_lower n))
         \<or> sql_like p (js_lower (u_email u)))"

definition where_clause :: "user_filters \<Rightarrow> user_row \<Rightarrow> bool" where
  "where_clause fs u \<longleftrightarrow>
     (truthy (f_search fs) \<and> js_trim (the (f_search fs)) \<noteq> [] \<longrightarrow> matches_search (the (f_search fs)) u)
   \<and> (truthy (f_role fs) \<and> the (f_role fs) \<noteq> ''all'' \<longrightarrow> u_role u = the (f_role fs))
   \<and> (truthy (f_status fs) \<and> the (f_status fs) \<noteq> ''all'' \<longrightarrow> u_is_active u = (the (f_status fs) = ''active''))"

record users_page =
  pg_users :: "user_public list"
  pg_page :: int
  pg_pageSize :: int
  pg_total :: nat
  pg_totalPages :: "int option"
  st_total :: nat
  st_active :: nat
  st_inactive :: nat
  st_byRole :: "(string \<times> nat) list"
  fo_roles :: "string list"

text \<open>\<open>Math.ceil(total / pageSize)\<close>; not a number when \<open>pageSize\<close> is zero.\<close>

definition total_pages :: "nat \<Rightarrow> int \<Rightarrow> int option" where
  "total_pages count pageSize = (if pageSize = 0 then None else Some (- ((- int count) div pageSize)))"

definition getUsersPage :: "int \<Rightarrow> int \<Rightarrow> user_filters \<Rightarrow> 'tok db \<Rightarrow> app_error + users_page" where
  "getUsersPage page pageSize fs d =
     (let selected = filter (where_clause fs) (users_t d);
          offset = (page - 1) * pageSize
      in bindE (sql_page pageSize offset (newest_first selected)) (\<lambda>us.
         Inr \<lparr>pg_users = map to_public us, pg_page = page, pg_pageSize = pageSize,
              pg_total = length selected, pg_totalPages = total_pages (length selected) pageSize,
              st_total = length selected, st_active = length (filter u_is_active selected),
              st_inactive = length (filter (\<lambda>u. \<not> u_is_active u) selected),
              st_byRole = map (\<lambda>r. (r, length (filter (\<lambda>u. u_role u = r) selected)))
                            (js_uniq (map u_role selected)),
              fo_roles = sort (js_uniq (map u_role (users_t d)))\<rparr>))"

section \<open>The first administrator (database/seed-admin.ts)\<close>

definition seed_admin :: "('tok, 'k) env \<Rightarrow> tick \<Rightarrow> ('tok db, unit) op" where
  "seed_admin E t d =
     (let env = e_process E;
          username = env_or env ''BOOTSTRAP_ADMIN_USERNAME'' ''admin'';
          email = env_or env ''BOOTSTRAP_ADMIN_EMAIL'' ''admin@local'';
          password = env ''BOOTSTRAP_ADMIN_PASSWORD''
      in if \<not> truthy password then (d, Inl (JsError ''BOOTSTRAP_ADMIN_PASSWORD is required''))
         else if filter (\<lambda>u. u_username u = username \<or> u_email u = email) (users_t d) \<noteq> [] then (d, Inr ())
         else case insert_user (new_user_row (tk_id1 t) (tk_db t) username email
                     (e_hash E (the password) (BCRYPT_ROUNDS env) (tk_id2 t))
                     (Some ''System Administrator'') ''Admin'') d of
                Inl e \<Rightarrow> (d, Inl e)
              | Inr d' \<Rightarrow> (d', Inr ()))"

end
