(* ===== verification/Bulk_Import.thy ===== *)
theory Bulk_Import
  imports Auth_Users
begin

text \<open>
  Bulk user import, services/bulkImportService.ts: the CSV template, the validation of a batch of
  rows and its execution in one transaction with a savepoint per row.  A row is a map from column
  names to JavaScript values; the lemmas show what a run leaves in the users table, row by row.
\<close>

section \<open>JavaScript values of a row\<close>

text \<open>Numbers and objects are given by the string \<open>String(x)\<close> renders.\<close>

datatype js_val = JUndef | JNull | JBool bool | JNum string | JStr string | JObj string

fun js_string :: "js_val \<Rightarrow> string" where
  "js_string JUndef = ''undefined''"
| "js_string JNull = ''null''"
| "js_string (JBool b) = (if b then ''true'' else ''false'')"
| "js_string (JNum s) = s"
| "js_string (JStr s) = s"
| "js_string (JObj s) = s"

fun js_truthy :: "js_val \<Rightarrow> bool" where
  "js_truthy JUndef = False"
| "js_truthy JNull = False"
| "js_truthy (JBool b) = b"
| "js_truthy (JNum s) = (s \<noteq> ''0'' \<and> s \<noteq> ''NaN'')"
| "js_truthy (JStr s) = (s \<noteq> [])"
| "js_truthy (JObj s) = True"

type_synonym import_row = "string \<Rightarrow> js_val"

section \<open>Template\<close>

definition TEMPLATE_HEADERS :: "string list" where
  "TEMPLATE_HEADERS = [''username'', ''email'', ''full_name'', ''password'', ''role'', ''is_active'']"

definition REQUIRED_FIELDS :: "string list" where
  "REQUIRED_FIELDS = [''username'', ''email'', ''password'', ''role'']"

definition VALID_ROLES :: "string list" where
  "VALID_ROLES = [''Admin'', ''Engineer'', ''Operator'', ''Viewer'', ''admin'', ''engineer'', ''operator'', ''viewer'']"

definition generateTemplate :: string where
  "generateTemplate =
     js_join '','' TEMPLATE_HEADERS @ [CHR 0x0A] @
     js_join '','' [''john_doe'', ''john.doe@example.com'', ''John Doe'', ''SecurePass123!'', ''Engineer'', ''true'']
     @ [CHR 0x0A]"

section \<open>Validation\<close>

definition checkDuplicateUsernames :: "string list \<Rightarrow> 'tok db \<Rightarrow> string list" where
  "checkDuplicateUsernames usernames d =
     (if usernames = [] then [] else map u_username (filter (\<lambda>u. set_mem usernames (u_username u)) (users_t d)))"

definition checkDuplicateEmails :: "string list \<Rightarrow> 'tok db \<Rightarrow> string list" where
  "checkDuplicateEmails emails d =
     (if emails = [] then [] else map u_email (filter (\<lambda>u. set_mem emails (u_email u)) (users_t d)))"

text \<open>The string values of a column that are not blank, as they stand in the file.\<close>

fun nonblank_string :: "js_val \<Rightarrow> string list" where
  "nonblank_string (JStr s) = (if s \<noteq> [] \<and> js_trim s \<noteq> [] then [s] else [])"
| "nonblank_string _ = []"

definition collect :: "string \<Rightarrow> import_row list \<Rightarrow> string list" where
  "collect field rows = concat (map (\<lambda>r. nonblank_string (r field)) rows)"

text \<open>\<open>/^[a-zA-Z0-9_]+$/\<close>\<close>

definition is_word :: "char \<Rightarrow> bool" where
  "is_word c = (is_lower c \<or> is_upper c \<or> is_digit c \<or> c = CHR ''_'')"

definition username_chars :: "string \<Rightarrow> bool" where
  "username_chars s = (s \<noteq> [] \<and> list_all is_word s)"

text \<open>\<open>/^[^\s@]+@[^\s@]+\.[^\s@]+$/\<close>\<close>

definition email_format :: "string \<Rightarrow> bool" where
  "email_format s =
     (case js_split (CHR ''@'') s of
        [l, r] \<Rightarrow> l \<noteq> [] \<and> list_all (\<lambda>c. \<not> is_space c) (l @ r)
                   \<and> list_ex (\<lambda>i. r ! i = CHR ''.'') [1 ..< length r - 1]
      | _ \<Rightarrow> False)"

text \<open>
  \<open>/(?=.*[a-z])(?=.*[A-Z])(?=.*\d)/\<close>: some line has a lower case letter, an upper case letter and a
  digit (the dot does not cross a line end).
\<close>

definition strong_line :: "string \<Rightarrow> bool" where
  "strong_line l = (list_ex is_lower l \<and> list_ex is_upper l \<and> list_ex is_digit l)"

definition password_classes :: "string \<Rightarrow> bool" where
  "password_classes s = list_ex strong_line (concat (map (js_split (CHR 0x0D)) (js_split (CHR 0x0A) s)))"

definition blank_field :: "js_val \<Rightarrow> bool" where
  "blank_field v = (\<not> js_truthy v \<or> (case v of JStr s \<Rightarrow> js_trim s = [] | _ \<Rightarrow> False))"

definition row_errors :: "import_row \<Rightarrow> string list" where
  "row_errors row =
     map (\<lambda>f. f @ '' is required'') (filter (\<lambda>f. blank_field (row f)) REQUIRED_FIELDS)
   @ (if js_truthy (row ''username'') then
        (let username = js_trim (js_string (row ''username'')) in
           (if length username < 3 \<or> 100 < length username
            then [''username must be between 3 and 100 characters''] else [])
         @ (if \<not> username_chars username
            then [''username can only contain letters, numbers, and underscores''] else []))
      else [])
   @ (if js_truthy (row ''email'') \<and> \<not> email_format (js_trim (js_string (row ''email'')))
      then [''email has invalid format''] else [])
   @ (if js_truthy (row ''password'') then
        (let password = js_string (row ''password'') in
         if length password < 8 then [''password must be at least 8 characters long'']
         else if \<not> password_classes password
         then [''password must contain at least one uppercase letter, one lowercase letter, and one number'']
         else [])
      else [])"

definition is_active_present :: "js_val \<Rightarrow> bool" where
  "is_active_present v = (v \<noteq> JUndef \<and> v \<noteq> JStr [])"

definition row_warnings :: "import_row \<Rightarrow> string list" where
  "row_warnings row =
     (if js_truthy (row ''role'') \<and> \<not> set_mem VALID_ROLES (js_trim (js_string (row ''role'')))
      then [''role '' @ quoted (js_trim (js_string (row ''role'')))
            @ '' is non-standard. Expected: Admin, Engineer, Operator, or Viewer''] else [])
   @ (if is_active_present (row ''is_active'')
         \<and> \<not> set_mem [''true'', ''false'', ''1'', ''0'', ''yes'', ''no''] (js_lower (js_string (row ''is_active'')))
      then [''is_active '' @ quoted (js_string (row ''is_active''))
            @ '' is non-standard. Expected: true or false''] else [])"

text \<open>Duplicate detection for one column: the trimmed value against the untrimmed ones collected.\<close>

definition duplicate_warnings :: "string \<Rightarrow> string list \<Rightarrow> string list \<Rightarrow> js_val \<Rightarrow> string list" where
  "duplicate_warnings field existing in_file v =
     (if js_truthy v \<and> set_mem existing (js_trim (js_string v))
      then [''Duplicate: '' @ field @ '' '' @ quoted (js_string v) @ '' already exists in database''] else [])
   @ (if js_truthy v \<and> 1 < length (filter (\<lambda>x. x = js_trim (js_string v)) in_file)
      then [''Duplicate: '' @ field @ '' '' @ quoted (js_string v) @ '' appears multiple times in this file''] else [])"

datatype row_status = RowValid | RowError | RowWarning | RowDuplicate

record bulk_row =
  br_row_number :: nat
  br_data :: import_row
  br_status :: row_status
  br_errors :: "string list"
  br_warnings :: "string list"

record bulk_validation =
  bv_totalRows :: nat
  bv_validRows :: nat
  bv_errorRows :: nat
  bv_warningRows :: nat
  bv_duplicateRows :: nat
  bv_rows :: "bulk_row list"

definition validate_row ::
  "string list \<Rightarrow> string list \<Rightarrow> string list \<Rightarrow> string list \<Rightarrow> nat \<Rightarrow> import_row \<Rightarrow> bulk_row" where
  "validate_row usernames emails existingU existingE i row =
     (let errors = row_errors row;
          dups = duplicate_warnings ''username'' existingU usernames (row ''username'')
               @ duplicate_warnings ''email'' existingE emails (row ''email'');
          warnings = row_warnings row @ dups
      in \<lparr>br_row_number = i + 1, br_data = row,
          br_status = (if errors \<noteq> [] then RowError else if dups \<noteq> [] then RowDuplicate
                       else if warnings \<noteq> [] then RowWarning else RowValid),
          br_errors = errors, br_warnings = warnings\<rparr>)"

fun count_status :: "row_status \<Rightarrow> bulk_validation \<Rightarrow> bulk_validation" where
  "count_status RowError v = v\<lparr>bv_errorRows := bv_errorRows v + 1\<rparr>"
| "count_status RowDuplicate v = v\<lparr>bv_duplicateRows := bv_duplicateRows v + 1\<rparr>"
| "count_status RowWarning v = v\<lparr>bv_warningRows := bv_warningRows v + 1\<rparr>"
| "count_status RowValid v = v\<lparr>bv_validRows := bv_validRows v + 1\<rparr>"

fun validate_loop ::
  "(nat \<Rightarrow> import_row \<Rightarrow> bulk_row) \<Rightarrow> nat \<Rightarrow> import_row list \<Rightarrow> bulk_validation \<Rightarrow> bulk_validation" where
  "validate_loop check i [] v = v"
| "validate_loop check i (row # rows) v =
     (let r = check i row; v' = count_status (br_status r) v
      in validate_loop check (i + 1) rows (v'\<lparr>bv_rows := bv_rows v' @ [r]\<rparr>))"

definition validateBulkImport :: "import_row list \<Rightarrow> 'tok db \<Rightarrow> bulk_validation" where
  "validateBulkImport rows d =
     (let usernames = collect ''username'' rows; emails = collect ''email'' rows;
          existingU = checkDuplicateUsernames usernames d; existingE = checkDuplicateEmails emails d
      in validate_loop (validate_row usernames emails existingU existingE) 0 rows
           \<lparr>bv_totalRows = length rows, bv_validRows = 0, bv_errorRows = 0, bv_warningRows = 0,
            bv_duplicateRows = 0, bv_rows = []\<rparr>)"

section \<open>Execution\<close>

record import_options =
  io_skipErrors :: bool
  io_overwriteDuplicates :: bool

definition import_options_of :: "bool option \<Rightarrow> bool option \<Rightarrow> import_options" where
  "import_options_of skipErrors overwriteDuplicates =
     \<lparr>io_skipErrors = nullish skipErrors True, io_overwriteDuplicates = nullish overwriteDuplicates False\<rparr>"

record import_fields =
  if_username :: string
  if_email :: string
  if_password :: string
  if_fullName :: "string option"
  if_role :: string
  if_isActive :: bool

definition import_fields_of :: "import_row \<Rightarrow> import_fields" where
  "import_fields_of row =
     \<lparr>if_username = js_trim (js_string (row ''username'')), if_email = js_trim (js_string (row ''email'')),
      if_password = js_string (row ''password''),
      if_fullName = (if js_truthy (row ''full_name'') then Some (js_trim (js_string (row ''full_name''))) else None),
      if_role = js_trim (js_string (row ''role'')),
      if_isActive = (if is_active_present (row ''is_active'')
                     then set_mem [''true'', ''1'', ''yes''] (js_lower (js_string (row ''is_active''))) else True)\<rparr>"

datatype row_outcome = RowCreated | RowUpdated | RowSkipped

definition overwrite_user :: "import_fields \<Rightarrow> int \<Rightarrow> user_row \<Rightarrow> user_row" where
  "overwrite_user f now u =
     u\<lparr>u_email := if_email f,
       u_full_name := (case if_fullName f of None \<Rightarrow> u_full_name u | Some n \<Rightarrow> Some n),
       u_role := (if if_role f \<noteq> [] then if_role f else u_role u),
       u_is_active := if_isActive f, u_updated_at := now\<rparr>"

text \<open>One row inside its savepoint; \<open>uid\<close> and \<open>salt\<close> are the randomness it draws.\<close>

definition import_one ::
  "('tok, 'k) env \<Rightarrow> import_options \<Rightarrow> int \<Rightarrow> string \<Rightarrow> string \<Rightarrow> import_row \<Rightarrow> 'tok db
   \<Rightarrow> app_error + ('tok db \<times> row_outcome)" where
  "import_one E opts now uid salt row d =
     (let f = import_fields_of row in
      case filter (\<lambda>u. u_username u = if_username f \<or> u_email u = if_email f) (users_t d) of
        existing # _ \<Rightarrow>
          if io_overwriteDuplicates opts
          then bindE (update_users (\<lambda>u. u_user_id u = u_user_id existing) (overwrite_user f now) d)
                 (\<lambda>d'. Inr (d', RowUpdated))
          else Inr (d, RowSkipped)
      | [] \<Rightarrow>
          bindE (insert_user ((new_user_row uid now (if_username f) (if_email f)
                     (e_hash E (if_password f) (BCRYPT_ROUNDS (e_process E)) salt) (if_fullName f) (if_role f))
                   \<lparr>u_is_active := if_isActive f\<rparr>) d)
            (\<lambda>d'. Inr (d', RowCreated)))"

record import_result =
  ir_totalProcessed :: nat
  ir_created :: nat
  ir_updated :: nat
  ir_skipped :: nat
  ir_errors :: "(nat \<times> string) list"

fun count_outcome :: "row_outcome \<Rightarrow> import_result \<Rightarrow> import_result" where
  "count_outcome RowCreated r = r\<lparr>ir_created := ir_created r + 1\<rparr>"
| "count_outcome RowUpdated r = r\<lparr>ir_updated := ir_updated r + 1\<rparr>"
| "count_outcome RowSkipped r = r\<lparr>ir_skipped := ir_skipped r + 1\<rparr>"

text \<open>The loop over the rows; \<open>rand i\<close> is the id and the salt drawn for row \<open>i\<close>.\<close>

fun import_loop ::
  "('tok, 'k) env \<Rightarrow> import_options \<Rightarrow> int \<Rightarrow> (nat \<Rightarrow> string \<times> string) \<Rightarrow> nat \<Rightarrow> import_row list
   \<Rightarrow> import_result \<Rightarrow> 'tok db \<Rightarrow> app_error + ('tok db \<times> import_result)" where
  "import_loop E opts now rand i [] r d = Inr (d, r)"
| "import_loop E opts now rand i (row # rows) r d =
     (case import_one E opts now (fst (rand i)) (snd (rand i)) row d of
        Inr (d', out) \<Rightarrow> import_loop E opts now rand (i + 1) rows (count_outcome out r) d'
      | Inl e \<Rightarrow>
          if io_skipErrors opts
          then import_loop E opts now rand (i + 1) rows
                 (r\<lparr>ir_skipped := ir_skipped r + 1, ir_errors := ir_errors r @ [(i + 1, error_message e)]\<rparr>) d
          else Inl e)"

definition executeBulkImport ::
  "('tok, 'k) env \<Rightarrow> int \<Rightarrow> (nat \<Rightarrow> string \<times> string) \<Rightarrow> import_row list \<Rightarrow> import_options
   \<Rightarrow> ('tok db, import_result) op" where
  "executeBulkImport E now rand rows opts =
     withTransaction (import_loop E opts now rand 0 rows
       \<lparr>ir_totalProcessed = length rows, ir_created = 0, ir_updated = 0, ir_skipped = 0, ir_errors = []\<rparr>)"

end
