(* ===== verification/Http_Guards.thy ===== *)
theory Http_Guards
  imports Bulk_Import
begin

text \<open>
  The HTTP edge of auth-service in front of the controllers: the refresh cookie (config/cookies.ts),
  the express-validator chains (utils/validation.ts), the authentication, permission and error
  middleware (middleware/*.ts) and the audit emitter (services/audit-emitter.ts).  Tokens are
  strings here.  The validator library is a record of parameters; a chain is the list of its steps
  as the source writes them.
\<close>

section \<open>Responses\<close>

record cookie_options =
  co_httpOnly :: bool
  co_secure :: bool
  co_sameSite :: string
  co_path :: string
  co_maxAge :: "int option"

datatype cookie_action = NoCookie | SetCookie string string cookie_options | ClearCookie string cookie_options

definition REFRESH_COOKIE :: string where
  "REFRESH_COOKIE = ''refresh_token''"

definition cookie_base :: "process_env \<Rightarrow> cookie_options" where
  "cookie_base env =
     \<lparr>co_httpOnly = True,
      co_secure = (if truthy (env ''COOKIE_SECURE'') then the (env ''COOKIE_SECURE'') = ''true''
                   else NODE_ENV env = ''production''),
      co_sameSite = env_or env ''COOKIE_SAMESITE'' ''lax'',
      co_path = env_or env ''COOKIE_PATH'' ''/api/auth'', co_maxAge = None\<rparr>"

definition maxAgeMs :: int where
  "maxAgeMs = 7 * 24 * 60 * 60 * 1000"

definition setRefreshCookie :: "process_env \<Rightarrow> string \<Rightarrow> cookie_action" where
  "setRefreshCookie env token = SetCookie REFRESH_COOKIE token ((cookie_base env)\<lparr>co_maxAge := Some maxAgeMs\<rparr>)"

definition clearRefreshCookie :: "process_env \<Rightarrow> cookie_action" where
  "clearRefreshCookie env = ClearCookie REFRESH_COOKIE (cookie_base env)"

section \<open>Requests\<close>

text \<open>
  A JSON body: its string fields, and the fields of other types the handlers read.  \<open>b_permissions\<close>
  and \<open>b_rows\<close> are None when the field is not an array; \<open>b_description\<close> may be absent, null or a
  string.
\<close>

record req_body =
  b_str :: "string \<Rightarrow> string option"
  b_description :: "string option option"
  b_is_active :: "bool option"
  b_permissions :: "string list option"
  b_rows :: "import_row list option"
  b_skipErrors :: "bool option"
  b_overwriteDuplicates :: "bool option"

record request =
  rq_authorization :: "string option"
  rq_refresh_cookie :: "string option"
  rq_service_key :: "string option"
  rq_param :: string
  rq_query :: "string \<Rightarrow> string option"
  rq_body :: req_body

section \<open>utils/validation.ts\<close>

record validator_lib =
  vl_trim :: "string \<Rightarrow> string"
  vl_notEmpty :: "string \<Rightarrow> bool"
  vl_isLength :: "nat \<Rightarrow> nat option \<Rightarrow> string \<Rightarrow> bool"
  vl_isEmail :: "string \<Rightarrow> bool"
  vl_normalizeEmail :: "string \<Rightarrow> string"

text \<open>\<open>VCheck p m\<close> is a validator with its message, \<open>VCustom\<close> one that computes the message it throws.\<close>

datatype vstep = VSanitize "string \<Rightarrow> string" | VCheck "string \<Rightarrow> bool" string | VCustom "string \<Rightarrow> string option"

record chain =
  ch_field :: string
  ch_optional :: bool
  ch_steps :: "vstep list"

fun run_steps :: "vstep list \<Rightarrow> string option \<Rightarrow> string list \<Rightarrow> string option \<times> string list" where
  "run_steps [] v errs = (v, errs)"
| "run_steps (VSanitize f # ss) v errs = run_steps ss (Some (f (nullish v []))) errs"
| "run_steps (VCheck p m # ss) v errs = run_steps ss v (if p (nullish v []) then errs else errs @ [m])"
| "run_steps (VCustom p # ss) v errs =
     run_steps ss v (case p (nullish v []) of None \<Rightarrow> errs | Some m \<Rightarrow> errs @ [m])"

definition run_chain :: "chain \<Rightarrow> req_body \<Rightarrow> req_body \<times> string list" where
  "run_chain c b =
     (let v = b_str b (ch_field c) in
      if ch_optional c \<and> v = None then (b, [])
      else case run_steps (ch_steps c) v [] of (v', errs) \<Rightarrow> (b\<lparr>b_str := (b_str b)(ch_field c := v')\<rparr>, errs))"

fun run_chains :: "chain list \<Rightarrow> req_body \<Rightarrow> req_body \<times> string list" where
  "run_chains [] b = (b, [])"
| "run_chains (c # cs) b =
     (case run_chain c b of (b', errs) \<Rightarrow> (case run_chains cs b' of (b'', es) \<Rightarrow> (b'', errs @ es)))"

definition validate :: "chain list \<Rightarrow> req_body \<Rightarrow> app_error + req_body" where
  "validate validations b =
     (case run_chains validations b of
        (b', errs) \<Rightarrow> if errs = [] then Inr b' else Inl (ValidationError (js_join '', '' errs)))"

definition roleExists :: "'tok db \<Rightarrow> string \<Rightarrow> string option" where
  "roleExists d value =
     (if \<not> role_exists value d then Some (''Invalid role: '' @ quoted value @ '' does not exist'') else None)"

text \<open>\<open>/^(?=.*[a-z])(?=.*[A-Z])(?=.*\d)/\<close>: the first line has the three classes.\<close>

definition password_anchored :: "string \<Rightarrow> bool" where
  "password_anchored s = strong_line (takeWhile (\<lambda>c. c \<noteq> CHR 0x0A \<and> c \<noteq> CHR 0x0D) s)"

definition validateLogin :: "validator_lib \<Rightarrow> chain list" where
  "validateLogin V =
     [\<lparr>ch_field = ''username'', ch_optional = False, ch_steps =
        [VSanitize (vl_trim V), VCheck (vl_notEmpty V) ''Username is required'',
         VCheck (vl_isLength V 3 (Some 100)) ''Username must be between 3 and 100 characters'']\<rparr>,
      \<lparr>ch_field = ''password'', ch_optional = False, ch_steps =
        [VCheck (vl_notEmpty V) ''Password is required'',
         VCheck (vl_isLength V 6 None) ''Password must be at least 6 characters'']\<rparr>]"

definition full_name_chain :: "validator_lib \<Rightarrow> chain" where
  "full_name_chain V =
     \<lparr>ch_field = ''full_name'', ch_optional = True, ch_steps =
        [VSanitize (vl_trim V), VCheck (vl_isLength V 0 (Some 200)) ''Full name must be less than 200 characters'']\<rparr>"

definition role_chain :: "'tok db \<Rightarrow> chain" where
  "role_chain d = \<lparr>ch_field = ''role'', ch_optional = True, ch_steps = [VCustom (roleExists d)]\<rparr>"

definition optional_email_chain :: "validator_lib \<Rightarrow> chain" where
  "optional_email_chain V =
     \<lparr>ch_field = ''email'', ch_optional = True, ch_steps =
        [VSanitize (vl_trim V), VCheck (vl_isEmail V) ''Invalid email format'', VSanitize (vl_normalizeEmail V)]\<rparr>"

definition validateCreateUser :: "validator_lib \<Rightarrow> 'tok db \<Rightarrow> chain list" where
  "validateCreateUser V d =
     [\<lparr>ch_field = ''username'', ch_optional = False, ch_steps =
        [VSanitize (vl_trim V), VCheck (vl_notEmpty V) ''Username is required'',
         VCheck (vl_isLength V 3 (Some 100)) ''Username must be between 3 and 100 characters'',
         VCheck username_chars ''Username can only contain letters, numbers, and underscores'']\<rparr>,
      \<lparr>ch_field = ''email'', ch_optional = False, ch_steps =
        [VSanitize (vl_trim V), VCheck (vl_notEmpty V) ''Email is required'',
         VCheck (vl_isEmail V) ''Invalid email format'', VSanitize (vl_normalizeEmail V)]\<rparr>,
      \<lparr>ch_field = ''password'', ch_optional = False, ch_steps =
        [VCheck (vl_notEmpty V) ''Password is required'',
         VCheck (vl_isLength V 8 None) ''Password must be at least 8 characters'',
         VCheck password_anchored
           ''Password must contain at least one uppercase letter, one lowercase letter, and one number'']\<rparr>,
      role_chain d, full_name_chain V]"

text \<open>The chain on \<open>is_active\<close> accepts every boolean, the only type that field has here.\<close>

definition validateUpdateUser :: "validator_lib \<Rightarrow> 'tok db \<Rightarrow> chain list" where
  "validateUpdateUser V d = [optional_email_chain V, role_chain d, full_name_chain V]"

definition validateUpdateProfile :: "validator_lib \<Rightarrow> chain list" where
  "validateUpdateProfile V = [optional_email_chain V, full_name_chain V]"

definition validateChangePassword :: "validator_lib \<Rightarrow> chain list" where
  "validateChangePassword V =
     [\<lparr>ch_field = ''current_password'', ch_optional = False, ch_steps =
        [VCheck (vl_notEmpty V) ''Current password is required'']\<rparr>,
      \<lparr>ch_field = ''new_password'', ch_optional = False, ch_steps =
        [VCheck (vl_notEmpty V) ''New password is required'',
         VCheck (vl_isLength V 8 None) ''New password must be at least 8 characters'',
         VCheck password_anchored
           ''New password must contain at least one uppercase letter, one lowercase letter, and one number'']\<rparr>]"

section \<open>Middleware\<close>

text \<open>What a middleware decides: to answer, with a status and a message, or to go on.\<close>

type_synonym 'a verdict = "(nat \<times> string) + 'a"

definition header_token :: "request \<Rightarrow> string option" where
  "header_token req =
     (case rq_authorization req of
        None \<Rightarrow> None
      | Some h \<Rightarrow> (case js_split (CHR '' '') h of _ # t # _ \<Rightarrow> if t = [] then None else Some t | _ \<Rightarrow> None))"

definition authenticateToken ::
  "(string, 'k) env \<Rightarrow> tick \<Rightarrow> request \<Rightarrow> string db \<Rightarrow> claims verdict" where
  "authenticateToken E t req d =
     (case header_token req of
        None \<Rightarrow> Inl (401, ''No token provided'')
      | Some token \<Rightarrow>
          (case verifyToken E t token d of
             Inr payload \<Rightarrow> Inr payload
           | Inl (AuthenticationError m c) \<Rightarrow> Inl (401, m)
           | Inl _ \<Rightarrow> Inl (500, ''Authentication failed'')))"

definition optionalAuth ::
  "(string, 'k) env \<Rightarrow> tick \<Rightarrow> request \<Rightarrow> string db \<Rightarrow> claims option" where
  "optionalAuth E t req d =
     (case header_token req of
        None \<Rightarrow> None
      | Some token \<Rightarrow> (case verifyToken E t token d of Inr payload \<Rightarrow> Some payload | Inl _ \<Rightarrow> None))"

definition requireRole :: "string list \<Rightarrow> claims option \<Rightarrow> unit verdict" where
  "requireRole allowedRoles user =
     (case user of
        None \<Rightarrow> Inl (401, ''Authentication required'')
      | Some cl \<Rightarrow> (case cl_role cl of
            Some r \<Rightarrow> if set_mem allowedRoles r then Inr () else Inl (403, ''Insufficient permissions'')
          | None \<Rightarrow> Inl (403, ''Insufficient permissions'')))"

definition requireAdmin :: "claims option \<Rightarrow> unit verdict" where
  "requireAdmin user =
     (case user of
        None \<Rightarrow> Inl (401, ''Authentication required'')
      | Some cl \<Rightarrow> if hasElevatedRole (cl_role cl) then Inr () else Inl (403, ''Admin access required''))"

definition requirePermission :: "string \<Rightarrow> claims option \<Rightarrow> unit verdict" where
  "requirePermission permissionKey user =
     (case user of
        None \<Rightarrow> Inl (401, ''Authentication required'')
      | Some cl \<Rightarrow>
          if set_mem (nullish (cl_permission cl) []) permissionKey then Inr ()
          else Inl (403, ''Missing required permission: '' @ permissionKey))"

definition errorHandler :: "app_error \<Rightarrow> nat \<times> string" where
  "errorHandler err =
     (case statusCode err of
        Some s \<Rightarrow> (s, error_message err)
      | None \<Rightarrow> (500, ''Internal server error''))"

definition notFoundHandler :: "string \<Rightarrow> string \<Rightarrow> nat \<times> string" where
  "notFoundHandler method path = (404, ''Route '' @ method @ '' '' @ path @ '' not found'')"

section \<open>services/audit-emitter.ts\<close>

datatype audit_value = AStr string | AList "string list" | ANull

record audit_event =
  ae_EventType :: string
  ae_UserId :: string
  ae_EntityType :: string
  ae_EntityId :: string
  ae_BeforeState :: "(string \<times> audit_value) list option"
  ae_AfterState :: "(string \<times> audit_value) list option"

definition audit_brokers :: "process_env \<Rightarrow> string list" where
  "audit_brokers env =
     filter (\<lambda>b. b \<noteq> []) (map js_trim (js_split (CHR '','') (env_or env ''KAFKA_BOOTSTRAP_SERVERS'' [])))"

definition audit_enabled :: "process_env \<Rightarrow> bool" where
  "audit_enabled env = (audit_brokers env \<noteq> [])"

definition audit_emit ::
  "process_env \<Rightarrow> string \<Rightarrow> string option \<Rightarrow> string \<Rightarrow> string \<Rightarrow> (string \<times> audit_value) list option
   \<Rightarrow> (string \<times> audit_value) list option \<Rightarrow> audit_event list" where
  "audit_emit env eventType actorUserId entityType entityId before after =
     (if \<not> audit_enabled env then []
      else [\<lparr>ae_EventType = eventType, ae_UserId = nullish actorUserId ''system'',
             ae_EntityType = entityType, ae_EntityId = entityId,
             ae_BeforeState = before, ae_AfterState = after\<rparr>])"

end
