(* ===== verification/Auth_Http.thy ===== *)
theory Auth_Http
  imports Http_Guards
begin

text \<open>
  The controllers (controllers/auth.controller.ts, controllers/permission.controller.ts) and the
  route table (routes/auth.routes.ts) of auth-service.  A route is its guards, in order, and its
  handler; \<open>serve\<close> runs them on the store.  A response is the status, the cookie it sets, its body
  and the audit events emitted while it was computed.  The bulk-import routes draw an id and a salt
  per row from \<open>hc_rand\<close>.
\<close>

section \<open>Responses\<close>

record pagination =
  pn_page :: int
  pn_pageSize :: int
  pn_totalRecords :: nat
  pn_totalPages :: "int option"

datatype 'k resp_body =
    BError string "string option"
  | BMessage string
  | BLogin string session_policy user_public "string list"
  | BClaims claims
  | BRefresh string session_policy
  | BMe user_public "string list"
  | BUser user_public
  | BUsers "user_public list" pagination
  | BUsersPage users_page
  | BJwks "'k jwk list"
  | BRevocations "(string \<times> int \<times> bool) list"
  | BValidation bulk_validation
  | BImport import_result
  | BCsv string
  | BRoles "role_row list"
  | BRolesWithPermissions "(role_row \<times> string list) list"
  | BPermissions "perm_row list"
  | BRolePermissions string "string list"
  | BRole role_view
  | BRoleDeleted string

record 'k response =
  rs_status :: nat
  rs_cookie :: cookie_action
  rs_body :: "'k resp_body"
  rs_audit :: "audit_event list"

definition respond :: "nat \<Rightarrow> 'k resp_body \<Rightarrow> 'k response" where
  "respond status body = \<lparr>rs_status = status, rs_cookie = NoCookie, rs_body = body, rs_audit = []\<rparr>"

text \<open>The catch block of the controllers: \<open>error.statusCode || 500\<close>, \<open>error.message || default\<close>.\<close>

definition fail :: "app_error \<Rightarrow> string \<Rightarrow> 'k response" where
  "fail e dflt = respond (http_status e) (BError (if error_message e = [] then dflt else error_message e) None)"

record 'k http_ctx =
  hc_env :: "(string, 'k) env"
  hc_lib :: validator_lib
  hc_tick :: tick
  hc_rand :: "nat \<Rightarrow> string \<times> string"

type_synonym 'k handler = "'k http_ctx \<Rightarrow> request \<Rightarrow> claims option \<Rightarrow> string db \<Rightarrow> string db \<times> 'k response"

definition hc_process :: "'k http_ctx \<Rightarrow> process_env" where
  "hc_process c = e_process (hc_env c)"

text \<open>A call of the service, answered with \<open>ok\<close> or with its error.\<close>

definition answer :: "string \<Rightarrow> ('a \<Rightarrow> 'k response) \<Rightarrow> string db \<times> (app_error + 'a) \<Rightarrow> string db \<times> 'k response" where
  "answer dflt ok r = (fst r, case snd r of Inl e \<Rightarrow> fail e dflt | Inr x \<Rightarrow> ok x)"

definition query_answer :: "string \<Rightarrow> ('a \<Rightarrow> 'k response) \<Rightarrow> string db \<Rightarrow> app_error + 'a \<Rightarrow> string db \<times> 'k response" where
  "query_answer dflt ok d r = answer dflt ok (d, r)"

section \<open>controllers/auth.controller.ts\<close>

definition login_handler :: "'k handler" where
  "login_handler c req user d =
     answer ''Login failed''
       (\<lambda>r. (respond 200 (BLogin (at_token r) (at_sessionPolicy r) (at_user r) (at_permissions r)))
              \<lparr>rs_cookie := setRefreshCookie (hc_process c) (at_refreshToken r)\<rparr>)
       (login (hc_env c) (hc_tick c) (nullish (b_str (rq_body req) ''username'') [])
          (nullish (b_str (rq_body req) ''password'') []) d)"

fun remove_first :: "string \<Rightarrow> string \<Rightarrow> string" where
  "remove_first pat [] = []"
| "remove_first pat (c # cs) =
     (if starts_with (c # cs) pat then drop (length pat) (c # cs) else c # remove_first pat cs)"

definition verify_handler :: "'k handler" where
  "verify_handler c req user d =
     (let token = map_option (remove_first ''Bearer '') (rq_authorization req) in
      if \<not> truthy token then (d, respond 401 (BError ''No token provided'' None))
      else query_answer ''Token verification failed'' (\<lambda>payload. respond 200 (BClaims payload)) d
             (verifyToken (hc_env c) (hc_tick c) (the token) d))"

definition presented_refresh :: "request \<Rightarrow> string option" where
  "presented_refresh req = or_str (rq_refresh_cookie req) (b_str (rq_body req) ''refreshToken'')"

definition refresh_handler :: "'k handler" where
  "refresh_handler c req user d =
     (let token = presented_refresh req in
      if \<not> truthy token then (d, respond 401 (BError ''No refresh token provided'' None))
      else case refreshToken (hc_env c) (hc_tick c) (the token) d of
        (d', Inr r) \<Rightarrow>
          (d', (respond 200 (BRefresh (rr_token r) (rr_sessionPolicy r)))
                 \<lparr>rs_cookie := setRefreshCookie (hc_process c) (rr_refreshToken r)\<rparr>)
      | (d', Inl e) \<Rightarrow>
          (d', (respond (http_status e)
                  (BError (if error_message e = [] then ''Token refresh failed'' else error_message e)
                     (if truthy (error_code e) then error_code e else None)))
                 \<lparr>rs_cookie := clearRefreshCookie (hc_process c)\<rparr>))"

definition logout_handler :: "'k handler" where
  "logout_handler c req user d =
     (let token = presented_refresh req;
          r = (if truthy token then logout (the token) d else (d, Inr ()))
      in (fst r, (case snd r of
            Inl e \<Rightarrow> fail e ''Logout failed''
          | Inr _ \<Rightarrow> respond 200 (BMessage ''Logged out successfully''))
            \<lparr>rs_cookie := clearRefreshCookie (hc_process c)\<rparr>))"

definition with_user :: "claims option \<Rightarrow> string db \<Rightarrow> (string \<Rightarrow> claims \<Rightarrow> string db \<times> 'k response) \<Rightarrow> string db \<times> 'k response" where
  "with_user user d k =
     (case user of
        None \<Rightarrow> (d, respond 401 (BError ''Not authenticated'' None))
      | Some cl \<Rightarrow> k (nullish (cl_user_id cl) []) cl)"

definition me_handler :: "'k handler" where
  "me_handler c req user d =
     with_user user d (\<lambda>uid cl.
       query_answer ''Failed to get user'' (\<lambda>u. respond 200 (BMe u (nullish (cl_permission cl) []))) d
         (getUserById uid d))"

definition updateProfile_handler :: "'k handler" where
  "updateProfile_handler c req user d =
     with_user user d (\<lambda>uid cl.
       answer ''Failed to update profile'' (\<lambda>u. respond 200 (BUser u))
         (updateProfile uid \<lparr>up_req_email = b_str (rq_body req) ''email'',
            up_req_full_name = map_option Some (b_str (rq_body req) ''full_name'')\<rparr> (hc_tick c) d))"

definition changePassword_handler :: "'k handler" where
  "changePassword_handler c req user d =
     with_user user d (\<lambda>uid cl.
       answer ''Failed to change password'' (\<lambda>_. respond 200 (BMessage ''Password changed successfully''))
         (changePassword (hc_env c) (hc_tick c) uid (nullish (b_str (rq_body req) ''current_password'') [])
            (nullish (b_str (rq_body req) ''new_password'') []) d))"

definition createUser_handler :: "'k handler" where
  "createUser_handler c req user d =
     (let s = b_str (rq_body req) in
      answer ''Failed to create user'' (\<lambda>u. respond 201 (BUser u))
        (createUser (hc_env c) (hc_tick c)
           \<lparr>cu_username = nullish (s ''username'') [], cu_email = nullish (s ''email'') [],
            cu_password = nullish (s ''password'') [], cu_full_name = s ''full_name'', cu_role = s ''role''\<rparr> d))"

text \<open>\<open>parseInt(x) || d\<close>\<close>

definition int_or :: "string option \<Rightarrow> int \<Rightarrow> int" where
  "int_or x dflt = (case x of None \<Rightarrow> dflt
     | Some s \<Rightarrow> (case js_parse_int s of None \<Rightarrow> dflt | Some n \<Rightarrow> if n = 0 then dflt else n))"

definition getAllUsers_handler :: "'k handler" where
  "getAllUsers_handler c req user d =
     (let page = int_or (rq_query req ''page'') 1; pageSize = int_or (rq_query req ''pageSize'') 20 in
      query_answer ''Failed to get users''
        (\<lambda>(us, n). respond 200 (BUsers us \<lparr>pn_page = page, pn_pageSize = pageSize, pn_totalRecords = n,
                                         pn_totalPages = total_pages n pageSize\<rparr>)) d
        (getAllUsers page pageSize d))"

definition getUserById_handler :: "'k handler" where
  "getUserById_handler c req user d =
     query_answer ''Failed to get user'' (\<lambda>u. respond 200 (BUser u)) d (getUserById (rq_param req) d)"

definition updateUser_handler :: "'k handler" where
  "updateUser_handler c req user d =
     (let s = b_str (rq_body req) in
      answer ''Failed to update user'' (\<lambda>u. respond 200 (BUser u))
        (updateUser (rq_param req)
           \<lparr>uu_email = s ''email'', uu_full_name = map_option Some (s ''full_name''), uu_role = s ''role'',
            uu_is_active = b_is_active (rq_body req)\<rparr> (hc_tick c) d))"

definition deleteUser_handler :: "'k handler" where
  "deleteUser_handler c req user d =
     answer ''Failed to delete user'' (\<lambda>_. respond 200 (BMessage ''User deleted successfully''))
       (deleteUser (rq_param req) d)"

definition truthy_query :: "request \<Rightarrow> string \<Rightarrow> string option" where
  "truthy_query req name = (if truthy (rq_query req name) then rq_query req name else None)"

definition getUsersPage_handler :: "'k handler" where
  "getUsersPage_handler c req user d =
     (let page = int_or (rq_query req ''page'') 1; pageSize = int_or (rq_query req ''pageSize'') 20;
          filters = \<lparr>f_search = truthy_query req ''search'', f_role = truthy_query req ''role'',
                     f_status = truthy_query req ''status''\<rparr>
      in query_answer ''Failed to get users page'' (\<lambda>p. respond 200 (BUsersPage p)) d
           (getUsersPage page pageSize filters d))"

section \<open>controllers/permission.controller.ts\<close>

definition actorOf :: "claims option \<Rightarrow> string option" where
  "actorOf user = (case user of None \<Rightarrow> None | Some cl \<Rightarrow> orelse (cl_sub cl) (cl_user_id cl))"

definition getRoles_handler :: "'k handler" where
  "getRoles_handler c req user d =
     (d, if rq_query req ''include'' = Some ''permissions''
         then respond 200 (BRolesWithPermissions (getRolesWithPermissions d))
         else respond 200 (BRoles (getRoles d)))"

definition getAllPermissions_handler :: "'k handler" where
  "getAllPermissions_handler c req user d = (d, respond 200 (BPermissions (getPermissionCatalog d)))"

definition getRolePermissions_handler :: "'k handler" where
  "getRolePermissions_handler c req user d =
     query_answer ''Failed to get role permissions'' (\<lambda>ks. respond 200 (BRolePermissions (rq_param req) ks)) d
       (getRolePermissions (rq_param req) d)"

definition audit_description :: "string option \<Rightarrow> audit_value" where
  "audit_description desc = (case desc of None \<Rightarrow> ANull | Some s \<Rightarrow> AStr s)"

definition createRole_handler :: "'k handler" where
  "createRole_handler c req user d =
     (let b = rq_body req; permissions = nullish (b_permissions b) [] in
      answer ''Failed to create role''
        (\<lambda>r. (respond 201 (BRole r))\<lparr>rs_audit :=
               audit_emit (hc_process c) ''RBAC_ROLE_CREATED'' (actorOf user) ''Role'' (rv_role_name r) None
                 (Some [(''description'', audit_description (rv_description r)), (''permissions'', AList permissions)])\<rparr>)
        (createRole (orelse (b_str b ''roleName'') (b_str b ''name'')) (nullish (b_description b) None)
           permissions (tk_db (hc_tick c)) d))"

definition updateRole_handler :: "'k handler" where
  "updateRole_handler c req user d =
     (let b = rq_body req; role = rq_param req; newName = b_str b ''newName'';
          failed = ''Failed to update role'' in
      answer failed
        (\<lambda>v. case v of
            None \<Rightarrow> fail (JsError ''Cannot read properties of undefined'') failed
          | Some r \<Rightarrow> (respond 200 (BRole r))\<lparr>rs_audit :=
               audit_emit (hc_process c) ''RBAC_ROLE_UPDATED'' (actorOf user) ''Role'' (rv_role_name r)
                 (Some [(''role'', AStr role)])
                 (Some ((''description'', audit_description (rv_description r))
                    # (if truthy newName \<and> newName \<noteq> Some role then [(''renamedFrom'', AStr role)] else [])))\<rparr>)
        (updateRole role (b_description b) newName (tk_db (hc_tick c)) d))"

definition deleteRole_handler :: "'k handler" where
  "deleteRole_handler c req user d =
     (let role = rq_param req;
          reassignTo = or_str (rq_query req ''reassignTo'') (b_str (rq_body req) ''reassignTo'') in
      answer ''Failed to delete role''
        (\<lambda>_. (respond 200 (BRoleDeleted role))\<lparr>rs_audit :=
               audit_emit (hc_process c) ''RBAC_ROLE_DELETED'' (actorOf user) ''Role'' role
                 (Some ((''role'', AStr role)
                    # (if truthy reassignTo then [(''reassignTo'', AStr (the reassignTo))] else []))) None\<rparr>)
        (deleteRole role (if truthy reassignTo then reassignTo else None) (tk_db (hc_tick c)) d))"

definition resetRolePermissions_handler :: "'k handler" where
  "resetRolePermissions_handler c req user d =
     (let role = rq_param req in
      answer ''Failed to reset role''
        (\<lambda>ks. (respond 200 (BRolePermissions role ks))\<lparr>rs_audit :=
               audit_emit (hc_process c) ''RBAC_ROLE_PERMISSIONS_RESET'' (actorOf user) ''RolePermissions'' role None
                 (Some [(''permissions'', AList ks)])\<rparr>)
        (resetRolePermissions role (tk_db (hc_tick c)) d))"

definition setRolePermissions_handler :: "'k handler" where
  "setRolePermissions_handler c req user d =
     (let role = rq_param req in
      case b_permissions (rq_body req) of
        None \<Rightarrow> (d, respond 400 (BError ''permissions must be an array of permission keys'' None))
      | Some permissions \<Rightarrow>
          (let before = (case getRolePermissions role d of Inl _ \<Rightarrow> [] | Inr ks \<Rightarrow> ks) in
           answer ''Failed to update role permissions''
             (\<lambda>ks. (respond 200 (BRolePermissions role ks))\<lparr>rs_audit :=
                    audit_emit (hc_process c) ''RBAC_ROLE_PERMISSIONS_CHANGED'' (actorOf user) ''RolePermissions'' role
                      (Some [(''permissions'', AList before)]) (Some [(''permissions'', AList ks)])\<rparr>)
             (setRolePermissions role permissions (tk_db (hc_tick c)) d)))"

section \<open>Handlers of routes/auth.routes.ts\<close>

definition jwks_handler :: "'k handler" where
  "jwks_handler c req user d = (d, respond 200 (BJwks (getJwks (e_keys (hc_env c)))))"

text \<open>\<open>floor(EXTRACT(EPOCH FROM ...))\<close>, the second a change happened in.\<close>

definition epoch_floor :: "int \<Rightarrow> int" where
  "epoch_floor us = us div 1000000"

definition revocation_rows :: "int \<Rightarrow> 'tok db \<Rightarrow> (string \<times> int \<times> bool) list" where
  "revocation_rows sinceEpoch d =
     map (\<lambda>u. (u_user_id u, epoch_floor (u_credentials_changed_at u), u_is_active u))
       (filter (\<lambda>u. sinceEpoch * 1000000 < u_credentials_changed_at u \<or> \<not> u_is_active u) (users_t d))"

definition revocations_handler :: "'k handler" where
  "revocations_handler c req user d =
     (let serviceKey = hc_process c ''TRAVERSE_SERVICE_KEY'' in
      if \<not> truthy serviceKey
      then (d, respond 404 (BError ''Internal endpoints disabled (no TRAVERSE_SERVICE_KEY).'' None))
      else if rq_service_key req \<noteq> serviceKey then (d, respond 403 (BError ''Invalid service key.'' None))
      else
        (let sinceEpoch = (case js_parse_int (nullish (rq_query req ''sinceEpoch'') []) of
                 Some n \<Rightarrow> n | None \<Rightarrow> tk_node (hc_tick c) div 1000 - 1800)
         in (d, respond 200 (BRevocations (revocation_rows sinceEpoch d)))))"

definition with_rows :: "request \<Rightarrow> string db \<Rightarrow> (import_row list \<Rightarrow> string db \<times> 'k response) \<Rightarrow> string db \<times> 'k response" where
  "with_rows req d k =
     (case b_rows (rq_body req) of
        None \<Rightarrow> (d, respond 400 (BError ''rows array is required and must not be empty'' None))
      | Some rows \<Rightarrow>
          if rows = [] then (d, respond 400 (BError ''rows array is required and must not be empty'' None))
          else if 5000 < length rows then (d, respond 400 (BError ''Maximum 5000 rows allowed per import'' None))
          else k rows)"

definition bulkValidate_handler :: "'k handler" where
  "bulkValidate_handler c req user d =
     with_rows req d (\<lambda>rows. (d, respond 200 (BValidation (validateBulkImport rows d))))"

definition bulkExecute_handler :: "'k handler" where
  "bulkExecute_handler c req user d =
     with_rows req d (\<lambda>rows.
       case executeBulkImport (hc_env c) (tk_db (hc_tick c)) (hc_rand c) rows
              (import_options_of (b_skipErrors (rq_body req)) (b_overwriteDuplicates (rq_body req))) d of
         (d', Inl e) \<Rightarrow> (d', respond 500 (BError (error_message e) None))
       | (d', Inr r) \<Rightarrow> (d', respond 200 (BImport r)))"

definition bulkTemplate_handler :: "'k handler" where
  "bulkTemplate_handler c req user d = (d, respond 200 (BCsv generateTemplate))"

section \<open>The route table\<close>

datatype route =
    RJwks | RRevocations | RLogin | RVerify | RRefresh | RLogout | RMe | RUpdateProfile | RChangePassword
  | RCreateUser | RGetAllUsers | RUsersPage | RGetUser | RUpdateUser | RDeleteUser
  | RBulkValidate | RBulkExecute | RBulkTemplate
  | RGetRoles | RGetPermissions | RCreateRole | RUpdateRole | RDeleteRole
  | RGetRolePermissions | RSetRolePermissions | RResetRolePermissions

datatype guard = GAuthenticate | GOptionalAuth | GPermission string | GValidate "validator_lib \<Rightarrow> string db \<Rightarrow> chain list"

definition canManageUsers :: guard where
  "canManageUsers = GPermission ''admin.users.edit''"

definition canManageRbac :: guard where
  "canManageRbac = GPermission ''rbac.manage''"

fun guards :: "route \<Rightarrow> guard list" where
  "guards RJwks = []"
| "guards RRevocations = []"
| "guards RLogin = [GValidate (\<lambda>V d. validateLogin V)]"
| "guards RVerify = [GOptionalAuth]"
| "guards RRefresh = []"
| "guards RLogout = []"
| "guards RMe = [GAuthenticate]"
| "guards RUpdateProfile = [GAuthenticate, GValidate (\<lambda>V d. validateUpdateProfile V)]"
| "guards RChangePassword = [GAuthenticate, GValidate (\<lambda>V d. validateChangePassword V)]"
| "guards RCreateUser = [GAuthenticate, canManageUsers, GValidate validateCreateUser]"
| "guards RGetAllUsers = [GAuthenticate, canManageUsers]"
| "guards RUsersPage = [GAuthenticate, canManageUsers]"
| "guards RGetUser = [GAuthenticate, canManageUsers]"
| "guards RUpdateUser = [GAuthenticate, canManageUsers, GValidate validateUpdateUser]"
| "guards RDeleteUser = [GAuthenticate, canManageUsers]"
| "guards RBulkValidate = [GAuthenticate, canManageUsers]"
| "guards RBulkExecute = [GAuthenticate, canManageUsers]"
| "guards RBulkTemplate = [GAuthenticate, canManageUsers]"
| "guards RGetRoles = [GAuthenticate, canManageRbac]"
| "guards RGetPermissions = [GAuthenticate, canManageRbac]"
| "guards RCreateRole = [GAuthenticate, canManageRbac]"
| "guards RUpdateRole = [GAuthenticate, canManageRbac]"
| "guards RDeleteRole = [GAuthenticate, canManageRbac]"
| "guards RGetRolePermissions = [GAuthenticate, canManageRbac]"
| "guards RSetRolePermissions = [GAuthenticate, canManageRbac]"
| "guards RResetRolePermissions = [GAuthenticate, canManageRbac]"

fun handler_of :: "route \<Rightarrow> 'k handler" where
  "handler_of RJwks = jwks_handler"
| "handler_of RRevocations = revocations_handler"
| "handler_of RLogin = login_handler"
| "handler_of RVerify = verify_handler"
| "handler_of RRefresh = refresh_handler"
| "handler_of RLogout = logout_handler"
| "handler_of RMe = me_handler"
| "handler_of RUpdateProfile = updateProfile_handler"
| "handler_of RChangePassword = changePassword_handler"
| "handler_of RCreateUser = createUser_handler"
| "handler_of RGetAllUsers = getAllUsers_handler"
| "handler_of RUsersPage = getUsersPage_handler"
| "handler_of RGetUser = getUserById_handler"
| "handler_of RUpdateUser = updateUser_handler"
| "handler_of RDeleteUser = deleteUser_handler"
| "handler_of RBulkValidate = bulkValidate_handler"
| "handler_of RBulkExecute = bulkExecute_handler"
| "handler_of RBulkTemplate = bulkTemplate_handler"
| "handler_of RGetRoles = getRoles_handler"
| "handler_of RGetPermissions = getAllPermissions_handler"
| "handler_of RCreateRole = createRole_handler"
| "handler_of RUpdateRole = updateRole_handler"
| "handler_of RDeleteRole = deleteRole_handler"
| "handler_of RGetRolePermissions = getRolePermissions_handler"
| "handler_of RSetRolePermissions = setRolePermissions_handler"
| "handler_of RResetRolePermissions = resetRolePermissions_handler"

text \<open>The guards in order; each may answer or go on with the request and the user it leaves.\<close>

fun run_guards ::
  "guard list \<Rightarrow> 'k http_ctx \<Rightarrow> request \<Rightarrow> claims option \<Rightarrow> string db \<Rightarrow> (request \<times> claims option) verdict" where
  "run_guards [] c req user d = Inr (req, user)"
| "run_guards (GAuthenticate # gs) c req user d =
     (case authenticateToken (hc_env c) (hc_tick c) req d of
        Inl v \<Rightarrow> Inl v
      | Inr payload \<Rightarrow> run_guards gs c req (Some payload) d)"
| "run_guards (GOptionalAuth # gs) c req user d =
     run_guards gs c req (orelse (optionalAuth (hc_env c) (hc_tick c) req d) user) d"
| "run_guards (GPermission p # gs) c req user d =
     (case requirePermission p user of Inl v \<Rightarrow> Inl v | Inr _ \<Rightarrow> run_guards gs c req user d)"
| "run_guards (GValidate mk # gs) c req user d =
     (case validate (mk (hc_lib c) d) (rq_body req) of
        Inl e \<Rightarrow> Inl (errorHandler e)
      | Inr b \<Rightarrow> run_guards gs c (req\<lparr>rq_body := b\<rparr>) user d)"

definition serve :: "route \<Rightarrow> 'k http_ctx \<Rightarrow> request \<Rightarrow> string db \<Rightarrow> string db \<times> 'k response" where
  "serve r c req d =
     (case run_guards (guards r) c req None d of
        Inl (status, msg) \<Rightarrow> (d, respond status (BError msg None))
      | Inr (req', user) \<Rightarrow> handler_of r c req' user d)"

end
