(* ===== verification/Token_Store.thy ===== *)
theory Token_Store
  imports Auth_Session
begin

text \<open>
  What the session service needs of the refresh-token store, as an interface: looking a token up,
  rotating it and dropping it.  The lemmas proved from the interface follow a token through a chain
  of rotations.  The interpretation discharges the laws for the SQL statements that
  services/auth.service.ts issues.
\<close>

section \<open>The interface\<close>

abbreviation renewed :: "'tok \<Rightarrow> int \<Rightarrow> int \<Rightarrow> 'tok refresh_row \<Rightarrow> 'tok refresh_row" where
  "renewed new expiresAt now r \<equiv> r\<lparr>rt_token := new, rt_expires_at := expiresAt, rt_last_used_at := Some now\<rparr>"

locale token_store =
  fixes inv :: "'s \<Rightarrow> bool"
    and find :: "'tok \<Rightarrow> 's \<Rightarrow> 'tok refresh_row option"
    and rotate :: "'tok \<Rightarrow> 'tok \<Rightarrow> int \<Rightarrow> int \<Rightarrow> 's \<Rightarrow> app_error + 's"
    and remove :: "'tok \<Rightarrow> 's \<Rightarrow> 's"
  assumes rotate_keeps: "inv s \<Longrightarrow> rotate old new x n s = Inr s' \<Longrightarrow> inv s'"
    and find_rotate: "inv s \<Longrightarrow> rotate old new x n s = Inr s' \<Longrightarrow> find t s' =
          (case find old s of None \<Rightarrow> find t s
           | Some r \<Rightarrow> if t = new then Some (renewed new x n r) else if t = old then None else find t s)"
    and remove_keeps: "inv s \<Longrightarrow> inv (remove u s)"
    and find_remove: "inv s \<Longrightarrow> find t (remove u s) = (if t = u then None else find t s)"
begin

text \<open>A chain of rotations: the client presents the token it got last.\<close>

fun chain :: "'tok \<Rightarrow> ('tok \<times> int \<times> int) list \<Rightarrow> 's \<Rightarrow> app_error + ('tok \<times> 's)" where
  "chain tok [] s = Inr (tok, s)"
| "chain tok ((new, x, n) # rest) s = bindE (rotate tok new x n s) (chain new rest)"

lemma chain_session:
  "inv s \<Longrightarrow> find tok s = Some r \<Longrightarrow> chain tok steps s = Inr (tok', s') \<Longrightarrow>
   \<exists>r'. find tok' s' = Some r' \<and> rt_user_id r' = rt_user_id r \<and> rt_created_at r' = rt_created_at r
     \<and> rt_session_started_at r' = rt_session_started_at r"
proof (induction tok steps s arbitrary: r rule: chain.induct)
  case (2 tok new x n rest s)
  then obtain s1 where s1: "rotate tok new x n s = Inr s1" "chain new rest s1 = Inr (tok', s')"
    by (auto simp: bindE_Inr)
  moreover have "find new s1 = Some (renewed new x n r)"
    using find_rotate [OF "2.prems"(1) s1(1), of new] "2.prems"(2) by simp
  ultimately show ?case
    using "2.IH" [OF rotate_keeps [OF "2.prems"(1) s1(1)]] by fastforce
qed simp

lemma chain_keeps_none:
  "inv s \<Longrightarrow> find u s = None \<Longrightarrow> u \<notin> set (map fst steps) \<Longrightarrow> chain tok steps s = Inr (tok', s') \<Longrightarrow>
   find u s' = None"
proof (induction tok steps s rule: chain.induct)
  case (2 tok new x n rest s)
  then obtain s1 where s1: "rotate tok new x n s = Inr s1" "chain new rest s1 = Inr (tok', s')"
    by (auto simp: bindE_Inr)
  moreover have "find u s1 = None"
    using find_rotate [OF "2.prems"(1) s1(1), of u] "2.prems"(2,3) by (auto split: option.splits)
  ultimately show ?case
    using "2.IH" [OF rotate_keeps [OF "2.prems"(1) s1(1)]] "2.prems"(3) by simp
qed simp

text \<open>Every token of the chain but the last is dead.\<close>

lemma chain_dead:
  "inv s \<Longrightarrow> find tok s = Some r \<Longrightarrow> distinct (tok # map fst steps) \<Longrightarrow> chain tok steps s = Inr (tok', s') \<Longrightarrow>
   u \<in> set (tok # map fst steps) \<Longrightarrow> u \<noteq> tok' \<Longrightarrow> find u s' = None"
proof (induction tok steps s arbitrary: r rule: chain.induct)
  case (2 tok new x n rest s)
  then obtain s1 where s1: "rotate tok new x n s = Inr s1" "chain new rest s1 = Inr (tok', s')"
    by (auto simp: bindE_Inr)
  note inv1 = rotate_keeps [OF "2.prems"(1) s1(1)]
  have new: "find new s1 = Some (renewed new x n r)"
    using find_rotate [OF "2.prems"(1) s1(1), of new] "2.prems"(2) by simp
  show ?case
  proof (cases "u = tok")
    case True
    then have "find u s1 = None"
      using find_rotate [OF "2.prems"(1) s1(1), of u] "2.prems"(2,3) by auto
    then show ?thesis
      using chain_keeps_none [OF inv1 _ _ s1(2)] True "2.prems"(3) by auto
  next
    case False
    then show ?thesis
      using "2.IH" [OF inv1 new _ s1(2)] "2.prems"(3,5,6) by auto
  qed
qed simp

end

section \<open>The statements of the service implement it\<close>

definition find_token :: "'tok \<Rightarrow> 'tok db \<Rightarrow> 'tok refresh_row option" where
  "find_token token d = (case filter (\<lambda>r. rt_token r = token) (refresh_tokens_t d) of [] \<Rightarrow> None | r # _ \<Rightarrow> Some r)"

lemma find_token_Some:
  "db_inv d \<Longrightarrow> find_token token d = Some r \<longleftrightarrow> r \<in> set (refresh_tokens_t d) \<and> rt_token r = token"
  using filter_unique [of rt_token "refresh_tokens_t d" r] tokens_distinct [of d]
  by (auto simp: find_token_def split: list.splits dest: filter_hd_memb)

lemma find_token_None: "find_token token d = None \<longleftrightarrow> token \<notin> rt_token ` set (refresh_tokens_t d)"
  by (auto simp: find_token_def filter_empty_conv image_iff split: list.splits)
    (metis (mono_tags) filter_hd_memb)

lemma rotate_token_Inr:
  "rotate_token old new x n d = Inr d' \<longleftrightarrow>
   d' = d\<lparr>refresh_tokens_t := sql_update (\<lambda>r. rt_token r = old) (renewed new x n) (refresh_tokens_t d)\<rparr>
   \<and> tokens_ok d'"
  by (auto simp: rotate_token_def update_tokens_def db_ok)

lemma rotate_token_keeps: "db_inv d \<Longrightarrow> rotate_token old new x n d = Inr d' \<Longrightarrow> db_inv d'"
  unfolding rotate_token_def by (rule update_tokens_keeps)

lemma rotate_token_find:
  assumes inv: "db_inv d" and rot: "rotate_token old new x n d = Inr d'"
  shows "find_token t d' = (case find_token old d of None \<Rightarrow> find_token t d
      | Some r \<Rightarrow> if t = new then Some (renewed new x n r) else if t = old then None else find_token t d)"
proof -
  have inv': "db_inv d'" by (rule rotate_token_keeps [OF inv rot])
  have rows: "refresh_tokens_t d' = sql_update (\<lambda>r. rt_token r = old) (renewed new x n) (refresh_tokens_t d)"
    using rot by (simp add: rotate_token_Inr)
  show ?thesis
  proof (cases "find_token old d")
    case None
    then have "refresh_tokens_t d' = refresh_tokens_t d"
      unfolding rows find_token_None by (intro sql_update_none) auto
    with None show ?thesis by (simp add: find_token_def)
  next
    case (Some r)
    then have r: "r \<in> set (refresh_tokens_t d)" "rt_token r = old"
      using find_token_Some [OF inv] by auto
    have members: "q \<in> set (refresh_tokens_t d') \<longleftrightarrow>
        q = renewed new x n r \<or> (q \<in> set (refresh_tokens_t d) \<and> rt_token q \<noteq> old)" for q
    proof -
      have uniq: "p = r" if "p \<in> set (refresh_tokens_t d)" "rt_token p = old" for p
        using unique_row [OF tokens_distinct [OF inv] that(1) r(1)] that(2) r(2) by simp
      have "q \<in> set (refresh_tokens_t d') \<longleftrightarrow>
          (\<exists>p \<in> set (refresh_tokens_t d). q = (if rt_token p = old then renewed new x n p else p))"
        by (auto simp only: rows set_sql_update image_iff)
      then show ?thesis using r uniq by metis
    qed
    have "find_token new d' = Some (renewed new x n r)"
      using members by (simp add: find_token_Some [OF inv'])
    moreover have "find_token old d' = None" if "old \<noteq> new"
      using members that by (auto simp: find_token_None)
    moreover have "find_token t d' = find_token t d" if "t \<noteq> new" "t \<noteq> old"
    proof (cases "find_token t d")
      case None
      with members that have "find_token t d' = None" by (auto simp: find_token_None image_iff)
      with None show ?thesis by simp
    next
      case (Some q)
      with members that have "find_token t d' = Some q"
        by (simp add: find_token_Some [OF inv] find_token_Some [OF inv'])
      with Some show ?thesis by simp
    qed
    ultimately show ?thesis using Some by auto
  qed
qed

lemma find_delete_token: "find_token t (delete_token u d) = (if t = u then None else find_token t d)"
proof -
  have "filter (\<lambda>r. rt_token r = t) (filter (\<lambda>r. rt_token r \<noteq> u) rs) =
      (if t = u then [] else filter (\<lambda>r. rt_token r = t) rs)" for rs :: "'a refresh_row list"
    by (induction rs) auto
  then show ?thesis
    by (simp add: find_token_def delete_token_def delete_tokens_def sql_delete_def)
qed

lemma delete_token_keeps: "db_inv d \<Longrightarrow> db_inv (delete_token u d)"
  by (simp add: delete_token_def delete_tokens_keeps)

interpretation ts: token_store db_inv find_token rotate_token delete_token
  by unfold_locales
    (auto simp: rotate_token_find find_delete_token intro: rotate_token_keeps delete_token_keeps)

end
