(* ===== verification/Catalog_Sync.thy ===== *)
theory Catalog_Sync
  imports Rbac_Laws
begin

text \<open>
  What \<open>ensurePermissionCatalog\<close> (rbac/catalog-sync.ts) does at startup, row by row: the catalog
  rows are inserted or refreshed, everything else is left alone, and a second run finds nothing to
  do.  With it, the default mapping of every built-in role can be restored.
\<close>

definition in_sync :: "'tok db \<Rightarrow> perm_def \<Rightarrow> bool" where
  "in_sync d p \<longleftrightarrow> list_ex (\<lambda>r. p_permission_key r = pd_key p \<and> p_description r = Some (pd_description p)
                          \<and> p_category r = Some (pd_category p)) (permissions_t d)"

lemma in_sync_iff:
  "in_sync d p \<longleftrightarrow> (\<exists>r \<in> set (permissions_t d). p_permission_key r = pd_key p
      \<and> p_description r = Some (pd_description p) \<and> p_category r = Some (pd_category p))"
  by (simp add: in_sync_def list_ex_iff)

definition def_widths :: "perm_def \<Rightarrow> bool" where
  "def_widths p \<longleftrightarrow> length (pd_key p) \<le> 100 \<and> length (pd_description p) \<le> 500 \<and> length (pd_category p) \<le> 50"

lemma catalog_widths: "list_all def_widths PERMISSION_CATALOG"
  by code_simp

abbreviation refresh_def :: "perm_def \<Rightarrow> perm_row \<Rightarrow> perm_row" where
  "refresh_def p r \<equiv> r\<lparr>p_description := Some (pd_description p), p_category := Some (pd_category p)\<rparr>"

abbreviation sync_with :: "'tok db \<Rightarrow> perm_row list \<Rightarrow> 'tok db" where
  "sync_with d t \<equiv> d\<lparr>permissions_t := t\<rparr>"

lemma filter_perm_row: "db_inv d \<Longrightarrow> r \<in> set (permissions_t d) \<Longrightarrow>
   filter (\<lambda>x. p_permission_key x = p_permission_key r) (permissions_t d) = [r]"
  using filter_unique [of p_permission_key "permissions_t d" r]
  by (simp add: db_inv_def perms_ok_def perm_keys_def)

lemma insert_perm_eq:
  "db_inv d \<Longrightarrow> p_permission_key r \<notin> set (perm_keys d) \<Longrightarrow> perm_widths r \<Longrightarrow>
   insert_perm r d = Inr (sync_with d (permissions_t d @ [r]))"
  by (auto simp: insert_perm_def db_ok db_inv_def perms_ok_def column_defs)

lemma refresh_perm_eq:
  assumes "db_inv d" and "def_widths p"
  shows "update_perms (\<lambda>r. p_permission_key r = pd_key p) (refresh_def p) d =
    Inr (sync_with d (sql_update (\<lambda>r. p_permission_key r = pd_key p) (refresh_def p) (permissions_t d)))"
proof -
  have "map p_permission_key (sql_update (\<lambda>r. p_permission_key r = pd_key p) (refresh_def p) (permissions_t d))
      = map p_permission_key (permissions_t d)"
    by (rule map_sql_update_frame) simp
  with assms show ?thesis
    by (auto simp: update_perms_def db_ok db_inv_def perms_ok_def column_defs list_all_iff ball_sql_update
        perm_widths_def def_widths_def opt_width_def simp del: list.map_comp)
qed

text \<open>One catalog row.\<close>

definition synced_row :: "'tok db \<Rightarrow> perm_def \<Rightarrow> 'tok db \<Rightarrow> bool" where
  "synced_row d p d' \<longleftrightarrow> d' = sync_with d (permissions_t d') \<and> db_inv d' \<and> in_sync d' p
     \<and> (\<forall>r. p_permission_key r \<noteq> pd_key p \<longrightarrow> (r \<in> set (permissions_t d') \<longleftrightarrow> r \<in> set (permissions_t d)))
     \<and> (in_sync d p \<longrightarrow> d' = d)"

lemma upsert_permission_row:
  assumes inv: "db_inv d" and w: "def_widths p"
  shows "\<exists>d'. upsert_permission p now d = Inr (d', if in_sync d p then 0 else 1) \<and> synced_row d p d'"
proof (cases "pd_key p \<in> set (perm_keys d)")
  case False
  let ?r = "\<lparr>p_permission_key = pd_key p, p_description = Some (pd_description p),
             p_category = Some (pd_category p), p_created_at = now\<rparr>"
  have ins: "insert_perm ?r d = Inr (sync_with d (permissions_t d @ [?r]))"
    using w by (intro insert_perm_eq [OF inv]) (simp_all add: False perm_widths_def def_widths_def opt_width_def)
  have none: "filter (\<lambda>r. p_permission_key r = pd_key p) (permissions_t d) = []" "\<not> in_sync d p"
    using False by (force simp: filter_empty_conv column_defs in_sync_iff)+
  have "synced_row d p (sync_with d (permissions_t d @ [?r]))"
    using insert_perm_keeps [OF inv ins] none(2) by (auto simp: synced_row_def in_sync_iff)
  with ins none show ?thesis by (simp add: upsert_permission_def)
next
  case True
  then obtain r where r: "r \<in> set (permissions_t d)" "p_permission_key r = pd_key p"
    by (auto simp: column_defs)
  have only: "filter (\<lambda>x. p_permission_key x = pd_key p) (permissions_t d) = [r]"
    using filter_perm_row [OF inv r(1)] r(2) by simp
  have same: "x = r" if "x \<in> set (permissions_t d)" "p_permission_key x = pd_key p" for x
    using arg_cong [OF only, of set] that by auto
  show ?thesis
  proof (cases "in_sync d p")
    case True
    then have "p_description r = Some (pd_description p)" "p_category r = Some (pd_category p)"
      using same by (auto simp: in_sync_iff)
    with True only inv show ?thesis
      by (simp add: upsert_permission_def synced_row_def)
  next
    case False
    then have stale: "p_description r \<noteq> Some (pd_description p) \<or> p_category r \<noteq> Some (pd_category p)"
      using r by (auto simp: in_sync_iff)
    let ?d = "sync_with d (sql_update (\<lambda>r. p_permission_key r = pd_key p) (refresh_def p) (permissions_t d))"
    have up: "update_perms (\<lambda>r. p_permission_key r = pd_key p) (refresh_def p) d = Inr ?d"
      by (rule refresh_perm_eq [OF inv w])
    have "db_inv ?d" by (rule update_perms_keeps [OF inv up]) simp
    moreover have "in_sync ?d p" using r by (auto simp: in_sync_iff bex_sql_update)
    ultimately have "synced_row d p ?d"
      using False by (auto simp: synced_row_def set_sql_update split: if_splits)
    with up only stale False show ?thesis by (auto simp: upsert_permission_def)
  qed
qed

lemma synced_row_other:
  assumes "synced_row d p d'" and "pd_key q \<noteq> pd_key p"
  shows "in_sync d' q \<longleftrightarrow> in_sync d q"
proof -
  have "r \<in> set (permissions_t d') \<longleftrightarrow> r \<in> set (permissions_t d)" if "p_permission_key r = pd_key q" for r
    using assms that by (simp add: synced_row_def)
  then show ?thesis by (auto simp: in_sync_iff)
qed

text \<open>The whole catalog.\<close>

lemma upsert_all_synced:
  assumes "db_inv d" and "list_all def_widths ps" and "distinct (map pd_key ps)"
  shows "\<exists>d'. upsert_all ps now d n = (d', Inr (n + length (filter (\<lambda>p. \<not> in_sync d p) ps)))
    \<and> d' = sync_with d (permissions_t d') \<and> db_inv d' \<and> list_all (in_sync d') ps
    \<and> (\<forall>q. pd_key q \<notin> pd_key ` set ps \<longrightarrow> in_sync d' q = in_sync d q)
    \<and> (\<forall>r. p_permission_key r \<notin> pd_key ` set ps \<longrightarrow> (r \<in> set (permissions_t d') \<longleftrightarrow> r \<in> set (permissions_t d)))
    \<and> (list_all (in_sync d) ps \<longrightarrow> d' = d)"
  using assms
proof (induction ps arbitrary: d n)
  case (Cons p ps)
  obtain d1 where up: "upsert_permission p now d = Inr (d1, if in_sync d p then 0 else 1)"
    and row: "synced_row d p d1"
    using upsert_permission_row [of d p now] Cons.prems by auto
  have other: "in_sync d1 q = in_sync d q" if "q \<in> set ps" for q
    using Cons.prems(3) that by (intro synced_row_other [OF row]) (force simp: image_iff)
  have inv1: "db_inv d1" and frame: "d1 = sync_with d (permissions_t d1)" and p1: "in_sync d1 p"
    and rest: "\<And>r. p_permission_key r \<noteq> pd_key p \<Longrightarrow> r \<in> set (permissions_t d1) \<longleftrightarrow> r \<in> set (permissions_t d)"
    and id: "in_sync d p \<Longrightarrow> d1 = d"
    using row by (simp_all add: synced_row_def)
  from Cons.IH [OF inv1, of "n + (if in_sync d p then 0 else 1)"] Cons.prems obtain d' where
    d': "upsert_all ps now d1 (n + (if in_sync d p then 0 else 1))
         = (d', Inr (n + (if in_sync d p then 0 else 1) + length (filter (\<lambda>p. \<not> in_sync d1 p) ps)))"
      "d' = sync_with d1 (permissions_t d')" "db_inv d'" "list_all (in_sync d') ps"
      "\<And>q. pd_key q \<notin> pd_key ` set ps \<Longrightarrow> in_sync d' q = in_sync d1 q"
      "\<And>r. p_permission_key r \<notin> pd_key ` set ps \<Longrightarrow> r \<in> set (permissions_t d') \<longleftrightarrow> r \<in> set (permissions_t d1)"
      "list_all (in_sync d1) ps \<Longrightarrow> d' = d1"
    by auto
  have count: "filter (\<lambda>p. \<not> in_sync d1 p) ps = filter (\<lambda>p. \<not> in_sync d p) ps"
    by (rule filter_cong) (simp_all add: other)
  have "upsert_all (p # ps) now d n = (d', Inr (n + length (filter (\<lambda>p. \<not> in_sync d p) (p # ps))))"
    using up d'(1) count by simp
  moreover have "d' = sync_with d (permissions_t d')"
    using d'(2) frame by (metis db.surjective db.update_convs(2))
  moreover have "list_all (in_sync d') (p # ps)"
    using d'(4) d'(5) [of p] p1 Cons.prems(3) by simp
  moreover have "\<forall>q. pd_key q \<notin> pd_key ` set (p # ps) \<longrightarrow> in_sync d' q = in_sync d q"
    using d'(5) synced_row_other [OF row] by simp
  moreover have "\<forall>r. p_permission_key r \<notin> pd_key ` set (p # ps) \<longrightarrow> (r \<in> set (permissions_t d') \<longleftrightarrow> r \<in> set (permissions_t d))"
    using d'(6) rest by simp
  moreover have "list_all (in_sync d) (p # ps) \<longrightarrow> d' = d"
    using d'(7) id other by (auto simp: list_all_iff)
  ultimately show ?case using d'(3) by blast
qed simp

lemma catalog_sync_complete:
  assumes "db_inv d"
  shows "\<exists>d'. ensurePermissionCatalog now d = (d', Inr (length (filter (\<lambda>p. \<not> in_sync d p) PERMISSION_CATALOG)))
    \<and> db_inv d' \<and> list_all (in_sync d') PERMISSION_CATALOG \<and> d' = d\<lparr>permissions_t := permissions_t d'\<rparr>
    \<and> (\<forall>r. p_permission_key r \<notin> set ALL_PERMISSION_KEYS \<longrightarrow>
           (r \<in> set (permissions_t d') \<longleftrightarrow> r \<in> set (permissions_t d)))
    \<and> (\<forall>later. ensurePermissionCatalog later d' = (d', Inr 0))"
proof -
  have "distinct (map pd_key PERMISSION_CATALOG)"
    using ALL_keys_distinct by (simp add: ALL_PERMISSION_KEYS_def)
  note sync = upsert_all_synced [OF _ catalog_widths this]
  obtain d' where d': "upsert_all PERMISSION_CATALOG now d 0
        = (d', Inr (0 + length (filter (\<lambda>p. \<not> in_sync d p) PERMISSION_CATALOG)))"
      "d' = d\<lparr>permissions_t := permissions_t d'\<rparr>" "db_inv d'" "list_all (in_sync d') PERMISSION_CATALOG"
      "\<forall>r. p_permission_key r \<notin> pd_key ` set PERMISSION_CATALOG \<longrightarrow>
           (r \<in> set (permissions_t d') \<longleftrightarrow> r \<in> set (permissions_t d))"
    using sync [OF assms, of now 0] by blast
  have "ensurePermissionCatalog later d' = (d', Inr 0)" for later
  proof -
    have "filter (\<lambda>p. \<not> in_sync d' p) PERMISSION_CATALOG = []"
      using d'(4) by (simp add: list_all_iff filter_empty_conv)
    then show ?thesis
      using sync [OF d'(3), of later 0] d'(4) by (auto simp: ensurePermissionCatalog_def)
  qed
  with d' show ?thesis
    by (auto simp: ensurePermissionCatalog_def ALL_PERMISSION_KEYS_def)
qed

end
