(* ===== verification/Rbac_Props.thy ===== *)
theory Rbac_Props
  imports Catalog_Sync
begin

text \<open>
  The properties of the RBAC service: the effect of every operation on the mapping, on the users'
  revocation epochs and on their sessions, atomic failures, the built-in roles, and the catalog.
\<close>

section \<open>A store for the witnesses\<close>

definition demo_role :: "string \<Rightarrow> bool \<Rightarrow> role_row" where
  "demo_role n s = \<lparr>r_role_name = n, r_description = None, r_is_system_role = s, r_created_at = 0\<rparr>"

definition demo_user :: "string \<Rightarrow> string \<Rightarrow> string \<Rightarrow> user_row" where
  "demo_user i n r = \<lparr>u_user_id = i, u_username = n, u_email = n @ ''@ob.io'', u_password_hash = ''h'' @ n,
     u_full_name = Some n, u_role = r, u_is_active = True, u_credentials_changed_at = 0,
     u_created_at = 0, u_updated_at = 0\<rparr>"

definition demo_token :: "string \<Rightarrow> string \<Rightarrow> string refresh_row" where
  "demo_token i t = \<lparr>rt_user_id = i, rt_token = t, rt_expires_at = 1000000000000, rt_created_at = 0,
     rt_last_used_at = Some 0, rt_session_started_at = Some 0\<rparr>"

definition demo_perm :: "string \<Rightarrow> perm_row" where
  "demo_perm k = \<lparr>p_permission_key = k, p_description = None, p_category = None, p_created_at = 0\<rparr>"

definition demo_db :: "string db" where
  "demo_db = \<lparr>roles_t = [demo_role ''Admin'' True, demo_role ''Engineer'' True, demo_role ''Operator'' True,
                        demo_role ''Viewer'' True, demo_role ''Shift'' False],
     permissions_t = [demo_perm ''alarm.view'', demo_perm ''alarm.shelve''],
     role_permissions_t = [(''Operator'', ''alarm.view''), (''Shift'', ''alarm.view''), (''Operator'', ''alarm.shelve'')],
     users_t = [demo_user ''u1'' ''ada'' ''Admin'', demo_user ''u2'' ''bob'' ''Operator'', demo_user ''u3'' ''cyd'' ''Shift''],
     refresh_tokens_t = [demo_token ''u1'' ''t1'', demo_token ''u2'' ''t2'', demo_token ''u3'' ''t3'']\<rparr>"

lemma demo_db_inv: "db_inv demo_db"
  by code_simp

section \<open>The built-in roles\<close>

definition builtin_ok :: "'tok db \<Rightarrow> bool" where
  "builtin_ok d \<longleftrightarrow> list_all (set_mem (role_names d)) SYSTEM_ROLE_NAMES
     \<and> list_all (\<lambda>r. r_is_system_role r = isSystemRole (r_role_name r)) (roles_t d)"

lemma demo_builtin_ok: "builtin_ok demo_db"
  by code_simp

lemma builtin_ok_iff: "builtin_ok d \<longleftrightarrow> set SYSTEM_ROLE_NAMES \<subseteq> set (role_names d)
     \<and> (\<forall>r \<in> set (roles_t d). r_is_system_role r = isSystemRole (r_role_name r))"
  by (auto simp: builtin_ok_def list_all_iff)

lemma isSystemRole_iff: "isSystemRole n \<longleftrightarrow> n \<in> set SYSTEM_ROLE_NAMES"
  by (simp add: isSystemRole_def)

lemma role_names_set: "set (role_names d) = r_role_name ` set (roles_t d)"
  by (simp add: role_names_def)

lemma createRole_builtin:
  "db_inv d \<Longrightarrow> builtin_ok d \<Longrightarrow> builtin_ok (fst (createRole name desc keys now d))"
  by (auto simp: createRole_eq Let_def builtin_ok_iff role_names_set)

lemma setRolePermissions_builtin:
  "db_inv d \<Longrightarrow> builtin_ok d \<Longrightarrow> builtin_ok (fst (setRolePermissions role keys now d))"
  by (auto simp: setRolePermissions_eq builtin_ok_iff role_names_set mapping_replaced_def)

lemma role_described_builtin: "builtin_ok (role_described role desc d) \<longleftrightarrow> builtin_ok d"
proof -
  have "(\<forall>r \<in> set (roles_t (role_described role desc d)). r_is_system_role r = isSystemRole (r_role_name r)) \<longleftrightarrow>
      (\<forall>r \<in> set (roles_t d). r_is_system_role r = isSystemRole (r_role_name r))"
    by (auto simp: role_described_def ball_sql_update)
  then show ?thesis by (simp add: builtin_ok_iff)
qed

lemma role_renamed_builtin:
  assumes "builtin_ok d" "row \<in> set (roles_t d)" "\<not> r_is_system_role row" "\<not> isSystemRole newName"
  shows "builtin_ok (role_renamed row newName now d)"
proof -
  have "r_role_name row \<notin> set SYSTEM_ROLE_NAMES"
    using assms by (auto simp: builtin_ok_iff isSystemRole_iff)
  then show ?thesis
    using assms by (auto simp: builtin_ok_iff role_names_set role_renamed_def subset_iff)
qed

lemma row_of_role: "role \<in> set (role_names d) \<Longrightarrow> \<exists>row \<in> set (roles_t d). r_role_name row = role"
  by (auto simp: role_names_def)

lemma updateRole_builtin:
  assumes "db_inv d" and "builtin_ok d"
  shows "builtin_ok (fst (updateRole role desc newName now d))"
proof (cases "role \<in> set (role_names d)")
  case True
  then obtain row where row: "row \<in> set (roles_t d)" "role = r_role_name row"
    using row_of_role by blast
  have sys: "r_is_system_role row \<longleftrightarrow> isSystemRole role"
    using assms(2) row by (simp add: builtin_ok_iff)
  have "described desc row \<in> set (roles_t (role_described role desc d))"
    using described_row [OF row(1)] row(2) by simp
  then have "builtin_ok (role_renamed (described desc row) new now (role_described role desc d))"
    if "\<not> r_is_system_role row" "\<not> isSystemRole new" for new
    using assms(2) that by (intro role_renamed_builtin) (simp_all add: role_described_builtin)
  then show ?thesis
    using assms unfolding row(2)
    by (cases desc) (simp_all add: updateRole_eq [OF assms(1) row(1)] Let_def renamed_or_same_def role_described_builtin)
qed (use assms in \<open>simp add: updateRole_missing\<close>)

lemma users_moved_frame [simp]:
  "roles_t (users_moved new role now d) = roles_t d"
  "role_permissions_t (users_moved new role now d) = role_permissions_t d"
  "refresh_tokens_t (users_moved new role now d) = refresh_tokens_t d"
  by (simp_all add: users_moved_def)

lemma deleteRole_builtin:
  assumes "db_inv d" and "builtin_ok d"
  shows "builtin_ok (fst (deleteRole role to now d))"
proof (cases "role \<in> set (role_names d)")
  case True
  then obtain row where row: "row \<in> set (roles_t d)" "role = r_role_name row"
    using row_of_role by blast
  have "builtin_ok (role_dropped role d')" if "\<not> r_is_system_role row" "roles_t d' = roles_t d" for d' :: "'a db"
    using assms(2) row that
    by (auto simp: builtin_ok_iff role_names_set role_dropped_def subset_iff isSystemRole_iff)
  then show ?thesis
    using assms unfolding row(2)
    by (simp add: deleteRole_eq [OF assms(1) row(1)] Let_def)
qed (use assms in \<open>simp add: deleteRole_missing\<close>)

lemma reset_builtin:
  "db_inv d \<Longrightarrow> builtin_ok d \<Longrightarrow> builtin_ok (fst (resetRolePermissions role now d))"
  by (simp add: resetRolePermissions_def setRolePermissions_builtin split: option.split)


section \<open>Failures\<close>

lemma rbac_atomic:
  assumes "db_inv d"
  shows "(\<not> is_inr (snd (createRole name desc keys now d)) \<longrightarrow> fst (createRole name desc keys now d) = d)
    \<and> (\<not> is_inr (snd (updateRole role dsc newName now d)) \<longrightarrow> fst (updateRole role dsc newName now d) = d)
    \<and> (\<not> is_inr (snd (deleteRole role to now d)) \<longrightarrow> fst (deleteRole role to now d) = d)
    \<and> (\<not> is_inr (snd (setRolePermissions role keys now d)) \<longrightarrow> fst (setRolePermissions role keys now d) = d)
    \<and> (\<not> is_inr (snd (resetRolePermissions role now d)) \<longrightarrow> fst (resetRolePermissions role now d) = d)"
proof (intro conjI)
  have err: "\<exists>e. r = Inl e" if "\<not> is_inr r" for r :: "app_error + 'x"
    using that by (cases r) simp_all
  show "\<not> is_inr (snd (createRole name desc keys now d)) \<longrightarrow> fst (createRole name desc keys now d) = d"
    by (auto dest!: err create_txn.txn_atomic simp: createRole_def Let_def)
  show "\<not> is_inr (snd (updateRole role dsc newName now d)) \<longrightarrow> fst (updateRole role dsc newName now d) = d"
    by (auto dest!: err update_txn.txn_atomic simp: updateRole_def split: list.splits if_splits)
  show "\<not> is_inr (snd (deleteRole role to now d)) \<longrightarrow> fst (deleteRole role to now d) = d"
    by (auto dest!: err delete_txn.txn_atomic simp: deleteRole_def Let_def split: list.splits if_splits)
  show "\<not> is_inr (snd (setRolePermissions role keys now d)) \<longrightarrow> fst (setRolePermissions role keys now d) = d" for role keys
    by (simp add: setRolePermissions_eq [OF assms])
  then show "\<not> is_inr (snd (resetRolePermissions role now d)) \<longrightarrow> fst (resetRolePermissions role now d) = d"
    by (simp add: resetRolePermissions_def split: option.split)
qed

section \<open>Properties\<close>

lemma mapping_replaced_frame [simp]:
  "roles_t (mapping_replaced role ks d) = roles_t d" "permissions_t (mapping_replaced role ks d) = permissions_t d"
  "users_t (mapping_replaced role ks d) = users_t d"
  "refresh_tokens_t (mapping_replaced role ks d) = refresh_tokens_t d"
  by (simp_all add: mapping_replaced_def)

lemma role_revoked_effect:
  "getPermissionKeysForRole r (role_revoked role now d) = getPermissionKeysForRole r d"
  "users_t (role_revoked role now d) =
     map (\<lambda>u. if u_role u = role then u\<lparr>u_credentials_changed_at := now\<rparr> else u) (users_t d)"
  "refresh_tokens_t (role_revoked role now d) =
     filter (\<lambda>t. \<not> (\<exists>u \<in> set (users_t d). u_role u = role \<and> u_user_id u = rt_user_id t)) (refresh_tokens_t d)"
  by (simp_all add: getPermissionKeysForRole_def role_revoked_def sql_update_def sql_delete_def)

text \<open>
  Replacing the mapping of a role. The call fails, leaving the store untouched, exactly when the role
  does not exist or a key is not in the catalog. Otherwise the role has exactly the requested keys,
  every other role keeps its own, every holder's revocation epoch is the time of the call, no
  refresh token of a holder is left, and users and tokens of other roles are untouched.
\<close>

theorem setRolePermissions_effect:
  assumes "db_inv d"
  shows "case setRolePermissions role keys now d of
      (d', Inl e) \<Rightarrow> d' = d \<and>
        (if role \<in> set (role_names d)
         then \<not> set keys \<subseteq> set (perm_keys d) \<and> e = unknown_error (unknown_keys (js_uniq keys) d)
         else e = NotFoundError ''Role'')
    | (d', Inr ks) \<Rightarrow>
        role \<in> set (role_names d) \<and> set keys \<subseteq> set (perm_keys d) \<and> ks = js_uniq keys \<and> db_inv d'
        \<and> getPermissionKeysForRole role d' = sort ks
        \<and> (\<forall>r. r \<noteq> role \<longrightarrow> getPermissionKeysForRole r d' = getPermissionKeysForRole r d)
        \<and> users_t d' = map (\<lambda>u. if u_role u = role then u\<lparr>u_credentials_changed_at := now\<rparr> else u) (users_t d)
        \<and> refresh_tokens_t d' = filter (\<lambda>t. \<not> (\<exists>u \<in> set (users_t d). u_role u = role \<and> u_user_id u = rt_user_id t))
                                 (refresh_tokens_t d)"
proof -
  have "db_inv (role_revoked role now (mapping_replaced role (js_uniq keys) d))"
    if "role \<in> set (role_names d)" "set keys \<subseteq> set (perm_keys d)"
    using mapping_replaced_keeps [OF assms, of role "js_uniq keys"] that by (simp add: role_revoked_keeps)
  then show ?thesis
    using assms by (simp add: setRolePermissions_eq keys_mapping_replaced role_revoked_effect)
qed

theorem setRolePermissions_effect_witness:
  "db_inv demo_db \<and>
   getPermissionKeysForRole ''Operator'' (fst (setRolePermissions ''Operator'' [''alarm.view''] 7 demo_db)) = [''alarm.view'']"
proof -
  have "is_inr (snd (setRolePermissions ''Operator'' [''alarm.view''] 7 demo_db))" by code_simp
  then obtain d' ks where "setRolePermissions ''Operator'' [''alarm.view''] 7 demo_db = (d', Inr ks)"
    using op_ok by blast
  with setRolePermissions_effect [OF demo_db_inv, of "''Operator''" "[''alarm.view'']" 7]
  show ?thesis by (simp add: demo_db_inv js_uniq_def)
qed

text \<open>
  Renaming a custom role carries everything over: the new name was free and is not built-in, the
  old name is gone, the permissions of the old name are those of the new one, every holder has the
  new role and a revocation epoch at the time of the call, and nothing else changes.
\<close>

theorem updateRole_rename_effect:
  assumes "db_inv d" and "wants_rename role (Some newName)"
    and "updateRole role desc (Some newName) now d = (d', Inr v)"
  shows "role \<in> set (role_names d) \<and> js_trim newName \<notin> set (role_names d) \<and> \<not> isSystemRole (js_trim newName)
    \<and> (\<exists>row \<in> set (roles_t d). r_role_name row = role \<and> \<not> r_is_system_role row)
    \<and> set (role_names d') = insert (js_trim newName) (set (role_names d) - {role})
    \<and> getPermissionKeysForRole (js_trim newName) d' = getPermissionKeysForRole role d
    \<and> (\<forall>r. r \<noteq> role \<and> r \<noteq> js_trim newName \<longrightarrow> getPermissionKeysForRole r d' = getPermissionKeysForRole r d)
    \<and> users_t d' = map (\<lambda>u. if u_role u = role then u\<lparr>u_role := js_trim newName, u_credentials_changed_at := now\<rparr>
                              else u) (users_t d)
    \<and> refresh_tokens_t d' = refresh_tokens_t d \<and> db_inv d'"
proof -
  have "role \<in> set (role_names d)"
    using assms(3) updateRole_missing [of role d desc "Some newName" now] by (cases "role \<in> set (role_names d)") simp_all
  then obtain row where row: "row \<in> set (roles_t d)" "role = r_role_name row"
    using row_of_role by blast
  let ?d = "role_described role desc d" and ?new = "js_trim newName"
  have cond: "?new \<notin> set (role_names d)" "\<not> isSystemRole ?new" "\<not> r_is_system_role row"
    and d': "d' = role_renamed (described desc row) ?new now ?d"
    using assms(2,3) unfolding row(2)
    by (simp_all add: updateRole_eq [OF assms(1) row(1)] Let_def renamed_or_same_def split: if_splits)
  have fresh: "fst m \<noteq> ?new" if "m \<in> set (role_permissions_t d)" for m
    using cond(1) mapping_role_exists [OF assms(1), of "fst m" "snd m"] that by auto
  have moved: "map snd (filter (\<lambda>m. fst m = ?new) (sql_update (\<lambda>m. fst m = role) (\<lambda>m. (?new, snd m)) t))
      = map snd (filter (\<lambda>m. fst m = role) t)" if "\<And>m. m \<in> set t \<Longrightarrow> fst m \<noteq> ?new" for t :: "(string \<times> string) list"
    using that by (induction t) simp_all
  have other: "filter (\<lambda>m. fst m = r) (sql_update (\<lambda>m. fst m = role) (\<lambda>m. (?new, snd m)) t)
      = filter (\<lambda>m. fst m = r) t" if "r \<noteq> role" "r \<noteq> ?new" for r and t :: "(string \<times> string) list"
    using that by (induction t) auto
  have "r_role_name ` set (roles_t ?d) = set (role_names d)"
    using role_names_set [of ?d] by simp
  then have names: "set (role_names d') = insert ?new (set (role_names d) - {role})"
    by (simp add: d' role_renamed_def role_names_set row(2))
  have "getPermissionKeysForRole ?new d' = getPermissionKeysForRole role d"
    using moved [of "role_permissions_t d"] fresh by (simp add: d' getPermissionKeysForRole_def role_renamed_def row(2))
  moreover have "getPermissionKeysForRole r d' = getPermissionKeysForRole r d" if "r \<noteq> role" "r \<noteq> ?new" for r
    using other [OF that] by (simp add: d' getPermissionKeysForRole_def role_renamed_def row(2))
  moreover have "db_inv d'"
    using updateRole_keeps [OF assms(1), of role desc "Some newName" now] assms(3) by simp
  moreover have "users_t d' = map (\<lambda>u. if u_role u = role
      then u\<lparr>u_role := ?new, u_credentials_changed_at := now\<rparr> else u) (users_t d)"
    "refresh_tokens_t d' = refresh_tokens_t d"
    by (simp_all add: d' role_renamed_def sql_update_def row(2))
  ultimately show ?thesis
    using row cond names \<open>role \<in> set (role_names d)\<close> by blast
qed

theorem updateRole_rename_effect_witness:
  "updateRole ''Shift'' None (Some '' Lead '') 7 demo_db \<noteq> (demo_db, Inl (NotFoundError ''Role''))
   \<and> getPermissionKeysForRole ''Lead'' (fst (updateRole ''Shift'' None (Some '' Lead '') 7 demo_db)) = [''alarm.view'']"
proof -
  have w: "wants_rename ''Shift'' (Some '' Lead '')" and t: "js_trim '' Lead '' = ''Lead''"
    and k: "getPermissionKeysForRole ''Shift'' demo_db = [''alarm.view'']"
    and ok: "is_inr (snd (updateRole ''Shift'' None (Some '' Lead '') 7 demo_db))"
    by code_simp+
  obtain d' v where "updateRole ''Shift'' None (Some '' Lead '') 7 demo_db = (d', Inr v)"
    using op_ok [OF ok] by blast
  with updateRole_rename_effect [OF demo_db_inv w this] t k show ?thesis by simp
qed

text \<open>
  C23. Deleting a custom role: the role and its mapping are gone and nobody holds it; its holders have
  the role given in \<open>reassignTo\<close> and a revocation epoch at the time of the call; other users, other
  roles' mappings and all refresh tokens (those of the moved users included) are untouched.
\<close>

theorem deleteRole_effect:
  assumes "db_inv d" and "deleteRole role reassignTo now d = (d', Inr u)"
  shows "role_names d' = filter (\<lambda>r. r \<noteq> role) (role_names d)
    \<and> getPermissionKeysForRole role d' = []
    \<and> (\<forall>r. r \<noteq> role \<longrightarrow> getPermissionKeysForRole r d' = getPermissionKeysForRole r d)
    \<and> users_t d' = map (\<lambda>u. if u_role u = role
          then u\<lparr>u_role := the reassignTo, u_credentials_changed_at := now\<rparr> else u) (users_t d)
    \<and> (\<forall>u \<in> set (users_t d'). u_role u \<noteq> role)
    \<and> refresh_tokens_t d' = refresh_tokens_t d \<and> db_inv d'"
proof -
  have "role \<in> set (role_names d)"
    using assms(2) deleteRole_missing [of role d reassignTo now] by (cases "role \<in> set (role_names d)") simp_all
  then obtain row where row: "row \<in> set (roles_t d)" "role = r_role_name row"
    using row_of_role by blast
  let ?mv = "\<lambda>u::user_row. if u_role u = role then u\<lparr>u_role := the reassignTo, u_credentials_changed_at := now\<rparr> else u"
  consider "filter (\<lambda>u. u_role u = role) (users_t d) = []" "d' = role_dropped role d"
    | "the reassignTo \<noteq> role" "d' = role_dropped role (users_moved (the reassignTo) role now d)"
    using assms(2) unfolding row(2)
    by (auto simp: deleteRole_eq [OF assms(1) row(1)] Let_def split: if_splits)
  then have eff: "users_t d' = map ?mv (users_t d) \<and> (\<forall>u \<in> set (users_t d'). u_role u \<noteq> role)
      \<and> roles_t d' = sql_delete (\<lambda>r. r_role_name r = role) (roles_t d)
      \<and> role_permissions_t d' = sql_delete (\<lambda>m. fst m = role) (role_permissions_t d)
      \<and> refresh_tokens_t d' = refresh_tokens_t d"
  proof cases
    case 1
    then have "map ?mv (users_t d) = users_t d"
      by (intro map_idI) (auto simp: filter_empty_conv)
    with 1 show ?thesis by (auto simp: role_dropped_def filter_empty_conv)
  next
    case 2
    then show ?thesis by (auto simp: role_dropped_def users_moved_def sql_update_def)
  qed
  have inv': "db_inv d'"
    using deleteRole_keeps [OF assms(1), of role reassignTo now] assms(2) by simp
  have "filter (\<lambda>m. fst m = r) (sql_delete (\<lambda>m. fst m = role) t) =
      (if r = role then [] else filter (\<lambda>m. fst m = r) t)" for r and t :: "(string \<times> string) list"
    by (auto simp: sql_delete_def intro: filter_cong)
  then have keys: "getPermissionKeysForRole r d' = (if r = role then [] else getPermissionKeysForRole r d)" for r
    using eff by (simp add: getPermissionKeysForRole_def)
  have "map r_role_name (sql_delete (\<lambda>r. r_role_name r = role) t) = filter (\<lambda>r. r \<noteq> role) (map r_role_name t)" for t
    by (induction t) (simp_all add: sql_delete_def)
  then have "role_names d' = filter (\<lambda>r. r \<noteq> role) (role_names d)"
    using eff by (simp add: role_names_def)
  moreover have "getPermissionKeysForRole role d' = []"
    "\<forall>r. r \<noteq> role \<longrightarrow> getPermissionKeysForRole r d' = getPermissionKeysForRole r d"
    by (simp_all add: keys)
  ultimately show ?thesis using eff inv' by blast
qed

theorem deleteRole_effect_witness:
  "db_inv demo_db \<and> role_names (fst (deleteRole ''Shift'' (Some ''Viewer'') 7 demo_db))
     = [''Admin'', ''Engineer'', ''Operator'', ''Viewer'']"
proof -
  have ok: "is_inr (snd (deleteRole ''Shift'' (Some ''Viewer'') 7 demo_db))"
    and n: "filter (\<lambda>r. r \<noteq> ''Shift'') (role_names demo_db) = [''Admin'', ''Engineer'', ''Operator'', ''Viewer'']"
    by code_simp+
  obtain d' u where "deleteRole ''Shift'' (Some ''Viewer'') 7 demo_db = (d', Inr u)"
    using op_ok [OF ok] by blast
  with deleteRole_effect [OF demo_db_inv this] n show ?thesis by (simp add: demo_db_inv)
qed

definition createRole_ok :: "string \<Rightarrow> string option \<Rightarrow> string list \<Rightarrow> 'tok db \<Rightarrow> bool" where
  "createRole_ok name desc keys d \<longleftrightarrow> name \<noteq> [] \<and> length name \<le> 50 \<and> \<not> isSystemRole name
     \<and> \<not> set_mem (role_names d) name \<and> opt_width 500 desc \<and> list_all (set_mem (perm_keys d)) keys"

lemma createRole_ok_iff:
  "createRole_ok name desc keys d \<longleftrightarrow> name \<noteq> [] \<and> length name \<le> 50 \<and> \<not> isSystemRole name
     \<and> name \<notin> set (role_names d) \<and> opt_width 500 desc \<and> set keys \<subseteq> set (perm_keys d)"
  by (auto simp: createRole_ok_def list_all_iff)

text \<open>
  Creating a role succeeds exactly for a trimmed name of 1 to 50 characters that is neither built-in
  nor taken, a description that fits, and keys of the catalog; then the store has one more custom
  role, with exactly the requested permissions, and nothing else changed.
\<close>

theorem createRole_effect:
  assumes "db_inv d" and "name = js_trim (nullish roleName [])"
  shows "is_inr (snd (createRole roleName desc keys now d)) = createRole_ok name desc keys d
    \<and> (createRole_ok name desc keys d \<longrightarrow>
        (let d' = fst (createRole roleName desc keys now d) in
          role_names d' = role_names d @ [name] \<and> db_inv d'
        \<and> getPermissionKeysForRole name d' = sort (js_uniq keys)
        \<and> (\<forall>r. r \<noteq> name \<longrightarrow> getPermissionKeysForRole r d' = getPermissionKeysForRole r d)
        \<and> users_t d' = users_t d \<and> refresh_tokens_t d' = refresh_tokens_t d \<and> permissions_t d' = permissions_t d))"
proof -
  have "filter (\<lambda>m. fst m = r) (map (Pair name) ks) = (if r = name then map (Pair name) ks else [])" for r ks
    by (induction ks) auto
  moreover have "filter (\<lambda>m. fst m = name) (role_permissions_t d) = []" if "name \<notin> set (role_names d)"
    using that mapping_role_exists [OF assms(1)] by (auto simp: filter_empty_conv)
  moreover have "map snd (map (Pair name) ks) = ks" for ks :: "string list"
    by (simp add: comp_def)
  moreover have "db_inv (fst (createRole roleName desc keys now d))"
    by (rule createRole_keeps [OF assms(1)])
  ultimately show ?thesis
    by (auto simp: createRole_ok_iff assms(2) createRole_eq [OF assms(1)] Let_def role_names_def getPermissionKeysForRole_def
        simp del: map_map)
qed

theorem createRole_effect_witness:
  "db_inv demo_db \<and>
   getPermissionKeysForRole ''Night'' (fst (createRole (Some '' Night'') None [''alarm.view''] 7 demo_db)) = [''alarm.view'']"
proof -
  have t: "''Night'' = js_trim (nullish (Some '' Night'') [])" and ok: "createRole_ok ''Night'' None [''alarm.view''] demo_db"
    by code_simp+
  show ?thesis
    using createRole_effect [OF demo_db_inv t, of None "[''alarm.view'']" 7] ok
    by (simp add: Let_def demo_db_inv js_uniq_def)
qed

text \<open>
  Every operation on roles is atomic: one that throws leaves the store as it found it.  This
  holds for errors raised inside the transactions too, where statements had already run.
\<close>

theorem role_operations_atomic:
  assumes "db_inv d"
  shows "(\<not> is_inr (snd (createRole name desc keys now d)) \<longrightarrow> fst (createRole name desc keys now d) = d)
    \<and> (\<not> is_inr (snd (updateRole role dsc newName now d)) \<longrightarrow> fst (updateRole role dsc newName now d) = d)
    \<and> (\<not> is_inr (snd (deleteRole role to now d)) \<longrightarrow> fst (deleteRole role to now d) = d)
    \<and> (\<not> is_inr (snd (setRolePermissions role keys now d)) \<longrightarrow> fst (setRolePermissions role keys now d) = d)
    \<and> (\<not> is_inr (snd (resetRolePermissions role now d)) \<longrightarrow> fst (resetRolePermissions role now d) = d)"
  by (rule rbac_atomic [OF assms])

theorem role_operations_atomic_witness:
  "db_inv demo_db \<and> fst (createRole (Some ''Night'') None [''no.such''] 7 demo_db) = demo_db"
proof -
  have "\<not> is_inr (snd (createRole (Some ''Night'') None [''no.such''] 7 demo_db))" by code_simp
  with role_operations_atomic [OF demo_db_inv, of "Some ''Night''" None "[''no.such'']" 7 "[]" None None None]
  show ?thesis by (simp add: demo_db_inv)
qed

text \<open>
  No operation on roles removes, renames or unflags a built-in role, nor makes another role a
  system role.
\<close>

theorem role_operations_keep_builtin:
  assumes "db_inv d" and "builtin_ok d"
  shows "builtin_ok (fst (createRole name desc keys now d)) \<and> builtin_ok (fst (updateRole role dsc newName now d))
    \<and> builtin_ok (fst (deleteRole role to now d)) \<and> builtin_ok (fst (setRolePermissions role keys now d))
    \<and> builtin_ok (fst (resetRolePermissions role now d))"
  using assms by (simp add: createRole_builtin updateRole_builtin deleteRole_builtin
      setRolePermissions_builtin reset_builtin)

theorem role_operations_keep_builtin_witness:
  "builtin_ok (fst (updateRole ''Shift'' None (Some ''Lead'') 7 demo_db))"
  using role_operations_keep_builtin [OF demo_db_inv demo_builtin_ok, of _ _ _ 7 "''Shift''" None "Some ''Lead''"] by simp

text \<open>
  The startup sync makes the catalog complete and changes nothing else: it reports the number of
  rows it wrote, which are exactly the stale or missing ones; afterwards every manifest entry is in the
  table with its description and category, rows with other keys are as they were, and so are roles,
  mappings, users and sessions; and running it again writes nothing.
\<close>

theorem ensurePermissionCatalog_complete:
  assumes "db_inv d"
  shows "\<exists>d'. ensurePermissionCatalog now d = (d', Inr (length (filter (\<lambda>p. \<not> in_sync d p) PERMISSION_CATALOG)))
    \<and> db_inv d' \<and> list_all (in_sync d') PERMISSION_CATALOG \<and> d' = d\<lparr>permissions_t := permissions_t d'\<rparr>
    \<and> (\<forall>r. p_permission_key r \<notin> set ALL_PERMISSION_KEYS \<longrightarrow>
           (r \<in> set (permissions_t d') \<longleftrightarrow> r \<in> set (permissions_t d)))
    \<and> (\<forall>later. ensurePermissionCatalog later d' = (d', Inr 0))"
  by (rule catalog_sync_complete [OF assms])

theorem ensurePermissionCatalog_complete_witness:
  "db_inv demo_db \<and> snd (ensurePermissionCatalog 7 demo_db) = Inr 28"
proof -
  have "length (filter (\<lambda>p. \<not> in_sync demo_db p) PERMISSION_CATALOG) = 28" by code_simp
  with ensurePermissionCatalog_complete [OF demo_db_inv, of 7] show ?thesis
    by (auto simp: demo_db_inv)
qed

text \<open>
  After the startup sync, resetting a built-in role cannot fail and restores exactly its default
  permissions.
\<close>

theorem reset_restores_defaults:
  assumes "db_inv d" and "builtin_ok d"
  shows "case resetRolePermissions (role_string r) now (fst (ensurePermissionCatalog t0 d)) of
      (d', Inr ks) \<Rightarrow> ks = defaultPermissionsForRole r
         \<and> getPermissionKeysForRole (role_string r) d' = sort (defaultPermissionsForRole r)
    | (d', Inl e) \<Rightarrow> False"
proof -
  obtain d1 n where d1: "ensurePermissionCatalog t0 d = (d1, Inr n)" "db_inv d1"
    "list_all (in_sync d1) PERMISSION_CATALOG" "d1 = d\<lparr>permissions_t := permissions_t d1\<rparr>"
    using catalog_sync_complete [OF assms(1), of t0] by blast
  have "set ALL_PERMISSION_KEYS \<subseteq> set (perm_keys d1)"
    using d1(3) by (force simp: ALL_PERMISSION_KEYS_def list_all_iff in_sync_iff perm_keys_def)
  then have keys: "set (defaultPermissionsForRole r) \<subseteq> set (perm_keys d1)"
    using defaults_in_catalog by blast
  have name: "role_of_string (role_string r) = Some r"
    by (cases r) (simp_all add: role_of_string_def SYSTEM_ROLES_def)
  then have "role_string r \<in> set SYSTEM_ROLE_NAMES" by (simp add: role_of_string_names)
  then have role: "role_string r \<in> set (role_names d1)"
    using assms(2) arg_cong [OF d1(4), of role_names] by (auto simp: builtin_ok_iff role_names_def)
  have "js_uniq (defaultPermissionsForRole r) = defaultPermissionsForRole r"
    by (rule js_uniq_distinct) (rule defaults_distinct)
  with keys role show ?thesis
    by (simp add: d1(1) resetRolePermissions_def name setRolePermissions_eq [OF d1(2)] role_revoked_effect
        keys_mapping_replaced)
qed

theorem reset_restores_defaults_witness:
  "builtin_ok demo_db \<and> is_inr (snd (resetRolePermissions ''Viewer'' 9 (fst (ensurePermissionCatalog 7 demo_db))))"
  using reset_restores_defaults [OF demo_db_inv demo_builtin_ok, of Viewer 9 7]
  by (simp add: demo_builtin_ok split: prod.splits sum.splits)

text \<open>
  The single joined query of \<open>getRolesWithPermissions\<close> answers what one query per role would:
  every role once, in name order, with its sorted permissions (none for an empty role).
\<close>

theorem getRolesWithPermissions_per_role:
  assumes "db_inv d"
  shows "getRolesWithPermissions d =
    map (\<lambda>r. (r, getPermissionKeysForRole (r_role_name r) d)) (getRoles d)"
proof -
  let ?ks = "\<lambda>r. map snd (filter (\<lambda>m. fst m = r_role_name r) (role_permissions_t d))"
  let ?g = "\<lambda>r. if ?ks r = [] then [(r, None)] else map (\<lambda>k. (r, Some k)) (?ks r)"
  have dist: "distinct (roles_t d)"
    using role_names_distinct [OF assms] by (simp add: distinct_map)
  have rows: "roles_left_join d = concat (map ?g (roles_t d))"
    by (simp add: roles_left_join_def Let_def)
  have uniq: "js_uniq (map fst (roles_left_join d)) = roles_t d"
    unfolding rows map_concat map_map comp_def
    by (rule js_uniq_map_blocks [OF dist]) (force simp: comp_def filter_empty_conv image_iff)
  have "array_agg (roles_left_join d) r = getPermissionKeysForRole (r_role_name r) d" if "r \<in> set (roles_t d)" for r
  proof -
    have "filter (\<lambda>y. fst y = r) (roles_left_join d) = ?g r"
      unfolding rows by (rule filter_concat_blocks [OF dist that]) (auto split: if_splits)
    moreover have "(\<lambda>(r', _). r' = r) = (\<lambda>y::role_row \<times> string option. fst y = r)" by auto
    moreover have agg: "concat (map (\<lambda>(_, k). case k of None \<Rightarrow> [] | Some x \<Rightarrow> [x]) (map (\<lambda>k. (r, Some k)) ks)) = ks"
      for ks :: "string list" by (induction ks) simp_all
    ultimately show ?thesis
      by (cases "?ks r = []") (simp_all add: array_agg_def getPermissionKeysForRole_def agg del: map_map)
  qed
  then show ?thesis
    by (auto simp: getRolesWithPermissions_def getRoles_def Let_def uniq)
qed

theorem getRolesWithPermissions_per_role_witness:
  "db_inv demo_db \<and> map snd (getRolesWithPermissions demo_db) =
    map (\<lambda>r. getPermissionKeysForRole (r_role_name r) demo_db) (getRoles demo_db)"
  using getRolesWithPermissions_per_role [OF demo_db_inv] by (simp add: demo_db_inv)

text \<open>
  The default matrix is a ladder: along Viewer, Operator, Engineer, Admin each role has every
  permission of the ones below it, Admin has the whole catalog, and only Admin has \<open>rbac.manage\<close>, the
  one key the services do not enforce themselves.
\<close>

theorem default_matrix_ladder:
  "(r \<le> s \<longrightarrow> set (defaultPermissionsForRole r) \<subseteq> set (defaultPermissionsForRole s))
   \<and> defaultPermissionsForRole Admin = ALL_PERMISSION_KEYS
   \<and> (''rbac.manage'' \<in> set (defaultPermissionsForRole r) \<longleftrightarrow> r = Admin)
   \<and> set ALL_PERMISSION_KEYS = insert ''rbac.manage'' (set ENFORCED_PERMISSION_KEYS)
   \<and> ''rbac.manage'' \<notin> set ENFORCED_PERMISSION_KEYS"
proof -
  have "set (defaultPermissionsForRole r) \<subseteq> set (defaultPermissionsForRole s)" if "r \<le> s"
    using catalog_upward_closed that by (auto simp: defaultPermissionsForRole_def)
  moreover have "defaultPermissionsForRole Admin = ALL_PERMISSION_KEYS" by code_simp
  moreover have "set_mem (defaultPermissionsForRole Admin) ''rbac.manage''"
    "\<not> set_mem (defaultPermissionsForRole Engineer) ''rbac.manage''"
    "\<not> set_mem (defaultPermissionsForRole Operator) ''rbac.manage''"
    "\<not> set_mem (defaultPermissionsForRole Viewer) ''rbac.manage''"
    by code_simp+
  then have "set_mem (defaultPermissionsForRole r) ''rbac.manage'' \<longleftrightarrow> r = Admin"
    by (cases r) simp_all
  moreover have all: "ALL_PERMISSION_KEYS = ENFORCED_PERMISSION_KEYS @ [''rbac.manage'']" by code_simp
  have "set (ks @ [k]) = insert k (set ks)" for ks and k :: string by simp
  then have "set ALL_PERMISSION_KEYS = insert ''rbac.manage'' (set ENFORCED_PERMISSION_KEYS)"
    unfolding all .
  moreover have "\<not> set_mem ENFORCED_PERMISSION_KEYS ''rbac.manage''" by code_simp
  then have "''rbac.manage'' \<notin> set ENFORCED_PERMISSION_KEYS" by simp
  ultimately show ?thesis by simp
qed

theorem default_matrix_ladder_witness:
  "set (defaultPermissionsForRole Viewer) \<subseteq> set (defaultPermissionsForRole Engineer)"
  using default_matrix_ladder [of Viewer Engineer] by (simp add: less_eq_system_role_def)

end
