(* ===== verification/Auth_Effects.thy ===== *)
theory Auth_Effects
  imports Auth_Http Token_Store Rbac_Props
begin

text \<open>
  What the session and user operations leave in the store: each keeps its integrity, none touches
  roles, permissions or mappings, and the effect on users and refresh tokens is given in closed form.
\<close>

section \<open>Statements\<close>

lemma insert_user_Inr:
  "insert_user u d = Inr d' \<longleftrightarrow> d' = d\<lparr>users_t := users_t d @ [u]\<rparr> \<and> users_ok d'"
  by (auto simp: insert_user_def db_ok)

lemma update_users_Inr:
  "update_users p f d = Inr d' \<longleftrightarrow> d' = d\<lparr>users_t := sql_update p f (users_t d)\<rparr> \<and> users_ok d'"
  by (auto simp: update_users_def db_ok)

lemma insert_token_Inr:
  "insert_token r d = Inr d' \<longleftrightarrow> d' = d\<lparr>refresh_tokens_t := refresh_tokens_t d @ [r]\<rparr> \<and> tokens_ok d'"
  by (auto simp: insert_token_def db_ok)

lemmas stmt_Inr = insert_user_Inr update_users_Inr insert_token_Inr rotate_token_Inr

text \<open>Roles, permissions and mapping are the same.\<close>

definition same_rbac :: "'tok db \<Rightarrow> 'tok db \<Rightarrow> bool" where
  "same_rbac d d' \<longleftrightarrow> roles_t d' = roles_t d \<and> permissions_t d' = permissions_t d
     \<and> role_permissions_t d' = role_permissions_t d"

lemma same_rbac_refl [simp]: "same_rbac d d"
  by (simp add: same_rbac_def)

lemma same_rbac_trans: "same_rbac d d1 \<Longrightarrow> same_rbac d1 d2 \<Longrightarrow> same_rbac d d2"
  by (simp add: same_rbac_def)

lemma same_rbac_builtin: "same_rbac d d' \<Longrightarrow> builtin_ok d' \<longleftrightarrow> builtin_ok d"
  by (simp add: same_rbac_def builtin_ok_def role_names_def)

lemma delete_tokens_frame [simp]:
  "users_t (delete_tokens p d) = users_t d" "roles_t (delete_tokens p d) = roles_t d"
  "permissions_t (delete_tokens p d) = permissions_t d"
  "role_permissions_t (delete_tokens p d) = role_permissions_t d"
  "refresh_tokens_t (delete_tokens p d) = filter (\<lambda>r. \<not> p r) (refresh_tokens_t d)"
  by (simp_all add: delete_tokens_def sql_delete_def)

lemma delete_token_frame [simp]:
  "users_t (delete_token t d) = users_t d" "roles_t (delete_token t d) = roles_t d"
  "permissions_t (delete_token t d) = permissions_t d"
  "role_permissions_t (delete_token t d) = role_permissions_t d"
  "refresh_tokens_t (delete_token t d) = filter (\<lambda>r. rt_token r \<noteq> t) (refresh_tokens_t d)"
  by (simp_all add: delete_token_def)

lemma insert_user_same_rbac: "insert_user u d = Inr d' \<Longrightarrow> same_rbac d d'"
  by (auto simp: insert_user_Inr same_rbac_def)

lemma update_users_same_rbac: "update_users p f d = Inr d' \<Longrightarrow> same_rbac d d'"
  by (auto simp: update_users_Inr same_rbac_def)

section \<open>Revocation\<close>

definition user_revoked :: "string \<Rightarrow> int \<Rightarrow> 'tok db \<Rightarrow> 'tok db" where
  "user_revoked uid now d =
     d\<lparr>users_t := sql_update (\<lambda>u. u_user_id u = uid) (\<lambda>u. u\<lparr>u_credentials_changed_at := now\<rparr>) (users_t d),
       refresh_tokens_t := filter (\<lambda>r. rt_user_id r \<noteq> uid) (refresh_tokens_t d)\<rparr>"

lemma revokeUserTokens_eq:
  assumes "db_inv d"
  shows "revokeUserTokens uid now d = (user_revoked uid now d, Inr ())"
proof -
  have "update_users (\<lambda>u. u_user_id u = uid) (\<lambda>u. u\<lparr>u_credentials_changed_at := now\<rparr>) d =
      Inr (d\<lparr>users_t := sql_update (\<lambda>u. u_user_id u = uid) (\<lambda>u. u\<lparr>u_credentials_changed_at := now\<rparr>) (users_t d)\<rparr>)"
    by (rule update_users_frame [OF assms]) (simp_all add: user_widths_def)
  then show ?thesis
    by (simp add: revokeUserTokens_def user_revoked_def delete_tokens_def sql_delete_def)
qed

lemma revokeUserTokens_keeps: "db_inv d \<Longrightarrow> db_inv (fst (revokeUserTokens uid now d))"
  by (auto simp: revokeUserTokens_def split: sum.split intro: delete_tokens_keeps
      dest!: update_users_keeps [rotated])

lemma user_revoked_keeps: "db_inv d \<Longrightarrow> db_inv (user_revoked uid now d)"
  using revokeUserTokens_keeps [of d uid now] by (simp add: revokeUserTokens_eq)

lemma user_revoked_frame [simp]: "same_rbac d (user_revoked uid now d)"
  by (simp add: same_rbac_def user_revoked_def)

section \<open>Sessions\<close>

lemma storeRefreshToken_keeps: "db_inv d \<Longrightarrow> storeRefreshToken E t uid tok d = Inr d' \<Longrightarrow> db_inv d'"
  unfolding storeRefreshToken_def by (rule insert_token_keeps)

text \<open>Every way a login can go.\<close>

lemma login_Inr:
  assumes "login E t username password d = (d', Inr r)"
  shows "\<exists>u \<in> set (users_t d). u_username u = username \<and> u_is_active u
     \<and> e_compare E password (u_password_hash u)
     \<and> at_permissions r = getPermissionKeysForRole (u_role u) d \<and> at_user r = to_public u
     \<and> at_sessionPolicy r = sessionPolicyForRole (e_process E) (Some (u_role u))
     \<and> signAccessToken E t u (at_permissions r) = Inr (at_token r)
     \<and> signRefreshToken E t u = Inr (at_refreshToken r)
     \<and> storeRefreshToken E t (u_user_id u) (at_refreshToken r) d = Inr d'"
proof -
  obtain u us where f: "filter (\<lambda>u. u_username u = username) (users_t d) = u # us"
    using assms by (auto simp: login_def split: list.splits)
  then have "u \<in> set (users_t d) \<and> u_username u = username" by (rule filter_hd_memb)
  moreover have "u_is_active u" "e_compare E password (u_password_hash u)"
    using assms f by (auto simp: login_def split: if_splits)
  ultimately show ?thesis
    using assms f
    by (intro bexI [of _ u]) (auto simp: login_def Let_def bindE_Inr split: sum.splits)
qed

lemma login_Inl: "login E t username password d = (d', Inl e) \<Longrightarrow> d' = d"
  by (auto simp: login_def Let_def split: list.splits if_splits sum.splits)

lemma login_keeps: "db_inv d \<Longrightarrow> db_inv (fst (login E t username password d))"
proof (cases "login E t username password d")
  case (Pair d' r)
  assume "db_inv d"
  with Pair show ?thesis
    by (cases r) (auto dest: login_Inl login_Inr storeRefreshToken_keeps)
qed

lemma login_same_rbac: "same_rbac d (fst (login E t username password d))"
proof (cases "login E t username password d")
  case (Pair d' r)
  then show ?thesis
    by (cases r) (auto simp: storeRefreshToken_def insert_token_Inr same_rbac_def dest: login_Inl login_Inr)
qed

text \<open>The store after the checks of a refresh: unchanged, or without the presented token.\<close>

lemma refresh_check_store: "fst (refresh_check E t tok d) \<in> {d, delete_token tok d}"
  by (auto simp: refresh_check_def split: sum.splits list.splits if_splits)

lemma refresh_check_keeps: "db_inv d \<Longrightarrow> db_inv (fst (refresh_check E t tok d))"
  using refresh_check_store [of E t tok d] by (auto intro: delete_token_keeps)

lemma refresh_check_same_rbac: "same_rbac d (fst (refresh_check E t tok d))"
  using refresh_check_store [of E t tok d] by (auto simp: same_rbac_def)

lemma refresh_commit_keeps: "db_inv d \<Longrightarrow> db_inv (fst (refresh_commit E t tok res d))"
  by (auto simp: refresh_commit_def split: sum.split intro: rotate_token_keeps)

lemma refresh_commit_same_rbac: "same_rbac d (fst (refresh_commit E t tok res d))"
  by (auto simp: refresh_commit_def same_rbac_def rotate_token_Inr split: sum.split)

lemma refreshToken_keeps: "db_inv d \<Longrightarrow> db_inv (fst (refreshToken E t tok d))"
  using refresh_check_keeps [of d E t tok]
  by (auto simp: refreshToken_def refresh_commit_keeps split: prod.splits sum.splits)

lemma refreshToken_same_rbac: "same_rbac d (fst (refreshToken E t tok d))"
  using refresh_check_same_rbac [of d E t tok]
  by (auto simp: refreshToken_def split: prod.splits sum.splits
      intro: same_rbac_trans [OF _ refresh_commit_same_rbac])

lemma logout_keeps: "db_inv d \<Longrightarrow> db_inv (fst (logout tok d))"
  by (simp add: logout_def delete_token_keeps)

section \<open>Users\<close>

lemma createUser_keeps: "db_inv d \<Longrightarrow> db_inv (fst (createUser E t req d))"
  by (auto simp: createUser_def Let_def split: sum.splits intro: insert_user_keeps)

lemma createUser_same_rbac: "same_rbac d (fst (createUser E t req d))"
  by (auto simp: createUser_def Let_def split: sum.splits intro: insert_user_same_rbac)

lemma apply_update_id [simp]: "u_user_id (apply_update req now u) = u_user_id u"
  by (simp add: apply_update_def)

lemma update_fields_store:
  "fst (update_fields uid req now d) = d \<or>
   update_users (\<lambda>u. u_user_id u = uid) (apply_update req now) d = Inr (fst (update_fields uid req now d))"
  by (auto simp: update_fields_def split: sum.splits list.splits)

lemma update_fields_keeps: "db_inv d \<Longrightarrow> db_inv (fst (update_fields uid req now d))"
  using update_fields_store [of uid req now d] by (auto elim: update_users_keeps)

lemma update_fields_same_rbac: "same_rbac d (fst (update_fields uid req now d))"
  using update_fields_store [of uid req now d] by (auto elim: update_users_same_rbac)

lemma updateUser_store:
  assumes "db_inv d"
  shows "fst (updateUser uid req t d) = fst (update_fields uid req (tk_db t) d)
    \<or> fst (updateUser uid req t d) = user_revoked uid (tk_db2 t) (fst (update_fields uid req (tk_db t) d))"
proof -
  obtain d1 r where u: "update_fields uid req (tk_db t) d = (d1, r)" by (cases "update_fields uid req (tk_db t) d")
  then have "db_inv d1" using update_fields_keeps [OF assms, of uid req "tk_db t"] by simp
  with u show ?thesis
    by (cases r) (simp_all add: updateUser_def revokeUserTokens_eq)
qed

lemma updateUser_keeps: "db_inv d \<Longrightarrow> db_inv (fst (updateUser uid req t d))"
  using updateUser_store [of d uid req t] update_fields_keeps [of d uid req "tk_db t"]
  by (auto simp: user_revoked_keeps)

lemma updateUser_same_rbac: "db_inv d \<Longrightarrow> same_rbac d (fst (updateUser uid req t d))"
  using updateUser_store [of d uid req t] update_fields_same_rbac [of d uid req "tk_db t"]
    same_rbac_trans [OF _ user_revoked_frame] by metis

lemma updateProfile_keeps: "db_inv d \<Longrightarrow> db_inv (fst (updateProfile uid req t d))"
  by (simp add: updateProfile_def update_fields_keeps)

lemma updateProfile_same_rbac: "same_rbac d (fst (updateProfile uid req t d))"
  by (simp add: updateProfile_def update_fields_same_rbac)

lemma changePassword_keeps:
  assumes "db_inv d"
  shows "db_inv (fst (changePassword E t uid cur new d))"
proof -
  have "db_inv d1" if "update_users p (\<lambda>u. u\<lparr>u_password_hash := h, u_updated_at := n\<rparr>) d = Inr d1" for p h n d1
    using assms that by (rule update_users_keeps) simp
  then show ?thesis
    using assms by (auto simp: changePassword_def Let_def revokeUserTokens_keeps split: list.split sum.split)
qed

lemma revokeUserTokens_same_rbac: "same_rbac d (fst (revokeUserTokens uid now d))"
  by (auto simp: revokeUserTokens_def same_rbac_def update_users_Inr split: sum.split)

lemma changePassword_same_rbac: "same_rbac d (fst (changePassword E t uid cur new d))"
  by (auto simp: changePassword_def Let_def split: list.split sum.split
      intro: same_rbac_trans [OF update_users_same_rbac revokeUserTokens_same_rbac])

lemma deleteUser_keeps: "db_inv d \<Longrightarrow> db_inv (fst (deleteUser uid d))"
  by (simp add: deleteUser_def delete_user_row_keeps split: list.split)

lemma deleteUser_same_rbac: "same_rbac d (fst (deleteUser uid d))"
  by (simp add: deleteUser_def delete_user_row_def same_rbac_def split: list.split)

lemma seed_admin_keeps: "db_inv d \<Longrightarrow> db_inv (fst (seed_admin E t d))"
  by (auto simp: seed_admin_def Let_def split: sum.splits intro: insert_user_keeps)

lemma seed_admin_same_rbac: "same_rbac d (fst (seed_admin E t d))"
  by (auto simp: seed_admin_def Let_def split: sum.splits intro: insert_user_same_rbac)

section \<open>Bulk import\<close>

lemma overwrite_user_id [simp]: "u_user_id (overwrite_user f now u) = u_user_id u"
  by (simp add: overwrite_user_def)

lemma import_one_Inr:
  assumes "import_one E opts now uid salt row d = Inr (d', out)"
  shows "(d' = d \<and> out = RowSkipped)
    \<or> (\<exists>v :: user_row. io_overwriteDuplicates opts \<and> out = RowUpdated
         \<and> update_users (\<lambda>u. u_user_id u = u_user_id v) (overwrite_user (import_fields_of row) now) d = Inr d')
    \<or> (\<exists>u. out = RowCreated \<and> insert_user u d = Inr d' \<and> u_user_id u = uid)"
proof (cases "filter (\<lambda>u. u_username u = if_username (import_fields_of row)
      \<or> u_email u = if_email (import_fields_of row)) (users_t d)")
  case Nil
  with assms show ?thesis
    by (auto simp: import_one_def Let_def bindE_Inr new_user_row_def)
next
  case (Cons v vs)
  with assms show ?thesis
    by (cases "io_overwriteDuplicates opts")
      (auto simp: import_one_def Let_def bindE_Inr)
qed

lemma import_one_keeps: "db_inv d \<Longrightarrow> import_one E opts now uid salt row d = Inr (d', out) \<Longrightarrow> db_inv d'"
  by (drule import_one_Inr) (auto elim: update_users_keeps insert_user_keeps)

lemma import_one_same_rbac: "import_one E opts now uid salt row d = Inr (d', out) \<Longrightarrow> same_rbac d d'"
  by (drule import_one_Inr) (auto elim: update_users_same_rbac insert_user_same_rbac)

lemma import_loop_keeps:
  "db_inv d \<Longrightarrow> ensures (import_loop E opts now rand i rows r d) (\<lambda>(d', r'). db_inv d' \<and> same_rbac d d')"
proof (induction rows arbitrary: i r d)
  case (Cons row rows)
  show ?case
  proof (cases "import_one E opts now (fst (rand i)) (snd (rand i)) row d")
    case (Inl e)
    then show ?thesis using Cons.IH [OF Cons.prems] by simp
  next
    case (Inr x)
    obtain d1 out where x: "x = (d1, out)" by (cases x)
    have "db_inv d1" "same_rbac d d1"
      using Cons.prems Inr x by (auto intro: import_one_keeps import_one_same_rbac)
    then have "ensures (import_loop E opts now rand (i + 1) rows (count_outcome out r) d1)
        (\<lambda>(d', r'). db_inv d' \<and> same_rbac d d')"
      using Cons.IH [of d1 "i + 1" "count_outcome out r"]
      by (auto simp: ensures_def split: sum.splits intro: same_rbac_trans)
    then show ?thesis using Inr x by simp
  qed
qed simp

interpretation import_txn: transaction_body db_inv "import_loop E opts now rand 0 rows r0"
  for E opts now rand rows r0
proof unfold_locales
  fix d :: "'a db"
  assume "db_inv d"
  from import_loop_keeps [OF this, of E opts now rand 0 rows r0]
  show "ensures (import_loop E opts now rand 0 rows r0 d) (\<lambda>(d', x). db_inv d')"
    by (auto simp: ensures_def split: sum.splits)
qed

lemma executeBulkImport_keeps: "db_inv d \<Longrightarrow> db_inv (fst (executeBulkImport E now rand rows opts d))"
  unfolding executeBulkImport_def by (rule import_txn.txn_keeps)

lemma executeBulkImport_same_rbac:
  "db_inv d \<Longrightarrow> same_rbac d (fst (executeBulkImport E now rand rows opts d))"
  using import_loop_keeps [of d E opts now rand 0 rows
      "\<lparr>ir_totalProcessed = length rows, ir_created = 0, ir_updated = 0, ir_skipped = 0, ir_errors = []\<rparr>"]
  by (auto simp: executeBulkImport_def withTransaction_def ensures_def split: sum.splits)

end
