(* ===== verification/Demo_Env.thy ===== *)
theory Demo_Env
  imports Auth_Http Rbac_Props
begin

text \<open>
  A concrete instance of the parameters, for the witnesses: tokens that list their claims in clear
  together with the key that signed them, a hash that prefixes the password, and a small validator
  library.
\<close>

definition demo_numerals :: string where
  "demo_numerals = ''0123456789''"

fun demo_digits :: "nat \<Rightarrow> int \<Rightarrow> string" where
  "demo_digits 0 n = []"
| "demo_digits (Suc f) n = (if n < 10 then [] else demo_digits f (n div 10)) @ [demo_numerals ! nat (n mod 10)]"

fun demo_undigits :: "string \<Rightarrow> int \<Rightarrow> int" where
  "demo_undigits [] acc = acc"
| "demo_undigits (c # cs) acc = demo_undigits cs (10 * acc + int (length (takeWhile (\<lambda>x. x \<noteq> c) demo_numerals)))"

definition demo_token_fields ::
  "string \<Rightarrow> string \<Rightarrow> string \<Rightarrow> string \<Rightarrow> string \<Rightarrow> int \<Rightarrow> int \<Rightarrow> string \<Rightarrow> string \<Rightarrow> string list \<Rightarrow> string" where
  "demo_token_fields mat kid iss type uid iat exp jti aud perms =
     js_join ''|'' ([mat, kid, iss, type, uid, demo_digits 12 iat, demo_digits 12 exp, jti, aud] @ perms)"

fun demo_sign :: "claims \<Rightarrow> demo_key \<Rightarrow> sign_options \<Rightarrow> int \<Rightarrow> app_error + string" where
  "demo_sign cl (DPub s) opts now = Inl (JsError ''secretOrPrivateKey must be a private key'')"
| "demo_sign cl (DPriv s) opts now =
     (let iat = now div 1000 in
      Inr (demo_token_fields s (so_keyid opts) (so_issuer opts) (nullish (cl_type cl) []) (nullish (cl_sub cl) [])
             iat (iat + parseDuration (Some (so_expiresIn opts)) 0 div 1000) (so_jwtid opts)
             (nullish (so_audience opts) []) (nullish (cl_permission cl) [])))"

definition demo_decode :: "string \<Rightarrow> (string option \<times> claims) option" where
  "demo_decode tok =
     (case js_split (CHR ''|'') tok of
        mat # kid # iss # type # uid # iat # exp # jti # aud # perms \<Rightarrow>
          Some (Some kid,
            \<lparr>cl_sub = Some uid, cl_user_id = Some uid, cl_preferred_username = None, cl_username = None,
             cl_email = None, cl_role = None, cl_permission = (if type = [] then Some perms else None),
             cl_type = (if type = [] then None else Some type),
             cl_iat = Some (demo_undigits iat 0), cl_exp = Some (demo_undigits exp 0)\<rparr>)
      | _ \<Rightarrow> None)"

definition demo_verify :: "string \<Rightarrow> demo_key \<Rightarrow> verify_options \<Rightarrow> int \<Rightarrow> jwt_error + claims" where
  "demo_verify tok key opts now =
     (case demo_decode tok of
        None \<Rightarrow> Inl JsonWebTokenError
      | Some (_, cl) \<Rightarrow>
          (case js_split (CHR ''|'') tok of
             mat # kid # iss # type # uid # iat # exp # jti # aud # perms \<Rightarrow>
               if key \<noteq> DPub mat \<or> iss \<noteq> vo_issuer opts \<or> (vo_audience opts \<noteq> None \<and> vo_audience opts \<noteq> Some aud)
               then Inl JsonWebTokenError
               else if nullish (cl_exp cl) 0 \<le> now div 1000 then Inl TokenExpiredError
               else Inr cl
           | _ \<Rightarrow> Inl JsonWebTokenError))"

definition demo_env :: "(string, demo_key) env" where
  "demo_env = \<lparr>e_process = [''KAFKA_BOOTSTRAP_SERVERS'' \<mapsto> ''kafka:9092'', ''TRAVERSE_SERVICE_KEY'' \<mapsto> ''s3cret''],
     e_keys = demo_old, e_sign = demo_sign, e_verify = demo_verify, e_decode = demo_decode,
     e_compare = (\<lambda>pw h. h = ''h'' @ pw), e_hash = (\<lambda>pw rounds salt. ''h'' @ pw)\<rparr>"

definition demo_lib :: validator_lib where
  "demo_lib = \<lparr>vl_trim = js_trim, vl_notEmpty = (\<lambda>s. s \<noteq> []),
     vl_isLength = (\<lambda>a b s. a \<le> length s \<and> (case b of None \<Rightarrow> True | Some n \<Rightarrow> length s \<le> n)),
     vl_isEmail = email_format, vl_normalizeEmail = js_lower\<rparr>"

text \<open>A call at second \<open>s\<close>.\<close>

definition demo_tick :: "int \<Rightarrow> string \<Rightarrow> tick" where
  "demo_tick s i = \<lparr>tk_db = s * 1000000, tk_db2 = s * 1000000, tk_node = s * 1000, tk_id1 = i, tk_id2 = i @ ''r''\<rparr>"

definition demo_ctx :: "int \<Rightarrow> string \<Rightarrow> demo_key http_ctx" where
  "demo_ctx s i = \<lparr>hc_env = demo_env, hc_lib = demo_lib, hc_tick = demo_tick s i, hc_rand = (\<lambda>n. (i, i))\<rparr>"

definition no_body :: req_body where
  "no_body = \<lparr>b_str = Map.empty, b_description = None, b_is_active = None, b_permissions = None, b_rows = None,
     b_skipErrors = None, b_overwriteDuplicates = None\<rparr>"

definition demo_request :: request where
  "demo_request = \<lparr>rq_authorization = None, rq_refresh_cookie = None, rq_service_key = None, rq_param = [],
     rq_query = Map.empty, rq_body = no_body\<rparr>"

text \<open>Ada signs in at second 100 and refreshes at second 200.\<close>

definition demo_access :: "int \<Rightarrow> string \<Rightarrow> string" where
  "demo_access s i = demo_token_fields ''old'' ''old'' ''traverse-auth'' [] ''u1'' s (s + 3600) i ''ams-services'' []"

definition demo_refresh :: "int \<Rightarrow> string \<Rightarrow> string" where
  "demo_refresh s i =
     demo_token_fields ''old'' ''old'' ''traverse-auth'' ''refresh'' ''u1'' s (s + 604800) (i @ ''r'') [] []"

definition demo_db1 :: "string db" where
  "demo_db1 = fst (login demo_env (demo_tick 100 ''a'') ''ada'' ''ada'' demo_db)"

end
