(* ===== verification/Auth_System.thy ===== *)
theory Auth_System
  imports Auth_Effects Demo_Env
begin

text \<open>
  The service as a whole: every request keeps the integrity of the store and the built-in roles, every
  protected route is mediated by a verified token with the right permission, and every change of
  the RBAC configuration is audited.
\<close>

section \<open>Every handler keeps the store\<close>

definition store_ok :: "'tok db \<Rightarrow> bool" where
  "store_ok d \<longleftrightarrow> db_inv d \<and> builtin_ok d"

lemma demo_store_ok: "store_ok demo_db"
  by (simp add: store_ok_def demo_db_inv demo_builtin_ok)

lemma store_okI: "db_inv d \<Longrightarrow> builtin_ok d \<Longrightarrow> db_inv d' \<Longrightarrow> same_rbac d d' \<Longrightarrow> store_ok d'"
  by (simp add: store_ok_def same_rbac_builtin)

lemma answer_fst [simp]: "fst (answer dflt ok r) = fst r" "fst (query_answer dflt ok d q) = d"
  by (simp_all add: answer_def query_answer_def)

lemma logout_same_rbac: "same_rbac d (fst (logout tok d))"
  by (simp add: logout_def same_rbac_def)

lemmas session_keeps =
  login_keeps refreshToken_keeps logout_keeps createUser_keeps updateUser_keeps updateProfile_keeps
  changePassword_keeps deleteUser_keeps executeBulkImport_keeps seed_admin_keeps

lemmas session_same_rbac =
  login_same_rbac refreshToken_same_rbac logout_same_rbac createUser_same_rbac updateUser_same_rbac
  updateProfile_same_rbac changePassword_same_rbac deleteUser_same_rbac executeBulkImport_same_rbac
  seed_admin_same_rbac

lemmas rbac_keeps =
  createRole_keeps updateRole_keeps deleteRole_keeps setRolePermissions_keeps resetRolePermissions_keeps

lemmas rbac_builtin =
  createRole_builtin updateRole_builtin deleteRole_builtin setRolePermissions_builtin reset_builtin

lemmas query_handlers =
  jwks_handler_def revocations_handler_def verify_handler_def me_handler_def getAllUsers_handler_def
  getUsersPage_handler_def getUserById_handler_def bulkValidate_handler_def bulkTemplate_handler_def
  getRoles_handler_def getAllPermissions_handler_def getRolePermissions_handler_def with_rows_def
  with_user_def

lemma session_store_ok:
  assumes "store_ok d"
  shows "store_ok (fst (login E t un pw d))" "store_ok (fst (refreshToken E t tok d))"
    "store_ok (fst (logout tok d))" "store_ok (fst (createUser E t cu d))"
    "store_ok (fst (updateUser uid uu t d))" "store_ok (fst (updateProfile uid pu t d))"
    "store_ok (fst (changePassword E t uid cp np d))" "store_ok (fst (deleteUser uid d))"
    "store_ok (fst (executeBulkImport E now rand rows opts d))" "store_ok (fst (seed_admin E t d))"
  using assms by (simp_all add: store_ok_def session_keeps same_rbac_builtin [OF session_same_rbac(1)]
      same_rbac_builtin [OF session_same_rbac(2)] same_rbac_builtin [OF session_same_rbac(3)]
      same_rbac_builtin [OF session_same_rbac(4)] same_rbac_builtin [OF session_same_rbac(5)]
      same_rbac_builtin [OF session_same_rbac(6)] same_rbac_builtin [OF session_same_rbac(7)]
      same_rbac_builtin [OF session_same_rbac(8)] same_rbac_builtin [OF session_same_rbac(9)]
      same_rbac_builtin [OF session_same_rbac(10)])

lemma rbac_store_ok:
  assumes "store_ok d"
  shows "store_ok (fst (createRole rn desc ks now d))" "store_ok (fst (updateRole role dsc nn now d))"
    "store_ok (fst (deleteRole role to now d))" "store_ok (fst (setRolePermissions role ks now d))"
    "store_ok (fst (resetRolePermissions role now d))"
  using assms by (simp_all add: store_ok_def rbac_keeps rbac_builtin)

lemma fst_case_sum: "fst (case r of Inl e \<Rightarrow> f e | Inr x \<Rightarrow> g x) = (case r of Inl e \<Rightarrow> fst (f e) | Inr x \<Rightarrow> fst (g x))"
  by (simp split: sum.split)

lemma handler_store_ok:
  assumes "store_ok d"
  shows "store_ok (fst (handler_of r c req u d))"
proof -
  have refresh: "fst (refresh_handler c req u d) \<in> {d, fst (refreshToken (hc_env c) (hc_tick c) (the (presented_refresh req)) d)}"
    by (auto simp: refresh_handler_def Let_def split: prod.splits sum.splits)
  have bulk: "fst (bulkExecute_handler c req u d) \<in> {d, fst (executeBulkImport (hc_env c) (tk_db (hc_tick c)) (hc_rand c)
      (the (b_rows (rq_body req))) (import_options_of (b_skipErrors (rq_body req)) (b_overwriteDuplicates (rq_body req))) d)}"
    by (auto simp: bulkExecute_handler_def with_rows_def split: option.splits prod.splits sum.splits)
  have logout: "fst (logout_handler c req u d) \<in> {d, fst (logout (the (presented_refresh req)) d)}"
    by (auto simp: logout_handler_def Let_def)
  note ok = assms session_store_ok [OF assms] rbac_store_ok [OF assms]
  show ?thesis
  proof (cases r)
    case RRefresh
    then show ?thesis using refresh ok by auto
  next
    case RLogout
    then show ?thesis using logout ok by auto
  next
    case RBulkExecute
    then show ?thesis using bulk ok by auto
  qed (auto simp: ok query_handlers login_handler_def updateProfile_handler_def changePassword_handler_def
      createUser_handler_def updateUser_handler_def deleteUser_handler_def createRole_handler_def
      updateRole_handler_def deleteRole_handler_def setRolePermissions_handler_def
      resetRolePermissions_handler_def Let_def split: option.split)
qed

lemma serve_store_ok: "store_ok d \<Longrightarrow> store_ok (fst (serve r c req d))"
  by (auto simp: serve_def handler_store_ok split: sum.split)

section \<open>Reachable stores\<close>

text \<open>
  One step of the running service: a request, one of the two halves of a refresh (so that anything may
  happen between them), the catalog sync of a start, or the bootstrap of the administrator.
\<close>

inductive auth_step :: "(string, 'k) env \<Rightarrow> string db \<Rightarrow> string db \<Rightarrow> bool" for E where
  step_serve: "hc_env c = E \<Longrightarrow> serve r c req d = (d', resp) \<Longrightarrow> auth_step E d d'"
| step_refresh_check: "refresh_check E t tok d = (d', res) \<Longrightarrow> auth_step E d d'"
| step_refresh_commit: "refresh_commit E t tok res d = (d', out) \<Longrightarrow> auth_step E d d'"
| step_sync: "ensurePermissionCatalog now d = (d', out) \<Longrightarrow> auth_step E d d'"
| step_seed: "seed_admin E t d = (d', out) \<Longrightarrow> auth_step E d d'"

inductive auth_reachable :: "(string, 'k) env \<Rightarrow> string db \<Rightarrow> string db \<Rightarrow> bool" for E d0 where
  reach_start: "auth_reachable E d0 d0"
| reach_step: "auth_reachable E d0 d \<Longrightarrow> auth_step E d d' \<Longrightarrow> auth_reachable E d0 d'"

lemma sync_store_ok:
  assumes "store_ok d"
  shows "store_ok (fst (ensurePermissionCatalog now d))"
proof -
  have inv: "db_inv d" using assms by (simp add: store_ok_def)
  obtain d' n where "ensurePermissionCatalog now d = (d', Inr n)" "db_inv d'" "d' = d\<lparr>permissions_t := permissions_t d'\<rparr>"
    using catalog_sync_complete [OF inv, of now] by blast
  moreover from this(3) have "roles_t d' = roles_t d" by (metis db.select_convs(1) db.surjective db.update_convs(2))
  ultimately show ?thesis using assms by (simp add: store_ok_def builtin_ok_def role_names_def)
qed

lemma auth_step_store_ok: "auth_step E d d' \<Longrightarrow> store_ok d \<Longrightarrow> store_ok d'"
proof (induction rule: auth_step.induct)
  case (step_serve c r req d d' resp)
  then show ?case using serve_store_ok [of d r c req] by simp
next
  case (step_refresh_check t tok d d' res)
  then show ?case
    using refresh_check_keeps [of d E t tok] refresh_check_same_rbac [of d E t tok]
    by (auto simp: store_ok_def same_rbac_builtin)
next
  case (step_refresh_commit t tok res d d' out)
  then show ?case
    using refresh_commit_keeps [of d E t tok res] refresh_commit_same_rbac [of d E t tok res]
    by (auto simp: store_ok_def same_rbac_builtin)
next
  case (step_sync now d d' out)
  then show ?case using sync_store_ok [of d now] by simp
next
  case (step_seed t d d' out)
  then show ?case using session_store_ok(10) [of d E t] by simp
qed

text \<open>
  C1. Whatever requests arrive, in whatever order, with refreshes interleaved between their read and
  their write: the constraints of the schema hold in every reachable store and the four built-in
  roles exist, flagged as such, and nothing else is.
\<close>

theorem auth_invariant:
  assumes "auth_reachable E d0 d" and "store_ok d0"
  shows "store_ok d"
  using assms by (induction rule: auth_reachable.induct) (auto intro: auth_step_store_ok)

theorem auth_invariant_witness:
  "store_ok (fst (serve RRefresh (demo_ctx 200 ''b'') demo_request (fst (ensurePermissionCatalog 5 demo_db))))"
proof -
  let ?d1 = "fst (ensurePermissionCatalog 5 demo_db)"
  let ?d2 = "fst (serve RRefresh (demo_ctx 200 ''b'') demo_request ?d1)"
  have "auth_step demo_env demo_db ?d1"
    by (rule step_sync [of 5 _ _ "snd (ensurePermissionCatalog 5 demo_db)"]) simp
  moreover have "auth_step demo_env ?d1 ?d2"
    by (rule step_serve [of "demo_ctx 200 ''b''" _ RRefresh demo_request _ _
          "snd (serve RRefresh (demo_ctx 200 ''b'') demo_request ?d1)"]) (simp_all add: demo_ctx_def)
  ultimately have "auth_reachable demo_env demo_db ?d2"
    by (intro reach_step [OF reach_step [OF reach_start]])
  then show ?thesis by (rule auth_invariant [OF _ demo_store_ok])
qed

section \<open>Mediation\<close>

fun permission_of :: "guard \<Rightarrow> string list" where
  "permission_of (GPermission p) = [p]"
| "permission_of _ = []"

definition required_permissions :: "route \<Rightarrow> string list" where
  "required_permissions r = concat (map permission_of (guards r))"

fun is_authenticate :: "guard \<Rightarrow> bool" where
  "is_authenticate GAuthenticate = True"
| "is_authenticate _ = False"

definition authenticated_route :: "route \<Rightarrow> bool" where
  "authenticated_route r \<longleftrightarrow> list_ex is_authenticate (guards r)"

text \<open>The caller presented a token that verifies, with these claims.\<close>

definition caller :: "'k http_ctx \<Rightarrow> request \<Rightarrow> string db \<Rightarrow> claims option" where
  "caller c req d =
     (case header_token req of
        None \<Rightarrow> None
      | Some tok \<Rightarrow> (case verifyToken (hc_env c) (hc_tick c) tok d of Inl _ \<Rightarrow> None | Inr cl \<Rightarrow> Some cl))"

definition holds_permission :: "claims \<Rightarrow> string \<Rightarrow> bool" where
  "holds_permission cl p = set_mem (nullish (cl_permission cl) []) p"

lemma verifyToken_error: "verifyToken E t tok d = Inl e \<Longrightarrow> \<exists>m. e = AuthenticationError m None"
  by (auto simp: verifyToken_def jwt_failure_def auth_error_def Let_def split: sum.splits jwt_error.splits list.splits if_splits)

lemma authenticate_caller:
  "authenticateToken (hc_env c) (hc_tick c) req d = Inr cl \<longleftrightarrow> caller c req d = Some cl"
  by (auto simp: authenticateToken_def caller_def dest: verifyToken_error split: option.splits sum.splits app_error.splits)

lemma authenticate_refused:
  "authenticateToken (hc_env c) (hc_tick c) req d = Inl (s, m) \<Longrightarrow> s = 401"
  by (auto simp: authenticateToken_def dest: verifyToken_error split: option.splits sum.splits app_error.splits)

definition denied :: "string db \<Rightarrow> string db \<times> 'k response \<Rightarrow> bool" where
  "denied d r \<longleftrightarrow> fst r = d \<and> rs_status (snd r) \<in> {401, 403} \<and> rs_audit (snd r) = [] \<and> rs_cookie (snd r) = NoCookie"

lemma guarded_serve:
  assumes "guards r = GAuthenticate # gs"
  shows "caller c req d \<noteq> None \<or> denied d (serve r c req d)"
proof (cases "authenticateToken (hc_env c) (hc_tick c) req d")
  case (Inl v)
  then show ?thesis
    using assms authenticate_refused [of c req d] by (cases v) (auto simp: serve_def denied_def respond_def)
next
  case (Inr cl)
  then show ?thesis by (simp add: authenticate_caller)
qed

lemma guarded_serve_permission:
  assumes "guards r = GAuthenticate # GPermission p # gs"
  shows "(\<exists>cl. caller c req d = Some cl \<and> holds_permission cl p) \<or> denied d (serve r c req d)"
proof (cases "authenticateToken (hc_env c) (hc_tick c) req d")
  case (Inl v)
  then show ?thesis
    using assms authenticate_refused [of c req d] by (cases v) (auto simp: serve_def denied_def respond_def)
next
  case (Inr cl)
  then have "caller c req d = Some cl" by (simp only: authenticate_caller)
  then show ?thesis
    using assms Inr by (cases "holds_permission cl p")
      (simp_all add: serve_def requirePermission_def holds_permission_def denied_def respond_def)
qed

text \<open>
  C2. Complete mediation. On a route that requires a permission, a request that is not refused with
  401 or 403 (and then changes nothing, sets no cookie and is not audited) carries a token that
  verifies and holds that permission; a route that only requires authentication needs a token that
  verifies.  The routes without a guard are the eight of the public table.
\<close>

theorem complete_mediation:
  "(\<forall>p \<in> set (required_permissions r).
      (\<exists>cl. caller c req d = Some cl \<and> holds_permission cl p) \<or> denied d (serve r c req d))
   \<and> (authenticated_route r \<longrightarrow> caller c req d \<noteq> None \<or> denied d (serve r c req d))
   \<and> (required_permissions r = [] \<longleftrightarrow> r \<in> {RJwks, RRevocations, RLogin, RVerify, RRefresh, RLogout,
        RMe, RUpdateProfile, RChangePassword})
   \<and> (authenticated_route r \<longleftrightarrow> r \<notin> {RJwks, RRevocations, RLogin, RVerify, RRefresh, RLogout})"
proof -
  have "\<exists>gs. guards r = GAuthenticate # GPermission p # gs" if "p \<in> set (required_permissions r)" for p
    using that by (cases r) (auto simp: required_permissions_def canManageUsers_def canManageRbac_def)
  then have "(\<exists>cl. caller c req d = Some cl \<and> holds_permission cl p) \<or> denied d (serve r c req d)"
    if "p \<in> set (required_permissions r)" for p
    using guarded_serve_permission that by metis
  moreover have "\<exists>gs. guards r = GAuthenticate # gs" if "authenticated_route r"
    using that by (cases r) (auto simp: authenticated_route_def)
  then have "caller c req d \<noteq> None \<or> denied d (serve r c req d)" if "authenticated_route r"
    using guarded_serve that by metis
  moreover have "required_permissions r = [] \<longleftrightarrow> r \<in> {RJwks, RRevocations, RLogin, RVerify, RRefresh, RLogout,
        RMe, RUpdateProfile, RChangePassword}"
    by (cases r) (simp_all add: required_permissions_def canManageUsers_def canManageRbac_def)
  moreover have "authenticated_route r \<longleftrightarrow> r \<notin> {RJwks, RRevocations, RLogin, RVerify, RRefresh, RLogout}"
    by (cases r) (simp_all add: authenticated_route_def)
  ultimately show ?thesis by blast
qed

theorem complete_mediation_witness:
  "denied demo_db (serve RCreateRole (demo_ctx 200 ''b'') demo_request demo_db)"
  using complete_mediation [of RCreateRole "demo_ctx 200 ''b''" demo_request demo_db]
  by (auto simp: required_permissions_def canManageRbac_def caller_def header_token_def demo_request_def)

section \<open>Auditing\<close>

lemma rbac_error_status:
  assumes inv: "db_inv d"
  shows "snd (createRole rn desc ks now d) = Inl e \<Longrightarrow> 400 \<le> http_status e"
    and "snd (setRolePermissions role ks now d) = Inl e \<Longrightarrow> 400 \<le> http_status e"
    and "snd (resetRolePermissions role now d) = Inl e \<Longrightarrow> 400 \<le> http_status e"
    and "snd (updateRole role dsc nn now d) = Inl e \<Longrightarrow> 400 \<le> http_status e"
    and "snd (deleteRole role to now d) = Inl e \<Longrightarrow> 400 \<le> http_status e"
proof -
  note st = http_status_def unknown_error_def
  show "snd (createRole rn desc ks now d) = Inl e \<Longrightarrow> 400 \<le> http_status e"
    by (auto simp: createRole_eq [OF inv] Let_def st split: if_splits)
  show "snd (setRolePermissions role ks now d) = Inl e \<Longrightarrow> 400 \<le> http_status e" for ks
    by (auto simp: setRolePermissions_eq [OF inv] st split: if_splits)
  then show "snd (resetRolePermissions role now d) = Inl e \<Longrightarrow> 400 \<le> http_status e"
    by (auto simp: resetRolePermissions_def st split: option.splits)
  show "snd (updateRole role dsc nn now d) = Inl e \<Longrightarrow> 400 \<le> http_status e"
  proof (cases "role \<in> set (role_names d)")
    case True
    then obtain row where row: "row \<in> set (roles_t d)" "role = r_role_name row" using row_of_role by blast
    assume "snd (updateRole role dsc nn now d) = Inl e"
    then show ?thesis unfolding row(2)
      by (simp add: updateRole_eq [OF inv row(1)] Let_def st split: if_splits)
        (auto split: app_error.splits)
  qed (auto simp: updateRole_missing st)
  show "snd (deleteRole role to now d) = Inl e \<Longrightarrow> 400 \<le> http_status e"
  proof (cases "role \<in> set (role_names d)")
    case True
    then obtain row where row: "row \<in> set (roles_t d)" "role = r_role_name row" using row_of_role by blast
    assume "snd (deleteRole role to now d) = Inl e"
    then show ?thesis unfolding row(2)
      by (auto simp: deleteRole_eq [OF inv row(1)] Let_def st split: if_splits)
  qed (auto simp: deleteRole_missing st)
qed

text \<open>A mutating role handler: it fails without a trace, or succeeds with one audit event.\<close>

definition audited :: "claims option \<Rightarrow> string db \<Rightarrow> string db \<times> 'k response \<Rightarrow> bool" where
  "audited user d r \<longleftrightarrow>
     (if rs_status (snd r) < 400
      then (\<exists>ev. rs_audit (snd r) = [ev] \<and> ae_UserId ev = nullish (actorOf user) ''system'')
      else rs_audit (snd r) = [] \<and> fst r = d)"

lemma answer_audited:
  assumes "\<And>e. snd r = Inl e \<Longrightarrow> 400 \<le> http_status e \<and> fst r = d"
    and "\<And>x. snd r = Inr x \<Longrightarrow> rs_status (ok x) < 400
          \<and> (\<exists>ev. rs_audit (ok x) = [ev] \<and> ae_UserId ev = nullish (actorOf user) ''system'')"
  shows "audited user d (answer dflt ok r)"
  using assms by (cases "snd r") (auto simp: audited_def answer_def fail_def respond_def)

lemma atomic_error: "(\<not> is_inr (snd r) \<longrightarrow> fst r = d) \<Longrightarrow> snd r = Inl e \<Longrightarrow> fst r = d"
  by simp

lemma updateRole_view:
  assumes "db_inv d" "snd (updateRole role dsc nn now d) = Inr v"
  shows "v \<noteq> None"
proof (cases "role \<in> set (role_names d)")
  case True
  then obtain row where row: "row \<in> set (roles_t d)" "role = r_role_name row" using row_of_role by blast
  show ?thesis
    using assms(2) unfolding row(2) by (auto simp: updateRole_eq [OF assms(1) row(1)] Let_def split: if_splits)
qed (use assms(2) in \<open>simp add: updateRole_missing\<close>)

lemma rbac_handlers_audited:
  assumes inv: "db_inv d" and on: "audit_enabled (hc_process c)"
    and r: "r \<in> {RCreateRole, RUpdateRole, RDeleteRole, RSetRolePermissions, RResetRolePermissions}"
  shows "audited user d (handler_of r c req user d)"
proof -
  note atomic = rbac_atomic [OF inv]
  note err = rbac_error_status [OF inv]
  have ev: "\<exists>ev. audit_emit (hc_process c) ty (actorOf user) ent eid b a = [ev]
      \<and> ae_UserId ev = nullish (actorOf user) ''system''" for ty ent eid b a
    using on by (simp add: audit_emit_def)
  consider "r = RCreateRole" | "r = RUpdateRole" | "r = RDeleteRole" | "r = RSetRolePermissions"
    | "r = RResetRolePermissions" using r by auto
  then show ?thesis
  proof cases
    case 1
    show ?thesis unfolding 1 handler_of.simps createRole_handler_def Let_def
      by (rule answer_audited) (use err(1) atomic ev in \<open>auto simp: respond_def\<close>)
  next
    case 2
    show ?thesis unfolding 2 handler_of.simps updateRole_handler_def Let_def
      by (rule answer_audited)
        (use err(4) atomic ev in \<open>auto simp: respond_def split: option.split dest!: updateRole_view [OF inv]\<close>)
  next
    case 3
    show ?thesis unfolding 3 handler_of.simps deleteRole_handler_def Let_def
      by (rule answer_audited) (use err(5) atomic ev in \<open>auto simp: respond_def\<close>)
  next
    case 4
    show ?thesis
    proof (cases "b_permissions (rq_body req)")
      case None
      then show ?thesis by (simp add: 4 setRolePermissions_handler_def Let_def audited_def respond_def)
    next
      case (Some ks)
      have "audited user d (answer dflt (ok :: string list \<Rightarrow> 'a response) (setRolePermissions (rq_param req) ks (tk_db (hc_tick c)) d))"
        if "\<And>x. rs_status (ok x) < 400 \<and> (\<exists>ev. rs_audit (ok x) = [ev] \<and> ae_UserId ev = nullish (actorOf user) ''system'')"
        for dflt ok
        by (rule answer_audited) (use err(2) atomic that in auto)
      then show ?thesis
        using ev by (simp add: 4 setRolePermissions_handler_def Let_def Some respond_def)
    qed
  next
    case 5
    show ?thesis unfolding 5 handler_of.simps resetRolePermissions_handler_def Let_def
      by (rule answer_audited) (use err(3) atomic ev in \<open>auto simp: respond_def\<close>)
  qed
qed

text \<open>
  With the audit trail configured, every request that changes the RBAC configuration answers below 400
  and emits exactly one audit event, carrying the verified caller's id; a request that answers 400
  or more changed nothing and emits nothing.
\<close>

theorem rbac_changes_audited:
  assumes "db_inv d" and "audit_enabled (hc_process c)"
    and "r \<in> {RCreateRole, RUpdateRole, RDeleteRole, RSetRolePermissions, RResetRolePermissions}"
  shows "audited (caller c req d) d (serve r c req d)
    \<and> (rs_status (snd (serve r c req d)) < 400 \<longrightarrow> caller c req d \<noteq> None)"
proof -
  have g: "guards r = [GAuthenticate, GPermission ''rbac.manage'']"
    using assms(3) by (auto simp: canManageRbac_def)
  show ?thesis
  proof (cases "denied d (serve r c req d)")
    case True
    then show ?thesis by (auto simp: denied_def audited_def)
  next
    case False
    then obtain cl where cl: "caller c req d = Some cl" "holds_permission cl ''rbac.manage''"
      using guarded_serve_permission [of r "''rbac.manage''" "[]" c req d] g by blast
    then have "authenticateToken (hc_env c) (hc_tick c) req d = Inr cl"
      by (simp add: authenticate_caller)
    with cl(2) have "serve r c req d = handler_of r c req (Some cl) d"
      unfolding serve_def g by (simp add: requirePermission_def holds_permission_def)
    then show ?thesis
      using rbac_handlers_audited [OF assms, of "Some cl" req] cl(1) by simp
  qed
qed

theorem rbac_changes_audited_witness:
  "audited (caller (demo_ctx 200 ''b'') demo_request demo_db) demo_db (serve RDeleteRole (demo_ctx 200 ''b'') demo_request demo_db)"
proof -
  have "audit_enabled (hc_process (demo_ctx 200 ''b''))" by code_simp
  with rbac_changes_audited [OF demo_db_inv this, of RDeleteRole demo_request] show ?thesis by simp
qed

end
