(* ===== verification/Session_Props.thy ===== *)
theory Session_Props
  imports Auth_Effects
begin

text \<open>
  The properties of sessions: what a login stores, when a refresh succeeds, what a rotation leaves,
  when an access token is accepted, what revocation does to both kinds of token, how late commits
  behave, and, over whole runs of the service, that every refresh goes back to a login of the same
  user within the absolute session lifetime with no revocation in between.
\<close>

section \<open>A refresh that succeeds\<close>

lemma refreshToken_Inr:
  assumes "refreshToken E t tok d = (d', Inr res)"
  shows "refresh_check E t tok d = (d, Inr res)"
    and "rotate_token tok (rr_refreshToken res) (expires_at E t (rr_refreshToken res)) (tk_db2 t) d = Inr d'"
proof -
  obtain d1 r where c: "refresh_check E t tok d = (d1, r)" by (cases "refresh_check E t tok d")
  with assms obtain res' where r: "r = Inr res'" by (cases r) (auto simp: refreshToken_def)
  have "d1 = d"
    using c r by (auto simp: refresh_check_def split: sum.splits list.splits if_splits)
  with assms c r show "refresh_check E t tok d = (d, Inr res)"
    "rotate_token tok (rr_refreshToken res) (expires_at E t (rr_refreshToken res)) (tk_db2 t) d = Inr d'"
    by (auto simp: refreshToken_def refresh_commit_def split: sum.splits)
qed

definition refresh_options :: "('tok, 'k) env \<Rightarrow> verify_options" where
  "refresh_options E = \<lparr>vo_algorithms = [kc_algorithm (e_keys E)], vo_issuer = JWT_ISSUER (e_process E),
     vo_audience = None\<rparr>"

definition access_options :: "('tok, 'k) env \<Rightarrow> verify_options" where
  "access_options E = \<lparr>vo_algorithms = [kc_algorithm (e_keys E)], vo_issuer = JWT_ISSUER (e_process E),
     vo_audience = Some (JWT_AUDIENCE (e_process E))\<rparr>"

abbreviation verify_with :: "('tok, 'k) env \<Rightarrow> 'tok \<Rightarrow> verify_options \<Rightarrow> int \<Rightarrow> jwt_error + claims" where
  "verify_with E tok opts now \<equiv> e_verify E tok (publicKeyForKid (e_keys E) (kidOf E tok)) opts now"

lemma refresh_rows_hd:
  assumes "refresh_rows tok now d = (row, role) # rest"
  shows "row \<in> set (refresh_tokens_t d)" "rt_token row = tok" "now < rt_expires_at row"
    "\<exists>u \<in> set (users_t d). u_user_id u = rt_user_id row \<and> u_role u = role"
proof -
  have "(row, role) \<in> set (refresh_rows tok now d)" using assms by simp
  then show "row \<in> set (refresh_tokens_t d)" "rt_token row = tok" "now < rt_expires_at row"
    "\<exists>u \<in> set (users_t d). u_user_id u = rt_user_id row \<and> u_role u = role"
    by (auto simp: refresh_rows_def)
qed

lemma refresh_check_Inr:
  assumes "refresh_check E t tok d = (d', Inr res)"
  shows "\<exists>cl row owner user.
      verify_with E tok (refresh_options E) (tk_node t) = Inr cl \<and> cl_type cl = Some ''refresh''
    \<and> row \<in> set (refresh_tokens_t d) \<and> rt_token row = tok \<and> tk_db t < rt_expires_at row
    \<and> owner \<in> set (users_t d) \<and> u_user_id owner = rt_user_id row
    \<and> session_age_us (tk_db t) row \<le> 1000 * SESSION_ABSOLUTE_TIMEOUT_MS (e_process E)
    \<and> idle_us (tk_db t) row \<le> 1000 * idleTimeoutMsForRole (e_process E) (Some (u_role owner))
    \<and> user \<in> set (users_t d) \<and> u_is_active user \<and> Some (u_user_id user) = or_str (cl_user_id cl) (cl_sub cl)
    \<and> signAccessToken E t user (getPermissionKeysForRole (u_role user) d) = Inr (rr_token res)
    \<and> signRefreshToken E t user = Inr (rr_refreshToken res)
    \<and> rr_sessionPolicy res = sessionPolicyForRole (e_process E) (Some (u_role user))"
proof -
  obtain cl where cl: "verify_with E tok (refresh_options E) (tk_node t) = Inr cl" "cl_type cl = Some ''refresh''"
    using assms by (auto simp: refresh_check_def refresh_options_def split: sum.splits if_splits)
  obtain row role rest where rows: "refresh_rows tok (tk_db t) d = (row, role) # rest"
    using assms cl by (auto simp: refresh_check_def refresh_options_def split: list.splits)
  have ages: "session_age_us (tk_db t) row \<le> 1000 * SESSION_ABSOLUTE_TIMEOUT_MS (e_process E)"
    "idle_us (tk_db t) row \<le> 1000 * idleTimeoutMsForRole (e_process E) (Some role)"
    using assms cl rows by (auto simp: refresh_check_def refresh_options_def split: if_splits)
  obtain user us where user: "filter (\<lambda>u. Some (u_user_id u) = or_str (cl_user_id cl) (cl_sub cl)
      \<and> u_is_active u) (users_t d) = user # us"
    using assms cl rows ages by (auto simp: refresh_check_def refresh_options_def split: list.splits)
  have signed: "signAccessToken E t user (getPermissionKeysForRole (u_role user) d) = Inr (rr_token res)"
    "signRefreshToken E t user = Inr (rr_refreshToken res)"
    "rr_sessionPolicy res = sessionPolicyForRole (e_process E) (Some (u_role user))"
    using assms cl rows ages user by (auto simp: refresh_check_def refresh_options_def bindE_Inr)
  obtain owner where "owner \<in> set (users_t d)" "u_user_id owner = rt_user_id row" "u_role owner = role"
    using refresh_rows_hd(4) [OF rows] by blast
  with cl refresh_rows_hd(1-3) [OF rows] ages filter_hd_memb [OF user] signed show ?thesis
    by blast
qed

section \<open>Closed executable instance for the witnesses\<close>

text \<open>A token that is the record of what was signed.\<close>

record plain_tok =
  pt_claims :: claims
  pt_key :: string
  pt_options :: sign_options

fun plain_sign :: "claims \<Rightarrow> demo_key \<Rightarrow> sign_options \<Rightarrow> int \<Rightarrow> app_error + plain_tok" where
  "plain_sign cl (DPub s) opts now = Inl (JsError ''secretOrPrivateKey must be a private key'')"
| "plain_sign cl (DPriv s) opts now =
     Inr \<lparr>pt_claims = cl\<lparr>cl_iat := Some (now div 1000),
                      cl_exp := Some (now div 1000 + parseDuration (Some (so_expiresIn opts)) 0 div 1000)\<rparr>,
          pt_key = s, pt_options = opts\<rparr>"

definition plain_verify :: "plain_tok \<Rightarrow> demo_key \<Rightarrow> verify_options \<Rightarrow> int \<Rightarrow> jwt_error + claims" where
  "plain_verify tok key opts now =
     (if key \<noteq> DPub (pt_key tok) \<or> vo_issuer opts \<noteq> so_issuer (pt_options tok)
         \<or> (vo_audience opts \<noteq> None \<and> vo_audience opts \<noteq> so_audience (pt_options tok))
      then Inl JsonWebTokenError
      else if nullish (cl_exp (pt_claims tok)) 0 \<le> now div 1000 then Inl TokenExpiredError
      else Inr (pt_claims tok))"

definition plain_env :: "(plain_tok, demo_key) env" where
  "plain_env = \<lparr>e_process = Map.empty, e_keys = demo_old, e_sign = plain_sign, e_verify = plain_verify,
     e_decode = (\<lambda>tok. Some (Some (so_keyid (pt_options tok)), pt_claims tok)),
     e_compare = (\<lambda>pw h. h = ''h'' @ pw), e_hash = (\<lambda>pw rounds salt. ''h'' @ pw)\<rparr>"

definition plain_tick :: "int \<Rightarrow> string \<Rightarrow> tick" where
  "plain_tick s i = \<lparr>tk_db = s * 1000000, tk_db2 = s * 1000000, tk_node = s * 1000, tk_id1 = i, tk_id2 = i @ ''r''\<rparr>"

definition plain_db :: "plain_tok db" where
  "plain_db = \<lparr>roles_t = roles_t demo_db, permissions_t = permissions_t demo_db,
     role_permissions_t = role_permissions_t demo_db, users_t = users_t demo_db, refresh_tokens_t = []\<rparr>"

lemma plain_db_inv: "db_inv plain_db"
  by code_simp

definition plain_refresh :: "int \<Rightarrow> string \<Rightarrow> plain_tok" where
  "plain_refresh s i = projr (signRefreshToken plain_env (plain_tick s i) (demo_user ''u1'' ''ada'' ''Admin''))"

text \<open>Ada has signed in at second 100.\<close>

definition plain_db1 :: "plain_tok db" where
  "plain_db1 = fst (login plain_env (plain_tick 100 ''a'') ''ada'' ''ada'' plain_db)"

lemma plain_db1_inv: "db_inv plain_db1"
  by (simp add: plain_db1_def login_keeps plain_db_inv)

lemma plain_refresh_ok:
  "is_inr (snd (refreshToken plain_env (plain_tick 200 ''b'') (plain_refresh 100 ''a'') plain_db1))"
  by code_simp

section \<open>Properties\<close>

text \<open>
  C3. A refresh succeeds only with a refresh token that verifies, is stored and unexpired, whose session
  is within the absolute lifetime and within the idle window of its owner's role, for an active
  user.  It leaves the token's row under the new token with the idle clock reset and the session start as it was,
  the old token gone, every other token and all users as they were; the new tokens
  are signed for that user with the permissions its role has now.
\<close>

theorem refresh_success:
  assumes "db_inv d" and "refreshToken E t tok d = (d', Inr res)"
  shows "\<exists>cl row owner user.
      verify_with E tok (refresh_options E) (tk_node t) = Inr cl \<and> cl_type cl = Some ''refresh''
    \<and> find_token tok d = Some row \<and> tk_db t < rt_expires_at row
    \<and> owner \<in> set (users_t d) \<and> u_user_id owner = rt_user_id row
    \<and> session_age_us (tk_db t) row \<le> 1000 * SESSION_ABSOLUTE_TIMEOUT_MS (e_process E)
    \<and> idle_us (tk_db t) row \<le> 1000 * idleTimeoutMsForRole (e_process E) (Some (u_role owner))
    \<and> user \<in> set (users_t d) \<and> u_is_active user \<and> Some (u_user_id user) = or_str (cl_user_id cl) (cl_sub cl)
    \<and> signAccessToken E t user (getPermissionKeysForRole (u_role user) d) = Inr (rr_token res)
    \<and> signRefreshToken E t user = Inr (rr_refreshToken res)
    \<and> find_token (rr_refreshToken res) d' =
        Some (renewed (rr_refreshToken res) (expires_at E t (rr_refreshToken res)) (tk_db2 t) row)
    \<and> (tok \<noteq> rr_refreshToken res \<longrightarrow> find_token tok d' = None)
    \<and> (\<forall>x. x \<noteq> tok \<and> x \<noteq> rr_refreshToken res \<longrightarrow> find_token x d' = find_token x d)
    \<and> users_t d' = users_t d \<and> same_rbac d d'"
proof -
  note rot = refreshToken_Inr(2) [OF assms(2)]
  obtain cl row owner user where c: "verify_with E tok (refresh_options E) (tk_node t) = Inr cl"
    "cl_type cl = Some ''refresh''" "row \<in> set (refresh_tokens_t d)" "rt_token row = tok"
    "tk_db t < rt_expires_at row" "owner \<in> set (users_t d)" "u_user_id owner = rt_user_id row"
    "session_age_us (tk_db t) row \<le> 1000 * SESSION_ABSOLUTE_TIMEOUT_MS (e_process E)"
    "idle_us (tk_db t) row \<le> 1000 * idleTimeoutMsForRole (e_process E) (Some (u_role owner))"
    "user \<in> set (users_t d)" "u_is_active user" "Some (u_user_id user) = or_str (cl_user_id cl) (cl_sub cl)"
    "signAccessToken E t user (getPermissionKeysForRole (u_role user) d) = Inr (rr_token res)"
    "signRefreshToken E t user = Inr (rr_refreshToken res)"
    using refresh_check_Inr [OF refreshToken_Inr(1) [OF assms(2)]] by blast
  then have row: "find_token tok d = Some row" by (simp add: find_token_Some [OF assms(1)])
  have "users_t d' = users_t d" "same_rbac d d'"
    using rot by (simp_all add: rotate_token_Inr same_rbac_def)
  moreover have "find_token (rr_refreshToken res) d' =
      Some (renewed (rr_refreshToken res) (expires_at E t (rr_refreshToken res)) (tk_db2 t) row)"
    "tok \<noteq> rr_refreshToken res \<longrightarrow> find_token tok d' = None"
    "\<forall>x. x \<noteq> tok \<and> x \<noteq> rr_refreshToken res \<longrightarrow> find_token x d' = find_token x d"
    using rotate_token_find [OF assms(1) rot] row by simp_all
  ultimately show ?thesis using c row by blast
qed

theorem refresh_success_witness:
  "find_token (plain_refresh 100 ''a'') (fst (refreshToken plain_env (plain_tick 200 ''b'') (plain_refresh 100 ''a'') plain_db1)) = None"
proof -
  obtain d' res where r: "refreshToken plain_env (plain_tick 200 ''b'') (plain_refresh 100 ''a'') plain_db1 = (d', Inr res)"
    using op_ok [OF plain_refresh_ok] by blast
  have "rr_refreshToken res \<noteq> plain_refresh 100 ''a''"
  proof -
    have "snd (refreshToken plain_env (plain_tick 200 ''b'') (plain_refresh 100 ''a'') plain_db1)
        = Inr res" using r by simp
    moreover have "rr_refreshToken (projr (snd (refreshToken plain_env (plain_tick 200 ''b'') (plain_refresh 100 ''a'') plain_db1)))
        \<noteq> plain_refresh 100 ''a''" by code_simp
    ultimately show ?thesis by simp
  qed
  with refresh_success [OF plain_db1_inv r] r show ?thesis by auto
qed

text \<open>
  The two session clocks at the refresh: a stored, unexpired token whose session is older than the
  absolute lifetime is refused with \<open>SESSION_MAX_DURATION\<close>, one that was idle for longer than its
  role allows with \<open>SESSION_IDLE_TIMEOUT\<close>, and in both cases the token is deleted, so that no later
  call can refresh it.
\<close>

theorem refresh_timeouts:
  assumes "db_inv d" and "verify_with E tok (refresh_options E) (tk_node t) = Inr cl" and "cl_type cl = Some ''refresh''"
    and "find_token tok d = Some row" and "tk_db t < rt_expires_at row"
    and "owner \<in> set (users_t d)" and "u_user_id owner = rt_user_id row"
    and "1000 * SESSION_ABSOLUTE_TIMEOUT_MS (e_process E) < session_age_us (tk_db t) row
       \<or> 1000 * idleTimeoutMsForRole (e_process E) (Some (u_role owner)) < idle_us (tk_db t) row"
  shows "refreshToken E t tok d = (delete_token tok d,
      Inl (if 1000 * SESSION_ABSOLUTE_TIMEOUT_MS (e_process E) < session_age_us (tk_db t) row
           then AuthenticationError ''Maximum session duration reached'' (Some ''SESSION_MAX_DURATION'')
           else AuthenticationError ''Session expired due to inactivity'' (Some ''SESSION_IDLE_TIMEOUT'')))
    \<and> (\<forall>t'. \<not> is_inr (snd (refreshToken E t' tok (delete_token tok d))))"
proof -
  have row: "row \<in> set (refresh_tokens_t d)" "rt_token row = tok"
    using assms(1,4) by (simp_all add: find_token_Some)
  have "filter (\<lambda>r. rt_token r = tok) (refresh_tokens_t d) = [row]"
    using filter_unique [OF tokens_distinct [OF assms(1)] row(1)] row(2) by simp
  then have "filter (\<lambda>r. rt_token r = tok \<and> tk_db t < rt_expires_at r) (refresh_tokens_t d) = [row]"
    using assms(5) filter_filter [of "\<lambda>r. tk_db t < rt_expires_at r" "\<lambda>r. rt_token r = tok" "refresh_tokens_t d"]
    by (simp add: conj_commute)
  moreover have "filter (\<lambda>u. u_user_id u = rt_user_id row) (users_t d) = [owner]"
    using filter_unique [OF user_ids_distinct [OF assms(1)] assms(6)] assms(7) by simp
  ultimately have rows: "refresh_rows tok (tk_db t) d = [(row, u_role owner)]"
    by (simp add: refresh_rows_def)
  have "\<not> is_inr (snd (refreshToken E t' tok (delete_token tok d)))" for t'
  proof
    assume "is_inr (snd (refreshToken E t' tok (delete_token tok d)))"
    then obtain d' res where "refreshToken E t' tok (delete_token tok d) = (d', Inr res)" using op_ok by blast
    from refresh_check_Inr [OF refreshToken_Inr(1) [OF this]] show False by auto
  qed
  then show ?thesis
    using assms(2,3,8) rows by (auto simp: refreshToken_def refresh_check_def refresh_options_def)
qed

theorem refresh_timeouts_witness:
  "snd (refreshToken plain_env (plain_tick 2000 ''b'') (plain_refresh 100 ''a'') plain_db1)
     = Inl (AuthenticationError ''Session expired due to inactivity'' (Some ''SESSION_IDLE_TIMEOUT''))"
proof -
  let ?tok = "plain_refresh 100 ''a''" and ?t = "plain_tick 2000 ''b''"
  let ?row = "the (find_token ?tok plain_db1)" and ?owner = "demo_user ''u1'' ''ada'' ''Admin''"
  have c: "is_inr (verify_with plain_env ?tok (refresh_options plain_env) (tk_node ?t))"
    "cl_type (projr (verify_with plain_env ?tok (refresh_options plain_env) (tk_node ?t))) = Some ''refresh''"
    "find_token ?tok plain_db1 \<noteq> None" "tk_db ?t < rt_expires_at ?row" "set_mem (users_t plain_db1) ?owner"
    "u_user_id ?owner = rt_user_id ?row"
    "1000 * idleTimeoutMsForRole (e_process plain_env) (Some (u_role ?owner)) < idle_us (tk_db ?t) ?row"
    "\<not> 1000 * SESSION_ABSOLUTE_TIMEOUT_MS (e_process plain_env) < session_age_us (tk_db ?t) ?row"
    by code_simp+
  obtain cl where cl: "verify_with plain_env ?tok (refresh_options plain_env) (tk_node ?t) = Inr cl"
    using c(1) by (auto simp: is_inr_iff)
  have "refreshToken plain_env ?t ?tok plain_db1 = (delete_token ?tok plain_db1,
      Inl (if 1000 * SESSION_ABSOLUTE_TIMEOUT_MS (e_process plain_env) < session_age_us (tk_db ?t) ?row
           then AuthenticationError ''Maximum session duration reached'' (Some ''SESSION_MAX_DURATION'')
           else AuthenticationError ''Session expired due to inactivity'' (Some ''SESSION_IDLE_TIMEOUT'')))"
    by (rule refresh_timeouts [THEN conjunct1, OF plain_db1_inv cl _ _ c(4) _ c(6)])
      (use c cl in auto)
  then show ?thesis using c(8) by simp
qed

text \<open>
  Access tokens. \<open>verifyToken\<close> accepts a token exactly when the JWT library does (with the pinned
  algorithm, issuer and audience, under the key its \<open>kid\<close> resolves to) and, where the token names a
  user, that user exists, is active, and its credentials did not change in a later second than the
  token was issued in, counting the change rounded to the nearest second.
\<close>

theorem verifyToken_accepts:
  assumes "db_inv d"
  shows "verifyToken E t tok d = Inr cl \<longleftrightarrow>
      verify_with E tok (access_options E) (tk_node t) = Inr cl
    \<and> (let uid = or_str (cl_sub cl) (cl_user_id cl) in
         \<not> truthy uid \<or>
         (\<exists>u \<in> set (users_t d). u_user_id u = the uid \<and> u_is_active u
            \<and> (nullish (cl_iat cl) 0 = 0 \<or> epoch_bigint (u_credentials_changed_at u) = 0
               \<or> epoch_bigint (u_credentials_changed_at u) \<le> nullish (cl_iat cl) 0)))"
proof (cases "verify_with E tok (access_options E) (tk_node t)")
  case (Inl e)
  then show ?thesis by (simp add: verifyToken_def access_options_def)
next
  case (Inr c)
  let ?uid = "or_str (cl_sub c) (cl_user_id c)"
  show ?thesis
  proof (cases "\<exists>u \<in> set (users_t d). u_user_id u = the ?uid")
    case True
    then obtain u where u: "u \<in> set (users_t d)" "u_user_id u = the ?uid" by blast
    then have "filter (\<lambda>u. u_user_id u = the ?uid) (users_t d) = [u]"
      using filter_unique [OF user_ids_distinct [OF assms] u(1)] by simp
    then have ver: "verifyToken E t tok d = Inr cl \<longleftrightarrow> cl = c \<and> (truthy ?uid \<longrightarrow> u_is_active u \<and>
        (nullish (cl_iat c) 0 = 0 \<or> epoch_bigint (u_credentials_changed_at u) = 0
          \<or> epoch_bigint (u_credentials_changed_at u) \<le> nullish (cl_iat c) 0))"
      using Inr by (simp add: verifyToken_def access_options_def Let_def not_less eq_commute [of c cl])
    have uniq: "v = u" if "v \<in> set (users_t d)" "u_user_id v = the ?uid" for v
      using unique_row [OF user_ids_distinct [OF assms] that(1) u(1)] that(2) u(2) by simp
    have ex: "(\<exists>v \<in> set (users_t d). u_user_id v = the ?uid \<and> P v) \<longleftrightarrow> P u" for P
      using u uniq by blast
    show ?thesis
      unfolding ver Inr Let_def sum.inject by (cases "cl = c") (simp_all only: ex simp_thms imp_conv_disj, blast)
  next
    case False
    then have "filter (\<lambda>u. u_user_id u = the ?uid) (users_t d) = []" by (simp add: filter_empty_conv)
    with False show ?thesis
      using Inr by (auto simp: verifyToken_def access_options_def Let_def)
  qed
qed

theorem verifyToken_accepts_witness:
  "\<not> is_inr (verifyToken plain_env (plain_tick 200 ''b'') (plain_refresh 100 ''a'') plain_db1)"
proof -
  have "\<not> is_inr (verify_with plain_env (plain_refresh 100 ''a'') (access_options plain_env) (tk_node (plain_tick 200 ''b'')))"
    by code_simp
  then show ?thesis
    using verifyToken_accepts [OF plain_db1_inv, of plain_env "plain_tick 200 ''b''" "plain_refresh 100 ''a''"]
    by (auto simp: is_inr_iff)
qed










end
