(* ===== verification/Js_Lib.thy ===== *)
theory Js_Lib
  imports Complex_Main Prelude "HOL-Library.AList"
begin

text \<open>
  The JavaScript values the browser client works with.  A field that may be absent, null or a value
  keeps the three cases apart in \<open>'a nul\<close>; \<open>coalesce\<close> is the operator \<open>??\<close> on it.  A
  \<open>Map\<close> is an association list in insertion order with the library's \<^const>\<open>AList.update\<close> (in place,
  or at the end) and \<^const>\<open>AList.delete\<close>; a \<open>Set\<close> is a list without duplicates.  \<open>js_number\<close> is
  \<open>Number(text)\<close> where the source keeps finite results only; \<open>None\<close> stands for NaN and the infinities.
\<close>

named_theorems map_simps \<open>how the operations on an insertion-ordered map act on lookups and keys\<close>

section \<open>Absent, null and present\<close>

datatype 'a nul = Undef | Null | Val 'a

fun coalesce :: "'a nul \<Rightarrow> 'a nul \<Rightarrow> 'a nul" where
  "coalesce (Val v) y = Val v"
| "coalesce Undef y = y"
| "coalesce Null y = y"

lemma coalesce_idem [simp]: "coalesce x x = x" "coalesce x (coalesce x y) = coalesce x y"
  by (cases x; simp)+

fun nul_of :: "'a option \<Rightarrow> 'a nul" where
  "nul_of None = Undef"
| "nul_of (Some v) = Val v"

fun nul_or :: "'a nul \<Rightarrow> 'a \<Rightarrow> 'a" where
  "nul_or (Val v) d = v"
| "nul_or Undef d = d"
| "nul_or Null d = d"

text \<open>A spread \<open>{...a, ...b}\<close> on one optional field: the field of \<open>b\<close> unless it is absent.\<close>

fun spread :: "'a nul \<Rightarrow> 'a nul \<Rightarrow> 'a nul" where
  "spread a Undef = a"
| "spread a Null = Null"
| "spread a (Val v) = Val v"

lemma spread_idem [simp]: "spread a a = a"
  by (cases a) simp_all

definition nul_truthy :: "string nul \<Rightarrow> bool" where
  "nul_truthy x = (case x of Val s \<Rightarrow> s \<noteq> [] | _ \<Rightarrow> False)"

section \<open>Maps and sets\<close>

definition keys :: "('k \<times> 'v) list \<Rightarrow> 'k list" where
  "keys m = map fst m"

lemma set_keys: "k \<in> set (keys m) \<longleftrightarrow> map_of m k \<noteq> None"
  by (simp add: keys_def map_of_eq_None_iff)

lemma map_of_update [map_simps]: "map_of (AList.update k v m) k' = (if k' = k then Some v else map_of m k')"
  by (simp add: AList.update_conv')

lemma map_of_delete [map_simps]: "map_of (AList.delete k m) k' = (if k' = k then None else map_of m k')"
  by (simp add: AList.delete_conv')

lemma keys_update [map_simps]: "keys (AList.update k v m) = (if k \<in> set (keys m) then keys m else keys m @ [k])"
  by (simp add: keys_def AList.update_keys)

lemma keys_delete [map_simps]: "keys (AList.delete k m) = filter (\<lambda>k'. k' \<noteq> k) (keys m)"
  by (simp add: keys_def AList.delete_keys removeAll_filter_not_eq)
     (metis (mono_tags, lifting) filter_cong)

lemma distinct_keys_update: "distinct (keys m) \<Longrightarrow> distinct (keys (AList.update k v m))"
  by (simp add: map_simps)

lemma distinct_keys_delete: "distinct (keys m) \<Longrightarrow> distinct (keys (AList.delete k m))"
  by (simp add: map_simps)

lemma update_same: "distinct (keys m) \<Longrightarrow> map_of m k = Some v \<Longrightarrow> AList.update k v m = m"
  by (induction m) (auto simp: keys_def split: if_splits)

lemma delete_absent: "map_of m k = None \<Longrightarrow> AList.delete k m = m"
  by (simp add: map_of_eq_None_iff AList.delete_idem)

definition set_add :: "'a \<Rightarrow> 'a list \<Rightarrow> 'a list" where
  "set_add x s = (if set_mem s x then s else s @ [x])"

definition set_del :: "'a \<Rightarrow> 'a list \<Rightarrow> 'a list" where
  "set_del x s = filter (\<lambda>y. y \<noteq> x) s"

lemma set_set_add [simp]: "set (set_add x s) = insert x (set s)"
  by (auto simp: set_add_def)

lemma distinct_set_add [simp]: "distinct s \<Longrightarrow> distinct (set_add x s)"
  by (simp add: set_add_def)

section \<open>Numbers\<close>

definition digits_value :: "string \<Rightarrow> int" where
  "digits_value ds = foldl (\<lambda>acc c. 10 * acc + (int (code c) - 48)) 0 ds"

definition radix_value :: "int \<Rightarrow> string \<Rightarrow> rat option" where
  "radix_value base ds =
     (if ds \<noteq> [] \<and> list_all (\<lambda>c. case hex_val c of Some v \<Rightarrow> v < base | None \<Rightarrow> False) ds
      then Some (of_int (foldl (\<lambda>acc c. base * acc + the (hex_val c)) 0 ds)) else None)"

text \<open>The exponent part: empty, or \<open>e\<close> with an optional sign and digits.\<close>

definition exponent_part :: "string \<Rightarrow> int option" where
  "exponent_part s =
     (case s of
        [] \<Rightarrow> Some 0
      | c # r \<Rightarrow>
          if c \<noteq> CHR ''e'' \<and> c \<noteq> CHR ''E'' then None
          else (let (sg, ds) = (case r of
                    [] \<Rightarrow> (1, [])
                  | d # r' \<Rightarrow> if d = CHR ''-'' then (-1, r') else if d = CHR ''+'' then (1, r') else (1, r)) in
                if ds \<noteq> [] \<and> list_all is_digit ds then Some (sg * digits_value ds) else None))"

definition scale10 :: "rat \<Rightarrow> int \<Rightarrow> rat" where
  "scale10 m e = (if 0 \<le> e then m * 10 ^ nat e else m / 10 ^ nat (- e))"

text \<open>A magnitude from \<open>2 ^ 1024 - 2 ^ 970\<close> on rounds to infinity.\<close>

definition finite_number :: "rat \<Rightarrow> bool" where
  "finite_number m = (\<bar>m\<bar> < 2 ^ 1024 - 2 ^ 970)"

definition unsigned_decimal :: "string \<Rightarrow> rat option" where
  "unsigned_decimal s =
     (let ip = takeWhile is_digit s; r = dropWhile is_digit s;
          (fp, r') = (case r of [] \<Rightarrow> ([], [])
                      | c # q \<Rightarrow> if c = CHR ''.'' then (takeWhile is_digit q, dropWhile is_digit q) else ([], r)) in
      if ip = [] \<and> fp = [] then None
      else (case exponent_part r' of
              None \<Rightarrow> None
            | Some e \<Rightarrow> Some (scale10 (of_int (digits_value (ip @ fp))) (e - int (length fp)))))"

definition js_number :: "string \<Rightarrow> rat option" where
  "js_number text =
     (let s = js_trim text; p = take 2 s in
      case (if s = [] then Some 0
            else if p = ''0x'' \<or> p = ''0X'' then radix_value 16 (drop 2 s)
            else if p = ''0o'' \<or> p = ''0O'' then radix_value 8 (drop 2 s)
            else if p = ''0b'' \<or> p = ''0B'' then radix_value 2 (drop 2 s)
            else if hd s = CHR ''-'' then map_option uminus (unsigned_decimal (tl s))
            else if hd s = CHR ''+'' then unsigned_decimal (tl s)
            else unsigned_decimal s) of
        None \<Rightarrow> None
      | Some m \<Rightarrow> if finite_number m then Some m else None)"

end
