(* ===== verification/Alarm_Model.thy ===== *)
theory Alarm_Model
  imports Js_Lib
begin

text \<open>
  The alarm of the browser client (src/frontend-ob/src/store/alarmStore.ts) and the pure functions on
  it: reconciliation of a delivered alarm with the stored one and the acknowledgement lifecycle
  (utils/alarmReconciliation.ts), the server filter and the console order (utils/opcAlarmFilter.ts) and
  the acknowledge precondition (utils/opcAckWriteable.ts).  Times are integers in milliseconds; the
  process value is a rational.  A field declared \<open>T | null\<close> is an option, a field that may also be
  absent is a \<open>nul\<close>.  An object inside an OPC attribute is its reference: \<open>===\<close> compares identities.
\<close>

section \<open>The alarm\<close>

datatype attr = AtStr string | AtNum rat | AtBool bool | AtNull | AtObj nat

record alarm =
  al_id :: string
  al_serverId :: string
  al_serverName :: string
  al_sourceName :: string
  al_conditionName :: "string option"
  al_subConditionName :: "string option"
  al_message :: "string option"
  al_severity :: int
  al_priority :: string
  al_category :: string
  al_state :: string
  al_conditionActive :: bool
  al_acknowledged :: bool
  al_isShelved :: bool
  al_isSuppressed :: bool
  al_isOutOfService :: bool
  al_qualityGood :: bool
  al_eventTime :: int
  al_activeTime :: int
  al_ackTime :: "int option"
  al_ackedBy :: "string option"
  al_ackComment :: "string option"
  al_shelveUntil :: "int option"
  al_shelveComment :: "string option"
  al_suppressionReason :: "string option"
  al_correlationId :: "string option"
  al_isRootCause :: bool
  al_processValue :: "rat option"
  al_processUnit :: "string option"
  al_serverReceived :: int
  al_opc :: "(string \<times> attr) list"
  al_familyId :: string
  al_schemaVersion :: int
  al_eventTimeMissing :: "bool nul"
  al_ackLifecycle :: "string nul"
  al_ackRequestedAt :: "int nul"
  al_pendingAck :: "string nul"
  al_commandId :: "string nul"
  al_lifecycleId :: "string nul"
  al_dcsSequenceId :: "string nul"

definition opc_attr :: "alarm \<Rightarrow> string \<Rightarrow> attr option" where
  "opc_attr a k = map_of (al_opc a) k"

section \<open>Reconciliation\<close>

definition shallowRecordEqual :: "(string \<times> attr) list \<Rightarrow> (string \<times> attr) list \<Rightarrow> bool" where
  "shallowRecordEqual a b = list_all (\<lambda>k. map_of a k = map_of b k) (keys a @ keys b)"

definition alarmsEqual :: "alarm \<Rightarrow> alarm \<Rightarrow> bool" where
  "alarmsEqual a b =
     (al_id a = al_id b \<and> al_serverId a = al_serverId b \<and> al_serverName a = al_serverName b
      \<and> al_sourceName a = al_sourceName b \<and> al_conditionName a = al_conditionName b
      \<and> al_subConditionName a = al_subConditionName b \<and> al_message a = al_message b
      \<and> al_severity a = al_severity b \<and> al_priority a = al_priority b \<and> al_category a = al_category b
      \<and> al_state a = al_state b \<and> al_conditionActive a = al_conditionActive b
      \<and> al_acknowledged a = al_acknowledged b \<and> al_isShelved a = al_isShelved b
      \<and> al_isSuppressed a = al_isSuppressed b \<and> al_isOutOfService a = al_isOutOfService b
      \<and> al_qualityGood a = al_qualityGood b \<and> al_eventTime a = al_eventTime b
      \<and> al_activeTime a = al_activeTime b \<and> al_ackTime a = al_ackTime b \<and> al_ackedBy a = al_ackedBy b
      \<and> al_ackComment a = al_ackComment b \<and> al_shelveUntil a = al_shelveUntil b
      \<and> al_shelveComment a = al_shelveComment b \<and> al_suppressionReason a = al_suppressionReason b
      \<and> al_correlationId a = al_correlationId b \<and> al_isRootCause a = al_isRootCause b
      \<and> al_processValue a = al_processValue b \<and> al_processUnit a = al_processUnit b
      \<and> al_serverReceived a = al_serverReceived b \<and> al_familyId a = al_familyId b
      \<and> al_schemaVersion a = al_schemaVersion b \<and> al_eventTimeMissing a = al_eventTimeMissing b
      \<and> al_ackLifecycle a = al_ackLifecycle b \<and> al_ackRequestedAt a = al_ackRequestedAt b
      \<and> al_pendingAck a = al_pendingAck b \<and> al_commandId a = al_commandId b
      \<and> al_lifecycleId a = al_lifecycleId b \<and> al_dcsSequenceId a = al_dcsSequenceId b
      \<and> shallowRecordEqual (al_opc a) (al_opc b))"

text \<open>\<open>alarmSortKeyChanged\<close>: what makes the grid sort again.\<close>

definition alarmSortKeyChanged :: "alarm \<Rightarrow> alarm \<Rightarrow> bool" where
  "alarmSortKeyChanged a b = (al_eventTime a \<noteq> al_eventTime b \<or> al_priority a \<noteq> al_priority b)"

definition stateRichness :: "alarm \<Rightarrow> nat" where
  "stateRichness a = (if nul_truthy (al_commandId a) then 2 else 0) + (if al_opc a \<noteq> [] then 1 else 0)"

definition preferRicherState :: "alarm \<Rightarrow> alarm \<Rightarrow> alarm" where
  "preferRicherState a b = (if stateRichness a \<le> stateRichness b then b else a)"

definition resolveOperatorAcknowledged :: "alarm \<Rightarrow> alarm \<Rightarrow> bool" where
  "resolveOperatorAcknowledged existing incoming =
     (if al_acknowledged incoming then True
      else if al_ackLifecycle existing = Val ''ACK_CONFIRMED'' then True
      else if al_ackLifecycle incoming = Val ''ACK_CONFIRMED'' then True
      else if al_ackLifecycle incoming = Val ''ACK_FAILED'' \<or> al_ackLifecycle incoming = Val ''ACK_TIMEOUT'' then False
      else al_acknowledged existing)"

text \<open>\<open>Object.assign(opc, attrs)\<close>\<close>

definition merge_opc :: "(string \<times> attr) list \<Rightarrow> (string \<times> attr) list \<Rightarrow> (string \<times> attr) list" where
  "merge_opc old new = fold (\<lambda>(k, v). AList.update k v) new old"

definition mergeFields :: "alarm \<Rightarrow> alarm \<Rightarrow> alarm" where
  "mergeFields existing incoming =
     incoming\<lparr>
       al_eventTimeMissing := spread (al_eventTimeMissing existing) (al_eventTimeMissing incoming),
       al_acknowledged := resolveOperatorAcknowledged existing incoming,
       al_subConditionName := orelse (al_subConditionName incoming) (al_subConditionName existing),
       al_ackComment := orelse (al_ackComment incoming) (al_ackComment existing),
       al_ackedBy := orelse (al_ackedBy incoming) (al_ackedBy existing),
       al_ackTime := orelse (al_ackTime incoming) (al_ackTime existing),
       al_opc := merge_opc (al_opc existing) (al_opc incoming),
       al_commandId := coalesce (al_commandId incoming) (al_commandId existing),
       al_correlationId := orelse (al_correlationId incoming) (al_correlationId existing),
       al_lifecycleId := coalesce (al_lifecycleId incoming) (al_lifecycleId existing),
       al_dcsSequenceId := coalesce (al_dcsSequenceId incoming) (al_dcsSequenceId existing),
       al_ackLifecycle := coalesce (al_ackLifecycle incoming) (al_ackLifecycle existing),
       al_ackRequestedAt := coalesce (al_ackRequestedAt incoming) (al_ackRequestedAt existing),
       al_pendingAck := coalesce (al_pendingAck incoming) (al_pendingAck existing)\<rparr>"

definition upsert_merge :: "alarm \<Rightarrow> alarm \<Rightarrow> alarm" where
  "upsert_merge existing incoming =
     (let preferred = (if al_eventTime incoming = al_eventTime existing \<and> al_id incoming = al_id existing
                       then preferRicherState existing (mergeFields existing incoming)
                       else mergeFields existing incoming) in
      if alarmsEqual existing preferred then existing else preferred)"

definition upsertAlarm :: "alarm option \<Rightarrow> alarm \<Rightarrow> alarm" where
  "upsertAlarm existing incoming =
     (case existing of
        None \<Rightarrow> incoming
      | Some e \<Rightarrow> if al_eventTime incoming < al_eventTime e then e else upsert_merge e incoming)"

section \<open>The acknowledgement lifecycle\<close>

definition TERMINAL_ACK :: "string list" where
  "TERMINAL_ACK = [''ACK_CONFIRMED'', ''ACK_FAILED'', ''ACK_TIMEOUT'']"

definition PENDING_ACK :: "string list" where
  "PENDING_ACK = [''ACK_REQUESTED'', ''ACK_QUEUED'', ''ACK_PROCESSING'', ''ACK_DISPATCHED'',
                  ''ACK_PENDING_DCS'', ''ACK_RETRYING'']"

definition shouldApplyAckLifecycle :: "string nul \<Rightarrow> string \<Rightarrow> bool" where
  "shouldApplyAckLifecycle currentState incomingState =
     (\<not> (set_mem TERMINAL_ACK (nul_or currentState []) \<and> \<not> set_mem TERMINAL_ACK incomingState))"

record ack_trace =
  tr_commandId :: "string option"
  tr_correlationId :: "string option"
  tr_lifecycleId :: "string option"
  tr_dcsSequenceId :: "string option"

definition set_trace :: "ack_trace \<Rightarrow> alarm \<Rightarrow> alarm" where
  "set_trace t a =
     a\<lparr>al_commandId := (if truthy (tr_commandId t) then nul_of (tr_commandId t) else al_commandId a),
       al_correlationId := (if truthy (tr_correlationId t) then tr_correlationId t else al_correlationId a),
       al_lifecycleId := (if truthy (tr_lifecycleId t) then nul_of (tr_lifecycleId t) else al_lifecycleId a),
       al_dcsSequenceId := (if truthy (tr_dcsSequenceId t) then nul_of (tr_dcsSequenceId t) else al_dcsSequenceId a)\<rparr>"

definition no_trace :: ack_trace where
  "no_trace = \<lparr>tr_commandId = None, tr_correlationId = None, tr_lifecycleId = None, tr_dcsSequenceId = None\<rparr>"

definition applyAckLifecycleToAlarm ::
  "int \<Rightarrow> alarm \<Rightarrow> string \<Rightarrow> int option \<Rightarrow> ack_trace option \<Rightarrow> alarm" where
  "applyAckLifecycleToAlarm now a st ts trace =
     (if \<not> shouldApplyAckLifecycle (al_ackLifecycle a) st then a
      else
        (let t = nullish trace no_trace;
             n0 = set_trace t (a\<lparr>al_ackLifecycle := Val st\<rparr>);
             n1 = (if st = ''ACK_REQUESTED'' \<or> st = ''ACK_QUEUED''
                   then n0\<lparr>al_ackRequestedAt := Val (nullish ts now),
                           al_pendingAck := coalesce (nul_of (tr_commandId t)) (al_pendingAck n0)\<rparr>
                   else n0) in
         if st = ''ACK_CONFIRMED'' then
           n1\<lparr>al_acknowledged := True,
              al_ackTime := (case al_ackTime n1 of None \<Rightarrow> Some (nullish ts now) | Some x \<Rightarrow> Some x),
              al_state := (if al_conditionActive n1 then ''ACKNOWLEDGED_UNCLEARED'' else ''ACKNOWLEDGED_CLEARED''),
              al_pendingAck := Null\<rparr>
         else if st = ''ACK_FAILED'' \<or> st = ''ACK_TIMEOUT'' then n1\<lparr>al_pendingAck := Null\<rparr>
         else if set_mem PENDING_ACK st then n1\<lparr>al_acknowledged := False\<rparr>
         else n1))"

section \<open>The server filter and the console order\<close>

definition isActiveOpcAlarm :: "alarm \<Rightarrow> bool" where
  "isActiveOpcAlarm a = al_conditionActive a"

definition isDisplayableOpcAlarm :: "alarm \<Rightarrow> bool" where
  "isDisplayableOpcAlarm a = (js_trim (al_sourceName a) \<noteq> [] \<and> js_trim (nullish (al_conditionName a) []) \<noteq> [])"

definition HTTP_FEED_SERVER_ID :: string where
  "HTTP_FEED_SERVER_ID = ''f0af9a6d-85f6-4c9f-a8ad-6de277d1d110''"

definition norm_server :: "string \<Rightarrow> string" where
  "norm_server s = js_lower (js_trim s)"

definition alarmMatchesConnectedOpcServer :: "alarm \<Rightarrow> string list \<Rightarrow> bool" where
  "alarmMatchesConnectedOpcServer a ids =
     (if \<not> isDisplayableOpcAlarm a then False
      else if \<not> isActiveOpcAlarm a then False
      else if ids \<noteq> [] then set_mem ids (norm_server (al_serverId a))
      else norm_server (al_serverId a) = HTTP_FEED_SERVER_ID)"

definition PRIORITY_RANK :: "string \<Rightarrow> int option" where
  "PRIORITY_RANK = map_of [(''CRITICAL'', 0), (''HIGH'', 1), (''MEDIUM'', 2), (''LOW'', 3), (''DIAGNOSTIC'', 4)]"

definition sortAlarmsForConsole :: "alarm \<Rightarrow> alarm \<Rightarrow> int" where
  "sortAlarmsForConsole a b =
     (let te = al_eventTime b - al_eventTime a in
      if te \<noteq> 0 then te
      else nullish (PRIORITY_RANK (js_upper (al_priority a))) 9 - nullish (PRIORITY_RANK (js_upper (al_priority b))) 9)"

section \<open>When an alarm can be acknowledged\<close>

definition parseCookie :: "attr option \<Rightarrow> rat" where
  "parseCookie raw =
     (case raw of
        Some (AtNum n) \<Rightarrow> n
      | Some (AtStr s) \<Rightarrow> nullish (js_number s) 0
      | _ \<Rightarrow> 0)"

definition isSnapshotFeedAlarm :: "alarm \<Rightarrow> bool" where
  "isSnapshotFeedAlarm a =
     (al_serverName a = ''Current Alarms Feed'' \<or> opc_attr a ''feed'' = Some (AtStr ''http-current-alarms''))"

definition isHttpFeedAlarm :: "alarm \<Rightarrow> bool" where
  "isHttpFeedAlarm a =
     (al_serverName a = ''Current Alarms Feed'' \<or> opc_attr a ''feed'' = Some (AtStr ''http-current-alarms'')
      \<or> opc_attr a ''ackPath'' = Some (AtStr ''http''))"

text \<open>\<open>String(v ?? d)\<close>; numbers and objects as the parameter \<open>show\<close> renders them.\<close>

fun attr_text :: "(attr \<Rightarrow> string) \<Rightarrow> attr option \<Rightarrow> string \<Rightarrow> string" where
  "attr_text show None d = d"
| "attr_text show (Some AtNull) d = d"
| "attr_text show (Some (AtStr s)) d = s"
| "attr_text show (Some (AtBool b)) d = (if b then ''true'' else ''false'')"
| "attr_text show (Some (AtNum n)) d = show (AtNum n)"
| "attr_text show (Some (AtObj r)) d = show (AtObj r)"

definition no_condition_name :: "alarm \<Rightarrow> bool" where
  "no_condition_name a = (js_trim (nullish (al_conditionName a) []) = [])"

definition tracking_source :: "string \<Rightarrow> bool" where
  "tracking_source src = (starts_with (js_lower src) ''tracking'' \<or> starts_with (js_lower src) ''system'')"

definition alarm_kind :: "(attr \<Rightarrow> string) \<Rightarrow> alarm \<Rightarrow> string" where
  "alarm_kind show a = js_upper (attr_text show (opc_attr a ''alarmEventKind'') ''CONDITION'')"

definition isOpcAckWriteable :: "(attr \<Rightarrow> string) \<Rightarrow> alarm \<Rightarrow> bool" where
  "isOpcAckWriteable show a =
     (if isHttpFeedAlarm a then al_conditionActive a \<and> \<not> no_condition_name a
      else
        (let explicit = opc_attr a ''opcAckWriteable'' in
         if explicit = Some (AtBool True) \<or> explicit = Some (AtStr ''true'') then True
         else if explicit = Some (AtBool False) \<or> explicit = Some (AtStr ''false'') then False
         else if isSnapshotFeedAlarm a then False
         else if parseCookie (opc_attr a ''cookieOffset'') \<le> 0 then False
         else if \<not> al_conditionActive a then False
         else if no_condition_name a then False
         else if alarm_kind show a \<noteq> ''CONDITION'' then False
         else if tracking_source (js_trim (al_sourceName a)) then False
         else True))"

definition opcAckSkipReason :: "(attr \<Rightarrow> string) \<Rightarrow> alarm \<Rightarrow> string" where
  "opcAckSkipReason show a =
     (if isOpcAckWriteable show a then []
      else if isHttpFeedAlarm a \<and> \<not> al_conditionActive a then ''Alarm is not active''
      else if isHttpFeedAlarm a \<and> no_condition_name a then ''Missing condition name''
      else if isSnapshotFeedAlarm a then ''ACK writeback is unavailable for HTTP snapshot feeds''
      else
        (let ackPath = js_lower (attr_text show (opc_attr a ''ackPath'') []) in
         if ackPath = ''none'' \<or> js_includes ackPath ''foxapi''
         then ''ACK requires '' @ attr_text show (opc_attr a ''ackPath'') ''undefined''
         else if parseCookie (opc_attr a ''cookieOffset'') \<le> 0
         then ''No OPC cookieOffset - wait for live DCS event''
         else if \<not> al_conditionActive a then ''Alarm is not active on DCS''
         else if no_condition_name a then ''Missing OPC condition name''
         else if alarm_kind show a \<noteq> ''CONDITION'' then alarm_kind show a @ '' events are not writeback-ackable''
         else if tracking_source (al_sourceName a) then ''Tracking/System events are not writeback-ackable''
         else ''OPC writeback ACK not available''))"

end
