(* ===== verification/Alarm_Store.thy ===== *)
theory Alarm_Store
  imports Alarm_Model
begin

text \<open>
  The alarm store of the browser client (src/frontend-ob/src/store/alarmStore.ts), with the page loop
  of api/alarmApi.ts and the merge of api/alarmMappers.ts.  The record \<open>store\<close> holds the zustand state
  and the module variables beside it (the pending hub deltas, the flush timer, the overlap guard); an
  operation is a state transformer, and a producer that reads \<open>Date.now()\<close> takes it as \<open>now\<close>.

  A hub payload is the alarm its JSON fields decode to and the id field itself; an alarm is a value, so
  the object identities the per-source index preserves are not visible here.
\<close>

section \<open>State\<close>

record alarm_stats =
  st_totalActive :: int
  st_totalCritical :: int
  st_totalHigh :: int
  st_totalMedium :: int
  st_totalLow :: int
  st_unacknowledged :: int
  st_shelved :: int
  st_suppressed :: int
  st_outOfService :: int
  st_alarmsPerTenMin :: rat
  st_floodActive :: bool

record summary =
  sm_active :: bool
  sm_unacked :: bool
  sm_count :: nat
  sm_highestPriority :: "string option"
  sm_message :: "string option"

record flood_alert =
  fa_serverId :: string
  fa_alarmsPerTenMin :: rat
  fa_isFlood :: bool
  fa_detectedAt :: int

record server_status =
  ss_serverId :: string
  ss_serverName :: string
  ss_isConnected :: bool
  ss_error :: "string option"
  ss_timestamp :: int

record soe_event =
  so_id :: int
  so_sourceName :: string
  so_serverId :: string
  so_sourceTimestamp :: int
  so_severity :: int
  so_priority :: string
  so_message :: string
  so_conditionActive :: bool
  so_isOutOfOrder :: bool

record alarm_kpi =
  ak_kpiType :: string
  ak_windowStart :: int
  ak_windowEnd :: int
  ak_alarmCount :: int
  ak_standingCount :: int
  ak_occurrences :: int
  ak_healthScore :: rat

text \<open>A payload of the hub: its id field, and the alarm the other fields decode to.\<close>

record hub_payload =
  hp_id :: "string option"
  hp_alarm :: alarm

datatype hub_delta = DNew hub_payload | DUpdate hub_payload | DClear string

datatype connection_state = Uninitialized | Connected | Reconnecting | Disconnected

record store =
  as_alarms :: "(string \<times> alarm) list"
  as_index :: "(string \<times> summary) list"
  as_stats :: alarm_stats
  as_floodAlert :: "flood_alert option"
  as_serverStatuses :: "(string \<times> server_status) list"
  as_connected :: "string list"
  as_soe :: "soe_event list"
  as_kpis :: "(string \<times> alarm_kpi) list"
  as_hub :: bool
  as_connectionState :: connection_state
  as_lastUpdated :: int
  as_selected :: "string list"
  as_activeProtocol :: "string option"
  as_hydrated :: bool
  as_pending :: "hub_delta list"
  as_timer :: bool
  as_refreshing :: bool

definition zero_stats :: alarm_stats where
  "zero_stats = \<lparr>st_totalActive = 0, st_totalCritical = 0, st_totalHigh = 0, st_totalMedium = 0, st_totalLow = 0,
     st_unacknowledged = 0, st_shelved = 0, st_suppressed = 0, st_outOfService = 0, st_alarmsPerTenMin = 0,
     st_floodActive = False\<rparr>"

definition initial_store :: store where
  "initial_store = \<lparr>as_alarms = [], as_index = [], as_stats = zero_stats, as_floodAlert = None,
     as_serverStatuses = [], as_connected = [], as_soe = [], as_kpis = [], as_hub = False,
     as_connectionState = Uninitialized, as_lastUpdated = 0, as_selected = [], as_activeProtocol = None,
     as_hydrated = False, as_pending = [], as_timer = False, as_refreshing = False\<rparr>"

definition alarm_list :: "(string \<times> alarm) list \<Rightarrow> alarm list" where
  "alarm_list m = map snd m"

section \<open>Derived state\<close>

definition count_if :: "('a \<Rightarrow> bool) \<Rightarrow> 'a list \<Rightarrow> int" where
  "count_if p xs = int (length (filter p xs))"

definition recalcStatsFromAlarms :: "(string \<times> alarm) list \<Rightarrow> string list \<Rightarrow> alarm_stats \<Rightarrow> alarm_stats" where
  "recalcStatsFromAlarms alarms ids prev =
     (let visible = filter (\<lambda>a. alarmMatchesConnectedOpcServer a ids) (alarm_list alarms);
          act = filter (\<lambda>a. al_conditionActive a \<and> \<not> al_isShelved a \<and> \<not> al_isSuppressed a \<and> \<not> al_isOutOfService a) visible in
      \<lparr>st_totalActive = int (length act),
       st_totalCritical = count_if (\<lambda>a. al_priority a = ''CRITICAL'') act,
       st_totalHigh = count_if (\<lambda>a. al_priority a = ''HIGH'') act,
       st_totalMedium = count_if (\<lambda>a. al_priority a = ''MEDIUM'') act,
       st_totalLow = count_if (\<lambda>a. al_priority a = ''LOW'' \<or> al_priority a = ''DIAGNOSTIC'') act,
       st_unacknowledged = count_if (\<lambda>a. \<not> al_acknowledged a) act,
       st_shelved = count_if al_isShelved visible,
       st_suppressed = count_if al_isSuppressed visible,
       st_outOfService = count_if al_isOutOfService visible,
       st_alarmsPerTenMin = st_alarmsPerTenMin prev,
       st_floodActive = st_floodActive prev\<rparr>)"

definition SUMMARY_PRIORITY_ORDER :: "string list" where
  "SUMMARY_PRIORITY_ORDER = [''CRITICAL'', ''HIGH'', ''MEDIUM'', ''LOW'', ''DIAGNOSTIC'']"

fun index_of :: "'a list \<Rightarrow> 'a \<Rightarrow> int option" where
  "index_of [] x = None"
| "index_of (y # ys) x = (if y = x then Some 0 else map_option (\<lambda>i. i + 1) (index_of ys x))"

text \<open>\<open>indexOf\<close> is -1 for a priority that is not in the list.\<close>

definition priority_index :: "alarm \<Rightarrow> int" where
  "priority_index a = nullish (index_of SUMMARY_PRIORITY_ORDER (al_priority a)) (-1)"

definition annunciates :: "alarm \<Rightarrow> bool" where
  "annunciates a = (al_conditionActive a \<and> \<not> al_isSuppressed a \<and> \<not> al_isShelved a \<and> \<not> al_isOutOfService a)"

definition add_to_source :: "alarm \<Rightarrow> (string \<times> alarm list) list \<Rightarrow> (string \<times> alarm list) list" where
  "add_to_source a m =
     (if \<not> annunciates a then m
      else case map_of m (al_sourceName a) of
             Some l \<Rightarrow> AList.update (al_sourceName a) (l @ [a]) m
           | None \<Rightarrow> AList.update (al_sourceName a) [a] m)"

definition by_source :: "alarm list \<Rightarrow> (string \<times> alarm list) list" where
  "by_source as = fold add_to_source as []"

definition summarize :: "alarm list \<Rightarrow> summary" where
  "summarize l =
     (let sorted_l = sort_key priority_index l in
      \<lparr>sm_active = True, sm_unacked = list_ex (\<lambda>a. \<not> al_acknowledged a) sorted_l, sm_count = length sorted_l,
       sm_highestPriority = (case sorted_l of [] \<Rightarrow> None | a # _ \<Rightarrow> Some (al_priority a)),
       sm_message = (case sorted_l of [] \<Rightarrow> None | a # _ \<Rightarrow> al_message a)\<rparr>)"

definition keep_old :: "summary option \<Rightarrow> summary \<Rightarrow> summary" where
  "keep_old old candidate =
     (case old of
        Some s \<Rightarrow> if sm_active s = sm_active candidate \<and> sm_unacked s = sm_unacked candidate
                     \<and> sm_count s = sm_count candidate \<and> sm_highestPriority s = sm_highestPriority candidate
                     \<and> sm_message s = sm_message candidate
                  then s else candidate
      | None \<Rightarrow> candidate)"

definition rebuildSourceIndex :: "(string \<times> alarm) list \<Rightarrow> (string \<times> summary) list \<Rightarrow> (string \<times> summary) list" where
  "rebuildSourceIndex alarms prev =
     fold (\<lambda>(src, l). AList.update src (keep_old (map_of prev src) (summarize l))) (by_source (alarm_list alarms)) []"

definition refresh_derived :: "int \<Rightarrow> store \<Rightarrow> store" where
  "refresh_derived now s =
     s\<lparr>as_stats := recalcStatsFromAlarms (as_alarms s) (as_connected s) (as_stats s),
       as_index := rebuildSourceIndex (as_alarms s) (as_index s),
       as_lastUpdated := now\<rparr>"

section \<open>Hub deltas\<close>

definition pickId :: "hub_payload \<Rightarrow> string" where
  "pickId p = nullish (hp_id p) []"

definition mapHubAlarmPayload :: "hub_payload \<Rightarrow> alarm option \<Rightarrow> alarm" where
  "mapHubAlarmPayload p existing =
     (let merged = (hp_alarm p)\<lparr>al_id := nullish (hp_id p) ''undefined''\<rparr> in
      case existing of Some e \<Rightarrow> upsertAlarm (Some e) merged | None \<Rightarrow> merged)"

definition queueHubDelta :: "hub_delta \<Rightarrow> store \<Rightarrow> store" where
  "queueHubDelta d s = s\<lparr>as_pending := as_pending s @ [d], as_timer := True\<rparr>"

text \<open>The loop body of the flush on the alarm map: the map, whether it is dirty, the sound to play.\<close>

definition delete_alarm :: "string \<Rightarrow> (string \<times> alarm) list \<Rightarrow> (string \<times> alarm) list \<times> bool \<times> string list" where
  "delete_alarm k m = (AList.delete k m, map_of m k \<noteq> None, [])"

definition apply_payload ::
  "bool \<Rightarrow> hub_payload \<Rightarrow> string list \<Rightarrow> (string \<times> alarm) list \<Rightarrow> (string \<times> alarm) list \<times> bool \<times> string list" where
  "apply_payload is_new p ids m =
     (let incoming = mapHubAlarmPayload p (map_of m (pickId p)) in
      if \<not> alarmMatchesConnectedOpcServer incoming ids then delete_alarm (pickId p) m
      else if \<not> is_new \<and> \<not> al_conditionActive incoming then delete_alarm (pickId p) m
      else case map_of m (al_id incoming) of
             None \<Rightarrow> (AList.update (al_id incoming) incoming m, True, if is_new then [al_priority incoming] else [])
           | Some e \<Rightarrow>
               if alarmsEqual e (upsertAlarm (Some e) incoming) then (m, False, [])
               else (AList.update (al_id incoming) (upsertAlarm (Some e) incoming) m, True, []))"

fun apply_delta ::
  "hub_delta \<Rightarrow> string list \<Rightarrow> (string \<times> alarm) list \<Rightarrow> (string \<times> alarm) list \<times> bool \<times> string list" where
  "apply_delta (DClear k) ids m = delete_alarm k m"
| "apply_delta (DNew p) ids m = apply_payload True p ids m"
| "apply_delta (DUpdate p) ids m = apply_payload False p ids m"

fun apply_batch ::
  "hub_delta list \<Rightarrow> string list \<Rightarrow> (string \<times> alarm) list \<Rightarrow> (string \<times> alarm) list \<times> bool \<times> string list" where
  "apply_batch [] ids m = (m, False, [])"
| "apply_batch (d # ds) ids m =
     (let (m1, dirty, snd1) = apply_delta d ids m; (m2, dirty2, snd2) = apply_batch ds ids m1 in
      (m2, dirty \<or> dirty2, snd1 @ snd2))"

definition flushHubDeltas :: "int \<Rightarrow> store \<Rightarrow> store \<times> string list" where
  "flushHubDeltas now s =
     (let batch = as_pending s; s0 = s\<lparr>as_timer := False, as_pending := []\<rparr> in
      if batch = [] then (s0, [])
      else
        (let (m, dirty, sounds) = apply_batch batch (as_connected s0) (as_alarms s0);
             s1 = s0\<lparr>as_alarms := m\<rparr> in
         (if dirty then refresh_derived now s1 else s1, sounds)))"

section \<open>Operations of the store\<close>

definition applyAckLifecycle :: "int \<Rightarrow> string \<Rightarrow> string \<Rightarrow> int option \<Rightarrow> ack_trace option \<Rightarrow> store \<Rightarrow> store" where
  "applyAckLifecycle now alarmId st ts trace s =
     (case map_of (as_alarms s) alarmId of
        None \<Rightarrow> s
      | Some a \<Rightarrow>
          if \<not> shouldApplyAckLifecycle (al_ackLifecycle a) st then s
          else refresh_derived now
                 (s\<lparr>as_alarms := AList.update alarmId (applyAckLifecycleToAlarm now a st ts trace) (as_alarms s)\<rparr>))"

definition bulk_one :: "string \<Rightarrow> string \<Rightarrow> store \<Rightarrow> store" where
  "bulk_one action k s =
     (case map_of (as_alarms s) k of
        None \<Rightarrow> s
      | Some a \<Rightarrow>
          if action = ''ACKNOWLEDGED'' then s
          else
            (let put = (\<lambda>a' st'. s\<lparr>as_alarms := AList.update k a' (as_alarms s), as_stats := st'\<rparr>); st = as_stats s in
             if action = ''SHELVED'' then
               put (a\<lparr>al_isShelved := True, al_state := ''SHELVED''\<rparr>)
                 (st\<lparr>st_shelved := st_shelved st + 1, st_totalActive := max 0 (st_totalActive st - 1)\<rparr>)
             else if action = ''SUPPRESSED'' then
               put (a\<lparr>al_isSuppressed := True, al_state := ''SUPPRESSED''\<rparr>)
                 (st\<lparr>st_suppressed := st_suppressed st + 1, st_totalActive := max 0 (st_totalActive st - 1)\<rparr>)
             else if action = ''OUT_OF_SERVICE'' then
               put (a\<lparr>al_isOutOfService := True, al_state := ''OUT_OF_SERVICE''\<rparr>) st
             else put a st))"

definition bulkUpdateAlarms :: "int \<Rightarrow> string list \<Rightarrow> string \<Rightarrow> store \<Rightarrow> store" where
  "bulkUpdateAlarms now ks action s = refresh_derived now (fold (bulk_one action) ks s)"

definition MAX_SOE_EVENTS :: nat where
  "MAX_SOE_EVENTS = 500"

definition addSoeEvent :: "soe_event \<Rightarrow> store \<Rightarrow> store" where
  "addSoeEvent e s =
     (let evs = e # as_soe s in s\<lparr>as_soe := (if MAX_SOE_EVENTS < length evs then butlast evs else evs)\<rparr>)"

definition setAlarm :: "alarm \<Rightarrow> store \<Rightarrow> store" where
  "setAlarm a s = s\<lparr>as_alarms := AList.update (al_id a) a (as_alarms s)\<rparr>"

definition removeAlarm :: "string \<Rightarrow> store \<Rightarrow> store" where
  "removeAlarm k s = s\<lparr>as_alarms := AList.delete k (as_alarms s), as_selected := set_del k (as_selected s)\<rparr>"

definition setServerStatus :: "server_status \<Rightarrow> store \<Rightarrow> store" where
  "setServerStatus st s = s\<lparr>as_serverStatuses := AList.update (ss_serverId st) st (as_serverStatuses s)\<rparr>"

definition setAlarmKpi :: "alarm_kpi \<Rightarrow> store \<Rightarrow> store" where
  "setAlarmKpi k s = s\<lparr>as_kpis := AList.update (ak_kpiType k) k (as_kpis s)\<rparr>"

definition toggleAlarmSelection :: "string \<Rightarrow> store \<Rightarrow> store" where
  "toggleAlarmSelection k s =
     s\<lparr>as_selected := (if set_mem (as_selected s) k then set_del k (as_selected s) else set_add k (as_selected s))\<rparr>"

definition setSelectedAlarmIds :: "string list \<Rightarrow> store \<Rightarrow> store" where
  "setSelectedAlarmIds ks s = s\<lparr>as_selected := js_uniq ks\<rparr>"

definition clearSelection :: "store \<Rightarrow> store" where
  "clearSelection s = s\<lparr>as_selected := []\<rparr>"

definition selectAll :: "store \<Rightarrow> store" where
  "selectAll s = s\<lparr>as_selected := fold set_add (keys (as_alarms s)) (as_selected s)\<rparr>"

definition disconnect :: "store \<Rightarrow> store" where
  "disconnect s = s\<lparr>as_timer := False, as_pending := [], as_hub := False, as_connectionState := Disconnected\<rparr>"

text \<open>The messages of the hub and what the handlers registered by \<open>initialize\<close> do with them.\<close>

datatype hub_event =
    OnNewAlarm hub_payload
  | OnAlarmUpdated hub_payload
  | OnAlarmCleared "string option"
  | OnBulkAlarmsUpdated "string list" string
  | OnAckLifecycleUpdated string string "int option" ack_trace
  | OnFloodAlert flood_alert
  | OnServerStatusChanged server_status
  | OnSoeEvent soe_event
  | OnAnalyticsUpdate int int int bool rat
  | OnAlarmKpiUpdate alarm_kpi
  | OnReconnecting
  | OnReconnected
  | OnStarted
  | OnClose

fun on_hub_event :: "int \<Rightarrow> hub_event \<Rightarrow> store \<Rightarrow> store" where
  "on_hub_event now (OnNewAlarm p) s = queueHubDelta (DNew p) s"
| "on_hub_event now (OnAlarmUpdated p) s = queueHubDelta (DUpdate p) s"
| "on_hub_event now (OnAlarmCleared k) s = queueHubDelta (DClear (nullish k [])) s"
| "on_hub_event now (OnBulkAlarmsUpdated ks action) s = bulkUpdateAlarms now ks action s"
| "on_hub_event now (OnAckLifecycleUpdated k st ts trace) s =
     applyAckLifecycle now k st (Some (nullish ts now)) (Some trace) s"
| "on_hub_event now (OnFloodAlert a) s = s\<lparr>as_floodAlert := (if fa_isFlood a then Some a else None)\<rparr>"
| "on_hub_event now (OnServerStatusChanged st) s = setServerStatus st s"
| "on_hub_event now (OnSoeEvent e) s = addSoeEvent e s"
| "on_hub_event now (OnAnalyticsUpdate act crit unack fl rate) s =
     s\<lparr>as_stats := (as_stats s)\<lparr>st_totalActive := act, st_totalCritical := crit, st_unacknowledged := unack,
                                 st_floodActive := fl, st_alarmsPerTenMin := rate\<rparr>\<rparr>"
| "on_hub_event now (OnAlarmKpiUpdate k) s = setAlarmKpi k s"
| "on_hub_event now OnReconnecting s = s\<lparr>as_connectionState := Reconnecting\<rparr>"
| "on_hub_event now OnReconnected s = s\<lparr>as_connectionState := Connected\<rparr>"
| "on_hub_event now OnStarted s = s\<lparr>as_hub := True, as_connectionState := Connected\<rparr>"
| "on_hub_event now OnClose s = s\<lparr>as_connectionState := Disconnected\<rparr>"

section \<open>Hydration from the API\<close>

record feed =
  fd_enabled :: bool
  fd_serverId :: string
  fd_serverName :: string
  fd_protocol :: "string option"

record server =
  sv_id :: string
  sv_name :: string
  sv_protocol :: string

text \<open>\<open>None\<close>: the request failed; the function answers an empty list then.\<close>

definition fetchConnectedOpcAeServers :: "feed option \<Rightarrow> server list" where
  "fetchConnectedOpcAeServers r =
     (case r of
        None \<Rightarrow> []
      | Some f \<Rightarrow> if \<not> fd_enabled f then []
                  else [\<lparr>sv_id = js_lower (fd_serverId f), sv_name = fd_serverName f,
                         sv_protocol = nullish (fd_protocol f) ''HTTP-JSON''\<rparr>])"

definition syncConnectedOpcServers :: "int \<Rightarrow> server list \<Rightarrow> store \<Rightarrow> store \<times> server option" where
  "syncConnectedOpcServers now servers s =
     (fold (\<lambda>sv s. setServerStatus \<lparr>ss_serverId = sv_id sv, ss_serverName = sv_name sv, ss_isConnected = True,
                                    ss_error = None, ss_timestamp = now\<rparr> s) servers
        (s\<lparr>as_connected := js_uniq (map (\<lambda>sv. norm_server (sv_id sv)) servers)\<rparr>),
      (case servers of [] \<Rightarrow> None | sv # _ \<Rightarrow> Some sv))"

text \<open>
  The page loop.  A response has the decoded items and the total the body or the header announces, if
  any; \<open>respond n\<close> is the answer to page \<open>n\<close>, None a request that throws.  The result is the pages handed
  to \<open>onPage\<close> and whether the loop ended without an error; the loop may run forever, which is None.
\<close>

record page_response =
  pr_items :: "alarm list"
  pr_total :: "int option"

definition PAGE_SIZE :: nat where
  "PAGE_SIZE = 500"

partial_function (option) fetch_pages ::
  "(nat \<Rightarrow> page_response option) \<Rightarrow> nat \<Rightarrow> nat \<Rightarrow> int option \<Rightarrow> (alarm list list \<times> bool) option" where
  "fetch_pages respond n got tot =
     (if (case tot of None \<Rightarrow> False | Some t \<Rightarrow> t \<le> int got) then Some ([], True)
      else case respond n of
             None \<Rightarrow> Some ([], False)
           | Some r \<Rightarrow>
               (if length (pr_items r) < PAGE_SIZE then Some ([pr_items r], True)
                else Option.bind
                       (fetch_pages respond (n + 1) (got + length (pr_items r))
                          (Some (nullish (pr_total r) (int (length (pr_items r))))))
                       (\<lambda>(ps, fine). Some (pr_items r # ps, fine))))"

definition fetchAllActiveAlarms :: "(nat \<Rightarrow> page_response option) \<Rightarrow> (alarm list list \<times> bool) option" where
  "fetchAllActiveAlarms respond = fetch_pages respond 1 0 None"

text \<open>The local variables of one hydration.\<close>

record hydration =
  hy_serverId :: "string option"
  hy_reconcile :: bool
  hy_dirty :: bool
  hy_fetched :: "string list"

definition hydrate_start :: "int \<Rightarrow> bool \<Rightarrow> string option \<Rightarrow> server list \<Rightarrow> store \<Rightarrow> store \<times> hydration" where
  "hydrate_start now reconcile env_id servers s =
     (let (s1, primary) = syncConnectedOpcServers now servers s in
      (s1\<lparr>as_activeProtocol := (case primary of None \<Rightarrow> None
                                | Some sv \<Rightarrow> if sv_protocol sv = [] then None else Some (sv_protocol sv))\<rparr>,
       \<lparr>hy_serverId = orelse (map_option sv_id primary) env_id, hy_reconcile = reconcile,
        hy_dirty = False, hy_fetched = []\<rparr>))"

definition hydrate_stats :: "alarm_stats option \<Rightarrow> hydration \<Rightarrow> store \<Rightarrow> store" where
  "hydrate_stats fetched h s =
     (let s1 = s\<lparr>as_stats := nullish fetched (as_stats s)\<rparr> in
      if truthy (hy_serverId h) \<and> as_connected s1 = []
      then s1\<lparr>as_connected := set_add (norm_server (the (hy_serverId h))) (as_connected s1)\<rparr> else s1)"

definition adopt_servers :: "alarm list \<Rightarrow> string list \<Rightarrow> string list" where
  "adopt_servers page ids =
     (if ids = [] then fold (\<lambda>a c. if alarmMatchesConnectedOpcServer a [] then set_add (norm_server (al_serverId a)) c else c) page []
      else ids)"

definition page_alarm :: "alarm \<Rightarrow> store \<times> hydration \<Rightarrow> store \<times> hydration" where
  "page_alarm a sh =
     (let (s, h) = sh in
      if \<not> alarmMatchesConnectedOpcServer a (as_connected s) then (s, h)
      else
        (let prev = map_of (as_alarms s) (al_id a); nxt = upsertAlarm prev a;
             h' = h\<lparr>hy_fetched := set_add (al_id a) (hy_fetched h)\<rparr> in
         if (case prev of None \<Rightarrow> False | Some e \<Rightarrow> alarmsEqual e nxt) then (s, h')
         else (s\<lparr>as_alarms := AList.update (al_id a) nxt (as_alarms s)\<rparr>, h'\<lparr>hy_dirty := True\<rparr>)))"

definition hydrate_page :: "alarm list \<Rightarrow> store \<times> hydration \<Rightarrow> store \<times> hydration" where
  "hydrate_page page sh =
     (let (s, h) = sh in fold page_alarm page (s\<lparr>as_connected := adopt_servers page (as_connected s)\<rparr>, h))"

definition reconciled :: "string list \<Rightarrow> string list \<Rightarrow> (string \<times> alarm) list \<Rightarrow> (string \<times> alarm) list" where
  "reconciled ids fetched m = filter (\<lambda>(k, a). \<not> alarmMatchesConnectedOpcServer a ids \<or> set_mem fetched k) m"

definition hydrate_finish :: "int \<Rightarrow> hydration \<Rightarrow> store \<Rightarrow> store" where
  "hydrate_finish now h s =
     (if hy_reconcile h then
        (let m = reconciled (as_connected s) (hy_fetched h) (as_alarms s); s1 = s\<lparr>as_alarms := m\<rparr> in
         if hy_dirty h \<or> length m \<noteq> length (as_alarms s) then refresh_derived now s1 else s1)
      else if hy_dirty h then refresh_derived now s else s)"

text \<open>A hydration that nothing interrupts: the pages of the loop, then the reconciliation, unless the loop threw.\<close>

definition hydrateAlarmsFromApi ::
  "int \<Rightarrow> bool \<Rightarrow> string option \<Rightarrow> feed option \<Rightarrow> alarm_stats option \<Rightarrow> (nat \<Rightarrow> page_response option) \<Rightarrow> store
     \<Rightarrow> (store \<times> bool) option" where
  "hydrateAlarmsFromApi now reconcile env_id feed_answer stats_answer respond s =
     (let (s1, h) = hydrate_start now reconcile env_id (fetchConnectedOpcAeServers feed_answer) s;
          s2 = hydrate_stats stats_answer h s1 in
      map_option (\<lambda>(pages, fine).
          let (s3, h3) = fold hydrate_page pages (s2, h) in
          if fine then (hydrate_finish now h3 s3, True) else (s3, False))
        (fetchAllActiveAlarms respond))"

definition refreshActiveAlarms ::
  "int \<Rightarrow> string option \<Rightarrow> feed option \<Rightarrow> alarm_stats option \<Rightarrow> (nat \<Rightarrow> page_response option) \<Rightarrow> store
     \<Rightarrow> (store \<times> bool) option" where
  "refreshActiveAlarms now env_id feed_answer stats_answer respond s =
     (if as_refreshing s then Some (s, True)
      else map_option (\<lambda>(s', fine). (s'\<lparr>as_refreshing := False, as_hydrated := True\<rparr>, fine))
             (hydrateAlarmsFromApi now True env_id feed_answer stats_answer respond (s\<lparr>as_refreshing := True\<rparr>)))"

end
