(* ===== verification/Alarm_Laws.thy ===== *)
theory Alarm_Laws
  imports Alarm_Store
begin

text \<open>
  Facts about the alarm functions and the alarm store that the properties share: what a merge keeps,
  the acknowledgement lifecycle as an automaton over (lifecycle state, acknowledged), how a batch of
  hub deltas acts on the alarm map, and the contents of the per-source index.
\<close>

named_theorems merge_simps \<open>the fields of a merged alarm\<close>
named_theorems store_simps \<open>the components of the store an operation writes\<close>

section \<open>Merging\<close>

lemma mergeFields_fields [merge_simps]:
  "al_id (mergeFields e i) = al_id i"
  "al_serverId (mergeFields e i) = al_serverId i"
  "al_sourceName (mergeFields e i) = al_sourceName i"
  "al_conditionName (mergeFields e i) = al_conditionName i"
  "al_conditionActive (mergeFields e i) = al_conditionActive i"
  "al_eventTime (mergeFields e i) = al_eventTime i"
  "al_acknowledged (mergeFields e i) = resolveOperatorAcknowledged e i"
  "al_ackLifecycle (mergeFields e i) = coalesce (al_ackLifecycle i) (al_ackLifecycle e)"
  by (simp_all add: mergeFields_def)

lemma upsert_merge_cases: "upsert_merge e i = e \<or> upsert_merge e i = mergeFields e i"
  by (auto simp: upsert_merge_def preferRicherState_def Let_def)

lemma upsert_cases:
  obtains (old) "upsertAlarm (Some e) i = e"
  | (merged) "upsertAlarm (Some e) i = mergeFields e i" "al_eventTime e \<le> al_eventTime i"
  using upsert_merge_cases [of e i] by (cases "al_eventTime i < al_eventTime e") (auto simp: upsertAlarm_def)

lemma upsert_None [simp]: "upsertAlarm None i = i"
  by (simp add: upsertAlarm_def)

lemma shallowRecordEqual_iff: "shallowRecordEqual a b \<longleftrightarrow> map_of a = map_of b"
proof
  assume eq: "shallowRecordEqual a b"
  show "map_of a = map_of b"
  proof
    fix k
    show "map_of a k = map_of b k"
    proof (cases "k \<in> set (keys a @ keys b)")
      case True
      with eq show ?thesis by (simp add: shallowRecordEqual_def list_all_iff)
    next
      case False
      then show ?thesis by (simp add: set_keys)
    qed
  qed
qed (simp add: shallowRecordEqual_def list_all_iff)

lemma shallowRecordEqual_refl [simp]: "shallowRecordEqual a a"
  by (simp add: shallowRecordEqual_iff)

lemma alarmsEqual_refl [simp]: "alarmsEqual a a"
  by (simp add: alarmsEqual_def)

lemma alarmsEqual_time: "alarmsEqual a b \<Longrightarrow> al_eventTime a = al_eventTime b"
  by (simp add: alarmsEqual_def)

lemma alarmsEqual_ack: "alarmsEqual a b \<Longrightarrow> al_acknowledged a = al_acknowledged b"
  by (simp add: alarmsEqual_def)

lemma upsert_eventTime:
  "al_eventTime (upsertAlarm (Some e) i) = max (al_eventTime e) (al_eventTime i)"
  by (auto simp: upsertAlarm_def upsert_merge_def preferRicherState_def Let_def merge_simps dest: alarmsEqual_time)

section \<open>The acknowledgement lifecycle\<close>

abbreviation terminal_ack :: "string \<Rightarrow> bool" where
  "terminal_ack st \<equiv> st \<in> set TERMINAL_ACK"

lemma terminal_ack_iff: "terminal_ack st \<longleftrightarrow> st = ''ACK_CONFIRMED'' \<or> st = ''ACK_FAILED'' \<or> st = ''ACK_TIMEOUT''"
  by (auto simp: TERMINAL_ACK_def)

lemma pending_not_terminal: "st \<in> set PENDING_ACK \<Longrightarrow> \<not> terminal_ack st"
  by (auto simp: PENDING_ACK_def terminal_ack_iff)

definition settled :: "alarm \<Rightarrow> bool" where
  "settled a = set_mem TERMINAL_ACK (nul_or (al_ackLifecycle a) [])"

lemma shouldApply_iff: "shouldApplyAckLifecycle (al_ackLifecycle a) st \<longleftrightarrow> (settled a \<longrightarrow> terminal_ack st)"
  by (simp add: shouldApplyAckLifecycle_def settled_def)

lemma set_trace_fields [simp]:
  "al_ackLifecycle (set_trace t a) = al_ackLifecycle a"
  "al_acknowledged (set_trace t a) = al_acknowledged a"
  "al_id (set_trace t a) = al_id a"
  "al_conditionActive (set_trace t a) = al_conditionActive a"
  "al_sourceName (set_trace t a) = al_sourceName a"
  "al_conditionName (set_trace t a) = al_conditionName a"
  by (simp_all add: set_trace_def)

lemma apply_lifecycle_fields [merge_simps]:
  "al_id (applyAckLifecycleToAlarm now a st ts tr) = al_id a"
  "al_conditionActive (applyAckLifecycleToAlarm now a st ts tr) = al_conditionActive a"
  "al_sourceName (applyAckLifecycleToAlarm now a st ts tr) = al_sourceName a"
  "al_conditionName (applyAckLifecycleToAlarm now a st ts tr) = al_conditionName a"
  by (simp_all add: applyAckLifecycleToAlarm_def Let_def)

lemma apply_lifecycle_state:
  "al_ackLifecycle (applyAckLifecycleToAlarm now a st ts tr)
     = (if settled a \<and> \<not> terminal_ack st then al_ackLifecycle a else Val st)"
  by (simp add: applyAckLifecycleToAlarm_def shouldApply_iff Let_def)

lemma apply_lifecycle_ack:
  "al_acknowledged (applyAckLifecycleToAlarm now a st ts tr)
     = (if settled a \<and> \<not> terminal_ack st then al_acknowledged a
        else if st = ''ACK_CONFIRMED'' then True
        else if st \<in> set PENDING_ACK then False else al_acknowledged a)"
  by (auto simp: applyAckLifecycleToAlarm_def shouldApply_iff Let_def terminal_ack_iff PENDING_ACK_def)

lemma apply_lifecycle_settled:
  "settled (applyAckLifecycleToAlarm now a st ts tr) \<longleftrightarrow> settled a \<or> terminal_ack st"
  by (simp add: settled_def apply_lifecycle_state) (auto simp: settled_def)

text \<open>A sequence of lifecycle messages: state, time stamp, trace.\<close>

type_synonym ack_message = "string \<times> int option \<times> ack_trace option"

definition apply_messages :: "int \<Rightarrow> ack_message list \<Rightarrow> alarm \<Rightarrow> alarm" where
  "apply_messages now ms a = fold (\<lambda>(st, ts, tr) a. applyAckLifecycleToAlarm now a st ts tr) ms a"

lemma apply_messages_simps [simp]:
  "apply_messages now [] a = a"
  "apply_messages now ((st, ts, tr) # ms) a = apply_messages now ms (applyAckLifecycleToAlarm now a st ts tr)"
  by (simp_all add: apply_messages_def)

lemma messages_lifecycle_settled:
  "settled a \<Longrightarrow> al_ackLifecycle (apply_messages now ms a)
     = (case filter terminal_ack (map fst ms) of [] \<Rightarrow> al_ackLifecycle a | ts \<Rightarrow> Val (last ts))"
proof (induction ms arbitrary: a)
  case (Cons m ms)
  obtain st ts tr where m: "m = (st, ts, tr)" by (cases m)
  have "settled (applyAckLifecycleToAlarm now a st ts tr)"
    using Cons.prems by (simp add: apply_lifecycle_settled)
  from Cons.IH [OF this] Cons.prems show ?case
    by (auto simp: m apply_lifecycle_state split: list.split)
qed simp

lemma messages_lifecycle_open:
  "\<not> settled a \<Longrightarrow> al_ackLifecycle (apply_messages now ms a)
     = (case filter terminal_ack (map fst ms) of
          [] \<Rightarrow> if ms = [] then al_ackLifecycle a else Val (fst (last ms))
        | ts \<Rightarrow> Val (last ts))"
proof (induction ms arbitrary: a)
  case (Cons m ms)
  obtain st ts tr where m: "m = (st, ts, tr)" by (cases m)
  let ?a = "applyAckLifecycleToAlarm now a st ts tr"
  show ?case
  proof (cases "terminal_ack st")
    case True
    then have "settled ?a" by (simp add: apply_lifecycle_settled)
    from messages_lifecycle_settled [OF this, of now ms] True Cons.prems show ?thesis
      by (auto simp: m apply_lifecycle_state split: list.split)
  next
    case False
    then have "\<not> settled ?a" using Cons.prems by (simp add: apply_lifecycle_settled)
    from Cons.IH [OF this] False Cons.prems show ?thesis
      by (auto simp: m apply_lifecycle_state split: list.split)
  qed
qed simp

lemma messages_ack_settled:
  "settled a \<Longrightarrow> al_acknowledged (apply_messages now ms a)
     \<longleftrightarrow> al_acknowledged a \<or> ''ACK_CONFIRMED'' \<in> fst ` set ms"
proof (induction ms arbitrary: a)
  case (Cons m ms)
  obtain st ts tr where m: "m = (st, ts, tr)" by (cases m)
  have "settled (applyAckLifecycleToAlarm now a st ts tr)"
    using Cons.prems by (simp add: apply_lifecycle_settled)
  from Cons.IH [OF this] Cons.prems show ?case
    by (auto simp: m apply_lifecycle_ack terminal_ack_iff PENDING_ACK_def)
qed simp

lemma messages_ack_open:
  "\<not> settled a \<Longrightarrow> al_acknowledged (apply_messages now ms a)
     \<longleftrightarrow> ''ACK_CONFIRMED'' \<in> fst ` set ms
       \<or> al_acknowledged a \<and> set (takeWhile (\<lambda>st. \<not> terminal_ack st) (map fst ms)) \<inter> set PENDING_ACK = {}"
proof (induction ms arbitrary: a)
  case (Cons m ms)
  obtain st ts tr where m: "m = (st, ts, tr)" by (cases m)
  let ?a = "applyAckLifecycleToAlarm now a st ts tr"
  show ?case
  proof (cases "terminal_ack st")
    case True
    then have "settled ?a" by (simp add: apply_lifecycle_settled)
    from messages_ack_settled [OF this, of now ms] True Cons.prems show ?thesis
      by (auto simp: m apply_lifecycle_ack dest: pending_not_terminal)
  next
    case False
    then have "\<not> settled ?a" using Cons.prems by (simp add: apply_lifecycle_settled)
    from Cons.IH [OF this] False Cons.prems show ?thesis
      by (auto simp: m apply_lifecycle_ack terminal_ack_iff)
  qed
qed simp

end
