(* ===== verification/Alarm_Run.thy ===== *)
theory Alarm_Run
  imports Alarm_Laws
begin

text \<open>
  The alarm store over time: hub messages, flush timer, hydrations and user selections in any order.
  A hydration is a chain of separate producer calls, so hub messages and other hydrations run between
  its steps; \<open>client\<close> holds the hydrations in flight beside the store.  The invariants of the store, the
  contents of the per-source index and the effect of batching the hub deltas are proved here.
\<close>

section \<open>What a stored alarm satisfies\<close>

definition shown :: "alarm \<Rightarrow> bool" where
  "shown a = (isDisplayableOpcAlarm a \<and> isActiveOpcAlarm a)"

definition entry_ok :: "string \<times> alarm \<Rightarrow> bool" where
  "entry_ok = (\<lambda>(k, a). al_id a = k \<and> shown a)"

definition alarm_map_ok :: "(string \<times> alarm) list \<Rightarrow> bool" where
  "alarm_map_ok m = (distinct (keys m) \<and> list_all entry_ok m)"

lemma matches_shown: "alarmMatchesConnectedOpcServer a ids \<Longrightarrow> shown a"
  by (simp add: alarmMatchesConnectedOpcServer_def shown_def split: if_splits)

lemma shown_cong:
  "al_sourceName a = al_sourceName b \<Longrightarrow> al_conditionName a = al_conditionName b
     \<Longrightarrow> al_conditionActive a = al_conditionActive b \<Longrightarrow> shown a = shown b"
  by (simp add: shown_def isDisplayableOpcAlarm_def isActiveOpcAlarm_def)

lemma shown_upsert: "shown e \<Longrightarrow> shown i \<Longrightarrow> shown (upsertAlarm (Some e) i)"
  by (cases rule: upsert_cases [of e i]) (auto simp: merge_simps cong: shown_cong dest: shown_cong [THEN iffD2, rotated -1])

lemma id_upsert: "al_id e = al_id i \<Longrightarrow> al_id (upsertAlarm (Some e) i) = al_id i"
  by (cases rule: upsert_cases [of e i]) (simp_all add: merge_simps)

lemma shown_lifecycle [simp]: "shown (applyAckLifecycleToAlarm now a st ts tr) = shown a"
  by (rule shown_cong) (simp_all add: merge_simps)

lemma alarm_map_ok_lookup:
  "alarm_map_ok m \<Longrightarrow> map_of m k = Some a \<Longrightarrow> al_id a = k \<and> shown a"
  by (auto simp: alarm_map_ok_def list_all_iff entry_ok_def dest!: map_of_SomeD)

lemma set_update_subset: "set (AList.update k v m) \<subseteq> insert (k, v) (set m)"
  by (induction m) auto

lemma alarm_map_ok_update:
  "alarm_map_ok m \<Longrightarrow> al_id a = k \<Longrightarrow> shown a \<Longrightarrow> alarm_map_ok (AList.update k a m)"
  using set_update_subset [of k a m]
  by (auto simp: alarm_map_ok_def distinct_keys_update list_all_iff entry_ok_def)

lemma alarm_map_ok_filter: "alarm_map_ok m \<Longrightarrow> alarm_map_ok (filter p m)"
  by (auto simp: alarm_map_ok_def keys_def list_all_iff distinct_map_filter)

lemma alarm_map_ok_delete: "alarm_map_ok m \<Longrightarrow> alarm_map_ok (AList.delete k m)"
  using alarm_map_ok_filter [of m "\<lambda>(k', _). k \<noteq> k'"] by (simp add: AList.delete_eq)

lemma alarm_map_ok_Nil [simp]: "alarm_map_ok []"
  by (simp add: alarm_map_ok_def keys_def)

section \<open>Batches of hub deltas\<close>

lemma apply_payload_ok: "alarm_map_ok m \<Longrightarrow> alarm_map_ok (fst (apply_payload n p ids m))"
  by (auto simp: apply_payload_def Let_def delete_alarm_def intro!: alarm_map_ok_update alarm_map_ok_delete
        intro: matches_shown shown_upsert id_upsert dest: alarm_map_ok_lookup split: option.split)

lemma apply_delta_ok: "alarm_map_ok m \<Longrightarrow> alarm_map_ok (fst (apply_delta d ids m))"
  by (cases d) (simp_all add: apply_payload_ok delete_alarm_def alarm_map_ok_delete)

lemma apply_batch_ok: "alarm_map_ok m \<Longrightarrow> alarm_map_ok (fst (apply_batch ds ids m))"
proof (induction ds arbitrary: m)
  case (Cons d ds)
  from apply_delta_ok [OF Cons.prems, of d ids] Cons.IH show ?case
    by (auto simp: Let_def split: prod.split) (metis fst_conv)
qed simp

lemma apply_payload_clean: "\<not> fst (snd (apply_payload n p ids m)) \<Longrightarrow> fst (apply_payload n p ids m) = m"
  by (auto simp: apply_payload_def Let_def delete_alarm_def delete_absent split: option.splits if_splits)

lemma apply_delta_clean: "\<not> fst (snd (apply_delta d ids m)) \<Longrightarrow> fst (apply_delta d ids m) = m"
  by (cases d) (simp_all add: apply_payload_clean delete_alarm_def delete_absent)

lemma apply_batch_clean: "\<not> fst (snd (apply_batch ds ids m)) \<Longrightarrow> fst (apply_batch ds ids m) = m"
proof (induction ds arbitrary: m)
  case (Cons d ds)
  obtain m1 d1 s1 where 1: "apply_delta d ids m = (m1, d1, s1)" by (metis prod_cases3)
  obtain m2 d2 s2 where 2: "apply_batch ds ids m1 = (m2, d2, s2)" by (metis prod_cases3)
  from Cons.prems have d: "\<not> d1" "\<not> d2" by (simp_all add: 1 2)
  then have "m1 = m" using apply_delta_clean [of d ids m] by (simp add: 1)
  moreover have "m2 = m1" using Cons.IH [of m1] d by (simp add: 2)
  ultimately show ?case using 2 by (simp add: 1)
qed simp

section \<open>The per-source index\<close>

definition source_alarms :: "string \<Rightarrow> alarm list \<Rightarrow> alarm list" where
  "source_alarms src as = filter (\<lambda>a. annunciates a \<and> al_sourceName a = src) as"

definition source_summary :: "(string \<times> alarm) list \<Rightarrow> string \<Rightarrow> summary option" where
  "source_summary m src =
     (let l = source_alarms src (alarm_list m) in if l = [] then None else Some (summarize l))"

lemma by_source_snoc: "by_source (as @ [a]) = add_to_source a (by_source as)"
  by (simp add: by_source_def)

lemma by_source_lookup:
  "map_of (by_source as) src = (let l = source_alarms src as in if l = [] then None else Some l)"
proof (induction as arbitrary: src rule: rev_induct)
  case Nil
  then show ?case by (simp add: by_source_def source_alarms_def)
next
  case (snoc a as)
  then show ?case
    by (auto simp: by_source_snoc add_to_source_def source_alarms_def map_simps Let_def split: option.split)
qed

lemma by_source_distinct: "distinct (keys (by_source as))"
proof (induction as rule: rev_induct)
  case (snoc a as)
  then show ?case
    by (auto simp: by_source_snoc add_to_source_def intro!: distinct_keys_update split: option.split)
qed (simp add: by_source_def keys_def)

lemma keep_old_candidate [simp]: "keep_old old c = c"
  by (cases old) (auto simp: keep_old_def)

lemma fold_update_lookup:
  "distinct (keys xs) \<Longrightarrow> map_of (fold (\<lambda>(k, l). AList.update k (f k l)) xs acc) src
     = (case map_of xs src of Some l \<Rightarrow> Some (f src l) | None \<Rightarrow> map_of acc src)"
proof (induction xs arbitrary: acc)
  case (Cons x xs)
  obtain k l where x: "x = (k, l)" by (cases x)
  from Cons.prems have "k \<notin> set (keys xs)" "distinct (keys xs)" by (simp_all add: x keys_def)
  with Cons.IH [of "AList.update k (f k l) acc"] show ?case
    by (auto simp: x map_simps set_keys split: option.split)
qed simp

lemma rebuild_lookup: "map_of (rebuildSourceIndex m prev) src = source_summary m src"
proof -
  have "map_of (rebuildSourceIndex m prev) src
      = (case map_of (by_source (alarm_list m)) src of Some l \<Rightarrow> Some (summarize l) | None \<Rightarrow> None)"
    unfolding rebuildSourceIndex_def keep_old_candidate
    by (simp add: fold_update_lookup by_source_distinct split: option.split)
  then show ?thesis by (simp add: by_source_lookup source_summary_def Let_def)
qed

lemma rebuild_prev: "rebuildSourceIndex m prev = rebuildSourceIndex m prev'"
  by (simp add: rebuildSourceIndex_def)

definition index_ok :: "store \<Rightarrow> bool" where
  "index_ok s = (map_of (as_index s) = source_summary (as_alarms s))"

lemma index_ok_refresh [simp]: "index_ok (refresh_derived now s)"
  by (auto simp: index_ok_def refresh_derived_def rebuild_lookup)

text \<open>A summary in terms of the alarms it stands for.\<close>

lemma summarize_fields:
  "sm_unacked (summarize l) \<longleftrightarrow> (\<exists>a \<in> set l. \<not> al_acknowledged a)"
  "sm_count (summarize l) = length l"
  by (auto simp: summarize_def Let_def list_ex_iff)

lemma hd_sort_key: "l \<noteq> [] \<Longrightarrow> hd (sort_key f l) \<in> set l \<and> (\<forall>x \<in> set l. f (hd (sort_key f l)) \<le> f x)"
proof -
  assume "l \<noteq> []"
  then obtain y ys where s: "sort_key f l = y # ys" by (metis length_0_conv length_sort neq_Nil_conv)
  have "set l = set (y # ys)" by (metis s set_sort)
  moreover have "sorted (map f (y # ys))" by (metis s sorted_sort_key)
  ultimately show ?thesis by (auto simp: s)
qed

lemma summarize_highest:
  "l \<noteq> [] \<Longrightarrow> \<exists>a \<in> set l. sm_highestPriority (summarize l) = Some (al_priority a)
      \<and> sm_message (summarize l) = al_message a \<and> (\<forall>b \<in> set l. priority_index a \<le> priority_index b)"
  using hd_sort_key [of l priority_index]
  by (cases "sort_key priority_index l") (auto simp: summarize_def Let_def dest: arg_cong [of _ _ length])

section \<open>Flushing a batch is flushing its deltas one by one\<close>

definition deliver :: "int \<Rightarrow> hub_delta \<Rightarrow> store \<Rightarrow> store" where
  "deliver now d s = fst (flushHubDeltas now (s\<lparr>as_pending := [d]\<rparr>))"

definition flushed :: "int \<Rightarrow> hub_delta list \<Rightarrow> store \<Rightarrow> store" where
  "flushed now ds s =
     (let (m, dirty, sounds) = apply_batch ds (as_connected s) (as_alarms s) in
      if dirty then refresh_derived now (s\<lparr>as_alarms := m\<rparr>) else s\<lparr>as_alarms := m\<rparr>)"

lemma flush_flushed:
  "fst (flushHubDeltas now s) = flushed now (as_pending s) (s\<lparr>as_timer := False, as_pending := []\<rparr>)"
  by (simp add: flushHubDeltas_def flushed_def Let_def split: prod.split)

lemma refresh_twice:
  "refresh_derived now ((refresh_derived now s)\<lparr>as_alarms := m\<rparr>) = refresh_derived now (s\<lparr>as_alarms := m\<rparr>)"
  using rebuild_prev [of m] by (simp add: refresh_derived_def recalcStatsFromAlarms_def Let_def)

lemma refresh_same: "(refresh_derived now s)\<lparr>as_alarms := as_alarms s\<rparr> = refresh_derived now s"
  by (simp add: refresh_derived_def)

lemma flushed_Cons:
  "flushed now (d # ds) s = flushed now ds (flushed now [d] s)"
proof -
  obtain m1 d1 s1 where 1: "apply_delta d (as_connected s) (as_alarms s) = (m1, d1, s1)" by (metis prod_cases3)
  obtain m2 d2 s2 where 2: "apply_batch ds (as_connected s) m1 = (m2, d2, s2)" by (metis prod_cases3)
  have clean1: "\<not> d1 \<Longrightarrow> m1 = as_alarms s" using apply_delta_clean [of d "as_connected s" "as_alarms s"] by (simp add: 1)
  have clean2: "\<not> d2 \<Longrightarrow> m2 = m1" using apply_batch_clean [of ds "as_connected s" m1] by (simp add: 2)
  have conn: "as_connected (refresh_derived now x) = as_connected x" "as_alarms (refresh_derived now x) = as_alarms x" for x
    by (simp_all add: refresh_derived_def)
  show ?thesis
  proof (cases d1)
    case True
    then have "flushed now [d] s = refresh_derived now (s\<lparr>as_alarms := m1\<rparr>)" by (simp add: flushed_def 1)
    then show ?thesis using True clean2 refresh_same [where s = "s\<lparr>as_alarms := m1\<rparr>"] refresh_twice [where s = "s\<lparr>as_alarms := m1\<rparr>"]
      by (simp add: flushed_def 1 2 conn)
  next
    case False
    then have "flushed now [d] s = s" using clean1 by (simp add: flushed_def 1)
    with clean1 show ?thesis using False by (auto simp: flushed_def 1 split: prod.split)
  qed
qed

lemma flushed_fold: "flushed now ds s = fold (\<lambda>d s. flushed now [d] s) ds s"
proof (induction ds arbitrary: s)
  case (Cons d ds)
  show ?case by (simp only: flushed_Cons [of now d ds] fold.simps comp_def Cons)
qed (simp add: flushed_def)

lemma flushed_frame: "as_timer (flushed now ds s) = as_timer s" "as_pending (flushed now ds s) = as_pending s"
  by (simp_all add: flushed_def refresh_derived_def split: prod.split)

end
