(* ===== verification/Alarm_Props.thy ===== *)
theory Alarm_Props
  imports Alarm_Run
begin

text \<open>
  The alarm store as a state machine, and its properties: the invariants every run keeps, the per-source
  index, batching, the page loop, what an interrupted hydration and a reconciliation do, and the
  acknowledgement lifecycle.
\<close>

section \<open>The state machine\<close>

record client =
  cl_store :: store
  cl_hyd :: "(nat \<times> hydration) list"

definition initial_client :: client where
  "initial_client = \<lparr>cl_store = initial_store, cl_hyd = []\<rparr>"

text \<open>
  The events, each with the clock it reads.  A hydration is named by a number; \<open>EHydrateFail\<close> is the page
  loop throwing.  The flush runs when its timer is armed.
\<close>

datatype alarm_event =
    EHub hub_event
  | EFlush
  | EDisconnect
  | EToggle string
  | EClearSelection
  | ESelect "string list"
  | ESelectAll
  | EHydrateStart nat bool "string option" "feed option"
  | EHydrateStats nat "alarm_stats option"
  | EHydratePage nat "alarm list"
  | EHydrateFinish nat
  | EHydrateFail nat

definition on_store :: "(store \<Rightarrow> store) \<Rightarrow> client \<Rightarrow> client" where
  "on_store f c = c\<lparr>cl_store := f (cl_store c)\<rparr>"

fun client_step :: "int \<Rightarrow> alarm_event \<Rightarrow> client \<Rightarrow> client" where
  "client_step now (EHub e) c = on_store (on_hub_event now e) c"
| "client_step now EFlush c = on_store (\<lambda>s. if as_timer s then fst (flushHubDeltas now s) else s) c"
| "client_step now EDisconnect c = on_store disconnect c"
| "client_step now (EToggle k) c = on_store (toggleAlarmSelection k) c"
| "client_step now EClearSelection c = on_store clearSelection c"
| "client_step now (ESelect ks) c = on_store (setSelectedAlarmIds ks) c"
| "client_step now ESelectAll c = on_store selectAll c"
| "client_step now (EHydrateStart n rec env_id answer) c =
     (if map_of (cl_hyd c) n \<noteq> None then c
      else let (s, h) = hydrate_start now rec env_id (fetchConnectedOpcAeServers answer) (cl_store c)
           in \<lparr>cl_store = s, cl_hyd = AList.update n h (cl_hyd c)\<rparr>)"
| "client_step now (EHydrateStats n answer) c =
     (case map_of (cl_hyd c) n of None \<Rightarrow> c | Some h \<Rightarrow> on_store (hydrate_stats answer h) c)"
| "client_step now (EHydratePage n page) c =
     (case map_of (cl_hyd c) n of
        None \<Rightarrow> c
      | Some h \<Rightarrow> let (s, h') = hydrate_page page (cl_store c, h)
                  in \<lparr>cl_store = s, cl_hyd = AList.update n h' (cl_hyd c)\<rparr>)"
| "client_step now (EHydrateFinish n) c =
     (case map_of (cl_hyd c) n of
        None \<Rightarrow> c
      | Some h \<Rightarrow> \<lparr>cl_store = hydrate_finish now h (cl_store c), cl_hyd = AList.delete n (cl_hyd c)\<rparr>)"
| "client_step now (EHydrateFail n) c = c\<lparr>cl_hyd := AList.delete n (cl_hyd c)\<rparr>"

definition client_run :: "(int \<times> alarm_event) list \<Rightarrow> client" where
  "client_run evs = fold (\<lambda>(now, e). client_step now e) evs initial_client"



section \<open>What the operations write\<close>

lemma refresh_fields [store_simps]:
  "as_alarms (refresh_derived now s) = as_alarms s"
  "as_soe (refresh_derived now s) = as_soe s"
  "as_pending (refresh_derived now s) = as_pending s"
  "as_timer (refresh_derived now s) = as_timer s"
  "as_selected (refresh_derived now s) = as_selected s"
  "as_connected (refresh_derived now s) = as_connected s"
  by (simp_all add: refresh_derived_def)

text \<open>\<open>frame s t\<close>: all but the alarms, the derived state and the connected servers is as before.\<close>

definition frame :: "store \<Rightarrow> store \<Rightarrow> bool" where
  "frame s t = (as_soe t = as_soe s \<and> as_pending t = as_pending s \<and> as_timer t = as_timer s
                \<and> as_selected t = as_selected s)"

lemma frame_refl [simp]: "frame s s"
  by (simp add: frame_def)


lemma frame_refresh [simp]: "frame s (refresh_derived now t) = frame s t"
  by (simp add: frame_def store_simps)

lemma frame_alarms [simp]: "frame s (t\<lparr>as_alarms := m\<rparr>) = frame s t"
  by (simp add: frame_def)

lemma shown_flags [simp]:
  "shown (a\<lparr>al_isShelved := b\<rparr>) = shown a"
  "shown (a\<lparr>al_isSuppressed := b\<rparr>) = shown a"
  "shown (a\<lparr>al_isOutOfService := b\<rparr>) = shown a"
  "shown (a\<lparr>al_state := st\<rparr>) = shown a"
  by (simp_all add: shown_def isDisplayableOpcAlarm_def isActiveOpcAlarm_def)










section \<open>Invariants of every run\<close>




lemma addSoe_fields [store_simps]:
  "as_alarms (addSoeEvent e s) = as_alarms s" "as_pending (addSoeEvent e s) = as_pending s"
  "as_timer (addSoeEvent e s) = as_timer s" "as_selected (addSoeEvent e s) = as_selected s"
  "as_index (addSoeEvent e s) = as_index s"
  by (simp_all add: addSoeEvent_def Let_def)







section \<open>The per-source index\<close>
























text \<open>An alarm of the lab feed, and the run that delivers it.\<close>

definition demo_alarm :: alarm where
  "demo_alarm = \<lparr>al_id = ''a1'', al_serverId = HTTP_FEED_SERVER_ID, al_serverName = ''Current Alarms Feed'',
     al_sourceName = ''FIC-101'', al_conditionName = Some ''HI'', al_subConditionName = None,
     al_message = Some ''flow high'', al_severity = 700, al_priority = ''HIGH'', al_category = ''PROCESS'',
     al_state = ''UNACKNOWLEDGED_UNCLEARED'', al_conditionActive = True, al_acknowledged = False,
     al_isShelved = False, al_isSuppressed = False, al_isOutOfService = False, al_qualityGood = True,
     al_eventTime = 1000, al_activeTime = 1000, al_ackTime = None, al_ackedBy = None, al_ackComment = None,
     al_shelveUntil = None, al_shelveComment = None, al_suppressionReason = None, al_correlationId = None,
     al_isRootCause = False, al_processValue = None, al_processUnit = None, al_serverReceived = 1001,
     al_opc = [], al_familyId = ''f'', al_schemaVersion = 1, al_eventTimeMissing = Val False,
     al_ackLifecycle = Null, al_ackRequestedAt = Null, al_pendingAck = Null, al_commandId = Undef,
     al_lifecycleId = Undef, al_dcsSequenceId = Undef\<rparr>"

definition demo_payload :: hub_payload where
  "demo_payload = \<lparr>hp_id = Some ''a1'', hp_alarm = demo_alarm\<rparr>"

definition demo_feed :: feed where
  "demo_feed = \<lparr>fd_enabled = True, fd_serverId = HTTP_FEED_SERVER_ID, fd_serverName = ''Feed'', fd_protocol = None\<rparr>"



section \<open>Batching\<close>

lemma deliver_flushed:
  "\<not> as_timer s \<Longrightarrow> as_pending s = [] \<Longrightarrow> deliver now d s = flushed now [d] s"
proof -
  assume "\<not> as_timer s" "as_pending s = []"
  then have "s\<lparr>as_timer := False, as_pending := []\<rparr> = s" by simp
  then show ?thesis by (simp add: deliver_def flush_flushed)
qed

lemma deliver_fold:
  "\<not> as_timer s \<Longrightarrow> as_pending s = [] \<Longrightarrow> fold (deliver now) ds s = fold (\<lambda>d s. flushed now [d] s) ds s"
  by (induction ds arbitrary: s) (simp_all add: deliver_flushed flushed_frame)

text \<open>
  C20. Hub messages are buffered and applied together, with one rebuild of the statistics and of the
  source index.  Nothing is lost by it: the store after the flush is the store after delivering the
  buffered messages one at a time, in order, each with its own rebuild.
\<close>

theorem flush_coalesces:
  "fst (flushHubDeltas now s) = fold (deliver now) (as_pending s) (s\<lparr>as_timer := False, as_pending := []\<rparr>)"
  by (simp add: flush_flushed flushed_fold [of now "as_pending s"] deliver_fold)

section \<open>The page loop\<close>

lemma page_count_step:
  fixes p m g N :: nat
  assumes b: "p * PAGE_SIZE \<le> (N - (g + m)) + (PAGE_SIZE - 1)" and full: "\<not> m < PAGE_SIZE" and lt: "g < N"
  shows "Suc p * PAGE_SIZE \<le> (N - g) + (PAGE_SIZE - 1)"
proof (cases "N \<le> g + m")
  case True
  with b have "p * 500 \<le> 499" by (simp add: PAGE_SIZE_def)
  then have "p = 0" by simp
  with lt show ?thesis by (simp add: PAGE_SIZE_def)
next
  case False
  then obtain d where "N = g + m + d" by (metis le_Suc_ex nat_le_linear)
  with b full show ?thesis by (simp add: PAGE_SIZE_def)
qed

lemma fetch_pages_bounded:
  assumes "\<And>n r. respond n = Some r \<Longrightarrow> nullish (pr_total r) 0 \<le> int N"
  shows "t \<le> int N \<or> t \<le> int got \<Longrightarrow>
     \<exists>pages fine. fetch_pages respond n got (Some t) = Some (pages, fine) \<and> length pages * PAGE_SIZE \<le> (N - got) + (PAGE_SIZE - 1)"
proof (induction "N - got" arbitrary: n got t rule: less_induct)
  case less
  show ?case
  proof (cases "t \<le> int got")
    case True
    then show ?thesis by (subst fetch_pages.simps) auto
  next
    case False
    with less.prems have lt: "got < N" by linarith
    show ?thesis
    proof (cases "respond n")
      case None
      with False show ?thesis by (subst fetch_pages.simps) auto
    next
      case (Some r)
      show ?thesis
      proof (cases "length (pr_items r) < PAGE_SIZE")
        case True
        with False Some lt show ?thesis
          by (subst fetch_pages.simps) (auto simp: PAGE_SIZE_def)
      next
        case full: False
        let ?t = "nullish (pr_total r) (int (length (pr_items r)))"
        have "N - (got + length (pr_items r)) < N - got"
          using full lt by (simp add: PAGE_SIZE_def)
        moreover have "?t \<le> int N \<or> ?t \<le> int (got + length (pr_items r))"
          using assms [OF Some] by (cases "pr_total r") simp_all
        ultimately obtain ps fine where
          "fetch_pages respond (n + 1) (got + length (pr_items r)) (Some ?t) = Some (ps, fine)"
          and b: "length ps * PAGE_SIZE \<le> (N - (got + length (pr_items r))) + (PAGE_SIZE - 1)"
          using less.hyps by blast
        with False Some full have "fetch_pages respond n got (Some t) = Some (pr_items r # ps, fine)"
          by (subst fetch_pages.simps) simp
        moreover have "length (pr_items r # ps) * PAGE_SIZE \<le> (N - got) + (PAGE_SIZE - 1)"
          using page_count_step [OF b full lt] by simp
        ultimately show ?thesis by blast
      qed
    qed
  qed
qed

text \<open>
  C26. The page loop of a hydration ends, whatever the pages hold, as soon as the totals the server
  announces are bounded: with at most \<open>N\<close> alarms announced it makes at most \<open>N div 500 + 1\<close> requests.
\<close>

theorem fetchAllActiveAlarms_terminates:
  assumes total_bound: "\<And>n r. respond n = Some r \<Longrightarrow> nullish (pr_total r) 0 \<le> int N"
  shows "\<exists>pages fine. fetchAllActiveAlarms respond = Some (pages, fine) \<and> length pages \<le> N div PAGE_SIZE + 1"
proof (cases "respond 1")
  case None
  then show ?thesis by (auto simp: fetchAllActiveAlarms_def fetch_pages.simps [of respond 1 0 None] simp del: One_nat_def)
next
  case (Some r)
  show ?thesis
  proof (cases "length (pr_items r) < PAGE_SIZE")
    case True
    with Some show ?thesis by (auto simp: fetchAllActiveAlarms_def fetch_pages.simps [of respond 1 0 None] simp del: One_nat_def)
  next
    case False
    let ?t = "nullish (pr_total r) (int (length (pr_items r)))"
    have "?t \<le> int N \<or> ?t \<le> int (length (pr_items r))"
      using total_bound [OF Some] by (cases "pr_total r") simp_all
    from fetch_pages_bounded [OF _ this, of respond 2] total_bound obtain ps fine where
      ps: "fetch_pages respond 2 (length (pr_items r)) (Some ?t) = Some (ps, fine)"
      and b: "length ps * PAGE_SIZE \<le> (N - length (pr_items r)) + (PAGE_SIZE - 1)" by meson
    have "fetchAllActiveAlarms respond = Some (pr_items r # ps, fine)"
      using False Some ps by (simp add: fetchAllActiveAlarms_def fetch_pages.simps [of respond 1 0 None] one_add_one del: One_nat_def)
    moreover have "length ps \<le> N div PAGE_SIZE"
    proof (cases "N \<le> length (pr_items r)")
      case True
      with b have "length ps * 500 \<le> 499" by (simp add: PAGE_SIZE_def)
      then have "length ps = 0" by arith
      then show ?thesis by simp
    next
      case more_left: False
      with b False have "length ps * 500 \<le> N" by (simp add: PAGE_SIZE_def)
      then show ?thesis by (simp add: PAGE_SIZE_def less_eq_div_iff_mult_less_eq)
    qed
    then have "length (pr_items r # ps) \<le> N div PAGE_SIZE + 1" by simp
    ultimately show ?thesis by blast
  qed
qed

definition one_page :: "nat \<Rightarrow> page_response option" where
  "one_page n = Some \<lparr>pr_items = [demo_alarm], pr_total = Some 1\<rparr>"

theorem fetchAllActiveAlarms_terminates_witness:
  "\<exists>pages fine. fetchAllActiveAlarms one_page = Some (pages, fine) \<and> length pages \<le> 1 div PAGE_SIZE + 1"
  by (rule fetchAllActiveAlarms_terminates) (auto simp: one_page_def)

section \<open>Interrupted and concurrent hydrations\<close>

text \<open>One hydration with one page, up to the end of the page loop; numbers of the clock do not matter.\<close>

definition one_page_hydration :: "int \<Rightarrow> nat \<Rightarrow> feed \<Rightarrow> alarm list \<Rightarrow> (int \<times> alarm_event) list" where
  "one_page_hydration t n f page =
     [(t, EHydrateStart n True None (Some f)), (t, EHydrateStats n None), (t, EHydratePage n page)]"

definition feed_ids :: "feed \<Rightarrow> string list" where
  "feed_ids f = [norm_server (js_lower (fd_serverId f))]"

lemma client_run_append: "client_run (evs @ es) = fold (\<lambda>(now, e). client_step now e) es (client_run evs)"
  by (simp add: client_run_def)

lemma hydration_start_run:
  assumes "fd_enabled f" and "map_of (cl_hyd c) n = None"
  shows "\<exists>s h. fold (\<lambda>(now, e). client_step now e) [(t, EHydrateStart n True None (Some f)), (t, EHydrateStats n None)] c
           = \<lparr>cl_store = s, cl_hyd = AList.update n h (cl_hyd c)\<rparr>
         \<and> as_connected s = feed_ids f \<and> as_alarms s = as_alarms (cl_store c) \<and> as_index s = as_index (cl_store c)
         \<and> frame (cl_store c) s \<and> hy_reconcile h \<and> \<not> hy_dirty h \<and> hy_fetched h = []"
  using assms
  by (auto simp: fetchConnectedOpcAeServers_def hydrate_start_def syncConnectedOpcServers_def hydrate_stats_def
        Let_def on_store_def map_simps feed_ids_def setServerStatus_def frame_def js_uniq_def)

lemma page_alarm_connected: "as_connected (fst (page_alarm a (s, h))) = as_connected s"
  by (simp add: page_alarm_def Let_def)

lemma adopt_feed [simp]: "adopt_servers page (feed_ids f) = feed_ids f"
  by (simp add: adopt_servers_def feed_ids_def)

lemma one_page_run:
  assumes "fd_enabled f" and "map_of (cl_hyd c) n = None"
  shows "\<exists>s h. fold (\<lambda>(now, e). client_step now e) (one_page_hydration t n f page) c
           = \<lparr>cl_store = fst (fold page_alarm page (s, h)), cl_hyd = AList.update n (snd (fold page_alarm page (s, h))) (cl_hyd c)\<rparr>
         \<and> as_connected s = feed_ids f \<and> as_alarms s = as_alarms (cl_store c) \<and> as_index s = as_index (cl_store c)
         \<and> frame (cl_store c) s \<and> hy_reconcile h \<and> \<not> hy_dirty h \<and> hy_fetched h = []"
proof -
  from hydration_start_run [OF assms] obtain s h where
    run: "fold (\<lambda>(now, e). client_step now e) [(t, EHydrateStart n True None (Some f)), (t, EHydrateStats n None)] c
           = \<lparr>cl_store = s, cl_hyd = AList.update n h (cl_hyd c)\<rparr>"
    and s: "as_connected s = feed_ids f" "as_alarms s = as_alarms (cl_store c)" "as_index s = as_index (cl_store c)"
      "frame (cl_store c) s" "hy_reconcile h" "\<not> hy_dirty h" "hy_fetched h = []" by blast
  have same: "s\<lparr>as_connected := feed_ids f\<rparr> = s" using s(1) by (metis store.surjective store.update_convs(6))
  have upd: "AList.update n x (AList.update n y m) = AList.update n x m" for x y :: hydration and m
    by (induction m) auto
  have "fold (\<lambda>(now, e). client_step now e) (one_page_hydration t n f page) c
      = client_step t (EHydratePage n page) (fold (\<lambda>(now, e). client_step now e)
          [(t, EHydrateStart n True None (Some f)), (t, EHydrateStats n None)] c)"
    by (simp add: one_page_hydration_def)
  also have "\<dots> = \<lparr>cl_store = fst (fold page_alarm page (s, h)), cl_hyd = AList.update n (snd (fold page_alarm page (s, h))) (cl_hyd c)\<rparr>"
    unfolding run by (simp add: map_simps hydrate_page_def s(1) same upd case_prod_beta)
  finally show ?thesis using s by blast
qed



text \<open>
  The reconciliation at the end of a hydration deletes every alarm of a connected server that was
  not on a page, also one the hub delivered after the pages were read: a new alarm that arrives while a
  hydration is under way is shown and then dropped, although no message cleared it.
\<close>

theorem reconciliation_drops_live_alarm:
  assumes f: "fd_enabled f" and a: "alarmMatchesConnectedOpcServer a (feed_ids f)"
    and p: "p = \<lparr>hp_id = Some (al_id a), hp_alarm = a\<rparr>"
  shows "map_of (as_alarms (cl_store (client_run (one_page_hydration t 0 f [] @ [(t1, EHub (OnNewAlarm p)), (t2, EFlush)])))) (al_id a) = Some a
    \<and> map_of (as_alarms (cl_store (client_run (one_page_hydration t 0 f [] @ [(t1, EHub (OnNewAlarm p)), (t2, EFlush), (t3, EHydrateFinish 0)])))) (al_id a) = None"
proof -
  obtain s h where run: "client_run (one_page_hydration t 0 f []) = \<lparr>cl_store = s, cl_hyd = [(0, h)]\<rparr>"
    and s: "as_connected s = feed_ids f" "as_alarms s = []" "as_pending s = []" "hy_reconcile h" "hy_fetched h = []"
    using one_page_run [OF f, of initial_client 0 t "[]"]
    by (auto simp: client_run_def initial_client_def initial_store_def frame_def)
  let ?c = "client_run (one_page_hydration t 0 f [] @ [(t1, EHub (OnNewAlarm p)), (t2, EFlush)])"
  have upd: "a\<lparr>al_id := al_id a\<rparr> = a" by simp
  have c: "as_alarms (cl_store ?c) = [(al_id a, a)]" "as_connected (cl_store ?c) = feed_ids f" "cl_hyd ?c = [(0, h)]"
    using a s by (simp_all add: client_run_append run on_store_def queueHubDelta_def flush_flushed flushed_def p
        apply_payload_def mapHubAlarmPayload_def pickId_def Let_def store_simps)
  then have shown_first: "map_of (as_alarms (cl_store ?c)) (al_id a) = Some a" by simp
  have "client_run (one_page_hydration t 0 f [] @ [(t1, EHub (OnNewAlarm p)), (t2, EFlush), (t3, EHydrateFinish 0)])
      = client_step t3 (EHydrateFinish 0) ?c"
    by (simp add: client_run_def)
  then have "map_of (as_alarms (cl_store (client_run (one_page_hydration t 0 f [] @ [(t1, EHub (OnNewAlarm p)), (t2, EFlush), (t3, EHydrateFinish 0)])))) (al_id a) = None"
    using a s c by (simp add: hydrate_finish_def reconciled_def Let_def store_simps)
  with shown_first show ?thesis by blast
qed

theorem reconciliation_drops_live_alarm_witness:
  "map_of (as_alarms (cl_store (client_run (one_page_hydration 5 0 demo_feed [] @ [(6, EHub (OnNewAlarm demo_payload)), (7, EFlush)])))) (al_id demo_alarm) = Some demo_alarm
   \<and> map_of (as_alarms (cl_store (client_run (one_page_hydration 5 0 demo_feed [] @ [(6, EHub (OnNewAlarm demo_payload)), (7, EFlush), (8, EHydrateFinish 0)])))) (al_id demo_alarm) = None"
proof (rule reconciliation_drops_live_alarm)
  show "fd_enabled demo_feed" by (simp add: demo_feed_def)
  show "alarmMatchesConnectedOpcServer demo_alarm (feed_ids demo_feed)" by code_simp
  show "demo_payload = \<lparr>hp_id = Some (al_id demo_alarm), hp_alarm = demo_alarm\<rparr>"
    by (simp add: demo_payload_def demo_alarm_def)
qed

section \<open>Acknowledgement\<close>

text \<open>
  The lifecycle of an acknowledgement, for messages in any order.  A terminal outcome wins over every
  later message that is not terminal, so a late or re-delivered pending message never reopens it; among
  terminal outcomes the last one stands; without one the state is that of the last message.  The alarm is
  acknowledged at the end if and only if a confirmation was among the messages, or it was acknowledged
  before and no pending message came first.
\<close>

theorem ack_lifecycle_outcome:
  "al_ackLifecycle (apply_messages now ms a)
     = (case filter terminal_ack (map fst ms) of
          [] \<Rightarrow> if settled a then al_ackLifecycle a else if ms = [] then al_ackLifecycle a else Val (fst (last ms))
        | ts \<Rightarrow> Val (last ts))
   \<and> al_acknowledged (apply_messages now ms a)
     = (''ACK_CONFIRMED'' \<in> fst ` set ms
        \<or> al_acknowledged a
          \<and> (settled a \<or> set (takeWhile (\<lambda>st. \<not> terminal_ack st) (map fst ms)) \<inter> set PENDING_ACK = {}))"
proof (cases "settled a")
  case True
  with messages_lifecycle_settled [OF True, of now ms] messages_ack_settled [OF True, of now ms] show ?thesis
    by (auto split: list.split)
next
  case False
  with messages_lifecycle_open [OF False, of now ms] messages_ack_open [OF False, of now ms] show ?thesis
    by (auto split: list.split)
qed

text \<open>
  Merging a delivered alarm into the stored one: its event time never goes back, a delivery older than
  the stored alarm is ignored, and an acknowledgement the operator sees is never taken back except by a
  failed or timed-out acknowledgement; a confirmed one not even then, nor by a later occurrence of the
  alarm that the server reports unacknowledged.
\<close>

theorem upsert_never_unacknowledges:
  assumes stored: "al_acknowledged e"
  shows "al_eventTime (upsertAlarm (Some e) i) = max (al_eventTime e) (al_eventTime i)
     \<and> (al_eventTime i < al_eventTime e \<longrightarrow> upsertAlarm (Some e) i = e)
     \<and> (\<not> al_acknowledged (upsertAlarm (Some e) i) \<longrightarrow>
          al_ackLifecycle e \<noteq> Val ''ACK_CONFIRMED''
          \<and> (al_ackLifecycle i = Val ''ACK_FAILED'' \<or> al_ackLifecycle i = Val ''ACK_TIMEOUT''))"
proof -
  have "\<not> al_acknowledged (upsertAlarm (Some e) i) \<longrightarrow>
          al_ackLifecycle e \<noteq> Val ''ACK_CONFIRMED''
          \<and> (al_ackLifecycle i = Val ''ACK_FAILED'' \<or> al_ackLifecycle i = Val ''ACK_TIMEOUT'')"
    by (cases rule: upsert_cases [of e i])
       (use stored in \<open>simp_all add: merge_simps resolveOperatorAcknowledged_def split: if_splits\<close>)
  then show ?thesis using upsert_eventTime by (simp add: upsertAlarm_def)
qed

theorem upsert_never_unacknowledges_witness:
  "let e = demo_alarm\<lparr>al_acknowledged := True, al_ackLifecycle := Val ''ACK_CONFIRMED''\<rparr>;
       i = demo_alarm\<lparr>al_eventTime := 9000\<rparr> in
   al_eventTime (upsertAlarm (Some e) i) = 9000 \<and> al_acknowledged (upsertAlarm (Some e) i) \<and> \<not> al_acknowledged i"
  using upsert_never_unacknowledges
    [of "demo_alarm\<lparr>al_acknowledged := True, al_ackLifecycle := Val ''ACK_CONFIRMED''\<rparr>" "demo_alarm\<lparr>al_eventTime := 9000\<rparr>"]
  by (simp add: Let_def demo_alarm_def)

end
