(* ===== verification/Sha256.thy ===== *)
theory Sha256
  imports Prelude "HOL-Library.Word"
begin

unbundle bit_operations_syntax

text \<open>
  The SHA-256 of the browser client (src/frontend-ob/src/components/Cpm/evidence/artifactCodec.ts), used
  where the page has no native engine, with FIPS 180-4 beside it.  A byte is an 8-bit word and the
  arrays of 32-bit integers are lists of 32-bit words: every sum of the source is reduced by \<open>>>> 0\<close> or
  by a store into a Uint32Array, and its bit operations work on the same 32 bits.
\<close>

type_synonym byte = "8 word"
type_synonym w32 = "32 word"
type_synonym digest = "w32 \<times> w32 \<times> w32 \<times> w32 \<times> w32 \<times> w32 \<times> w32 \<times> w32"

section \<open>The code\<close>

definition K256 :: "w32 list" where
  "K256 = concat [
     [0x428a2f98, 0x71374491, 0xb5c0fbcf, 0xe9b5dba5, 0x3956c25b, 0x59f111f1, 0x923f82a4, 0xab1c5ed5],
     [0xd807aa98, 0x12835b01, 0x243185be, 0x550c7dc3, 0x72be5d74, 0x80deb1fe, 0x9bdc06a7, 0xc19bf174],
     [0xe49b69c1, 0xefbe4786, 0x0fc19dc6, 0x240ca1cc, 0x2de92c6f, 0x4a7484aa, 0x5cb0a9dc, 0x76f988da],
     [0x983e5152, 0xa831c66d, 0xb00327c8, 0xbf597fc7, 0xc6e00bf3, 0xd5a79147, 0x06ca6351, 0x14292967],
     [0x27b70a85, 0x2e1b2138, 0x4d2c6dfc, 0x53380d13, 0x650a7354, 0x766a0abb, 0x81c2c92e, 0x92722c85],
     [0xa2bfe8a1, 0xa81a664b, 0xc24b8b70, 0xc76c51a3, 0xd192e819, 0xd6990624, 0xf40e3585, 0x106aa070],
     [0x19a4c116, 0x1e376c08, 0x2748774c, 0x34b0bcb5, 0x391c0cb3, 0x4ed8aa4a, 0x5b9cca4f, 0x682e6ff3],
     [0x748f82ee, 0x78a5636f, 0x84c87814, 0x8cc70208, 0x90befffa, 0xa4506ceb, 0xbef9a3f7, 0xc67178f2]]"

definition H0 :: digest where
  "H0 = (0x6a09e667, 0xbb67ae85, 0x3c6ef372, 0xa54ff53a, 0x510e527f, 0x9b05688c, 0x1f83d9ab, 0x5be0cd19)"

definition rotr :: "w32 \<Rightarrow> nat \<Rightarrow> w32" where
  "rotr x n = drop_bit n x OR push_bit (32 - n) x"

text \<open>\<open>getUint32(off, false)\<close> and \<open>setUint32(off, v, false)\<close>: big endian.\<close>

definition get_be32 :: "byte list \<Rightarrow> nat \<Rightarrow> w32" where
  "get_be32 bs off =
     push_bit 24 (ucast (bs ! off)) OR push_bit 16 (ucast (bs ! (off + 1)))
     OR push_bit 8 (ucast (bs ! (off + 2))) OR ucast (bs ! (off + 3))"

definition be32_bytes :: "w32 \<Rightarrow> byte list" where
  "be32_bytes v = [ucast (drop_bit 24 v), ucast (drop_bit 16 v), ucast (drop_bit 8 v), ucast v]"

text \<open>\<open>a.set(b, off)\<close> on a typed array that is long enough.\<close>

definition array_set :: "'a list \<Rightarrow> nat \<Rightarrow> 'a list \<Rightarrow> 'a list" where
  "array_set a off b = take off a @ b @ drop (off + length b) a"

text \<open>
  The padded length, by 32-bit signed shifts; a negative length, or one shorter than the input, makes the
  source throw.
\<close>

definition padded_length :: "nat \<Rightarrow> int" where
  "padded_length n = (sint (word_of_nat (n + 9 + 63) :: w32) div 64) * 64"

definition pad :: "byte list \<Rightarrow> byte list option" where
  "pad input =
     (let n = length input; m = padded_length n; bitLen = n * 8 in
      if m < int n then None
      else
        (let p0 = array_set (replicate (nat m) 0) 0 input;
             p1 = p0[n := 0x80];
             p2 = array_set p1 (nat m - 8) (be32_bytes (word_of_nat (bitLen div 2 ^ 32)));
             p3 = array_set p2 (nat m - 4) (be32_bytes (word_of_nat bitLen)) in
         Some p3))"

definition schedule_step :: "nat \<Rightarrow> w32 list \<Rightarrow> w32 list" where
  "schedule_step i w =
     (let s0 = rotr (w ! (i - 15)) 7 XOR rotr (w ! (i - 15)) 18 XOR drop_bit 3 (w ! (i - 15));
          s1 = rotr (w ! (i - 2)) 17 XOR rotr (w ! (i - 2)) 19 XOR drop_bit 10 (w ! (i - 2)) in
      w[i := w ! (i - 16) + s0 + w ! (i - 7) + s1])"

definition schedule :: "byte list \<Rightarrow> nat \<Rightarrow> w32 list \<Rightarrow> w32 list" where
  "schedule bs off w =
     fold schedule_step [16..<64] (fold (\<lambda>i w. w[i := get_be32 bs (off + i * 4)]) [0..<16] w)"

definition round_step :: "w32 list \<Rightarrow> nat \<Rightarrow> digest \<Rightarrow> digest" where
  "round_step w i s =
     (case s of (a, b, c, d, e, f, g, hh) \<Rightarrow>
        (let S1 = rotr e 6 XOR rotr e 11 XOR rotr e 25;
             ch = (e AND f) XOR (NOT e AND g);
             t1 = hh + S1 + ch + K256 ! i + w ! i;
             S0 = rotr a 2 XOR rotr a 13 XOR rotr a 22;
             maj = (a AND b) XOR (a AND c) XOR (b AND c);
             t2 = S0 + maj in
         (t1 + t2, a, b, c, d + t1, e, f, g)))"

definition digest_add :: "digest \<Rightarrow> digest \<Rightarrow> digest" where
  "digest_add x y =
     (case (x, y) of ((a, b, c, d, e, f, g, h), (a', b', c', d', e', f', g', h')) \<Rightarrow>
        (a + a', b + b', c + c', d + d', e + e', f + f', g + g', h + h'))"

text \<open>One pass of the block loop: the hash and the array \<open>w\<close>, which the next pass reuses.\<close>

definition block_step :: "byte list \<Rightarrow> nat \<Rightarrow> digest \<times> w32 list \<Rightarrow> digest \<times> w32 list" where
  "block_step bs off hw =
     (let w = schedule bs off (snd hw) in
      (digest_add (fst hw) (fold (round_step w) [0..<64] (fst hw)), w))"

definition hash_blocks :: "byte list \<Rightarrow> digest" where
  "hash_blocks bs = fst (fold (\<lambda>k. block_step bs (64 * k)) [0..<(length bs + 63) div 64] (H0, replicate 64 0))"

definition digest_bytes :: "digest \<Rightarrow> byte list" where
  "digest_bytes s =
     (case s of (a, b, c, d, e, f, g, h) \<Rightarrow> concat (map be32_bytes [a, b, c, d, e, f, g, h]))"

definition sha256Pure :: "byte list \<Rightarrow> byte list option" where
  "sha256Pure input = map_option (\<lambda>p. digest_bytes (hash_blocks p)) (pad input)"

definition hex_digit :: "nat \<Rightarrow> char" where
  "hex_digit n = (if n < 10 then char_of (48 + n) else char_of (87 + n))"

definition hex :: "byte list \<Rightarrow> string" where
  "hex bs = concat (map (\<lambda>b. [hex_digit (unat b div 16), hex_digit (unat b mod 16)]) bs)"

text \<open>\<open>subtle\<close> is the native digest where the context has one.\<close>

definition sha256Hex :: "byte list \<Rightarrow> (byte list \<Rightarrow> byte list) option \<Rightarrow> string option" where
  "sha256Hex bytes subtle =
     (case subtle of Some digest_of \<Rightarrow> Some (hex (digest_of bytes)) | None \<Rightarrow> map_option hex (sha256Pure bytes))"

section \<open>FIPS 180-4\<close>

definition Ch :: "w32 \<Rightarrow> w32 \<Rightarrow> w32 \<Rightarrow> w32" where
  "Ch x y z = (x AND y) XOR (NOT x AND z)"

definition Maj :: "w32 \<Rightarrow> w32 \<Rightarrow> w32 \<Rightarrow> w32" where
  "Maj x y z = (x AND y) XOR (x AND z) XOR (y AND z)"

definition SIGMA0 :: "w32 \<Rightarrow> w32" where
  "SIGMA0 x = word_rotr 2 x XOR word_rotr 13 x XOR word_rotr 22 x"

definition SIGMA1 :: "w32 \<Rightarrow> w32" where
  "SIGMA1 x = word_rotr 6 x XOR word_rotr 11 x XOR word_rotr 25 x"

definition sigma0 :: "w32 \<Rightarrow> w32" where
  "sigma0 x = word_rotr 7 x XOR word_rotr 18 x XOR drop_bit 3 x"

definition sigma1 :: "w32 \<Rightarrow> w32" where
  "sigma1 x = word_rotr 17 x XOR word_rotr 19 x XOR drop_bit 10 x"

text \<open>
  The constants: the first 32 bits of the fractional parts of the cube roots of the first 64 primes, and of
  the square roots of the first 8; each prime is listed with the integer part of its root.
\<close>

definition root_bits :: "nat \<Rightarrow> nat \<times> nat \<Rightarrow> w32 \<Rightarrow> bool" where
  "root_bits n pa k =
     (let r = snd pa * 2 ^ 32 + unat k; s = fst pa * 2 ^ (32 * n) in r ^ n \<le> s \<and> s < (r + 1) ^ n)"

definition primes64 :: "(nat \<times> nat) list" where
  "primes64 =
    [(2, 1), (3, 1), (5, 1), (7, 1), (11, 2), (13, 2), (17, 2), (19, 2), (23, 2), (29, 3),
     (31, 3), (37, 3), (41, 3), (43, 3), (47, 3), (53, 3), (59, 3), (61, 3), (67, 4), (71, 4),
     (73, 4), (79, 4), (83, 4), (89, 4), (97, 4), (101, 4), (103, 4), (107, 4), (109, 4), (113, 4),
     (127, 5), (131, 5), (137, 5), (139, 5), (149, 5), (151, 5), (157, 5), (163, 5), (167, 5), (173, 5),
     (179, 5), (181, 5), (191, 5), (193, 5), (197, 5), (199, 5), (211, 5), (223, 6), (227, 6), (229, 6),
     (233, 6), (239, 6), (241, 6), (251, 6), (257, 6), (263, 6), (269, 6), (271, 6), (277, 6), (281, 6),
     (283, 6), (293, 6), (307, 6), (311, 6)]"

lemma K256_cube_roots: "list_all2 (root_bits 3) primes64 K256"
  by (simp add: primes64_def K256_def root_bits_def)

lemma H0_square_roots:
  "case H0 of (a, b, c, d, e, f, g, h) \<Rightarrow>
     list_all2 (root_bits 2)
       [(2, 1), (3, 1), (5, 2), (7, 2), (11, 3), (13, 3), (17, 4), (19, 4)]
       [a, b, c, d, e, f, g, h]"
  by (simp add: H0_def root_bits_def)

text \<open>The message schedule of a block \<open>M\<close> of 16 words, and the working variables after \<open>t\<close> rounds.\<close>

fun W :: "(nat \<Rightarrow> w32) \<Rightarrow> nat \<Rightarrow> w32" where
  "W M t = (if t < 16 then M t else sigma1 (W M (t - 2)) + W M (t - 7) + sigma0 (W M (t - 15)) + W M (t - 16))"

declare W.simps [simp del]

primrec working :: "(nat \<Rightarrow> w32) \<Rightarrow> digest \<Rightarrow> nat \<Rightarrow> digest" where
  "working M hs 0 = hs"
| "working M hs (Suc t) =
     (case working M hs t of (a, b, c, d, e, f, g, h) \<Rightarrow>
        let T1 = h + SIGMA1 e + Ch e f g + K256 ! t + W M t; T2 = SIGMA0 a + Maj a b c
        in (T1 + T2, a, b, c, d + T1, e, f, g))"

definition fips_padding :: "byte list \<Rightarrow> byte list" where
  "fips_padding m =
     m @ [0x80] @ replicate ((119 - length m mod 64) mod 64) 0 
       @ map (\<lambda>i. ucast (drop_bit (8 * i) (word_of_nat (8 * length m) :: 64 word))) [7, 6, 5, 4, 3, 2, 1, 0]"

primrec fips_hash :: "byte list \<Rightarrow> nat \<Rightarrow> digest" where
  "fips_hash bs 0 = H0"
| "fips_hash bs (Suc n) =
     digest_add (fips_hash bs n) (working (\<lambda>i. get_be32 bs (64 * n + i * 4)) (fips_hash bs n) 64)"

definition fips_sha256 :: "byte list \<Rightarrow> byte list" where
  "fips_sha256 m = digest_bytes (fips_hash (fips_padding m) (length (fips_padding m) div 64))"

section \<open>The two agree\<close>

lemma rotr_word_rotr:
  assumes n: "0 < n" "n < 32"
  shows "rotr x n = word_rotr n x"
proof (rule bit_word_eqI)
  fix k assume "k < LENGTH(32)"
  then have k: "k < 32" by simp
  have high: "\<not> bit x j" if "32 \<le> j" for j
    using bit_imp_le_length [of x j] that by auto
  show "bit (rotr x n) k = bit (word_rotr n x) k"
  proof (cases "k + n < 32")
    case True
    with n k show ?thesis by (auto simp: rotr_def bit_simps ac_simps)
  next
    case False
    then have "(k + n) mod 32 = k + n - 32" using n k by (simp add: mod_if)
    with False n k high [of "n + k"] show ?thesis by (auto simp: rotr_def bit_simps)
  qed
qed

lemma schedule_step_sigma:
  "schedule_step i w = w[i := w ! (i - 16) + sigma0 (w ! (i - 15)) + w ! (i - 7) + sigma1 (w ! (i - 2))]"
  by (simp add: schedule_step_def sigma0_def sigma1_def rotr_word_rotr Let_def)

lemma round_step_fips:
  "round_step w i (a, b, c, d, e, f, g, h)
     = (let T1 = h + SIGMA1 e + Ch e f g + K256 ! i + w ! i; T2 = SIGMA0 a + Maj a b c
        in (T1 + T2, a, b, c, d + T1, e, f, g))"
  by (simp add: round_step_def SIGMA0_def SIGMA1_def Ch_def Maj_def rotr_word_rotr Let_def)

lemma length_schedule [simp]: "length (schedule bs off w) = length w"
proof -
  have 1: "length (fold (\<lambda>i w. w[i := g i]) is w) = length w" for g :: "nat \<Rightarrow> w32" and "is" w
    by (induction "is" arbitrary: w) simp_all
  have 2: "length (fold schedule_step is w) = length w" for "is" w
    by (induction "is" arbitrary: w) (simp_all add: schedule_step_def Let_def)
  show ?thesis unfolding schedule_def 2 1 ..
qed

lemma fold_set_nth:
  "length w = 64 \<Longrightarrow> n \<le> 64 \<Longrightarrow> i < n \<Longrightarrow> fold (\<lambda>i w. w[i := g i]) [0..<n] w ! i = g i"
proof (induction n)
  case (Suc n)
  have "length (fold (\<lambda>i w. w[i := g i]) is w) = 64" for "is"
    using Suc.prems(1) by (induction "is" arbitrary: w) simp_all
  with Suc show ?case by (cases "i = n") (simp_all add: nth_list_update)
qed simp

lemma schedule_nth:
  assumes len: "length w = 64" and t: "t < 64"
  shows "schedule bs off w ! t = W (\<lambda>i. get_be32 bs (off + i * 4)) t"
proof -
  let ?M = "\<lambda>i. get_be32 bs (off + i * 4)"
  let ?w = "fold (\<lambda>i w. w[i := ?M i]) [0..<16] w"
  have "length (fold (\<lambda>i w. w[i := ?M i]) is w) = length w" for "is"
    by (induction "is" arbitrary: w) simp_all
  from this [of "[0..<16]"] len have l16: "length ?w = 64" by (simp only:)
  have inv: "length (fold schedule_step [16..<n] ?w) = 64 \<and> (\<forall>i < n. fold schedule_step [16..<n] ?w ! i = W ?M i)"
    if "16 \<le> n" "n \<le> 64" for n
    using that
  proof (induction n rule: nat_induct_at_least [of 16])
    case base
    have "fold (\<lambda>i w. w[i := ?M i]) [0..<16] w ! i = W ?M i" if "i < 16" for i
      using fold_set_nth [OF len, of 16 i ?M] that by (simp add: W.simps)
    with l16 show ?case by simp
  next
    case (Suc n)
    let ?v = "fold schedule_step [16..<n] ?w"
    from Suc have v: "length ?v = 64" "\<And>i. i < n \<Longrightarrow> ?v ! i = W ?M i" and n: "n < 64" by auto
    have step: "fold schedule_step [16..<Suc n] ?w = schedule_step n ?v" using Suc.hyps by simp
    have new: "schedule_step n ?v ! n = W ?M n"
      using v n Suc.hyps by (simp add: schedule_step_sigma W.simps [of ?M n] ac_simps)
    have old: "schedule_step n ?v ! i = W ?M i" if "i < n" for i
      using v(2) [OF that] that by (simp add: schedule_step_sigma)
    have "length (schedule_step n ?v) = 64" using v(1) by (simp add: schedule_step_sigma)
    with new old show ?case unfolding step by (auto simp: less_Suc_eq)
  qed
  from inv [of 64] t show ?thesis by (simp add: schedule_def)
qed

lemma rounds_working:
  assumes "\<And>i. i < n \<Longrightarrow> w ! i = W M i"
  shows "fold (round_step w) [0..<n] hs = working M hs n"
  using assms
proof (induction n)
  case (Suc n)
  obtain a b c d e f g h where x: "working M hs n = (a, b, c, d, e, f, g, h)" by (metis surj_pair)
  from Suc have "fold (round_step w) [0..<n] hs = working M hs n" by simp
  with Suc.prems [of n] show ?case by (simp add: x round_step_fips Let_def)
qed simp

lemma block_step_fips:
  assumes "length (snd hw) = 64"
  shows "fst (block_step bs off hw) = digest_add (fst hw) (working (\<lambda>i. get_be32 bs (off + i * 4)) (fst hw) 64)"
    and "length (snd (block_step bs off hw)) = 64"
proof -
  have "fold (round_step (schedule bs off (snd hw))) [0..<64] (fst hw)
      = working (\<lambda>i. get_be32 bs (off + i * 4)) (fst hw) 64"
    by (intro rounds_working schedule_nth assms)
  then show "fst (block_step bs off hw) = digest_add (fst hw) (working (\<lambda>i. get_be32 bs (off + i * 4)) (fst hw) 64)"
    unfolding block_step_def Let_def fst_conv by simp
qed (simp add: block_step_def Let_def assms)

lemma hash_blocks_fips:
  assumes "length w = 64"
  shows "fst (fold (\<lambda>k. block_step bs (64 * k)) [0..<n] (H0, w)) = fips_hash bs n
   \<and> length (snd (fold (\<lambda>k. block_step bs (64 * k)) [0..<n] (H0, w))) = 64"
proof (induction n)
  case 0
  with assms show ?case by simp
next
  case (Suc n)
  with block_step_fips [of "fold (\<lambda>k. block_step bs (64 * k)) [0..<n] (H0, w)" bs "64 * n"] show ?case
    by simp
qed

section \<open>Padding\<close>

lemma padded_length_small:
  assumes "n + 72 < 2 ^ 31"
  shows "padded_length n = int ((n + 72) div 64 * 64)"
proof -
  have sint_small: "sint (word_of_nat k :: w32) = int k" if "k < 2 ^ 31" for k
    using that by (simp add: signed_of_nat signed_take_bit_int_eq_self)
  have eq: "n + 9 + 63 = n + 72" by simp
  show ?thesis
    unfolding padded_length_def eq sint_small [OF assms] by (simp only: zdiv_int of_nat_mult of_nat_numeral)
qed

lemma padded_blocks:
  fixes n :: nat
  shows "(n + 72) div 64 * 64 = n + 9 + (119 - n mod 64) mod 64"
proof -
  obtain q r where n: "n = 64 * q + r" "r < 64" by (metis mod_less_divisor mult_div_mod_eq zero_less_numeral)
  show ?thesis
  proof (cases "r < 56")
    case True
    then have "(n + 72) div 64 = q + 1" using n by simp
    moreover have "(119 - r) mod 64 = 55 - r" using True by (simp add: mod_if)
    ultimately show ?thesis using n True by simp
  next
    case False
    then have "(n + 72) div 64 = q + 2" using n by simp
    moreover have "(119 - r) mod 64 = 119 - r" using False n by simp
    ultimately show ?thesis using n False by simp
  qed
qed

lemma length_be32 [simp]: "length (be32_bytes v) = 4"
  by (simp add: be32_bytes_def)

lemma bit_length_bytes:
  "be32_bytes (word_of_nat (n div 2 ^ 32)) @ be32_bytes (word_of_nat n)
     = map (\<lambda>i. ucast (drop_bit (8 * i) (word_of_nat n :: 64 word))) [7, 6, 5, 4, 3, 2, 1, 0]"
proof -
  have hi: "ucast (drop_bit k (word_of_nat (n div 2 ^ 32) :: w32)) = (ucast (drop_bit (k + 32) (word_of_nat n :: 64 word)) :: byte)"
    if "k \<le> 24" for k
  proof -
    have shift: "bit (n div 2 ^ 32) j = bit n (j + 32)" for j
      unfolding drop_bit_eq_div [symmetric] by (simp only: bit_drop_bit_eq o_def add.commute)
    show ?thesis
      by (rule bit_word_eqI) (use that in \<open>auto simp: bit_ucast_iff bit_drop_bit_eq bit_of_nat_iff shift ac_simps simp del: power_numeral\<close>)
  qed
  have lo: "ucast (drop_bit k (word_of_nat n :: w32)) = (ucast (drop_bit k (word_of_nat n :: 64 word)) :: byte)"
    if "k \<le> 24" for k
    by (rule bit_word_eqI) (use that in \<open>auto simp: bit_simps\<close>)
  show ?thesis
    using hi [of 24] hi [of 16] hi [of 8] hi [of 0] lo [of 24] lo [of 16] lo [of 8] lo [of 0]
    by (simp add: be32_bytes_def)
qed

lemma array_set_at: "off = length p \<Longrightarrow> length b = length o' \<Longrightarrow> array_set (p @ o' @ s) off b = p @ b @ s"
  by (simp add: array_set_def)

lemma pad_fips:
  assumes small: "length m + 72 < 2 ^ 31"
  shows "pad m = Some (fips_padding m)"
proof -
  let ?n = "length m" and ?k = "(119 - length m mod 64) mod 64"
  have pl: "padded_length ?n = int (?n + 9 + ?k)"
    unfolding padded_length_small [OF small] padded_blocks ..
  then have len: "nat (padded_length ?n) = ?n + 9 + ?k" and fits: "\<not> padded_length ?n < int ?n"
    by (simp only: nat_int) (use pl in linarith)
  have p1: "(array_set (replicate (?n + 9 + ?k) 0) 0 m)[?n := 0x80] = m @ [0x80] @ replicate (8 + ?k) 0"
  proof -
    have "replicate (?n + 9 + ?k) (0 :: byte) = replicate ?n 0 @ 0 # replicate (8 + ?k) 0"
      by (simp flip: replicate_add replicate_Suc)
    then show ?thesis by (simp add: array_set_def list_update_append)
  qed
  have p3: "array_set (array_set (m @ [0x80] @ replicate (8 + ?k) 0) (?n + 9 + ?k - 8) x) (?n + 9 + ?k - 4) y
      = m @ [0x80] @ replicate ?k 0 @ x @ y" if "length x = 4" "length y = 4" for x y :: "byte list"
  proof -
    have split: "m @ [0x80] @ replicate (8 + ?k) 0 = (m @ [0x80] @ replicate ?k 0) @ replicate 4 0 @ replicate 4 (0 :: byte)"
      by (simp flip: replicate_add)
    show ?thesis
      unfolding split using that
      by (simp add: array_set_at [of _ "m @ 0x80 # replicate ?k 0" _ "replicate 4 0" "replicate 4 0", simplified]
          array_set_at [of _ "m @ 0x80 # replicate ?k 0 @ x" _ "replicate 4 0" "[]", simplified])
  qed
  show ?thesis
    unfolding pad_def Let_def len p1 p3 [OF length_be32 length_be32] bit_length_bytes fips_padding_def mult.commute [of 8]
    by (simp only: fits if_False)
qed

lemma fips_padding_blocks: "length (fips_padding m) mod 64 = 0"
proof -
  have "length (fips_padding m) = (length m + 72) div 64 * 64"
    unfolding padded_blocks by (simp add: fips_padding_def)
  then show ?thesis by (simp only: mod_mult_self2_is_0)
qed

lemma sha256Pure_eq:
  assumes "length m + 72 < 2 ^ 31"
  shows "sha256Pure m = Some (fips_sha256 m)"
proof -
  define blocks where "blocks = length (fips_padding m) div 64"
  have up: "(l + 63) div 64 = l div 64" if "l mod 64 = 0" for l :: nat
  proof -
    from that obtain q where l: "l = 64 * q" by (metis mod_eq_0_iff_dvd dvdE)
    show ?thesis unfolding l by (simp add: div_mult_self4 add.commute [of _ 63])
  qed
  have blocks: "(length (fips_padding m) + 63) div 64 = blocks"
    unfolding blocks_def by (rule up [OF fips_padding_blocks])
  have "fst (fold (\<lambda>k. block_step (fips_padding m) (64 * k)) [0..<blocks] (H0, replicate 64 0)) = fips_hash (fips_padding m) blocks"
    by (intro hash_blocks_fips [THEN conjunct1] length_replicate)
  with blocks show ?thesis
    unfolding sha256Pure_def pad_fips [OF assms] hash_blocks_def fips_sha256_def blocks_def [symmetric]
    by (simp only: option.map)
qed

lemma length_fips_sha256: "length (fips_sha256 m) = 32"
  unfolding fips_sha256_def digest_bytes_def by (simp add: split_beta)

lemma length_hex: "length (hex bs) = 2 * length bs"
  by (induction bs) (simp_all add: hex_def)

text \<open>
  C19. The fallback of the evidence viewer computes SHA-256: on every message that a browser page can hold
  (below 2 GiB, the range of the 32-bit shifts that compute the padded length) \<open>sha256Hex\<close> without a native
  engine does not throw, and its 64 characters are the hex of the FIPS 180-4 digest of the message.
\<close>

theorem sha256Hex_is_sha256:
  assumes "length m + 72 < 2 ^ 31"
  shows "sha256Hex m None = Some (hex (fips_sha256 m)) \<and> length (hex (fips_sha256 m)) = 64"
  by (simp add: sha256Hex_def sha256Pure_eq [OF assms] length_hex length_fips_sha256)

theorem sha256Hex_is_sha256_witness:
  "sha256Hex [97, 98, 99] None = Some (hex (fips_sha256 [97, 98, 99]))"
  using sha256Hex_is_sha256 [of "[97, 98, 99]"] by simp

end
