(* ===== verification/Artifact_Codec.thy ===== *)
theory Artifact_Codec
  imports Js_Lib Sha256
begin

text \<open>
  The evidence transport of the browser client
  (src/frontend-ob/src/components/Cpm/evidence/artifactCodec.ts): an artifact is one block of little
  endian float64 columns, compressed and cut into chunks with a checksum each; a run's artifacts come framed
  in one bundle.  A float64 is its 64 bits.  An array that may have holes is a list of options.  The
  engine's inflate and digest are the fields of \<open>ports\<close>, and \<open>JSON.parse\<close> on the provenance strings is
  the field \<open>json_record\<close>; a rejected promise is \<open>None\<close>.  Identifiers are strings of code units below 256.
\<close>

type_synonym f64 = "64 word"

section \<open>Arrays\<close>

text \<open>
  \<open>a[i] = v\<close> on an array: it grows to hold the index.  The largest 32-bit number is not an index: such a
  write adds a property that no reader of the array sees.
\<close>

definition array_put :: "'a option list \<Rightarrow> nat \<Rightarrow> 'a \<Rightarrow> 'a option list" where
  "array_put a i v =
     (if i \<ge> 2 ^ 32 - 1 then a
      else if i < length a then a[i := Some v]
      else a @ replicate (i - length a) None @ [Some v])"

section \<open>Chunks\<close>

partial_function (option) split_loop :: "byte list \<Rightarrow> nat \<Rightarrow> nat \<Rightarrow> byte list list \<Rightarrow> byte list list option" where
  "split_loop encoded chunkBytes off out =
     (if off < length encoded
      then split_loop encoded chunkBytes (off + chunkBytes)
             (out @ [take (min (off + chunkBytes) (length encoded) - off) (drop off encoded)])
      else Some out)"

definition splitChunks :: "byte list \<Rightarrow> nat \<Rightarrow> byte list list option" where
  "splitChunks encoded chunkBytes =
     (if encoded = [] then Some [[]] else split_loop encoded chunkBytes 0 [])"

definition joinChunks :: "byte list list \<Rightarrow> byte list" where
  "joinChunks chunks =
     (let n = foldl (\<lambda>n c. n + length c) 0 chunks in
      fst (foldl (\<lambda>(out, off) c. (array_set out off c, off + length c)) (replicate n 0, 0) chunks))"

section \<open>Legends\<close>

text \<open>\<open>byCode[Number(text)] = label\<close>: only a number that is an array index makes an element.\<close>

definition array_index :: "rat option \<Rightarrow> nat option" where
  "array_index q =
     (case q of Some r \<Rightarrow> if 0 \<le> r \<and> of_int \<lfloor>r\<rfloor> = r then Some (nat \<lfloor>r\<rfloor>) else None | None \<Rightarrow> None)"

definition legend_part :: "string option list \<Rightarrow> string \<Rightarrow> string option list" where
  "legend_part byCode part =
     (let k = takeWhile (\<lambda>c. c \<noteq> CHR ''='') part in
      if length k = length part then byCode
      else (case array_index (js_number k) of
              Some i \<Rightarrow> array_put byCode i (drop (length k + 1) part)
            | None \<Rightarrow> byCode))"

definition parseLegend :: "string \<Rightarrow> string option list" where
  "parseLegend legend = foldl legend_part [] (js_split (CHR '';'') legend)"

section \<open>Decoding\<close>

record artifact_meta =
  artifactId :: string
  am_columns :: "string list"
  calculationSamples :: "nat nul"
  chunkCount :: nat
  am_checksum :: string
  chunkChecksums :: "string list"
  x_unit :: "string nul"
  y_unit :: "string nul"
  provenance :: "(string \<times> string) list nul"

record codec_ports =
  inflate :: "byte list \<Rightarrow> byte list option"
  digest_hex :: "byte list \<Rightarrow> string option"
  json_record :: "string \<Rightarrow> (string \<times> string) list option"

record decoded_artifact =
  da_meta :: artifact_meta
  da_n :: nat
  columns :: "(string \<times> f64 list) list"
  mask :: "bool list option"
  units :: "(string \<times> string) list"
  legends :: "(string \<times> string option list) list"

datatype codec_error =
  CHUNK_COUNT_MISMATCH nat nat
| CHUNK_CHECKSUM_MISMATCH nat
| TOTAL_CHECKSUM_MISMATCH
| PAYLOAD_LENGTH nat nat nat
| BUNDLE_TRUNCATED nat
| Port_rejected

definition jsonField :: "codec_ports \<Rightarrow> (string \<times> string) list nul \<Rightarrow> string \<Rightarrow> (string \<times> string) list" where
  "jsonField ports prov key =
     (case prov of
        Val p \<Rightarrow> (case map_of p key of
                    Some raw \<Rightarrow> if raw = [] then [] else nullish (json_record ports raw) []
                  | None \<Rightarrow> [])
      | _ \<Rightarrow> [])"

text \<open>The loop over the chunks from the \<open>i\<close>th.\<close>

fun check_chunks :: "codec_ports \<Rightarrow> string list \<Rightarrow> nat \<Rightarrow> byte list list \<Rightarrow> codec_error + unit" where
  "check_chunks ports expected i [] = Inr ()"
| "check_chunks ports expected i (c # cs) =
     (if i < length expected \<and> expected ! i \<noteq> [] then
        (case digest_hex ports c of
           None \<Rightarrow> Inl Port_rejected
         | Some h \<Rightarrow> if h \<noteq> expected ! i then Inl (CHUNK_CHECKSUM_MISMATCH i) else check_chunks ports expected (i + 1) cs)
      else check_chunks ports expected (i + 1) cs)"

text \<open>\<open>getFloat64(off, true)\<close>: the eight bytes, least significant first.\<close>

definition get_f64le :: "byte list \<Rightarrow> nat \<Rightarrow> f64" where
  "get_f64le bs off = foldr (\<lambda>b w. push_bit 8 w OR ucast b) (take 8 (drop off bs)) 0"

definition column_of :: "byte list \<Rightarrow> nat \<Rightarrow> nat \<Rightarrow> f64 list" where
  "column_of raw n c = map (\<lambda>i. get_f64le raw ((c * n + i) * 8)) [0..<n]"

text \<open>\<open>v !== 0\<close>: both zeros are 0, and NaN is not.\<close>

definition f64_nonzero :: "f64 \<Rightarrow> bool" where
  "f64_nonzero w = (take_bit 63 w \<noteq> 0)"

definition default_unit :: "string \<Rightarrow> string nul \<Rightarrow> (string \<times> string) list \<Rightarrow> (string \<times> string) list" where
  "default_unit key u us =
     (case u of
        Val v \<Rightarrow> if v \<noteq> [] \<and> \<not> truthy (map_of us key) then AList.update key v us else us
      | _ \<Rightarrow> us)"

definition decodeArtifact :: "artifact_meta \<Rightarrow> byte list list \<Rightarrow> codec_ports \<Rightarrow> codec_error + decoded_artifact" where
  "decodeArtifact meta chunks ports =
     (if length chunks \<noteq> chunkCount meta then Inl (CHUNK_COUNT_MISMATCH (length chunks) (chunkCount meta))
      else (case check_chunks ports (chunkChecksums meta) 0 chunks of
        Inl e \<Rightarrow> Inl e
      | Inr _ \<Rightarrow>
          let encoded = joinChunks chunks in
          (case digest_hex ports encoded of
             None \<Rightarrow> Inl Port_rejected
           | Some h \<Rightarrow>
               if h \<noteq> am_checksum meta then Inl TOTAL_CHECKSUM_MISMATCH
               else (case inflate ports encoded of
                 None \<Rightarrow> Inl Port_rejected
               | Some raw \<Rightarrow>
                   let n = nul_or (calculationSamples meta) 0; cols = am_columns meta in
                   if length raw \<noteq> n * length cols * 8 then Inl (PAYLOAD_LENGTH (length raw) n (length cols))
                   else
                     (let cs = foldl (\<lambda>m (c, name). AList.update name (column_of raw n c) m) [] (enumerate 0 cols) in
                      Inr \<lparr>da_meta = meta, da_n = n, columns = cs,
                           mask = map_option (map f64_nonzero) (map_of cs ''mask''),
                           units = default_unit ''y'' (y_unit meta)
                                     (default_unit ''x'' (x_unit meta) (jsonField ports (provenance meta) ''column_units'')),
                           legends = foldl (\<lambda>m (k, v). AList.update k (parseLegend v) m) []
                                       (jsonField ports (provenance meta) ''legends'')\<rparr>)))))"

section \<open>Bundles\<close>

record bundled_artifact =
  ba_id :: string
  ba_chunks :: "byte list list"

definition le32_bytes :: "w32 \<Rightarrow> byte list" where
  "le32_bytes v = [ucast v, ucast (drop_bit 8 v), ucast (drop_bit 16 v), ucast (drop_bit 24 v)]"

definition get_le32 :: "byte list \<Rightarrow> nat \<Rightarrow> w32" where
  "get_le32 bs off =
     ucast (bs ! off) OR push_bit 8 (ucast (bs ! (off + 1)))
     OR push_bit 16 (ucast (bs ! (off + 2))) OR push_bit 24 (ucast (bs ! (off + 3)))"

text \<open>\<open>charCodeAt(i)\<close> stored in a byte; past the end it is NaN, which is stored as 0.\<close>

definition id_byte :: "string \<Rightarrow> nat \<Rightarrow> byte" where
  "id_byte s i = (if i < length s then of_char (s ! i) else 0)"

definition frame_chunk :: "byte list \<times> nat \<Rightarrow> nat \<times> byte list \<Rightarrow> byte list \<times> nat" where
  "frame_chunk s nc =
     (let out = array_set (fst s) (snd s) (le32_bytes (word_of_nat (fst nc))); off = snd s + 4;
          out = array_set out off (le32_bytes (word_of_nat (length (snd nc)))); off = off + 4 in
      (array_set out off (snd nc), off + length (snd nc)))"

definition frame_artifact :: "byte list \<times> nat \<Rightarrow> bundled_artifact \<Rightarrow> byte list \<times> nat" where
  "frame_artifact s a =
     (let out = foldl (\<lambda>out i. out[snd s + i := id_byte (ba_id a) i]) (fst s) [0..<36]; off = snd s + 36;
          out = array_set out off (le32_bytes (word_of_nat (length (ba_chunks a)))); off = off + 4 in
      foldl frame_chunk (out, off) (enumerate 0 (ba_chunks a)))"

definition frameBundle :: "bundled_artifact list \<Rightarrow> byte list" where
  "frameBundle artifacts =
     (let n = foldl (\<lambda>n a. n + 40 + foldl (\<lambda>m c. m + 8 + length c) 0 (ba_chunks a)) 0 artifacts in
      fst (foldl frame_artifact (replicate n 0, 0) artifacts))"

definition need :: "byte list \<Rightarrow> nat \<Rightarrow> nat \<Rightarrow> codec_error + unit" where
  "need bytes off n = (if off + n > length bytes then Inl (BUNDLE_TRUNCATED off) else Inr ())"

fun parse_chunks :: "byte list \<Rightarrow> nat \<Rightarrow> nat \<Rightarrow> byte list option list \<Rightarrow> codec_error + (byte list option list \<times> nat)" where
  "parse_chunks bytes 0 off chunks = Inr (chunks, off)"
| "parse_chunks bytes (Suc k) off chunks =
     (case need bytes off 8 of
        Inl e \<Rightarrow> Inl e
      | Inr _ \<Rightarrow>
          let no = unat (get_le32 bytes off); len = unat (get_le32 bytes (off + 4)); off' = off + 8 in
          (case need bytes off' len of
             Inl e \<Rightarrow> Inl e
           | Inr _ \<Rightarrow> parse_chunks bytes k (off' + len) (array_put chunks no (take len (drop off' bytes)))))"

definition parse_artifact :: "byte list \<Rightarrow> nat \<Rightarrow> codec_error + (string \<times> byte list option list \<times> nat)" where
  "parse_artifact bytes off =
     (case need bytes off 40 of
        Inl e \<Rightarrow> Inl e
      | Inr _ \<Rightarrow>
          let id = map (\<lambda>i. char_of (unat (bytes ! (off + i)))) [0..<36]; count = unat (get_le32 bytes (off + 36)) in
          (case parse_chunks bytes count (off + 40) [] of
             Inl e \<Rightarrow> Inl e
           | Inr (chunks, off') \<Rightarrow> Inr (id, chunks, off')))"

lemma parse_chunks_advances: "parse_chunks bytes k off cs = Inr (cs', off') \<Longrightarrow> off \<le> off'"
proof (induction k arbitrary: off cs)
  case (Suc k)
  then show ?case by (fastforce simp: Let_def split: sum.splits)
qed simp

lemma parse_artifact_advances: "parse_artifact bytes off = Inr (aid, cs, off') \<Longrightarrow> off + 40 \<le> off' \<and> off + 40 \<le> length bytes"
  by (auto simp: parse_artifact_def need_def Let_def dest: parse_chunks_advances split: sum.splits if_splits)

function parse_loop ::
  "byte list \<Rightarrow> nat \<Rightarrow> (string \<times> byte list option list) list \<Rightarrow> codec_error + (string \<times> byte list option list) list" where
  "parse_loop bytes off out =
     (if off < length bytes then
        (case parse_artifact bytes off of
           Inl e \<Rightarrow> Inl e
         | Inr (aid, chunks, off') \<Rightarrow> parse_loop bytes off' (AList.update aid chunks out))
      else Inr out)"
  by pat_completeness auto

termination
  by (relation "measure (\<lambda>(bytes, off, out). length bytes - off)") (auto dest!: parse_artifact_advances)

declare parse_loop.simps [simp del]

definition parseBundle :: "byte list \<Rightarrow> codec_error + (string \<times> byte list option list) list" where
  "parseBundle bytes = parse_loop bytes 0 []"

section \<open>The cache of decoded artifacts\<close>

text \<open>
  \<open>fetchChunk\<close> on an evidence id: \<open>None\<close> is a rejected request.  The result carries the module's \<open>memory\<close>.
\<close>

fun fetch_all :: "(nat \<Rightarrow> byte list option) \<Rightarrow> nat list \<Rightarrow> byte list list option" where
  "fetch_all fetchChunk [] = Some []"
| "fetch_all fetchChunk (i # is) =
     (case fetchChunk i of
        None \<Rightarrow> None
      | Some c \<Rightarrow> map_option ((#) c) (fetch_all fetchChunk is))"

type_synonym artifact_memory = "(string \<times> decoded_artifact) list"

definition loadArtifact ::
  "artifact_meta \<Rightarrow> (string \<Rightarrow> nat \<Rightarrow> byte list option) \<Rightarrow> codec_ports \<Rightarrow> artifact_memory
     \<Rightarrow> artifact_memory \<times> (codec_error + decoded_artifact)" where
  "loadArtifact meta fetchChunk ports memory =
     (case (case map_of memory (artifactId meta) of
              Some d \<Rightarrow> if am_checksum (da_meta d) = am_checksum meta then Some d else None
            | None \<Rightarrow> None) of
        Some cached \<Rightarrow> (memory, Inr cached)
      | None \<Rightarrow>
          (case fetch_all (fetchChunk (artifactId meta)) [0..<chunkCount meta] of
             None \<Rightarrow> (memory, Inl Port_rejected)
           | Some chunks \<Rightarrow>
               (case decodeArtifact meta chunks ports of
                  Inl e \<Rightarrow> (memory, Inl e)
                | Inr d \<Rightarrow> (AList.update (artifactId meta) d memory, Inr d))))"

datatype label = Label string | Code_itself f64

text \<open>
  \<open>legend[c]\<close> for a float64 \<open>c\<close>: the index when its value is a whole number in range.  An unknown code is
  shown as the code, \<open>String(c)\<close>.
\<close>

definition f64_nat :: "f64 \<Rightarrow> nat option" where
  "f64_nat w =
     (let e = unat (take_bit 11 (drop_bit 52 w)); m = unat (take_bit 52 w); v = 2 ^ 52 + m in
      if e = 0 then (if m = 0 then Some 0 else None)
      else if bit w 63 \<or> e = 2047 then None
      else if 1075 \<le> e then Some (v * 2 ^ (e - 1075))
      else if v mod 2 ^ (1075 - e) = 0 then Some (v div 2 ^ (1075 - e))
      else None)"

definition label_of :: "string option list \<Rightarrow> f64 \<Rightarrow> label" where
  "label_of legend c =
     (case f64_nat c of
        Some i \<Rightarrow> if i < length legend then (case legend ! i of Some l \<Rightarrow> Label l | None \<Rightarrow> Code_itself c) else Code_itself c
      | None \<Rightarrow> Code_itself c)"

definition labelsOf :: "decoded_artifact \<Rightarrow> string \<Rightarrow> label list" where
  "labelsOf d column =
     (case map_of (columns d) column of
        Some codes \<Rightarrow> map (label_of (nullish (map_of (legends d) column) [])) codes
      | None \<Rightarrow> [])"

end
