(* ===== verification/Artifact_Laws.thy ===== *)
theory Artifact_Laws
  imports Artifact_Codec
begin

text \<open>
  The bytes of the evidence transport as concatenations: what \<open>joinChunks\<close> and \<open>frameBundle\<close> write, what the
  parser reads back from them, and what it does with a frame that ends early.
\<close>

section \<open>Joining and splitting\<close>

lemma join_loop:
  "foldl (\<lambda>(out, off) c. (array_set out off c, off + length c)) (p @ replicate (length (concat cs)) 0, length p) cs
     = (p @ concat cs, length (p @ concat cs))"
proof (induction cs arbitrary: p)
  case (Cons c cs)
  have "array_set (p @ replicate (length (concat (c # cs))) 0) (length p) c = (p @ c) @ replicate (length (concat cs)) 0"
    using array_set_at [of "length p" p c "replicate (length c) 0" "replicate (length (concat cs)) 0"]
    by (simp add: replicate_add)
  with Cons.IH [of "p @ c"] show ?case by simp
qed simp

lemma total_length: "foldl (\<lambda>n c. n + length c) k cs = k + length (concat cs)"
  by (induction cs arbitrary: k) simp_all

lemma joinChunks_concat: "joinChunks cs = concat cs"
  using join_loop [of "[]" cs] by (simp add: joinChunks_def total_length)

function pieces :: "nat \<Rightarrow> 'a list \<Rightarrow> 'a list list" where
  "pieces n xs = (if n = 0 \<or> xs = [] then [] else take n xs # pieces n (drop n xs))"
  by pat_completeness auto

termination
  by (relation "measure (length \<circ> snd)") (auto simp: length_greater_0_conv [symmetric] simp del: length_greater_0_conv)

declare pieces.simps [simp del]

lemma pieces_Nil [simp]: "pieces n [] = []"
  by (simp add: pieces.simps)

lemma pieces_step: "0 < n \<Longrightarrow> xs \<noteq> [] \<Longrightarrow> pieces n xs = take n xs # pieces n (drop n xs)"
  by (subst pieces.simps) simp

lemma pieces_not_Nil: "0 < n \<Longrightarrow> xs \<noteq> [] \<Longrightarrow> pieces n xs \<noteq> []"
  by (simp add: pieces_step [of n xs])

lemma concat_pieces: "0 < n \<Longrightarrow> concat (pieces n xs) = xs"
proof (induction n xs rule: pieces.induct)
  case (1 n xs)
  show ?case
  proof (cases "xs = []")
    case False
    with 1 have "concat (pieces n (drop n xs)) = drop n xs" by blast
    with False show ?thesis unfolding pieces_step [OF "1.prems" False] by (simp only: concat.simps append_take_drop_id)
  qed simp
qed

lemma pieces_lengths:
  "0 < n \<Longrightarrow> xs \<noteq> [] \<Longrightarrow>
     (\<forall>c \<in> set (butlast (pieces n xs)). length c = n) \<and> 0 < length (last (pieces n xs)) \<and> length (last (pieces n xs)) \<le> n"
proof (induction n xs rule: pieces.induct)
  case (1 n xs)
  have step: "pieces n xs = take n xs # pieces n (drop n xs)" by (rule pieces_step [OF "1.prems"])
  show ?case
  proof (cases "length xs \<le> n")
    case True
    then show ?thesis unfolding step using "1.prems" by simp
  next
    case False
    then have more: "drop n xs \<noteq> []" and full: "length (take n xs) = n" by simp_all
    from "1.prems"(1) more have ne: "pieces n (drop n xs) \<noteq> []" by (rule pieces_not_Nil)
    from "1.prems" more "1.IH" have
      "(\<forall>c \<in> set (butlast (pieces n (drop n xs))). length c = n) \<and> 0 < length (last (pieces n (drop n xs)))
       \<and> length (last (pieces n (drop n xs))) \<le> n" by blast
    then show ?thesis unfolding step butlast.simps last.simps using ne full by simp
  qed
qed

lemma split_loop_pieces:
  "0 < cb \<Longrightarrow> split_loop encoded cb off out = Some (out @ pieces cb (drop off encoded))"
proof (induction "length encoded - off" arbitrary: off out rule: less_induct)
  case less
  show ?case
  proof (cases "off < length encoded")
    case True
    then have "take (min (off + cb) (length encoded) - off) (drop off encoded) = take cb (drop off encoded)"
      by (simp add: min_def)
    with True less.prems less.hyps [of "off + cb"] show ?thesis
      by (simp add: split_loop.simps [of encoded cb off] pieces_step [of cb "drop off encoded"] add.commute)
  next
    case False
    then show ?thesis by (simp add: split_loop.simps [of encoded cb off])
  qed
qed

lemma split_loop_0: "split_loop encoded 0 off out = Some y \<Longrightarrow> length encoded \<le> off"
proof -
  have "split_loop encoded cb off out = Some y \<Longrightarrow> cb = 0 \<longrightarrow> length encoded \<le> off" for cb
    by (rule split_loop.raw_induct [of "\<lambda>encoded cb off out y. cb = 0 \<longrightarrow> length encoded \<le> off"])
       (fastforce split: if_splits)+
  then show "split_loop encoded 0 off out = Some y \<Longrightarrow> length encoded \<le> off" by blast
qed

section \<open>The bytes of a frame\<close>

definition chunk_bytes :: "nat \<times> byte list \<Rightarrow> byte list" where
  "chunk_bytes nc = le32_bytes (word_of_nat (fst nc)) @ le32_bytes (word_of_nat (length (snd nc))) @ snd nc"

definition artifact_bytes :: "bundled_artifact \<Rightarrow> byte list" where
  "artifact_bytes a =
     map (id_byte (ba_id a)) [0..<36] @ le32_bytes (word_of_nat (length (ba_chunks a)))
     @ concat (map chunk_bytes (enumerate 0 (ba_chunks a)))"

lemma length_le32 [simp]: "length (le32_bytes v) = 4"
  by (simp add: le32_bytes_def)

lemma length_chunk_bytes [simp]: "length (chunk_bytes nc) = 8 + length (snd nc)"
  by (simp add: chunk_bytes_def)

lemma length_chunks_bytes:
  "length (concat (map chunk_bytes (enumerate i cs))) = foldl (\<lambda>m c. m + 8 + length c) 0 cs"
proof -
  have "foldl (\<lambda>m c. m + 8 + length c) k cs = k + length (concat (map chunk_bytes (enumerate i cs)))" for k
  proof (induction cs arbitrary: i k)
    case (Cons c cs)
    from Cons.IH [of "k + 8 + length c" "Suc i"] show ?case by simp
  qed simp
  then show ?thesis by simp
qed

lemma length_artifact_bytes:
  "length (artifact_bytes a) = 40 + foldl (\<lambda>m c. m + 8 + length c) 0 (ba_chunks a)"
  unfolding artifact_bytes_def length_append length_chunks_bytes by simp

lemma array_set_seq:
  "length b = n \<Longrightarrow> array_set (p @ replicate (n + r) 0) (length p) b = (p @ b) @ replicate r 0"
  by (simp add: array_set_def replicate_add)

lemma frame_chunk_bytes:
  "frame_chunk (p @ replicate (length (chunk_bytes nc) + r) 0, length p) nc
     = ((p @ chunk_bytes nc) @ replicate r 0, length (p @ chunk_bytes nc))"
proof -
  let ?n = "length (snd nc)"
  have "array_set (p @ replicate (length (chunk_bytes nc) + r) 0) (length p) b = (p @ b) @ replicate (4 + (?n + r)) 0"
    if "length b = 4" for b :: "byte list"
    using array_set_seq [of b 4 p "4 + (?n + r)"] that by (simp add: add.assoc)
  moreover have "array_set ((p @ b) @ replicate (4 + (?n + r)) 0) (length p + 4) b' = (p @ b @ b') @ replicate (?n + r) 0"
    if "length b = 4" "length b' = 4" for b b' :: "byte list"
    using array_set_seq [of b' 4 "p @ b" "?n + r"] that by simp
  moreover have "array_set ((p @ b @ b') @ replicate (?n + r) 0) (length p + 4 + 4) (snd nc)
      = (p @ b @ b' @ snd nc) @ replicate r 0"
    if "length b = 4" "length b' = 4" for b b' :: "byte list"
    using array_set_seq [of "snd nc" ?n "p @ b @ b'" r] that by (simp add: add.assoc)
  ultimately show ?thesis
    unfolding frame_chunk_def Let_def by (simp only: fst_conv snd_conv length_le32) (simp add: chunk_bytes_def)
qed

lemma frame_chunks_bytes:
  "foldl frame_chunk (p @ replicate (length (concat (map chunk_bytes ncs)) + r) 0, length p) ncs
     = ((p @ concat (map chunk_bytes ncs)) @ replicate r 0, length (p @ concat (map chunk_bytes ncs)))"
proof (induction ncs arbitrary: p)
  case (Cons nc ncs)
  from frame_chunk_bytes [of p nc "length (concat (map chunk_bytes ncs)) + r"] Cons.IH [of "p @ chunk_bytes nc"]
  show ?case by (simp add: add.assoc)
qed simp

lemma set_bytes_loop:
  "foldl (\<lambda>out i. out[length p + i := g i]) (p @ replicate (n + r) 0) [0..<n] = (p @ map g [0..<n]) @ replicate r 0"
proof -
  have "foldl (\<lambda>out i. out[length p + i := g i]) (p @ replicate (n + r) 0) [0..<k]
      = p @ map g [0..<k] @ replicate (n + r - k) 0" if "k \<le> n" for k
    using that
  proof (induction k)
    case (Suc k)
    then have "replicate (n + r - k) (0 :: 'a) = 0 # replicate (n + r - Suc k) 0"
      by (metis Suc_diff_le replicate_Suc diff_Suc_Suc le_add1 le_trans)
    with Suc show ?case by (simp add: list_update_append)
  qed simp
  from this [of n] show ?thesis by simp
qed

lemma frame_artifact_bytes:
  "frame_artifact (p @ replicate (length (artifact_bytes a) + r) 0, length p) a
     = ((p @ artifact_bytes a) @ replicate r 0, length (p @ artifact_bytes a))"
proof -
  let ?ids = "map (id_byte (ba_id a)) [0..<36]" and ?cs = "concat (map chunk_bytes (enumerate 0 (ba_chunks a)))"
  let ?count = "le32_bytes (word_of_nat (length (ba_chunks a)))"
  have len: "length (artifact_bytes a) + r = 36 + (4 + (length ?cs + r))" by (simp add: artifact_bytes_def)
  have ids: "foldl (\<lambda>out i. out[length p + i := id_byte (ba_id a) i]) (p @ replicate (length (artifact_bytes a) + r) 0) [0..<36]
      = (p @ ?ids) @ replicate (4 + (length ?cs + r)) 0"
    unfolding len by (rule set_bytes_loop)
  have count: "array_set ((p @ ?ids) @ replicate (4 + (length ?cs + r)) 0) (length p + 36) ?count
      = (p @ ?ids @ ?count) @ replicate (length ?cs + r) 0"
    using array_set_seq [of ?count 4 "p @ ?ids" "length ?cs + r"] by simp
  have "foldl frame_chunk ((p @ ?ids @ ?count) @ replicate (length ?cs + r) 0, length p + 36 + 4) (enumerate 0 (ba_chunks a))
      = ((p @ artifact_bytes a) @ replicate r 0, length (p @ artifact_bytes a))"
    using frame_chunks_bytes [of "p @ ?ids @ ?count" "enumerate 0 (ba_chunks a)" r]
    by (simp add: artifact_bytes_def add.assoc)
  then show ?thesis unfolding frame_artifact_def Let_def fst_conv snd_conv ids count .
qed

lemma frameBundle_bytes: "frameBundle as = concat (map artifact_bytes as)"
proof -
  have total: "foldl (\<lambda>n a. n + 40 + foldl (\<lambda>m c. m + 8 + length c) 0 (ba_chunks a)) k as
      = k + length (concat (map artifact_bytes as))" for k
    by (induction as arbitrary: k) (simp_all add: length_artifact_bytes)
  have "foldl frame_artifact (p @ replicate (length (concat (map artifact_bytes as)) + r) 0, length p) as
      = ((p @ concat (map artifact_bytes as)) @ replicate r 0, length (p @ concat (map artifact_bytes as)))" for p r
  proof (induction as arbitrary: p)
    case (Cons a as)
    from frame_artifact_bytes [of p a "length (concat (map artifact_bytes as)) + r"] Cons.IH [of "p @ artifact_bytes a"]
    show ?case by (simp add: add.assoc)
  qed simp
  from this [of "[]" 0] total [of 0] show ?thesis by (simp add: frameBundle_def)
qed

section \<open>Reading a frame back\<close>

lemma get_le32_at: "off = length p \<Longrightarrow> get_le32 (p @ le32_bytes v @ s) off = v"
proof -
  assume off: "off = length p"
  have byte: "ucast (ucast (drop_bit k v) :: byte) = take_bit 8 (drop_bit k v)" for k
    by (rule bit_word_eqI) (auto simp: bit_simps)
  have "take_bit 8 v OR push_bit 8 (take_bit 8 (drop_bit 8 v)) OR push_bit 16 (take_bit 8 (drop_bit 16 v))
      OR push_bit 24 (take_bit 8 (drop_bit 24 v)) = v"
  proof (rule bit_word_eqI)
    fix n assume "n < LENGTH(32)"
    then show "bit (take_bit 8 v OR push_bit 8 (take_bit 8 (drop_bit 8 v)) OR push_bit 16 (take_bit 8 (drop_bit 16 v))
      OR push_bit 24 (take_bit 8 (drop_bit 24 v))) n = bit v n"
      by (cases "24 \<le> n"; cases "16 \<le> n"; cases "8 \<le> n") (auto simp: bit_simps)
  qed
  then show ?thesis
    using byte [of 0] byte [of 8] byte [of 16] byte [of 24]
    by (simp add: off get_le32_def le32_bytes_def nth_append or.assoc)
qed

lemma get_le32_at_nat:
  "off = length p \<Longrightarrow> n < 2 ^ 32 \<Longrightarrow> unat (get_le32 (p @ le32_bytes (word_of_nat n) @ s) off) = n"
  by (simp add: get_le32_at unsigned_of_nat take_bit_nat_eq_self)

definition entry :: "bundled_artifact \<Rightarrow> string \<times> byte list option list" where
  "entry a = (ba_id a, map Some (ba_chunks a))"

definition framable :: "bundled_artifact \<Rightarrow> bool" where
  "framable a \<longleftrightarrow> length (ba_id a) = 36 \<and> length (ba_chunks a) < 2 ^ 32 \<and> (\<forall>c \<in> set (ba_chunks a). length c < 2 ^ 32)"

lemma need_ok: "off + n \<le> length bytes \<Longrightarrow> need bytes off n = Inr ()"
  by (simp add: need_def)

lemma parse_chunks_frame:
  assumes "length done + length cs < 2 ^ 32" "\<forall>c \<in> set cs. length c < 2 ^ 32"
  shows "parse_chunks (p @ concat (map chunk_bytes (enumerate (length done) cs)) @ s) (length cs) (length p) (map Some done)
     = Inr (map Some (done @ cs), length (p @ concat (map chunk_bytes (enumerate (length done) cs))))"
  using assms
proof (induction cs arbitrary: p "done")
  case (Cons c cs)
  define rest where "rest = concat (map chunk_bytes (enumerate (Suc (length done)) cs)) @ s"
  define h where "h = le32_bytes (word_of_nat (length done)) @ le32_bytes (word_of_nat (length c))"
  let ?bytes = "p @ h @ c @ rest"
  have h: "length h = 8" by (simp add: h_def)
  have no: "unat (get_le32 ?bytes (length p)) = length done"
    using get_le32_at_nat [of "length p" p "length done" "le32_bytes (word_of_nat (length c)) @ c @ rest"] Cons.prems
    by (simp add: h_def)
  have len: "unat (get_le32 ?bytes (length p + 4)) = length c"
    using get_le32_at_nat [of "length p + 4" "p @ le32_bytes (word_of_nat (length done))" "length c" "c @ rest"] Cons.prems
    by (simp add: h_def)
  have put: "array_put (map Some done) (length done) c = map Some (done @ [c])"
    using Cons.prems by (simp add: array_put_def)
  have c: "take (length c) (drop (length p + 8) ?bytes) = c"
    using h by simp
  have "parse_chunks ?bytes (Suc (length cs)) (length p) (map Some done)
      = parse_chunks ?bytes (length cs) (length p + 8 + length c) (map Some (done @ [c]))"
    using h need_ok [of "length p" 8 ?bytes] need_ok [of "length p + 8" "length c" ?bytes]
    by (simp add: no len c put Let_def del: drop_append)
  also have "\<dots> = Inr (map Some ((done @ [c]) @ cs), length (p @ h @ c @ concat (map chunk_bytes (enumerate (Suc (length done)) cs))))"
    using Cons.IH [of "done @ [c]" "p @ h @ c"] Cons.prems h by (simp add: rest_def add.assoc)
  finally have parsed: "parse_chunks ?bytes (length (c # cs)) (length p) (map Some done)
      = Inr (map Some (done @ c # cs), length (p @ h @ c @ concat (map chunk_bytes (enumerate (Suc (length done)) cs))))"
    by simp
  have frame: "concat (map chunk_bytes (enumerate (length done) (c # cs)))
      = h @ c @ concat (map chunk_bytes (enumerate (Suc (length done)) cs))"
    by (simp add: h_def chunk_bytes_def)
  show ?case using parsed unfolding frame append.assoc rest_def .
qed simp

lemma char_byte: "char_of (unat (of_char c :: byte)) = c"
proof -
  have "(of_char c :: nat) < 2 ^ 8" by simp
  then have "unat (word_of_nat (of_char c) :: byte) = of_char c"
    by (simp add: unsigned_of_nat take_bit_nat_eq_self del: of_nat_of_char)
  then show ?thesis by (simp only: of_nat_of_char char_of_char)
qed

lemma parse_artifact_frame:
  assumes "framable a"
  shows "parse_artifact (p @ artifact_bytes a @ s) (length p)
     = Inr (ba_id a, map Some (ba_chunks a), length (p @ artifact_bytes a))"
proof -
  let ?ids = "map (id_byte (ba_id a)) [0..<36]" and ?cs = "concat (map chunk_bytes (enumerate 0 (ba_chunks a)))"
  let ?count = "le32_bytes (word_of_nat (length (ba_chunks a)))" and ?bytes = "p @ artifact_bytes a @ s"
  have need: "need ?bytes (length p) 40 = Inr ()" by (rule need_ok) (simp add: length_artifact_bytes)
  have "map (\<lambda>i. char_of (unat (?bytes ! (length p + i)))) [0..<36] = map (\<lambda>i. ba_id a ! i) [0..<36]"
  proof (rule map_cong [OF refl])
    fix i assume "i \<in> set [0..<36 :: nat]"
    then have i: "i < 36" by simp
    then have "?bytes ! (length p + i) = id_byte (ba_id a) i" by (simp add: artifact_bytes_def nth_append)
    then show "char_of (unat (?bytes ! (length p + i))) = ba_id a ! i"
      using i assms by (simp add: id_byte_def framable_def char_byte)
  qed
  also have "\<dots> = ba_id a"
    using map_nth [of "ba_id a", unfolded assms [unfolded framable_def, THEN conjunct1]] .
  finally have ids: "map (\<lambda>i. char_of (unat (?bytes ! (length p + i)))) [0..<36] = ba_id a" .
  have count: "unat (get_le32 ?bytes (length p + 36)) = length (ba_chunks a)"
    using get_le32_at_nat [of "length p + 36" "p @ ?ids" "length (ba_chunks a)" "?cs @ s"] assms
    by (simp add: artifact_bytes_def framable_def)
  have "parse_chunks ?bytes (length (ba_chunks a)) (length p + 40) []
      = Inr (map Some (ba_chunks a), length (p @ artifact_bytes a))"
    using parse_chunks_frame [of "[]" "ba_chunks a" "p @ ?ids @ ?count" s] assms
    by (simp add: artifact_bytes_def framable_def add.assoc)
  then show ?thesis unfolding parse_artifact_def need Let_def ids count by simp
qed

section \<open>A frame that ends early\<close>

definition truncated :: "codec_error + 'a \<Rightarrow> bool" where
  "truncated r \<longleftrightarrow> (\<exists>off. r = Inl (BUNDLE_TRUNCATED off))"

lemma need_short: "length bytes < off + n \<Longrightarrow> need bytes off n = Inl (BUNDLE_TRUNCATED off)"
  by (simp add: need_def)

lemma get_le32_take: "off + 4 \<le> k \<Longrightarrow> get_le32 (take k bytes) off = get_le32 bytes off"
  by (simp add: get_le32_def)

lemma parse_chunks_cut:
  "parse_chunks bytes n off cs = Inr (cs', off') \<Longrightarrow> off \<le> k \<Longrightarrow> k \<le> length bytes \<Longrightarrow>
     (if off' \<le> k then parse_chunks (take k bytes) n off cs = Inr (cs', off')
      else truncated (parse_chunks (take k bytes) n off cs))"
proof (induction n arbitrary: off cs)
  case (Suc n)
  define no where "no = unat (get_le32 bytes off)"
  define len where "len = unat (get_le32 bytes (off + 4))"
  have fits: "off + 8 + len \<le> length bytes" and next_chunk:
    "parse_chunks bytes n (off + 8 + len) (array_put cs no (take len (drop (off + 8) bytes))) = Inr (cs', off')"
    using Suc.prems(1) by (auto simp: need_def Let_def no_def len_def split: if_splits)
  have "off + 8 + len \<le> off'" by (rule parse_chunks_advances [OF next_chunk])
  show ?case
  proof (cases "off + 8 + len \<le> k")
    case True
    have bytes: "take len (drop (off + 8) (take k bytes)) = take len (drop (off + 8) bytes)"
      using True by (simp add: drop_take min_def)
    have "parse_chunks (take k bytes) (Suc n) off cs
        = parse_chunks (take k bytes) n (off + 8 + len) (array_put cs no (take len (drop (off + 8) bytes)))"
      using True Suc.prems(3) need_ok [of off 8 "take k bytes"] need_ok [of "off + 8" len "take k bytes"]
      by (simp add: get_le32_take Let_def no_def [symmetric] len_def [symmetric] bytes)
    with Suc.IH [OF next_chunk True Suc.prems(3)] show ?thesis by simp
  next
    case False
    then have "truncated (parse_chunks (take k bytes) (Suc n) off cs)"
    proof (cases "off + 8 \<le> k")
      case True
      with False Suc.prems(3) show ?thesis
        using need_ok [of off 8 "take k bytes"] need_short [of "take k bytes" "off + 8" len]
        by (simp add: get_le32_take Let_def len_def [symmetric] truncated_def)
    next
      case False
      with Suc.prems(3) show ?thesis using need_short [of "take k bytes" off 8] by (simp add: truncated_def)
    qed
    with False \<open>off + 8 + len \<le> off'\<close> show ?thesis by simp
  qed
qed (simp add: truncated_def)

lemma parse_artifact_cut:
  assumes parsed: "parse_artifact bytes off = Inr (aid, cs, off')" and k: "off \<le> k" "k \<le> length bytes"
  shows "if off' \<le> k then parse_artifact (take k bytes) off = Inr (aid, cs, off')
         else truncated (parse_artifact (take k bytes) off)"
proof (cases "off + 40 \<le> k")
  case True
  have chunks: "parse_chunks bytes (unat (get_le32 bytes (off + 36))) (off + 40) [] = Inr (cs, off')"
    and aid: "aid = map (\<lambda>i. char_of (unat (bytes ! (off + i)))) [0..<36]"
    using parsed by (auto simp: parse_artifact_def Let_def split: sum.splits)
  have count: "get_le32 (take k bytes) (off + 36) = get_le32 bytes (off + 36)" using True by (simp add: get_le32_take)
  have aid': "map (\<lambda>i. char_of (unat (take k bytes ! (off + i)))) [0..<36] = aid"
    unfolding aid using True by (intro map_cong) auto
  have need: "need (take k bytes) off 40 = Inr ()" using True k by (intro need_ok) simp
  show ?thesis
    using parse_chunks_cut [OF chunks True k(2)]
    unfolding parse_artifact_def need Let_def count aid' by (auto simp: truncated_def split: sum.splits if_splits)
next
  case False
  then have "truncated (parse_artifact (take k bytes) off)"
    using k need_short [of "take k bytes" off 40] by (simp add: parse_artifact_def truncated_def)
  with False parse_artifact_advances [OF parsed] show ?thesis by simp
qed

section \<open>The whole bundle\<close>

lemma update_fresh: "k \<notin> set (keys m) \<Longrightarrow> AList.update k v m = m @ [(k, v)]"
  by (induction m) (auto simp: keys_def)

lemma keys_entries: "keys (map entry as) = map ba_id as"
  by (simp add: keys_def entry_def)

lemma parse_loop_frame:
  assumes "\<forall>a \<in> set as. framable a" "distinct (map ba_id as)" "set (map ba_id as) \<inter> set (keys out) = {}"
  shows "parse_loop (p @ concat (map artifact_bytes as)) (length p) out = Inr (out @ map entry as)"
  using assms
proof (induction as arbitrary: p out)
  case (Cons a as)
  have out: "AList.update (ba_id a) (map Some (ba_chunks a)) out = out @ [entry a]"
    using Cons.prems(3) by (simp add: update_fresh entry_def)
  have more: "length p < length (p @ artifact_bytes a @ concat (map artifact_bytes as))"
    by (simp add: length_artifact_bytes)
  have "parse_artifact (p @ artifact_bytes a @ concat (map artifact_bytes as)) (length p)
      = Inr (ba_id a, map Some (ba_chunks a), length (p @ artifact_bytes a))"
    using Cons.prems(1) by (intro parse_artifact_frame) simp
  with more have "parse_loop (p @ artifact_bytes a @ concat (map artifact_bytes as)) (length p) out
      = parse_loop ((p @ artifact_bytes a) @ concat (map artifact_bytes as)) (length (p @ artifact_bytes a)) (out @ [entry a])"
    by (subst parse_loop.simps) (simp add: out)
  also have "\<dots> = Inr ((out @ [entry a]) @ map entry as)"
    using Cons.prems by (intro Cons.IH) (auto simp: keys_def entry_def)
  finally show ?case by simp
qed (simp add: parse_loop.simps)

lemma parse_loop_cut:
  assumes "\<forall>a \<in> set as. framable a" "distinct (map ba_id as)" "set (map ba_id as) \<inter> set (keys out) = {}"
    and "length p \<le> k" "k < length (p @ concat (map artifact_bytes as))"
  shows "truncated (parse_loop (take k (p @ concat (map artifact_bytes as))) (length p) out)
    \<or> (\<exists>j < length as. k = length (p @ concat (map artifact_bytes (take j as)))
          \<and> parse_loop (take k (p @ concat (map artifact_bytes as))) (length p) out = Inr (out @ map entry (take j as)))"
  using assms
proof (induction as arbitrary: p out)
  case (Cons a as)
  let ?bytes = "p @ artifact_bytes a @ concat (map artifact_bytes as)"
  have k: "length p \<le> k" "k \<le> length ?bytes" using Cons.prems(4,5) by simp_all
  have out: "AList.update (ba_id a) (map Some (ba_chunks a)) out = out @ [entry a]"
    using Cons.prems(3) by (simp add: update_fresh entry_def)
  have parsed: "parse_artifact ?bytes (length p) = Inr (ba_id a, map Some (ba_chunks a), length (p @ artifact_bytes a))"
    using Cons.prems(1) by (intro parse_artifact_frame) simp
  note cut = parse_artifact_cut [OF parsed k]
  consider "k = length p" | "length p < k" "k < length (p @ artifact_bytes a)" | "length (p @ artifact_bytes a) \<le> k"
    using k(1) by linarith
  then show ?case
  proof cases
    case 1
    then have "parse_loop (take k ?bytes) (length p) out = Inr out" by (simp add: parse_loop.simps)
    with 1 show ?thesis by (intro disjI2 exI [of _ 0]) simp
  next
    case 2
    then have "truncated (parse_artifact (take k ?bytes) (length p))" using cut by simp
    with 2 k(2) have "truncated (parse_loop (take k ?bytes) (length p) out)"
      by (subst parse_loop.simps) (auto simp: truncated_def)
    then show ?thesis by simp
  next
    case 3
    then have "length p < k" by (simp add: length_artifact_bytes)
    with 3 k(2) cut have step: "parse_loop (take k ?bytes) (length p) out
        = parse_loop (take k ((p @ artifact_bytes a) @ concat (map artifact_bytes as))) (length (p @ artifact_bytes a)) (out @ [entry a])"
      by (subst parse_loop.simps) (simp add: out)
    have "truncated (parse_loop (take k ((p @ artifact_bytes a) @ concat (map artifact_bytes as))) (length (p @ artifact_bytes a)) (out @ [entry a]))
      \<or> (\<exists>j < length as. k = length ((p @ artifact_bytes a) @ concat (map artifact_bytes (take j as)))
          \<and> parse_loop (take k ((p @ artifact_bytes a) @ concat (map artifact_bytes as))) (length (p @ artifact_bytes a)) (out @ [entry a])
              = Inr ((out @ [entry a]) @ map entry (take j as)))"
      using Cons.prems 3 by (intro Cons.IH) (auto simp: keys_def entry_def)
    then show ?thesis
    proof (elim disjE exE conjE)
      fix j assume "j < length as" "k = length ((p @ artifact_bytes a) @ concat (map artifact_bytes (take j as)))"
        and "parse_loop (take k ((p @ artifact_bytes a) @ concat (map artifact_bytes as))) (length (p @ artifact_bytes a)) (out @ [entry a])
              = Inr ((out @ [entry a]) @ map entry (take j as))"
      with step show ?thesis by (intro disjI2 exI [of _ "Suc j"]) simp
    qed (use step in simp)
  qed
qed simp

end
