(* ===== verification/Artifact_Props.thy ===== *)
theory Artifact_Props
  imports Artifact_Laws
begin

text \<open>
  What the evidence transport promises: frames and chunks come back as they were written, a frame that ends
  early is refused, and nothing is decoded whose checksums do not match.
\<close>

section \<open>Float64 columns\<close>

definition le64_bytes :: "f64 \<Rightarrow> byte list" where
  "le64_bytes w = map (\<lambda>i. ucast (drop_bit (8 * i) w)) [0, 1, 2, 3, 4, 5, 6, 7]"

definition raw_of :: "f64 list list \<Rightarrow> byte list" where
  "raw_of data = concat (map le64_bytes (concat data))"

lemma length_le64 [simp]: "length (le64_bytes w) = 8"
  by (simp add: le64_bytes_def)

lemma le64_read: "foldr (\<lambda>b w. push_bit 8 w OR ucast b) (le64_bytes w) 0 = (w :: f64)"
proof -
  have step: "push_bit 8 (drop_bit (8 * i + 8) w) OR ucast (ucast (drop_bit (8 * i) w) :: byte) = drop_bit (8 * i) w" for i
  proof (rule bit_word_eqI)
    fix n assume "n < LENGTH(64)"
    show "bit (push_bit 8 (drop_bit (8 * i + 8) w) OR ucast (ucast (drop_bit (8 * i) w) :: byte)) n = bit (drop_bit (8 * i) w) n"
      using \<open>n < LENGTH(64)\<close> by (cases "8 \<le> n") (auto simp: bit_simps add.assoc)
  qed
  have last: "ucast (ucast (drop_bit 56 w) :: byte) = drop_bit 56 w"
  proof (rule bit_word_eqI)
    fix n assume "n < LENGTH(64)"
    then show "bit (ucast (ucast (drop_bit 56 w) :: byte) :: f64) n = bit (drop_bit 56 w) n"
      using bit_imp_le_length [of w "56 + n"] by (auto simp: bit_simps)
  qed
  show ?thesis
    using step [of 0] step [of 1] step [of 2] step [of 3] step [of 4] step [of 5] step [of 6] last
    by (simp add: le64_bytes_def)
qed

lemma length_le64s [simp]: "length (concat (map le64_bytes ws)) = 8 * length ws"
  by (induction ws) simp_all

lemma get_f64le_nth: "k < length ws \<Longrightarrow> get_f64le (concat (map le64_bytes ws)) (k * 8) = ws ! k"
proof -
  assume k: "k < length ws"
  have "take 8 (drop (k * 8) (concat (map le64_bytes ws))) = le64_bytes (ws ! k)"
    using k
  proof (induction ws arbitrary: k)
    case (Cons w ws)
    then show ?case by (cases k) simp_all
  qed simp
  then show ?thesis by (simp add: get_f64le_def le64_read)
qed

lemma concat_nth_const:
  "\<forall>col \<in> set data. length col = n \<Longrightarrow> c < length data \<Longrightarrow> i < n \<Longrightarrow> concat data ! (c * n + i) = data ! c ! i"
proof (induction data arbitrary: c)
  case (Cons col data)
  then show ?case by (cases c) (simp_all add: nth_append)
qed simp

lemma length_concat_const: "\<forall>col \<in> set data. length col = n \<Longrightarrow> length (concat data) = n * length data"
  by (induction data) simp_all

lemma column_of_raw:
  assumes n: "\<forall>col \<in> set data. length col = n" and c: "c < length data"
  shows "column_of (raw_of data) n c = data ! c"
proof (rule nth_equalityI)
  show "length (column_of (raw_of data) n c) = length (data ! c)" using assms by (simp add: column_of_def)
  fix i assume "i < length (column_of (raw_of data) n c)"
  then have i: "i < n" by (simp add: column_of_def)
  have "c * n + n \<le> length data * n" using c by (metis Suc_leI add.commute mult_Suc mult_le_mono1)
  then have "c * n + i < length (concat data)" using i length_concat_const [OF n] by (simp add: mult.commute)
  then have "get_f64le (raw_of data) ((c * n + i) * 8) = data ! c ! i"
    unfolding raw_of_def concat_nth_const [OF n c i, symmetric] by (rule get_f64le_nth)
  then show "column_of (raw_of data) n c ! i = data ! c ! i" using i by (simp add: column_of_def)
qed

lemma columns_loop:
  "distinct names \<Longrightarrow> set names \<inter> set (keys m) = {} \<Longrightarrow>
     foldl (\<lambda>m (c, name). AList.update name (g c) m) m (enumerate k names) = m @ zip names (map g [k..<k + length names])"
proof (induction names arbitrary: m k)
  case (Cons name names)
  then have "foldl (\<lambda>m (c, name). AList.update name (g c) m) (m @ [(name, g k)]) (enumerate (Suc k) names)
      = (m @ [(name, g k)]) @ zip names (map g [Suc k..<Suc k + length names])"
    by (intro Cons.IH) (auto simp: keys_def)
  moreover have "[k..<k + length (name # names)] = k # [Suc k..<Suc k + length names]" by (simp add: upt_conv_Cons del: upt_Suc)
  ultimately show ?case using Cons.prems by (simp add: update_fresh del: upt_Suc)
qed simp

section \<open>Checks\<close>

lemma check_chunks_ok:
  "check_chunks ports expected i cs = Inr () \<longleftrightarrow>
     (\<forall>j < length cs. i + j < length expected \<longrightarrow> expected ! (i + j) \<noteq> [] \<longrightarrow> digest_hex ports (cs ! j) = Some (expected ! (i + j)))"
proof (induction cs arbitrary: i)
  case (Cons c cs)
  have "check_chunks ports expected i (c # cs) = Inr () \<longleftrightarrow>
      (i < length expected \<longrightarrow> expected ! i \<noteq> [] \<longrightarrow> digest_hex ports c = Some (expected ! i))
      \<and> check_chunks ports expected (Suc i) cs = Inr ()"
    by (auto split: option.splits)
  then show ?case by (simp add: Cons.IH All_less_Suc2 del: check_chunks.simps)
qed simp

text \<open>A decoded artifact, with everything that was checked on the way.\<close>

lemma decodeArtifact_ok:
  assumes "decodeArtifact meta chunks ports = Inr d"
  obtains raw where
    "length chunks = chunkCount meta" "check_chunks ports (chunkChecksums meta) 0 chunks = Inr ()"
    "digest_hex ports (concat chunks) = Some (am_checksum meta)" "inflate ports (concat chunks) = Some raw"
    "length raw = nul_or (calculationSamples meta) 0 * length (am_columns meta) * 8"
    "da_meta d = meta" "da_n d = nul_or (calculationSamples meta) 0"
    "columns d = foldl (\<lambda>m (c, name). AList.update name (column_of raw (da_n d) c) m) [] (enumerate 0 (am_columns meta))"
  using assms by (auto simp: decodeArtifact_def joinChunks_concat Let_def split: if_splits sum.splits option.splits)

lemma decodeArtifact_same_bytes:
  "decodeArtifact meta cs ports = Inr d \<Longrightarrow> decodeArtifact meta cs' ports = Inr d' \<Longrightarrow> concat cs = concat cs' \<Longrightarrow> d = d'"
  by (auto simp: decodeArtifact_def joinChunks_concat Let_def split: if_splits sum.splits option.splits)

section \<open>Properties\<close>

text \<open>
  A frame round-trips: the parser reads from \<open>frameBundle\<close> the same artifacts in the same order, every
  chunk at its number and byte for byte, when the ids are 36 characters and distinct and the counts and
  lengths fit their 32-bit fields.
\<close>

theorem bundle_roundtrip:
  assumes "\<forall>a \<in> set as. length (ba_id a) = 36 \<and> length (ba_chunks a) < 2 ^ 32 \<and> (\<forall>c \<in> set (ba_chunks a). length c < 2 ^ 32)"
    and "distinct (map ba_id as)"
  shows "parseBundle (frameBundle as) = Inr (map (\<lambda>a. (ba_id a, map Some (ba_chunks a))) as)"
  using parse_loop_frame [of as "[]" "[]"] assms
  by (simp add: parseBundle_def frameBundle_bytes framable_def keys_def entry_def [abs_def])

definition demo_bundle :: "bundled_artifact list" where
  "demo_bundle =
     [\<lparr>ba_id = ''11111111-1111-1111-1111-111111111111'', ba_chunks = [[1, 2], []]\<rparr>,
      \<lparr>ba_id = ''22222222-2222-2222-2222-222222222222'', ba_chunks = [[3]]\<rparr>]"

theorem bundle_roundtrip_witness:
  "parseBundle (frameBundle demo_bundle) = Inr (map (\<lambda>a. (ba_id a, map Some (ba_chunks a))) demo_bundle)"
  by (rule bundle_roundtrip) (simp_all add: demo_bundle_def)

text \<open>
  A bundle that was cut short is refused: the parser stops on every input, and on a proper prefix of a
  frame it answers \<open>BUNDLE_TRUNCATED\<close>, unless the cut falls exactly between two artifacts; then it
  returns the artifacts before the cut, each of them whole.
\<close>

theorem bundle_cut_refused:
  assumes "\<forall>a \<in> set as. length (ba_id a) = 36 \<and> length (ba_chunks a) < 2 ^ 32 \<and> (\<forall>c \<in> set (ba_chunks a). length c < 2 ^ 32)"
    and "distinct (map ba_id as)" and "k < length (frameBundle as)"
  shows "(\<exists>off. parseBundle (take k (frameBundle as)) = Inl (BUNDLE_TRUNCATED off))
    \<or> (\<exists>j < length as. k = length (frameBundle (take j as))
          \<and> parseBundle (take k (frameBundle as)) = Inr (map (\<lambda>a. (ba_id a, map Some (ba_chunks a))) (take j as)))"
  using parse_loop_cut [of as "[]" "[]" k] assms
  by (simp add: parseBundle_def frameBundle_bytes framable_def keys_def entry_def [abs_def] truncated_def)

theorem bundle_cut_refused_witness:
  "(\<exists>off. parseBundle (take 50 (frameBundle demo_bundle)) = Inl (BUNDLE_TRUNCATED off))
    \<or> (\<exists>j < length demo_bundle. 50 = length (frameBundle (take j demo_bundle))
          \<and> parseBundle (take 50 (frameBundle demo_bundle)) = Inr (map (\<lambda>a. (ba_id a, map Some (ba_chunks a))) (take j demo_bundle)))"
  by (rule bundle_cut_refused) (simp_all add: demo_bundle_def frameBundle_bytes length_artifact_bytes)

text \<open>
  Splitting and joining: with a positive chunk size \<open>splitChunks\<close> returns, every piece but the last has
  exactly that size, the last is not longer, and \<open>joinChunks\<close> gives the stream back; with size 0 the loop
  never ends on a stream that is not empty.
\<close>

theorem split_join:
  "(0 < cb \<longrightarrow> (\<exists>cs. splitChunks encoded cb = Some cs \<and> cs \<noteq> [] \<and> joinChunks cs = encoded
        \<and> (\<forall>c \<in> set (butlast cs). length c = cb) \<and> length (last cs) \<le> cb))
   \<and> (encoded \<noteq> [] \<longrightarrow> splitChunks encoded 0 = None)"
proof (intro conjI impI)
  assume cb: "0 < cb"
  show "\<exists>cs. splitChunks encoded cb = Some cs \<and> cs \<noteq> [] \<and> joinChunks cs = encoded
        \<and> (\<forall>c \<in> set (butlast cs). length c = cb) \<and> length (last cs) \<le> cb"
  proof (cases "encoded = []")
    case True
    then show ?thesis by (simp add: splitChunks_def joinChunks_concat)
  next
    case False
    then show ?thesis
      using cb pieces_lengths [OF cb False] pieces_not_Nil [OF cb False] concat_pieces [OF cb, of encoded]
      by (intro exI [of _ "pieces cb encoded"]) (simp add: splitChunks_def split_loop_pieces [OF cb] joinChunks_concat)
  qed
next
  assume "encoded \<noteq> []"
  then show "splitChunks encoded 0 = None"
    using split_loop_0 [of encoded 0 "[]"] by (cases "split_loop encoded 0 0 []") (auto simp: splitChunks_def)
qed

theorem split_join_witness:
  "(0 < (2 :: nat) \<longrightarrow> (\<exists>cs. splitChunks [1, 2, 3] 2 = Some cs \<and> cs \<noteq> [] \<and> joinChunks cs = [1, 2, 3]
        \<and> (\<forall>c \<in> set (butlast cs). length c = 2) \<and> length (last cs) \<le> 2))
   \<and> ([1, 2, 3 :: byte] \<noteq> [] \<longrightarrow> splitChunks [1, 2, 3] 0 = None)"
  by (rule split_join)


definition demo_ports :: codec_ports where
  "demo_ports =
     \<lparr>inflate = Some, digest_hex = (\<lambda>bs. Some (map (\<lambda>b. char_of (unat b)) bs)), json_record = (\<lambda>_. None)\<rparr>"

definition demo_meta :: artifact_meta where
  "demo_meta =
     \<lparr>artifactId = ''e1'', am_columns = [''x''], calculationSamples = Val 1, chunkCount = 2,
      am_checksum = map (\<lambda>b. char_of (unat b)) (le64_bytes 5),
      chunkChecksums = [map (\<lambda>b. char_of (unat b)) (take 6 (le64_bytes 5))],
      x_unit = Null, y_unit = Null, provenance = Undef\<rparr>"

definition demo_decoded :: decoded_artifact where
  "demo_decoded =
     \<lparr>da_meta = demo_meta, da_n = 1, columns = [(''x'', [5])], mask = None, units = [], legends = []\<rparr>"

lemma demo_decodes: "decodeArtifact demo_meta [take 6 (le64_bytes 5), drop 6 (le64_bytes 5)] demo_ports = Inr demo_decoded"
proof -
  have "column_of (le64_bytes 5) 1 0 = [5]"
    using column_of_raw [of "[[5]]" 1 0] by (simp add: raw_of_def)
  moreover have "length (le64_bytes 5) = 8" "le64_bytes 5 \<noteq> []" by (simp_all add: le64_bytes_def)
  ultimately show ?thesis
    by (simp add: decodeArtifact_def joinChunks_concat demo_ports_def demo_meta_def demo_decoded_def jsonField_def
        default_unit_def Let_def)
qed


text \<open>
  No wrong curve: when two lists of chunks are both accepted under one manifest, they decode to the same
  artifact, or the two streams are different messages with the same digest.
\<close>

theorem decodeArtifact_no_wrong_curve:
  assumes "decodeArtifact meta cs ports = Inr d" and "decodeArtifact meta cs' ports = Inr d'"
  shows "d = d' \<or> (concat cs \<noteq> concat cs' \<and> digest_hex ports (concat cs) = digest_hex ports (concat cs')
                   \<and> digest_hex ports (concat cs) \<noteq> None)"
proof (cases "concat cs = concat cs'")
  case True
  with assms decodeArtifact_same_bytes show ?thesis by blast
next
  case False
  from assms(1) obtain "digest_hex ports (concat cs) = Some (am_checksum meta)" by (rule decodeArtifact_ok)
  moreover from assms(2) obtain "digest_hex ports (concat cs') = Some (am_checksum meta)" by (rule decodeArtifact_ok)
  ultimately show ?thesis using False by simp
qed

theorem decodeArtifact_no_wrong_curve_witness:
  "demo_decoded = demo_decoded \<or>
     (concat [take 6 (le64_bytes 5), drop 6 (le64_bytes 5)] \<noteq> concat [take 6 (le64_bytes 5), drop 6 (le64_bytes 5)]
      \<and> digest_hex demo_ports (concat [take 6 (le64_bytes 5), drop 6 (le64_bytes 5)])
          = digest_hex demo_ports (concat [take 6 (le64_bytes 5), drop 6 (le64_bytes 5)])
      \<and> digest_hex demo_ports (concat [take 6 (le64_bytes 5), drop 6 (le64_bytes 5)]) \<noteq> None)"
  using decodeArtifact_no_wrong_curve [OF demo_decodes demo_decodes] .

text \<open>
  C9. The transport round-trips: data of equal columns, written as little endian float64, compressed, cut
  with any positive chunk size and described by a manifest with its checksums, is accepted and decodes to the same
  columns under their names, for every digest and every compression that inflates to its input.
\<close>

theorem evidence_roundtrip:
  assumes data: "length data = length (am_columns meta)" "\<forall>col \<in> set data. length col = n" "distinct (am_columns meta)"
    and cut: "0 < cb" "splitChunks encoded cb = Some chunks"
    and ports: "inflate ports encoded = Some (raw_of data)" "\<And>bs. digest_hex ports bs = Some (sha bs)"
    and meta: "calculationSamples meta = Val n" "chunkCount meta = length chunks"
      "chunkChecksums meta = map sha chunks" "am_checksum meta = sha encoded"
  shows "\<exists>d. decodeArtifact meta chunks ports = Inr d \<and> da_n d = n \<and> columns d = zip (am_columns meta) data"
proof -
  have join: "concat chunks = encoded"
  proof (cases "encoded = []")
    case True
    with cut(2) show ?thesis by (auto simp: splitChunks_def)
  next
    case False
    with cut(2) have "chunks = pieces cb encoded" by (simp add: splitChunks_def split_loop_pieces [OF cut(1)])
    then show ?thesis by (simp add: concat_pieces [OF cut(1)])
  qed
  have check: "check_chunks ports (map sha chunks) 0 chunks = Inr ()"
    by (simp add: check_chunks_ok ports(2))
  have len: "length (raw_of data) = n * length (am_columns meta) * 8"
    by (simp add: raw_of_def length_concat_const [OF data(2)] data(1))
  have "map (column_of (raw_of data) n) [0..<length (am_columns meta)] = data"
    using column_of_raw [OF data(2)] data(1) by (intro nth_equalityI) simp_all
  then have cols: "foldl (\<lambda>m (c, name). AList.update name (column_of (raw_of data) n c) m) [] (enumerate 0 (am_columns meta))
      = zip (am_columns meta) data"
    using columns_loop [OF data(3), of "[]" "column_of (raw_of data) n" 0] by (simp add: keys_def)
  show ?thesis
    unfolding decodeArtifact_def joinChunks_concat join Let_def meta check
    by (simp add: ports meta len cols)
qed

theorem evidence_roundtrip_witness:
  "\<exists>d. decodeArtifact (demo_meta\<lparr>chunkCount := 3, chunkChecksums := [''a'', ''a'', ''a''], am_checksum := ''a''\<rparr>)
         (pieces 3 (le64_bytes 5)) (demo_ports\<lparr>digest_hex := \<lambda>_. Some ''a''\<rparr>) = Inr d
     \<and> da_n d = 1 \<and> columns d = zip [''x''] [[5]]"
proof -
  have p: "pieces 3 (le64_bytes 5) = [take 3 (le64_bytes 5), take 3 (drop 3 (le64_bytes 5)), drop 6 (le64_bytes 5)]"
    by (simp add: le64_bytes_def pieces_step)
  have "splitChunks (le64_bytes 5) 3 = Some (pieces 3 (le64_bytes 5))"
    using split_loop_pieces [of 3 "le64_bytes 5" 0 "[]"] by (simp add: splitChunks_def) (simp add: le64_bytes_def)
  then have "\<exists>d. decodeArtifact (demo_meta\<lparr>chunkCount := 3, chunkChecksums := [''a'', ''a'', ''a''], am_checksum := ''a''\<rparr>)
         (pieces 3 (le64_bytes 5)) (demo_ports\<lparr>digest_hex := \<lambda>_. Some ''a''\<rparr>) = Inr d
     \<and> da_n d = 1 \<and> columns d
       = zip (am_columns (demo_meta\<lparr>chunkCount := 3, chunkChecksums := [''a'', ''a'', ''a''], am_checksum := ''a''\<rparr>)) [[5]]"
    by (intro evidence_roundtrip [where encoded = "le64_bytes 5" and cb = 3 and sha = "\<lambda>_. ''a''"])
       (simp_all add: demo_meta_def demo_ports_def raw_of_def p)
  then show ?thesis by (simp add: demo_meta_def)
qed

end
