(* ===== verification/Artifact_Legend.thy ===== *)
theory Artifact_Legend
  imports Artifact_Props
begin

text \<open>
  The legends of coded columns, written as the engine writes them and read back, and the page's cache of
  decoded artifacts.
\<close>

section \<open>Legends\<close>

lemma digits_value_snoc: "digits_value (ds @ [c]) = 10 * digits_value ds + (int (code c) - 48)"
  by (simp add: digits_value_def)

lemma digits_value_show_nat: "digits_value (show_nat n) = int n"
proof (induction n rule: show_nat.induct)
  case (1 n)
  then show ?case
    by (subst show_nat.simps) (simp add: digits_value_snoc zdiv_int zmod_int, simp add: digits_value_def)
qed

lemma show_nat_run: "list_all is_digit (show_nat n)"
  by (simp add: list_all_iff show_nat_digits)

lemma js_trim_digits: "list_all is_digit ds \<Longrightarrow> js_trim ds = ds"
proof -
  assume ds: "list_all is_digit ds"
  have "trim_left xs = xs" if "list_all is_digit xs" for xs
    using that by (cases xs) (auto simp: trim_left_def digit_not_space)
  with ds show ?thesis by (simp add: js_trim_def list_all_rev)
qed

lemma js_number_show_nat:
  assumes "n < 2 ^ 64"
  shows "js_number (show_nat n) = Some (of_nat n)"
proof -
  let ?s = "show_nat n"
  have d: "list_all is_digit ?s" "?s \<noteq> []" "digits_value ?s = int n"
    by (simp_all add: show_nat_run digits_value_show_nat)
  then obtain c cs where s: "?s = c # cs" by (cases ?s) auto
  have digit: "is_digit x" if "x \<in> set ?s" for x using d that by (simp add: list_all_iff)
  have sign: "hd ?s \<noteq> CHR ''-''" "hd ?s \<noteq> CHR ''+''"
    using digit [of c] by (auto simp: s is_digit_def code_def)
  have radix: "take 2 ?s \<noteq> [a, b]" if "\<not> is_digit b" for a b
    using that digit [of b] by (metis in_set_takeD list.set_intros(1) list.set_intros(2))
  have no_radix: "take 2 ?s \<noteq> ''0x''" "take 2 ?s \<noteq> ''0X''" "take 2 ?s \<noteq> ''0o''" "take 2 ?s \<noteq> ''0O''"
    "take 2 ?s \<noteq> ''0b''" "take 2 ?s \<noteq> ''0B''"
    by (rule radix, simp add: is_digit_def code_def)+
  have run: "takeWhile is_digit ?s = ?s" "dropWhile is_digit ?s = []"
    using d by (simp_all add: list_all_iff)
  have "(of_nat n :: rat) < of_nat (2 ^ 64)" using assms by (simp only: of_nat_less_iff)
  then have small: "finite_number (of_nat n)" by (simp add: finite_number_def)
  have "unsigned_decimal ?s = Some (of_nat n)"
    using d by (simp add: unsigned_decimal_def run exponent_part_def scale10_def Let_def)
  then show ?thesis
    using d js_trim_digits [of ?s] sign no_radix small by (simp add: js_number_def Let_def)
qed

lemma js_split_at: "d \<notin> set w \<Longrightarrow> js_split d (w @ d # s) = w # js_split d s"
  by (induction w) auto

lemma js_split_entries:
  "\<forall>w \<in> set ws. d \<notin> set w \<Longrightarrow> ws \<noteq> [] \<Longrightarrow> js_split d (js_join [d] ws) = ws"
proof (induction ws)
  case (Cons w ws)
  then show ?case by (cases ws) (simp_all add: js_split_at js_split_none)
qed simp

definition legend_entry :: "nat \<times> string \<Rightarrow> string" where
  "legend_entry il = show_nat (fst il) @ ''='' @ snd il"

lemma digits_no: "list_all is_digit ds \<Longrightarrow> \<not> is_digit c \<Longrightarrow> c \<notin> set ds"
  by (auto simp: list_all_iff)

lemma legend_part_entry:
  assumes "length done < 2 ^ 32 - 1"
  shows "legend_part (map Some done) (legend_entry (length done, l)) = map Some (done @ [l])"
proof -
  let ?k = "show_nat (length done)"
  have "CHR ''='' \<notin> set ?k" using show_nat_run by (intro digits_no) (auto simp: is_digit_def code_def)
  then have key: "takeWhile (\<lambda>c. c \<noteq> CHR ''='') (legend_entry (length done, l)) = ?k"
    by (auto simp: legend_entry_def takeWhile_append)
  have "array_index (js_number ?k) = Some (length done)"
    using assms js_number_show_nat [of "length done"] by (simp add: array_index_def)
  moreover have "array_put (map Some done) (length done) l = map Some (done @ [l])"
    using assms by (simp add: array_put_def)
  ultimately show ?thesis by (simp add: legend_part_def key Let_def) (simp add: legend_entry_def)
qed

lemma legend_loop:
  "length done + length ls < 2 ^ 32 \<Longrightarrow>
     foldl legend_part (map Some done) (map legend_entry (enumerate (length done) ls)) = map Some (done @ ls)"
proof (induction ls arbitrary: "done")
  case (Cons l ls)
  with Cons.IH [of "done @ [l]"] show ?case by (simp add: legend_part_entry del: map_append)
qed simp

text \<open>
  Legends round-trip: the text \<open>0=GOOD;1=BAD\<close> of a dense coding is read back to its labels in
  order; a label may hold an equals sign but no semicolon.
\<close>

theorem parseLegend_roundtrip:
  assumes "labels \<noteq> []" and "\<forall>l \<in> set labels. CHR '';'' \<notin> set l" and "length labels < 2 ^ 32"
  shows "parseLegend (js_join '';'' (map (\<lambda>(i, l). show_nat i @ ''='' @ l) (enumerate 0 labels))) = map Some labels"
proof -
  have entries: "map (\<lambda>(i, l). show_nat i @ ''='' @ l) (enumerate 0 labels) = map legend_entry (enumerate 0 labels)"
    by (simp add: legend_entry_def split_beta)
  have "CHR '';'' \<notin> set (show_nat i)" for i
    using show_nat_run by (intro digits_no) (auto simp: is_digit_def code_def)
  then have "\<forall>w \<in> set (map legend_entry (enumerate 0 labels)). CHR '';'' \<notin> set w"
    using assms(2) by (auto simp: legend_entry_def in_set_enumerate_eq)
  then have "js_split (CHR '';'') (js_join '';'' (map legend_entry (enumerate 0 labels))) = map legend_entry (enumerate 0 labels)"
    using assms(1) by (intro js_split_entries) (cases labels; simp)+
  with legend_loop [of "[]" labels] assms(3) show ?thesis unfolding parseLegend_def entries by simp
qed

theorem parseLegend_roundtrip_witness:
  "parseLegend ''0=GOOD;1=a=b'' = [Some ''GOOD'', Some ''a=b'']"
proof -
  have "show_nat 0 = ''0''" "show_nat (Suc 0) = ''1''" by code_simp+
  then show ?thesis using parseLegend_roundtrip [of "[''GOOD'', ''a=b'']"] by simp
qed

section \<open>The cache\<close>

text \<open>
  Every artifact in the page's memory is stored under its own id and was decoded from chunks that passed
  every check of its manifest.
\<close>

definition memory_ok :: "codec_ports \<Rightarrow> artifact_memory \<Rightarrow> bool" where
  "memory_ok ports memory \<longleftrightarrow>
     (\<forall>k d. map_of memory k = Some d \<longrightarrow>
        artifactId (da_meta d) = k \<and> (\<exists>chunks. decodeArtifact (da_meta d) chunks ports = Inr d))"

lemma memory_ok_update:
  "memory_ok ports memory \<Longrightarrow> decodeArtifact meta chunks ports = Inr d
     \<Longrightarrow> memory_ok ports (AList.update (artifactId meta) d memory)"
proof -
  assume ok: "memory_ok ports memory" and d: "decodeArtifact meta chunks ports = Inr d"
  from d obtain "da_meta d = meta" by (rule decodeArtifact_ok)
  with ok d show ?thesis by (auto simp: memory_ok_def map_simps)
qed

text \<open>
  The cache never serves the wrong artifact: from a memory that is in order, loading leaves it in
  order, an error leaves it unchanged, and the artifact that is returned has the requested id and checksum and was
  decoded from chunks that passed every check; a second load returns the same artifact without a request.
\<close>

theorem loadArtifact_verified:
  assumes "memory_ok ports memory"
  shows "memory_ok ports (fst (loadArtifact meta fetchChunk ports memory))
    \<and> (case snd (loadArtifact meta fetchChunk ports memory) of
         Inl e \<Rightarrow> fst (loadArtifact meta fetchChunk ports memory) = memory
       | Inr d \<Rightarrow> artifactId (da_meta d) = artifactId meta \<and> am_checksum (da_meta d) = am_checksum meta
           \<and> (\<exists>chunks. decodeArtifact (da_meta d) chunks ports = Inr d
                 \<and> digest_hex ports (concat chunks) = Some (am_checksum meta))
           \<and> loadArtifact meta (\<lambda>_ _. None) ports (fst (loadArtifact meta fetchChunk ports memory))
               = (fst (loadArtifact meta fetchChunk ports memory), Inr d))"
proof (cases "case map_of memory (artifactId meta) of
    Some d \<Rightarrow> if am_checksum (da_meta d) = am_checksum meta then Some d else None | None \<Rightarrow> None")
  case (Some d)
  then have hit: "loadArtifact meta fetch ports memory = (memory, Inr d)" for fetch by (simp add: loadArtifact_def)
  from Some have "map_of memory (artifactId meta) = Some d" and sum: "am_checksum (da_meta d) = am_checksum meta"
    by (auto split: option.splits if_splits)
  with assms obtain chunks where d: "artifactId (da_meta d) = artifactId meta" "decodeArtifact (da_meta d) chunks ports = Inr d"
    by (auto simp: memory_ok_def)
  from d(2) obtain "digest_hex ports (concat chunks) = Some (am_checksum meta)" unfolding sum [symmetric] by (rule decodeArtifact_ok)
  with d sum assms show ?thesis by (auto simp: hit)
next
  case None
  then have load: "loadArtifact meta fetchChunk ports memory =
      (case fetch_all (fetchChunk (artifactId meta)) [0..<chunkCount meta] of
         None \<Rightarrow> (memory, Inl Port_rejected)
       | Some chunks \<Rightarrow> (case decodeArtifact meta chunks ports of
             Inl e \<Rightarrow> (memory, Inl e) | Inr d \<Rightarrow> (AList.update (artifactId meta) d memory, Inr d)))"
    by (simp add: loadArtifact_def)
  show ?thesis
  proof (cases "\<exists>chunks d. fetch_all (fetchChunk (artifactId meta)) [0..<chunkCount meta] = Some chunks
      \<and> decodeArtifact meta chunks ports = Inr d")
    case True
    then obtain chunks d where d: "decodeArtifact meta chunks ports = Inr d"
      "loadArtifact meta fetchChunk ports memory = (AList.update (artifactId meta) d memory, Inr d)"
      by (auto simp: load)
    from d(1) obtain meta': "da_meta d = meta" and "digest_hex ports (concat chunks) = Some (am_checksum meta)"
      by (rule decodeArtifact_ok)
    moreover have "loadArtifact meta (\<lambda>_ _. None) ports (AList.update (artifactId meta) d memory)
        = (AList.update (artifactId meta) d memory, Inr d)"
      by (simp add: loadArtifact_def map_simps meta')
    ultimately show ?thesis using d memory_ok_update [OF assms d(1)] by auto
  next
    case False
    then show ?thesis using assms by (auto simp: load split: option.splits sum.splits)
  qed
qed

theorem loadArtifact_verified_witness:
  "memory_ok demo_ports (fst (loadArtifact demo_meta (\<lambda>_ _. Some [1]) demo_ports []))"
  using loadArtifact_verified [of demo_ports "[]" demo_meta "\<lambda>_ _. Some [1]"] by (simp add: memory_ok_def)

end
