(* ===== verification/Session_Client.thy ===== *)
theory Session_Client
  imports Js_Lib
begin

text \<open>
  The browser half of a session (src/frontend-ob/src): the two clocks of auth/sessionClock.ts, the reading of a
  failed refresh of auth/refreshPolicy.ts, the store of store/authStore.ts, the error helpers of api/authApi.ts
  and the authenticated calls of api/apiFetch.ts and api/http.ts.  Times are milliseconds.

  An asynchronous function is cut at its awaits: \<open>x_start\<close> runs up to the request, \<open>x_ok\<close> and \<open>x_fail\<close> run
  when the answer is there, and anything may run in between.  A timer is the time it is due.  The local storage
  holds what this code writes to it.  \<open>JSON.parse(atob(text)).exp\<close> is the argument \<open>claim_of\<close>.
\<close>

section \<open>The state\<close>

datatype auth_status = Idle | Authenticating | Authenticated | Unauthenticated

datatype end_reason = Inactivity | Expired

record policy =
  p_idleMs :: rat
  p_absoluteMs :: rat

record auth_user =
  au_user_id :: string
  au_username :: string
  au_role :: string
  au_permissions :: "string list"

text \<open>The local storage, the fields of the store, and the module variables of authStore.ts.\<close>

record browser =
  startedAt :: "rat option"
  lastActivity :: "rat option"
  storedPolicy :: "policy option"
  accessToken :: "string option"
  auth_user :: "auth_user option"
  status :: auth_status
  auth_error :: "string option"
  sessionEndReason :: "end_reason option"
  refreshInFlight :: bool
  proactiveTimer :: "rat option"
  retryTimer :: "rat option"
  retryAttempt :: nat

definition initial_browser :: browser where
  "initial_browser =
     \<lparr>startedAt = None, lastActivity = None, storedPolicy = None, accessToken = None, auth_user = None,
      status = Idle, auth_error = None, sessionEndReason = None, refreshInFlight = False,
      proactiveTimer = None, retryTimer = None, retryAttempt = 0\<rparr>"

section \<open>auth/sessionClock.ts\<close>

text \<open>\<open>Number(text) || d\<close> on a variable of the build.\<close>

definition env_number :: "string option \<Rightarrow> rat \<Rightarrow> rat" where
  "env_number v d =
     (case v of None \<Rightarrow> d | Some s \<Rightarrow> (case js_number s of Some n \<Rightarrow> if n = 0 then d else n | None \<Rightarrow> d))"

definition FALLBACK_POLICY :: "string option \<Rightarrow> string option \<Rightarrow> policy" where
  "FALLBACK_POLICY idle absolute =
     \<lparr>p_idleMs = env_number idle (30 * 60 * 1000), p_absoluteMs = env_number absolute (12 * 60 * 60 * 1000)\<rparr>"

definition getPolicy :: "policy \<Rightarrow> browser \<Rightarrow> policy" where
  "getPolicy fallback s = nullish (storedPolicy s) fallback"

definition startSessionClocks :: "rat \<Rightarrow> policy option \<Rightarrow> browser \<Rightarrow> browser" where
  "startSessionClocks now pol s =
     (let s = s\<lparr>startedAt := Some now, lastActivity := Some now\<rparr> in
      case pol of Some p \<Rightarrow> s\<lparr>storedPolicy := Some p\<rparr> | None \<Rightarrow> s)"

definition updatePolicy :: "policy \<Rightarrow> browser \<Rightarrow> browser" where
  "updatePolicy p s = s\<lparr>storedPolicy := Some p\<rparr>"

definition markApiActivity :: "rat \<Rightarrow> browser \<Rightarrow> browser" where
  "markApiActivity now s = s\<lparr>lastActivity := Some now\<rparr>"

definition clearSessionClocks :: "browser \<Rightarrow> browser" where
  "clearSessionClocks s = s\<lparr>startedAt := None, lastActivity := None, storedPolicy := None\<rparr>"

definition hasSessionClocks :: "browser \<Rightarrow> bool" where
  "hasSessionClocks s \<longleftrightarrow> startedAt s \<noteq> None"

definition idleExceeded :: "policy \<Rightarrow> rat \<Rightarrow> browser \<Rightarrow> bool" where
  "idleExceeded fallback now s =
     (case lastActivity s of None \<Rightarrow> False | Some t \<Rightarrow> now - t > p_idleMs (getPolicy fallback s))"

definition absoluteExceeded :: "policy \<Rightarrow> rat \<Rightarrow> browser \<Rightarrow> bool" where
  "absoluteExceeded fallback now s =
     (case startedAt s of None \<Rightarrow> False | Some t \<Rightarrow> now - t > p_absoluteMs (getPolicy fallback s))"

definition expiredReason :: "policy \<Rightarrow> rat \<Rightarrow> browser \<Rightarrow> end_reason option" where
  "expiredReason fallback now s =
     (if absoluteExceeded fallback now s then Some Expired
      else if idleExceeded fallback now s then Some Inactivity else None)"

section \<open>auth/refreshPolicy.ts and the error helpers of api/authApi.ts\<close>

text \<open>
  A thrown error: one of axios, with the body's \<open>code\<close> and \<open>error\<close>, the status and the header \<open>retry-after\<close>
  when there is a response; or another one.
\<close>

record axios_response =
  ar_status :: nat
  ar_code :: "string option"
  ar_error :: "string option"
  ar_retry_after :: "string option"

datatype http_error = Axios_error "axios_response option" | Other_error

datatype refresh_failure = Terminal | Transient

definition TERMINAL_CODES :: "string list" where
  "TERMINAL_CODES =
     [''SESSION_IDLE_TIMEOUT'', ''SESSION_MAX_DURATION'', ''SESSION_REVOKED'', ''REFRESH_TOKEN_INVALID'', ''REFRESH_TOKEN_REUSED'']"

definition classifyRefreshFailure :: "http_error \<Rightarrow> refresh_failure" where
  "classifyRefreshFailure e =
     (case e of
        Axios_error (Some r) \<Rightarrow>
          if truthy (ar_code r) \<and> the (ar_code r) \<in> set TERMINAL_CODES then Terminal
          else if ar_status r = 401 \<or> ar_status r = 403 then Terminal else Transient
      | Axios_error None \<Rightarrow> Transient
      | Other_error \<Rightarrow> Transient)"

definition BACKOFF_MS :: "rat list" where
  "BACKOFF_MS = [5000, 15000, 45000]"

definition MAX_RETRY_DELAY_MS :: rat where
  "MAX_RETRY_DELAY_MS = 60000"

definition retryAfterMs :: "http_error \<Rightarrow> rat option" where
  "retryAfterMs e =
     (case e of
        Axios_error (Some r) \<Rightarrow>
          (case ar_retry_after r of
             None \<Rightarrow> None
           | Some text \<Rightarrow>
               (case js_number text of
                  Some n \<Rightarrow> if n > 0 then Some (min (n * 1000) MAX_RETRY_DELAY_MS) else None
                | None \<Rightarrow> None))
      | _ \<Rightarrow> None)"

definition retryDelayMs :: "http_error \<Rightarrow> nat \<Rightarrow> rat" where
  "retryDelayMs e attempt = nullish (retryAfterMs e) (BACKOFF_MS ! min attempt (length BACKOFF_MS - 1))"

text \<open>The payload part of a token in the standard alphabet and padded, as \<open>atob\<close> wants it.\<close>

definition b64_payload :: "string \<Rightarrow> string" where
  "b64_payload token =
     (let parts = js_split (CHR ''.'') token; b64url = (if 1 < length parts then parts ! 1 else []) in
      map (\<lambda>c. if c = CHR ''-'' then CHR ''+'' else if c = CHR ''_'' then CHR ''/'' else c) b64url
        @ replicate ((4 - length b64url mod 4) mod 4) (CHR ''=''))"

text \<open>The \<open>exp\<close> claim of a payload that could be read.\<close>

datatype exp_claim = Unreadable | No_number | Exp rat

definition tokenExpiresAtMs :: "(string \<Rightarrow> exp_claim) \<Rightarrow> string option \<Rightarrow> rat option" where
  "tokenExpiresAtMs claim_of token =
     (if \<not> truthy token then None
      else (case claim_of (b64_payload (the token)) of Exp e \<Rightarrow> Some (e * 1000) | _ \<Rightarrow> None))"

definition tokenStillValid :: "(string \<Rightarrow> exp_claim) \<Rightarrow> string option \<Rightarrow> rat \<Rightarrow> rat \<Rightarrow> bool" where
  "tokenStillValid claim_of token nowMs graceMs =
     (case tokenExpiresAtMs claim_of token of Some e \<Rightarrow> e - nowMs > graceMs | None \<Rightarrow> False)"

definition sessionEndCodeOf :: "http_error \<Rightarrow> end_reason option" where
  "sessionEndCodeOf e =
     (case e of
        Axios_error (Some r) \<Rightarrow>
          if ar_code r = Some ''SESSION_IDLE_TIMEOUT'' then Some Inactivity
          else if ar_code r = Some ''SESSION_MAX_DURATION'' then Some Expired else None
      | _ \<Rightarrow> None)"

definition extractAuthError :: "http_error \<Rightarrow> string" where
  "extractAuthError e =
     (case e of
        Other_error \<Rightarrow> ''An unexpected error occurred.''
      | Axios_error r \<Rightarrow>
          let serverMsg = (case r of Some x \<Rightarrow> ar_error x | None \<Rightarrow> None) in
          if serverMsg = Some ''ACCOUNT_DEACTIVATED'' then ''This account has been deactivated.''
          else if truthy serverMsg then the serverMsg
          else if (case r of Some x \<Rightarrow> ar_status x = 401 | None \<Rightarrow> False) then ''Invalid username or password.''
          else ''Unable to reach the authentication service.'')"

section \<open>store/authStore.ts\<close>

text \<open>The decoder of the proactive refresh; \<open>payload.exp ? payload.exp * 1000 : null\<close>.\<close>

definition jwtExpMs :: "(string \<Rightarrow> exp_claim) \<Rightarrow> string \<Rightarrow> rat option" where
  "jwtExpMs claim_of token =
     (case claim_of (b64_payload token) of Exp e \<Rightarrow> if e \<noteq> 0 then Some (e * 1000) else None | _ \<Rightarrow> None)"

record session_env =
  claim_of :: "string \<Rightarrow> exp_claim"
  fallback :: policy

definition fireIn :: "session_env \<Rightarrow> rat \<Rightarrow> rat \<Rightarrow> browser \<Rightarrow> rat" where
  "fireIn E now expMs s =
     (let beforeExpiry = expMs - now - 60000; withinIdleWindow = p_idleMs (getPolicy (fallback E) s) * 4 / 10 in
      max (min beforeExpiry withinIdleWindow) 30000)"

definition scheduleProactiveRefresh :: "session_env \<Rightarrow> rat \<Rightarrow> string \<Rightarrow> browser \<Rightarrow> browser" where
  "scheduleProactiveRefresh E now token s =
     s\<lparr>proactiveTimer := map_option (\<lambda>e. now + fireIn E now e s) (jwtExpMs (claim_of E) token)\<rparr>"

definition cancelProactiveRefresh :: "browser \<Rightarrow> browser" where
  "cancelProactiveRefresh s = s\<lparr>proactiveTimer := None\<rparr>"

definition cancelRetry :: "browser \<Rightarrow> browser" where
  "cancelRetry s = s\<lparr>retryTimer := None\<rparr>"

definition scheduleRetry :: "rat \<Rightarrow> http_error \<Rightarrow> browser \<Rightarrow> browser" where
  "scheduleRetry now e s =
     s\<lparr>retryTimer := Some (now + retryDelayMs e (retryAttempt s)), retryAttempt := retryAttempt s + 1\<rparr>"

text \<open>Login.\<close>

definition login_start :: "browser \<Rightarrow> browser" where
  "login_start s = s\<lparr>status := Authenticating, auth_error := None, sessionEndReason := None\<rparr>"

definition login_ok :: "session_env \<Rightarrow> rat \<Rightarrow> string \<Rightarrow> auth_user \<Rightarrow> policy option \<Rightarrow> browser \<Rightarrow> browser" where
  "login_ok E now token user pol s =
     (scheduleProactiveRefresh E now token (startSessionClocks now pol s))
       \<lparr>accessToken := Some token, auth_user := Some user, status := Authenticated, auth_error := None\<rparr>"

definition login_fail :: "http_error \<Rightarrow> browser \<Rightarrow> browser" where
  "login_fail e s =
     s\<lparr>accessToken := None, auth_user := None, status := Unauthenticated, auth_error := Some (extractAuthError e)\<rparr>"

text \<open>Logout and the end of a session: up to the request, and after it, whatever it answered.\<close>

definition logout_start :: "browser \<Rightarrow> browser" where
  "logout_start s = clearSessionClocks (cancelProactiveRefresh s)"

definition logout_done :: "browser \<Rightarrow> browser" where
  "logout_done s = s\<lparr>accessToken := None, auth_user := None, status := Unauthenticated, auth_error := None\<rparr>"

definition endSession_done :: "end_reason \<Rightarrow> browser \<Rightarrow> browser" where
  "endSession_done reason s = (logout_done s)\<lparr>sessionEndReason := Some reason\<rparr>"

definition clearSessionEndReason :: "browser \<Rightarrow> browser" where
  "clearSessionEndReason s = s\<lparr>sessionEndReason := None\<rparr>"

text \<open>
  Refresh: the caller joins the request in flight, or the local clocks end the session, or a
  request is sent.
\<close>

datatype refresh_action = Joined | Ended end_reason | Requested

definition refresh_start :: "session_env \<Rightarrow> rat \<Rightarrow> browser \<Rightarrow> browser \<times> refresh_action" where
  "refresh_start E now s =
     (if refreshInFlight s then (s, Joined)
      else (case expiredReason (fallback E) now s of
              Some reason \<Rightarrow>
                if status s = Authenticated then (logout_start s, Ended reason)
                else (s\<lparr>refreshInFlight := True\<rparr>, Requested)
            | None \<Rightarrow> (s\<lparr>refreshInFlight := True\<rparr>, Requested)))"

definition adopt_token :: "session_env \<Rightarrow> rat \<Rightarrow> string \<Rightarrow> policy option \<Rightarrow> browser \<Rightarrow> browser" where
  "adopt_token E now token pol s =
     (let s = (case pol of Some p \<Rightarrow> updatePolicy p s | None \<Rightarrow> s) in
      (scheduleProactiveRefresh E now token (s\<lparr>retryAttempt := 0\<rparr>))\<lparr>accessToken := Some token, status := Authenticated\<rparr>)"

text \<open>A success; the request stays in flight while the profile is fetched.\<close>

definition refresh_ok :: "session_env \<Rightarrow> rat \<Rightarrow> string \<Rightarrow> policy option \<Rightarrow> browser \<Rightarrow> browser" where
  "refresh_ok E now token pol s =
     (let s = adopt_token E now token pol (cancelRetry s) in
      s\<lparr>refreshInFlight := (auth_user s = None)\<rparr>)"

definition refresh_me :: "auth_user option \<Rightarrow> browser \<Rightarrow> browser" where
  "refresh_me answer s =
     (case answer of Some u \<Rightarrow> s\<lparr>auth_user := Some u, refreshInFlight := False\<rparr> | None \<Rightarrow> s\<lparr>refreshInFlight := False\<rparr>)"

text \<open>A failure, and what the caller is told.\<close>

definition refresh_fail :: "session_env \<Rightarrow> rat \<Rightarrow> http_error \<Rightarrow> browser \<Rightarrow> browser \<times> bool" where
  "refresh_fail E now e s =
     (if classifyRefreshFailure e = Transient \<and> tokenStillValid (claim_of E) (accessToken s) now 15000
      then ((scheduleRetry now e s)\<lparr>refreshInFlight := False\<rparr>, True)
      else
        (let s = clearSessionClocks (cancelRetry (cancelProactiveRefresh s)) in
         (s\<lparr>accessToken := None, auth_user := None, status := Unauthenticated,
            sessionEndReason := orelse (sessionEndCodeOf e) (sessionEndReason s), refreshInFlight := False\<rparr>, False)))"

text \<open>Bootstrap: one success, and the decision after a failed attempt: the time to sleep, or to give up.\<close>

definition BOOTSTRAP_ATTEMPTS :: nat where
  "BOOTSTRAP_ATTEMPTS = 3"

definition BOOTSTRAP_BACKOFF_MS :: rat where
  "BOOTSTRAP_BACKOFF_MS = 2000"

definition MAX_BOOTSTRAP_WAIT_MS :: rat where
  "MAX_BOOTSTRAP_WAIT_MS = 5000"

definition bootstrap_me :: "auth_user option \<Rightarrow> browser \<Rightarrow> browser" where
  "bootstrap_me answer s = (case answer of Some u \<Rightarrow> s\<lparr>auth_user := Some u\<rparr> | None \<Rightarrow> s)"

definition bootstrap_wait :: "nat \<Rightarrow> http_error \<Rightarrow> rat option" where
  "bootstrap_wait attempt e =
     (if classifyRefreshFailure e = Terminal \<or> attempt + 1 \<ge> BOOTSTRAP_ATTEMPTS then None
      else Some (case retryAfterMs e of Some ra \<Rightarrow> min ra MAX_BOOTSTRAP_WAIT_MS | None \<Rightarrow> BOOTSTRAP_BACKOFF_MS))"

definition bootstrap_give_up :: "browser \<Rightarrow> browser" where
  "bootstrap_give_up s = s\<lparr>accessToken := None, auth_user := None, status := Unauthenticated\<rparr>"

text \<open>
  The loop on its own, for the answers \<open>answer k\<close> of the attempts (\<open>None\<close> a success): the number of requests,
  the time slept and the result.
\<close>

function bootstrap_loop :: "(nat \<Rightarrow> http_error option) \<Rightarrow> nat \<Rightarrow> nat \<times> rat \<times> bool" where
  "bootstrap_loop answer attempt =
     (case answer attempt of
        None \<Rightarrow> (1, 0, True)
      | Some e \<Rightarrow>
          (case bootstrap_wait attempt e of
             None \<Rightarrow> (1, 0, False)
           | Some wait \<Rightarrow> (case bootstrap_loop answer (attempt + 1) of (n, slept, r) \<Rightarrow> (n + 1, wait + slept, r))))"
  by pat_completeness auto

termination
  by (relation "measure (\<lambda>(answer, attempt). BOOTSTRAP_ATTEMPTS - attempt)")
     (auto simp: bootstrap_wait_def split: if_splits)

declare bootstrap_loop.simps [simp del]

definition hasPermission :: "string \<Rightarrow> browser \<Rightarrow> bool" where
  "hasPermission key s = (case auth_user s of Some u \<Rightarrow> key \<in> set (au_permissions u) | None \<Rightarrow> False)"

section \<open>api/apiFetch.ts and api/http.ts\<close>

text \<open>
  \<open>fetch\<close> answers the bearer with a status and \<open>refresh\<close> is the store's; the list is the bearers that were sent.
\<close>

definition apiFetch ::
  "rat \<Rightarrow> nat \<Rightarrow> (string option \<Rightarrow> nat) \<Rightarrow> (browser \<Rightarrow> browser \<times> bool) \<Rightarrow> browser
     \<Rightarrow> browser \<times> nat \<times> string option list" where
  "apiFetch now pollDepth fetch refresh s =
     (let s = (if pollDepth = 0 \<and> truthy (accessToken s) then markApiActivity now s else s);
          bearer = (if truthy (accessToken s) then accessToken s else None); res = fetch bearer in
      if res \<noteq> 401 then (s, res, [bearer])
      else (case refresh s of
              (s', refreshed) \<Rightarrow>
                if \<not> refreshed then (s', res, [bearer])
                else (let bearer' = (if truthy (accessToken s') then accessToken s' else None) in
                      (s', fetch bearer', [bearer, bearer']))))"

text \<open>The axios instance: a request through the request interceptor, and the response interceptor on a failure.\<close>

definition attach_token :: "rat \<Rightarrow> bool \<Rightarrow> browser \<Rightarrow> browser \<times> string option" where
  "attach_token now skipActivity s =
     (if truthy (accessToken s) then ((if skipActivity then s else markApiActivity now s), accessToken s) else (s, None))"

definition is_success :: "nat \<Rightarrow> bool" where
  "is_success st \<longleftrightarrow> 200 \<le> st \<and> st < 300"

function authedAxios ::
  "rat \<Rightarrow> bool \<Rightarrow> (string option \<Rightarrow> nat) \<Rightarrow> (browser \<Rightarrow> browser \<times> bool) \<Rightarrow> bool \<Rightarrow> browser
     \<Rightarrow> browser \<times> nat \<times> string option list" where
  "authedAxios now skipActivity fetch refresh retried s =
     (case attach_token now skipActivity s of
        (s1, bearer) \<Rightarrow>
          let res = fetch bearer in
          if res = 401 \<and> \<not> retried then
            (case refresh s1 of
               (s2, refreshed) \<Rightarrow>
                 if refreshed then
                   (case authedAxios now skipActivity fetch refresh True s2 of
                      (s3, res', sent) \<Rightarrow> (s3, res', bearer # sent))
                 else (s2, res, [bearer]))
          else (s1, res, [bearer]))"
  by pat_completeness auto

termination
  by (relation "measure (\<lambda>(now, skipActivity, fetch, refresh, retried, s). if retried then 0 else 1)") auto

declare authedAxios.simps [simp del]

text \<open>The message of a failed JSON call; the body's fields are text, another value, or absent.\<close>

datatype body_field = Text string | Not_text | Absent_field

definition friendlyHttpMessage :: "nat \<Rightarrow> string option \<Rightarrow> string" where
  "friendlyHttpMessage st detail =
     (if truthy detail then the detail
      else if st = 401 then ''Your session is not authorized for this request.''
      else if st = 403 then ''You do not have permission to view this.''
      else if st = 404 then ''The requested data was not found.''
      else if 500 \<le> st then ''The service is currently unavailable. Try again shortly.''
      else ''Request failed (HTTP '' @ show_nat st @ '').'')"

fun first_text :: "body_field list \<Rightarrow> string option" where
  "first_text [] = None"
| "first_text (Text v # fs) = (if v \<noteq> [] then Some v else first_text fs)"
| "first_text (_ # fs) = first_text fs"

text \<open>
  \<open>apiJson\<close> on the response: the error it throws (status, message, detail), or success.  \<open>body\<close> is
  the fields \<open>detail\<close>, \<open>title\<close>, \<open>error\<close> and \<open>message\<close> of a JSON body, \<open>None\<close> when it is not JSON.
\<close>

definition apiJson_error :: "nat \<Rightarrow> body_field list option \<Rightarrow> (nat \<times> string \<times> string option) option" where
  "apiJson_error st body =
     (if is_success st then None
      else (let detail = (case body of Some fs \<Rightarrow> first_text fs | None \<Rightarrow> None) in
            Some (st, friendlyHttpMessage st detail, detail)))"

end
