(* ===== verification/Session_Runs.thy ===== *)
theory Session_Runs
  imports Session_Client
begin

text \<open>
  The browser session as a transition system: the state with the requests that wait for their answer, one rule
  per handler of store/authStore.ts and per timer, in any order.  The invariants of its reachable states, and
  the properties of the session client.
\<close>

section \<open>The transition system\<close>

datatype pending = P_login | P_logout | P_end end_reason | P_refresh | P_refresh_me | P_boot nat | P_boot_sleep nat | P_boot_me

record world =
  wb :: browser
  waiting :: "pending list"

abbreviation send :: "pending \<Rightarrow> browser \<Rightarrow> world \<Rightarrow> world" where
  "send p b w \<equiv> \<lparr>wb = b, waiting = p # waiting w\<rparr>"

abbreviation answered :: "pending \<Rightarrow> browser \<Rightarrow> world \<Rightarrow> world" where
  "answered p b w \<equiv> \<lparr>wb = b, waiting = remove1 p (waiting w)\<rparr>"

abbreviation continued :: "pending \<Rightarrow> pending \<Rightarrow> browser \<Rightarrow> world \<Rightarrow> world" where
  "continued p q b w \<equiv> \<lparr>wb = b, waiting = q # remove1 p (waiting w)\<rparr>"

definition start_refresh :: "session_env \<Rightarrow> rat \<Rightarrow> world \<Rightarrow> world" where
  "start_refresh E now w =
     (case refresh_start E now (wb w) of
        (b, Joined) \<Rightarrow> w
      | (b, Ended reason) \<Rightarrow> send (P_end reason) b w
      | (b, Requested) \<Rightarrow> send P_refresh b w)"

text \<open>
  The timers: the proactive refresh looks at the status and the local clocks first, the retry at the status,
  the watchdog of App.tsx at the clocks.
\<close>

definition proactive_fires :: "session_env \<Rightarrow> rat \<Rightarrow> world \<Rightarrow> world" where
  "proactive_fires E now w =
     (let b = (wb w)\<lparr>proactiveTimer := None\<rparr>; w = w\<lparr>wb := b\<rparr> in
      if status b \<noteq> Authenticated then w
      else (case expiredReason (fallback E) now b of
              Some reason \<Rightarrow> send (P_end reason) (logout_start b) w
            | None \<Rightarrow> start_refresh E now w))"

definition retry_fires :: "session_env \<Rightarrow> rat \<Rightarrow> world \<Rightarrow> world" where
  "retry_fires E now w =
     (let w = w\<lparr>wb := (wb w)\<lparr>retryTimer := None\<rparr>\<rparr> in
      if status (wb w) = Authenticated then start_refresh E now w else w)"

inductive session_step :: "session_env \<Rightarrow> rat \<Rightarrow> world \<Rightarrow> world \<Rightarrow> bool" for E where
  login: "session_step E now w (send P_login (login_start (wb w)) w)"
| login_ok: "P_login \<in> set (waiting w) \<Longrightarrow> session_step E now w (answered P_login (login_ok E now token user pol (wb w)) w)"
| login_fail: "P_login \<in> set (waiting w) \<Longrightarrow> session_step E now w (answered P_login (login_fail e (wb w)) w)"
| logout: "session_step E now w (send P_logout (logout_start (wb w)) w)"
| logout_done: "P_logout \<in> set (waiting w) \<Longrightarrow> session_step E now w (answered P_logout (logout_done (wb w)) w)"
| watchdog: "expiredReason (fallback E) now (wb w) = Some reason \<Longrightarrow>
    session_step E now w (send (P_end reason) (logout_start (wb w)) w)"
| end_done: "P_end reason \<in> set (waiting w) \<Longrightarrow>
    session_step E now w (answered (P_end reason) (endSession_done reason (wb w)) w)"
| dismiss: "session_step E now w (w\<lparr>wb := clearSessionEndReason (wb w)\<rparr>)"
| activity: "session_step E now w (w\<lparr>wb := markApiActivity now (wb w)\<rparr>)"
| refresh: "session_step E now w (start_refresh E now w)"
| refresh_ok: "P_refresh \<in> set (waiting w) \<Longrightarrow> session_step E now w
    (if auth_user (wb w) = None then continued P_refresh P_refresh_me (refresh_ok E now token pol (wb w)) w
     else answered P_refresh (refresh_ok E now token pol (wb w)) w)"
| refresh_fail: "P_refresh \<in> set (waiting w) \<Longrightarrow>
    session_step E now w (answered P_refresh (fst (refresh_fail E now e (wb w))) w)"
| refresh_me: "P_refresh_me \<in> set (waiting w) \<Longrightarrow> session_step E now w (answered P_refresh_me (refresh_me answer (wb w)) w)"
| bootstrap: "session_step E now w (send (P_boot 0) (wb w) w)"
| boot_ok: "P_boot k \<in> set (waiting w) \<Longrightarrow>
    session_step E now w (continued (P_boot k) P_boot_me (adopt_token E now token pol (wb w)) w)"
| boot_fail: "P_boot k \<in> set (waiting w) \<Longrightarrow> session_step E now w
    (case bootstrap_wait k e of
       None \<Rightarrow> answered (P_boot k) (bootstrap_give_up (wb w)) w
     | Some _ \<Rightarrow> continued (P_boot k) (P_boot_sleep k) (wb w) w)"
| boot_again: "P_boot_sleep k \<in> set (waiting w) \<Longrightarrow>
    session_step E now w (continued (P_boot_sleep k) (P_boot (k + 1)) (wb w) w)"
| boot_me: "P_boot_me \<in> set (waiting w) \<Longrightarrow> session_step E now w (answered P_boot_me (bootstrap_me answer (wb w)) w)"
| proactive: "proactiveTimer (wb w) = Some t \<Longrightarrow> t \<le> now \<Longrightarrow> session_step E now w (proactive_fires E now w)"
| retry: "retryTimer (wb w) = Some t \<Longrightarrow> t \<le> now \<Longrightarrow> session_step E now w (retry_fires E now w)"

inductive reachable :: "session_env \<Rightarrow> world \<Rightarrow> bool" for E where
  init: "reachable E \<lparr>wb = initial_browser, waiting = []\<rparr>"
| step: "reachable E w \<Longrightarrow> session_step E now w w' \<Longrightarrow> reachable E w'"

section \<open>Invariants\<close>





lemmas browser_defs =
  login_start_def login_ok_def login_fail_def logout_start_def logout_done_def endSession_done_def
  clearSessionEndReason_def refresh_ok_def refresh_me_def refresh_fail_def adopt_token_def bootstrap_me_def
  bootstrap_give_up_def scheduleProactiveRefresh_def cancelProactiveRefresh_def cancelRetry_def
  scheduleRetry_def startSessionClocks_def updatePolicy_def markApiActivity_def clearSessionClocks_def




lemma no_valid_None [simp]: "\<not> tokenStillValid c None now g"
  by (simp add: tokenStillValid_def tokenExpiresAtMs_def)


lemma adopt_fields [simp]:
  "status (adopt_token E now token pol s) = Authenticated" "accessToken (adopt_token E now token pol s) = Some token"
  "refreshInFlight (adopt_token E now token pol s) = refreshInFlight s" "auth_user (adopt_token E now token pol s) = auth_user s"
  by (simp_all add: browser_defs Let_def split: option.splits)



section \<open>Properties\<close>


lemma boot_and_refresh:
  "reachable E \<lparr>wb = initial_browser\<lparr>refreshInFlight := True\<rparr>, waiting = [P_refresh, P_boot 0]\<rparr>"
proof -
  have "reachable E (send (P_boot 0) initial_browser \<lparr>wb = initial_browser, waiting = []\<rparr>)"
    using reachable.step [OF reachable.init session_step.bootstrap [of E 0]] by simp
  then have "reachable E (start_refresh E 0 (send (P_boot 0) initial_browser \<lparr>wb = initial_browser, waiting = []\<rparr>))"
    using session_step.refresh by (rule reachable.step)
  then show ?thesis
    by (simp add: start_refresh_def refresh_start_def expiredReason_def absoluteExceeded_def idleExceeded_def initial_browser_def)
qed


text \<open>
  The bootstrap is outside the single flight: the page can reach a state in which the bootstrap and a
  refresh have both sent the single-use cookie, and when the refresh wins and the bootstrap is then refused with
  401, the session that was just restored is dropped: no token, unauthenticated.
\<close>

theorem bootstrap_races_refresh:
  "\<exists>w. reachable E w \<and> P_refresh \<in> set (waiting w) \<and> P_boot 0 \<in> set (waiting w)
     \<and> (\<exists>w'. session_step E now w w' \<and> status (wb w') = Authenticated \<and> accessToken (wb w') = Some token
           \<and> (\<exists>w''. session_step E now w' w'' \<and> status (wb w'') = Unauthenticated \<and> accessToken (wb w'') = None))"
proof (intro exI conjI)
  let ?w = "\<lparr>wb = initial_browser\<lparr>refreshInFlight := True\<rparr>, waiting = [P_refresh, P_boot 0]\<rparr>"
  let ?b = "refresh_ok E now token None (wb ?w)"
  let ?w' = "continued P_refresh P_refresh_me ?b ?w"
  let ?e = "Axios_error (Some \<lparr>ar_status = 401, ar_code = None, ar_error = None, ar_retry_after = None\<rparr>)"
  show "reachable E ?w" by (rule boot_and_refresh)
  show "session_step E now ?w ?w'"
    using session_step.refresh_ok [of ?w E now token None] by (simp add: initial_browser_def)
  have "session_step E now ?w' (case bootstrap_wait 0 ?e of
       None \<Rightarrow> answered (P_boot 0) (bootstrap_give_up (wb ?w')) ?w'
     | Some _ \<Rightarrow> continued (P_boot 0) (P_boot_sleep 0) (wb ?w') ?w')"
    by (rule session_step.boot_fail) simp
  then show "session_step E now ?w' (answered (P_boot 0) (bootstrap_give_up ?b) ?w')"
    by (simp add: bootstrap_wait_def classifyRefreshFailure_def)
qed (simp_all add: refresh_ok_def bootstrap_give_up_def Let_def)



text \<open>
  What a failed refresh does: a transient failure (429, 5xx, no response) with a token that is valid for
  more than 15 seconds keeps the token, the user, the status and the clocks, and tries again within a
  minute; every other failure ends the session, with the server's reason when it gave one, and leaves no timer.
\<close>

theorem refresh_failure_policy:
  "if classifyRefreshFailure e = Transient \<and> tokenStillValid (claim_of E) (accessToken s) now 15000
   then snd (refresh_fail E now e s) \<and> accessToken (fst (refresh_fail E now e s)) = accessToken s
     \<and> auth_user (fst (refresh_fail E now e s)) = auth_user s \<and> status (fst (refresh_fail E now e s)) = status s
     \<and> startedAt (fst (refresh_fail E now e s)) = startedAt s \<and> lastActivity (fst (refresh_fail E now e s)) = lastActivity s
     \<and> (\<exists>t. retryTimer (fst (refresh_fail E now e s)) = Some t \<and> now < t \<and> t \<le> now + 60000)
   else \<not> snd (refresh_fail E now e s) \<and> accessToken (fst (refresh_fail E now e s)) = None
     \<and> auth_user (fst (refresh_fail E now e s)) = None \<and> status (fst (refresh_fail E now e s)) = Unauthenticated
     \<and> proactiveTimer (fst (refresh_fail E now e s)) = None \<and> retryTimer (fst (refresh_fail E now e s)) = None
     \<and> sessionEndReason (fst (refresh_fail E now e s)) = orelse (sessionEndCodeOf e) (sessionEndReason s)"
proof -
  have backoff: "0 < BACKOFF_MS ! min k 2 \<and> BACKOFF_MS ! min k 2 \<le> 60000" for k
  proof -
    have "min k 2 = 0 \<or> min k 2 = 1 \<or> min k 2 = (2 :: nat)" by arith
    then show ?thesis by (auto simp: BACKOFF_MS_def)
  qed
  have "0 < retryDelayMs e k \<and> retryDelayMs e k \<le> 60000" for k
  proof (cases "retryAfterMs e")
    case None
    have "length BACKOFF_MS - 1 = 2" by (simp add: BACKOFF_MS_def)
    with None show ?thesis using backoff [of k] by (simp only: retryDelayMs_def nullish_simps simp_thms)
  next
    case (Some ra)
    then have "0 < ra \<and> ra \<le> 60000"
      by (auto simp: retryAfterMs_def MAX_RETRY_DELAY_MS_def split: http_error.splits option.splits if_splits)
    with Some show ?thesis by (simp add: retryDelayMs_def)
  qed
  then show ?thesis
    by (simp add: refresh_fail_def scheduleRetry_def cancelRetry_def cancelProactiveRefresh_def clearSessionClocks_def Let_def)
qed

text \<open>
  The bootstrap decides: at most 3 requests and 10 seconds of waiting; it succeeds exactly when its last
  request did, every request before the last failed transiently, and it gives up only on a refusal or after the
  third.
\<close>

lemma bootstrap_wait_bounds:
  "bootstrap_wait k e = Some t \<Longrightarrow> k + 1 < 3 \<and> 0 < t \<and> t \<le> 5000 \<and> classifyRefreshFailure e = Transient"
proof -
  assume *: "bootstrap_wait k e = Some t"
  have "0 < ra" if "retryAfterMs e = Some ra" for ra
    using that by (auto simp: retryAfterMs_def MAX_RETRY_DELAY_MS_def split: http_error.splits option.splits if_splits)
  with * show ?thesis
    by (cases "classifyRefreshFailure e")
       (auto simp: bootstrap_wait_def BOOTSTRAP_ATTEMPTS_def MAX_BOOTSTRAP_WAIT_MS_def BOOTSTRAP_BACKOFF_MS_def
         split: if_splits option.splits)
qed

lemma bootstrap_loop_bounds:
  "bootstrap_loop answer k = (n, slept, r) \<Longrightarrow> k < 3 \<Longrightarrow>
     0 < n \<and> k + n \<le> 3 \<and> 0 \<le> slept \<and> slept \<le> of_nat (n - 1) * 5000 \<and> (r \<longleftrightarrow> answer (k + n - 1) = None)
     \<and> (\<forall>j < n - 1. \<exists>e. answer (k + j) = Some e \<and> classifyRefreshFailure e = Transient)
     \<and> (\<not> r \<longrightarrow> k + n = 3 \<or> (\<exists>e. answer (k + n - 1) = Some e \<and> classifyRefreshFailure e = Terminal))"
proof (induction answer k arbitrary: n slept r rule: bootstrap_loop.induct)
  case (1 answer k)
  show ?case
  proof (cases "answer k")
    case None
    with 1(2,3) show ?thesis by (auto simp: bootstrap_loop.simps [of answer k])
  next
    case e: (Some e)
    show ?thesis
    proof (cases "bootstrap_wait k e")
      case None
      with e 1(2,3) show ?thesis
        by (auto simp: bootstrap_loop.simps [of answer k] bootstrap_wait_def BOOTSTRAP_ATTEMPTS_def split: if_splits)
    next
      case (Some t)
      obtain n' slept' r' where rec: "bootstrap_loop answer (k + 1) = (n', slept', r')" by (metis surj_pair)
      note t = bootstrap_wait_bounds [OF Some]
      have res: "n = n' + 1" "slept = t + slept'" "r = r'"
        using 1(2) by (simp_all add: bootstrap_loop.simps [of answer k] e Some rec [simplified])
      have IH: "0 < n' \<and> (k + 1) + n' \<le> 3 \<and> 0 \<le> slept' \<and> slept' \<le> of_nat (n' - 1) * 5000
          \<and> (r' \<longleftrightarrow> answer (k + 1 + n' - 1) = None)
          \<and> (\<forall>j < n' - 1. \<exists>e. answer (k + 1 + j) = Some e \<and> classifyRefreshFailure e = Transient)
          \<and> (\<not> r' \<longrightarrow> k + 1 + n' = 3 \<or> (\<exists>e. answer (k + 1 + n' - 1) = Some e \<and> classifyRefreshFailure e = Terminal))"
        by (rule 1(1) [OF e Some rec]) (use t in simp)
      from IH have n': "0 < n'" "slept' \<le> of_nat (n' - 1) * 5000" by blast+
      from n'(1) have "of_nat (n' - 1) = (of_nat n' - 1 :: rat)" by (simp add: of_nat_diff)
      with n'(2) t have sum: "t + slept' \<le> of_nat n' * 5000" by linarith
      have tr: "\<exists>e. answer (k + j) = Some e \<and> classifyRefreshFailure e = Transient" if "j < n'" for j
      proof (cases j)
        case 0
        with e t show ?thesis by simp
      next
        case (Suc i)
        with that IH show ?thesis by simp
      qed
      show ?thesis using IH t sum tr by (simp add: res)
    qed
  qed
qed

theorem bootstrap_bounded:
  assumes "bootstrap_loop answer 0 = (n, slept, restored)"
  shows "1 \<le> n \<and> n \<le> 3 \<and> 0 \<le> slept \<and> slept \<le> 10000 \<and> (restored \<longleftrightarrow> answer (n - 1) = None)
    \<and> (\<forall>j < n - 1. \<exists>e. answer j = Some e \<and> classifyRefreshFailure e = Transient)
    \<and> (\<not> restored \<longrightarrow> n = 3 \<or> (\<exists>e. answer (n - 1) = Some e \<and> classifyRefreshFailure e = Terminal))"
proof -
  note b = bootstrap_loop_bounds [OF assms, simplified]
  then have "n \<le> 3" by blast
  then have "n - 1 \<le> 2" by linarith
  then have "of_nat (n - 1) \<le> (of_nat 2 :: rat)" by (simp only: of_nat_le_iff)
  with b show ?thesis by auto
qed

theorem bootstrap_bounded_witness:
  "1 \<le> (2 :: nat) \<and> bootstrap_loop (\<lambda>k. if k = 0 then Some (Axios_error None) else None) 0 = (2, 2000, True)"
proof -
  have run: "bootstrap_loop (\<lambda>k. if k = 0 then Some (Axios_error None) else None) 0 = (2, 2000, True)"
    by (simp add: bootstrap_loop.simps bootstrap_wait_def classifyRefreshFailure_def retryAfterMs_def
        BOOTSTRAP_ATTEMPTS_def BOOTSTRAP_BACKOFF_MS_def)
  with bootstrap_bounded [OF run] show ?thesis by simp
qed

end
