(* ===== verification/Session_Link.thy ===== *)
theory Session_Link
  imports Session_Runs Demo_Env
begin

text \<open>
  The session client beside what it talks to: when its proactive refresh fires against the server's idle
  window and the token's expiry, what its two ways to call an API send, and what it makes of the answers
  of the refresh route of auth-service.
\<close>

section \<open>Timing\<close>

text \<open>
  The proactive refresh is in time: it never fires sooner than 30 seconds from now; with an idle window of at least
  75 seconds it fires within two fifths of the window, so that two refreshes fit in every window; and when the token
  lives for at least 90 seconds it fires 60 seconds before its expiry at the latest.
\<close>

theorem proactive_refresh_in_time:
  assumes "jwtExpMs (claim_of E) token = Some expMs"
    and "p_idleMs (getPolicy (fallback E) s) = idle"
  shows "\<exists>t. proactiveTimer (scheduleProactiveRefresh E now token s) = Some t \<and> now + 30000 \<le> t
    \<and> (75000 \<le> idle \<longrightarrow> 5 * (t - now) \<le> 2 * idle)
    \<and> (now + 90000 \<le> expMs \<longrightarrow> t \<le> expMs - 60000)"
proof -
  have fire: "fireIn E now expMs s = max (min (expMs - now - 60000) (idle * 4 / 10)) 30000"
    using assms(2) by (simp add: fireIn_def Let_def)
  then have timer: "proactiveTimer (scheduleProactiveRefresh E now token s) = Some (now + fireIn E now expMs s)"
    using assms(1) by (simp add: scheduleProactiveRefresh_def)
  have "75000 \<le> idle \<Longrightarrow> 5 * fireIn E now expMs s \<le> 2 * idle"
    "now + 90000 \<le> expMs \<Longrightarrow> now + fireIn E now expMs s \<le> expMs - 60000" "30000 \<le> fireIn E now expMs s"
    unfolding fire by (auto simp: max_def min_def)
  with timer show ?thesis by auto
qed

theorem proactive_refresh_in_time_witness:
  "\<exists>t. proactiveTimer (scheduleProactiveRefresh \<lparr>claim_of = \<lambda>_. Exp 3600, fallback = \<lparr>p_idleMs = 1800000, p_absoluteMs = 43200000\<rparr>\<rparr>
         0 ''a.b.c'' initial_browser) = Some t \<and> 0 + 30000 \<le> t
    \<and> (75000 \<le> (1800000 :: rat) \<longrightarrow> 5 * (t - 0) \<le> 2 * 1800000) \<and> (0 + 90000 \<le> (3600000 :: rat) \<longrightarrow> t \<le> 3600000 - 60000)"
  by (rule proactive_refresh_in_time) (simp_all add: jwtExpMs_def getPolicy_def initial_browser_def)

text \<open>
  The two ways to call an API agree: for every server and every refresh, \<open>apiFetch\<close> and the axios instance give
  the same status and send the same bearers; at most one replay; a 401 that is returned after a replay was
  sent with the token the refresh left.
\<close>

theorem apiFetch_authedAxios_agree:
  "snd (apiFetch now pollDepth fetch refresh s) = snd (authedAxios now (pollDepth \<noteq> 0) fetch refresh False s)
   \<and> length (snd (snd (apiFetch now pollDepth fetch refresh s))) \<in> {1, 2}"
proof -
  have mark: "accessToken (markApiActivity now s) = accessToken s" by (simp add: markApiActivity_def)
  have last: "authedAxios now skip fetch refresh True s2 =
      (fst (attach_token now skip s2), fetch (snd (attach_token now skip s2)), [snd (attach_token now skip s2)])" for skip s2
    by (simp add: authedAxios.simps [of now skip fetch refresh True s2] split_beta Let_def)
  show ?thesis
    by (cases "truthy (accessToken s)"; cases "pollDepth = 0")
       (simp_all add: apiFetch_def authedAxios.simps [of now _ fetch refresh False s] last attach_token_def mark Let_def split_beta)
qed

section \<open>Refresh and auth-service\<close>

text \<open>The error axios throws for a response of auth-service.\<close>

definition response_error :: "'k response \<Rightarrow> http_error" where
  "response_error resp =
     Axios_error (Some
       \<lparr>ar_status = rs_status resp,
        ar_code = (case rs_body resp of BError m c \<Rightarrow> c | _ \<Rightarrow> None),
        ar_error = (case rs_body resp of BError m c \<Rightarrow> Some m | _ \<Rightarrow> None),
        ar_retry_after = None\<rparr>)"

lemma refresh_handler_500:
  assumes "refresh_handler c req user d = (d', resp)" and "rs_status resp = 500"
  obtains e where "rs_cookie resp = clearRefreshCookie (hc_process c)" "refreshToken (hc_env c) (hc_tick c) (the (presented_refresh req)) d = (d', Inl e)"
    "\<exists>m. rs_body resp = BError m (if truthy (error_code e) then error_code e else None)"
  using assms by (auto simp: refresh_handler_def respond_def Let_def split: if_splits prod.splits sum.splits)

text \<open>
  A server error costs the session: when the refresh route answers 500, the client rightly reads it as transient,
  keeps the session and schedules a retry; but the same answer cleared the refresh cookie, so that the
  next refresh, which has no cookie to present, is refused with 401 and ends the session, however long the
  access token is still valid.
\<close>

theorem server_error_costs_session:
  assumes "refresh_handler c req user d = (d', resp)" and "rs_status resp = 500"
    and "(case rs_body resp of BError m typed \<Rightarrow> typed | _ \<Rightarrow> None) \<notin> Some ` set TERMINAL_CODES"
    and "tokenStillValid (claim_of E) (accessToken s) now 15000"
    and "rq_refresh_cookie req' = None" and "\<not> truthy (b_str (rq_body req') ''refreshToken'')"
  shows "rs_cookie resp = clearRefreshCookie (hc_process c)
    \<and> snd (refresh_fail E now (response_error resp) s)
    \<and> accessToken (fst (refresh_fail E now (response_error resp) s)) = accessToken s
    \<and> retryTimer (fst (refresh_fail E now (response_error resp) s)) \<noteq> None
    \<and> rs_status (snd (refresh_handler c' req' user' d'')) = 401
    \<and> (let s' = fst (refresh_fail E later (response_error (snd (refresh_handler c' req' user' d'')))
                       (fst (refresh_fail E now (response_error resp) s))) in
       accessToken s' = None \<and> status s' = Unauthenticated)"
proof -
  obtain e where cookie: "rs_cookie resp = clearRefreshCookie (hc_process c)"
    using assms(1,2) by (rule refresh_handler_500)
  have transient: "classifyRefreshFailure (response_error resp) = Transient"
    using assms(2,3) by (auto simp: classifyRefreshFailure_def response_error_def truthy_def split: resp_body.splits option.splits)
  have refused: "snd (refresh_handler c' req' user' d'') = respond 401 (BError ''No refresh token provided'' None)"
    using assms(5,6) by (simp add: refresh_handler_def presented_refresh_def or_str_def Let_def)
  have terminal: "classifyRefreshFailure (response_error (respond 401 (BError ''No refresh token provided'' None))) = Terminal"
    by (simp add: classifyRefreshFailure_def response_error_def respond_def)
  show ?thesis
    using assms(4) cookie unfolding refused
    by (simp add: terminal refresh_fail_def transient scheduleRetry_def Let_def) (simp add: respond_def)
qed

definition failing_ctx :: "demo_key http_ctx" where
  "failing_ctx = (demo_ctx 200 ''b'')
     \<lparr>hc_env := demo_env\<lparr>e_verify := \<lambda>_ _ _ _. Inr \<lparr>cl_sub = Some ''u1'', cl_user_id = Some ''u1'', cl_preferred_username = None,
          cl_username = None, cl_email = None, cl_role = None, cl_permission = None, cl_type = Some ''refresh'',
          cl_iat = None, cl_exp = None\<rparr>, e_sign := \<lambda>_ _ _ _. Inl (JsError ''out of memory'')\<rparr>\<rparr>"

definition live_db :: "string db" where
  "live_db = demo_db\<lparr>refresh_tokens_t :=
     [\<lparr>rt_user_id = ''u1'', rt_token = ''r'', rt_expires_at = 10 ^ 12, rt_created_at = 200000000,
       rt_last_used_at = None, rt_session_started_at = None\<rparr>]\<rparr>"

definition cookie_request :: request where
  "cookie_request = demo_request\<lparr>rq_refresh_cookie := Some ''r''\<rparr>"

lemma failing_run:
  "rs_status (snd (refresh_handler failing_ctx cookie_request None live_db)) = 500"
  "(case rs_body (snd (refresh_handler failing_ctx cookie_request None live_db)) of BError m typed \<Rightarrow> typed | _ \<Rightarrow> None) = None"
  by code_simp+

theorem server_error_costs_session_witness:
  "rs_status (snd (refresh_handler (demo_ctx 260 ''c'') demo_request None demo_db)) = 401
   \<and> snd (refresh_fail \<lparr>claim_of = \<lambda>_. Exp 3600, fallback = \<lparr>p_idleMs = 1800000, p_absoluteMs = 43200000\<rparr>\<rparr> 200000
            (response_error (snd (refresh_handler failing_ctx cookie_request None live_db)))
            (initial_browser\<lparr>accessToken := Some ''a.b.c'', status := Authenticated\<rparr>))"
proof -
  have handler: "refresh_handler failing_ctx cookie_request None live_db
      = (fst (refresh_handler failing_ctx cookie_request None live_db), snd (refresh_handler failing_ctx cookie_request None live_db))"
    by simp
  show ?thesis
    using server_error_costs_session [OF handler failing_run(1), where
        E = "\<lparr>claim_of = \<lambda>_. Exp 3600, fallback = \<lparr>p_idleMs = 1800000, p_absoluteMs = 43200000\<rparr>\<rparr>" and now = 200000
        and s = "initial_browser\<lparr>accessToken := Some ''a.b.c'', status := Authenticated\<rparr>"
        and req' = demo_request and c' = "demo_ctx 260 ''c''" and user' = None and d'' = demo_db]
    by (simp add: failing_run(2) tokenStillValid_def tokenExpiresAtMs_def demo_request_def no_body_def)
qed

end
