(* ===== verification/Live_Store.thy ===== *)
theory Live_Store
  imports Js_Lib
begin

text \<open>
  The live values of the browser client (src/frontend-ob/src/store/liveMetric.ts and store/mqttStore.ts): what a
  snapshot record or a Sparkplug metric is read as, the store of metrics and live alarms, the buffers of the
  trend charts, the reference-counted subscriptions, the batched snapshot requests and the message handler.

  A decoded value is a \<open>js_val\<close>; \<open>VNaN\<close> stands for NaN and the infinities, \<open>VLong\<close> for the decoder's 64-bit integer
  objects and \<open>VObj\<close> for an object that reads as no number.  \<open>text_of\<close> is \<open>String(v)\<close> on values that are no strings.  A time
  that may be NaN is a \<open>rat option\<close>.  The decoding of the payload is not modelled: a message carries its topic
  and the decoded fields.
\<close>

section \<open>Values\<close>

datatype js_val = VUndef | VNull | VBool bool | VNum rat | VNaN | VStr string | VLong int | VObj

fun to_number :: "js_val \<Rightarrow> rat option" where
  "to_number (VNum n) = Some n"
| "to_number (VBool b) = Some (if b then 1 else 0)"
| "to_number VNull = Some 0"
| "to_number (VStr s) = js_number s"
| "to_number (VLong i) = Some (of_int i)"
| "to_number _ = None"

fun to_bool :: "js_val \<Rightarrow> bool" where
  "to_bool (VBool b) = b"
| "to_bool (VNum n) = (n \<noteq> 0)"
| "to_bool (VStr s) = (s \<noteq> [])"
| "to_bool VObj = True"
| "to_bool (VLong i) = True"
| "to_bool _ = False"

definition js_text :: "(js_val \<Rightarrow> string) \<Rightarrow> js_val \<Rightarrow> string" where
  "js_text text_of v = (case v of VStr s \<Rightarrow> s | _ \<Rightarrow> text_of v)"

definition nullish_val :: "js_val \<Rightarrow> bool" where
  "nullish_val v \<longleftrightarrow> v = VUndef \<or> v = VNull"

section \<open>store/liveMetric.ts\<close>

record live_metric =
  lm_value :: js_val
  lm_quality :: rat
  lm_ts :: "rat option"
  lm_sourceTs :: "rat option"
  lm_verifiedTs :: "rat option"
  lm_emissionTs :: "rat option"
  lm_qualityToken :: "string option"

definition num :: "js_val \<Rightarrow> rat option" where
  "num x = (if nullish_val x then None else to_number x)"

type_synonym js_record = "(string \<times> js_val) list"

definition field :: "js_record \<Rightarrow> string \<Rightarrow> js_val" where
  "field o' k = (case map_of o' k of Some v \<Rightarrow> v | None \<Rightarrow> VUndef)"

definition text_field :: "js_val \<Rightarrow> string option" where
  "text_field v = (case v of VStr s \<Rightarrow> Some s | _ \<Rightarrow> None)"

text \<open>A snapshot record; \<open>None\<close> where it is no object.\<close>

definition parseSnapshotMetric :: "js_record option \<Rightarrow> live_metric option" where
  "parseSnapshotMetric raw =
     (case raw of
        None \<Rightarrow> None
      | Some r \<Rightarrow>
          if map_of r ''v'' \<noteq> None \<and> map_of r ''ts'' \<noteq> None then
            Some \<lparr>lm_value = field r ''v'', lm_quality = nullish (num (field r ''q'')) 0, lm_ts = to_number (field r ''ts''),
                  lm_sourceTs = num (field r ''src''), lm_verifiedTs = num (field r ''ver''),
                  lm_emissionTs = num (field r ''emit''), lm_qualityToken = text_field (field r ''qt'')\<rparr>
          else if map_of r ''value'' \<noteq> None \<and> map_of r ''ts'' \<noteq> None then
            Some \<lparr>lm_value = field r ''value'', lm_quality = nullish (num (field r ''quality'')) 0, lm_ts = to_number (field r ''ts''),
                  lm_sourceTs = num (field r ''sourceTs''), lm_verifiedTs = num (field r ''verifiedTs''),
                  lm_emissionTs = num (field r ''emissionTs''), lm_qualityToken = text_field (field r ''qualityToken'')\<rparr>
          else None)"

text \<open>A decoded Sparkplug metric; \<open>sm_properties\<close> has the \<open>value\<close> of each property.\<close>

record spark_metric =
  sm_name :: "string option"
  sm_alias :: "int option"
  sm_value :: js_val
  sm_properties :: js_record

definition metricFromSparkplug :: "spark_metric \<Rightarrow> rat \<Rightarrow> live_metric" where
  "metricFromSparkplug m payloadTs =
     (let p = sm_properties m; sourceTs = num (field p ''sourceTs'') in
      \<lparr>lm_value = sm_value m, lm_quality = nullish (num (field p ''quality'')) 0,
       lm_ts = Some (nullish sourceTs payloadTs), lm_sourceTs = sourceTs,
       lm_verifiedTs = num (field p ''verifiedTs''), lm_emissionTs = num (field p ''emissionTs''),
       lm_qualityToken = text_field (field p ''qualityToken'')\<rparr>)"

text \<open>The source age (NaN when the time is) and the emission age.\<close>

definition liveAges :: "live_metric \<Rightarrow> rat \<Rightarrow> rat option \<times> rat option" where
  "liveAges m nowMs =
     (map_option (\<lambda>t. max 0 (nowMs - t)) (orelse (lm_sourceTs m) (lm_ts m)),
      map_option (\<lambda>t. max 0 (nowMs - t)) (lm_emissionTs m))"

section \<open>The state of store/mqttStore.ts\<close>

record live_alarm =
  la_alarmId :: string
  la_state :: string
  la_severity :: "rat option"
  la_acknowledged :: bool
  la_conditionActive :: bool
  la_priority :: string
  la_sourceName :: string
  la_conditionName :: string
  la_message :: string
  la_ts :: "rat option"

type_synonym sample = "rat \<times> rat"

text \<open>
  The fields of the store, and the module variables: the chart buffers, the snapshot batching, the
  reference counts, the client (open connections are numbered; \<open>asked\<close> are the topics the code has it subscribe), the
  coalescing buffers.
\<close>

record live =
  connected :: bool
  lv_error :: "string option"
  snapshotLoaded :: bool
  metrics :: "(string \<times> live_metric) list"
  liveAlarms :: "(string \<times> live_alarm) list"
  aliasMap :: "(int \<times> string) list"
  subscribed :: "string list"
  liveSeries :: "(string \<times> sample list) list"
  pendingSnapshotDevices :: "string list"
  snapshotBatchTimer :: bool
  recentSnapshotAt :: "(string \<times> rat) list"
  allSnapshotsInFlight :: bool
  lastAllSnapshotsAt :: rat
  screenRefs :: "(string \<times> int) list"
  firehoseRefs :: nat
  mqtt_client :: "nat option"
  connecting :: bool
  open_clients :: "nat list"
  asked :: "string list"
  pendingMetrics :: "(string \<times> live_metric) list"
  pendingAlarmDevices :: "(string \<times> rat) list"
  flushTimer :: bool

definition initial_live :: live where
  "initial_live =
     \<lparr>connected = False, lv_error = None, snapshotLoaded = False, metrics = [], liveAlarms = [], aliasMap = [],
      subscribed = [], liveSeries = [], pendingSnapshotDevices = [], snapshotBatchTimer = False,
      recentSnapshotAt = [], allSnapshotsInFlight = False, lastAllSnapshotsAt = 0, screenRefs = [],
      firehoseRefs = 0, mqtt_client = None, connecting = False, open_clients = [], asked = [], pendingMetrics = [],
      pendingAlarmDevices = [], flushTimer = False\<rparr>"

definition FIREHOSE_DDATA_TOPIC :: string where
  "FIREHOSE_DDATA_TOPIC = ''spBv1.0/+/DDATA/+/#''"

definition LIVE_SERIES_CAP :: nat where
  "LIVE_SERIES_CAP = 2000"

definition LIVE_SERIES_KEY_CAP :: nat where
  "LIVE_SERIES_KEY_CAP = 4000"

definition SNAPSHOT_DEDUPE_MS :: rat where
  "SNAPSHOT_DEDUPE_MS = 5000"

definition ALL_SNAPSHOTS_DEDUPE_MS :: rat where
  "ALL_SNAPSHOTS_DEDUPE_MS = 3000"

definition ALARM_FIELDS :: "string list" where
  "ALARM_FIELDS = [''state'', ''severity'', ''acknowledged'', ''priority'', ''sourceName'', ''conditionName'', ''message'']"

definition metric_key :: "string \<Rightarrow> string \<Rightarrow> string" where
  "metric_key device name = device @ ''/'' @ name"

section \<open>Live alarms and snapshots\<close>

definition buildLiveAlarmFromMetrics ::
  "(js_val \<Rightarrow> string) \<Rightarrow> string \<Rightarrow> (string \<times> live_metric) list \<Rightarrow> rat option \<Rightarrow> live_alarm" where
  "buildLiveAlarmFromMetrics text_of device ms fallbackTs =
     (let get = (\<lambda>name. map_of ms (metric_key device name));
          val = (\<lambda>name d. case get name of Some m \<Rightarrow> if nullish_val (lm_value m) then d else lm_value m | None \<Rightarrow> d);
          text = (\<lambda>name d. js_text text_of (val name (VStr d)));
          state = (case get ''state'' of
                     Some m \<Rightarrow> if nullish_val (lm_value m) then [] else js_text text_of (lm_value m)
                   | None \<Rightarrow> []) in
      \<lparr>la_alarmId = device, la_state = state, la_severity = to_number (val ''severity'' (VNum 0)),
       la_acknowledged = to_bool (val ''acknowledged'' (VBool False)), la_conditionActive = (state \<noteq> ''CLEARED''),
       la_priority = text ''priority'' [], la_sourceName = text ''sourceName'' device,
       la_conditionName = text ''conditionName'' [], la_message = text ''message'' [],
       la_ts = (case get ''severity'' of Some m \<Rightarrow> lm_ts m
                | None \<Rightarrow> (case get ''state'' of Some m \<Rightarrow> lm_ts m | None \<Rightarrow> fallbackTs))\<rparr>)"

type_synonym snapshot_assets = "(string \<times> (string \<times> js_record option) list) list"

definition snapshot_metric ::
  "string \<Rightarrow> (string \<times> live_metric) list \<times> rat \<Rightarrow> string \<times> js_record option \<Rightarrow> (string \<times> live_metric) list \<times> rat" where
  "snapshot_metric device acc mr =
     (case parseSnapshotMetric (snd mr) of
        None \<Rightarrow> acc
      | Some mv \<Rightarrow>
          (AList.update (metric_key device (fst mr)) mv (fst acc),
           (case lm_ts mv of Some t \<Rightarrow> if snd acc < t then t else snd acc | None \<Rightarrow> snd acc)))"

definition snapshot_device ::
  "(js_val \<Rightarrow> string) \<Rightarrow> rat \<Rightarrow> live \<Rightarrow> string \<times> (string \<times> js_record option) list \<Rightarrow> live" where
  "snapshot_device text_of now s dm =
     (let (ms, latestTs) = foldl (snapshot_metric (fst dm)) (metrics s, 0) (snd dm);
          alarm = buildLiveAlarmFromMetrics text_of (fst dm) ms (Some (if latestTs = 0 then now else latestTs));
          s = s\<lparr>metrics := ms\<rparr> in
      if la_conditionActive alarm \<and> la_state alarm \<noteq> ''CLEARED''
      then s\<lparr>liveAlarms := AList.update (fst dm) alarm (liveAlarms s)\<rparr> else s)"

definition applySnapshotAssets :: "(js_val \<Rightarrow> string) \<Rightarrow> rat \<Rightarrow> snapshot_assets \<Rightarrow> live \<Rightarrow> live" where
  "applySnapshotAssets text_of now assets s =
     (foldl (snapshot_device text_of now) s assets)\<lparr>snapshotLoaded := True\<rparr>"

section \<open>The buffers of the charts\<close>

definition stale_step :: "string option \<times> rat option \<Rightarrow> string \<times> sample list \<Rightarrow> string option \<times> rat option" where
  "stale_step acc kb =
     (let lastTs = (if snd kb = [] then 0 else fst (last (snd kb))) in
      if (case snd acc of None \<Rightarrow> True | Some t \<Rightarrow> lastTs < t) then (Some (fst kb), Some lastTs) else acc)"

definition evictStaleSeriesKey :: "(string \<times> sample list) list \<Rightarrow> (string \<times> sample list) list" where
  "evictStaleSeriesKey m =
     (case fst (foldl stale_step (None, None) m) of Some k \<Rightarrow> AList.delete k m | None \<Rightarrow> m)"

definition pushLiveSample ::
  "string \<Rightarrow> rat \<Rightarrow> js_val \<Rightarrow> (string \<times> sample list) list \<Rightarrow> (string \<times> sample list) list" where
  "pushLiveSample key ts value m =
     (case value of
        VNum v \<Rightarrow>
          (let m = (case map_of m key of
                      Some _ \<Rightarrow> m
                    | None \<Rightarrow> AList.update key [] (if LIVE_SERIES_KEY_CAP \<le> length m then evictStaleSeriesKey m else m));
               buf = nullish (map_of m key) [] in
           if buf \<noteq> [] \<and> ts \<le> fst (last buf) then m
           else (let buf' = buf @ [(ts, v)] in
                 AList.update key (if LIVE_SERIES_CAP < length buf' then drop (length buf' - LIVE_SERIES_CAP) buf' else buf') m))
      | _ \<Rightarrow> m)"

definition getLiveSeries :: "string \<Rightarrow> rat \<Rightarrow> live \<Rightarrow> sample list" where
  "getLiveSeries key sinceTs s =
     (case map_of (liveSeries s) key of
        None \<Rightarrow> []
      | Some buf \<Rightarrow> if sinceTs \<noteq> 0 then filter (\<lambda>p. sinceTs \<le> fst p) buf else buf)"

section \<open>Connection\<close>

text \<open>
  \<open>connect\<close> starts the imports unless there is a client or they are under way; \<open>import_done\<close> is the rest of it
  (\<open>ok\<close> when they succeeded), with the number of the connection that is opened.
\<close>

definition connect_start :: "live \<Rightarrow> live \<times> bool" where
  "connect_start s =
     (if mqtt_client s \<noteq> None \<or> connecting s then (s, False) else (s\<lparr>connecting := True\<rparr>, True))"

definition import_done :: "bool \<Rightarrow> nat \<Rightarrow> string \<Rightarrow> live \<Rightarrow> live" where
  "import_done ok n err s =
     (if ok then s\<lparr>mqtt_client := Some n, open_clients := n # open_clients s, asked := [], connecting := False\<rparr>
      else s\<lparr>lv_error := Some err, connecting := False\<rparr>)"

definition disconnect_live :: "live \<Rightarrow> live" where
  "disconnect_live s =
     s\<lparr>open_clients := (case mqtt_client s of Some n \<Rightarrow> filter (\<lambda>k. k \<noteq> n) (open_clients s) | None \<Rightarrow> open_clients s),
       mqtt_client := None, asked := [], connecting := False, connected := False\<rparr>"

text \<open>
  The events of an open client.  \<open>connect\<close> subscribes on the current client, and throws if there is none; the flag tells
  whether it gets to loading all snapshots.
\<close>

definition BIRTH_TOPICS :: "string list" where
  "BIRTH_TOPICS = [''spBv1.0/+/NBIRTH/+'', ''spBv1.0/+/DBIRTH/+/#'']"

definition on_connect :: "live \<Rightarrow> live \<times> bool" where
  "on_connect s =
     (let s = s\<lparr>connected := True, lv_error := None\<rparr> in
      if mqtt_client s = None then (s, False)
      else (s\<lparr>asked := fold set_add (BIRTH_TOPICS @ subscribed s) (asked s)\<rparr>, True))"

definition on_error :: "string \<Rightarrow> live \<Rightarrow> live" where
  "on_error err s = s\<lparr>lv_error := Some err\<rparr>"

definition on_offline :: "live \<Rightarrow> live" where
  "on_offline s = s\<lparr>connected := False\<rparr>"

definition on_reconnect :: "live \<Rightarrow> live" where
  "on_reconnect s = (if mqtt_client s = None then s else s\<lparr>asked := fold set_add (subscribed s) (asked s)\<rparr>)"

section \<open>Subscriptions\<close>

text \<open>\<open>client?.subscribe\<close> and \<open>client?.unsubscribe\<close> with the update of \<open>subscribed\<close> that goes with them.\<close>

definition listen :: "string \<Rightarrow> live \<Rightarrow> live" where
  "listen topic s =
     s\<lparr>asked := (if mqtt_client s = None then asked s else set_add topic (asked s)),
       subscribed := set_add topic (subscribed s)\<rparr>"

definition unlisten :: "string \<Rightarrow> live \<Rightarrow> live" where
  "unlisten topic s =
     s\<lparr>asked := (if mqtt_client s = None then asked s else set_del topic (asked s)),
       subscribed := set_del topic (subscribed s)\<rparr>"

definition screen_topic :: "string \<Rightarrow> live \<times> string list \<Rightarrow> live \<times> string list" where
  "screen_topic topic acc =
     (if topic = [] then acc
      else (let s = fst acc; refs = nullish (map_of (screenRefs s) topic) 0 + 1;
                s = s\<lparr>screenRefs := AList.update topic refs (screenRefs s)\<rparr> in
            if refs = 1 then (listen topic s, snd acc @ [topic]) else (s, snd acc)))"

text \<open>The device of a DDATA topic, for the snapshot that paints a screen as it opens.\<close>

definition topic_device :: "string \<Rightarrow> string" where
  "topic_device t =
     (let parts = js_split (CHR ''/'') t; i = length (takeWhile (\<lambda>p. p \<noteq> ''DDATA'') parts) in
      if i < length parts \<and> i + 2 < length parts then parts ! (i + 2) else [])"

definition snapshot_devices :: "string list \<Rightarrow> string list" where
  "snapshot_devices fresh = filter (\<lambda>d. d \<noteq> [] \<and> d \<noteq> ''#'' \<and> d \<noteq> ''+'') (map topic_device fresh)"

definition loadSnapshot :: "rat \<Rightarrow> string list \<Rightarrow> live \<Rightarrow> live" where
  "loadSnapshot now assets s =
     (let wanted = (\<lambda>a. a \<noteq> [] \<and> (case map_of (recentSnapshotAt s) a of Some t \<Rightarrow> \<not> now - t < SNAPSHOT_DEDUPE_MS | None \<Rightarrow> True));
          s = s\<lparr>pendingSnapshotDevices := fold set_add (filter wanted assets) (pendingSnapshotDevices s)\<rparr> in
      if pendingSnapshotDevices s = [] \<or> snapshotBatchTimer s then s else s\<lparr>snapshotBatchTimer := True\<rparr>)"

text \<open>The batch timer: the devices that are requested, if any.\<close>

definition snapshot_timer :: "live \<Rightarrow> live \<times> string list" where
  "snapshot_timer s = (s\<lparr>snapshotBatchTimer := False, pendingSnapshotDevices := []\<rparr>, pendingSnapshotDevices s)"

definition stamp :: "rat \<Rightarrow> string list \<Rightarrow> live \<Rightarrow> live" where
  "stamp ts devices s = s\<lparr>recentSnapshotAt := fold (\<lambda>d. AList.update d ts) devices (recentSnapshotAt s)\<rparr>"

text \<open>An answer that could be read; a request that fails leaves the state.\<close>

definition snapshot_answer :: "(js_val \<Rightarrow> string) \<Rightarrow> rat \<Rightarrow> string list \<Rightarrow> snapshot_assets \<Rightarrow> live \<Rightarrow> live" where
  "snapshot_answer text_of now batch assets s =
     applySnapshotAssets text_of now assets (stamp now batch (stamp now (map fst assets) s))"

definition loadAllSnapshots :: "rat \<Rightarrow> live \<Rightarrow> live \<times> bool" where
  "loadAllSnapshots now s =
     (if allSnapshotsInFlight s then (s, False)
      else if now - lastAllSnapshotsAt s < ALL_SNAPSHOTS_DEDUPE_MS then (s, False)
      else (s\<lparr>allSnapshotsInFlight := True\<rparr>, True))"

definition all_snapshots_answer :: "(js_val \<Rightarrow> string) \<Rightarrow> rat \<Rightarrow> snapshot_assets option \<Rightarrow> live \<Rightarrow> live" where
  "all_snapshots_answer text_of now answer s =
     (case answer of Some assets \<Rightarrow> applySnapshotAssets text_of now assets (stamp now (map fst assets) s) | None \<Rightarrow> s)
       \<lparr>lastAllSnapshotsAt := now, allSnapshotsInFlight := False\<rparr>"

text \<open>The state, and whether the imports of \<open>connect\<close> were started.\<close>

definition subscribeScreen :: "rat \<Rightarrow> string list \<Rightarrow> live \<Rightarrow> live \<times> bool" where
  "subscribeScreen now topics s =
     (let (s, started) = connect_start s; (s, fresh) = fold screen_topic topics (s, []); devices = snapshot_devices fresh in
      (if devices \<noteq> [] then loadSnapshot now (js_uniq devices) s else s, started))"

definition leave_topic :: "string \<Rightarrow> live \<Rightarrow> live" where
  "leave_topic topic s =
     (if topic = [] \<or> topic = FIREHOSE_DDATA_TOPIC then s
      else (let refs = nullish (map_of (screenRefs s) topic) 0 - 1 in
            if refs > 0 then s\<lparr>screenRefs := AList.update topic refs (screenRefs s)\<rparr>
            else unlisten topic (s\<lparr>screenRefs := AList.delete topic (screenRefs s)\<rparr>)))"

definition unsubscribeScreen :: "string list \<Rightarrow> live \<Rightarrow> live" where
  "unsubscribeScreen topics s = fold leave_topic topics s"

definition subscribeFirehose :: "live \<Rightarrow> live \<times> bool" where
  "subscribeFirehose s =
     (let (s, started) = connect_start s; s = s\<lparr>firehoseRefs := firehoseRefs s + 1\<rparr> in
      (if firehoseRefs s = 1 then listen FIREHOSE_DDATA_TOPIC s else s, started))"

definition unsubscribeFirehose :: "live \<Rightarrow> live" where
  "unsubscribeFirehose s =
     (if firehoseRefs s = 0 then s
      else (let s = s\<lparr>firehoseRefs := firehoseRefs s - 1\<rparr> in
            if firehoseRefs s = 0 then unlisten FIREHOSE_DDATA_TOPIC s else s))"

section \<open>Messages\<close>

record spark_message =
  msg_topic :: string
  msg_timestamp :: "rat option"
  msg_metrics :: "spark_metric list"

definition topic_part :: "string \<Rightarrow> nat \<Rightarrow> string option" where
  "topic_part topic i = (let parts = js_split (CHR ''/'') topic in if i < length parts then Some (parts ! i) else None)"

definition birth_metric :: "string \<Rightarrow> rat \<Rightarrow> live \<Rightarrow> spark_metric \<Rightarrow> live" where
  "birth_metric device ts s m =
     (let s = (if sm_alias m \<noteq> None \<and> truthy (sm_name m)
               then s\<lparr>aliasMap := AList.update (the (sm_alias m)) (the (sm_name m)) (aliasMap s)\<rparr> else s) in
      if truthy (sm_name m) \<and> sm_value m \<noteq> VUndef
      then s\<lparr>metrics := AList.update (metric_key device (the (sm_name m))) (metricFromSparkplug m ts) (metrics s)\<rparr> else s)"

text \<open>The name of a metric: its own, the one its alias was born with, or a made-up one.\<close>

definition metric_name :: "(int \<times> string) list \<Rightarrow> spark_metric \<Rightarrow> string" where
  "metric_name aliases m =
     (if truthy (sm_name m) then the (sm_name m)
      else (case sm_alias m of
              Some a \<Rightarrow> (case map_of aliases a of Some n \<Rightarrow> n | None \<Rightarrow> ''alias_'' @ show_int a)
            | None \<Rightarrow> ''alias_undefined''))"

definition data_metric :: "(int \<times> string) list \<Rightarrow> string \<Rightarrow> rat \<Rightarrow> live \<Rightarrow> spark_metric \<Rightarrow> live" where
  "data_metric aliases device ts s m =
     (let name = metric_name aliases m; lm = metricFromSparkplug m ts; key = metric_key device name;
          s = s\<lparr>pendingMetrics := AList.update key lm (pendingMetrics s),
                liveSeries := pushLiveSample key (nullish (lm_ts lm) 0) (sm_value m) (liveSeries s)\<rparr> in
      if set_mem ALARM_FIELDS name then s\<lparr>pendingAlarmDevices := AList.update device ts (pendingAlarmDevices s)\<rparr> else s)"

definition handleMessage :: "rat \<Rightarrow> spark_message \<Rightarrow> live \<Rightarrow> live" where
  "handleMessage now msg s =
     (let verb = topic_part (msg_topic msg) 2; device = nullish (topic_part (msg_topic msg) 4) [];
          ts = nullish (msg_timestamp msg) now in
      if verb = Some ''NBIRTH'' then s\<lparr>aliasMap := []\<rparr>
      else if verb = Some ''DBIRTH'' then foldl (birth_metric device ts) s (msg_metrics msg)
      else if verb = Some ''DDATA'' then (foldl (data_metric (aliasMap s) device ts) s (msg_metrics msg))\<lparr>flushTimer := True\<rparr>
      else s)"

definition alarm_of_device :: "(js_val \<Rightarrow> string) \<Rightarrow> live \<Rightarrow> string \<times> rat \<Rightarrow> live" where
  "alarm_of_device text_of s dt =
     (let alarm = buildLiveAlarmFromMetrics text_of (fst dt) (metrics s) (Some (snd dt)) in
      if la_state alarm = ''CLEARED'' \<or> \<not> la_conditionActive alarm
      then s\<lparr>liveAlarms := AList.delete (fst dt) (liveAlarms s)\<rparr>
      else s\<lparr>liveAlarms := AList.update (fst dt) alarm (liveAlarms s)\<rparr>)"

definition flush_live :: "(js_val \<Rightarrow> string) \<Rightarrow> live \<Rightarrow> live" where
  "flush_live text_of s =
     (let s0 = s\<lparr>flushTimer := False\<rparr> in
      if pendingMetrics s0 = [] \<and> pendingAlarmDevices s0 = [] then s0
      else (let s1 = s0\<lparr>pendingMetrics := [], pendingAlarmDevices := [],
                        metrics := foldl (\<lambda>m (k, v). AList.update k v m) (metrics s0) (pendingMetrics s0)\<rparr> in
            foldl (alarm_of_device text_of) s1 (pendingAlarmDevices s0)))"

end
