(* ===== verification/Live_Laws.thy ===== *)
theory Live_Laws
  imports Live_Store
begin

text \<open>
  The live values of the browser as a transition system over the operations of store/mqttStore.ts, and the
  invariants of its reachable states: bounded chart buffers, reference counts that match the subscriptions, no
  buffered sample or request without its timer.
\<close>

section \<open>The chart buffers\<close>

definition series_ok :: "(string \<times> sample list) list \<Rightarrow> bool" where
  "series_ok m \<longleftrightarrow> distinct (keys m) \<and> length m \<le> LIVE_SERIES_KEY_CAP
     \<and> (\<forall>kb \<in> set m. length (snd kb) \<le> LIVE_SERIES_CAP \<and> sorted_wrt (<) (map fst (snd kb)))"

lemma set_update_cases: "kb \<in> set (AList.update k v m) \<Longrightarrow> kb = (k, v) \<or> kb \<in> set m"
  by (induction m) (auto split: if_splits)

lemma set_delete_subset: "set (AList.delete k m) \<subseteq> set m"
  by (auto simp: AList.delete_eq)

lemma length_update: "length (AList.update k v m) = (if k \<in> set (keys m) then length m else length m + 1)"
  by (induction m) (auto simp: keys_def)

lemma stale_step_some: "fst (stale_step acc kb) \<noteq> None \<and> snd (stale_step acc kb) \<noteq> None
    \<or> stale_step acc kb = acc \<and> snd acc \<noteq> None"
  by (auto simp: stale_step_def Let_def split: option.splits)

lemma stale_fold_some: "fst acc \<noteq> None \<Longrightarrow> fst (foldl stale_step acc m) \<noteq> None"
proof (induction m arbitrary: acc)
  case (Cons kb m)
  then have "fst (stale_step acc kb) \<noteq> None" using stale_step_some [of acc kb] by auto
  then show ?case using Cons.IH by simp
qed simp

lemma stale_fold_member: "m \<noteq> [] \<Longrightarrow> fst (foldl stale_step (None, None) m) \<noteq> None"
proof (cases m)
  case (Cons kb m')
  have "fst (stale_step (None, None) kb) \<noteq> None" by (simp add: stale_step_def Let_def)
  then show ?thesis using stale_fold_some by (simp add: Cons)
qed simp

lemma stale_fold_key:
  "fst (foldl stale_step acc m) = Some k \<Longrightarrow> k \<in> set (keys m) \<or> fst acc = Some k"
proof (induction m arbitrary: acc)
  case (Cons kb m)
  from Cons.IH [of "stale_step acc kb"] Cons.prems
  have "k \<in> set (keys m) \<or> fst (stale_step acc kb) = Some k" by simp
  then show ?case by (auto simp: stale_step_def keys_def Let_def split: option.splits if_splits)
qed simp

lemma length_delete: "k \<in> set (keys m) \<Longrightarrow> length (AList.delete k m) < length m"
proof -
  assume "k \<in> set (keys m)"
  then obtain x where "x \<in> set m" "fst x = k" by (auto simp: keys_def)
  then show ?thesis unfolding AList.delete_eq by (intro length_filter_less [of x]) (auto split: prod.splits)
qed

lemma evict_ok:
  assumes "series_ok m" "m \<noteq> []"
  shows "series_ok (evictStaleSeriesKey m) \<and> length (evictStaleSeriesKey m) < length m"
proof -
  from stale_fold_member [OF assms(2)] obtain k where k: "fst (foldl stale_step (None, None) m) = Some k" by auto
  then have "k \<in> set (keys m)" using stale_fold_key by fastforce
  then have less: "length (AList.delete k m) < length m" by (rule length_delete)
  have "series_ok (AList.delete k m)"
    using assms(1) set_delete_subset [of k m] less by (auto simp: series_ok_def distinct_keys_delete)
  with less show ?thesis by (simp add: evictStaleSeriesKey_def k)
qed

lemma sorted_wrt_snoc: "sorted_wrt (<) xs \<Longrightarrow> xs = [] \<or> last xs < (x :: rat) \<Longrightarrow> sorted_wrt (<) (xs @ [x])"
proof (induction xs rule: rev_induct)
  case (snoc y ys)
  then show ?case by (auto simp: sorted_wrt_append intro: less_trans)
qed simp

lemma push_ok: "series_ok m \<Longrightarrow> series_ok (pushLiveSample key ts x m)"
proof (cases x)
  case (VNum v)
  assume m: "series_ok m"
  define room where "room = (if LIVE_SERIES_KEY_CAP \<le> length m then evictStaleSeriesKey m else m)"
  define m1 where "m1 = (case map_of m key of Some _ \<Rightarrow> m | None \<Rightarrow> AList.update key [] room)"
  have "series_ok room \<and> length room < LIVE_SERIES_KEY_CAP"
  proof (cases "LIVE_SERIES_KEY_CAP \<le> length m")
    case True
    then have "m \<noteq> []" by (auto simp: LIVE_SERIES_KEY_CAP_def)
    from evict_ok [OF m this] True m show ?thesis by (auto simp: room_def series_ok_def)
  next
    case False
    with m show ?thesis by (simp add: room_def)
  qed
  then have "series_ok (AList.update key [] room)"
    by (auto simp: series_ok_def length_update distinct_keys_update dest!: set_update_cases)
  with m have m1: "series_ok m1" by (simp add: m1_def split: option.splits)
  have key: "key \<in> set (keys m1)"
    by (auto simp: m1_def map_simps set_keys split: option.splits)
  define buf where "buf = nullish (map_of m1 key) []"
  have "(key, buf) \<in> set m1"
    using key by (auto simp: buf_def set_keys dest: map_of_SomeD)
  with m1 have buf: "length buf \<le> LIVE_SERIES_CAP" "sorted_wrt (<) (map fst buf)" by (auto simp: series_ok_def)
  define buf' where "buf' = (if LIVE_SERIES_CAP < length (buf @ [(ts, v)])
      then drop (length (buf @ [(ts, v)]) - LIVE_SERIES_CAP) (buf @ [(ts, v)]) else buf @ [(ts, v)])"
  have eq: "pushLiveSample key ts x m = (if buf \<noteq> [] \<and> ts \<le> fst (last buf) then m1 else AList.update key buf' m1)"
    unfolding pushLiveSample_def VNum js_val.case Let_def m1_def room_def buf_def buf'_def by (rule refl)
  show ?thesis
  proof (cases "buf \<noteq> [] \<and> ts \<le> fst (last buf)")
    case True
    with m1 show ?thesis by (simp add: eq)
  next
    case False
    have "sorted_wrt (<) (map fst (buf @ [(ts, v)]))"
      using sorted_wrt_snoc [OF buf(2), of ts] False by (cases "buf = []") (auto simp: last_map not_le)
    then have "length buf' \<le> LIVE_SERIES_CAP" "sorted_wrt (<) (map fst buf')"
      unfolding buf'_def by (auto simp only: drop_map [symmetric] sorted_wrt_drop length_drop split: if_splits)
    with m1 key have "series_ok (AList.update key buf' m1)"
      by (auto simp: series_ok_def length_update distinct_keys_update dest!: set_update_cases)
    with False show ?thesis by (auto simp: eq)
  qed
qed (simp_all add: pushLiveSample_def)

end
