(* ===== verification/Live_Registry.thy ===== *)
theory Live_Registry
  imports Live_Laws "HOL-Library.Multiset"
begin

text \<open>
  The reference-counted subscriptions of store/mqttStore.ts against their contract: several screens hold
  topics, and a topic is listened to exactly as long as somebody holds it.  The contract is the locale
  \<open>topic_registry\<close> over the multiset of held topics; the interpretation discharges it for \<open>screenRefs\<close>.
\<close>

section \<open>The contract\<close>

locale topic_registry =
  fixes registry_ok :: "'s \<Rightarrow> bool" and held :: "'s \<Rightarrow> 't multiset" and active :: "'s \<Rightarrow> 't set"
    and acquire release :: "'t \<Rightarrow> 's \<Rightarrow> 's" and counted :: "'t \<Rightarrow> bool"
  assumes acquire_ok: "registry_ok s \<Longrightarrow> registry_ok (acquire t s)"
    and release_ok: "registry_ok s \<Longrightarrow> registry_ok (release t s)"
    and held_acquire: "registry_ok s \<Longrightarrow> held (acquire t s) = (if counted t then add_mset t (held s) else held s)"
    and held_release: "registry_ok s \<Longrightarrow> held (release t s) = (if counted t then held s - {#t#} else held s)"
    and active_held: "registry_ok s \<Longrightarrow> active s = set_mset (held s)"
begin

lemma acquire_all:
  "registry_ok s \<Longrightarrow> registry_ok (fold acquire ts s) \<and> held (fold acquire ts s) = held s + mset (filter counted ts)"
  by (induction ts arbitrary: s) (simp_all add: acquire_ok held_acquire)

lemma release_all:
  "registry_ok s \<Longrightarrow> registry_ok (fold release ts s) \<and> held (fold release ts s) = held s - mset (filter counted ts)"
  by (induction ts arbitrary: s) (simp_all add: release_ok held_release)

text \<open>A screen that comes and goes leaves the holdings of the others.\<close>

lemma visit_neutral:
  assumes "registry_ok s"
  shows "held (fold release ts (fold acquire ts s)) = held s" "active (fold release ts (fold acquire ts s)) = active s"
  using acquire_all [OF assms, of ts] release_all [of "fold acquire ts s" ts] by (simp_all add: assms active_held)

text \<open>A topic held more often than it is given back stays active.\<close>

lemma survivor:
  assumes "registry_ok s" and "count (mset ts) t < count (held s) t"
  shows "t \<in> active (fold release ts s)"
proof -
  have "count (mset (filter counted ts)) t \<le> count (mset ts) t" by simp
  then have "count (mset (filter counted ts)) t < count (held s) t" using assms(2) by (rule le_less_trans)
  then have "t \<in># held s - mset (filter counted ts)" by (simp add: in_diff_count)
  then show ?thesis using release_all [OF assms(1), of ts] by (simp add: active_held)
qed

end

section \<open>The reference counts of the screens\<close>

definition counted_topic :: "string \<Rightarrow> bool" where
  "counted_topic t \<longleftrightarrow> t \<noteq> [] \<and> t \<noteq> FIREHOSE_DDATA_TOPIC"

definition held_topics :: "live \<Rightarrow> string multiset" where
  "held_topics s = mset (concat (map (\<lambda>(t, n). replicate (nat n) t) (filter (\<lambda>(t, n). counted_topic t) (screenRefs s))))"

definition screen_topics :: "live \<Rightarrow> string set" where
  "screen_topics s = set (subscribed s) - {FIREHOSE_DDATA_TOPIC}"

definition refs_ok :: "live \<Rightarrow> bool" where
  "refs_ok s \<longleftrightarrow> distinct (keys (screenRefs s)) \<and> (\<forall>(t, n) \<in> set (screenRefs s). 0 < n \<and> t \<noteq> [])
     \<and> screen_topics s = set (keys (screenRefs s)) - {FIREHOSE_DDATA_TOPIC}
     \<and> (0 < firehoseRefs s \<longrightarrow> FIREHOSE_DDATA_TOPIC \<in> set (subscribed s))"

abbreviation screen_acquire :: "string \<Rightarrow> live \<Rightarrow> live" where
  "screen_acquire t s \<equiv> fst (screen_topic t (s, []))"

lemma count_held_list:
  "distinct (keys m) \<Longrightarrow> count (mset (concat (map (\<lambda>(t, n). replicate (nat n) t) (filter (\<lambda>(t, n). P t) m)))) k
     = (if P k then nat (nullish (map_of m k) 0) else 0)"
proof (induction m)
  case (Cons tn m)
  then show ?case
    by (cases tn) (auto simp: keys_def nullish_def count_replicate_mset mset_replicate map_of_eq_None_iff [symmetric]
        dest: weak_map_of_SomeI split: option.splits)
qed (simp add: nullish_def)

lemma count_held: "refs_ok s \<Longrightarrow> count (held_topics s) t = (if counted_topic t then nat (nullish (map_of (screenRefs s) t) 0) else 0)"
  unfolding held_topics_def by (rule count_held_list) (simp add: refs_ok_def)

lemma refs_positive: "refs_ok s \<Longrightarrow> map_of (screenRefs s) t = Some n \<Longrightarrow> 0 < n \<and> t \<noteq> []"
  by (auto simp: refs_ok_def dest: map_of_SomeD)

lemma set_del_set [simp]: "set (set_del x s) = set s - {x}"
  by (auto simp: set_del_def)

lemma firehose_not_nil [simp]: "FIREHOSE_DDATA_TOPIC \<noteq> []"
  by (simp add: FIREHOSE_DDATA_TOPIC_def)

lemma set_update_distinct:
  "distinct (keys m) \<Longrightarrow> set (AList.update k v m) = insert (k, v) {kb \<in> set m. fst kb \<noteq> k}"
  by (induction m) (auto simp: keys_def image_iff)

lemma set_delete: "set (AList.delete k m) = {kb \<in> set m. fst kb \<noteq> k}"
  by (auto simp: AList.delete_eq)

lemma set_keys_update: "set (keys (AList.update k v m)) = insert k (set (keys m))"
  by (simp add: map_simps insert_absorb)

lemma set_keys_delete: "set (keys (AList.delete k m)) = set (keys m) - {k}"
  by (auto simp: map_simps)

lemmas registry_simps = set_update_distinct set_delete set_keys_update set_keys_delete distinct_keys_update distinct_keys_delete

lemma refs_absent: "refs_ok s \<Longrightarrow> map_of (screenRefs s) t = None \<Longrightarrow> t \<noteq> FIREHOSE_DDATA_TOPIC \<Longrightarrow> t \<notin> set (subscribed s)"
proof -
  assume ok: "refs_ok s" and "map_of (screenRefs s) t = None" and t: "t \<noteq> FIREHOSE_DDATA_TOPIC"
  then have "t \<notin> set (keys (screenRefs s))" by (simp add: set_keys)
  with ok t show ?thesis unfolding refs_ok_def screen_topics_def by blast
qed

lemma screen_acquire_ok:
  assumes "refs_ok s"
  shows "refs_ok (screen_acquire t s)"
proof (cases "map_of (screenRefs s) t")
  case None
  then have "t \<notin> set (keys (screenRefs s))" by (simp add: set_keys)
  with assms None show ?thesis
    by (auto simp: refs_ok_def screen_topics_def screen_topic_def listen_def Let_def registry_simps)
next
  case (Some n)
  with assms have "0 < n" "t \<in> set (keys (screenRefs s))" by (auto simp: set_keys dest: refs_positive)
  with assms Some show ?thesis
    by (auto simp: refs_ok_def screen_topics_def screen_topic_def Let_def registry_simps)
qed

lemma leave_topic_ok:
  assumes "refs_ok s"
  shows "refs_ok (leave_topic t s)"
proof (cases "map_of (screenRefs s) t")
  case None
  then have "t \<notin> set (keys (screenRefs s))" by (simp add: set_keys)
  with assms None show ?thesis
    by (auto simp: refs_ok_def screen_topics_def leave_topic_def unlisten_def Let_def registry_simps delete_absent)
next
  case (Some n)
  with assms have "0 < n" "t \<in> set (keys (screenRefs s))" by (auto simp: set_keys dest: refs_positive)
  with assms Some show ?thesis
    by (auto simp: refs_ok_def screen_topics_def leave_topic_def unlisten_def Let_def registry_simps)
qed

lemma screenRefs_acquire:
  "screenRefs (screen_acquire t s) = (if t = [] then screenRefs s else AList.update t (nullish (map_of (screenRefs s) t) 0 + 1) (screenRefs s))"
  by (simp add: screen_topic_def listen_def Let_def)

lemma held_screen_acquire:
  assumes "refs_ok s"
  shows "held_topics (screen_acquire t s) = (if counted_topic t then add_mset t (held_topics s) else held_topics s)"
proof (rule multiset_eqI)
  fix k
  have "0 \<le> nullish (map_of (screenRefs s) t) 0"
    using assms by (cases "map_of (screenRefs s) t") (auto dest: refs_positive)
  then show "count (held_topics (screen_acquire t s)) k = count (if counted_topic t then add_mset t (held_topics s) else held_topics s) k"
    by (auto simp: count_held [OF assms] count_held [OF screen_acquire_ok [OF assms]] screenRefs_acquire map_simps
        counted_topic_def nat_add_distrib)
qed

lemma screenRefs_leave:
  "screenRefs (leave_topic t s) =
     (if counted_topic t then
        (if nullish (map_of (screenRefs s) t) 0 - 1 > 0 then AList.update t (nullish (map_of (screenRefs s) t) 0 - 1) (screenRefs s)
         else AList.delete t (screenRefs s))
      else screenRefs s)"
  by (simp add: leave_topic_def unlisten_def Let_def counted_topic_def)

lemma held_leave_topic:
  assumes "refs_ok s"
  shows "held_topics (leave_topic t s) = (if counted_topic t then held_topics s - {#t#} else held_topics s)"
proof (rule multiset_eqI)
  fix k
  show "count (held_topics (leave_topic t s)) k = count (if counted_topic t then held_topics s - {#t#} else held_topics s) k"
    by (auto simp: count_held [OF assms] count_held [OF leave_topic_ok [OF assms]] screenRefs_leave map_simps
        nat_diff_distrib)
qed

lemma active_screen_topics:
  assumes "refs_ok s"
  shows "screen_topics s = set_mset (held_topics s)"
proof -
  have "t \<in> screen_topics s \<longleftrightarrow> 0 < count (held_topics s) t" for t
    using assms by (auto simp: count_held counted_topic_def refs_ok_def set_keys map_of_eq_None_iff [symmetric]
        dest: map_of_SomeD refs_positive [OF assms] split: option.splits)
  then show ?thesis by (auto simp: count_greater_zero_iff)
qed

interpretation screens: topic_registry refs_ok held_topics screen_topics screen_acquire leave_topic counted_topic
  by unfold_locales
     (simp_all add: screen_acquire_ok leave_topic_ok held_screen_acquire held_leave_topic active_screen_topics)

end
