(* ===== verification/Live_Run.thy ===== *)
theory Live_Run
  imports Live_Registry
begin

text \<open>
  The live values over time: what the browser, the broker and the snapshot service do to the store of
  store/mqttStore.ts, in any order.  \<open>lw_imports\<close> counts the dynamic imports under way, \<open>lw_requests\<close> and
  \<open>lw_all\<close> hold the snapshot requests without answer, and \<open>lw_next\<close> numbers the clients.  An event that cannot happen gives
  \<open>None\<close>.  Invariants of the store hold after every run; a run is \<open>settled\<close> if the store is never disconnected during an import.
\<close>

section \<open>Events\<close>

record live_world =
  lw_live :: live
  lw_now :: rat
  lw_next :: nat
  lw_imports :: nat
  lw_requests :: "string list list"
  lw_all :: nat

definition initial_live_world :: "rat \<Rightarrow> live_world" where
  "initial_live_world now = \<lparr>lw_live = initial_live, lw_now = now, lw_next = 0, lw_imports = 0, lw_requests = [], lw_all = 0\<rparr>"

datatype live_event =
    Connect | Imported bool string | Disconnect
  | ClientUp nat | ClientError nat string | ClientOffline nat | ClientReconnect nat | Message nat spark_message
  | OpenScreen "string list" | CloseScreen "string list" | Watch | Unwatch
  | Seed "string list" | SeedTimer | SeedAnswer nat "snapshot_assets option"
  | SeedAll | SeedAllAnswer "snapshot_assets option" | Flush | Wait rat

definition with_import :: "live \<times> bool \<Rightarrow> live_world \<Rightarrow> live_world" where
  "with_import sb w = w\<lparr>lw_live := fst sb, lw_imports := lw_imports w + (if snd sb then 1 else 0)\<rparr>"

definition seed_all :: "live \<Rightarrow> live_world \<Rightarrow> live_world" where
  "seed_all s w =
     (let sb = loadAllSnapshots (lw_now w) s in w\<lparr>lw_live := fst sb, lw_all := lw_all w + (if snd sb then 1 else 0)\<rparr>)"

fun live_exec :: "(js_val \<Rightarrow> string) \<Rightarrow> live_event \<Rightarrow> live_world \<Rightarrow> live_world option" where
  "live_exec tx Connect w = Some (with_import (connect_start (lw_live w)) w)"
| "live_exec tx (Imported ok err) w =
     (if lw_imports w = 0 then None
      else Some (w\<lparr>lw_live := import_done ok (lw_next w) err (lw_live w), lw_imports := lw_imports w - 1,
                   lw_next := lw_next w + (if ok then 1 else 0)\<rparr>))"
| "live_exec tx Disconnect w = Some (w\<lparr>lw_live := disconnect_live (lw_live w)\<rparr>)"
| "live_exec tx (ClientUp n) w =
     (if n \<notin> set (open_clients (lw_live w)) then None
      else (let sb = on_connect (lw_live w) in
            Some (if snd sb then seed_all (fst sb) w else w\<lparr>lw_live := fst sb\<rparr>)))"
| "live_exec tx (ClientError n err) w =
     (if n \<notin> set (open_clients (lw_live w)) then None else Some (w\<lparr>lw_live := on_error err (lw_live w)\<rparr>))"
| "live_exec tx (ClientOffline n) w =
     (if n \<notin> set (open_clients (lw_live w)) then None else Some (w\<lparr>lw_live := on_offline (lw_live w)\<rparr>))"
| "live_exec tx (ClientReconnect n) w =
     (if n \<notin> set (open_clients (lw_live w)) then None else Some (w\<lparr>lw_live := on_reconnect (lw_live w)\<rparr>))"
| "live_exec tx (Message n msg) w =
     (if n \<notin> set (open_clients (lw_live w)) then None else Some (w\<lparr>lw_live := handleMessage (lw_now w) msg (lw_live w)\<rparr>))"
| "live_exec tx (OpenScreen ts) w = Some (with_import (subscribeScreen (lw_now w) ts (lw_live w)) w)"
| "live_exec tx (CloseScreen ts) w = Some (w\<lparr>lw_live := unsubscribeScreen ts (lw_live w)\<rparr>)"
| "live_exec tx Watch w = Some (with_import (subscribeFirehose (lw_live w)) w)"
| "live_exec tx Unwatch w = Some (w\<lparr>lw_live := unsubscribeFirehose (lw_live w)\<rparr>)"
| "live_exec tx (Seed ds) w = Some (w\<lparr>lw_live := loadSnapshot (lw_now w) ds (lw_live w)\<rparr>)"
| "live_exec tx SeedTimer w =
     (if \<not> snapshotBatchTimer (lw_live w) then None
      else (let sb = snapshot_timer (lw_live w) in
            Some (w\<lparr>lw_live := fst sb, lw_requests := lw_requests w @ (if snd sb = [] then [] else [snd sb])\<rparr>)))"
| "live_exec tx (SeedAnswer i answer) w =
     (if length (lw_requests w) \<le> i then None
      else Some (w\<lparr>lw_live := (case answer of None \<Rightarrow> lw_live w
                               | Some assets \<Rightarrow> snapshot_answer tx (lw_now w) (lw_requests w ! i) assets (lw_live w)),
                   lw_requests := take i (lw_requests w) @ drop (i + 1) (lw_requests w)\<rparr>))"
| "live_exec tx SeedAll w = Some (seed_all (lw_live w) w)"
| "live_exec tx (SeedAllAnswer answer) w =
     (if lw_all w = 0 then None
      else Some (w\<lparr>lw_live := all_snapshots_answer tx (lw_now w) answer (lw_live w), lw_all := lw_all w - 1\<rparr>))"
| "live_exec tx Flush w =
     (if \<not> flushTimer (lw_live w) then None else Some (w\<lparr>lw_live := flush_live tx (lw_live w)\<rparr>))"
| "live_exec tx (Wait d) w = (if d < 0 then None else Some (w\<lparr>lw_now := lw_now w + d\<rparr>))"

fun live_run :: "(js_val \<Rightarrow> string) \<Rightarrow> live_event list \<Rightarrow> live_world \<Rightarrow> live_world option" where
  "live_run tx [] w = Some w"
| "live_run tx (e # es) w = (case live_exec tx e w of Some w' \<Rightarrow> live_run tx es w' | None \<Rightarrow> None)"

lemma live_run_append:
  "live_run tx (es @ fs) w = (case live_run tx es w of Some w' \<Rightarrow> live_run tx fs w' | None \<Rightarrow> None)"
  by (induction es arbitrary: w) (simp_all split: option.splits)

text \<open>Induction over a run: what one event preserves, the run preserves.\<close>

lemma live_run_preserves:
  assumes "live_run tx es w = Some w'" and "P w"
    and "\<And>e w w'. e \<in> set es \<Longrightarrow> live_exec tx e w = Some w' \<Longrightarrow> P w \<Longrightarrow> P w'"
  shows "P w'"
  using assms
proof (induction es arbitrary: w)
  case (Cons e es)
  from Cons.prems(1) obtain w1 where w1: "live_exec tx e w = Some w1" "live_run tx es w1 = Some w'"
    by (auto split: option.splits)
  have "P w1" using Cons.prems(3) [OF _ w1(1) Cons.prems(2)] by simp
  with Cons w1(2) show ?case by (metis list.set_intros(2))
qed simp

section \<open>What the operations leave alone\<close>

definition conn_part where
  "conn_part s = (connected s, subscribed s, screenRefs s, firehoseRefs s, mqtt_client s, connecting s, open_clients s, asked s)"

definition data_part where
  "data_part s = (metrics s, liveAlarms s, aliasMap s, liveSeries s, pendingMetrics s, pendingAlarmDevices s, flushTimer s)"

definition seed_part where
  "seed_part s = (pendingSnapshotDevices s, snapshotBatchTimer s, allSnapshotsInFlight s)"

lemmas part_defs = conn_part_def data_part_def seed_part_def

lemma foldl_keeps: "(\<And>s x. f (g s x) = f s) \<Longrightarrow> f (foldl g s xs) = f s"
  by (induction xs arbitrary: s) simp_all

lemma fold_keeps: "(\<And>x s. f (g x s) = f s) \<Longrightarrow> f (fold g xs s) = f s"
  by (induction xs arbitrary: s) simp_all

lemma snapshot_device_keeps [simp]:
  "conn_part (snapshot_device tx now s dm) = conn_part s" "seed_part (snapshot_device tx now s dm) = seed_part s"
  by (simp_all add: snapshot_device_def part_defs Let_def split: prod.split)

lemma applySnapshotAssets_keeps [simp]:
  "conn_part (applySnapshotAssets tx now assets s) = conn_part s" "seed_part (applySnapshotAssets tx now assets s) = seed_part s"
proof -
  have "conn_part (foldl (snapshot_device tx now) s assets) = conn_part s"
    "seed_part (foldl (snapshot_device tx now) s assets) = seed_part s" by (rule foldl_keeps; simp)+
  then show "conn_part (applySnapshotAssets tx now assets s) = conn_part s" "seed_part (applySnapshotAssets tx now assets s) = seed_part s"
    by (simp_all add: applySnapshotAssets_def part_defs)
qed

lemma stamp_keeps [simp]:
  "conn_part (stamp ts ds s) = conn_part s" "data_part (stamp ts ds s) = data_part s" "seed_part (stamp ts ds s) = seed_part s"
  by (simp_all add: stamp_def part_defs)

lemma message_steps_keep [simp]:
  "conn_part (birth_metric d ts s m) = conn_part s" "seed_part (birth_metric d ts s m) = seed_part s"
  "conn_part (data_metric al d ts s m) = conn_part s" "seed_part (data_metric al d ts s m) = seed_part s"
  "conn_part (alarm_of_device tx s dt) = conn_part s" "seed_part (alarm_of_device tx s dt) = seed_part s"
  by (simp_all add: birth_metric_def data_metric_def alarm_of_device_def part_defs Let_def)

lemma handleMessage_keeps [simp]:
  "conn_part (handleMessage now msg s) = conn_part s" "seed_part (handleMessage now msg s) = seed_part s"
proof -
  have "conn_part (foldl (data_metric al d ts) s ms) = conn_part s" "seed_part (foldl (data_metric al d ts) s ms) = seed_part s"
    "conn_part (foldl (birth_metric d ts) s ms) = conn_part s" "seed_part (foldl (birth_metric d ts) s ms) = seed_part s"
    for al d ts ms by (rule foldl_keeps; simp)+
  then show "conn_part (handleMessage now msg s) = conn_part s" "seed_part (handleMessage now msg s) = seed_part s"
    by (simp_all add: handleMessage_def part_defs Let_def)
qed

lemma flush_keeps [simp]: "conn_part (flush_live tx s) = conn_part s" "seed_part (flush_live tx s) = seed_part s"
proof -
  have "conn_part (foldl (alarm_of_device tx) s ds) = conn_part s" "seed_part (foldl (alarm_of_device tx) s ds) = seed_part s"
    for s ds by (rule foldl_keeps; simp)+
  then show "conn_part (flush_live tx s) = conn_part s" "seed_part (flush_live tx s) = seed_part s"
    by (simp_all add: flush_live_def part_defs Let_def)
qed

lemma screen_topic_keeps [simp]:
  "data_part (fst (screen_topic t acc)) = data_part (fst acc)" "seed_part (fst (screen_topic t acc)) = seed_part (fst acc)"
  by (simp_all add: screen_topic_def listen_def part_defs Let_def)

lemma screen_topics_keep [simp]:
  "data_part (fst (fold screen_topic ts acc)) = data_part (fst acc)" "seed_part (fst (fold screen_topic ts acc)) = seed_part (fst acc)"
  using fold_keeps [of "\<lambda>acc. data_part (fst acc)" screen_topic] fold_keeps [of "\<lambda>acc. seed_part (fst acc)" screen_topic] by simp_all

lemma unsubscribeScreen_keeps [simp]:
  "data_part (unsubscribeScreen ts s) = data_part s" "seed_part (unsubscribeScreen ts s) = seed_part s"
  unfolding unsubscribeScreen_def
  by (rule fold_keeps; simp add: leave_topic_def unlisten_def part_defs Let_def)+

lemma loadSnapshot_keeps [simp]:
  "conn_part (loadSnapshot now ds s) = conn_part s" "data_part (loadSnapshot now ds s) = data_part s"
  by (simp_all add: loadSnapshot_def part_defs Let_def)

lemma subscribeScreen_eq:
  "subscribeScreen now ts s =
     (let s1 = fst (connect_start s); acc = fold screen_topic ts (s1, []); ds = snapshot_devices (snd acc) in
      (if ds \<noteq> [] then loadSnapshot now (js_uniq ds) (fst acc) else fst acc, snd (connect_start s)))"
  by (simp add: subscribeScreen_def Let_def case_prod_beta)

lemma subscribeScreen_keeps [simp]:
  "data_part (fst (subscribeScreen now ts s)) = data_part s"
  "conn_part (fst (subscribeScreen now ts s)) = conn_part (fst (fold screen_topic ts (fst (connect_start s), [])))"
  by (simp_all add: subscribeScreen_eq Let_def) (simp add: connect_start_def part_defs)

lemma connection_keeps [simp]:
  "data_part (fst (connect_start s)) = data_part s" "seed_part (fst (connect_start s)) = seed_part s"
  "data_part (import_done ok n err s) = data_part s" "seed_part (import_done ok n err s) = seed_part s"
  "data_part (disconnect_live s) = data_part s" "seed_part (disconnect_live s) = seed_part s"
  "data_part (fst (on_connect s)) = data_part s" "seed_part (fst (on_connect s)) = seed_part s"
  "data_part (on_error err s) = data_part s" "seed_part (on_error err s) = seed_part s" "conn_part (on_error err s) = conn_part s"
  "data_part (on_offline s) = data_part s" "seed_part (on_offline s) = seed_part s"
  "data_part (on_reconnect s) = data_part s" "seed_part (on_reconnect s) = seed_part s"
  "data_part (fst (subscribeFirehose s)) = data_part s" "seed_part (fst (subscribeFirehose s)) = seed_part s"
  "data_part (unsubscribeFirehose s) = data_part s" "seed_part (unsubscribeFirehose s) = seed_part s"
  "data_part (fst (snapshot_timer s)) = data_part s" "conn_part (fst (snapshot_timer s)) = conn_part s"
  "data_part (fst (loadAllSnapshots now s)) = data_part s" "conn_part (fst (loadAllSnapshots now s)) = conn_part s"
  by (simp_all add: connect_start_def import_done_def disconnect_live_def on_connect_def on_error_def on_offline_def
      on_reconnect_def subscribeFirehose_def unsubscribeFirehose_def listen_def unlisten_def snapshot_timer_def
      loadAllSnapshots_def part_defs Let_def split: prod.splits)

section \<open>The invariants\<close>

text \<open>
  Of the values: one entry per key, chart buffers bounded and in order of time, a live alarm under its own
  device and never a cleared one, nothing buffered without the timer that flushes it.
\<close>

definition values_ok :: "live \<Rightarrow> bool" where
  "values_ok s \<longleftrightarrow> distinct (keys (metrics s)) \<and> distinct (keys (liveAlarms s)) \<and> series_ok (liveSeries s)
     \<and> (\<forall>da \<in> set (liveAlarms s). la_alarmId (snd da) = fst da \<and> la_state (snd da) \<noteq> ''CLEARED'')"

definition data_ok :: "live \<Rightarrow> bool" where
  "data_ok s \<longleftrightarrow> values_ok s \<and> (pendingMetrics s \<noteq> [] \<or> pendingAlarmDevices s \<noteq> [] \<longrightarrow> flushTimer s)"

lemma data_ok_cong: "data_part s = data_part s' \<Longrightarrow> data_ok s \<Longrightarrow> data_ok s'"
  by (simp add: data_ok_def values_ok_def data_part_def)

lemma built_alarm [simp]:
  "la_alarmId (buildLiveAlarmFromMetrics tx d ms ts) = d"
  "la_conditionActive (buildLiveAlarmFromMetrics tx d ms ts) \<longleftrightarrow> la_state (buildLiveAlarmFromMetrics tx d ms ts) \<noteq> ''CLEARED''"
  by (simp_all add: buildLiveAlarmFromMetrics_def Let_def)

lemma put_alarm_ok:
  "values_ok s \<Longrightarrow> la_alarmId a = d \<Longrightarrow> la_state a \<noteq> ''CLEARED'' \<Longrightarrow> values_ok (s\<lparr>liveAlarms := AList.update d a (liveAlarms s)\<rparr>)"
  by (auto simp: values_ok_def distinct_keys_update dest: set_update_cases)

lemma drop_alarm_ok: "values_ok s \<Longrightarrow> values_ok (s\<lparr>liveAlarms := AList.delete d (liveAlarms s)\<rparr>)"
  using set_delete_subset [of d "liveAlarms s"] by (auto simp: values_ok_def distinct_keys_delete)

lemma put_metrics_ok: "values_ok s \<Longrightarrow> distinct (keys ms) \<Longrightarrow> values_ok (s\<lparr>metrics := ms\<rparr>)"
  by (simp add: values_ok_def)

lemma foldl_update_distinct:
  "distinct (keys m) \<Longrightarrow> distinct (keys (foldl (\<lambda>m (k, v). AList.update k v m) m kvs))"
  by (induction kvs arbitrary: m) (auto simp: distinct_keys_update)

lemma foldl_invariant: "P s \<Longrightarrow> (\<And>s x. P s \<Longrightarrow> P (g s x)) \<Longrightarrow> P (foldl g s xs)"
  by (induction xs arbitrary: s) simp_all

lemma snapshot_metrics_distinct:
  "distinct (keys (fst acc)) \<Longrightarrow> distinct (keys (fst (foldl (snapshot_metric d) acc mrs)))"
  by (rule foldl_invariant [where P = "\<lambda>acc. distinct (keys (fst acc))"])
     (auto simp: snapshot_metric_def distinct_keys_update split: option.splits)

lemma snapshot_device_ok:
  assumes "values_ok s"
  shows "values_ok (snapshot_device tx now s dm)"
proof -
  have "distinct (keys (fst (foldl (snapshot_metric (fst dm)) (metrics s, 0) (snd dm))))"
    using assms by (intro snapshot_metrics_distinct) (simp add: values_ok_def)
  from put_metrics_ok [OF assms this] show ?thesis
    by (auto simp: snapshot_device_def Let_def split: prod.split dest: put_alarm_ok)
qed

lemma alarm_of_device_ok: "values_ok s \<Longrightarrow> values_ok (alarm_of_device tx s dt)"
  by (simp add: alarm_of_device_def Let_def put_alarm_ok drop_alarm_ok)

lemma birth_metric_ok: "values_ok s \<Longrightarrow> values_ok (birth_metric d ts s m)"
  by (simp add: birth_metric_def values_ok_def distinct_keys_update Let_def)

lemma data_metric_ok: "values_ok s \<Longrightarrow> values_ok (data_metric al d ts s m)"
  by (simp add: data_metric_def values_ok_def push_ok Let_def)

lemma data_metric_timer: "flushTimer (foldl (data_metric al d ts) s ms) = flushTimer s"
  by (rule foldl_keeps) (simp add: data_metric_def Let_def)

lemma birth_pending:
  "pendingMetrics (foldl (birth_metric d ts) s ms) = pendingMetrics s"
  "pendingAlarmDevices (foldl (birth_metric d ts) s ms) = pendingAlarmDevices s"
  "flushTimer (foldl (birth_metric d ts) s ms) = flushTimer s"
  by (rule foldl_keeps; simp add: birth_metric_def Let_def)+

lemma handleMessage_ok:
  assumes "data_ok s"
  shows "data_ok (handleMessage now msg s)"
proof -
  from assms have v: "values_ok s" by (simp add: data_ok_def)
  have d: "values_ok (foldl (data_metric al d ts) s ms)" for al d ts ms using v data_metric_ok by (rule foldl_invariant)
  have b: "values_ok (foldl (birth_metric d ts) s ms)" for d ts ms using v birth_metric_ok by (rule foldl_invariant)
  have "values_ok (s'\<lparr>aliasMap := a\<rparr>) = values_ok s'" "values_ok (s'\<lparr>flushTimer := f\<rparr>) = values_ok s'" for s' a f
    by (simp_all add: values_ok_def)
  with v d b assms show ?thesis by (simp add: handleMessage_def data_ok_def birth_pending Let_def)
qed

lemma applySnapshotAssets_ok:
  assumes "data_ok s"
  shows "data_ok (applySnapshotAssets tx now assets s)"
proof -
  have v: "values_ok (foldl (snapshot_device tx now) s assets)"
    by (rule foldl_invariant) (use assms in \<open>simp_all add: data_ok_def snapshot_device_ok\<close>)
  have "pendingMetrics (foldl (snapshot_device tx now) s assets) = pendingMetrics s"
    "pendingAlarmDevices (foldl (snapshot_device tx now) s assets) = pendingAlarmDevices s"
    "flushTimer (foldl (snapshot_device tx now) s assets) = flushTimer s"
    by (rule foldl_keeps; simp add: snapshot_device_def Let_def split: prod.split)+
  with v assms show ?thesis by (simp add: applySnapshotAssets_def data_ok_def values_ok_def)
qed

lemma flush_ok:
  assumes "data_ok s"
  shows "data_ok (flush_live tx s) \<and> pendingMetrics (flush_live tx s) = [] \<and> pendingAlarmDevices (flush_live tx s) = []"
proof -
  define s1 where "s1 = s\<lparr>flushTimer := False, pendingMetrics := [], pendingAlarmDevices := [],
      metrics := foldl (\<lambda>m (k, v). AList.update k v m) (metrics s) (pendingMetrics s)\<rparr>"
  define s2 where "s2 = foldl (alarm_of_device tx) s1 (pendingAlarmDevices s)"
  have "values_ok s1" using assms by (simp add: s1_def values_ok_def data_ok_def foldl_update_distinct)
  then have v: "values_ok s2" unfolding s2_def using alarm_of_device_ok by (rule foldl_invariant)
  have "pendingMetrics s2 = pendingMetrics s1" "pendingAlarmDevices s2 = pendingAlarmDevices s1"
    unfolding s2_def by (rule foldl_keeps; simp add: alarm_of_device_def Let_def)+
  with v assms show ?thesis
    by (auto simp: flush_live_def Let_def s2_def [unfolded s1_def] s1_def data_ok_def values_ok_def)
qed

text \<open>
  Of the connection: reference counts that match the subscriptions, and no subscription on a client that
  the store does not know of.
\<close>

definition conn_ok :: "nat \<Rightarrow> live \<Rightarrow> bool" where
  "conn_ok next_id s \<longleftrightarrow> refs_ok s \<and> set (asked s) \<subseteq> set BIRTH_TOPICS \<union> set (subscribed s)
     \<and> distinct (open_clients s) \<and> (\<forall>n \<in> set (open_clients s). n < next_id) \<and> (mqtt_client s = None \<longrightarrow> asked s = [])"

text \<open>Of the snapshot requests: nothing waits without its timer, and at most one request for all devices is out.\<close>

definition seeds_ok :: "live \<Rightarrow> bool" where
  "seeds_ok s \<longleftrightarrow> (pendingSnapshotDevices s \<noteq> [] \<longrightarrow> snapshotBatchTimer s) \<and> [] \<notin> set (pendingSnapshotDevices s)"

definition live_world_ok :: "live_world \<Rightarrow> bool" where
  "live_world_ok w \<longleftrightarrow> data_ok (lw_live w) \<and> conn_ok (lw_next w) (lw_live w) \<and> seeds_ok (lw_live w)
     \<and> lw_all w = (if allSnapshotsInFlight (lw_live w) then 1 else 0) \<and> [] \<notin> set (lw_requests w)"

lemma refs_ok_cong:
  "screenRefs s' = screenRefs s \<Longrightarrow> subscribed s' = subscribed s \<Longrightarrow> firehoseRefs s' = firehoseRefs s \<Longrightarrow> refs_ok s' = refs_ok s"
  by (simp add: refs_ok_def screen_topics_def)

lemma conn_ok_cong: "conn_part s = conn_part s' \<Longrightarrow> conn_ok n s \<Longrightarrow> conn_ok n s'"
  using refs_ok_cong [of s s'] by (simp add: conn_ok_def conn_part_def)

lemma seeds_ok_cong: "seed_part s = seed_part s' \<Longrightarrow> seeds_ok s \<Longrightarrow> seeds_ok s'"
  by (simp add: seeds_ok_def seed_part_def)

lemma set_fold_set_add [simp]: "set (fold set_add xs ys) = set xs \<union> set ys"
  by (induction xs arbitrary: ys) auto

lemma conn_ok_refs: "conn_ok n s \<Longrightarrow> refs_ok s"
  by (simp add: conn_ok_def)

lemma connect_start_ok: "conn_ok n s \<Longrightarrow> conn_ok n (fst (connect_start s))"
  using refs_ok_cong [of "s\<lparr>connecting := True\<rparr>" s] by (simp add: connect_start_def conn_ok_def)

lemma import_done_ok: "conn_ok n s \<Longrightarrow> conn_ok (n + (if ok then 1 else 0)) (import_done ok n err s)"
  using refs_ok_cong [of "import_done ok n err s" s] by (auto simp: import_done_def conn_ok_def)

lemma disconnect_ok: "conn_ok n s \<Longrightarrow> conn_ok n (disconnect_live s)"
  using refs_ok_cong [of "disconnect_live s" s] by (auto simp: disconnect_live_def conn_ok_def split: option.splits)

lemma on_connect_ok: "conn_ok n s \<Longrightarrow> conn_ok n (fst (on_connect s))"
  using refs_ok_cong [of "fst (on_connect s)" s] by (auto simp: on_connect_def conn_ok_def Let_def)

lemma on_offline_ok: "conn_ok n s \<Longrightarrow> conn_ok n (on_offline s)"
  using refs_ok_cong [of "on_offline s" s] by (simp add: on_offline_def conn_ok_def)

lemma on_reconnect_ok: "conn_ok n s \<Longrightarrow> conn_ok n (on_reconnect s)"
  using refs_ok_cong [of "on_reconnect s" s] by (auto simp: on_reconnect_def conn_ok_def)

lemma screen_topic_conn:
  assumes "conn_ok n (fst acc)"
  shows "conn_ok n (fst (screen_topic t acc))"
proof -
  have eq: "fst (screen_topic t acc) = screen_acquire t (fst acc)" by (simp add: screen_topic_def Let_def)
  have "set (asked (screen_acquire t s)) \<subseteq> B \<union> set (subscribed (screen_acquire t s))"
    if "set (asked s) \<subseteq> B \<union> set (subscribed s)" for s B
    using that by (auto simp: screen_topic_def listen_def Let_def)
  moreover have "open_clients (screen_acquire t s) = open_clients s" "mqtt_client (screen_acquire t s) = mqtt_client s"
    "mqtt_client s = None \<Longrightarrow> asked (screen_acquire t s) = asked s" for s
    by (simp_all add: screen_topic_def listen_def Let_def)
  ultimately show ?thesis using assms screen_acquire_ok [of "fst acc" t] by (simp add: conn_ok_def eq)
qed

lemma screen_topics_conn: "conn_ok n (fst acc) \<Longrightarrow> conn_ok n (fst (fold screen_topic ts acc))"
  by (induction ts arbitrary: acc) (simp_all add: screen_topic_conn)

lemma leave_topic_conn:
  assumes "conn_ok n s"
  shows "conn_ok n (leave_topic t s)"
proof -
  have "set (asked (leave_topic t s)) \<subseteq> set BIRTH_TOPICS \<union> set (subscribed (leave_topic t s))"
    "open_clients (leave_topic t s) = open_clients s" "mqtt_client (leave_topic t s) = mqtt_client s"
    "mqtt_client s = None \<Longrightarrow> asked (leave_topic t s) = asked s"
    using assms by (auto simp: conn_ok_def leave_topic_def unlisten_def Let_def)
  then show ?thesis using assms leave_topic_ok [of s t] by (simp add: conn_ok_def)
qed

lemma unsubscribeScreen_ok: "conn_ok n s \<Longrightarrow> conn_ok n (unsubscribeScreen ts s)"
  unfolding unsubscribeScreen_def by (induction ts arbitrary: s) (simp_all add: leave_topic_conn)

lemma subscribeScreen_ok: "conn_ok n s \<Longrightarrow> conn_ok n (fst (subscribeScreen now ts s))"
  using screen_topics_conn [of n "(fst (connect_start s), [])" ts] connect_start_ok [of n s]
  by (auto intro: conn_ok_cong [OF subscribeScreen_keeps(2) [symmetric]])

lemma subscribeFirehose_eq:
  "fst (subscribeFirehose s) =
     (let s1 = fst (connect_start s); s2 = s1\<lparr>firehoseRefs := firehoseRefs s1 + 1\<rparr> in
      if firehoseRefs s1 = 0 then listen FIREHOSE_DDATA_TOPIC s2 else s2)"
  by (simp add: subscribeFirehose_def Let_def split: prod.split)

lemma listen_firehose_refs: "refs_ok s \<Longrightarrow> refs_ok (listen FIREHOSE_DDATA_TOPIC (s\<lparr>firehoseRefs := k\<rparr>))"
  by (simp add: refs_ok_def screen_topics_def listen_def)

lemma unlisten_firehose_refs: "refs_ok s \<Longrightarrow> refs_ok (unlisten FIREHOSE_DDATA_TOPIC (s\<lparr>firehoseRefs := 0\<rparr>))"
  by (simp add: refs_ok_def screen_topics_def unlisten_def)

lemma firehose_count_refs: "refs_ok s \<Longrightarrow> 0 < firehoseRefs s \<Longrightarrow> refs_ok (s\<lparr>firehoseRefs := k\<rparr>)"
  by (simp add: refs_ok_def screen_topics_def)

lemma subscribeFirehose_ok:
  assumes "conn_ok n s"
  shows "conn_ok n (fst (subscribeFirehose s))"
proof -
  define s1 where "s1 = fst (connect_start s)"
  from connect_start_ok [OF assms] have s1: "conn_ok n s1" by (simp add: s1_def)
  then have "refs_ok (fst (subscribeFirehose s))"
    by (cases "firehoseRefs s1 = 0")
       (simp_all add: subscribeFirehose_eq s1_def [symmetric] Let_def conn_ok_def listen_firehose_refs firehose_count_refs)
  moreover have "set (asked s') \<subseteq> B \<union> set (subscribed s') \<Longrightarrow> set (asked (listen t s')) \<subseteq> B \<union> set (subscribed (listen t s'))"
    and "mqtt_client s' = None \<Longrightarrow> asked (listen t s') = asked s'" for s' B t
    by (auto simp: listen_def)
  ultimately show ?thesis
    using s1 by (simp add: conn_ok_def subscribeFirehose_eq s1_def [symmetric] Let_def) (simp add: listen_def)
qed

lemma unsubscribeFirehose_ok:
  assumes "conn_ok n s"
  shows "conn_ok n (unsubscribeFirehose s)"
proof -
  have "refs_ok (unsubscribeFirehose s)"
    using assms by (auto simp: unsubscribeFirehose_def conn_ok_def Let_def unlisten_firehose_refs firehose_count_refs
        dest: unlisten_firehose_refs)
  moreover have "set (asked (unsubscribeFirehose s)) \<subseteq> set BIRTH_TOPICS \<union> set (subscribed (unsubscribeFirehose s))"
    using assms by (auto simp: unsubscribeFirehose_def conn_ok_def unlisten_def Let_def)
  ultimately show ?thesis
    using assms by (simp add: conn_ok_def) (simp add: unsubscribeFirehose_def unlisten_def Let_def)
qed

lemma loadSnapshot_seeds:
  assumes "seeds_ok s"
  shows "seeds_ok (loadSnapshot now ds s) \<and> allSnapshotsInFlight (loadSnapshot now ds s) = allSnapshotsInFlight s"
  using assms by (auto simp: loadSnapshot_def seeds_ok_def Let_def)

lemma subscribeScreen_seeds:
  assumes "seeds_ok s"
  shows "seeds_ok (fst (subscribeScreen now ts s)) \<and> allSnapshotsInFlight (fst (subscribeScreen now ts s)) = allSnapshotsInFlight s"
proof -
  define s2 where "s2 = fst (fold screen_topic ts (fst (connect_start s), []))"
  have "seed_part s2 = seed_part s" by (simp add: s2_def)
  then have "seeds_ok s2" "allSnapshotsInFlight s2 = allSnapshotsInFlight s"
    using seeds_ok_cong [of s s2] assms by (simp_all add: seed_part_def)
  with loadSnapshot_seeds [of s2] show ?thesis by (auto simp: subscribeScreen_eq s2_def Let_def)
qed

lemma frame_data: "data_part s' = data_part s \<Longrightarrow> data_ok s \<Longrightarrow> data_ok s'"
  by (rule data_ok_cong) (rule sym)

lemma frame_conn: "conn_part s' = conn_part s \<Longrightarrow> conn_ok n s \<Longrightarrow> conn_ok n s'"
  by (rule conn_ok_cong) (rule sym)

lemma frame_seeds: "seed_part s' = seed_part s \<Longrightarrow> seeds_ok s \<Longrightarrow> seeds_ok s' \<and> allSnapshotsInFlight s' = allSnapshotsInFlight s"
  using seeds_ok_cong [of s s'] by (simp add: seed_part_def)

lemma seed_all_ok:
  assumes "live_world_ok w" and "data_part s = data_part (lw_live w)" and "conn_ok (lw_next w) s" and "seed_part s = seed_part (lw_live w)"
  shows "live_world_ok (seed_all s w)"
proof -
  have "data_ok (fst (loadAllSnapshots now s))" "conn_ok (lw_next w) (fst (loadAllSnapshots now s))" for now
    using assms frame_data [of "fst (loadAllSnapshots now s)" "lw_live w"] frame_conn [of "fst (loadAllSnapshots now s)" s]
    by (simp_all add: live_world_ok_def)
  moreover have "seeds_ok s" "allSnapshotsInFlight s = allSnapshotsInFlight (lw_live w)"
    using assms(1) frame_seeds [OF assms(4)] by (simp_all add: live_world_ok_def)
  ultimately show ?thesis
    using assms(1) by (auto simp: live_world_ok_def seed_all_def Let_def loadAllSnapshots_def seeds_ok_def)
qed

lemma live_world_okI:
  assumes "live_world_ok w" and "data_ok s" and "conn_ok n s" and "seeds_ok s \<and> allSnapshotsInFlight s = allSnapshotsInFlight (lw_live w)"
    and "lw_live w' = s" "lw_next w' = n" "lw_all w' = lw_all w" "lw_requests w' = lw_requests w"
  shows "live_world_ok w'"
  using assms by (simp add: live_world_ok_def)

lemma snapshot_answer_ok:
  "data_ok s \<Longrightarrow> data_ok (snapshot_answer tx now b assets s)"
  "conn_part (snapshot_answer tx now b assets s) = conn_part s" "seed_part (snapshot_answer tx now b assets s) = seed_part s"
  by (simp_all add: snapshot_answer_def applySnapshotAssets_ok frame_data [of "stamp _ _ _"])

lemma all_snapshots_answer_ok:
  assumes "data_ok s" "conn_ok n s" "seeds_ok s"
  shows "data_ok (all_snapshots_answer tx now a s)" "conn_ok n (all_snapshots_answer tx now a s)" "seeds_ok (all_snapshots_answer tx now a s)"
    "\<not> allSnapshotsInFlight (all_snapshots_answer tx now a s)"
proof -
  define s1 where "s1 = (case a of Some assets \<Rightarrow> applySnapshotAssets tx now assets (stamp now (map fst assets) s) | None \<Rightarrow> s)"
  have s1: "data_ok s1" "conn_ok n s1" "seeds_ok s1"
    using assms frame_seeds [of s1 s] frame_conn [of s1 s n]
    by (auto simp: s1_def applySnapshotAssets_ok frame_data [of "stamp _ _ _"] split: option.splits)
  have eq: "all_snapshots_answer tx now a s = s1\<lparr>lastAllSnapshotsAt := now, allSnapshotsInFlight := False\<rparr>"
    by (simp add: all_snapshots_answer_def s1_def)
  show "data_ok (all_snapshots_answer tx now a s)"
    by (rule frame_data [OF _ s1(1)]) (simp add: eq data_part_def)
  show "conn_ok n (all_snapshots_answer tx now a s)"
    by (rule frame_conn [OF _ s1(2)]) (simp add: eq conn_part_def)
  show "seeds_ok (all_snapshots_answer tx now a s)" using s1(3) by (simp add: eq seeds_ok_def)
  show "\<not> allSnapshotsInFlight (all_snapshots_answer tx now a s)" by (simp add: eq)
qed

definition client_event :: "live_event \<Rightarrow> bool" where
  "client_event e = (case e of Connect \<Rightarrow> True | Imported _ _ \<Rightarrow> True | Disconnect \<Rightarrow> True | ClientUp _ \<Rightarrow> True | ClientError _ _ \<Rightarrow> True | ClientOffline _ \<Rightarrow> True | ClientReconnect _ \<Rightarrow> True | _ \<Rightarrow> False)"

lemma client_event_ok:
  assumes "live_exec tx e w = Some w'" and w: "live_world_ok w" and g: "client_event e"
    and d: "data_ok (lw_live w)" and c: "conn_ok (lw_next w) (lw_live w)" and q: "seeds_ok (lw_live w)"
  shows "live_world_ok w'"
proof (cases e)
  case Connect
  show ?thesis by (rule live_world_okI [OF w frame_data [OF _ d] connect_start_ok [OF c] frame_seeds [OF _ q]])
      (use assms Connect in \<open>auto simp: with_import_def\<close>)
next
  case (Imported ok err)
  show ?thesis by (rule live_world_okI [OF w frame_data [OF _ d] import_done_ok [OF c, of ok err] frame_seeds [OF _ q]])
      (use assms Imported in \<open>auto split: if_splits\<close>)
next
  case Disconnect
  show ?thesis by (rule live_world_okI [OF w frame_data [OF _ d] disconnect_ok [OF c] frame_seeds [OF _ q]])
      (use assms Disconnect in auto)
next
  case (ClientUp n)
  have "live_world_ok (seed_all (fst (on_connect (lw_live w))) w)"
    by (rule seed_all_ok [OF w]) (simp_all add: on_connect_ok c)
  moreover have "live_world_ok (w\<lparr>lw_live := fst (on_connect (lw_live w))\<rparr>)"
    by (rule live_world_okI [OF w frame_data [OF _ d] on_connect_ok [OF c] frame_seeds [OF _ q]]) simp_all
  ultimately show ?thesis using assms ClientUp by (auto simp: Let_def split: if_splits)
next
  case (ClientError n err)
  show ?thesis by (rule live_world_okI [OF w frame_data [OF _ d] frame_conn [OF _ c] frame_seeds [OF _ q], of "on_error err (lw_live w)"])
      (use assms ClientError in \<open>auto split: if_splits\<close>)
next
  case (ClientOffline n)
  show ?thesis by (rule live_world_okI [OF w frame_data [OF _ d] on_offline_ok [OF c] frame_seeds [OF _ q]])
      (use assms ClientOffline in \<open>auto split: if_splits\<close>)
next
  case (ClientReconnect n)
  show ?thesis by (rule live_world_okI [OF w frame_data [OF _ d] on_reconnect_ok [OF c] frame_seeds [OF _ q]])
      (use assms ClientReconnect in \<open>auto split: if_splits\<close>)
qed (use g in \<open>simp_all add: client_event_def\<close>)

definition topic_event :: "live_event \<Rightarrow> bool" where
  "topic_event e = (case e of OpenScreen _ \<Rightarrow> True | CloseScreen _ \<Rightarrow> True | Watch \<Rightarrow> True | Unwatch \<Rightarrow> True | Message _ _ \<Rightarrow> True | Flush \<Rightarrow> True | Wait _ \<Rightarrow> True | _ \<Rightarrow> False)"

lemma topic_event_ok:
  assumes "live_exec tx e w = Some w'" and w: "live_world_ok w" and g: "topic_event e"
    and d: "data_ok (lw_live w)" and c: "conn_ok (lw_next w) (lw_live w)" and q: "seeds_ok (lw_live w)"
  shows "live_world_ok w'"
proof (cases e)
  case (Message n msg)
  show ?thesis by (rule live_world_okI [OF w handleMessage_ok [OF d] frame_conn [OF _ c] frame_seeds [OF _ q]])
      (use assms Message in \<open>auto split: if_splits\<close>)
next
  case (OpenScreen ts)
  show ?thesis by (rule live_world_okI [OF w frame_data [OF _ d] subscribeScreen_ok [OF c] subscribeScreen_seeds [OF q]])
      (use assms OpenScreen in \<open>auto simp: with_import_def\<close>)
next
  case (CloseScreen ts)
  show ?thesis by (rule live_world_okI [OF w frame_data [OF _ d] unsubscribeScreen_ok [OF c] frame_seeds [OF _ q]])
      (use assms CloseScreen in auto)
next
  case Watch
  show ?thesis by (rule live_world_okI [OF w frame_data [OF _ d] subscribeFirehose_ok [OF c] frame_seeds [OF _ q]])
      (use assms Watch in \<open>auto simp: with_import_def\<close>)
next
  case Unwatch
  show ?thesis by (rule live_world_okI [OF w frame_data [OF _ d] unsubscribeFirehose_ok [OF c] frame_seeds [OF _ q]])
      (use assms Unwatch in auto)
next
  case Flush
  show ?thesis by (rule live_world_okI [OF w conjunct1 [OF flush_ok [OF d]] frame_conn [OF _ c] frame_seeds [OF _ q]])
      (use assms Flush in \<open>auto split: if_splits\<close>)
next
  case (Wait t)
  then show ?thesis using assms by (auto simp: live_world_ok_def split: if_splits)
qed (use g in \<open>simp_all add: topic_event_def\<close>)

definition seed_event :: "live_event \<Rightarrow> bool" where
  "seed_event e = (case e of Seed _ \<Rightarrow> True | SeedTimer \<Rightarrow> True | SeedAnswer _ _ \<Rightarrow> True | SeedAll \<Rightarrow> True | SeedAllAnswer _ \<Rightarrow> True | _ \<Rightarrow> False)"

lemma seed_event_ok:
  assumes "live_exec tx e w = Some w'" and w: "live_world_ok w" and g: "seed_event e"
    and d: "data_ok (lw_live w)" and c: "conn_ok (lw_next w) (lw_live w)" and q: "seeds_ok (lw_live w)"
  shows "live_world_ok w'"
proof (cases e)
  case (Seed ds)
  show ?thesis by (rule live_world_okI [OF w frame_data [OF _ d] frame_conn [OF _ c] loadSnapshot_seeds [OF q]])
      (use assms Seed in auto)
next
  case SeedTimer
  have "data_ok (fst (snapshot_timer (lw_live w)))" "conn_ok (lw_next w) (fst (snapshot_timer (lw_live w)))"
    by (rule frame_data [OF _ d] frame_conn [OF _ c]; simp)+
  with w SeedTimer assms(1) show ?thesis
    by (auto simp: live_world_ok_def snapshot_timer_def seeds_ok_def Let_def split: if_splits)
next
  case (SeedAnswer i answer)
  define s1 where "s1 = (case answer of None \<Rightarrow> (lw_live w) | Some a \<Rightarrow> snapshot_answer tx (lw_now w) (lw_requests w ! i) a (lw_live w))"
  have "data_ok s1" "conn_part s1 = conn_part (lw_live w)" "seed_part s1 = seed_part (lw_live w)"
    using d by (simp_all add: s1_def snapshot_answer_ok split: option.splits)
  with frame_conn [OF _ c, of s1] frame_seeds [OF _ q, of s1] w SeedAnswer assms(1) show ?thesis
    by (auto simp: live_world_ok_def s1_def [symmetric] split: if_splits dest: in_set_takeD in_set_dropD)
next
  case SeedAll
  then show ?thesis using assms seed_all_ok [OF w refl c refl] by simp
next
  case (SeedAllAnswer answer)
  then show ?thesis
    using assms all_snapshots_answer_ok [OF d c q, of tx "lw_now w" answer]
    by (auto simp: live_world_ok_def split: if_splits)
qed (use g in \<open>simp_all add: seed_event_def\<close>)

lemma live_exec_ok:
  assumes "live_exec tx e w = Some w'" and "live_world_ok w"
  shows "live_world_ok w'"
proof -
  have "client_event e \<or> topic_event e \<or> seed_event e"
    by (cases e) (simp_all add: client_event_def topic_event_def seed_event_def)
  with assms client_event_ok [OF assms] topic_event_ok [OF assms] seed_event_ok [OF assms] show ?thesis
    by (auto simp: live_world_ok_def)
qed

lemma initial_live_world_ok: "live_world_ok (initial_live_world now)"
  by (simp add: live_world_ok_def initial_live_world_def initial_live_def data_ok_def values_ok_def conn_ok_def
      refs_ok_def seeds_ok_def series_ok_def screen_topics_def keys_def)

lemma live_run_ok: "live_run tx es w = Some w' \<Longrightarrow> live_world_ok w \<Longrightarrow> live_world_ok w'"
  by (rule live_run_preserves [where P = live_world_ok]) (auto intro: live_exec_ok)

end
