(* ===== verification/Live_Wired.thy ===== *)
theory Live_Wired
  imports Live_Run
begin

text \<open>
  The connection of the live values over whole runs: the topics listened to are those the open screens hold, a
  connected client has been asked for all of them, and there is one client at most, as long as the store is not
  disconnected during an import.  What such a disconnect leaves behind.
\<close>

section \<open>Holdings\<close>

text \<open>What the screens hold, read off the events alone.\<close>

fun holdings :: "live_event \<Rightarrow> string multiset \<Rightarrow> string multiset" where
  "holdings (OpenScreen ts) M = M + mset (filter counted_topic ts)"
| "holdings (CloseScreen ts) M = M - mset (filter counted_topic ts)"
| "holdings _ M = M"

lemma held_cong: "conn_part s = conn_part s' \<Longrightarrow> held_topics s = held_topics s'"
  by (simp add: conn_part_def held_topics_def)

lemma fold_screen_topic_fst: "fst (fold screen_topic ts acc) = fold screen_acquire ts (fst acc)"
proof (induction ts arbitrary: acc)
  case (Cons t ts)
  have "fst (screen_topic t acc) = screen_acquire t (fst acc)" by (simp add: screen_topic_def Let_def)
  with Cons show ?case by simp
qed simp

lemma held_subscribeScreen:
  assumes "refs_ok s"
  shows "held_topics (fst (subscribeScreen now ts s)) = held_topics s + mset (filter counted_topic ts)"
proof -
  let ?s1 = "fst (connect_start s)"
  have s1: "refs_ok ?s1" "held_topics ?s1 = held_topics s"
    using assms refs_ok_cong [of ?s1 s] by (simp_all add: connect_start_def held_topics_def)
  have "held_topics (fst (subscribeScreen now ts s)) = held_topics (fold screen_acquire ts ?s1)"
    by (rule held_cong) (simp add: fold_screen_topic_fst)
  then show ?thesis using screens.acquire_all [OF s1(1), of ts] s1(2) by simp
qed

lemma held_unsubscribeScreen:
  "refs_ok s \<Longrightarrow> held_topics (unsubscribeScreen ts s) = held_topics s - mset (filter counted_topic ts)"
  using screens.release_all [of s ts] by (simp add: unsubscribeScreen_def)

lemma held_connection [simp]:
  "held_topics (fst (connect_start s)) = held_topics s" "held_topics (import_done ok n err s) = held_topics s"
  "held_topics (disconnect_live s) = held_topics s" "held_topics (fst (on_connect s)) = held_topics s"
  "held_topics (on_offline s) = held_topics s" "held_topics (on_reconnect s) = held_topics s"
  "held_topics (fst (subscribeFirehose s)) = held_topics s" "held_topics (unsubscribeFirehose s) = held_topics s"
  by (simp_all add: held_topics_def connect_start_def import_done_def disconnect_live_def on_connect_def on_offline_def
      on_reconnect_def subscribeFirehose_def unsubscribeFirehose_def listen_def unlisten_def Let_def split: prod.split)

lemma all_snapshots_conn [simp]: "conn_part (all_snapshots_answer tx now a s) = conn_part s"
proof -
  have *: "conn_part (s\<lparr>lastAllSnapshotsAt := t, allSnapshotsInFlight := b\<rparr>) = conn_part s" for s t b by (simp add: conn_part_def)
  show ?thesis by (simp add: all_snapshots_answer_def * split: option.split)
qed

text \<open>The events that leave the connection alone.\<close>

lemma live_exec_conn:
  assumes "live_exec tx e w = Some w'" and "\<not> client_event e" and "\<nexists>ts. e = OpenScreen ts \<or> e = CloseScreen ts"
    and "e \<noteq> Watch" "e \<noteq> Unwatch"
  shows "conn_part (lw_live w') = conn_part (lw_live w)" "lw_imports w' = lw_imports w"
  using assms
  by (cases e; auto simp: client_event_def seed_all_def Let_def snapshot_answer_ok split: if_splits option.splits)+

lemma seed_all_conn [simp]: "conn_part (lw_live (seed_all s w)) = conn_part s" "lw_imports (seed_all s w) = lw_imports w"
  by (simp_all add: seed_all_def Let_def)

lemma held_exec:
  assumes "live_exec tx e w = Some w'" and "live_world_ok w"
  shows "held_topics (lw_live w') = holdings e (held_topics (lw_live w))"
proof -
  have ok: "refs_ok (lw_live w)" using assms(2) by (auto simp: live_world_ok_def intro: conn_ok_refs)
  have seed: "held_topics (lw_live (seed_all s w)) = held_topics s" for s by (rule held_cong) simp
  have err: "held_topics (on_error err s) = held_topics s" for err s by (rule held_cong) simp
  show ?thesis
  proof (cases "client_event e \<or> (\<exists>ts. e = OpenScreen ts \<or> e = CloseScreen ts) \<or> e = Watch \<or> e = Unwatch")
    case True
    with assms(1) ok show ?thesis
      by (cases e) (auto simp: client_event_def with_import_def held_subscribeScreen held_unsubscribeScreen seed err Let_def
          split: if_splits)
  next
    case False
    with live_exec_conn [OF assms(1)] have "held_topics (lw_live w') = held_topics (lw_live w)" by (auto intro: held_cong)
    with False show ?thesis by (cases e) auto
  qed
qed

lemma held_run:
  "live_run tx es w = Some w' \<Longrightarrow> live_world_ok w \<Longrightarrow> held_topics (lw_live w') = fold holdings es (held_topics (lw_live w))"
proof (induction es arbitrary: w)
  case (Cons e es)
  then obtain w1 where "live_exec tx e w = Some w1" "live_run tx es w1 = Some w'" by (auto split: option.splits)
  with Cons held_exec [of tx e w w1] live_exec_ok [of tx e w w1] show ?case by simp
qed simp

section \<open>One client, asked for everything\<close>

fun settled :: "(js_val \<Rightarrow> string) \<Rightarrow> live_event list \<Rightarrow> live_world \<Rightarrow> bool" where
  "settled tx [] w = True"
| "settled tx (e # es) w =
     ((e = Disconnect \<longrightarrow> lw_imports w = 0) \<and> (case live_exec tx e w of Some w' \<Rightarrow> settled tx es w' | None \<Rightarrow> True))"

definition wired_store :: "nat \<Rightarrow> live \<Rightarrow> bool" where
  "wired_store imports s \<longleftrightarrow> imports = (if connecting s then 1 else 0) \<and> (connecting s \<longrightarrow> mqtt_client s = None)
     \<and> open_clients s = (case mqtt_client s of None \<Rightarrow> [] | Some n \<Rightarrow> [n])
     \<and> (connected s \<longrightarrow> mqtt_client s \<noteq> None \<and> set (subscribed s) \<subseteq> set (asked s))"

abbreviation wired :: "live_world \<Rightarrow> bool" where
  "wired w \<equiv> wired_store (lw_imports w) (lw_live w)"

lemma wired_cong: "conn_part s' = conn_part s \<Longrightarrow> wired_store i s' = wired_store i s"
  by (simp add: wired_store_def conn_part_def)

lemma wired_connect: "wired_store i s \<Longrightarrow> wired_store (i + (if snd (connect_start s) then 1 else 0)) (fst (connect_start s))"
  by (auto simp: wired_store_def connect_start_def split: option.splits)

lemma wired_import: "wired_store i s \<Longrightarrow> 0 < i \<Longrightarrow> wired_store (i - 1) (import_done ok n err s)"
  by (auto simp: wired_store_def import_done_def split: if_splits option.splits)

lemma wired_disconnect: "wired_store 0 s \<Longrightarrow> wired_store 0 (disconnect_live s)"
  by (auto simp: wired_store_def disconnect_live_def split: option.splits)

lemma wired_client_events:
  "wired_store i s \<Longrightarrow> n \<in> set (open_clients s) \<Longrightarrow> wired_store i (fst (on_connect s))"
  "wired_store i s \<Longrightarrow> wired_store i (on_error err s)"
  "wired_store i s \<Longrightarrow> wired_store i (on_offline s)"
  "wired_store i s \<Longrightarrow> wired_store i (on_reconnect s)"
  by (auto simp: wired_store_def on_connect_def on_error_def on_offline_def on_reconnect_def Let_def split: option.splits)

lemma wired_listen: "wired_store i s \<Longrightarrow> wired_store i (listen t s)"
  by (auto simp: wired_store_def listen_def)

lemma wired_unlisten: "wired_store i s \<Longrightarrow> wired_store i (unlisten t s)"
  by (auto simp: wired_store_def unlisten_def)

lemma wired_counts [simp]:
  "wired_store i (s\<lparr>screenRefs := r\<rparr>) = wired_store i s" "wired_store i (s\<lparr>firehoseRefs := k\<rparr>) = wired_store i s"
  by (simp_all add: wired_store_def)

lemma wired_screen_acquire: "wired_store i s \<Longrightarrow> wired_store i (screen_acquire t s)"
  by (simp add: screen_topic_def Let_def wired_listen)

lemma wired_leave: "wired_store i s \<Longrightarrow> wired_store i (leave_topic t s)"
  by (simp add: leave_topic_def Let_def wired_unlisten)

lemma wired_folds:
  "wired_store i s \<Longrightarrow> wired_store i (fold screen_acquire ts s)" "wired_store i s \<Longrightarrow> wired_store i (unsubscribeScreen ts s)"
  unfolding unsubscribeScreen_def by (induction ts arbitrary: s) (simp_all add: wired_screen_acquire wired_leave)

lemma wired_firehose:
  assumes "wired_store i s"
  shows "wired_store (i + (if snd (subscribeFirehose s) then 1 else 0)) (fst (subscribeFirehose s))"
    and "wired_store i (unsubscribeFirehose s)"
proof -
  have "snd (subscribeFirehose s) = snd (connect_start s)"
    by (simp add: subscribeFirehose_def Let_def split: prod.split)
  with wired_connect [OF assms] show "wired_store (i + (if snd (subscribeFirehose s) then 1 else 0)) (fst (subscribeFirehose s))"
    by (simp add: subscribeFirehose_eq Let_def wired_listen)
  show "wired_store i (unsubscribeFirehose s)"
    using assms by (simp add: unsubscribeFirehose_def Let_def wired_unlisten)
qed

lemma wired_screen: "wired_store i s \<Longrightarrow> wired_store (i + (if snd (subscribeScreen now ts s) then 1 else 0)) (fst (subscribeScreen now ts s))"
proof -
  assume "wired_store i s"
  from wired_folds(1) [OF wired_connect [OF this], of ts] have
    "wired_store (i + (if snd (connect_start s) then 1 else 0)) (fst (subscribeScreen now ts s))"
    unfolding wired_cong [OF subscribeScreen_keeps(2)] fold_screen_topic_fst by simp
  moreover have "snd (subscribeScreen now ts s) = snd (connect_start s)" by (simp add: subscribeScreen_eq Let_def)
  ultimately show ?thesis by simp
qed

lemma wired_with_import:
  "wired_store (lw_imports w + (if snd sb then 1 else 0)) (fst sb) \<Longrightarrow> wired (with_import sb w)"
  by (simp add: with_import_def)

lemma wired_seed_all: "wired_store (lw_imports w) s \<Longrightarrow> wired (seed_all s w)"
  unfolding wired_cong [OF seed_all_conn(1)] by simp

lemma wired_exec:
  assumes "live_exec tx e w = Some w'" and "wired w" and "e = Disconnect \<longrightarrow> lw_imports w = 0"
  shows "wired w'"
proof (cases "client_event e \<or> (\<exists>ts. e = OpenScreen ts \<or> e = CloseScreen ts) \<or> e = Watch \<or> e = Unwatch")
  case True
  with assms show ?thesis
    by (cases e)
       (auto simp: client_event_def Let_def wired_import wired_disconnect wired_client_events wired_folds wired_firehose(2)
          intro: wired_with_import wired_connect wired_screen wired_firehose(1) wired_seed_all split: if_splits
          simp del: One_nat_def)
next
  case False
  with live_exec_conn [OF assms(1)]
  have "conn_part (lw_live w') = conn_part (lw_live w)" "lw_imports w' = lw_imports w" by auto
  with wired_cong [OF this(1), of "lw_imports w"] assms(2) show ?thesis by simp
qed

lemma wired_run: "live_run tx es w = Some w' \<Longrightarrow> settled tx es w \<Longrightarrow> wired w \<Longrightarrow> wired w'"
proof (induction es arbitrary: w)
  case (Cons e es)
  then obtain w1 where "live_exec tx e w = Some w1" "live_run tx es w1 = Some w'" by (auto split: option.splits)
  with Cons wired_exec [of tx e w w1] show ?case by simp
qed simp

lemma wired_initial: "wired (initial_live_world now)"
  by (simp add: initial_live_world_def initial_live_def wired_store_def)

section \<open>A client nobody knows\<close>

definition orphan :: "nat \<Rightarrow> live_world \<Rightarrow> bool" where
  "orphan n w \<longleftrightarrow> n \<in> set (open_clients (lw_live w)) \<and> mqtt_client (lw_live w) \<noteq> Some n \<and> n < lw_next w"

lemma clients_kept:
  "open_clients (fold screen_acquire ts s) = open_clients s" "mqtt_client (fold screen_acquire ts s) = mqtt_client s"
  "open_clients (unsubscribeScreen ts s) = open_clients s" "mqtt_client (unsubscribeScreen ts s) = mqtt_client s"
  unfolding unsubscribeScreen_def
  by (rule fold_keeps; simp add: screen_topic_def leave_topic_def listen_def unlisten_def Let_def)+

lemma subscribeScreen_clients:
  "open_clients (fst (subscribeScreen now ts s)) = open_clients s" "mqtt_client (fst (subscribeScreen now ts s)) = mqtt_client s"
proof -
  have "conn_part (fst (subscribeScreen now ts s)) = conn_part (fold screen_acquire ts (fst (connect_start s)))"
    by (simp add: fold_screen_topic_fst)
  then show "open_clients (fst (subscribeScreen now ts s)) = open_clients s" "mqtt_client (fst (subscribeScreen now ts s)) = mqtt_client s"
    by (simp_all add: conn_part_def clients_kept) (simp_all add: connect_start_def)
qed

lemma seed_all_clients:
  "open_clients (lw_live (seed_all s w)) = open_clients s" "mqtt_client (lw_live (seed_all s w)) = mqtt_client s"
  "lw_next (seed_all s w) = lw_next w"
  using seed_all_conn(1) [of s w] by (simp_all add: conn_part_def) (simp add: seed_all_def Let_def)

lemma orphan_exec:
  assumes "live_exec tx e w = Some w'" and "orphan n w"
  shows "orphan n w'"
proof (cases "client_event e \<or> (\<exists>ts. e = OpenScreen ts \<or> e = CloseScreen ts) \<or> e = Watch \<or> e = Unwatch")
  case True
  with assms show ?thesis
    by (cases e)
       (auto simp: client_event_def orphan_def with_import_def connect_start_def import_done_def disconnect_live_def
          on_connect_def on_error_def on_offline_def on_reconnect_def subscribeFirehose_def unsubscribeFirehose_def
          listen_def unlisten_def clients_kept subscribeScreen_clients seed_all_clients Let_def
          split: if_splits option.splits)
next
  case False
  with live_exec_conn [OF assms(1)] have "conn_part (lw_live w') = conn_part (lw_live w)" by auto
  moreover have "lw_next w' = lw_next w"
    using assms(1) False by (cases e) (auto simp: client_event_def seed_all_def Let_def split: if_splits)
  ultimately show ?thesis using assms(2) by (simp add: orphan_def conn_part_def)
qed

lemma orphan_run: "live_run tx es w = Some w' \<Longrightarrow> orphan n w \<Longrightarrow> orphan n w'"
  by (rule live_run_preserves [where P = "orphan n"]) (auto intro: orphan_exec)

end
