(* ===== verification/Live_Props.thy ===== *)
theory Live_Props
  imports Live_Wired
begin

text \<open>
  What the live values promise over whole runs: their invariants, the subscriptions of the open screens, and the
  client that a disconnect during an import leaves behind.
\<close>

section \<open>Invariants\<close>

text \<open>
  C6. After every sequence of connections, messages, screens, snapshots and flushes: at most 4000 chart buffers of
  at most 2000 samples each, every buffer in strictly increasing time; a live alarm is stored under its own
  device and is not cleared; buffered updates have their flush timer and collected devices their request timer; at most one
  request for all snapshots is out; no client is listed twice.
\<close>

theorem live_store_invariant:
  assumes "live_run tx es (initial_live_world now) = Some w"
  shows "length (liveSeries (lw_live w)) \<le> LIVE_SERIES_KEY_CAP
      \<and> (\<forall>kb \<in> set (liveSeries (lw_live w)). length (snd kb) \<le> LIVE_SERIES_CAP \<and> sorted_wrt (<) (map fst (snd kb)))
      \<and> (\<forall>da \<in> set (liveAlarms (lw_live w)). la_alarmId (snd da) = fst da \<and> la_state (snd da) \<noteq> ''CLEARED'')
      \<and> distinct (keys (metrics (lw_live w))) \<and> distinct (keys (liveAlarms (lw_live w)))
      \<and> (pendingMetrics (lw_live w) \<noteq> [] \<or> pendingAlarmDevices (lw_live w) \<noteq> [] \<longrightarrow> flushTimer (lw_live w))
      \<and> (pendingSnapshotDevices (lw_live w) \<noteq> [] \<longrightarrow> snapshotBatchTimer (lw_live w))
      \<and> lw_all w \<le> 1 \<and> distinct (open_clients (lw_live w))"
proof -
  have "live_world_ok w" using live_run_ok [OF assms initial_live_world_ok] .
  then show ?thesis
    by (auto simp: live_world_ok_def data_ok_def values_ok_def series_ok_def seeds_ok_def conn_ok_def split: if_splits)
qed

definition demo_text :: "js_val \<Rightarrow> string" where
  "demo_text v = (case v of VBool True \<Rightarrow> ''true'' | VBool False \<Rightarrow> ''false'' | _ \<Rightarrow> ''0'')"

definition plain_metric :: "string \<Rightarrow> js_val \<Rightarrow> spark_metric" where
  "plain_metric n v = \<lparr>sm_name = Some n, sm_alias = None, sm_value = v, sm_properties = []\<rparr>"

definition ddata :: "rat \<Rightarrow> spark_metric list \<Rightarrow> spark_message" where
  "ddata ts ms = \<lparr>msg_topic = ''spBv1.0/S/DDATA/E/P1'', msg_timestamp = Some ts, msg_metrics = ms\<rparr>"

definition demo_events :: "live_event list" where
  "demo_events =
     [Connect, Imported True [], ClientUp 0, OpenScreen [''spBv1.0/S/DDATA/E/P1''],
      Message 0 (ddata 10 [plain_metric ''pv'' (VNum 5), plain_metric ''state'' (VStr ''ACTIVE'')]),
      Message 0 (ddata 12 [plain_metric ''pv'' (VNum 6)])]"

definition demo_ok :: "live_world option \<Rightarrow> bool" where
  "demo_ok r = (case r of None \<Rightarrow> False
     | Some w \<Rightarrow> length (liveSeries (lw_live w)) = 1 \<and> flushTimer (lw_live w) \<and> connected (lw_live w))"

lemma demo_computes:
  "demo_ok (live_run demo_text demo_events (initial_live_world 100)) \<and> settled demo_text demo_events (initial_live_world 100)"
  by code_simp

lemma demo_run: "\<exists>w. live_run demo_text demo_events (initial_live_world 100) = Some w
    \<and> length (liveSeries (lw_live w)) = 1 \<and> flushTimer (lw_live w) \<and> connected (lw_live w)
    \<and> settled demo_text demo_events (initial_live_world 100)"
  using demo_computes by (auto simp: demo_ok_def split: option.splits)

theorem live_store_invariant_witness:
  "\<exists>w. live_run demo_text demo_events (initial_live_world 100) = Some w
    \<and> length (liveSeries (lw_live w)) = 1 \<and> length (liveSeries (lw_live w)) \<le> LIVE_SERIES_KEY_CAP"
  using demo_run live_store_invariant [of demo_text demo_events 100] by blast

section \<open>Subscriptions\<close>



text \<open>
  A topic that a screen still holds is not lost when another screen with the same topic closes, and a screen
  that opens and closes leaves the other subscriptions as they were.
\<close>

theorem closing_keeps_other_screens:
  assumes "live_run tx es (initial_live_world now) = Some w"
  shows "(\<forall>t ts. count (mset ts) t < count (fold holdings es {#}) t \<longrightarrow> t \<in> screen_topics (unsubscribeScreen ts (lw_live w)))
      \<and> (\<forall>ts later. screen_topics (unsubscribeScreen ts (fst (subscribeScreen later ts (lw_live w)))) = screen_topics (lw_live w))"
proof -
  have ok: "conn_ok (lw_next w) (lw_live w)"
    using live_run_ok [OF assms initial_live_world_ok] by (simp add: live_world_ok_def)
  have "held_topics (lw_live (initial_live_world now)) = {#}"
    by (simp add: held_topics_def initial_live_world_def initial_live_def)
  with held_run [OF assms initial_live_world_ok] have held: "held_topics (lw_live w) = fold holdings es {#}" by simp
  have "t \<in> screen_topics (unsubscribeScreen ts (lw_live w))" if "count (mset ts) t < count (fold holdings es {#}) t" for t ts
    using screens.survivor [OF conn_ok_refs [OF ok]] that unfolding held unsubscribeScreen_def by blast
  moreover have "screen_topics (unsubscribeScreen ts (fst (subscribeScreen later ts (lw_live w)))) = screen_topics (lw_live w)" for ts later
  proof -
    let ?s = "fst (subscribeScreen later ts (lw_live w))"
    have s: "refs_ok ?s" using subscribeScreen_ok [OF ok] by (rule conn_ok_refs)
    then have u: "refs_ok (unsubscribeScreen ts ?s)"
      using screens.release_all [OF s, of ts] by (simp add: unsubscribeScreen_def)
    have "held_topics (unsubscribeScreen ts ?s) = held_topics (lw_live w)"
      using held_unsubscribeScreen [OF s] held_subscribeScreen [OF conn_ok_refs [OF ok]] by simp
    with u conn_ok_refs [OF ok] show ?thesis by (simp add: active_screen_topics)
  qed
  ultimately show ?thesis by blast
qed

section \<open>Disconnecting during an import\<close>

text \<open>
  A store that is disconnected while its imports are under way still gets its client: a console that was
  signed out goes on receiving.  If it connects again before they are done, two clients are opened, and the
  first one stays open and delivers for ever: nothing closes it.
\<close>

theorem disconnect_during_import:
  assumes "wired w" and "connecting (lw_live w)"
  shows "(\<exists>w'. live_run tx [Disconnect, Imported True err] w = Some w' \<and> mqtt_client (lw_live w') = Some (lw_next w)
          \<and> (\<forall>msg. live_exec tx (Message (lw_next w) msg) w' \<noteq> None))
      \<and> (\<exists>w'. live_run tx [Disconnect, Connect, Imported True err, Imported True err'] w = Some w'
          \<and> (\<forall>es w''. live_run tx es w' = Some w'' \<longrightarrow> lw_next w \<in> set (open_clients (lw_live w''))
              \<and> mqtt_client (lw_live w'') \<noteq> Some (lw_next w) \<and> (\<forall>msg. live_exec tx (Message (lw_next w) msg) w'' \<noteq> None)))"
proof -
  let ?n = "lw_next w"
  from assms have start: "lw_imports w = 1" "mqtt_client (lw_live w) = None" "open_clients (lw_live w) = []"
    by (auto simp: wired_store_def)
  define w2 where "w2 = w\<lparr>lw_live := import_done True (Suc ?n) err' (import_done True ?n err
      ((disconnect_live (lw_live w))\<lparr>connecting := True\<rparr>)), lw_imports := 0, lw_next := Suc (Suc ?n)\<rparr>"
  have w2: "live_run tx [Disconnect, Connect, Imported True err, Imported True err'] w = Some w2"
    by (simp add: start w2_def with_import_def connect_start_def disconnect_live_def)
  have "orphan ?n w2" by (simp add: w2_def orphan_def import_done_def disconnect_live_def start)
  then have "orphan ?n w''" if "live_run tx es w2 = Some w''" for es w'' using orphan_run that by blast
  then have "\<forall>es w''. live_run tx es w2 = Some w'' \<longrightarrow> ?n \<in> set (open_clients (lw_live w''))
      \<and> mqtt_client (lw_live w'') \<noteq> Some ?n \<and> (\<forall>msg. live_exec tx (Message ?n msg) w'' \<noteq> None)"
    by (auto simp: orphan_def)
  with w2 show ?thesis by (auto simp: start import_done_def disconnect_live_def)
qed

theorem disconnect_during_import_witness:
  "\<exists>w w'. live_run demo_text [Connect] (initial_live_world 0) = Some w
    \<and> live_run demo_text [Disconnect, Imported True []] w = Some w' \<and> mqtt_client (lw_live w') = Some 0"
proof -
  define w where "w = with_import (connect_start initial_live) (initial_live_world 0)"
  have run: "live_run demo_text [Connect] (initial_live_world 0) = Some w"
    by (simp add: w_def initial_live_world_def)
  then have "wired w" by (rule wired_run [OF _ _ wired_initial]) simp
  have "connecting (lw_live w)" and next0: "lw_next w = 0"
    by (simp_all add: w_def with_import_def connect_start_def initial_live_def initial_live_world_def)
  from disconnect_during_import [OF \<open>wired w\<close> this(1), of demo_text "[]" "[]"]
  obtain w' where "live_run demo_text [Disconnect, Imported True []] w = Some w'" "mqtt_client (lw_live w') = Some 0"
    unfolding next0 by blast
  with run show ?thesis by blast
qed

end
