(* ===== verification/Live_Flush.thy ===== *)
theory Live_Flush
  imports Live_Run
begin

text \<open>
  Coalescing of data messages (scheduleFlush and the DDATA branch of handleMessage in store/mqttStore.ts) against
  a store that applies every metric at once: what the next flush shows is the same.
\<close>

section \<open>The immediate store\<close>

definition eager_metric ::
  "(js_val \<Rightarrow> string) \<Rightarrow> (int \<times> string) list \<Rightarrow> string \<Rightarrow> rat \<Rightarrow> live \<Rightarrow> spark_metric \<Rightarrow> live" where
  "eager_metric tx aliases device ts s m =
     (let name = metric_name aliases m; lm = metricFromSparkplug m ts; key = metric_key device name;
          s = s\<lparr>metrics := AList.update key lm (metrics s),
                liveSeries := pushLiveSample key (nullish (lm_ts lm) 0) (sm_value m) (liveSeries s)\<rparr> in
      if set_mem ALARM_FIELDS name then alarm_of_device tx s (device, ts) else s)"

definition eager_message :: "(js_val \<Rightarrow> string) \<Rightarrow> rat \<Rightarrow> spark_message \<Rightarrow> live \<Rightarrow> live" where
  "eager_message tx now msg s =
     (if topic_part (msg_topic msg) 2 = Some ''DDATA''
      then foldl (eager_metric tx (aliasMap s) (nullish (topic_part (msg_topic msg) 4) []) (nullish (msg_timestamp msg) now)) s (msg_metrics msg)
      else handleMessage now msg s)"

text \<open>A stream of deliveries (with the time of arrival) and flushes, coalesced and immediate.\<close>

type_synonym stream = "(rat \<times> spark_message) option list"

definition coalesced :: "(js_val \<Rightarrow> string) \<Rightarrow> stream \<Rightarrow> live \<Rightarrow> live" where
  "coalesced tx xs s = foldl (\<lambda>s x. case x of Some (now, msg) \<Rightarrow> handleMessage now msg s | None \<Rightarrow> flush_live tx s) s xs"

definition immediate :: "(js_val \<Rightarrow> string) \<Rightarrow> stream \<Rightarrow> live \<Rightarrow> live" where
  "immediate tx xs s = foldl (\<lambda>s x. case x of Some (now, msg) \<Rightarrow> eager_message tx now msg s | None \<Rightarrow> s) s xs"

section \<open>The alarm of a device\<close>

definition alarm_view :: "(js_val \<Rightarrow> string) \<Rightarrow> string \<Rightarrow> rat \<Rightarrow> (string \<times> live_metric) list \<Rightarrow> live_alarm option" where
  "alarm_view tx d ts ms =
     (let a = buildLiveAlarmFromMetrics tx d ms (Some ts) in if la_state a = ''CLEARED'' then None else Some a)"

lemma build_cong:
  assumes "\<And>f. f \<in> set ALARM_FIELDS \<Longrightarrow> map_of ms (metric_key d f) = map_of ms' (metric_key d f)"
  shows "buildLiveAlarmFromMetrics tx d ms ts = buildLiveAlarmFromMetrics tx d ms' ts"
proof -
  have eqs: "map_of ms (metric_key d ''state'') = map_of ms' (metric_key d ''state'')"
    "map_of ms (metric_key d ''severity'') = map_of ms' (metric_key d ''severity'')"
    "map_of ms (metric_key d ''acknowledged'') = map_of ms' (metric_key d ''acknowledged'')"
    "map_of ms (metric_key d ''priority'') = map_of ms' (metric_key d ''priority'')"
    "map_of ms (metric_key d ''sourceName'') = map_of ms' (metric_key d ''sourceName'')"
    "map_of ms (metric_key d ''conditionName'') = map_of ms' (metric_key d ''conditionName'')"
    "map_of ms (metric_key d ''message'') = map_of ms' (metric_key d ''message'')"
    by (rule assms; simp add: ALARM_FIELDS_def)+
  show ?thesis unfolding buildLiveAlarmFromMetrics_def Let_def by (simp only: eqs)
qed

lemma alarm_view_cong:
  "(\<And>f. f \<in> set ALARM_FIELDS \<Longrightarrow> map_of ms (metric_key d f) = map_of ms' (metric_key d f)) \<Longrightarrow> alarm_view tx d ts ms = alarm_view tx d ts ms'"
  using build_cong [of ms d ms'] by (simp add: alarm_view_def)

text \<open>A device is one level of a topic, so it has no slash and a key has one reading.\<close>

lemma key_inj:
  assumes "CHR ''/'' \<notin> set d" "CHR ''/'' \<notin> set d'" and "metric_key d n = metric_key d' n'"
  shows "d = d' \<and> n = n'"
proof -
  have "takeWhile (\<lambda>c. c \<noteq> CHR ''/'') (x @ CHR ''/'' # y) = x" if "CHR ''/'' \<notin> set x" for x y
    using that by (induction x) auto
  with assms have "d = d'" by (metis append_Cons append_Nil metric_key_def append_assoc)
  with assms(3) show ?thesis by (simp add: metric_key_def)
qed

lemma js_split_parts: "w \<in> set (js_split c s) \<Longrightarrow> c \<notin> set w"
proof (induction s arbitrary: w)
  case (Cons x s)
  obtain v vs where "js_split c s = v # vs" by (cases "js_split c s") simp_all
  with Cons show ?case by (auto split: if_splits)
qed simp

lemma topic_device_plain: "CHR ''/'' \<notin> set (nullish (topic_part topic i) [])"
  by (auto simp: topic_part_def Let_def dest: js_split_parts [OF nth_mem])

lemma set_mem_alarm: "set_mem ALARM_FIELDS n \<longleftrightarrow> n \<in> set ALARM_FIELDS"
  by (simp add: set_mem_def)

lemma liveAlarms_alarm_of_device:
  "map_of (liveAlarms (alarm_of_device tx s dt)) = (map_of (liveAlarms s)) (fst dt := alarm_view tx (fst dt) (snd dt) (metrics s))"
  by (auto simp: alarm_of_device_def alarm_view_def Let_def map_simps fun_eq_iff)

lemma alarm_of_device_rest [simp]:
  "metrics (alarm_of_device tx s dt) = metrics s" "liveSeries (alarm_of_device tx s dt) = liveSeries s"
  "aliasMap (alarm_of_device tx s dt) = aliasMap s" "pendingMetrics (alarm_of_device tx s dt) = pendingMetrics s"
  "pendingAlarmDevices (alarm_of_device tx s dt) = pendingAlarmDevices s"
  by (simp_all add: alarm_of_device_def Let_def)

section \<open>The simulation\<close>

text \<open>
  The immediate store \<open>e\<close> beside the coalescing store \<open>s\<close>: its metrics are those of \<open>s\<close> overridden by the
  pending ones, the alarms of the pending devices are up to date in \<open>e\<close>, the others agree.
\<close>

definition ahead :: "(js_val \<Rightarrow> string) \<Rightarrow> live \<Rightarrow> live \<Rightarrow> bool" where
  "ahead tx s e \<longleftrightarrow> map_of (metrics e) = map_of (metrics s) ++ map_of (pendingMetrics s)
     \<and> (\<forall>d. map_of (liveAlarms e) d = (case map_of (pendingAlarmDevices s) d of
            Some ts \<Rightarrow> alarm_view tx d ts (metrics e) | None \<Rightarrow> map_of (liveAlarms s) d))
     \<and> (\<forall>d \<in> set (keys (pendingAlarmDevices s)). CHR ''/'' \<notin> set d)
     \<and> distinct (keys (pendingMetrics s)) \<and> distinct (keys (pendingAlarmDevices s))
     \<and> liveSeries e = liveSeries s \<and> aliasMap e = aliasMap s"

lemma ahead_metric:
  assumes "ahead tx s e" and d: "CHR ''/'' \<notin> set d"
  shows "ahead tx (data_metric al d ts s m) (eager_metric tx al d ts e m)"
proof -
  let ?n = "metric_name al m" and ?lm = "metricFromSparkplug m ts"
  let ?ms = "AList.update (metric_key d ?n) ?lm (metrics e)"
  have ms: "map_of ?ms = map_of (metrics s) ++ map_of (AList.update (metric_key d ?n) ?lm (pendingMetrics s))"
    using assms(1) by (auto simp: ahead_def map_simps fun_eq_iff map_add_def)
  have same: "alarm_view tx d' t ?ms = alarm_view tx d' t (metrics e)"
    if "d' \<in> set (keys (pendingAlarmDevices s))" "d' = d \<longrightarrow> ?n \<notin> set ALARM_FIELDS" for d' t
  proof (rule alarm_view_cong)
    fix f assume "f \<in> set ALARM_FIELDS"
    with that assms(1) have "metric_key d' f \<noteq> metric_key d ?n" using key_inj [OF _ d, of d' f ?n] by (auto simp: ahead_def)
    then show "map_of ?ms (metric_key d' f) = map_of (metrics e) (metric_key d' f)" by (simp add: map_simps)
  qed
  have known: "map_of (pendingAlarmDevices s) d' = Some t \<Longrightarrow> d' \<in> set (keys (pendingAlarmDevices s))" for d' t
    by (simp add: set_keys)
  show ?thesis
  proof (cases "?n \<in> set ALARM_FIELDS")
    case True
    with assms ms same known show ?thesis
      by (auto simp: ahead_def data_metric_def eager_metric_def set_mem_alarm Let_def liveAlarms_alarm_of_device map_simps
          distinct_keys_update split: option.splits)
  next
    case False
    with assms ms same known show ?thesis
      by (auto simp: ahead_def data_metric_def eager_metric_def set_mem_alarm Let_def distinct_keys_update split: option.splits)
  qed
qed

lemma map_of_foldl_update:
  "distinct (keys kvs) \<Longrightarrow> map_of (foldl (\<lambda>m (k, v). AList.update k v m) m kvs) = map_of m ++ map_of kvs"
proof (induction kvs arbitrary: m)
  case (Cons kv kvs)
  obtain k v where kv: "kv = (k, v)" by (cases kv)
  with Cons.prems have "k \<notin> dom (map_of kvs)" by (simp add: keys_def dom_map_of_conv_image_fst)
  with Cons kv show ?case by (auto simp: keys_def map_simps fun_eq_iff map_add_def split: option.splits)
qed simp

lemma alarms_of_devices:
  "distinct (keys ds) \<Longrightarrow> map_of (liveAlarms (foldl (alarm_of_device tx) s ds)) d =
     (case map_of ds d of Some ts \<Rightarrow> alarm_view tx d ts (metrics s) | None \<Rightarrow> map_of (liveAlarms s) d)"
proof (induction ds arbitrary: s)
  case (Cons dt ds)
  then have "map_of ds (fst dt) = None" by (simp add: keys_def map_of_eq_None_iff)
  with Cons show ?case by (cases dt) (auto simp: keys_def liveAlarms_alarm_of_device split: option.splits)
qed simp

lemma alarms_of_devices_rest [simp]:
  "metrics (foldl (alarm_of_device tx) s ds) = metrics s" "liveSeries (foldl (alarm_of_device tx) s ds) = liveSeries s"
  "aliasMap (foldl (alarm_of_device tx) s ds) = aliasMap s" "pendingMetrics (foldl (alarm_of_device tx) s ds) = pendingMetrics s"
  "pendingAlarmDevices (foldl (alarm_of_device tx) s ds) = pendingAlarmDevices s"
  by (rule foldl_keeps; simp)+

lemma metrics_flush: "metrics (flush_live tx s) = foldl (\<lambda>m (k, v). AList.update k v m) (metrics s) (pendingMetrics s)"
  by (simp add: flush_live_def Let_def)

lemma flush_view:
  assumes "distinct (keys (pendingMetrics s))" and "distinct (keys (pendingAlarmDevices s))"
  shows "map_of (metrics (flush_live tx s)) = map_of (metrics s) ++ map_of (pendingMetrics s)"
    and "map_of (liveAlarms (flush_live tx s)) d = (case map_of (pendingAlarmDevices s) d of
            Some ts \<Rightarrow> alarm_view tx d ts (metrics (flush_live tx s)) | None \<Rightarrow> map_of (liveAlarms s) d)"
    and "pendingMetrics (flush_live tx s) = []" "pendingAlarmDevices (flush_live tx s) = []"
      "liveSeries (flush_live tx s) = liveSeries s" "aliasMap (flush_live tx s) = aliasMap s"
  using map_of_foldl_update [OF assms(1)] alarms_of_devices [OF assms(2)]
  by (auto simp: metrics_flush) (auto simp: flush_live_def Let_def split: option.splits)

lemma ahead_flush:
  assumes "ahead tx s e"
  shows "ahead tx (flush_live tx s) e"
proof -
  have dist: "distinct (keys (pendingMetrics s))" "distinct (keys (pendingAlarmDevices s))"
    and e: "map_of (metrics e) = map_of (metrics s) ++ map_of (pendingMetrics s)" using assms by (simp_all add: ahead_def)
  note f = flush_view [OF dist, of tx]
  have "map_of (metrics e) = map_of (metrics (flush_live tx s))" using e f(1) by simp
  then have "alarm_view tx d ts (metrics e) = alarm_view tx d ts (metrics (flush_live tx s))" for d ts
    by (intro alarm_view_cong) simp
  with assms show ?thesis by (auto simp: ahead_def f(1,3,4,5,6) f(2) keys_def split: option.splits)
qed

lemma ahead_message:
  assumes "ahead tx s e" and "topic_part (msg_topic msg) 2 \<noteq> Some ''DBIRTH''"
  shows "ahead tx (handleMessage now msg s) (eager_message tx now msg e)"
proof -
  let ?d = "nullish (topic_part (msg_topic msg) 4) []" and ?ts = "nullish (msg_timestamp msg) now"
  have steps: "ahead tx (foldl (data_metric al ?d ?ts) s ms) (foldl (eager_metric tx al ?d ?ts) e ms)" for al ms
    using assms(1) by (induction ms arbitrary: s e) (simp_all add: ahead_metric [OF _ topic_device_plain])
  have al: "aliasMap e = aliasMap s" using assms(1) by (simp add: ahead_def)
  have "ahead tx (s'\<lparr>flushTimer := b\<rparr>) e' = ahead tx s' e'" "ahead tx (s\<lparr>aliasMap := []\<rparr>) (e\<lparr>aliasMap := []\<rparr>)" for s' e' b
    using assms(1) by (simp_all add: ahead_def cong: option.case_cong)
  with steps assms show ?thesis by (auto simp: handleMessage_def eager_message_def al Let_def)
qed

lemma ahead_stream:
  assumes "ahead tx s e" and "\<forall>x \<in> set xs. \<forall>now msg. x = Some (now, msg) \<longrightarrow> topic_part (msg_topic msg) 2 \<noteq> Some ''DBIRTH''"
  shows "ahead tx (coalesced tx xs s) (immediate tx xs e)"
  using assms
proof (induction xs arbitrary: s e)
  case (Cons x xs)
  then show ?case
    by (cases x) (auto simp: coalesced_def immediate_def ahead_flush ahead_message)
qed (simp add: coalesced_def immediate_def)

section \<open>What the next flush shows\<close>

text \<open>
  C7. Coalescing loses nothing: however data messages and flushes interleave, the next flush shows the metrics, the
  live alarms and the chart buffers of a store that applies every metric at once and rebuilds the device's alarm
  with every alarm field.
\<close>

theorem coalescing_shows_all:
  assumes "pendingMetrics s = []" and "pendingAlarmDevices s = []"
    and "\<forall>x \<in> set xs. \<forall>now msg. x = Some (now, msg) \<longrightarrow> topic_part (msg_topic msg) 2 \<noteq> Some ''DBIRTH''"
  shows "map_of (metrics (flush_live tx (coalesced tx xs s))) = map_of (metrics (immediate tx xs s))
      \<and> map_of (liveAlarms (flush_live tx (coalesced tx xs s))) = map_of (liveAlarms (immediate tx xs s))
      \<and> liveSeries (flush_live tx (coalesced tx xs s)) = liveSeries (immediate tx xs s)"
proof -
  have "ahead tx s s" using assms(1,2) by (simp add: ahead_def keys_def)
  from ahead_flush [OF ahead_stream [OF this assms(3)]]
  have a: "ahead tx (flush_live tx (coalesced tx xs s)) (immediate tx xs s)" .
  then have "distinct (keys (pendingMetrics (coalesced tx xs s)))" "distinct (keys (pendingAlarmDevices (coalesced tx xs s)))"
    using ahead_stream [OF \<open>ahead tx s s\<close> assms(3)] by (simp_all add: ahead_def)
  with a show ?thesis by (auto simp: ahead_def flush_view fun_eq_iff)
qed

definition wait_metric :: "string \<Rightarrow> js_val \<Rightarrow> spark_metric" where
  "wait_metric n v = \<lparr>sm_name = Some n, sm_alias = None, sm_value = v, sm_properties = []\<rparr>"

definition p1_message :: "string \<Rightarrow> rat \<Rightarrow> spark_metric list \<Rightarrow> spark_message" where
  "p1_message verb ts ms = \<lparr>msg_topic = ''spBv1.0/S/'' @ verb @ ''/E/P1'', msg_timestamp = Some ts, msg_metrics = ms\<rparr>"

definition p1_stream :: stream where
  "p1_stream = [Some (5, p1_message ''DDATA'' 4 [wait_metric ''state'' (VStr ''ACTIVE'')]), None,
     Some (6, p1_message ''DDATA'' 6 [wait_metric ''pv'' (VNum 3)])]"

theorem coalescing_shows_all_witness:
  "map_of (metrics (flush_live (\<lambda>_. []) (coalesced (\<lambda>_. []) p1_stream initial_live)))
     = map_of (metrics (immediate (\<lambda>_. []) p1_stream initial_live))
    \<and> map (la_state \<circ> snd) (liveAlarms (immediate (\<lambda>_. []) p1_stream initial_live)) = [''ACTIVE'']"
proof -
  have "topic_part (msg_topic (p1_message ''DDATA'' t ms)) 2 \<noteq> Some ''DBIRTH''" for t ms
    by (simp add: p1_message_def topic_part_def)
  then have "\<forall>x \<in> set p1_stream. \<forall>now msg. x = Some (now, msg) \<longrightarrow> topic_part (msg_topic msg) 2 \<noteq> Some ''DBIRTH''"
    by (auto simp: p1_stream_def)
  from coalescing_shows_all [OF _ _ this, of initial_live "\<lambda>_. []"]
  have "map_of (metrics (flush_live (\<lambda>_. []) (coalesced (\<lambda>_. []) p1_stream initial_live)))
     = map_of (metrics (immediate (\<lambda>_. []) p1_stream initial_live))" by (simp add: initial_live_def)
  moreover have "map (la_state \<circ> snd) (liveAlarms (immediate (\<lambda>_. []) p1_stream initial_live)) = [''ACTIVE'']" by code_simp
  ultimately show ?thesis by blast
qed

text \<open>
  A birth is not protected from what is waiting: a value of a metric that arrived before the birth of its
  device overwrites the value of the birth at the next flush.
\<close>

theorem flush_overwrites_birth:
  assumes "distinct (keys (pendingMetrics s))" and "distinct (keys (pendingAlarmDevices s))"
    and "topic_part (msg_topic msg) 2 = Some ''DBIRTH''" and "topic_part (msg_topic msg) 4 = Some d"
    and "msg_metrics msg = [m]" and "sm_name m = Some n" and "n \<noteq> []" and "sm_value m \<noteq> VUndef"
    and "map_of (pendingMetrics s) (metric_key d n) = Some old"
  shows "map_of (metrics (handleMessage now msg s)) (metric_key d n) = Some (metricFromSparkplug m (nullish (msg_timestamp msg) now))
      \<and> map_of (metrics (flush_live tx (handleMessage now msg s))) (metric_key d n) = Some old"
proof -
  have "pendingMetrics (handleMessage now msg s) = pendingMetrics s" "pendingAlarmDevices (handleMessage now msg s) = pendingAlarmDevices s"
    using assms(3,5) by (simp_all add: handleMessage_def birth_metric_def Let_def)
  with assms show ?thesis
    by (simp add: flush_view(1)) (simp add: handleMessage_def birth_metric_def truthy_def Let_def map_simps)
qed

theorem flush_overwrites_birth_witness:
  "\<exists>s. map_of (metrics (handleMessage 9 (p1_message ''DBIRTH'' 8 [wait_metric ''pv'' (VNum 7)]) s)) ''P1/pv''
        = Some (metricFromSparkplug (wait_metric ''pv'' (VNum 7)) 8)
    \<and> map_of (metrics (flush_live (\<lambda>_. []) (handleMessage 9 (p1_message ''DBIRTH'' 8 [wait_metric ''pv'' (VNum 7)]) s))) ''P1/pv''
        = Some (metricFromSparkplug (wait_metric ''pv'' (VNum 3)) 6)"
proof -
  define s where "s = initial_live\<lparr>pendingMetrics := [(''P1/pv'', metricFromSparkplug (wait_metric ''pv'' (VNum 3)) 6)]\<rparr>"
  have t: "topic_part (msg_topic (p1_message ''DBIRTH'' 8 ms)) 2 = Some ''DBIRTH''" "topic_part (msg_topic (p1_message ''DBIRTH'' 8 ms)) 4 = Some ''P1''"
    for ms by (simp_all add: p1_message_def topic_part_def)
  have "metric_key ''P1'' ''pv'' = ''P1/pv''" by (simp add: metric_key_def)
  with flush_overwrites_birth [of s "p1_message ''DBIRTH'' 8 [wait_metric ''pv'' (VNum 7)]" "''P1''" "wait_metric ''pv'' (VNum 7)" "''pv''"
      "metricFromSparkplug (wait_metric ''pv'' (VNum 3)) 6" 9 "\<lambda>_. []", OF _ _ t]
  show ?thesis by (intro exI [of _ s]) (simp add: s_def initial_live_def keys_def p1_message_def wait_metric_def)
qed

end
