(* ===== verification/Live_Feed.thy ===== *)
theory Live_Feed
  imports Live_Flush
begin

text \<open>
  What a snapshot makes of the live alarms, and whose names the aliases of a data message resolve to.
\<close>

section \<open>Snapshots\<close>

definition snapshot_wf :: "snapshot_assets \<Rightarrow> bool" where
  "snapshot_wf assets \<longleftrightarrow> distinct (map fst assets) \<and> (\<forall>d \<in> fst ` set assets. CHR ''/'' \<notin> set d)"

lemma snapshot_metric_other:
  assumes "\<And>n'. metric_key d n' \<noteq> k"
  shows "map_of (fst (foldl (snapshot_metric d) acc mrs)) k = map_of (fst acc) k"
proof (induction mrs arbitrary: acc)
  case (Cons mr mrs)
  have "map_of (fst (snapshot_metric d acc mr)) k = map_of (fst acc) k"
    using assms by (auto simp: snapshot_metric_def map_simps split: option.splits)
  with Cons show ?case by simp
qed simp

lemma snapshot_device_view:
  obtains ts where "map_of (liveAlarms (snapshot_device tx now s dm)) =
     (let a = buildLiveAlarmFromMetrics tx (fst dm) (metrics (snapshot_device tx now s dm)) (Some ts) in
      if la_state a = ''CLEARED'' then map_of (liveAlarms s) else (map_of (liveAlarms s)) (fst dm \<mapsto> a))"
proof -
  obtain ms latest where "foldl (snapshot_metric (fst dm)) (metrics s, 0) (snd dm) = (ms, latest)" by fastforce
  then show ?thesis
    by (intro that [of "if latest = 0 then now else latest"])
       (auto simp: snapshot_device_def Let_def map_simps fun_eq_iff)
qed

lemma snapshot_device_metrics: "metrics (snapshot_device tx now s dm) = fst (foldl (snapshot_metric (fst dm)) (metrics s, 0) (snd dm))"
  by (simp add: snapshot_device_def Let_def split: prod.split)

lemma snapshot_others:
  assumes "d \<notin> fst ` set assets" and "CHR ''/'' \<notin> set d" and "\<forall>d' \<in> fst ` set assets. CHR ''/'' \<notin> set d'"
  shows "map_of (liveAlarms (foldl (snapshot_device tx now) s assets)) d = map_of (liveAlarms s) d
       \<and> map_of (metrics (foldl (snapshot_device tx now) s assets)) (metric_key d n) = map_of (metrics s) (metric_key d n)"
  using assms
proof (induction assets arbitrary: s)
  case (Cons dm assets)
  then have "fst dm \<noteq> d" and plain: "CHR ''/'' \<notin> set (fst dm)" by auto
  obtain ts where "map_of (liveAlarms (snapshot_device tx now s dm)) =
     (let a = buildLiveAlarmFromMetrics tx (fst dm) (metrics (snapshot_device tx now s dm)) (Some ts) in
      if la_state a = ''CLEARED'' then map_of (liveAlarms s) else (map_of (liveAlarms s)) (fst dm \<mapsto> a))"
    by (rule snapshot_device_view)
  with \<open>fst dm \<noteq> d\<close> have "map_of (liveAlarms (snapshot_device tx now s dm)) d = map_of (liveAlarms s) d"
    by (simp add: Let_def)
  moreover have "metric_key (fst dm) n' \<noteq> metric_key d n" for n'
    using key_inj [OF plain Cons.prems(2)] \<open>fst dm \<noteq> d\<close> by blast
  then have "map_of (metrics (snapshot_device tx now s dm)) (metric_key d n) = map_of (metrics s) (metric_key d n)"
    unfolding snapshot_device_metrics by (subst snapshot_metric_other) simp_all
  ultimately show ?case using Cons by simp
qed simp

lemma snapshot_alarm_of:
  fixes tx :: "js_val \<Rightarrow> string" and now :: rat and s :: live
  assumes "snapshot_wf assets" and "d \<in> fst ` set assets"
  defines "s' \<equiv> applySnapshotAssets tx now assets s"
  shows "\<exists>ts. map_of (liveAlarms s') d =
     (let a = buildLiveAlarmFromMetrics tx d (metrics s') (Some ts) in if la_state a = ''CLEARED'' then map_of (liveAlarms s) d else Some a)"
proof -
  from assms(2) obtain m where "(d, m) \<in> set assets" by auto
  then obtain xs ys where split: "assets = xs @ (d, m) # ys" by (meson split_list)
  with assms(1) have plain: "CHR ''/'' \<notin> set d" "d \<notin> fst ` set xs" "d \<notin> fst ` set ys"
    "\<forall>d' \<in> fst ` set xs. CHR ''/'' \<notin> set d'" "\<forall>d' \<in> fst ` set ys. CHR ''/'' \<notin> set d'"
    by (auto simp: snapshot_wf_def)
  define s1 where "s1 = foldl (snapshot_device tx now) s xs"
  define s2 where "s2 = snapshot_device tx now s1 (d, m)"
  define s3 where "s3 = foldl (snapshot_device tx now) s2 ys"
  have s3: "liveAlarms s' = liveAlarms s3" "metrics s' = metrics s3"
    by (simp_all add: s'_def applySnapshotAssets_def split s1_def s2_def s3_def)
  have "map_of (metrics s3) (metric_key d n) = map_of (metrics s2) (metric_key d n)" for n
    using snapshot_others [OF plain(3,1,5), of tx now s2 n] by (simp add: s3_def)
  then have build: "buildLiveAlarmFromMetrics tx d (metrics s3) ts = buildLiveAlarmFromMetrics tx d (metrics s2) ts" for ts
    by (rule build_cong)
  obtain ts where "map_of (liveAlarms s2) = (let a = buildLiveAlarmFromMetrics tx d (metrics s2) (Some ts) in
      if la_state a = ''CLEARED'' then map_of (liveAlarms s1) else (map_of (liveAlarms s1)) (d \<mapsto> a))"
    using snapshot_device_view [of tx now s1 "(d, m)"] by (metis fst_conv s2_def)
  moreover have "map_of (liveAlarms s3) d = map_of (liveAlarms s2) d" "map_of (liveAlarms s1) d = map_of (liveAlarms s) d"
    using snapshot_others [OF plain(3,1,5), of tx now s2] snapshot_others [OF plain(2,1,4), of tx now s]
    by (simp_all add: s3_def s1_def)
  ultimately show ?thesis by (intro exI [of _ ts]) (simp add: s3 build Let_def)
qed

lemma state_of_alarm:
  "la_state (buildLiveAlarmFromMetrics tx d ms ts) =
     (case map_of ms (metric_key d ''state'') of
        None \<Rightarrow> [] | Some m \<Rightarrow> if nullish_val (lm_value m) then [] else js_text tx (lm_value m))"
  by (simp add: buildLiveAlarmFromMetrics_def Let_def split: option.split)

text \<open>
  What a snapshot does to the live alarms: a device of it with no state among its metrics gets a live alarm with an
  empty state, so every process device is shown as an alarm; a device whose state is CLEARED keeps the live alarm it
  had; the alarms of other devices stay.
\<close>

theorem snapshot_alarms:
  fixes tx :: "js_val \<Rightarrow> string" and now :: rat and s :: live
  assumes "snapshot_wf assets" and "CHR ''/'' \<notin> set d"
  defines "s' \<equiv> applySnapshotAssets tx now assets s"
  shows "(d \<in> fst ` set assets \<and> map_of (metrics s') (metric_key d ''state'') = None
            \<longrightarrow> (\<exists>a. map_of (liveAlarms s') d = Some a \<and> la_alarmId a = d \<and> la_state a = [] \<and> la_conditionActive a))
      \<and> (\<forall>m. map_of (metrics s') (metric_key d ''state'') = Some m \<and> lm_value m = VStr ''CLEARED''
            \<longrightarrow> map_of (liveAlarms s') d = map_of (liveAlarms s) d)
      \<and> (d \<notin> fst ` set assets \<longrightarrow> map_of (liveAlarms s') d = map_of (liveAlarms s) d)"
proof (cases "d \<in> fst ` set assets")
  case True
  from snapshot_alarm_of [OF assms(1) True, of tx now s] obtain ts where
    "map_of (liveAlarms s') d = (let a = buildLiveAlarmFromMetrics tx d (metrics s') (Some ts) in
       if la_state a = ''CLEARED'' then map_of (liveAlarms s) d else Some a)" unfolding s'_def by blast
  with True show ?thesis by (auto simp: state_of_alarm Let_def nullish_val_def js_text_def)
next
  case False
  have "map_of (liveAlarms s') d = map_of (liveAlarms s) d"
    using snapshot_others [OF False assms(2), of tx now s] assms(1)
    by (simp add: s'_def applySnapshotAssets_def snapshot_wf_def)
  with False show ?thesis by simp
qed

definition pump_snapshot :: snapshot_assets where
  "pump_snapshot = [(''P1'', [(''pv'', Some [(''v'', VNum 5), (''ts'', VNum 8)])]),
     (''A1'', [(''state'', Some [(''v'', VStr ''CLEARED''), (''ts'', VNum 9)])])]"

theorem snapshot_alarms_witness:
  "\<exists>s a. map_of (liveAlarms s) ''A1'' = Some a
    \<and> map_of (liveAlarms (applySnapshotAssets (\<lambda>_. []) 10 pump_snapshot s)) ''A1'' = Some a
    \<and> (\<exists>p. map_of (liveAlarms (applySnapshotAssets (\<lambda>_. []) 10 pump_snapshot s)) ''P1'' = Some p \<and> la_state p = [])"
proof -
  define a where "a = buildLiveAlarmFromMetrics (\<lambda>_. []) ''A1'' [] (Some 1)"
  define s where "s = initial_live\<lparr>liveAlarms := [(''A1'', a)]\<rparr>"
  have wf: "snapshot_wf pump_snapshot" by (simp add: snapshot_wf_def pump_snapshot_def)
  have "map (map_option lm_value \<circ> map_of (metrics (applySnapshotAssets (\<lambda>_. []) 10 pump_snapshot s))) [''P1/state'', ''A1/state'']
      = [None, Some (VStr ''CLEARED'')]" unfolding s_def a_def by code_simp
  then have m: "map_of (metrics (applySnapshotAssets (\<lambda>_. []) 10 pump_snapshot s)) (metric_key ''P1'' ''state'') = None"
    "\<exists>m. map_of (metrics (applySnapshotAssets (\<lambda>_. []) 10 pump_snapshot s)) (metric_key ''A1'' ''state'') = Some m \<and> lm_value m = VStr ''CLEARED''"
    by (auto simp: metric_key_def)
  have "''P1'' \<in> fst ` set pump_snapshot" by (simp add: pump_snapshot_def)
  with snapshot_alarms [OF wf, of "''P1''" "\<lambda>_. []" 10 s] m(1)
  have p: "\<exists>p. map_of (liveAlarms (applySnapshotAssets (\<lambda>_. []) 10 pump_snapshot s)) ''P1'' = Some p \<and> la_state p = []" by auto
  have "map_of (liveAlarms (applySnapshotAssets (\<lambda>_. []) 10 pump_snapshot s)) ''A1'' = map_of (liveAlarms s) ''A1''"
    using snapshot_alarms [OF wf, of "''A1''" "\<lambda>_. []" 10 s] m(2) by auto
  with p show ?thesis by (intro exI [of _ s] exI [of _ a]) (simp add: s_def)
qed

section \<open>Aliases\<close>

text \<open>
  There is one alias map for the whole plant, and the edge node of a message is not looked at.  After a birth of
  one edge node has bound an alias, a data message of another node with that alias is read under the name the first
  one gave it, and its own metric is not updated; after any node birth it is read under a made-up name.
\<close>

theorem aliases_cross_edge_nodes:
  assumes birth: "topic_part (msg_topic b) 2 = Some ''DBIRTH''" "msg_metrics b = [mb]" "sm_alias mb = Some a" "sm_name mb = Some n" "n \<noteq> []"
    and data: "topic_part (msg_topic msg) 2 = Some ''DDATA''" "topic_part (msg_topic msg) 4 = Some d" "msg_metrics msg = [m]"
      "sm_alias m = Some a" "sm_name m = None"
    and node: "topic_part (msg_topic nb) 2 = Some ''NBIRTH''"
  shows "map_of (pendingMetrics (handleMessage t2 msg (handleMessage t1 b s))) (metric_key d n)
          = Some (metricFromSparkplug m (nullish (msg_timestamp msg) t2))
      \<and> (\<forall>own. own \<noteq> n \<longrightarrow> map_of (pendingMetrics (handleMessage t2 msg (handleMessage t1 b s))) (metric_key d own)
          = map_of (pendingMetrics s) (metric_key d own))
      \<and> map_of (pendingMetrics (handleMessage t2 msg (handleMessage t1 nb s))) (metric_key d (''alias_'' @ show_int a))
          = Some (metricFromSparkplug m (nullish (msg_timestamp msg) t2))"
proof -
  have "aliasMap (handleMessage t1 b s) = AList.update a n (aliasMap s)" "pendingMetrics (handleMessage t1 b s) = pendingMetrics s"
    using birth by (simp_all add: handleMessage_def birth_metric_def truthy_def Let_def)
  moreover have "pendingMetrics (handleMessage t2 msg s1) = AList.update (metric_key d (metric_name (aliasMap s1) m))
      (metricFromSparkplug m (nullish (msg_timestamp msg) t2)) (pendingMetrics s1)" for s1
    using data by (simp add: handleMessage_def data_metric_def Let_def)
  moreover have "aliasMap (handleMessage t1 nb s) = []" using node by (simp add: handleMessage_def)
  ultimately show ?thesis
    using data by (simp add: metric_name_def truthy_def map_simps metric_key_def)
qed

theorem aliases_cross_edge_nodes_witness:
  "\<exists>b msg. map_of (pendingMetrics (handleMessage 2 msg (handleMessage 1 b initial_live))) ''P1/level'' \<noteq> None
    \<and> topic_part (msg_topic b) 3 = Some ''E2'' \<and> topic_part (msg_topic msg) 3 = Some ''E1''"
proof -
  define mb :: spark_metric where "mb = \<lparr>sm_name = Some ''level'', sm_alias = Some 7, sm_value = VNum 1, sm_properties = []\<rparr>"
  define m :: spark_metric where "m = \<lparr>sm_name = None, sm_alias = Some 7, sm_value = VNum 20, sm_properties = []\<rparr>"
  define b where "b = \<lparr>msg_topic = ''spBv1.0/S/DBIRTH/E2/P9'', msg_timestamp = None, msg_metrics = [mb]\<rparr>"
  define msg where "msg = \<lparr>msg_topic = ''spBv1.0/S/DDATA/E1/P1'', msg_timestamp = None, msg_metrics = [m]\<rparr>"
  define nb :: spark_message where "nb = \<lparr>msg_topic = ''spBv1.0/S/NBIRTH/E2'', msg_timestamp = None, msg_metrics = []\<rparr>"
  have "map_of (pendingMetrics (handleMessage 2 msg (handleMessage 1 b initial_live))) (metric_key ''P1'' ''level'') \<noteq> None"
    using aliases_cross_edge_nodes [of b mb 7 "''level''" msg "''P1''" m nb 2 1 initial_live]
    by (simp add: b_def msg_def nb_def mb_def m_def topic_part_def)
  then show ?thesis by (intro exI [of _ b] exI [of _ msg]) (simp add: b_def msg_def metric_key_def topic_part_def)
qed

end
