(* ===== verification/Csv_Text.thy ===== *)
theory Csv_Text
  imports Js_Lib
begin

text \<open>
  The two CSV readers of the browser client: parseRows and parseCsv of src/frontend-ob/src/utils/csv.ts (users, plant
  model, aliases) and splitCsvLine of components/Cpm/csvImport.ts (loop registry), beside a writer after RFC 4180.
  A scanner is the loop of the source with its variables as arguments; looking at the next character is looking
  at the head of the rest.
\<close>

abbreviation quote_char :: char where "quote_char \<equiv> CHR 0x22"
abbreviation lf_char :: char where "lf_char \<equiv> CHR 0x0A"
abbreviation cr_char :: char where "cr_char \<equiv> CHR 0x0D"

section \<open>utils/csv.ts\<close>

fun crlf_to_lf :: "string \<Rightarrow> string" where
  "crlf_to_lf [] = []"
| "crlf_to_lf [c] = [c]"
| "crlf_to_lf (c # d # s) = (if c = cr_char \<and> d = lf_char then lf_char # crlf_to_lf s else c # crlf_to_lf (d # s))"

definition normalise_eol :: "string \<Rightarrow> string" where
  "normalise_eol s = map (\<lambda>c. if c = cr_char then lf_char else c) (crlf_to_lf s)"

definition next_is_quote :: "string \<Rightarrow> bool" where
  "next_is_quote s = (s \<noteq> [] \<and> hd s = quote_char)"

text \<open>The arguments: the rest, \<open>inQuotes\<close>, \<open>field\<close>, \<open>row\<close>, \<open>rows\<close>.\<close>

function scan_rows :: "string \<Rightarrow> bool \<Rightarrow> string \<Rightarrow> string list \<Rightarrow> string list list \<Rightarrow> string \<times> string list \<times> string list list" where
  "scan_rows [] inQuotes field row rows = (field, row, rows)"
| "scan_rows (c # s) inQuotes field row rows =
     (if inQuotes then
        (if c = quote_char then
           (if next_is_quote s then scan_rows (tl s) True (field @ [quote_char]) row rows
            else scan_rows s False field row rows)
         else scan_rows s True (field @ [c]) row rows)
      else if c = quote_char then scan_rows s True field row rows
      else if c = CHR '','' then scan_rows s False [] (row @ [field]) rows
      else if c = lf_char then scan_rows s False [] [] (rows @ [row @ [field]])
      else scan_rows s False (field @ [c]) row rows)"
  by pat_completeness auto
termination
  by (relation "measure (\<lambda>(s, _). length s)") auto

definition parseRows :: "string \<Rightarrow> string list list" where
  "parseRows text' =
     (let (field, row, rows) = scan_rows (normalise_eol text') False [] [] [] in
      if field \<noteq> [] \<or> row \<noteq> [] then rows @ [row @ [field]] else rows)"

type_synonym csv_record = "(string \<times> string) list"

definition csv_record_of :: "string list \<Rightarrow> string list \<Rightarrow> csv_record" where
  "csv_record_of header cells =
     fold (\<lambda>(i, h). AList.update h (js_trim (if i < length cells then cells ! i else []))) (enumerate 0 header) []"

definition parseCsv :: "string \<Rightarrow> csv_record list" where
  "parseCsv text' =
     (case parseRows text' of
        [] \<Rightarrow> []
      | first # rest \<Rightarrow>
          map (csv_record_of (map js_trim first)) (filter (\<lambda>r. \<not> (length r = 1 \<and> js_trim (hd r) = [])) rest))"

section \<open>splitCsvLine of components/Cpm/csvImport.ts\<close>

function scan_line :: "string \<Rightarrow> bool \<Rightarrow> string \<Rightarrow> string list \<Rightarrow> string list" where
  "scan_line [] inQuotes cur cells = cells @ [js_trim cur]"
| "scan_line (ch # s) inQuotes cur cells =
     (if inQuotes then
        (if ch = quote_char \<and> next_is_quote s then scan_line (tl s) True (cur @ [quote_char]) cells
         else if ch = quote_char then scan_line s False cur cells
         else scan_line s True (cur @ [ch]) cells)
      else if ch = quote_char then scan_line s True cur cells
      else if ch = CHR '','' then scan_line s False [] (cells @ [js_trim cur])
      else scan_line s False (cur @ [ch]) cells)"
  by pat_completeness auto
termination
  by (relation "measure (\<lambda>(s, _). length s)") auto

definition splitCsvLine :: "string \<Rightarrow> string list" where
  "splitCsvLine line = scan_line line False [] []"

section \<open>A writer\<close>






section \<open>Line ends\<close>

lemma normalise_no_cr: "cr_char \<notin> set s \<Longrightarrow> normalise_eol s = s"
proof -
  assume s: "cr_char \<notin> set s"
  then have "crlf_to_lf s = s" by (induction s rule: crlf_to_lf.induct) auto
  moreover have "map (\<lambda>c. if c = cr_char then lf_char else c) s = s" by (rule map_idI) (use s in auto)
  ultimately show ?thesis by (simp add: normalise_eol_def)
qed

lemma crlf_to_lf_lf [simp]: "crlf_to_lf (lf_char # t) = lf_char # crlf_to_lf t"
  by (cases t) simp_all


section \<open>Scanning what was written\<close>






section \<open>The two scanners on one line\<close>

text \<open>On a line the scanners agree up to the trimming of the cells, whatever their state.\<close>

lemma scanners_agree:
  "lf_char \<notin> set s \<Longrightarrow> scan_rows s q field row rows = (f', row', rows') \<Longrightarrow>
     rows' = rows \<and> scan_line s q field (map js_trim row) = map js_trim row' @ [js_trim f']"
proof (induction s q field row rows rule: scan_rows.induct)
  case (2 c s q field row rows)
  have "lf_char \<notin> set (tl s)" using "2.prems"(1) by (cases s) auto
  with 2 show ?case by (auto split: if_splits)
qed auto

section \<open>Properties\<close>



text \<open>
  The two readers agree on one line: the loop registry's splitCsvLine gives the trimmed cells of parseRows, and one
  empty cell where parseRows has no row.
\<close>

theorem csv_readers_agree:
  assumes "lf_char \<notin> set line" and "cr_char \<notin> set line"
  shows "(parseRows line = [] \<and> splitCsvLine line = [[]]) \<or> (\<exists>r. parseRows line = [r] \<and> splitCsvLine line = map js_trim r)"
proof -
  obtain f row rows where scan: "scan_rows line False [] [] [] = (f, row, rows)" by (metis prod_cases3)
  from scanners_agree [OF assms(1) this] have "rows = []" "splitCsvLine line = map js_trim row @ [js_trim f]"
    by (simp_all add: splitCsvLine_def)
  with scan normalise_no_cr [OF assms(2)] show ?thesis by (auto simp: parseRows_def)
qed

theorem csv_readers_agree_witness:
  "\<exists>r. parseRows ''FIC1, a'' = [r] \<and> splitCsvLine ''FIC1, a'' = map js_trim r"
proof -
  have "splitCsvLine ''FIC1, a'' = [''FIC1'', ''a'']" by code_simp
  with csv_readers_agree [of "''FIC1, a''"] show ?thesis by auto
qed

end
