(* ===== verification/Loop_Import.thy ===== *)
theory Loop_Import
  imports Csv_Text
begin

text \<open>
  Bulk import of control loops: the tag and path conventions of src/frontend-ob/src/components/Cpm/plantLocation.tsx,
  the row checks of components/Cpm/csvImport.ts (its parseCsv is \<open>parseLoopCsv\<close> here), the historian node of
  utils/loopSeries.ts, the unit allowlist of utils/escapeHtml.ts and the template of components/Cpm/BulkImportDialog.tsx.
  An object under string keys is an association list.
\<close>

definition in_quotes :: "string \<Rightarrow> string" where
  "in_quotes s = quote_char # s @ [quote_char]"

definition single_quoted :: "string \<Rightarrow> string" where
  "single_quoted s = CHR 0x27 # s @ [CHR 0x27]"

section \<open>components/Cpm/plantLocation.tsx\<close>

record location =
  loc_site :: string
  loc_area :: string
  loc_unit :: string

record asset_tree =
  at_sites :: "string list"
  at_areas :: "string list"
  at_units :: "string list"

text \<open>The segments of a contextual path.  Only membership in the two lists is used, so their order is left as it is.\<close>

definition seg :: "string \<Rightarrow> string list" where
  "seg path = filter (\<lambda>w. w \<noteq> []) (js_split (CHR ''/'') path)"

definition areasOf :: "string list \<Rightarrow> string \<Rightarrow> string list" where
  "areasOf areas site =
     (if site = [] then []
      else concat (map (\<lambda>a. case seg a of s # ar # _ \<Rightarrow> if s = site then [ar] else [] | _ \<Rightarrow> []) areas))"

definition unitsOf :: "string list \<Rightarrow> string \<Rightarrow> string \<Rightarrow> string list" where
  "unitsOf units site area =
     (if site = [] then []
      else map (last \<circ> seg)
        (filter (\<lambda>u. let parts = seg u in
           parts \<noteq> [] \<and> hd parts = site \<and>
           (if area \<noteq> [] then length parts = 3 \<and> parts ! 1 = area else length parts = 2)) units))"

text \<open>\<open>/[\s/\\?#%&;|$"'<>`{}[\]]/\<close>\<close>

definition forbidden_char :: "char \<Rightarrow> bool" where
  "forbidden_char c = (is_space c \<or> set_mem (map char_of [47, 92, 63, 35, 37, 38, 59, 124, 36, 34, 39, 60, 62, 96, 123, 125, 91, 93 :: nat]) c)"

definition LOOP_ID_HINT :: string where
  "LOOP_ID_HINT = ''Any plant tag, except spaces and the characters / '' @ [CHR 0x5C] @ '' ? # % & ; | $ '' @ [CHR 0x22, CHR '' '', CHR 0x27] @ '' < > '' @ [CHR 0x60] @ '' { } [ ]''"

definition loopIdProblem :: "string \<Rightarrow> string option" where
  "loopIdProblem id' =
     (let v = js_trim id' in
      if v = [] then None
      else if 64 < length v then Some ''Loop tag is longer than 64 characters''
      else if list_ex forbidden_char v then Some LOOP_ID_HINT
      else None)"

definition is_alnum :: "char \<Rightarrow> bool" where
  "is_alnum c = (is_lower c \<or> is_upper c \<or> is_digit c)"

definition sanitized :: "string \<Rightarrow> string" where
  "sanitized t =
     (let s = map (\<lambda>c. if is_alnum c then c else CHR ''_'') t in
      if s \<noteq> [] \<and> is_digit (hd s) then CHR ''_'' # s else s)"

definition historianNode :: "string \<Rightarrow> string" where
  "historianNode id' = sanitized (js_trim id')"

text \<open>utils/loopSeries.ts\<close>

definition safeNode :: "string \<Rightarrow> string" where
  "safeNode loopId = (if js_trim loopId = [] then ''unknown'' else sanitized loopId)"

datatype signal_role = RolePv | RoleSp | RoleOp | RoleMode | RoleVp

definition SIGNAL_ROLES :: "signal_role list" where
  "SIGNAL_ROLES = [RolePv, RoleSp, RoleOp, RoleMode, RoleVp]"

fun role_text :: "signal_role \<Rightarrow> string" where
  "role_text RolePv = ''pv''" | "role_text RoleSp = ''sp''" | "role_text RoleOp = ''op''"
| "role_text RoleMode = ''mode''" | "role_text RoleVp = ''vp''"

fun ROLE_COLUMN :: "signal_role \<Rightarrow> string" where
  "ROLE_COLUMN RolePv = ''pv_tag''" | "ROLE_COLUMN RoleSp = ''sp_tag''" | "ROLE_COLUMN RoleOp = ''op_tag''"
| "ROLE_COLUMN RoleMode = ''mode_tag''" | "ROLE_COLUMN RoleVp = ''vp_tag''"

definition deriveSignalPath :: "location \<Rightarrow> string \<Rightarrow> string \<Rightarrow> string" where
  "deriveSignalPath loc loopId role =
     (let prefix = js_join ''/'' (filter (\<lambda>s. s \<noteq> []) (map js_trim [loc_site loc, loc_area loc, loc_unit loc]));
          id' = js_trim loopId in
      if prefix = [] \<or> id' = [] then [] else js_lower (prefix @ ''/'' @ id' @ ''.'' @ role))"

definition isResolvablePath :: "string \<Rightarrow> bool" where
  "isResolvablePath path =
     (let p = js_trim path in
      if p = [] then False else if starts_with p ''root.'' then False else 2 \<le> length (seg p))"

section \<open>utils/escapeHtml.ts\<close>

text \<open>
  \<open>/^[\p{L}\p{N} ...]{1,24}$/u\<close>: below 256 the letters are a-z, A-Z, \<open>0xAA\<close>, \<open>0xB5\<close>, \<open>0xBA\<close> and \<open>0xC0\<close>-\<open>0xFF\<close>
  without \<open>0xD7\<close> and \<open>0xF7\<close>, the numbers 0-9, \<open>0xB2\<close>, \<open>0xB3\<close>, \<open>0xB9\<close> and \<open>0xBC\<close>-\<open>0xBE\<close>.
\<close>

definition unit_char :: "char \<Rightarrow> bool" where
  "unit_char c =
     (is_alnum c \<or> set_mem [0xAA, 0xB5, 0xBA, 0xB2, 0xB3, 0xB9, 0xBC, 0xBD, 0xBE, 0xB0, 0xB7] (code c)
      \<or> (0xC0 \<le> code c \<and> code c \<noteq> 0xD7 \<and> code c \<noteq> 0xF7) \<or> set_mem '' %/.-()^*'' c)"

definition isValidPvUnit :: "string \<Rightarrow> bool" where
  "isValidPvUnit u = (let t = js_trim u in 1 \<le> length t \<and> length t \<le> 24 \<and> list_all unit_char t)"

section \<open>components/Cpm/csvImport.ts\<close>

definition CSV_HEADERS :: "string list" where
  "CSV_HEADERS =
     [''tag'', ''service'', ''site'', ''area'', ''unit'', ''loop_type'', ''criticality'',
      ''pv_tag'', ''sp_tag'', ''op_tag'', ''mode_tag'', ''vp_tag'', ''profile'',
      ''pv_min'', ''pv_max'', ''op_min'', ''op_max'', ''pv_unit'', ''vp_applicability'', ''peer_applicability'']"

definition REQUIRED_COLUMNS :: "string list" where
  "REQUIRED_COLUMNS = [''tag'', ''service'', ''site'', ''loop_type'']"

datatype engineering_value = Bound rat | Words string

record loop_row =
  lr_values :: csv_record
  lr_tag :: string
  lr_location :: location
  lr_loopType :: string
  lr_criticality :: string
  lr_paths :: "(signal_role \<times> string \<times> bool) list"
  lr_engineering :: "(string \<times> engineering_value) list"
  lr_problems :: "string list"
  lr_warnings :: "string list"
  lr_existing :: bool

fun camelBound :: "string \<Rightarrow> string" where
  "camelBound [] = []"
| "camelBound [c] = [c]"
| "camelBound (c # d # s) = (if c = CHR ''_'' \<and> is_lower d then upper_char d # camelBound s else c # camelBound (d # s))"

text \<open>\<open>None\<close> when blank (undeclared), \<open>Some None\<close> when unparseable.\<close>

definition parseBound :: "string \<Rightarrow> rat option option" where
  "parseBound t = (let t = js_trim t in if t = [] then None else Some (js_number t))"

definition locationWarnings :: "asset_tree option \<Rightarrow> location \<Rightarrow> string list" where
  "locationWarnings known loc =
     (case known of
        None \<Rightarrow> []
      | Some k \<Rightarrow>
          if at_sites k = [] \<or> loc_site loc = [] then []
          else if \<not> set_mem (map (\<lambda>s. hd (js_split (CHR ''/'') s)) (at_sites k)) (loc_site loc)
          then [''site '' @ in_quotes (loc_site loc) @ '' is not in the asset model'']
          else (if loc_area loc \<noteq> [] \<and> \<not> set_mem (areasOf (at_areas k) (loc_site loc)) (loc_area loc)
                then [''area '' @ in_quotes (loc_area loc) @ '' is not under site '' @ in_quotes (loc_site loc)] else [])
             @ (if loc_unit loc \<noteq> [] \<and> \<not> set_mem (unitsOf (at_units k) (loc_site loc) (loc_area loc)) (loc_unit loc)
                then [''unit '' @ in_quotes (loc_unit loc) @ '' is not under ''
                        @ js_join ''/'' (filter (\<lambda>s. s \<noteq> []) [loc_site loc, loc_area loc])] else []))"

text \<open>\<open>/\r?\n/\<close>: each piece but the last loses one carriage return at its end.\<close>

definition drop_cr :: "string \<Rightarrow> string" where
  "drop_cr l = (if l \<noteq> [] \<and> last l = cr_char then butlast l else l)"

definition csv_lines :: "string \<Rightarrow> string list" where
  "csv_lines t =
     (let ls = js_split lf_char t in
      filter (\<lambda>l. l \<noteq> [] \<and> hd l \<noteq> CHR ''#'') (map js_trim (map drop_cr (butlast ls) @ [last ls])))"

definition value_of :: "csv_record \<Rightarrow> string \<Rightarrow> string" where
  "value_of vs col = nullish (map_of vs col) []"

text \<open>\<open>replace(/[\s-]+/g, '_')\<close>\<close>

fun collapse_gaps :: "string \<Rightarrow> string" where
  "collapse_gaps [] = []"
| "collapse_gaps (c # s) =
     (if is_space c \<or> c = CHR ''-'' then
        (if s \<noteq> [] \<and> (is_space (hd s) \<or> hd s = CHR ''-'') then collapse_gaps s else CHR ''_'' # collapse_gaps s)
      else c # collapse_gaps s)"

text \<open>What a row adds to the checks of the later ones: \<open>seen\<close> and \<open>seenNodes\<close>.\<close>

record csv_state =
  cs_seen :: "string list"
  cs_nodes :: "(string \<times> string) list"

definition tag_problems :: "(string \<times> string) list \<Rightarrow> csv_state \<Rightarrow> string \<Rightarrow> string list" where
  "tag_problems existingNodes st tag =
     (let idIssue = loopIdProblem tag; isDuplicate = tag \<noteq> [] \<and> set_mem (cs_seen st) tag; node = historianNode tag in
      (case idIssue of Some why \<Rightarrow> [''loop tag '' @ in_quotes tag @ '': '' @ why] | None \<Rightarrow> [])
    @ (if isDuplicate then [''duplicate tag in file''] else [])
    @ (if tag \<noteq> [] \<and> idIssue = None \<and> \<not> isDuplicate then
         (if truthy (map_of (cs_nodes st) node) then
            [''historian collision with '' @ in_quotes (the (map_of (cs_nodes st) node)) @ '' in this file -- both become device '' @ node]
          else if truthy (map_of existingNodes node) \<and> js_upper (the (map_of existingNodes node)) \<noteq> tag then
            [''historian collision with registered loop '' @ in_quotes (the (map_of existingNodes node)) @ '' -- both become device '' @ node]
          else [])
       else []))"

definition note_tag :: "csv_state \<Rightarrow> string \<Rightarrow> csv_state" where
  "note_tag st tag =
     (let isDuplicate = tag \<noteq> [] \<and> set_mem (cs_seen st) tag in
      st\<lparr>cs_seen := set_add tag (cs_seen st),
         cs_nodes := (if tag \<noteq> [] \<and> loopIdProblem tag = None \<and> \<not> isDuplicate
                      then AList.update (historianNode tag) tag (cs_nodes st) else cs_nodes st)\<rparr>)"

definition role_path :: "csv_record \<Rightarrow> location \<Rightarrow> string \<Rightarrow> signal_role \<Rightarrow> string \<times> bool" where
  "role_path vs loc tag role =
     (let given = value_of vs (ROLE_COLUMN role);
          path = (if given \<noteq> [] then given else if role = RoleVp then [] else deriveSignalPath loc tag (role_text role)) in
      (path, given = [] \<and> path \<noteq> []))"

definition role_problems :: "csv_record \<Rightarrow> location \<Rightarrow> string \<Rightarrow> signal_role \<Rightarrow> string list" where
  "role_problems vs loc tag role =
     (let given = value_of vs (ROLE_COLUMN role) in
      (if given \<noteq> [] \<and> \<not> isResolvablePath given
       then [ROLE_COLUMN role @ '' '' @ in_quotes given @ '' is not a UNS contextual path (site/[area/]unit/loop.'' @ role_text role @ '')''] else [])
    @ (if fst (role_path vs loc tag role) = [] \<and> role \<noteq> RoleVp
       then [''cannot derive '' @ role_text role @ '' path -- give '' @ ROLE_COLUMN role @ '' or a site''] else []))"

definition BOUND_COLUMNS :: "string list" where
  "BOUND_COLUMNS = [''pv_min'', ''pv_max'', ''op_min'', ''op_max'']"

definition bound_problems :: "csv_record \<Rightarrow> string list" where
  "bound_problems vs =
     concat (map (\<lambda>col. if parseBound (value_of vs col) = Some None
                        then [col @ '' '' @ single_quoted (value_of vs col) @ '' is not a number''] else []) BOUND_COLUMNS)"

definition bound_entries :: "csv_record \<Rightarrow> (string \<times> engineering_value) list" where
  "bound_entries vs =
     concat (map (\<lambda>col. case parseBound (value_of vs col) of Some (Some n) \<Rightarrow> [(camelBound col, Bound n)] | _ \<Rightarrow> []) BOUND_COLUMNS)"

definition UNIT_HINT :: string where
  "UNIT_HINT = '' is not a unit (letters, digits, spaces and '' @ [CHR 0xB0] @ '' % / . - '' @ [CHR 0xB7, CHR '' '', CHR 0xB2, CHR '' '', CHR 0xB3, CHR '' '', CHR 0xB5] @ '' ( ) ^ * only)''"

definition unit_problems :: "csv_record \<Rightarrow> string list" where
  "unit_problems vs =
     (let u = js_trim (value_of vs ''pv_unit'') in
      if u \<noteq> [] \<and> \<not> isValidPvUnit u then [''pv_unit '' @ single_quoted u @ UNIT_HINT] else [])"

definition unit_entries :: "csv_record \<Rightarrow> (string \<times> engineering_value) list" where
  "unit_entries vs =
     (let u = js_trim (value_of vs ''pv_unit'') in if u \<noteq> [] \<and> isValidPvUnit u then [(''pvUnit'', Words u)] else [])"

definition applicability :: "csv_record \<Rightarrow> string \<Rightarrow> string" where
  "applicability vs col = collapse_gaps (js_upper (js_trim (value_of vs col)))"

definition APPLICABILITY :: "string list" where
  "APPLICABILITY = [''EXPECTED'', ''NOT_INSTALLED'', ''NOT_APPLICABLE'']"

definition applicability_problems :: "csv_record \<Rightarrow> string \<Rightarrow> string list" where
  "applicability_problems vs col =
     (let a = applicability vs col in
      if a \<noteq> [] \<and> \<not> set_mem APPLICABILITY a
      then [col @ '' '' @ single_quoted (value_of vs col) @ '' must be EXPECTED, NOT_INSTALLED or NOT_APPLICABLE''] else [])"

definition applicability_entries :: "csv_record \<Rightarrow> string \<Rightarrow> string \<Rightarrow> (string \<times> engineering_value) list" where
  "applicability_entries vs col key =
     (let a = applicability vs col in if a \<noteq> [] \<and> set_mem APPLICABILITY a then [(key, Words a)] else [])"

definition half_declared :: "csv_record \<Rightarrow> string \<Rightarrow> string \<Rightarrow> string \<Rightarrow> string list" where
  "half_declared vs lo hi label =
     (if (js_trim (value_of vs lo) = []) \<noteq> (js_trim (value_of vs hi) = [])
      then [label @ '' range is half-declared -- the missing bound defaults (0 / 100)''] else [])"

definition CRITICALITIES :: "string list" where
  "CRITICALITIES = [''low'', ''medium'', ''high'', ''critical'']"

text \<open>The checks of one line, and the state after it.\<close>

definition row_step ::
  "string list \<Rightarrow> (string \<times> string) list \<Rightarrow> asset_tree option \<Rightarrow> string list \<Rightarrow> string list \<Rightarrow> csv_state \<Rightarrow> string \<Rightarrow> csv_state \<times> loop_row" where
  "row_step existingTags existingNodes known loopTypes headers st line =
     (let cells = splitCsvLine line;
          vs = csv_record_of headers cells;
          tag = js_upper (value_of vs ''tag'');
          loopType = js_upper (value_of vs ''loop_type'');
          criticality = js_lower (value_of vs ''criticality'');
          loc = \<lparr>loc_site = value_of vs ''site'', loc_area = value_of vs ''area'', loc_unit = value_of vs ''unit''\<rparr>;
          paths = map (\<lambda>r. (r, role_path vs loc tag r)) SIGNAL_ROLES in
      (note_tag st tag,
       \<lparr>lr_values = vs, lr_tag = tag, lr_location = loc, lr_loopType = loopType, lr_criticality = criticality,
        lr_paths = paths,
        lr_engineering = bound_entries vs @ unit_entries vs @ applicability_entries vs ''vp_applicability'' ''vpApplicability''
                            @ applicability_entries vs ''peer_applicability'' ''peerApplicability'',
        lr_problems =
            (if length cells \<noteq> length headers
             then [show_nat (length cells) @ '' cell(s) for '' @ show_nat (length headers) @ '' column(s) -- quote any value containing a comma''] else [])
          @ map (\<lambda>req. ''missing '' @ req) (filter (\<lambda>req. value_of vs req = []) REQUIRED_COLUMNS)
          @ tag_problems existingNodes st tag
          @ (if loopType \<noteq> [] \<and> loopTypes \<noteq> [] \<and> \<not> set_mem loopTypes loopType
             then [''loop_type '' @ in_quotes loopType @ '' is not one of '' @ js_join '', '' loopTypes] else [])
          @ (if criticality \<noteq> [] \<and> \<not> set_mem CRITICALITIES criticality
             then [''criticality '' @ in_quotes (value_of vs ''criticality'') @ '' must be low, medium, high or critical''] else [])
          @ concat (map (role_problems vs loc tag) SIGNAL_ROLES)
          @ bound_problems vs @ unit_problems vs
          @ applicability_problems vs ''vp_applicability'' @ applicability_problems vs ''peer_applicability'',
        lr_warnings = locationWarnings known loc
          @ (if list_ex (\<lambda>p. snd (snd p)) paths then [''signal paths derived from location''] else [])
          @ half_declared vs ''pv_min'' ''pv_max'' ''PV'' @ half_declared vs ''op_min'' ''op_max'' ''OP'',
        lr_existing = set_mem existingTags tag\<rparr>))"

fun row_steps ::
  "(csv_state \<Rightarrow> string \<Rightarrow> csv_state \<times> loop_row) \<Rightarrow> csv_state \<Rightarrow> string list \<Rightarrow> loop_row list" where
  "row_steps step st [] = []"
| "row_steps step st (l # ls) = (let (st', r) = step st l in r # row_steps step st' ls)"

text \<open>The missing columns, the unknown columns and the rows.  \<open>existingLoops\<close> are the ids of the registered loops.\<close>

definition parseLoopCsv ::
  "string \<Rightarrow> string list \<Rightarrow> asset_tree option \<Rightarrow> string list \<Rightarrow> string list \<times> string list \<times> loop_row list" where
  "parseLoopCsv t existingLoops known loopTypes =
     (let existingTags = map js_upper existingLoops;
          existingNodes = fold (\<lambda>l. AList.update (historianNode l) l) existingLoops [] in
      case csv_lines t of
        [] \<Rightarrow> (REQUIRED_COLUMNS, [], [])
      | first # rest \<Rightarrow>
          (let headers = map js_lower (splitCsvLine first) in
           (filter (\<lambda>h. \<not> set_mem headers h) REQUIRED_COLUMNS,
            filter (\<lambda>h. h \<noteq> [] \<and> \<not> set_mem CSV_HEADERS h) headers,
            row_steps (row_step existingTags existingNodes known loopTypes headers) \<lparr>cs_seen = [], cs_nodes = []\<rparr> rest)))"

section \<open>components/Cpm/BulkImportDialog.tsx\<close>

definition TEMPLATE_ROWS :: "string list" where
  "TEMPLATE_ROWS =
     [''45FIC-109,Hydrogen recycle flow,houston,,crude1,FIC,high,,,,,,,0,1200,,'',
      ''TIC20501,Reactor bed temperature,houston,,crude1,TIC,medium,houston/crude1/tic20501.pv,houston/crude1/tic20501.sp,houston/crude1/tic20501.op,houston/crude1/tic20501.mode,houston/crude1/tic20501.vp,,0,250,0,100'']"

definition loop_template :: string where
  "loop_template = js_join [lf_char] (js_join '','' CSV_HEADERS # TEMPLATE_ROWS)"

definition importable :: "loop_row list \<Rightarrow> loop_row list" where
  "importable rows = filter (\<lambda>r. lr_problems r = []) rows"

end
