(* ===== verification/Loop_Import_Props.thy ===== *)
theory Loop_Import_Props
  imports Loop_Import
begin

text \<open>
  What a bulk import lets through: rows whose historian nodes are their own, with paths for every signal; and what it
  makes of its own template.
\<close>

section \<open>Case and white space\<close>

lemma code_char_of: "n < 256 \<Longrightarrow> code (char_of n) = n"
  by (simp add: code_def of_char_of)

lemma is_space_upper [simp]: "is_space (upper_char c) = is_space c"
proof (cases "upper_char c = c")
  case False
  then have "97 \<le> code c \<and> code c \<le> 122 \<or> 224 \<le> code c \<and> code c \<le> 254" "upper_char c = char_of (code c - 32)"
    by (auto simp: upper_char_def is_lower_def split: if_splits)
  then show ?thesis by (auto simp: is_space_def code_char_of)
qed simp

lemma trim_left_upper: "trim_left (js_upper s) = js_upper (trim_left s)"
  by (induction s) (simp_all add: trim_left_def js_upper_def)

lemma js_upper_rev: "rev (js_upper s) = js_upper (rev s)"
  by (simp add: js_upper_def rev_map)

lemma js_trim_upper: "js_trim (js_upper s) = js_upper (js_trim s)"
  by (simp add: js_trim_def trim_left_upper js_upper_rev)

lemma trim_left_rev_trim: "trim_left (rev (trim_left (rev s))) = rev (trim_left (rev s))" if "trim_left s = s"
proof (cases "rev (trim_left (rev s))")
  case (Cons c r)
  have "\<exists>sfx. s = rev (trim_left (rev s)) @ sfx"
  proof -
    have "rev s = takeWhile is_space (rev s) @ trim_left (rev s)" by (simp add: trim_left_def)
    then have "s = rev (trim_left (rev s)) @ rev (takeWhile is_space (rev s))" by (metis rev_append rev_rev_ident)
    then show ?thesis by blast
  qed
  with Cons obtain sfx where "s = c # r @ sfx" by auto
  with that have "\<not> is_space c" by (metis list.sel(1) neq_Nil_conv trim_left_hd)
  with Cons show ?thesis by (simp add: trim_left_def)
qed simp

lemma js_trim_idem [simp]: "js_trim (js_trim s) = js_trim s"
  by (simp add: js_trim_def trim_left_rev_trim)

section \<open>The values of a row\<close>

lemma csv_record_values:
  "map_of (fold (\<lambda>(i, h). AList.update h (js_trim (if i < length cells then cells ! i else []))) ihs m) c = Some v \<Longrightarrow>
     (\<forall>w. map_of m c = Some w \<longrightarrow> js_trim w = w) \<Longrightarrow> js_trim v = v"
  by (induction ihs arbitrary: m) (auto simp: map_simps split: if_splits)

lemma value_of_trimmed: "js_trim (value_of (csv_record_of hs cells) c) = value_of (csv_record_of hs cells) c"
  by (cases "map_of (csv_record_of hs cells) c") (auto simp: value_of_def csv_record_of_def dest: csv_record_values)

section \<open>A row without problems\<close>

lemma nil_unless: "((if b then [x] else []) = []) = (\<not> b)"
  by simp

text \<open>The parts of the list of problems that the properties use.\<close>

lemma row_step_ok:
  assumes "row_step ex nodes known types hs st line = (st', r)" and "lr_problems r = []"
  shows "st' = note_tag st (lr_tag r)" and "lr_tag r \<noteq> []" and "js_trim (lr_tag r) = lr_tag r"
    and "tag_problems nodes st (lr_tag r) = []"
    and "\<forall>role \<in> set SIGNAL_ROLES. role_problems (lr_values r) (lr_location r) (lr_tag r) role = []"
    and "lr_paths r = map (\<lambda>role. (role, role_path (lr_values r) (lr_location r) (lr_tag r) role)) SIGNAL_ROLES"
    and "loc_site (lr_location r) \<noteq> []" and "length (splitCsvLine line) = length hs"
proof -
  define vs where "vs = csv_record_of hs (splitCsvLine line)"
  define loc where "loc = \<lparr>loc_site = value_of vs ''site'', loc_area = value_of vs ''area'', loc_unit = value_of vs ''unit''\<rparr>"
  have r: "st' = note_tag st (lr_tag r)" "lr_tag r = js_upper (value_of vs ''tag'')" "lr_values r = vs" "lr_location r = loc"
    "lr_paths r = map (\<lambda>role. (role, role_path (lr_values r) (lr_location r) (lr_tag r) role)) SIGNAL_ROLES"
    using assms(1) by (auto simp: row_step_def vs_def loc_def Let_def)
  have p: "length (splitCsvLine line) = length hs \<and> filter (\<lambda>req. value_of vs req = []) REQUIRED_COLUMNS = []
      \<and> tag_problems nodes st (js_upper (value_of vs ''tag'')) = []
      \<and> concat (map (role_problems vs loc (js_upper (value_of vs ''tag''))) SIGNAL_ROLES) = []"
    using assms by (clarsimp simp: row_step_def vs_def loc_def Let_def nil_unless split del: if_split)
  have tag: "value_of vs ''tag'' \<noteq> []" and site: "value_of vs ''site'' \<noteq> []"
    using p by (auto simp: REQUIRED_COLUMNS_def split: if_splits)
  show "length (splitCsvLine line) = length hs" using p by simp
  show "st' = note_tag st (lr_tag r)" by (fact r)
  show "lr_tag r \<noteq> []" using r(2) tag by (simp add: js_upper_def)
  show "js_trim (lr_tag r) = lr_tag r" unfolding r(2) js_trim_upper by (simp add: vs_def value_of_trimmed)
  show "tag_problems nodes st (lr_tag r) = []" using p unfolding r(2) by simp
  show "\<forall>role \<in> set SIGNAL_ROLES. role_problems (lr_values r) (lr_location r) (lr_tag r) role = []"
    using p unfolding r(2-4) by simp
  show "lr_paths r = map (\<lambda>role. (role, role_path (lr_values r) (lr_location r) (lr_tag r) role)) SIGNAL_ROLES" by (fact r)
  show "loc_site (lr_location r) \<noteq> []" using r(4) site by (simp add: loc_def)
qed

lemma tag_problems_none:
  assumes "tag_problems nodes st tag = []" and "tag \<noteq> []"
  shows "loopIdProblem tag = None" "tag \<notin> set (cs_seen st)" "\<not> truthy (map_of (cs_nodes st) (historianNode tag))"
    "truthy (map_of nodes (historianNode tag)) \<Longrightarrow> js_upper (the (map_of nodes (historianNode tag))) = tag"
  using assms by (auto simp: tag_problems_def Let_def split: option.splits if_splits)

lemma role_path_sound:
  assumes "role_problems vs loc tag role = []"
  shows "(role \<noteq> RoleVp \<longrightarrow> fst (role_path vs loc tag role) \<noteq> [])
    \<and> (fst (role_path vs loc tag role) \<noteq> [] \<and> \<not> snd (role_path vs loc tag role) \<longrightarrow> isResolvablePath (fst (role_path vs loc tag role)))"
proof -
  define given path where "given = value_of vs (ROLE_COLUMN role)" and "path = fst (role_path vs loc tag role)"
  have "given \<noteq> [] \<longrightarrow> path = given" "snd (role_path vs loc tag role) = (given = [] \<and> path \<noteq> [])"
    by (simp_all add: given_def path_def role_path_def Let_def)
  moreover have "given \<noteq> [] \<longrightarrow> isResolvablePath given" "role \<noteq> RoleVp \<longrightarrow> path \<noteq> []"
    using assms unfolding role_problems_def given_def [symmetric] path_def [symmetric] Let_def by (auto split: if_split_asm)
  ultimately show ?thesis unfolding path_def [symmetric] by (cases "given = []") simp_all
qed

section \<open>Nodes\<close>

definition nodes_named :: "csv_state \<Rightarrow> bool" where
  "nodes_named st \<longleftrightarrow> (\<forall>n t. map_of (cs_nodes st) n = Some t \<longrightarrow> t \<noteq> [])"

lemma note_tag_named: "nodes_named st \<Longrightarrow> nodes_named (note_tag st tag)"
  by (auto simp: nodes_named_def note_tag_def Let_def map_simps split: if_splits)

lemma note_tag_keeps: "map_of (cs_nodes st) n \<noteq> None \<Longrightarrow> map_of (cs_nodes (note_tag st tag)) n \<noteq> None"
  by (auto simp: note_tag_def Let_def map_simps)

lemma row_step_state: "fst (row_step ex nodes known types hs st line) = note_tag st (lr_tag (snd (row_step ex nodes known types hs st line)))"
  by (simp add: row_step_def Let_def)

lemma importable_nodes:
  assumes "nodes_named st"
  shows "distinct (map (historianNode \<circ> lr_tag) (importable (row_steps (row_step ex nodes known types hs) st ls)))
    \<and> (\<forall>r \<in> set (importable (row_steps (row_step ex nodes known types hs) st ls)).
          map_of (cs_nodes st) (historianNode (lr_tag r)) = None
        \<and> lr_tag r \<noteq> [] \<and> js_trim (lr_tag r) = lr_tag r \<and> loopIdProblem (lr_tag r) = None
        \<and> (truthy (map_of nodes (historianNode (lr_tag r))) \<longrightarrow> js_upper (the (map_of nodes (historianNode (lr_tag r)))) = lr_tag r)
        \<and> loc_site (lr_location r) \<noteq> []
        \<and> lr_paths r = map (\<lambda>role. (role, role_path (lr_values r) (lr_location r) (lr_tag r) role)) SIGNAL_ROLES
        \<and> (\<forall>role \<in> set SIGNAL_ROLES. role_problems (lr_values r) (lr_location r) (lr_tag r) role = []))"
  using assms
proof (induction ls arbitrary: st)
  case (Cons l ls)
  obtain st' r where step: "row_step ex nodes known types hs st l = (st', r)" by fastforce
  then have st': "st' = note_tag st (lr_tag r)" using row_step_state [of ex nodes known types hs st l] by simp
  note IH = Cons.IH [of st'] 
  have named: "nodes_named st'" using Cons.prems st' note_tag_named by simp
  have later: "map_of (cs_nodes st) n = None" if "map_of (cs_nodes st') n = None" for n
    using that st' note_tag_keeps [of st n "lr_tag r"] by (cases "map_of (cs_nodes st) n") auto
  show ?case
  proof (cases "lr_problems r = []")
    case False
    with IH [OF named] later step show ?thesis by (simp add: importable_def)
  next
    case True
    note ok = row_step_ok [OF step True]
    note tg = tag_problems_none [OF ok(4,2)]
    have "map_of (cs_nodes st) (historianNode (lr_tag r)) = None"
      using tg(3) Cons.prems by (cases "map_of (cs_nodes st) (historianNode (lr_tag r))") (auto simp: nodes_named_def)
    moreover have "map_of (cs_nodes st') (historianNode (lr_tag r)) \<noteq> None"
      using st' ok(2) tg(1,2) by (simp add: note_tag_def Let_def map_simps)
    ultimately show ?thesis
      using IH [OF named] later step True ok tg by (auto simp: importable_def)
  qed
qed (simp add: importable_def)

lemma sanitized_of_trimmed: "js_trim t = t \<Longrightarrow> t \<noteq> [] \<Longrightarrow> safeNode t = historianNode t"
  by (simp add: safeNode_def historianNode_def)

lemma registered_last:
  assumes "l \<in> set ls"
  shows "\<exists>l' \<in> set ls. historianNode l' = historianNode l \<and> map_of (fold (\<lambda>l. AList.update (historianNode l) l) ls m) (historianNode l) = Some l'"
  using assms
proof (induction ls arbitrary: m rule: rev_induct)
  case (snoc x xs)
  then show ?case by (cases "historianNode x = historianNode l") (auto simp: map_simps)
qed simp

section \<open>Properties\<close>

text \<open>
  C27. The rows that a bulk import sends have tags that are accepted, a site, and a path for the four signals every loop
  has; a path that was given is one the resolver accepts.  Their historian nodes, computed as the writer does and as the charts
  do, are pairwise different and, where the registered loops have nodes of their own, taken by no other registered loop.
\<close>

theorem imported_loops_sound:
  assumes "parseLoopCsv t existing known types = (missing, unknown, rows)"
  shows "distinct (map (historianNode \<circ> lr_tag) (importable rows)) \<and> distinct (map (safeNode \<circ> lr_tag) (importable rows))
    \<and> (\<forall>r \<in> set (importable rows). lr_tag r \<noteq> [] \<and> loopIdProblem (lr_tag r) = None \<and> loc_site (lr_location r) \<noteq> []
        \<and> (distinct (map historianNode existing) \<longrightarrow>
             (\<forall>l \<in> set existing. l \<noteq> [] \<and> historianNode l = historianNode (lr_tag r) \<longrightarrow> js_upper l = lr_tag r))
        \<and> (\<forall>(role, path, derived) \<in> set (lr_paths r). (role \<noteq> RoleVp \<longrightarrow> path \<noteq> []) \<and> (path \<noteq> [] \<and> \<not> derived \<longrightarrow> isResolvablePath path)))"
proof -
  define nodes where "nodes = fold (\<lambda>l. AList.update (historianNode l) l) existing []"
  obtain st hs ls where rows: "rows = [] \<or> rows = row_steps (row_step (map js_upper existing) nodes known types hs) st ls"
    and st: "st = \<lparr>cs_seen = [], cs_nodes = []\<rparr>"
    using assms by (auto simp: parseLoopCsv_def nodes_def Let_def split: list.splits)
  have named: "nodes_named st" by (simp add: st nodes_named_def)
  have facts: "distinct (map (historianNode \<circ> lr_tag) (importable rows))"
    "\<forall>r \<in> set (importable rows). lr_tag r \<noteq> [] \<and> js_trim (lr_tag r) = lr_tag r \<and> loopIdProblem (lr_tag r) = None
        \<and> (truthy (map_of nodes (historianNode (lr_tag r))) \<longrightarrow> js_upper (the (map_of nodes (historianNode (lr_tag r)))) = lr_tag r)
        \<and> loc_site (lr_location r) \<noteq> []
        \<and> lr_paths r = map (\<lambda>role. (role, role_path (lr_values r) (lr_location r) (lr_tag r) role)) SIGNAL_ROLES
        \<and> (\<forall>role \<in> set SIGNAL_ROLES. role_problems (lr_values r) (lr_location r) (lr_tag r) role = [])"
    using rows importable_nodes [OF named, of "map js_upper existing" nodes known types hs ls] by (auto simp: importable_def)
  have same: "map (safeNode \<circ> lr_tag) (importable rows) = map (historianNode \<circ> lr_tag) (importable rows)"
    using facts(2) by (auto simp: sanitized_of_trimmed)
  have "distinct (map (safeNode \<circ> lr_tag) (importable rows))" unfolding same by (rule facts(1))
  moreover have "js_upper l = lr_tag r"
    if r: "r \<in> set (importable rows)" and own: "distinct (map historianNode existing)"
      and l: "l \<in> set existing" "l \<noteq> []" "historianNode l = historianNode (lr_tag r)" for r l
  proof -
    obtain l' where "l' \<in> set existing" "historianNode l' = historianNode l" "map_of nodes (historianNode l) = Some l'"
      using registered_last [OF l(1), of "[]"] by (auto simp: nodes_def)
    moreover from this own l(1) have "l' = l" by (auto simp: distinct_map dest: inj_onD)
    ultimately show ?thesis using facts(2) r l by auto
  qed
  moreover have "\<forall>(role, path, derived) \<in> set (lr_paths r). (role \<noteq> RoleVp \<longrightarrow> path \<noteq> []) \<and> (path \<noteq> [] \<and> \<not> derived \<longrightarrow> isResolvablePath path)"
    if "r \<in> set (importable rows)" for r
  proof -
    from facts(2) that have "lr_paths r = map (\<lambda>role. (role, role_path (lr_values r) (lr_location r) (lr_tag r) role)) SIGNAL_ROLES"
      "\<forall>role \<in> set SIGNAL_ROLES. role_problems (lr_values r) (lr_location r) (lr_tag r) role = []" by blast+
    then show ?thesis by (simp add: role_path_sound split: prod.split) (metis fst_conv role_path_sound snd_conv)
  qed
  ultimately show ?thesis using facts by simp
qed

definition one_loop :: string where
  "one_loop = js_join [lf_char] [''tag,service,site,loop_type'', ''A-1,s,h,F'']"

theorem imported_loops_sound_witness:
  "map lr_tag (importable (snd (snd (parseLoopCsv one_loop [] None [])))) = [''A-1'']
    \<and> distinct (map (safeNode \<circ> lr_tag) (importable (snd (snd (parseLoopCsv one_loop [] None [])))))"
proof -
  have "map lr_tag (importable (snd (snd (parseLoopCsv one_loop [] None [])))) = [''A-1'']" by code_simp
  moreover obtain m u rows where p: "parseLoopCsv one_loop [] None [] = (m, u, rows)" by (metis prod_cases3)
  ultimately show ?thesis using imported_loops_sound [OF p] by simp
qed

section \<open>The template\<close>

lemma importable_none:
  "(\<And>l st. l \<in> set ls \<Longrightarrow> lr_problems (snd (step st l)) \<noteq> []) \<Longrightarrow> importable (row_steps step st ls) = []"
proof (induction ls arbitrary: st)
  case (Cons l ls)
  then have "importable (row_steps step st' ls) = []" for st' by simp
  moreover have "lr_problems (snd (step st l)) \<noteq> []" using Cons.prems by simp
  ultimately show ?case by (cases "step st l") (simp add: importable_def)
qed (simp add: importable_def)

lemma split_join_lines: "ls \<noteq> [] \<Longrightarrow> \<forall>l \<in> set ls. d \<notin> set l \<Longrightarrow> js_split d (js_join [d] ls) = ls"
proof (induction ls)
  case (Cons l ls)
  then show ?case by (cases ls) (simp_all add: js_split_none js_split_join)
qed simp

text \<open>Lines that are what trimming leaves, and no comments, are the lines of the text.\<close>

definition plain_line :: "string \<Rightarrow> bool" where
  "plain_line l \<longleftrightarrow> l \<noteq> [] \<and> hd l \<noteq> CHR ''#'' \<and> \<not> is_space (hd l) \<and> \<not> is_space (last l) \<and> lf_char \<notin> set l"

lemma plain_trim: "plain_line l \<Longrightarrow> js_trim l = l \<and> drop_cr l = l"
proof -
  assume l: "plain_line l"
  then have "trim_left l = l" by (cases l) (auto simp: plain_line_def trim_left_def)
  moreover have "trim_left (rev l) = rev l" using l by (cases l rule: rev_cases) (auto simp: plain_line_def trim_left_def)
  moreover have "last l \<noteq> cr_char" using l by (auto simp: plain_line_def is_space_def code_def)
  ultimately show ?thesis by (simp add: js_trim_def drop_cr_def)
qed

lemma csv_lines_join:
  assumes "ls \<noteq> []" and "\<forall>l \<in> set ls. plain_line l"
  shows "csv_lines (js_join [lf_char] ls) = ls"
proof -
  have split: "js_split lf_char (js_join [lf_char] ls) = ls"
    using assms by (intro split_join_lines) (auto simp: plain_line_def)
  have "map drop_cr (butlast ls) @ [last ls] = ls"
    using assms by (metis append_butlast_last_id in_set_butlastD map_idI plain_trim)
  then have "map js_trim (map drop_cr (butlast ls) @ [last ls]) = ls"
    using assms(2) by (simp only:) (rule map_idI, simp add: plain_trim)
  then have "csv_lines (js_join [lf_char] ls) = filter (\<lambda>l. l \<noteq> [] \<and> hd l \<noteq> CHR ''#'') ls"
    unfolding csv_lines_def split Let_def by (rule arg_cong)
  also have "\<dots> = ls" using assms(2) by (intro filter_True) (simp add: plain_line_def)
  finally show ?thesis .
qed

text \<open>Without quotes the cells are the pieces between the commas.\<close>

lemma scan_unquoted:
  "quote_char \<notin> set s \<Longrightarrow> scan_line s False cur cells = cells @ (case js_split (CHR '','') s of [] \<Rightarrow> [] | w # ws \<Rightarrow> js_trim (cur @ w) # map js_trim ws)"
  by (induction s arbitrary: cur cells) (auto split: list.splits)

lemma split_unquoted: "quote_char \<notin> set l \<Longrightarrow> splitCsvLine l = map js_trim (js_split (CHR '','') l)"
  by (cases "js_split (CHR '','') l") (simp_all add: splitCsvLine_def scan_unquoted)

text \<open>
  The template that the dialog offers for download is refused by its own import: each of its rows has 17 cells for
  the 20 columns of its header, whatever is registered.
\<close>

theorem template_refused:
  "\<exists>rows. parseLoopCsv loop_template existing known types = ([], [], rows) \<and> length rows = 2 \<and> importable rows = []"
proof -
  obtain l1 l2 where t: "TEMPLATE_ROWS = [l1, l2]" by (simp add: TEMPLATE_ROWS_def)
  have "list_all (\<lambda>l. plain_line l \<and> quote_char \<notin> set l \<and> length (js_split (CHR '','') l) = 17) TEMPLATE_ROWS"
    by code_simp
  then have rows: "plain_line l1" "plain_line l2" "quote_char \<notin> set l1" "quote_char \<notin> set l2"
      "length (js_split (CHR '','') l1) = 17" "length (js_split (CHR '','') l2) = 17" by (simp_all add: t)
  let ?l0 = "js_join '','' CSV_HEADERS"
  have col: "\<forall>c \<in> set CSV_HEADERS. CHR '','' \<notin> set c" "map (js_lower \<circ> js_trim) CSV_HEADERS = CSV_HEADERS"
    by (simp add: CSV_HEADERS_def) code_simp
  have head_line: "plain_line ?l0" "quote_char \<notin> set ?l0"
    by (simp_all add: CSV_HEADERS_def plain_line_def is_space_def code_def)
  have "js_split (CHR '','') ?l0 = CSV_HEADERS" using col(1) by (intro split_join_lines) (simp_all add: CSV_HEADERS_def)
  then have head: "map js_lower (splitCsvLine ?l0) = CSV_HEADERS" using split_unquoted [OF head_line(2)] col(2) by simp
  have lines: "csv_lines loop_template = [?l0, l1, l2]" unfolding loop_template_def t using head_line(1) rows(1,2) by (intro csv_lines_join) simp_all
  have short: "length (splitCsvLine l1) = 17" "length (splitCsvLine l2) = 17" using rows split_unquoted by simp_all
  have "length CSV_HEADERS = 20" by (simp add: CSV_HEADERS_def)
  then have bad: "lr_problems (snd (row_step ex nodes known types CSV_HEADERS st l)) \<noteq> []" if "length (splitCsvLine l) = 17" for ex nodes st l
    using row_step_ok(8) [OF prod.collapse [symmetric], of ex nodes known types CSV_HEADERS st l] that by auto
  have cols: "filter (\<lambda>h. \<not> set_mem CSV_HEADERS h) REQUIRED_COLUMNS = []"
    "filter (\<lambda>h. h \<noteq> [] \<and> \<not> set_mem CSV_HEADERS h) CSV_HEADERS = []"
    by (simp add: CSV_HEADERS_def REQUIRED_COLUMNS_def) (simp add: filter_empty_conv)
  let ?step = "row_step (map js_upper existing) (fold (\<lambda>l. AList.update (historianNode l) l) existing []) known types CSV_HEADERS"
  have "parseLoopCsv loop_template existing known types = ([], [], row_steps ?step \<lparr>cs_seen = [], cs_nodes = []\<rparr> [l1, l2])"
    by (simp only: parseLoopCsv_def lines head Let_def list.case cols)
  moreover have "length (row_steps step st [l1, l2]) = 2" for step st by (simp split: prod.split)
  moreover have "importable (row_steps ?step st [l1, l2]) = []" for st
    by (rule importable_none) (use bad short in auto)
  ultimately show ?thesis by blast
qed

end
