(* ===== verification/Manifest_Batcher.thy ===== *)
theory Manifest_Batcher
  imports Artifact_Codec "HOL-Library.Multiset"
begin

text \<open>
  The batcher of manifest reads, src/frontend-ob/src/components/Cpm/evidence/manifestBatcher.ts, as a step relation: calls,
  the timer, and the answers of the requests, in any order.  A caller is the number of its call with the id it asked
  for; settling its promise is an entry of \<open>mb_settled\<close>.  One run of \<open>flush\<close> is a flight: the request that it awaits and the
  callers after the present part.
\<close>

section \<open>Manifests\<close>

record reconstruct_hint =
  rh_purpose :: string
  rh_methodRunId :: string
  rh_endpoint :: string

record evidence_manifest =
  mf_methodRunId :: string
  mf_etag :: string
  mf_readiness :: string
  mf_count :: nat
  mf_reconstructable :: bool
  mf_reconstruct :: reconstruct_hint
  mf_artifacts :: "artifact_meta list"

definition emptyManifest :: "string \<Rightarrow> evidence_manifest" where
  "emptyManifest methodRunId =
     \<lparr>mf_methodRunId = methodRunId, mf_etag = [CHR 0x22] @ ''none'' @ [CHR 0x22], mf_readiness = ''NONE'', mf_count = 0,
      mf_reconstructable = True,
      mf_reconstruct = \<lparr>rh_purpose = ''EVIDENCE_RECONSTRUCTION'', rh_methodRunId = methodRunId, rh_endpoint = ''/api/v1/cpm/analysis-runs''\<rparr>,
      mf_artifacts = []\<rparr>"

section \<open>The state\<close>

type_synonym manifest_caller = "nat \<times> string"

datatype settlement = Fulfilled evidence_manifest | Refused

datatype awaited = Batch_sent "manifest_caller list" | Single_reads "manifest_caller list"

record flight =
  fl_awaits :: awaited
  fl_rest :: "manifest_caller list"

record batcher =
  mb_asked :: "string list"
  mb_queue :: "manifest_caller list"
  mb_timer :: bool
  mb_flights :: "flight list"
  mb_settled :: "(manifest_caller \<times> settlement) list"
  mb_posts :: "string list list"

definition createManifestBatcher :: batcher where
  "createManifestBatcher = \<lparr>mb_asked = [], mb_queue = [], mb_timer = False, mb_flights = [], mb_settled = [], mb_posts = []\<rparr>"

section \<open>The operations\<close>

definition ask_manifest :: "string \<Rightarrow> batcher \<Rightarrow> batcher" where
  "ask_manifest id' s =
     s\<lparr>mb_asked := mb_asked s @ [id'], mb_queue := mb_queue s @ [(length (mb_asked s), id')], mb_timer := True\<rparr>"

text \<open>The top of the loop of \<open>flush\<close>: the flight and its request, or nothing at the end.\<close>

definition next_slice :: "nat \<Rightarrow> manifest_caller list \<Rightarrow> flight list" where
  "next_slice limit rest =
     (if rest = [] then [] else [\<lparr>fl_awaits = Batch_sent (take limit rest), fl_rest = drop limit rest\<rparr>])"

definition slice_post :: "nat \<Rightarrow> manifest_caller list \<Rightarrow> string list list" where
  "slice_post limit rest = (if rest = [] then [] else [js_uniq (map snd (take limit rest))])"

definition start_flush :: "nat \<Rightarrow> batcher \<Rightarrow> batcher" where
  "start_flush limit s =
     s\<lparr>mb_timer := False, mb_queue := [], mb_flights := mb_flights s @ next_slice limit (mb_queue s),
       mb_posts := mb_posts s @ slice_post limit (mb_queue s)\<rparr>"

definition put_flight :: "nat \<Rightarrow> flight list \<Rightarrow> batcher \<Rightarrow> batcher" where
  "put_flight i fs s = s\<lparr>mb_flights := take i (mb_flights s) @ fs @ drop (Suc i) (mb_flights s)\<rparr>"

definition proceed :: "nat \<Rightarrow> nat \<Rightarrow> batcher \<Rightarrow> batcher" where
  "proceed limit i s =
     (let rest = fl_rest (mb_flights s ! i) in
      (put_flight i (next_slice limit rest) s)\<lparr>mb_posts := mb_posts s @ slice_post limit rest\<rparr>)"

definition manifest_for :: "(string \<times> evidence_manifest option) list \<Rightarrow> string \<Rightarrow> evidence_manifest" where
  "manifest_for manifests id' = nullish (nullish (map_of manifests id') None) (emptyManifest id')"

definition batch_answered :: "nat \<Rightarrow> nat \<Rightarrow> manifest_caller list \<Rightarrow> (string \<times> evidence_manifest option) list \<Rightarrow> batcher \<Rightarrow> batcher" where
  "batch_answered limit i part manifests s =
     (proceed limit i s)\<lparr>mb_settled := mb_settled s @ map (\<lambda>p. (p, Fulfilled (manifest_for manifests (snd p)))) part\<rparr>"

definition batch_failed :: "nat \<Rightarrow> nat \<Rightarrow> manifest_caller list \<Rightarrow> batcher \<Rightarrow> batcher" where
  "batch_failed limit i part s =
     (if part = [] then proceed limit i s
      else put_flight i [\<lparr>fl_awaits = Single_reads part, fl_rest = fl_rest (mb_flights s ! i)\<rparr>] s)"

definition single_answered :: "nat \<Rightarrow> nat \<Rightarrow> manifest_caller list \<Rightarrow> nat \<Rightarrow> evidence_manifest option \<Rightarrow> batcher \<Rightarrow> batcher" where
  "single_answered limit i ps k answer s =
     (let others = take k ps @ drop (Suc k) ps in
      (if others = [] then proceed limit i s
       else put_flight i [\<lparr>fl_awaits = Single_reads others, fl_rest = fl_rest (mb_flights s ! i)\<rparr>] s)
      \<lparr>mb_settled := mb_settled s @ [(ps ! k, case answer of Some m \<Rightarrow> Fulfilled m | None \<Rightarrow> Refused)]\<rparr>)"

section \<open>Steps and runs\<close>

datatype batcher_event =
    Ask string
  | TimerFires
  | BatchAnswer nat "(string \<times> evidence_manifest option) list"
  | BatchFails nat
  | SingleAnswer nat nat "evidence_manifest option"

inductive batcher_step :: "nat \<Rightarrow> batcher \<Rightarrow> batcher_event \<Rightarrow> batcher \<Rightarrow> bool" for limit where
  step_ask: "batcher_step limit s (Ask id') (ask_manifest id' s)"
| step_timer: "mb_timer s \<Longrightarrow> batcher_step limit s TimerFires (start_flush limit s)"
| step_answer: "i < length (mb_flights s) \<Longrightarrow> fl_awaits (mb_flights s ! i) = Batch_sent part \<Longrightarrow>
    batcher_step limit s (BatchAnswer i manifests) (batch_answered limit i part manifests s)"
| step_fail: "i < length (mb_flights s) \<Longrightarrow> fl_awaits (mb_flights s ! i) = Batch_sent part \<Longrightarrow>
    batcher_step limit s (BatchFails i) (batch_failed limit i part s)"
| step_single: "i < length (mb_flights s) \<Longrightarrow> fl_awaits (mb_flights s ! i) = Single_reads ps \<Longrightarrow> k < length ps \<Longrightarrow>
    batcher_step limit s (SingleAnswer i k answer) (single_answered limit i ps k answer s)"

inductive_cases batcher_stepE: "batcher_step limit s e t"

text \<open>A run whose events satisfy \<open>ok\<close> where they happen.\<close>

inductive batcher_run :: "nat \<Rightarrow> (batcher \<Rightarrow> batcher_event \<Rightarrow> bool) \<Rightarrow> batcher \<Rightarrow> batcher_event list \<Rightarrow> batcher \<Rightarrow> bool"
  for limit ok where
  run_none: "batcher_run limit ok s [] s"
| run_more: "ok s e \<Longrightarrow> batcher_step limit s e t \<Longrightarrow> batcher_run limit ok t es u \<Longrightarrow> batcher_run limit ok s (e # es) u"

lemma batcher_run_preserves:
  "batcher_run limit ok s es t \<Longrightarrow> P s \<Longrightarrow> (\<And>s e t. ok s e \<Longrightarrow> batcher_step limit s e t \<Longrightarrow> P s \<Longrightarrow> P t) \<Longrightarrow> P t"
  by (induction rule: batcher_run.induct) blast+

section \<open>Who waits\<close>

fun awaiting :: "awaited \<Rightarrow> manifest_caller list" where
  "awaiting (Batch_sent ps) = ps"
| "awaiting (Single_reads ps) = ps"

definition flight_callers :: "flight \<Rightarrow> manifest_caller list" where
  "flight_callers f = awaiting (fl_awaits f) @ fl_rest f"

definition outstanding :: "batcher \<Rightarrow> manifest_caller list" where
  "outstanding s = mb_queue s @ concat (map flight_callers (mb_flights s))"

text \<open>Requests that can still be needed for a flight.\<close>

fun flight_work :: "flight \<Rightarrow> nat" where
  "flight_work f = (case fl_awaits f of Batch_sent ps \<Rightarrow> 1 + length ps | Single_reads ps \<Rightarrow> length ps) + 2 * length (fl_rest f)"

definition work :: "batcher \<Rightarrow> nat" where
  "work s = (if mb_timer s then 1 else 0) + 2 * length (mb_queue s) + sum_list (map flight_work (mb_flights s))"

text \<open>
  The invariant: every caller is queued, in a flight or settled, once; a queue has a timer; nothing awaited is empty; the ids of
  a request are distinct and at most \<open>limit\<close>.
\<close>

definition batcher_ok :: "nat \<Rightarrow> batcher \<Rightarrow> bool" where
  "batcher_ok limit s \<longleftrightarrow>
     mset (outstanding s) + mset (map fst (mb_settled s)) = mset (enumerate 0 (mb_asked s))
   \<and> (mb_queue s \<noteq> [] \<longrightarrow> mb_timer s)
   \<and> (\<forall>f \<in> set (mb_flights s). awaiting (fl_awaits f) \<noteq> [])
   \<and> (\<forall>ids \<in> set (mb_posts s). ids \<noteq> [] \<and> distinct ids \<and> length ids \<le> limit)"

lemma length_js_uniq: "length (js_uniq xs) \<le> length xs"
  by (metis distinct_card distinct_js_uniq card_length set_js_uniq)

lemma next_slice_facts:
  assumes "0 < limit"
  shows "concat (map flight_callers (next_slice limit rest)) = rest"
    "\<forall>f \<in> set (next_slice limit rest). awaiting (fl_awaits f) \<noteq> []"
    "\<forall>ids \<in> set (slice_post limit rest). ids \<noteq> [] \<and> distinct ids \<and> length ids \<le> limit"
    "sum_list (map flight_work (next_slice limit rest)) \<le> 2 * length rest"
proof -
  have "length (js_uniq (map snd (take limit rest))) \<le> limit"
    using length_js_uniq [of "map snd (take limit rest)"] by simp
  moreover have "js_uniq (map snd (take limit rest)) \<noteq> []" if "rest \<noteq> []"
    using that assms set_js_uniq [of "map snd (take limit rest)"] by (metis set_empty map_is_Nil_conv take_eq_Nil neq0_conv)
  ultimately show "\<forall>ids \<in> set (slice_post limit rest). ids \<noteq> [] \<and> distinct ids \<and> length ids \<le> limit"
    by (simp add: slice_post_def)
  have "1 + min (length rest) limit + 2 * (length rest - limit) \<le> 2 * length rest" if "rest \<noteq> []"
    using that assms by (cases rest) (auto simp: min_def)
  then show "sum_list (map flight_work (next_slice limit rest)) \<le> 2 * length rest"
    by (simp add: next_slice_def)
qed (use assms in \<open>auto simp: next_slice_def flight_callers_def\<close>)

text \<open>A flight between the others.\<close>

lemma flights_at:
  assumes "i < length (mb_flights s)"
  obtains xs f ys where "mb_flights s = xs @ f # ys" "length xs = i" "mb_flights s ! i = f"
  using id_take_nth_drop [OF assms] assms by (metis length_take min.absorb4 nth_append_length)

lemma put_flight_at: "mb_flights s = xs @ f # ys \<Longrightarrow> length xs = i \<Longrightarrow> mb_flights (put_flight i fs s) = xs @ fs @ ys"
  by (simp add: put_flight_def)

lemma put_flight_rest [simp]:
  "mb_asked (put_flight i fs s) = mb_asked s" "mb_queue (put_flight i fs s) = mb_queue s" "mb_timer (put_flight i fs s) = mb_timer s"
  "mb_settled (put_flight i fs s) = mb_settled s" "mb_posts (put_flight i fs s) = mb_posts s"
  by (simp_all add: put_flight_def)

lemma without_nth: "k < length ps \<Longrightarrow> mset (take k ps @ drop (Suc k) ps) + {#ps ! k#} = mset ps"
  by (metis (no_types, lifting) add_mset_add_single id_take_nth_drop mset.simps(2) mset_append union_mset_add_mset_right)

text \<open>What one flight becomes, whatever it awaited: a step is one of these changes.\<close>

lemma flight_change:
  assumes "0 < limit" and "batcher_ok limit s" and "mb_flights s = xs @ f # ys"
    and "mb_flights t = xs @ fs @ ys" and "mb_asked t = mb_asked s" "mb_queue t = mb_queue s" "mb_timer t = mb_timer s"
    and "mset (concat (map flight_callers fs)) + mset (map fst new) = mset (flight_callers f)"
    and "mb_settled t = mb_settled s @ new" and "mb_posts t = mb_posts s @ posts"
    and "\<forall>f \<in> set fs. awaiting (fl_awaits f) \<noteq> []"
    and "\<forall>ids \<in> set posts. ids \<noteq> [] \<and> distinct ids \<and> length ids \<le> limit"
    and "sum_list (map flight_work fs) < flight_work f"
  shows "batcher_ok limit t \<and> work t < work s"
proof -
  have "mset (outstanding t) + mset (map fst (mb_settled t)) = mset (outstanding s) + mset (map fst (mb_settled s))"
    using assms(8) by (simp add: outstanding_def assms(3-6,9) ac_simps)
  then have "batcher_ok limit t" using assms(2) by (auto simp: batcher_ok_def assms(3-7,10) dest: bspec [OF assms(11)] bspec [OF assms(12)])
  moreover have "work t < work s" using assms(13) by (simp add: work_def assms(3-7))
  ultimately show ?thesis ..
qed


lemma batch_answered_ok:
  assumes "0 < limit" and "batcher_ok limit s" and "i < length (mb_flights s)" and "fl_awaits (mb_flights s ! i) = Batch_sent part"
  shows "batcher_ok limit (batch_answered limit i part ms s) \<and> work (batch_answered limit i part ms s) < work s"
proof -
  obtain xs f ys where f: "mb_flights s = xs @ f # ys" "length xs = i" "mb_flights s ! i = f" by (rule flights_at [OF assms(3)])
  note nx = next_slice_facts [OF assms(1), of "fl_rest f"]
  show ?thesis
  proof (rule flight_change [OF assms(1,2) f(1)])
    show "mb_flights (batch_answered limit i part ms s) = xs @ next_slice limit (fl_rest f) @ ys"
      by (simp add: batch_answered_def proceed_def Let_def f(3) put_flight_at [OF f(1,2)])
  qed (use assms(4) nx in \<open>simp_all add: batch_answered_def proceed_def Let_def f(3) flight_callers_def comp_def\<close>)
qed

lemma batch_failed_ok:
  assumes "0 < limit" and "batcher_ok limit s" and "i < length (mb_flights s)" and "fl_awaits (mb_flights s ! i) = Batch_sent part"
  shows "batcher_ok limit (batch_failed limit i part s) \<and> work (batch_failed limit i part s) < work s"
proof -
  obtain xs f ys where f: "mb_flights s = xs @ f # ys" "length xs = i" "mb_flights s ! i = f" by (rule flights_at [OF assms(3)])
  have "part \<noteq> []" using assms(2-4) by (auto simp: batcher_ok_def dest!: bspec [OF _ nth_mem])
  then have b: "batch_failed limit i part s = put_flight i [\<lparr>fl_awaits = Single_reads part, fl_rest = fl_rest f\<rparr>] s"
    by (simp add: batch_failed_def f(3))
  show ?thesis unfolding b
    by (rule flight_change [OF assms(1,2) f(1) put_flight_at [OF f(1,2)], where new = "[]" and posts = "[]"])
      (use assms(4) \<open>part \<noteq> []\<close> in \<open>simp_all add: f(3) flight_callers_def\<close>)
qed

lemma single_answered_ok:
  assumes "0 < limit" and "batcher_ok limit s" and "i < length (mb_flights s)" and "fl_awaits (mb_flights s ! i) = Single_reads ps"
    and "k < length ps"
  shows "batcher_ok limit (single_answered limit i ps k answer s) \<and> work (single_answered limit i ps k answer s) < work s"
proof -
  obtain xs f ys where f: "mb_flights s = xs @ f # ys" "length xs = i" "mb_flights s ! i = f" by (rule flights_at [OF assms(3)])
  define others where "others = take k ps @ drop (Suc k) ps"
  have others: "mset others + {#ps ! k#} = mset ps" unfolding others_def by (rule without_nth [OF assms(5)])
  have len: "length others < length ps" using assms(5) by (simp add: others_def)
  note nx = next_slice_facts [OF assms(1), of "fl_rest f"]
  have less: "sum_list (map flight_work (next_slice limit (fl_rest f))) < length ps + 2 * length (fl_rest f)"
    using nx(4) assms(5) by linarith
  show ?thesis
  proof (cases "others = []")
    case True
    show ?thesis
      by (rule flight_change [OF assms(1,2) f(1), where fs = "next_slice limit (fl_rest f)" and posts = "slice_post limit (fl_rest f)"
            and new = "[(ps ! k, case answer of Some m \<Rightarrow> Fulfilled m | None \<Rightarrow> Refused)]"])
        (use True others len assms(4) nx less in \<open>simp_all add: single_answered_def proceed_def Let_def f(3) flight_callers_def others_def [symmetric] put_flight_at [OF f(1,2)]\<close>)
  next
    case False
    show ?thesis
      by (rule flight_change [OF assms(1,2) f(1), where fs = "[\<lparr>fl_awaits = Single_reads others, fl_rest = fl_rest f\<rparr>]" and posts = "[]"
            and new = "[(ps ! k, case answer of Some m \<Rightarrow> Fulfilled m | None \<Rightarrow> Refused)]"])
        (use False others len assms(4) in \<open>simp_all add: single_answered_def f(3) flight_callers_def others_def [symmetric] put_flight_at [OF f(1,2)]\<close>)
  qed
qed

lemma ask_ok: "batcher_ok limit s \<Longrightarrow> batcher_ok limit (ask_manifest id' s)"
  by (simp add: batcher_ok_def ask_manifest_def outstanding_def enumerate_append_eq ac_simps)

lemma start_flush_ok:
  assumes "0 < limit" and "batcher_ok limit s" and "mb_timer s"
  shows "batcher_ok limit (start_flush limit s) \<and> work (start_flush limit s) < work s"
  using assms next_slice_facts [OF assms(1), of "mb_queue s"]
  by (auto simp: batcher_ok_def start_flush_def outstanding_def work_def ac_simps)

lemma step_ok:
  assumes "batcher_step limit s e t" and "0 < limit" and "batcher_ok limit s"
  shows "batcher_ok limit t \<and> ((\<nexists>id'. e = Ask id') \<longrightarrow> work t < work s)"
  using assms(1)
proof cases
  case step_ask
  then show ?thesis using ask_ok [OF assms(3)] by simp
next
  case step_timer
  then show ?thesis using start_flush_ok [OF assms(2,3)] by simp
next
  case (step_answer i part ms)
  then show ?thesis using batch_answered_ok [OF assms(2,3)] by simp
next
  case (step_fail i part)
  then show ?thesis using batch_failed_ok [OF assms(2,3)] by simp
next
  case (step_single i ps k answer)
  then show ?thesis using single_answered_ok [OF assms(2,3)] by simp
qed

lemma create_ok: "batcher_ok limit createManifestBatcher"
  by (simp add: batcher_ok_def createManifestBatcher_def outstanding_def)

lemma run_ok:
  assumes "0 < limit" and "batcher_run limit ok createManifestBatcher es s"
  shows "batcher_ok limit s"
  using assms(2) create_ok by (rule batcher_run_preserves) (use step_ok assms(1) in blast)

text \<open>Something outstanding is something that can happen.\<close>

lemma outstanding_enabled:
  assumes "batcher_ok limit s" and "outstanding s \<noteq> []"
  shows "\<exists>e t. (\<nexists>id'. e = Ask id') \<and> batcher_step limit s e t"
proof (cases "mb_queue s = []")
  case False
  then have "batcher_step limit s TimerFires (start_flush limit s)" using assms(1) by (intro step_timer) (simp add: batcher_ok_def)
  then show ?thesis by blast
next
  case True
  then have "mb_flights s \<noteq> []" using assms(2) by (auto simp: outstanding_def)
  then have i: "0 < length (mb_flights s)" by simp
  show ?thesis
  proof (cases "fl_awaits (mb_flights s ! 0)")
    case (Batch_sent part)
    from step_fail [OF i this] show ?thesis by blast
  next
    case (Single_reads ps)
    then have "ps \<noteq> []" using assms(1) i by (auto simp: batcher_ok_def dest!: bspec [OF _ nth_mem])
    with step_single [OF i Single_reads, of 0] show ?thesis by blast
  qed
qed

lemma enabled_outstanding:
  assumes "batcher_ok limit s" and "batcher_step limit s e t" and "\<nexists>id'. e = Ask id'"
  shows "outstanding s \<noteq> [] \<or> mb_timer s"
  using assms(2)
proof cases
  case (step_answer i part ms)
  then show ?thesis using assms(1) by (fastforce simp: batcher_ok_def outstanding_def flight_callers_def dest!: bspec [OF _ nth_mem])
next
  case (step_fail i part)
  then show ?thesis using assms(1) by (fastforce simp: batcher_ok_def outstanding_def flight_callers_def dest!: bspec [OF _ nth_mem])
next
  case (step_single i ps k answer)
  then show ?thesis using assms(1) by (fastforce simp: batcher_ok_def outstanding_def flight_callers_def dest!: bspec [OF _ nth_mem])
qed (use assms(3) in auto)

section \<open>What the callers are given\<close>

text \<open>Answers that agree with the single route: \<open>route id\<close> is the manifest it gives for \<open>id\<close>.\<close>

fun honest :: "(string \<Rightarrow> evidence_manifest) \<Rightarrow> batcher \<Rightarrow> batcher_event \<Rightarrow> bool" where
  "honest route s (BatchAnswer i ms) = list_all (\<lambda>p. manifest_for ms (snd p) = route (snd p)) (awaiting (fl_awaits (mb_flights s ! i)))"
| "honest route s (SingleAnswer i k (Some m)) = (m = route (snd (awaiting (fl_awaits (mb_flights s ! i)) ! k)))"
| "honest route s e = True"

definition served :: "(string \<Rightarrow> evidence_manifest) \<Rightarrow> (manifest_caller \<times> settlement) list \<Rightarrow> bool" where
  "served route xs = list_all (\<lambda>(p, v). v = Fulfilled (route (snd p)) \<or> v = Refused) xs"

definition refused :: "batcher \<Rightarrow> bool" where
  "refused s = list_ex (\<lambda>(p, v). v = Refused) (mb_settled s)"

lemma proceed_settled [simp]: "mb_settled (proceed limit i s) = mb_settled s"
  by (simp add: proceed_def Let_def)

lemma step_settles:
  assumes "batcher_step limit s e t" and "honest route s e"
  shows "\<exists>new. mb_settled t = mb_settled s @ new \<and> served route new
    \<and> (list_ex (\<lambda>(p, v). v = Refused) new \<longrightarrow> (\<exists>i k. e = SingleAnswer i k None))"
  using assms(1)
proof cases
  case (step_answer i part ms)
  then show ?thesis using assms(2) by (simp add: batch_answered_def served_def list_all_iff list_ex_iff)
next
  case (step_single i ps k answer)
  then show ?thesis using assms(2)
    by (cases answer) (simp_all add: single_answered_def served_def Let_def)
qed (simp_all add: ask_manifest_def start_flush_def batch_failed_def served_def)

lemma run_settles:
  "batcher_run limit (honest route) s es t \<Longrightarrow> served route (mb_settled s) \<Longrightarrow>
     served route (mb_settled t) \<and> (refused t \<longrightarrow> refused s \<or> (\<exists>i k. SingleAnswer i k None \<in> set es))"
proof (induction rule: batcher_run.induct)
  case (run_more s e t es u)
  then show ?case using step_settles [OF run_more.hyps(2,1)] by (auto simp: served_def refused_def)
qed simp

lemma run_idle:
  "batcher_run limit (\<lambda>s e. \<forall>id'. e \<noteq> Ask id') s fs t \<Longrightarrow> 0 < limit \<Longrightarrow> batcher_ok limit s \<Longrightarrow>
     batcher_ok limit t \<and> length fs + work t \<le> work s"
proof (induction rule: batcher_run.induct)
  case (run_more s e t es u)
  then show ?case using step_ok [OF run_more.hyps(2)] by fastforce
qed simp

lemma work_bound:
  assumes "batcher_ok limit s"
  shows "work s \<le> 1 + 2 * length (outstanding s)"
proof -
  have "flight_work f \<le> 2 * length (flight_callers f)" if "awaiting (fl_awaits f) \<noteq> []" for f
    using that by (cases "fl_awaits f") (auto simp: flight_callers_def Suc_le_eq)
  then have "sum_list (map flight_work (mb_flights s)) \<le> 2 * length (concat (map flight_callers (mb_flights s)))"
    if "\<forall>f \<in> set fs. awaiting (fl_awaits f) \<noteq> []" "fs = mb_flights s" for fs
    using that(1) unfolding that(2) [symmetric] by (induction fs) (auto simp: add_mono)
  then show ?thesis using assms by (simp add: work_def outstanding_def batcher_ok_def)
qed

section \<open>A run\<close>

definition two_asked :: batcher where
  "two_asked = ask_manifest ''b'' (ask_manifest ''a'' createManifestBatcher)"

definition two_sent :: batcher where
  "two_sent = start_flush 2 two_asked"

definition two_callers :: "manifest_caller list" where
  "two_callers = [(0, ''a''), (1, ''b'')]"

lemma two_states:
  "mb_timer two_asked" "length (mb_flights two_sent) = 1" "fl_awaits (mb_flights two_sent ! 0) = Batch_sent two_callers"
  "outstanding two_asked = two_callers" "length two_callers = 2" "two_callers ! Suc 0 = (1, ''b'')"
  by (simp_all add: two_sent_def two_asked_def two_callers_def ask_manifest_def createManifestBatcher_def start_flush_def next_slice_def
      outstanding_def)

lemma two_run: "batcher_run 2 ok createManifestBatcher [Ask ''a'', Ask ''b''] two_asked"
  if "\<And>s id'. ok s (Ask id')"
  unfolding two_asked_def by (rule run_more, rule that, rule step_ask)+ (rule run_none)

section \<open>Properties\<close>

text \<open>
  C29. Every caller is answered: once no further call is made, each firing of the timer and each answer of a request, in whatever
  order, brings the batcher closer to rest, which it reaches after at most one step more than twice the callers outstanding;
  at rest every caller that ever asked has been settled exactly once.
\<close>

theorem batcher_answers_every_caller:
  assumes "0 < limit" and "batcher_run limit (\<lambda>s e. True) createManifestBatcher es s"
    and "batcher_run limit (\<lambda>s e. \<forall>id'. e \<noteq> Ask id') s fs t"
  shows "length fs \<le> 1 + 2 * length (outstanding s)
    \<and> ((\<nexists>e u. (\<forall>id'. e \<noteq> Ask id') \<and> batcher_step limit t e u)
        \<longrightarrow> mset (map fst (mb_settled t)) = mset (enumerate 0 (mb_asked t)))"
proof -
  have s: "batcher_ok limit s" by (rule run_ok [OF assms(1,2)])
  with run_idle [OF assms(3,1)] have t: "batcher_ok limit t" and len: "length fs + work t \<le> work s" by simp_all
  have "mset (map fst (mb_settled t)) = mset (enumerate 0 (mb_asked t))" if "\<nexists>e u. (\<forall>id'. e \<noteq> Ask id') \<and> batcher_step limit t e u"
  proof -
    from that outstanding_enabled [OF t] have "outstanding t = []" by blast
    with t show ?thesis by (simp add: batcher_ok_def)
  qed
  with len work_bound [OF s] show ?thesis by simp
qed

theorem batcher_answers_every_caller_witness:
  "\<exists>t. batcher_run 2 (\<lambda>s e. \<forall>id'. e \<noteq> Ask id') two_asked [TimerFires, BatchAnswer 0 []] t
     \<and> (2 :: nat) \<le> 1 + 2 * length (outstanding two_asked) \<and> mset (map fst (mb_settled t)) = mset (enumerate 0 [''a'', ''b''])"
proof -
  define t where "t = batch_answered 2 0 two_callers [] two_sent"
  have run: "batcher_run 2 (\<lambda>s e. \<forall>id'. e \<noteq> Ask id') two_asked [TimerFires, BatchAnswer 0 []] t"
    unfolding t_def two_sent_def
    by (rule run_more [OF _ step_timer run_more [OF _ step_answer run_none]]) (simp_all add: two_states flip: two_sent_def)
  have idle: "\<not> mb_timer t" "mb_flights t = []" "mb_asked t = [''a'', ''b'']"
    by (simp_all add: t_def batch_answered_def proceed_def put_flight_def two_sent_def two_asked_def two_callers_def ask_manifest_def
        createManifestBatcher_def start_flush_def next_slice_def)
  then have "\<nexists>e u. (\<forall>id'. e \<noteq> Ask id') \<and> batcher_step 2 t e u" by (auto elim!: batcher_stepE)
  then show ?thesis using batcher_answers_every_caller [OF _ two_run run] run idle(3) by auto
qed

text \<open>
  Batching changes no answer: if the batch route and the single route agree, every settled caller is one that asked, is settled
  once, and has the manifest that the single route gives for its own id; a promise is refused only after a single read
  failed.  Every batch request has ids, no id twice, and at most \<open>limit\<close> of them.
\<close>

theorem batcher_serves_single_reads:
  assumes "0 < limit" and "batcher_run limit (honest route) createManifestBatcher es s"
  shows "distinct (map fst (mb_settled s))
    \<and> (\<forall>((c, id'), v) \<in> set (mb_settled s). c < length (mb_asked s) \<and> mb_asked s ! c = id' \<and>
         (v = Fulfilled (route id') \<or> v = Refused \<and> (\<exists>i k. SingleAnswer i k None \<in> set es)))
    \<and> (\<forall>ids \<in> set (mb_posts s). ids \<noteq> [] \<and> distinct ids \<and> length ids \<le> limit)"
proof -
  have ok: "batcher_ok limit s" by (rule run_ok [OF assms])
  have all: "mset (map fst (mb_settled s)) \<subseteq># mset (enumerate 0 (mb_asked s))"
    using ok by (metis batcher_ok_def mset_subset_eq_add_right)
  have "distinct (map fst (mb_settled s))"
    using ok mset_eq_imp_distinct_iff [of "outstanding s @ map fst (mb_settled s)" "enumerate 0 (mb_asked s)"]
    by (simp add: batcher_ok_def)
  moreover have "c < length (mb_asked s) \<and> mb_asked s ! c = id'" if "((c, id'), v) \<in> set (mb_settled s)" for c id' v
  proof -
    from that have "(c, id') \<in># mset (map fst (mb_settled s))" by force
    then have "(c, id') \<in> set (enumerate 0 (mb_asked s))" using all mset_subset_eqD by fastforce
    then show ?thesis by (auto simp: in_set_enumerate_eq)
  qed
  moreover have "served route (mb_settled s)" "refused s \<longrightarrow> (\<exists>i k. SingleAnswer i k None \<in> set es)"
    using run_settles [OF assms(2)] by (simp_all add: createManifestBatcher_def served_def refused_def)
  ultimately show ?thesis using ok by (fastforce simp: batcher_ok_def served_def refused_def list_all_iff list_ex_iff)
qed


theorem batcher_serves_single_reads_witness:
  "\<exists>s. batcher_run 2 (honest emptyManifest) createManifestBatcher
          [Ask ''a'', Ask ''b'', TimerFires, BatchFails 0, SingleAnswer 0 1 (Some (emptyManifest ''b''))] s
     \<and> mb_settled s = [((1, ''b''), Fulfilled (emptyManifest ''b''))] \<and> distinct (map fst (mb_settled s))"
proof -
  define f where "f = batch_failed 2 0 two_callers two_sent"
  have f: "length (mb_flights f) = 1" "fl_awaits (mb_flights f ! 0) = Single_reads two_callers" "mb_settled f = []"
    by (simp_all add: f_def batch_failed_def put_flight_def two_callers_def two_sent_def two_asked_def ask_manifest_def
        createManifestBatcher_def start_flush_def next_slice_def)
  define s where "s = single_answered 2 0 two_callers 1 (Some (emptyManifest ''b'')) f"
  have "batcher_run 2 (honest emptyManifest) two_asked [TimerFires, BatchFails 0, SingleAnswer 0 1 (Some (emptyManifest ''b''))] s"
    unfolding s_def f_def two_sent_def
    by (rule run_more [OF _ step_timer run_more [OF _ step_fail run_more [OF _ step_single run_none]]])
      (simp_all add: two_states f flip: two_sent_def f_def)
  then have run: "batcher_run 2 (honest emptyManifest) createManifestBatcher
      [Ask ''a'', Ask ''b'', TimerFires, BatchFails 0, SingleAnswer 0 1 (Some (emptyManifest ''b''))] s"
    unfolding two_asked_def by (intro run_more [OF _ step_ask]) simp_all
  moreover have "mb_settled s = [((1, ''b''), Fulfilled (emptyManifest ''b''))]"
    by (simp add: s_def single_answered_def f(3) two_callers_def)
  ultimately show ?thesis using batcher_serves_single_reads [OF _ run] by auto
qed

end
