(* ===== verification/Chunk_Source.thy ===== *)
theory Chunk_Source
  imports Artifact_Laws
begin

text \<open>
  Where an artifact's chunks come from, src/frontend-ob/src/components/Cpm/evidence/chunkSource.ts: one bundle request per run,
  shared by its artifacts, with the per-chunk route to fall back on.  A promise is an index into \<open>cs_promises\<close>; a call is
  recorded with the promise it awaits, and its outcome is read off that promise.
\<close>

section \<open>The state\<close>

type_synonym run_bundle = "(string \<times> byte list option list) list"

datatype bundle_promise = Requested | Received "run_bundle option"

record chunk_call =
  cc_run :: string
  cc_promise :: nat
  cc_evidence :: string
  cc_chunk :: nat

record chunk_source =
  bundles :: "(string \<times> nat) list"
  cs_promises :: "(string \<times> bundle_promise) list"
  cs_calls :: "chunk_call list"

definition empty_source :: chunk_source where
  "empty_source = \<lparr>bundles = [], cs_promises = [], cs_calls = []\<rparr>"

definition MAX_CACHED_RUNS :: nat where "MAX_CACHED_RUNS = 24"

section \<open>The operations\<close>

text \<open>\<open>set\<close>, and the oldest entry leaves; the map is in the order of insertion.\<close>

definition admit :: "string \<Rightarrow> nat \<Rightarrow> (string \<times> nat) list \<Rightarrow> (string \<times> nat) list" where
  "admit methodRunId p m0 =
     (let m = AList.update methodRunId p m0; oldest = fst (hd m) in
      if MAX_CACHED_RUNS < length m \<and> oldest \<noteq> methodRunId then AList.delete oldest m else m)"

text \<open>The promise of a run's bundle; a run that is not cached is requested.\<close>

definition bundleOf :: "string \<Rightarrow> chunk_source \<Rightarrow> chunk_source \<times> nat" where
  "bundleOf methodRunId s =
     (case map_of (bundles s) methodRunId of
        Some p \<Rightarrow> (s, p)
      | None \<Rightarrow>
          (let p = length (cs_promises s) in
           (s\<lparr>bundles := admit methodRunId p (bundles s), cs_promises := cs_promises s @ [(methodRunId, Requested)]\<rparr>, p)))"

definition bundledChunkFetcher :: "string \<Rightarrow> string \<Rightarrow> nat \<Rightarrow> chunk_source \<Rightarrow> chunk_source" where
  "bundledChunkFetcher methodRunId evidenceId n s =
     (let (s', p) = bundleOf methodRunId s in
      s'\<lparr>cs_calls := cs_calls s' @ [\<lparr>cc_run = methodRunId, cc_promise = p, cc_evidence = evidenceId, cc_chunk = n\<rparr>]\<rparr>)"

text \<open>\<open>answer\<close> is \<open>None\<close> if the request is rejected; a body that \<open>parseBundle\<close> refuses ends in the same catch.\<close>

definition bundle_arrives :: "nat \<Rightarrow> byte list option \<Rightarrow> chunk_source \<Rightarrow> chunk_source" where
  "bundle_arrives p answer s =
     (let methodRunId = fst (cs_promises s ! p);
          parsed = (case answer of None \<Rightarrow> None | Some bytes \<Rightarrow> (case parseBundle bytes of Inl _ \<Rightarrow> None | Inr m \<Rightarrow> Some m)) in
      s\<lparr>bundles := (if parsed = None then AList.delete methodRunId (bundles s) else bundles s),
        cs_promises := (cs_promises s)[p := (methodRunId, Received parsed)]\<rparr>)"

definition resetBundleCache :: "chunk_source \<Rightarrow> chunk_source" where
  "resetBundleCache s = s\<lparr>bundles := []\<rparr>"

section \<open>The outcome of a call\<close>

definition chunk_in :: "run_bundle option \<Rightarrow> string \<Rightarrow> nat \<Rightarrow> byte list option" where
  "chunk_in found evidenceId n =
     (case found of None \<Rightarrow> None | Some m \<Rightarrow>
       (case map_of m evidenceId of None \<Rightarrow> None | Some chunks \<Rightarrow> if n < length chunks then chunks ! n else None))"

text \<open>
  \<open>None\<close> while the bundle is awaited; then the bundle's chunk, or what the per-chunk route \<open>fetchChunk\<close> gives, \<open>None\<close> for a
  rejected request.
\<close>

definition outcome :: "(string \<Rightarrow> nat \<Rightarrow> byte list option) \<Rightarrow> chunk_source \<Rightarrow> chunk_call \<Rightarrow> byte list option option" where
  "outcome fetchChunk s c =
     (case snd (cs_promises s ! cc_promise c) of
        Requested \<Rightarrow> None
      | Received found \<Rightarrow>
          Some (case chunk_in found (cc_evidence c) (cc_chunk c) of
                  Some chunk \<Rightarrow> Some chunk
                | None \<Rightarrow> fetchChunk (cc_evidence c) (cc_chunk c)))"

section \<open>Runs\<close>

datatype source_event = Fetch string string nat | Arrives nat "byte list option" | Reset

fun source_exec :: "source_event \<Rightarrow> chunk_source \<Rightarrow> chunk_source option" where
  "source_exec (Fetch methodRunId evidenceId n) s = Some (bundledChunkFetcher methodRunId evidenceId n s)"
| "source_exec (Arrives p answer) s =
     (if p < length (cs_promises s) \<and> snd (cs_promises s ! p) = Requested then Some (bundle_arrives p answer s) else None)"
| "source_exec Reset s = Some (resetBundleCache s)"

fun source_run :: "source_event list \<Rightarrow> chunk_source \<Rightarrow> chunk_source option" where
  "source_run [] s = Some s"
| "source_run (e # es) s = (case source_exec e s of None \<Rightarrow> None | Some s' \<Rightarrow> source_run es s')"

lemma source_run_preserves:
  "source_run es s = Some t \<Longrightarrow> P s \<Longrightarrow> (\<And>e s t. e \<in> set es \<Longrightarrow> source_exec e s = Some t \<Longrightarrow> P s \<Longrightarrow> P t) \<Longrightarrow> P t"
proof (induction es arbitrary: s)
  case (Cons e es)
  then obtain s' where "source_exec e s = Some s'" "source_run es s' = Some t" by (auto split: option.splits)
  with Cons show ?case by (metis list.set_intros)
qed simp

section \<open>Invariants\<close>

text \<open>The cache is bounded; a cached promise is one for its run and has not failed; a call awaits a promise for its run.\<close>

definition source_ok :: "chunk_source \<Rightarrow> bool" where
  "source_ok s \<longleftrightarrow>
     length (bundles s) \<le> MAX_CACHED_RUNS \<and> distinct (keys (bundles s))
   \<and> (\<forall>run p. map_of (bundles s) run = Some p \<longrightarrow>
         p < length (cs_promises s) \<and> fst (cs_promises s ! p) = run \<and> snd (cs_promises s ! p) \<noteq> Received None)
   \<and> (\<forall>c \<in> set (cs_calls s). cc_promise c < length (cs_promises s) \<and> fst (cs_promises s ! cc_promise c) = cc_run c)"

lemma length_keys: "length (keys m) = length m"
  by (simp add: keys_def)

lemma admit_new:
  assumes "map_of m run = None"
  shows "length (admit run p m) = (if length m < MAX_CACHED_RUNS \<or> m = [] then Suc (length m) else length (admit run p m))"
    "distinct (keys m) \<Longrightarrow> distinct (keys (admit run p m))"
    "map_of (admit run p m) r = Some q \<Longrightarrow> r = run \<and> q = p \<or> map_of m r = Some q"
    "length m \<le> MAX_CACHED_RUNS \<Longrightarrow> length (admit run p m) \<le> MAX_CACHED_RUNS"
    "length m < MAX_CACHED_RUNS \<Longrightarrow> keys (admit run p m) = keys m @ [run]"
proof -
  have keys: "keys (AList.update run p m) = keys m @ [run]" using assms by (simp add: map_simps set_keys)
  then have len: "length (AList.update run p m) = Suc (length m)" by (metis length_append_singleton length_keys)
  show "length m < MAX_CACHED_RUNS \<Longrightarrow> keys (admit run p m) = keys m @ [run]"
    using keys len by (simp add: admit_def Let_def)
  show "length (admit run p m) = (if length m < MAX_CACHED_RUNS \<or> m = [] then Suc (length m) else length (admit run p m))"
    using len by (auto simp: admit_def Let_def MAX_CACHED_RUNS_def)
  show "distinct (keys (admit run p m))" if "distinct (keys m)"
    using that keys assms by (auto simp: admit_def Let_def map_simps set_keys)
  show "map_of (admit run p m) r = Some q \<Longrightarrow> r = run \<and> q = p \<or> map_of m r = Some q"
    by (auto simp: admit_def Let_def map_simps split: if_splits)
  show "length (admit run p m) \<le> MAX_CACHED_RUNS" if l: "length m \<le> MAX_CACHED_RUNS"
  proof (cases "length m = MAX_CACHED_RUNS")
    case True
    then obtain k v rest where m: "m = (k, v) # rest" by (cases m) (auto simp: MAX_CACHED_RUNS_def)
    with assms have k: "k \<noteq> run" "fst (hd (AList.update run p m)) = k" by (auto split: if_splits)
    have "keys (AList.delete k (AList.update run p m)) = filter (\<lambda>x. x \<noteq> k) (keys rest @ [run])"
      unfolding keys_delete keys by (simp add: m keys_def)
    then have "length (AList.delete k (AList.update run p m)) \<le> length (keys rest @ [run])"
      by (metis length_filter_le length_keys)
    with k True m len show ?thesis by (simp add: admit_def Let_def length_keys)
  qed (use l len in \<open>simp add: admit_def Let_def\<close>)
qed

lemma bundleOf_ok:
  assumes "source_ok s" and "bundleOf run s = (s', p)"
  shows "source_ok s' \<and> p < length (cs_promises s') \<and> fst (cs_promises s' ! p) = run"
proof (cases "map_of (bundles s) run")
  case (Some q)
  with assms show ?thesis by (auto simp: bundleOf_def source_ok_def)
next
  case None
  note new = admit_new [OF None]
  from None assms(2) have s': "s' = s\<lparr>bundles := admit run p (bundles s), cs_promises := cs_promises s @ [(run, Requested)]\<rparr>"
    and p: "p = length (cs_promises s)" by (auto simp: bundleOf_def Let_def)
  have "length (bundles s') \<le> MAX_CACHED_RUNS" "distinct (keys (bundles s'))"
    using assms(1) new(2,4) by (simp_all add: s' source_ok_def)
  moreover have "q < length (cs_promises s') \<and> fst (cs_promises s' ! q) = r \<and> snd (cs_promises s' ! q) \<noteq> Received None"
    if "map_of (bundles s') r = Some q" for r q
    using new(3) [of p r q] that assms(1) by (auto simp: s' p source_ok_def nth_append)
  moreover have "cc_promise c < length (cs_promises s') \<and> fst (cs_promises s' ! cc_promise c) = cc_run c" if "c \<in> set (cs_calls s')" for c
    using that assms(1) by (auto simp: s' source_ok_def nth_append)
  moreover have "p < length (cs_promises s')" "fst (cs_promises s' ! p) = run" by (simp_all add: s' p)
  ultimately show ?thesis by (simp add: source_ok_def)
qed

lemma fetch_ok: "source_ok s \<Longrightarrow> source_ok (bundledChunkFetcher run ev n s)"
proof -
  obtain s' p where b: "bundleOf run s = (s', p)" by fastforce
  assume "source_ok s"
  from bundleOf_ok [OF this b] show ?thesis by (auto simp: bundledChunkFetcher_def b source_ok_def)
qed

lemma bundles_shrink: "length (AList.delete k m) \<le> length m"
  by (metis keys_delete length_filter_le length_keys)

lemma arrives_ok:
  assumes "source_ok s" and "p < length (cs_promises s)"
  shows "source_ok (bundle_arrives p answer s)"
proof -
  define parsed where "parsed = (case answer of None \<Rightarrow> None | Some bytes \<Rightarrow> (case parseBundle bytes of Inl _ \<Rightarrow> None | Inr m \<Rightarrow> Some m))"
  have t: "bundle_arrives p answer s = s\<lparr>bundles := (if parsed = None then AList.delete (fst (cs_promises s ! p)) (bundles s) else bundles s),
        cs_promises := (cs_promises s)[p := (fst (cs_promises s ! p), Received parsed)]\<rparr>"
    by (simp add: bundle_arrives_def parsed_def Let_def)
  have "length (AList.delete k (bundles s)) \<le> MAX_CACHED_RUNS" for k
    using assms(1) bundles_shrink le_trans by (fastforce simp: source_ok_def)
  then show ?thesis unfolding t using assms
    by (auto simp: source_ok_def map_simps nth_list_update distinct_keys_delete)
qed

lemma reset_ok: "source_ok s \<Longrightarrow> source_ok (resetBundleCache s)"
  by (simp add: resetBundleCache_def source_ok_def keys_def)

lemma source_exec_ok: "source_exec e s = Some t \<Longrightarrow> source_ok s \<Longrightarrow> source_ok t"
  by (cases e) (auto simp: fetch_ok arrives_ok reset_ok split: if_splits)

lemma empty_source_ok: "source_ok empty_source"
  by (simp add: empty_source_def source_ok_def keys_def)

lemma source_run_ok: "source_run es empty_source = Some s \<Longrightarrow> source_ok s"
  using source_run_preserves [of es empty_source s source_ok] source_exec_ok empty_source_ok by blast

section \<open>One request per run\<close>

text \<open>As long as nothing fails and the runs fit the cache, the cache is the list of the requests.\<close>

definition all_cached :: "chunk_source \<Rightarrow> bool" where
  "all_cached s \<longleftrightarrow> keys (bundles s) = map fst (cs_promises s) \<and> distinct (map fst (cs_promises s))"

fun arrives_well :: "source_event \<Rightarrow> bool" where
  "arrives_well (Arrives p answer) = (case answer of None \<Rightarrow> False | Some bytes \<Rightarrow> is_inr (parseBundle bytes))"
| "arrives_well Reset = False"
| "arrives_well e = True"

fun run_of :: "source_event \<Rightarrow> string set" where
  "run_of (Fetch run ev n) = {run}"
| "run_of e = {}"

lemma finite_run_of [simp]: "finite (run_of e)"
  by (cases e) simp_all

lemma map_fst_kept: "map fst (xs[p := (fst (xs ! p), y)]) = map fst xs"
  by (cases "p < length xs") (simp_all add: map_update list_update_same_conv list_update_beyond)

lemma exec_all_cached:
  assumes "source_exec e s = Some t" and "arrives_well e" and "all_cached s" and "set (map fst (cs_promises s)) \<subseteq> R" and "run_of e \<subseteq> R"
    and "finite R" and "card R \<le> MAX_CACHED_RUNS"
  shows "all_cached t \<and> set (map fst (cs_promises t)) \<subseteq> R"
proof (cases e)
  case (Fetch run ev n)
  show ?thesis
  proof (cases "map_of (bundles s) run")
    case (Some p)
    then have "cs_promises t = cs_promises s" "bundles t = bundles s"
      using assms(1) Fetch by (auto simp: bundledChunkFetcher_def bundleOf_def)
    then show ?thesis using assms(3,4) by (simp add: all_cached_def)
  next
    case None
    then have new: "run \<notin> set (map fst (cs_promises s))" using assms(3) by (metis all_cached_def set_keys)
    have fits: "length (bundles s) < MAX_CACHED_RUNS"
    proof -
      have "card (set (map fst (cs_promises s) @ [run])) \<le> card R"
        using assms(4-6) Fetch by (intro card_mono) auto
      moreover have "card (set (map fst (cs_promises s) @ [run])) = Suc (length (cs_promises s))"
        using new assms(3) by (simp add: all_cached_def distinct_card card_insert_if)
          (metis distinct_card length_map list.set_map)
      moreover have "length (bundles s) = length (cs_promises s)" using assms(3) by (metis all_cached_def length_keys length_map)
      ultimately show ?thesis using assms(7) by simp
    qed
    have "cs_promises t = cs_promises s @ [(run, Requested)]" "bundles t = admit run (length (cs_promises s)) (bundles s)"
      using assms(1) Fetch None by (auto simp: bundledChunkFetcher_def bundleOf_def Let_def)
    then show ?thesis using assms(3-5) Fetch new admit_new(5) [OF None fits] by (simp add: all_cached_def)
  qed
next
  case (Arrives p answer)
  then obtain bytes m where "answer = Some bytes" "parseBundle bytes = Inr m"
    using assms(2) by (auto simp: is_inr_iff split: option.splits)
  then have "map fst (cs_promises t) = map fst (cs_promises s)" "bundles t = bundles s"
    using assms(1) Arrives map_fst_kept by (auto simp: bundle_arrives_def Let_def split: if_splits)
  then show ?thesis using assms(3,4) by (simp add: all_cached_def del: set_map)
qed (use assms(2) in simp)


section \<open>What bundles hold\<close>

text \<open>A bundle that agrees with the per-chunk route.\<close>

definition agrees :: "(string \<Rightarrow> nat \<Rightarrow> byte list option) \<Rightarrow> run_bundle \<Rightarrow> bool" where
  "agrees route m = list_all (\<lambda>(ev, chunks). list_all (\<lambda>(n, c). c = None \<or> c = route ev n) (enumerate 0 chunks)) m"

lemma chunk_in_agrees:
  assumes "agrees route m" and "chunk_in (Some m) ev n = Some c"
  shows "route ev n = Some c"
proof -
  from assms(2) obtain chunks where "(ev, chunks) \<in> set m" "n < length chunks" "chunks ! n = Some c"
    by (auto simp: chunk_in_def dest: map_of_SomeD split: option.splits if_splits)
  with assms(1) show ?thesis by (force simp: agrees_def list_all_iff in_set_enumerate_eq)
qed

text \<open>A frame, also one that ends early, never disagrees with the route that serves the same artifacts.\<close>

definition serves :: "(string \<Rightarrow> nat \<Rightarrow> byte list option) \<Rightarrow> bundled_artifact list \<Rightarrow> bool" where
  "serves route as \<longleftrightarrow>
     distinct (map ba_id as)
   \<and> (\<forall>a \<in> set as. length (ba_id a) = 36 \<and> length (ba_chunks a) < 2 ^ 32 \<and> (\<forall>c \<in> set (ba_chunks a). length c < 2 ^ 32)
        \<and> (\<forall>n < length (ba_chunks a). route (ba_id a) n = Some (ba_chunks a ! n)))"

lemma frame_agrees:
  assumes "serves route as" and "parseBundle (take k (frameBundle as)) = Inr m"
  shows "agrees route m"
proof -
  have ok: "\<forall>a \<in> set as. framable a" "distinct (map ba_id as)" "set (map ba_id as) \<inter> set (keys []) = {}"
    using assms(1) by (auto simp: serves_def framable_def keys_def)
  have "\<exists>j. m = map entry (take j as)"
  proof (cases "k < length (frameBundle as)")
    case True
    then show ?thesis using parse_loop_cut [of as "[]" "[]" k] ok assms(2)
      by (auto simp: parseBundle_def frameBundle_bytes truncated_def keys_def)
  next
    case False
    then have "m = map entry (take (length as) as)"
      using parse_loop_frame [of as "[]" "[]"] ok assms(2) by (simp add: parseBundle_def frameBundle_bytes keys_def)
    then show ?thesis ..
  qed
  then obtain j where m: "m = map entry (take j as)" ..
  have "list_all (\<lambda>(n, c). c = None \<or> c = route (ba_id a) n) (enumerate 0 (map Some (ba_chunks a)))" if "a \<in> set as" for a
    using that assms(1) by (auto simp: serves_def list_all_iff in_set_enumerate_eq)
  then show ?thesis by (auto simp: m agrees_def entry_def list_all_iff dest: in_set_takeD)
qed

definition promises_agree :: "(string \<Rightarrow> nat \<Rightarrow> byte list option) \<Rightarrow> chunk_source \<Rightarrow> bool" where
  "promises_agree route s \<longleftrightarrow> (\<forall>x \<in> set (cs_promises s). \<forall>m. snd x = Received (Some m) \<longrightarrow> agrees route m)"

lemma exec_agrees:
  assumes "source_exec e s = Some t" and "promises_agree route s"
    and "\<And>p bytes. e = Arrives p (Some bytes) \<Longrightarrow> \<exists>as k. serves route as \<and> bytes = take k (frameBundle as)"
  shows "promises_agree route t"
proof (cases e)
  case (Fetch run ev n)
  then show ?thesis using assms(1,2)
    by (auto simp: bundledChunkFetcher_def bundleOf_def promises_agree_def Let_def split: option.splits)
next
  case (Arrives p answer)
  have "agrees route m" if "answer = Some bytes" "parseBundle bytes = Inr m" for bytes m
    using assms(3) [of p bytes] Arrives that frame_agrees by blast
  then show ?thesis using assms(1,2) Arrives
    by (auto simp: bundle_arrives_def promises_agree_def Let_def split: if_splits option.splits sum.splits
        dest!: subsetD [OF set_update_subset_insert])
next
  case Reset
  then show ?thesis using assms(1,2) by (auto simp: resetBundleCache_def promises_agree_def)
qed

section \<open>Properties\<close>

text \<open>
  C30. The bundle is an optimisation that cannot be seen: if the bodies the server sends are bundles, or beginnings of bundles, of
  artifacts that the per-chunk route serves, a call's chunk is the one the per-chunk route gives, whatever arrives, fails, is
  refused or evicted and in whatever order; and it has an outcome as soon as the bundle it awaits is answered.
\<close>

theorem bundled_chunks_transparent:
  assumes "source_run es empty_source = Some s"
    and "\<forall>p bytes. Arrives p (Some bytes) \<in> set es \<longrightarrow> (\<exists>as k. serves route as \<and> bytes = take k (frameBundle as))"
    and "c \<in> set (cs_calls s)"
  shows "outcome route s c
      = (if snd (cs_promises s ! cc_promise c) = Requested then None else Some (route (cc_evidence c) (cc_chunk c)))"
proof -
  have "promises_agree route s"
  proof (rule source_run_preserves [OF assms(1)])
    fix e s t
    assume e: "e \<in> set es" and x: "source_exec e s = Some t" "promises_agree route s"
    show "promises_agree route t" by (rule exec_agrees [OF x]) (use assms(2) e in blast)
  qed (simp add: promises_agree_def empty_source_def)
  moreover have "cs_promises s ! cc_promise c \<in> set (cs_promises s)"
    using source_run_ok [OF assms(1)] assms(3) by (simp add: source_ok_def)
  ultimately have ok: "agrees route m" if "snd (cs_promises s ! cc_promise c) = Received (Some m)" for m
    using that unfolding promises_agree_def by blast
  show ?thesis
  proof (cases "snd (cs_promises s ! cc_promise c)")
    case (Received b)
    show ?thesis
    proof (cases "chunk_in b (cc_evidence c) (cc_chunk c)")
      case (Some chunk)
      then obtain m where "b = Some m" by (cases b) (simp_all add: chunk_in_def)
      with Some Received ok chunk_in_agrees [of route m "cc_evidence c" "cc_chunk c" chunk] show ?thesis by (simp add: outcome_def)
    qed (simp add: outcome_def Received)
  qed (simp add: outcome_def)
qed

definition chunk_demo :: "bundled_artifact list" where
  "chunk_demo = [\<lparr>ba_id = ''11111111-1111-1111-1111-111111111111'', ba_chunks = [[1, 2], [3]]\<rparr>]"

definition chunk_demo_run :: "source_event list" where
  "chunk_demo_run =
     [Fetch ''run'' ''11111111-1111-1111-1111-111111111111'' 1, Arrives 0 (Some (take (length (frameBundle chunk_demo)) (frameBundle chunk_demo)))]"

text \<open>The route of the demonstration serves the same two chunks.\<close>

definition demo_route :: "string \<Rightarrow> nat \<Rightarrow> byte list option" where
  "demo_route ev n = (if ev = ''11111111-1111-1111-1111-111111111111'' \<and> n < 2 then Some ([[1, 2], [3]] ! n) else None)"

definition demo_fetched :: chunk_source where
  "demo_fetched = bundledChunkFetcher ''run'' ''11111111-1111-1111-1111-111111111111'' 1 empty_source"

lemma demo_fetched_simps:
  "cs_promises demo_fetched = [(''run'', Requested)]"
  "cs_calls demo_fetched = [\<lparr>cc_run = ''run'', cc_promise = 0, cc_evidence = ''11111111-1111-1111-1111-111111111111'', cc_chunk = 1\<rparr>]"
  by (simp_all add: demo_fetched_def bundledChunkFetcher_def bundleOf_def empty_source_def)

theorem bundled_chunks_transparent_witness:
  "\<exists>s c. source_run chunk_demo_run empty_source = Some s \<and> cs_calls s = [c] \<and> outcome demo_route s c = Some (Some [3])"
proof -
  define answer where "answer = Some (take (length (frameBundle chunk_demo)) (frameBundle chunk_demo))"
  define s where "s = bundle_arrives 0 answer demo_fetched"
  have run: "source_run chunk_demo_run empty_source = Some s"
    using demo_fetched_simps(1) by (simp add: chunk_demo_run_def s_def answer_def demo_fetched_def)
  have s: "cs_calls s = cs_calls demo_fetched" "snd (cs_promises s ! 0) \<noteq> Requested"
    by (simp_all add: s_def bundle_arrives_def demo_fetched_simps Let_def)
  have served: "serves demo_route chunk_demo"
    by (auto simp: serves_def chunk_demo_def demo_route_def)
  then have sent: "\<exists>as. serves demo_route as \<and> (\<exists>k. frameBundle chunk_demo = take k (frameBundle as))"
    by (metis order_refl take_all)
  have "outcome demo_route s (cs_calls s ! 0) = Some (demo_route ''11111111-1111-1111-1111-111111111111'' 1)"
    using bundled_chunks_transparent [OF run, of demo_route "cs_calls s ! 0"] sent s
    by (auto simp: chunk_demo_run_def demo_fetched_simps)
  then show ?thesis using run s(1) by (simp add: demo_fetched_simps demo_route_def)
qed

text \<open>
  The cache of bundles: at most 24 runs, each with a request of its own that has not failed, so that a failed run is asked
  for again; every call awaits a request for its own run.  With at most 24 runs and no failure each run is requested once,
  however many chunks of it are called for.
\<close>

theorem bundle_requested_once:
  assumes "source_run es empty_source = Some s"
  shows "length (bundles s) \<le> 24 \<and> distinct (keys (bundles s))
    \<and> (\<forall>run p. map_of (bundles s) run = Some p \<longrightarrow>
         p < length (cs_promises s) \<and> fst (cs_promises s ! p) = run \<and> snd (cs_promises s ! p) \<noteq> Received None)
    \<and> (\<forall>c \<in> set (cs_calls s). cc_promise c < length (cs_promises s) \<and> fst (cs_promises s ! cc_promise c) = cc_run c)
    \<and> (list_all arrives_well es \<and> card (\<Union> (run_of ` set es)) \<le> 24 \<longrightarrow> distinct (map fst (cs_promises s)))"
proof -
  have "distinct (map fst (cs_promises s))" if "list_all arrives_well es" "card (\<Union> (run_of ` set es)) \<le> 24"
  proof -
    let ?R = "\<Union> (run_of ` set es)"
    have fin: "finite ?R" by simp
    have "all_cached s \<and> set (map fst (cs_promises s)) \<subseteq> ?R"
    proof (rule source_run_preserves [OF assms])
      show "all_cached empty_source \<and> set (map fst (cs_promises empty_source)) \<subseteq> ?R"
        by (simp add: all_cached_def empty_source_def keys_def)
    next
      fix e s t
      assume e: "e \<in> set es" and x: "source_exec e s = Some t" and i: "all_cached s \<and> set (map fst (cs_promises s)) \<subseteq> ?R"
      from e that(1) have "arrives_well e" "run_of e \<subseteq> ?R" by (auto simp: list_all_iff)
      with exec_all_cached [OF x, of ?R] i fin that(2) show "all_cached t \<and> set (map fst (cs_promises t)) \<subseteq> ?R"
        by (simp add: MAX_CACHED_RUNS_def del: set_map)
    qed
    then show ?thesis by (simp add: all_cached_def)
  qed
  then show ?thesis using source_run_ok [OF assms] by (auto simp: source_ok_def MAX_CACHED_RUNS_def)
qed


theorem bundle_requested_once_witness:
  "\<exists>s. source_run [Fetch ''a'' ''x'' 0, Fetch ''a'' ''x'' 1, Fetch ''b'' ''y'' 0] empty_source = Some s
     \<and> map fst (cs_promises s) = [''a'', ''b''] \<and> length (bundles s) \<le> 24 \<and> distinct (map fst (cs_promises s))"
proof -
  obtain s where s: "source_run [Fetch ''a'' ''x'' 0, Fetch ''a'' ''x'' 1, Fetch ''b'' ''y'' 0] empty_source = Some s" by simp
  then have "map fst (cs_promises s) = [''a'', ''b'']"
    by (auto simp: bundledChunkFetcher_def bundleOf_def empty_source_def admit_def MAX_CACHED_RUNS_def)
  with s bundle_requested_once [OF s] show ?thesis by simp
qed

end
