(* ===== verification/Date_Time.thy ===== *)
theory Date_Time
  imports Js_Lib
begin

text \<open>
  The part of ECMAScript's Date that the browser client relies on: the calendar arithmetic of time values, local time over a
  parameter for the host's time zone, and the date-time strings of toISOString.  A time value is a number of milliseconds since
  1970 (UTC), an invalid date is \<open>None\<close>.
\<close>

section \<open>Days and years\<close>

definition ms_day :: int where "ms_day = 86400000"

definition day_of :: "int \<Rightarrow> int" where "day_of t = t div ms_day"
definition time_in_day :: "int \<Rightarrow> int" where "time_in_day t = t mod ms_day"

definition day_from_year :: "int \<Rightarrow> int" where
  "day_from_year y = 365 * (y - 1970) + (y - 1969) div 4 - (y - 1901) div 100 + (y - 1601) div 400"

definition leap_year :: "int \<Rightarrow> bool" where
  "leap_year y = (y mod 4 = 0 \<and> (y mod 100 \<noteq> 0 \<or> y mod 400 = 0))"

text \<open>The year of a day: a guess that is at most one off.\<close>

definition year_of_day :: "int \<Rightarrow> int" where
  "year_of_day d =
     (let y = 1970 + (400 * d) div 146097 in
      if d < day_from_year y then y - 1 else if day_from_year (y + 1) \<le> d then y + 1 else y)"

lemma div_bounds: "0 < m \<Longrightarrow> m * (x div m) \<le> x \<and> x < m * (x div m) + m" for m x :: int
  using mult_div_mod_eq [of m x] pos_mod_bound [of m x] pos_mod_sign [of m x] by linarith

lemma div_next:
  fixes m x :: int
  assumes "0 < m"
  shows "(x + 1) div m = x div m + (if (x + 1) mod m = 0 then 1 else 0)"
proof -
  have r: "x = m * (x div m) + x mod m" "0 \<le> x mod m" "x mod m < m" using assms by simp_all
  show ?thesis
  proof (cases "x mod m + 1 < m")
    case True
    have e: "x + 1 = m * (x div m) + (x mod m + 1)" using r(1) by linarith
    have "(x + 1) div m = x div m" "(x + 1) mod m = x mod m + 1"
      using int_div_pos_eq [OF e _ True] int_mod_pos_eq [OF e _ True] r(2) by simp_all
    with r(2) show ?thesis by simp
  next
    case False
    with r have "x + 1 = m * (x div m) + m" by linarith
    then have e: "x + 1 = m * (x div m + 1) + 0" by (simp add: distrib_left)
    have "(x + 1) div m = x div m + 1" "(x + 1) mod m = 0"
      using int_div_pos_eq [OF e] int_mod_pos_eq [OF e] assms by simp_all
    then show ?thesis by simp
  qed
qed

lemma day_from_year_approx:
  "400 * day_from_year (1970 + k) \<le> 146097 * k + 800" "146097 * k - 1200 \<le> 400 * day_from_year (1970 + k)"
proof -
  have "day_from_year (1970 + k) = 365 * k + (k + 1) div 4 - (k + 69) div 100 + (k + 369) div 400"
    by (simp add: day_from_year_def algebra_simps)
  then show "400 * day_from_year (1970 + k) \<le> 146097 * k + 800" "146097 * k - 1200 \<le> 400 * day_from_year (1970 + k)"
    using div_bounds [of 4 "k + 1"] div_bounds [of 100 "k + 69"] div_bounds [of 400 "k + 369"] by linarith+
qed

lemma year_of_day: "day_from_year (year_of_day d) \<le> d \<and> d < day_from_year (year_of_day d + 1)"
proof -
  define q where "q = (400 * d) div 146097"
  have guess: "146097 * q \<le> 400 * d" "400 * d < 146097 * q + 146097"
    using div_bounds [of 146097 "400 * d"] by (simp_all add: q_def)
  have "400 * day_from_year (1970 + (q - 1)) \<le> 146097 * q - 145297" using day_from_year_approx(1) [of "q - 1"] by simp
  then have low: "day_from_year (1970 + (q - 1)) \<le> d" using guess by linarith
  have "146097 * q + 290994 \<le> 400 * day_from_year (1970 + (q + 2))" using day_from_year_approx(2) [of "q + 2"] by simp
  then have high: "d < day_from_year (1970 + (q + 2))" using guess by linarith
  show ?thesis using low high by (auto simp: year_of_day_def q_def [symmetric] Let_def add.assoc)
qed

lemma day_from_year_next: "day_from_year (y + 1) = day_from_year y + (if leap_year y then 366 else 365)"
proof -
  have shift: "(y - 1968) mod 4 = 0 \<longleftrightarrow> y mod 4 = 0" "(y - 1900) mod 100 = 0 \<longleftrightarrow> y mod 100 = 0"
    "(y - 1600) mod 400 = 0 \<longleftrightarrow> y mod 400 = 0"
    using dvd_add_left_iff [of 4 1968 "y - 1968"] dvd_add_left_iff [of 100 1900 "y - 1900"] dvd_add_left_iff [of 400 1600 "y - 1600"]
    by (simp_all add: mod_eq_0_iff_dvd)
  have e: "y - 1969 + 1 = y - 1968" "y - 1901 + 1 = y - 1900" "y - 1601 + 1 = y - 1600" by simp_all
  have deep: "y mod 100 = 0 \<Longrightarrow> y mod 4 = 0" "y mod 400 = 0 \<Longrightarrow> y mod 100 = 0"
    by (auto simp: mod_eq_0_iff_dvd elim: dvd_trans [rotated])
  have yr: "(y - 1968) div 4 = (y - 1969) div 4 + (if y mod 4 = 0 then 1 else 0)"
    "(y - 1900) div 100 = (y - 1901) div 100 + (if y mod 100 = 0 then 1 else 0)"
    "(y - 1600) div 400 = (y - 1601) div 400 + (if y mod 400 = 0 then 1 else 0)"
    using div_next [of 4 "y - 1969"] div_next [of 100 "y - 1901"] div_next [of 400 "y - 1601"]
    by (simp_all only: e shift zero_less_numeral simp_thms)
  have e': "y + 1 - 1969 = y - 1968" "y + 1 - 1901 = y - 1900" "y + 1 - 1601 = y - 1600" by simp_all
  have sum: "365 * (y + 1 - 1970) + (a + i) - (b + j) + (c + k) = 365 * (y - 1970) + a - b + c + 365 + i - j + k" for a b c i j k
    by simp
  have "day_from_year (y + 1) = day_from_year y + 365 + (if y mod 4 = 0 then 1 else 0) - (if y mod 100 = 0 then 1 else 0)
      + (if y mod 400 = 0 then 1 else 0)"
    unfolding day_from_year_def e' yr by (rule sum)
  moreover have "d + 365 + (if p then 1 else 0) - (if q then 1 else 0) + (if r then 1 else 0) = d + (if p \<and> (\<not> q \<or> r) then 366 else 365)"
    if "q \<longrightarrow> p" "r \<longrightarrow> q" for p q r and d :: int
    using that by (cases p; cases q; cases r) simp_all
  from this [of "y mod 100 = 0" "y mod 4 = 0" "y mod 400 = 0", OF impI [OF deep(1)] impI [OF deep(2)]] have "day_from_year y + 365 + (if y mod 4 = 0 then 1 else 0) - (if y mod 100 = 0 then 1 else 0)
      + (if y mod 400 = 0 then 1 else 0) = day_from_year y + (if leap_year y then 366 else 365)"
    unfolding leap_year_def .
  ultimately show ?thesis by (rule trans)
qed

section \<open>Months\<close>

definition month_starts :: "bool \<Rightarrow> int list" where
  "month_starts leap = (if leap then [0, 31, 60, 91, 121, 152, 182, 213, 244, 274, 305, 335]
                        else [0, 31, 59, 90, 120, 151, 181, 212, 243, 273, 304, 334])"

definition year_start_day :: "int \<Rightarrow> int" where
  "year_start_day d = d - day_from_year (year_of_day d)"

text \<open>Months count from 0, days of a month from 1.\<close>

definition month_of_day :: "int \<Rightarrow> int" where
  "month_of_day d = int (length (takeWhile (\<lambda>s. s \<le> year_start_day d) (month_starts (leap_year (year_of_day d))))) - 1"

definition date_of_day :: "int \<Rightarrow> int" where
  "date_of_day d = year_start_day d - month_starts (leap_year (year_of_day d)) ! nat (month_of_day d) + 1"

text \<open>\<open>MakeDay\<close>\<close>

definition make_day :: "int \<Rightarrow> int \<Rightarrow> int \<Rightarrow> int" where
  "make_day y m dt =
     (let ym = y + m div 12 in day_from_year ym + month_starts (leap_year ym) ! nat (m mod 12) + dt - 1)"

lemma length_month_starts [simp]: "length (month_starts leap) = 12"
  by (simp add: month_starts_def)

lemma year_start_day_bounds: "0 \<le> year_start_day d" "year_start_day d < (if leap_year (year_of_day d) then 366 else 365)"
  using year_of_day [of d] by (auto simp: year_start_day_def day_from_year_next split: if_splits)

lemma month_of_day_bounds: "0 \<le> month_of_day d" "month_of_day d < 12"
proof -
  let ?ms = "month_starts (leap_year (year_of_day d))"
  have "takeWhile (\<lambda>s. s \<le> year_start_day d) ?ms \<noteq> []"
    using year_start_day_bounds(1) [of d] by (simp add: month_starts_def)
  then show "0 \<le> month_of_day d" by (simp add: month_of_day_def Suc_le_eq)
  have "length (takeWhile (\<lambda>s. s \<le> year_start_day d) ?ms) \<le> 12" using length_takeWhile_le [of _ ?ms] by simp
  then show "month_of_day d < 12" unfolding month_of_day_def by linarith
qed

text \<open>Taking a day apart and putting it together.\<close>

lemma make_day_of_day: "make_day (year_of_day d) (month_of_day d) (date_of_day d) = d"
  using month_of_day_bounds [of d] by (simp add: make_day_def date_of_day_def year_start_day_def Let_def)

section \<open>Time values\<close>

definition time_clip :: "int \<Rightarrow> int option" where
  "time_clip t = (if \<bar>t\<bar> \<le> 8640000000000000 then Some t else None)"

definition make_date :: "int \<Rightarrow> int \<Rightarrow> int" where
  "make_date day time = day * ms_day + time"

lemma make_date_parts [simp]: "make_date (day_of t) (time_in_day t) = t"
  by (simp add: make_date_def day_of_def time_in_day_def)

lemma time_in_day_bounds: "0 \<le> time_in_day t" "time_in_day t < ms_day"
  by (simp_all add: time_in_day_def ms_day_def)

lemma day_of_make_date [simp]: "0 \<le> time \<Longrightarrow> time < ms_day \<Longrightarrow> day_of (make_date d time) = d"
  by (simp add: make_date_def day_of_def ms_day_def div_add1_eq)

lemma time_of_make_date [simp]: "0 \<le> time \<Longrightarrow> time < ms_day \<Longrightarrow> time_in_day (make_date d time) = time"
  by (simp add: make_date_def time_in_day_def)

text \<open>The host's time zone: \<open>LocalTime\<close> and its inverse \<open>UTC\<close>.\<close>

record zone =
  local_of :: "int \<Rightarrow> int"
  utc_of :: "int \<Rightarrow> int"

definition local_midnight :: "zone \<Rightarrow> int \<Rightarrow> int option" where
  "local_midnight z t = time_clip (utc_of z (make_date (day_of (local_of z t)) 0))"

definition get_day :: "zone \<Rightarrow> int \<Rightarrow> int" where
  "get_day z t = (day_of (local_of z t) + 4) mod 7"

definition get_date :: "zone \<Rightarrow> int \<Rightarrow> int" where
  "get_date z t = date_of_day (day_of (local_of z t))"

definition get_month :: "zone \<Rightarrow> int \<Rightarrow> int" where
  "get_month z t = month_of_day (day_of (local_of z t))"

definition get_full_year :: "zone \<Rightarrow> int \<Rightarrow> int" where
  "get_full_year z t = year_of_day (day_of (local_of z t))"

definition set_date :: "zone \<Rightarrow> int \<Rightarrow> int \<Rightarrow> int option" where
  "set_date z dt t =
     time_clip (utc_of z (make_date (make_day (get_full_year z t) (get_month z t) dt) (time_in_day (local_of z t))))"

definition set_month :: "zone \<Rightarrow> int \<Rightarrow> int \<Rightarrow> int option" where
  "set_month z m t =
     time_clip (utc_of z (make_date (make_day (get_full_year z t) m (get_date z t)) (time_in_day (local_of z t))))"

definition set_full_year :: "zone \<Rightarrow> int \<Rightarrow> int \<Rightarrow> int option" where
  "set_full_year z y t =
     time_clip (utc_of z (make_date (make_day y (get_month z t) (get_date z t)) (time_in_day (local_of z t))))"

text \<open>\<open>new Date(y, m, 1, 0, 0, 0, 0)\<close>: years 0 to 99 are of the last century.\<close>

definition month_first :: "zone \<Rightarrow> int \<Rightarrow> int \<Rightarrow> int option" where
  "month_first z y m =
     time_clip (utc_of z (make_date (make_day (if 0 \<le> y \<and> y \<le> 99 then 1900 + y else y) m 1) 0))"

section \<open>Date-time strings\<close>

text \<open>\<open>n\<close> in \<open>k\<close> digits.\<close>

fun digits_of :: "nat \<Rightarrow> nat \<Rightarrow> string" where
  "digits_of 0 n = []"
| "digits_of (Suc k) n = digits_of k (n div 10) @ [digit_char n]"

lemma length_digits_of [simp]: "length (digits_of k n) = k"
  by (induction k arbitrary: n) simp_all

lemma digits_of_digits: "list_all is_digit (digits_of k n)"
  by (induction k arbitrary: n) simp_all

lemma digits_value_of: "n < 10 ^ k \<Longrightarrow> digits_value (digits_of k n) = int n"
proof (induction k arbitrary: n)
  case (Suc k)
  then have "digits_value (digits_of k (n div 10)) = int (n div 10)" by (intro Suc.IH) (simp add: less_mult_imp_div_less mult.commute)
  then show ?case by (simp add: digits_value_def foldl_append) presburger
qed (simp add: digits_value_def)

definition year_string :: "int \<Rightarrow> string" where
  "year_string y =
     (if 0 \<le> y \<and> y \<le> 9999 then digits_of 4 (nat y)
      else (if y < 0 then CHR ''-'' else CHR ''+'') # digits_of 6 (nat \<bar>y\<bar>))"

definition toISOString :: "int \<Rightarrow> string" where
  "toISOString t =
     (let d = day_of t; s = nat (time_in_day t) in
      year_string (year_of_day d) @ CHR ''-'' # digits_of 2 (nat (month_of_day d + 1)) @ CHR ''-'' # digits_of 2 (nat (date_of_day d))
      @ CHR ''T'' # digits_of 2 (s div 3600000) @ CHR '':'' # digits_of 2 (s div 60000 mod 60)
      @ CHR '':'' # digits_of 2 (s div 1000 mod 60) @ CHR ''.'' # digits_of 3 (s mod 1000) @ ''Z'')"

text \<open>\<open>k\<close> digits at the head of a string, then the character \<open>sep\<close>.\<close>

definition take_number :: "nat \<Rightarrow> char \<Rightarrow> string \<Rightarrow> (int \<times> string) option" where
  "take_number k sep s =
     (let ds = take k s in
      if length ds = k \<and> list_all is_digit ds \<and> drop k s \<noteq> [] \<and> hd (drop k s) = sep
      then Some (digits_value ds, tl (drop k s)) else None)"

lemma take_number_digits: "n < 10 ^ k \<Longrightarrow> take_number k sep (digits_of k n @ sep # s) = Some (int n, s)"
  by (simp add: take_number_def digits_of_digits digits_value_of)

definition take_year :: "string \<Rightarrow> (int \<times> string) option" where
  "take_year s =
     (case s of
        [] \<Rightarrow> None
      | c # r \<Rightarrow>
          if c = CHR ''+'' then take_number 6 (CHR ''-'') r
          else if c = CHR ''-'' then (case take_number 6 (CHR ''-'') r of
                                       Some (y, r') \<Rightarrow> if y = 0 then None else Some (- y, r') | None \<Rightarrow> None)
          else take_number 4 (CHR ''-'') s)"

text \<open>
  The instant of a string in the form of toISOString, with every field in its range (the day, in its month); \<open>24:00:00.000\<close> is the end
  of the day.  Other strings are left to the host (\<open>None\<close>).
\<close>

definition iso_instant :: "string \<Rightarrow> int option" where
  "iso_instant s =
     (case take_year s of None \<Rightarrow> None | Some (y, s) \<Rightarrow>
     (case take_number 2 (CHR ''-'') s of None \<Rightarrow> None | Some (mo, s) \<Rightarrow>
     (case take_number 2 (CHR ''T'') s of None \<Rightarrow> None | Some (dt, s) \<Rightarrow>
     (case take_number 2 (CHR '':'') s of None \<Rightarrow> None | Some (h, s) \<Rightarrow>
     (case take_number 2 (CHR '':'') s of None \<Rightarrow> None | Some (mi, s) \<Rightarrow>
     (case take_number 2 (CHR ''.'') s of None \<Rightarrow> None | Some (se, s) \<Rightarrow>
     (case take_number 3 (CHR ''Z'') s of None \<Rightarrow> None | Some (ms, s) \<Rightarrow>
        if s = [] \<and> 1 \<le> mo \<and> mo \<le> 12 \<and> 1 \<le> dt \<and> date_of_day (make_day y (mo - 1) dt) = dt \<and> mi \<le> 59 \<and> se \<le> 59
           \<and> (h \<le> 23 \<or> h = 24 \<and> mi = 0 \<and> se = 0 \<and> ms = 0)
        then time_clip (make_date (make_day y (mo - 1) dt) (h * 3600000 + mi * 60000 + se * 1000 + ms))
        else None)))))))"

lemma day_of_year_range:
  assumes "\<bar>t\<bar> \<le> 8640000000000000"
  shows "\<bar>year_of_day (day_of t)\<bar> < 1000000"
proof -
  have d: "\<bar>day_of t\<bar> \<le> 100000001" using assms div_bounds [of 86400000 t] by (auto simp: day_of_def ms_day_def)
  then have "\<bar>(400 * day_of t) div 146097\<bar> \<le> 273792" using div_bounds [of 146097 "400 * day_of t"] by linarith
  then show ?thesis by (auto simp: year_of_day_def Let_def)
qed

lemma date_of_day_bounds: "1 \<le> date_of_day d" "date_of_day d \<le> 31"
proof -
  let ?ms = "month_starts (leap_year (year_of_day d))" and ?w = "year_start_day d"
  have "takeWhile (\<lambda>s. s \<le> ?w) ?ms \<noteq> []" using year_start_day_bounds(1) [of d] by (simp add: month_starts_def)
  have w: "0 \<le> ?w" "?w < (if leap_year (year_of_day d) then 366 else 365)" by (rule year_start_day_bounds)+
  show "1 \<le> date_of_day d" "date_of_day d \<le> 31"
    using w by (auto simp: date_of_day_def month_of_day_def month_starts_def split: if_splits)
qed

lemma toISOString_instant:
  assumes "\<bar>t\<bar> \<le> 8640000000000000"
  shows "iso_instant (toISOString t) = Some t"
proof -
  define d s where "d = day_of t" and "s = nat (time_in_day t)"
  have s: "s < 86400000" using time_in_day_bounds [of t] by (simp add: s_def ms_day_def)
  have sum: "int (s div 3600000) * 3600000 + int (s div 60000 mod 60) * 60000 + int (s div 1000 mod 60) * 1000 + int (s mod 1000) = int s"
  proof -
    have "s div 60000 = s div 1000 div 60" "s div 3600000 = s div 1000 div 60 div 60" by (simp_all flip: div_mult2_eq)
    moreover have "m = a * 1000 + m' \<Longrightarrow> a = b * 60 + a' \<Longrightarrow> b = c * 60 + b' \<Longrightarrow> m = c * 3600000 + b' * 60000 + a' * 1000 + m'"
      for m a b c m' a' b' :: nat by simp
    ultimately have "s = s div 3600000 * 3600000 + s div 60000 mod 60 * 60000 + s div 1000 mod 60 * 1000 + s mod 1000"
      by (metis div_mult_mod_eq)
    then show ?thesis by simp
  qed
  have t: "make_date d (int s) = t" using time_in_day_bounds(1) [of t] by (simp add: d_def s_def)
  have y: "\<bar>year_of_day d\<bar> < 1000000" using day_of_year_range [OF assms] by (simp add: d_def)
  have year: "take_year (year_string (year_of_day d) @ CHR ''-'' # r) = Some (year_of_day d, r)" for r
  proof -
    have plain: "take_year (digits_of 4 n @ CHR ''-'' # r) = take_number 4 (CHR ''-'') (digits_of 4 n @ CHR ''-'' # r)" for n
    proof (cases "digits_of 4 n")
      case (Cons c cs)
      then have "is_digit c" using digits_of_digits [of 4 n] by simp
      then have "c \<noteq> CHR ''+'' \<and> c \<noteq> CHR ''-''" by (auto simp: is_digit_def code_def)
      with Cons show ?thesis by (simp add: take_year_def)
    qed (metis length_digits_of list.size(3) zero_neq_numeral)
    show ?thesis
    proof (cases "0 \<le> year_of_day d \<and> year_of_day d \<le> 9999")
      case True
      then have "nat (year_of_day d) < 10 ^ 4" by auto
      from take_number_digits [OF this, of "CHR ''-''" r] True show ?thesis by (simp add: year_string_def plain)
    next
      case False
      with y have "nat \<bar>year_of_day d\<bar> < 10 ^ 6" by auto
      from take_number_digits [OF this, of "CHR ''-''" r] False show ?thesis by (auto simp: year_string_def take_year_def)
    qed
  qed
  define mo dt h mi se ms where "mo = nat (month_of_day d + 1)" and "dt = nat (date_of_day d)" and "h = s div 3600000"
    and "mi = s div 60000 mod 60" and "se = s div 1000 mod 60" and "ms = s mod 1000"
  note defs = mo_def dt_def h_def mi_def se_def ms_def
  have "mo < 10 ^ 2" "dt < 10 ^ 2" "h < 10 ^ 2" "mi < 10 ^ 2" "se < 10 ^ 2" "ms < 10 ^ 3"
    using month_of_day_bounds [of d] date_of_day_bounds [of d] s by (simp_all add: defs)
  note numbers = this [THEN take_number_digits]
  have "iso_instant (toISOString t) =
      (if 1 \<le> int mo \<and> int mo \<le> 12 \<and> 1 \<le> int dt \<and> date_of_day (make_day (year_of_day d) (int mo - 1) (int dt)) = int dt
          \<and> int mi \<le> 59 \<and> int se \<le> 59 \<and> (int h \<le> 23 \<or> int h = 24 \<and> int mi = 0 \<and> int se = 0 \<and> int ms = 0)
       then time_clip (make_date (make_day (year_of_day d) (int mo - 1) (int dt))
              (int h * 3600000 + int mi * 60000 + int se * 1000 + int ms)) else None)"
    unfolding iso_instant_def toISOString_def Let_def d_def [symmetric] s_def [symmetric] defs [symmetric] append_assoc append_Cons
    by (simp only: year numbers option.case prod.case append_Nil simp_thms)
  moreover have "1 \<le> int mo" "int mo \<le> 12" "1 \<le> int dt" "int mi \<le> 59" "int se \<le> 59" "int h \<le> 23"
    using month_of_day_bounds [of d] date_of_day_bounds [of d] s by (simp_all add: defs)
  moreover have "make_day (year_of_day d) (int mo - 1) (int dt) = d" "date_of_day d = int dt"
    using month_of_day_bounds [of d] date_of_day_bounds [of d] make_day_of_day [of d] by (simp_all add: mo_def dt_def)
  moreover have "int h * 3600000 + int mi * 60000 + int se * 1000 + int ms = int s" using sum by (simp only: defs)
  ultimately show ?thesis using assms t by (simp add: time_clip_def)
qed

end
