(* ===== verification/Time_Expr.thy ===== *)
theory Time_Expr
  imports Date_Time
begin

text \<open>
  Time expressions and the display window: src/frontend-ob/src/utils/timeExpression.ts, store/timeStore.ts and
  components/Cpm/historical/timeRange.ts.  Now, the
  host's zone, and its reading of other date strings are parameters.  Numbers are exact where the source has doubles.
\<close>

record clock =
  cl_now :: int
  cl_zone :: zone
  cl_other :: "string \<Rightarrow> int option"

text \<open>\<open>new Date(raw)\<close>\<close>

definition date_of_string :: "clock \<Rightarrow> string \<Rightarrow> int option" where
  "date_of_string ck raw = (case iso_instant raw of Some t \<Rightarrow> Some t | None \<Rightarrow> cl_other ck raw)"

section \<open>utils/timeExpression.ts\<close>

text \<open>The result: an error, or a date, which may be invalid.\<close>

type_synonym parsed = "string + int option"

datatype offset_unit = US | UM | UH | UD | UW | UMo | UY

fun offset_unit_of :: "string \<Rightarrow> offset_unit option" where
  "offset_unit_of u =
     (if u = ''mo'' then Some UMo else if u = ''s'' then Some US else if u = ''m'' then Some UM else if u = ''h'' then Some UH
      else if u = ''d'' then Some UD else if u = ''w'' then Some UW else if u = ''y'' then Some UY else None)"

text \<open>\<open>OFFSET_RE\<close> on a lower-case string, with \<open>parseFloat\<close> of the digits: the sign, the number and the unit.\<close>

definition match_offset :: "string \<Rightarrow> (int \<times> rat \<times> offset_unit) option" where
  "match_offset s =
     (let sign = (if s \<noteq> [] \<and> hd s = CHR ''-'' then -1 else 1);
          body = (if s \<noteq> [] \<and> (hd s = CHR ''-'' \<or> hd s = CHR ''+'') then tl s else s);
          ip = takeWhile is_digit body; r = dropWhile is_digit body;
          (fp, u) = (if r \<noteq> [] \<and> hd r = CHR ''.'' then (takeWhile is_digit (tl r), dropWhile is_digit (tl r)) else ([], r)) in
      if ip = [] \<or> (r \<noteq> [] \<and> hd r = CHR ''.'' \<and> fp = []) then None
      else map_option (\<lambda>un. (sign, scale10 (of_int (digits_value (ip @ fp))) (- int (length fp)), un)) (offset_unit_of u))"

definition WEEKDAYS :: "string list" where
  "WEEKDAYS = [''sun'', ''mon'', ''tue'', ''wed'', ''thu'', ''fri'', ''sat'']"
definition WEEKDAYS_FULL :: "string list" where
  "WEEKDAYS_FULL = [''sunday'', ''monday'', ''tuesday'', ''wednesday'', ''thursday'', ''friday'', ''saturday'']"
definition MONTHS :: "string list" where
  "MONTHS = [''jan'', ''feb'', ''mar'', ''apr'', ''may'', ''jun'', ''jul'', ''aug'', ''sep'', ''oct'', ''nov'', ''dec'']"
definition MONTHS_FULL :: "string list" where
  "MONTHS_FULL = [''january'', ''february'', ''march'', ''april'', ''may'', ''june'', ''july'', ''august'', ''september'', ''october'',
                  ''november'', ''december'']"

fun position_of :: "'a \<Rightarrow> 'a list \<Rightarrow> nat option" where
  "position_of x [] = None"
| "position_of x (y # ys) = (if x = y then Some 0 else map_option Suc (position_of x ys))"

definition name_index :: "string list \<Rightarrow> string list \<Rightarrow> string \<Rightarrow> nat option" where
  "name_index short full word = (case position_of word short of Some i \<Rightarrow> Some i | None \<Rightarrow> position_of word full)"

definition trunc_rat :: "rat \<Rightarrow> int" where
  "trunc_rat q = (if 0 \<le> q then \<lfloor>q\<rfloor> else \<lceil>q\<rceil>)"

definition startOfDay :: "clock \<Rightarrow> int \<Rightarrow> int option" where
  "startOfDay ck t = local_midnight (cl_zone ck) t"

fun unit_ms :: "offset_unit \<Rightarrow> rat" where
  "unit_ms US = 1000" | "unit_ms UM = 60000" | "unit_ms UH = 3600000" | "unit_ms UD = 86400000" | "unit_ms UW = 604800000"
| "unit_ms UMo = 0" | "unit_ms UY = 0"

definition applyOffset :: "clock \<Rightarrow> int option \<Rightarrow> int \<Rightarrow> rat \<Rightarrow> offset_unit \<Rightarrow> int option" where
  "applyOffset ck base sign num u =
     (let s = of_int sign * num in
      case u of
        UMo \<Rightarrow> Option.bind base (\<lambda>t. set_month (cl_zone ck) (get_month (cl_zone ck) t + trunc_rat s) t)
      | UY \<Rightarrow> Option.bind base (\<lambda>t. set_full_year (cl_zone ck) (get_full_year (cl_zone ck) t + trunc_rat s) t)
      | _ \<Rightarrow> Option.bind base (\<lambda>t. time_clip (trunc_rat (of_int t + s * unit_ms u))))"

definition resolveWeekday :: "clock \<Rightarrow> nat \<Rightarrow> int option" where
  "resolveWeekday ck idx =
     Option.bind (startOfDay ck (cl_now ck)) (\<lambda>d.
       let diff = get_day (cl_zone ck) d - int idx;
           diff = (if diff < 0 then diff + 7 else diff) in
       set_date (cl_zone ck) (get_date (cl_zone ck) d - diff) d)"

text \<open>\<open>None\<close>: not a keyword.\<close>

definition resolveKeyword :: "clock \<Rightarrow> string \<Rightarrow> int option option" where
  "resolveKeyword ck word =
     (if word = ''now'' then Some (Some (cl_now ck))
      else if word = ''t'' \<or> word = ''today'' then Some (startOfDay ck (cl_now ck))
      else if word = ''y'' \<or> word = ''yesterday'' then
        Some (Option.bind (startOfDay ck (cl_now ck)) (\<lambda>d. set_date (cl_zone ck) (get_date (cl_zone ck) d - 1) d))
      else case name_index WEEKDAYS WEEKDAYS_FULL word of
        Some i \<Rightarrow> Some (resolveWeekday ck i)
      | None \<Rightarrow> (case name_index MONTHS MONTHS_FULL word of
          Some i \<Rightarrow> Some (month_first (cl_zone ck) (get_full_year (cl_zone ck) (cl_now ck)) (int i))
        | None \<Rightarrow> None))"

definition word_of :: "string \<Rightarrow> string" where
  "word_of s = takeWhile is_lower s"

text \<open>The base of an expression with the rest and the label, if it has one.\<close>

definition base_of :: "clock \<Rightarrow> string \<Rightarrow> (int option \<times> string \<times> string) option" where
  "base_of ck s =
     (if s \<noteq> [] \<and> hd s = CHR ''*'' then Some (Some (cl_now ck), tl s, ''*'')
      else if word_of s = [] then None
      else map_option (\<lambda>b. (b, drop (length (word_of s)) s, word_of s)) (resolveKeyword ck (word_of s)))"

definition parseTimeExpression :: "clock \<Rightarrow> int option \<Rightarrow> string \<Rightarrow> parsed" where
  "parseTimeExpression ck anchor input =
     (let raw = js_trim input; lower = js_lower raw; q = [CHR 0x22] in
      if raw = [] then Inl ''Enter a time or expression''
      else case match_offset lower of
        Some (sign, num, u) \<Rightarrow> Inr (applyOffset ck anchor sign num u)
      | None \<Rightarrow> (case base_of ck lower of
          Some (base, rest, label) \<Rightarrow>
            if rest = [] then Inr base
            else (case match_offset rest of
                Some (sign, num, u) \<Rightarrow> Inr (applyOffset ck base sign num u)
              | None \<Rightarrow> Inl (''Invalid offset '' @ q @ rest @ q @ '' after '' @ q @ label @ q))
        | None \<Rightarrow> (case date_of_string ck raw of
            Some t \<Rightarrow> Inr (Some t)
          | None \<Rightarrow> Inl (''Unrecognized time '' @ q @ raw @ q))))"

definition isRelativeExpression :: "clock \<Rightarrow> string \<Rightarrow> bool" where
  "isRelativeExpression ck input =
     (let s = js_lower (js_trim input) in
      if s = [] then False
      else if starts_with s ''*'' then True
      else if match_offset s \<noteq> None then True
      else word_of s \<noteq> [] \<and> resolveKeyword ck (word_of s) \<noteq> None)"

definition isNowExpression :: "string \<Rightarrow> bool" where
  "isNowExpression input = (let s = js_lower (js_trim input) in s = ''*'' \<or> s = ''now'')"

section \<open>store/timeStore.ts\<close>

definition DEFAULT_START :: string where "DEFAULT_START = ''*-1h''"
definition DEFAULT_END :: string where "DEFAULT_END = ''*''"

record display_time =
  startExpr :: string
  endExpr :: string
  dt_start :: "int option"
  dt_end :: "int option"
  dt_live :: bool
  dt_error :: "string option"
  savedStartExpr :: string
  savedEndExpr :: string
  dt_tz :: string

record resolved =
  rs_start :: "int option"
  rs_end :: "int option"
  rs_live :: bool
  rs_error :: "string option"

text \<open>A comparison with an invalid date is false.\<close>

definition not_after :: "int option \<Rightarrow> int option \<Rightarrow> bool" where
  "not_after e s = (case (e, s) of (Some e, Some s) \<Rightarrow> e \<le> s | _ \<Rightarrow> False)"

definition resolve_window :: "clock \<Rightarrow> string \<Rightarrow> string \<Rightarrow> resolved" where
  "resolve_window ck a b =
     (case parseTimeExpression ck (Some (cl_now ck)) a of
        Inl err \<Rightarrow> \<lparr>rs_start = Some 0, rs_end = Some 0, rs_live = False, rs_error = Some err\<rparr>
      | Inr s \<Rightarrow> (case parseTimeExpression ck s b of
          Inl err \<Rightarrow> \<lparr>rs_start = s, rs_end = Some 0, rs_live = False, rs_error = Some err\<rparr>
        | Inr e \<Rightarrow>
            if not_after e s then \<lparr>rs_start = s, rs_end = e, rs_live = False, rs_error = Some ''End must be after start''\<rparr>
            else \<lparr>rs_start = s, rs_end = e, rs_live = isNowExpression b, rs_error = None\<rparr>))"

definition initial_time :: "clock \<Rightarrow> display_time" where
  "initial_time ck =
     (let r = resolve_window ck DEFAULT_START DEFAULT_END in
      \<lparr>startExpr = DEFAULT_START, endExpr = DEFAULT_END, dt_start = rs_start r, dt_end = rs_end r, dt_live = rs_live r,
       dt_error = rs_error r, savedStartExpr = DEFAULT_START, savedEndExpr = DEFAULT_END, dt_tz = ''local''\<rparr>)"

definition setTz :: "string \<Rightarrow> display_time \<Rightarrow> display_time" where
  "setTz tz s = s\<lparr>dt_tz := tz\<rparr>"

definition setRange :: "clock \<Rightarrow> string \<Rightarrow> string \<Rightarrow> display_time \<Rightarrow> display_time" where
  "setRange ck a b s =
     (let r = resolve_window ck a b; s' = s\<lparr>startExpr := a, endExpr := b, dt_error := rs_error r\<rparr> in
      if truthy (rs_error r) then s' else s'\<lparr>dt_start := rs_start r, dt_end := rs_end r, dt_live := rs_live r\<rparr>)"

text \<open>\<open>Math.round(ms / 60_000)\<close> in a template literal; \<open>None\<close> is NaN.  Below \<open>10 ^ 21\<close> the number prints in full.\<close>

definition minutes_back :: "int option \<Rightarrow> string" where
  "minutes_back ms = ''*-'' @ (case ms of None \<Rightarrow> ''NaN'' | Some n \<Rightarrow> show_int ((n + 30000) div 60000)) @ ''m''"

definition setDurationMs :: "clock \<Rightarrow> int \<Rightarrow> display_time \<Rightarrow> display_time" where
  "setDurationMs ck ms s = setRange ck (minutes_back (Some ms)) ''*'' s"

definition span :: "display_time \<Rightarrow> int option" where
  "span s = (case (dt_start s, dt_end s) of (Some a, Some b) \<Rightarrow> Some (b - a) | _ \<Rightarrow> None)"

definition snapToNow :: "clock \<Rightarrow> display_time \<Rightarrow> display_time" where
  "snapToNow ck s = setRange ck (minutes_back (map_option (max 60000) (span s))) ''*'' s"

text \<open>\<open>toISOString\<close> throws on an invalid date; then nothing is set (\<open>None\<close>).\<close>

definition shift :: "int \<Rightarrow> display_time \<Rightarrow> display_time option" where
  "shift dir s =
     (case (dt_start s, dt_end s) of
        (Some a, Some b) \<Rightarrow>
          (let sp = b - a in
           case (time_clip (a + dir * sp), time_clip (b + dir * sp)) of
             (Some ns, Some ne) \<Rightarrow>
               Some (s\<lparr>startExpr := toISOString ns, endExpr := toISOString ne, dt_start := Some ns, dt_end := Some ne,
                       dt_live := False, dt_error := None\<rparr>)
           | _ \<Rightarrow> None)
      | _ \<Rightarrow> None)"

definition revert :: "clock \<Rightarrow> display_time \<Rightarrow> display_time" where
  "revert ck s = setRange ck (savedStartExpr s) (savedEndExpr s) s"

definition markSaved :: "string option \<Rightarrow> string option \<Rightarrow> display_time \<Rightarrow> display_time" where
  "markSaved a b s = s\<lparr>savedStartExpr := nullish a (startExpr s), savedEndExpr := nullish b (endExpr s)\<rparr>"

definition tick_window :: "clock \<Rightarrow> display_time \<Rightarrow> display_time" where
  "tick_window ck s =
     (if \<not> dt_live s then s
      else (let r = resolve_window ck (startExpr s) (endExpr s) in
            if truthy (rs_error r) then s else s\<lparr>dt_start := rs_start r, dt_end := rs_end r\<rparr>))"

text \<open>The parameters start, end and tz of the query string.\<close>

definition initFromUrl :: "clock \<Rightarrow> string option \<Rightarrow> string option \<Rightarrow> string option \<Rightarrow> display_time \<Rightarrow> display_time" where
  "initFromUrl ck a b tz s =
     (let s' = (if truthy a \<or> truthy b then setRange ck (nullish a (startExpr s)) (nullish b (endExpr s)) s else s) in
      if truthy tz then s'\<lparr>dt_tz := the tz\<rparr> else s')"

section \<open>components/Cpm/historical/timeRange.ts\<close>

record range_preset =
  rp_key :: string
  rp_label :: string
  rp_ms :: int

definition preset :: "string \<Rightarrow> int \<Rightarrow> range_preset" where
  "preset key ms = \<lparr>rp_key = key, rp_label = key, rp_ms = ms\<rparr>"

definition RANGE_PRESETS :: "range_preset list" where
  "RANGE_PRESETS = [preset ''24h'' (24 * 3600000), preset ''7d'' (7 * 86400000), preset ''30d'' (30 * 86400000), preset ''90d'' (90 * 86400000)]"

definition EXPLORER_PRESETS :: "range_preset list" where
  "EXPLORER_PRESETS = [preset ''8h'' (8 * 3600000), preset ''24h'' (24 * 3600000), preset ''7d'' (7 * 86400000), preset ''30d'' (30 * 86400000)]"

definition LIVE_TOLERANCE_MS :: int where "LIVE_TOLERANCE_MS = 300000"
definition SPAN_TOLERANCE_MS :: int where "SPAN_TOLERANCE_MS = 60000"

definition activePreset :: "int \<Rightarrow> int \<Rightarrow> int \<Rightarrow> range_preset list \<Rightarrow> string" where
  "activePreset from to' now presets =
     (if LIVE_TOLERANCE_MS < \<bar>now - to'\<bar> then ''custom''
      else case find (\<lambda>p. \<bar>rp_ms p - (to' - from)\<bar> \<le> SPAN_TOLERANCE_MS) presets of Some p \<Rightarrow> rp_key p | None \<Rightarrow> ''custom'')"

definition parseCustomRange :: "clock \<Rightarrow> string \<Rightarrow> string \<Rightarrow> string + int \<times> int" where
  "parseCustomRange ck fromText toText =
     (case (date_of_string ck fromText, date_of_string ck toText) of
        (Some a, Some b) \<Rightarrow> if b \<le> a then Inl ([CHR 0x22] @ ''To'' @ [CHR 0x22] @ '' must be after '' @ [CHR 0x22] @ ''From'' @ [CHR 0x22, CHR ''.'']) else Inr (a, b)
      | _ \<Rightarrow> Inl ''Enter both dates.'')"

definition presetRange :: "int \<Rightarrow> int \<Rightarrow> int \<times> int" where
  "presetRange ms now = (now - ms, now)"

definition stepRange :: "int \<Rightarrow> int \<Rightarrow> int \<Rightarrow> int \<times> int" where
  "stepRange from to' direction = (let sp = to' - from in (from + direction * sp, to' + direction * sp))"

end
