(* ===== verification/Time_Props.thy ===== *)
theory Time_Props
  imports Time_Expr
begin

text \<open>
  What the time selection does: the window of every state that the operations reach, presets and the tick, moving the window, and
  what the keywords stand for.
\<close>

section \<open>Expressions\<close>

lemma date_of_iso [simp]: "\<bar>t\<bar> \<le> 8640000000000000 \<Longrightarrow> date_of_string ck (toISOString t) = Some t"
  by (simp add: date_of_string_def toISOString_instant)

lemma starred:
  assumes "lower = CHR ''*'' # rest"
  shows "match_offset lower = None" "base_of ck lower = Some (Some (cl_now ck), rest, ''*'')"
  using assms by (simp_all add: match_offset_def base_of_def is_digit_def code_def Let_def)

lemma parse_star: "parseTimeExpression ck a ''*'' = Inr (Some (cl_now ck))"
proof -
  have "js_trim ''*'' = ''*''" "js_lower ''*'' = ''*''" by code_simp+
  then show ?thesis by (simp add: parseTimeExpression_def starred [OF refl] Let_def)
qed

lemma now_star: "isNowExpression ''*''"
  by code_simp

text \<open>An offset in digits after a star.\<close>

lemma digits_offset:
  assumes "ds \<noteq> []" and "\<forall>c \<in> set ds. is_digit c" and "offset_unit_of u = Some un" and "u \<noteq> []" "\<not> is_digit (hd u)" "hd u \<noteq> CHR ''.''"
  shows "match_offset (CHR ''-'' # ds @ u) = Some (- 1, of_int (digits_value ds), un)"
proof -
  have "takeWhile is_digit (ds @ u) = ds" "dropWhile is_digit (ds @ u) = u"
    using assms by (cases u; simp add: takeWhile_digits dropWhile_digits)+
  then show ?thesis using assms by (simp add: match_offset_def Let_def scale10_def)
qed

lemma trim_ends: "s \<noteq> [] \<Longrightarrow> \<not> is_space (hd s) \<Longrightarrow> \<not> is_space (last s) \<Longrightarrow> js_trim s = s"
proof -
  assume s: "s \<noteq> []" "\<not> is_space (hd s)" "\<not> is_space (last s)"
  then have "trim_left s = s" by (cases s) (auto simp: trim_left_def)
  moreover have "trim_left (rev s) = rev s" using s by (cases s rule: rev_cases) (auto simp: trim_left_def)
  ultimately show ?thesis by (simp add: js_trim_def)
qed

lemma lower_digits: "\<forall>c \<in> set ds. is_digit c \<Longrightarrow> js_lower ds = ds"
  unfolding js_lower_def by (rule map_idI) (auto simp: lower_char_def is_digit_def is_upper_def)

lemma parse_back:
  assumes "ds \<noteq> []" and "\<forall>c \<in> set ds. is_digit c" and "(u, un) \<in> {(''s'', US), (''m'', UM), (''h'', UH), (''d'', UD), (''w'', UW)}"
  shows "parseTimeExpression ck a (''*-'' @ ds @ u) = Inr (time_clip (cl_now ck - digits_value ds * \<lfloor>unit_ms un\<rfloor>))"
proof -
  have u: "offset_unit_of u = Some un" "u \<noteq> []" "\<not> is_digit (hd u)" "hd u \<noteq> CHR ''.''" "\<not> is_space (last u)" "js_lower u = u"
    "of_int \<lfloor>unit_ms un\<rfloor> = unit_ms un" "un \<noteq> UMo" "un \<noteq> UY"
    using assms(3) by (auto simp: is_digit_def code_def is_space_def js_lower_def lower_char_def is_upper_def)
  have "js_trim (''*-'' @ ds @ u) = ''*-'' @ ds @ u"
    by (rule trim_ends) (use u in \<open>auto simp: is_space_def code_def\<close>)
  moreover have "js_lower (''*-'' @ ds @ u) = ''*-'' @ ds @ u"
  proof -
    have "js_lower ''*-'' = ''*-''" by code_simp
    then show ?thesis using u(6) lower_digits [OF assms(2)] by (simp add: js_lower_def)
  qed
  moreover have "trunc_rat (of_int (cl_now ck) + of_int (- 1) * of_int (digits_value ds) * unit_ms un)
      = cl_now ck - digits_value ds * \<lfloor>unit_ms un\<rfloor>"
  proof -
    obtain k where k: "unit_ms un = of_int k" using u(7) by metis
    have "of_int (cl_now ck) + of_int (- 1) * of_int (digits_value ds) * unit_ms un
        = (of_int (cl_now ck - digits_value ds * \<lfloor>unit_ms un\<rfloor>) :: rat)"
      unfolding k by simp
    then show ?thesis by (simp only: trunc_rat_def floor_of_int ceiling_of_int if_cancel)
  qed
  ultimately show ?thesis
    using digits_offset [OF assms(1,2) u(1-4)] starred [of "''*-'' @ ds @ u" "CHR ''-'' # ds @ u"] u(8,9)
    by (cases un) (simp_all add: parseTimeExpression_def applyOffset_def Let_def)
qed

text \<open>The string of an instant is read as that instant.\<close>

lemma year_shape:
  "\<exists>sg ds. year_string y = sg @ ds \<and> sg \<in> {[], ''-'', ''+''} \<and> ds \<noteq> [] \<and> (\<forall>c \<in> set ds. is_digit c)"
proof -
  have digits: "digits_of k n \<noteq> [] \<and> (\<forall>c \<in> set (digits_of k n). is_digit c)" if "k \<noteq> 0" for k n
  proof
    show "digits_of k n \<noteq> []" using that length_digits_of [of k n] by (metis list.size(3))
    show "\<forall>c \<in> set (digits_of k n). is_digit c" using digits_of_digits [of k n] by (simp only: list_all_iff)
  qed
  show ?thesis
  proof (cases "0 \<le> y \<and> y \<le> 9999")
    case True
    with digits [of 4 "nat y"] show ?thesis
      by (intro exI [of _ "[]"] exI [of _ "digits_of 4 (nat y)"]) (simp add: year_string_def)
  next
    case False
    with digits [of 6 "nat \<bar>y\<bar>"] show ?thesis
      by (intro exI [of _ "if y < 0 then ''-'' else ''+''"] exI [of _ "digits_of 6 (nat \<bar>y\<bar>)"]) (auto simp: year_string_def)
  qed
qed

lemma dated_no_offset:
  assumes "s = sg @ ds @ CHR ''-'' # r" and "sg \<in> {[], ''-'', ''+''}" and "ds \<noteq> []" and ds: "\<forall>c \<in> set ds. is_digit c"
  shows "match_offset (js_lower s) = None" "base_of ck (js_lower s) = None" "\<not> is_space (hd s)"
proof -
  have d: "is_digit (hd ds)" using assms(3) ds by simp
  have sgl: "js_lower sg = sg" "js_lower ''-'' = ''-''"
    using assms(2) by (auto simp: js_lower_def lower_char_def is_upper_def code_def)
  have low: "js_lower s = sg @ ds @ CHR ''-'' # js_lower r"
    using sgl lower_digits [OF ds] by (simp add: assms(1) js_lower_def)
  have tw: "takeWhile is_digit (ds @ CHR ''-'' # x) = ds" "dropWhile is_digit (ds @ CHR ''-'' # x) = CHR ''-'' # x" for x
    using ds by (simp_all add: takeWhile_digits dropWhile_digits is_digit_def code_def)
  have d': "hd ds \<noteq> CHR ''-''" "hd ds \<noteq> CHR ''+''" "hd ds \<noteq> CHR ''*''" "\<not> is_lower (hd ds)" "\<not> is_space (hd ds)"
    using d digit_not_space by (auto simp: is_digit_def code_def is_lower_def)
  have no_unit: "offset_unit_of (CHR ''-'' # x) = None" for x by simp
  have sign: "\<not> is_lower (CHR ''-'')" "\<not> is_lower (CHR ''+'')" "\<not> is_space (CHR ''-'')" "\<not> is_space (CHR ''+'')" by code_simp+
  have word: "word_of (ds @ x) = []" for x using d'(4) assms(3) by (cases ds) (simp_all add: word_of_def)
  let ?low = "js_lower s"
  have body: "(if ?low \<noteq> [] \<and> (hd ?low = CHR ''-'' \<or> hd ?low = CHR ''+'') then tl ?low else ?low) = ds @ CHR ''-'' # js_lower r"
    using assms(2) d'(1,2) assms(3) by (auto simp: low hd_append)
  have dash: "(CHR ''-'' = CHR ''.'') = False" by simp
  show "match_offset ?low = None"
    unfolding match_offset_def body Let_def tw list.sel dash simp_thms if_False prod.case no_unit
    by simp
  have ne: "?low \<noteq> []" using assms(3) by (simp add: low)
  have hds: "hd ?low = (if sg = [] then hd ds else hd sg)" "hd s = (if sg = [] then hd ds else hd sg)"
    using assms(3) unfolding low by (simp_all add: assms(1) hd_append)
  have "hd ?low \<noteq> CHR ''*''" "\<not> is_lower (hd ?low)" and space: "\<not> is_space (hd s)"
    using hds d' sign assms(2) by auto
  with ne show "base_of ck ?low = None" "\<not> is_space (hd s)"
    by (cases ?low; simp add: base_of_def word_of_def) (rule space)
qed

lemma parse_iso:
  assumes "\<bar>t\<bar> \<le> 8640000000000000"
  shows "parseTimeExpression ck a (toISOString t) = Inr (Some t)"
proof -
  obtain sg ds where year: "year_string (year_of_day (day_of t)) = sg @ ds" "sg \<in> {[], ''-'', ''+''}" "ds \<noteq> []" "\<forall>c \<in> set ds. is_digit c"
    using year_shape by blast
  obtain r where iso: "toISOString t = sg @ ds @ CHR ''-'' # r @ ''Z''"
    by (simp add: toISOString_def Let_def year(1))
  have "js_trim (toISOString t) = toISOString t"
    by (rule trim_ends) (use dated_no_offset(3) [OF iso year(2-4)] iso in \<open>auto simp: is_space_def code_def\<close>)
  with dated_no_offset(1,2) [OF iso year(2-4)] date_of_iso [OF assms, of ck] iso show ?thesis
    by (simp add: parseTimeExpression_def Let_def)
qed

lemma parse_now: "isNowExpression x \<Longrightarrow> parseTimeExpression ck a x = Inr (Some (cl_now ck))"
proof -
  assume x: "isNowExpression x"
  have "match_offset ''now'' = None" by code_simp
  moreover have "base_of ck ''now'' = Some (Some (cl_now ck), [], ''now'')"
    by (simp add: base_of_def word_of_def is_lower_def code_def resolveKeyword_def)
  moreover have "js_trim x \<noteq> []" using x by (auto simp: isNowExpression_def js_lower_def)
  ultimately show ?thesis using x starred [of "''*''" "[]"]
    by (auto simp: isNowExpression_def parseTimeExpression_def Let_def)
qed

lemma iso_not_now: "\<bar>t\<bar> \<le> 8640000000000000 \<Longrightarrow> \<not> isNowExpression (toISOString t)"
  using parse_now [of "toISOString t" "\<lparr>cl_now = t + 1, cl_zone = undefined, cl_other = undefined\<rparr>" None]
    parse_iso [of t "\<lparr>cl_now = t + 1, cl_zone = undefined, cl_other = undefined\<rparr>" None] by auto

section \<open>The operations in any order\<close>











lemma time_clip_Some: "time_clip t = Some u \<longleftrightarrow> u = t \<and> \<bar>t\<bar> \<le> 8640000000000000"
  by (auto simp: time_clip_def)

lemma shift_Some:
  "shift d s = Some s' \<Longrightarrow> \<exists>a b. dt_start s = Some a \<and> dt_end s = Some b
     \<and> \<bar>a + d * (b - a)\<bar> \<le> 8640000000000000 \<and> \<bar>b + d * (b - a)\<bar> \<le> 8640000000000000
     \<and> s' = s\<lparr>startExpr := toISOString (a + d * (b - a)), endExpr := toISOString (b + d * (b - a)), dt_start := Some (a + d * (b - a)),
             dt_end := Some (b + d * (b - a)), dt_live := False, dt_error := None\<rparr>"
  by (auto simp: shift_def Let_def time_clip_Some split: option.splits)



lemma initial_window:
  "parseTimeExpression ck a DEFAULT_START = Inr (time_clip (cl_now ck - 3600000))"
  "resolve_window ck DEFAULT_START DEFAULT_END
     = \<lparr>rs_start = time_clip (cl_now ck - 3600000), rs_end = Some (cl_now ck), rs_live = True, rs_error = None\<rparr>"
proof -
  have "digits_value ''1'' = 1" "\<forall>c \<in> set ''1''. is_digit c" by code_simp+
  then show p: "parseTimeExpression ck a DEFAULT_START = Inr (time_clip (cl_now ck - 3600000))" for a
    using parse_back [of "''1''" "''h''" UH ck a] by (simp add: DEFAULT_START_def)
  show "resolve_window ck DEFAULT_START DEFAULT_END
     = \<lparr>rs_start = time_clip (cl_now ck - 3600000), rs_end = Some (cl_now ck), rs_live = True, rs_error = None\<rparr>"
    using now_star by (auto simp: resolve_window_def p DEFAULT_END_def parse_star not_after_def time_clip_def split: option.splits)
qed


section \<open>Properties\<close>


text \<open>A clock at the epoch, in a zone an hour ahead.\<close>

definition epoch_clock :: clock where
  "epoch_clock = \<lparr>cl_now = 0, cl_zone = \<lparr>local_of = \<lambda>t. t + 3600000, utc_of = \<lambda>t. t - 3600000\<rparr>, cl_other = \<lambda>_. None\<rparr>"


text \<open>
  An offset beyond the range of dates is not refused: the start becomes an invalid date, no error is shown, the display counts as
  live, and moving such a window throws.
\<close>

theorem huge_offset_accepted:
  assumes "\<bar>cl_now ck\<bar> \<le> 8640000000000000"
  shows "dt_start (setRange ck ''*-300000000d'' ''*'' s) = None \<and> dt_error (setRange ck ''*-300000000d'' ''*'' s) = None
    \<and> dt_live (setRange ck ''*-300000000d'' ''*'' s) \<and> shift d (setRange ck ''*-300000000d'' ''*'' s) = None"
proof -
  have "digits_value ''300000000'' = 300000000" "\<forall>c \<in> set ''300000000''. is_digit c" by code_simp+
  then have "parseTimeExpression ck a ''*-300000000d'' = Inr (time_clip (cl_now ck - 300000000 * 86400000))" for a
    using parse_back [of "''300000000''" "''d''" UD ck a] by simp
  moreover have "time_clip (cl_now ck - 300000000 * 86400000) = None" using assms by (simp add: time_clip_def)
  ultimately have "resolve_window ck ''*-300000000d'' ''*'' = \<lparr>rs_start = None, rs_end = Some (cl_now ck), rs_live = True, rs_error = None\<rparr>"
    using now_star by (simp add: resolve_window_def parse_star not_after_def)
  then show ?thesis by (simp add: setRange_def shift_def)
qed

theorem huge_offset_accepted_witness:
  "dt_start (setRange epoch_clock ''*-300000000d'' ''*'' (initial_time epoch_clock)) = None
     \<and> dt_error (setRange epoch_clock ''*-300000000d'' ''*'' (initial_time epoch_clock)) = None"
  using huge_offset_accepted [of epoch_clock "initial_time epoch_clock"] by (simp add: epoch_clock_def)

text \<open>
  Moving a window by its span keeps the span, moving it back restores it, and the expressions that are stored for it mean
  the same window at any later time: a moved window survives being saved or sent as a link.
\<close>

theorem shift_roundtrip:
  assumes "shift d s = Some s'" and "dt_start s = Some a" and "dt_end s = Some b" and "a < b"
  shows "span s' = Some (b - a)
    \<and> (\<bar>a\<bar> \<le> 8640000000000000 \<and> \<bar>b\<bar> \<le> 8640000000000000 \<longrightarrow>
         (\<exists>t. shift (- d) s' = Some t \<and> dt_start t = Some a \<and> dt_end t = Some b))
    \<and> setRange ck (startExpr s') (endExpr s') s' = s'"
proof -
  define a' b' where "a' = a + d * (b - a)" and "b' = b + d * (b - a)"
  from shift_Some [OF assms(1)] assms(2,3) have s': "s' = s\<lparr>startExpr := toISOString a', endExpr := toISOString b', dt_start := Some a',
      dt_end := Some b', dt_live := False, dt_error := None\<rparr>" and ok: "\<bar>a'\<bar> \<le> 8640000000000000" "\<bar>b'\<bar> \<le> 8640000000000000"
    by (auto simp: a'_def b'_def)
  have sp: "b' - a' = b - a" "a' < b'" using assms(4) by (simp_all add: a'_def b'_def)
  have "a' + - d * (b' - a') = a" "b' + - d * (b' - a') = b" unfolding sp(1) by (simp_all add: a'_def b'_def)
  then have undone: "\<exists>t. shift (- d) s' = Some t \<and> dt_start t = Some a \<and> dt_end t = Some b"
    if "\<bar>a\<bar> \<le> 8640000000000000" "\<bar>b\<bar> \<le> 8640000000000000"
    using that by (simp add: shift_def s' Let_def time_clip_def)
  have "\<not> isNowExpression (toISOString b')" using iso_not_now [OF ok(2)] .
  then have "setRange ck (startExpr s') (endExpr s') s' = s'"
    using sp(2) by (simp add: setRange_def resolve_window_def s' parse_iso [OF ok(1)] parse_iso [OF ok(2)] not_after_def)
  with undone sp(1) show ?thesis by (simp add: span_def s')
qed


theorem shift_roundtrip_witness:
  "\<exists>s t. shift (- 1) (initial_time epoch_clock) = Some s \<and> span s = Some 3600000
     \<and> shift 1 s = Some t \<and> dt_start t = Some (- 3600000) \<and> dt_end t = Some 0
     \<and> setRange epoch_clock (startExpr s) (endExpr s) s = s"
proof -
  have i: "dt_start (initial_time epoch_clock) = Some (- 3600000)" "dt_end (initial_time epoch_clock) = Some 0"
    by (simp_all add: initial_time_def initial_window epoch_clock_def time_clip_def)
  then obtain s where s: "shift (- 1) (initial_time epoch_clock) = Some s" by (simp add: shift_def time_clip_def)
  from shift_roundtrip [OF s i, of epoch_clock] s show ?thesis by auto
qed

section \<open>Keywords\<close>

definition fixed_zone :: "zone \<Rightarrow> int \<Rightarrow> bool" where
  "fixed_zone z off \<longleftrightarrow> (\<forall>t. local_of z t = t + off \<and> utc_of z t = t - off)"

lemma set_date_back:
  assumes "fixed_zone z off"
  shows "set_date z (get_date z t - k) t = time_clip (t - k * ms_day)"
proof -
  let ?d = "day_of (t + off)"
  have "make_day (get_full_year z t) (get_month z t) (get_date z t - k) = ?d - k"
    using make_day_of_day [of ?d] assms
    by (simp add: make_day_def get_full_year_def get_month_def get_date_def fixed_zone_def Let_def)
  moreover have "make_date (?d - k) (time_in_day (t + off)) = t + off - k * ms_day"
    using make_date_parts [of "t + off"] by (simp add: make_date_def left_diff_distrib)
  ultimately show ?thesis using assms by (simp add: set_date_def fixed_zone_def)
qed

lemma midnight:
  assumes "fixed_zone z off" and "m = t - time_in_day (t + off)"
  shows "local_midnight z t = time_clip m" "m \<le> t" "t < m + ms_day" "local_of z m = make_date (day_of (t + off)) 0"
proof -
  have "t + off = make_date (day_of (t + off)) (time_in_day (t + off))" by simp
  then have "m = make_date (day_of (t + off)) 0 - off" unfolding assms(2) by (simp add: make_date_def)
  then show "local_midnight z t = time_clip m" "local_of z m = make_date (day_of (t + off)) 0"
    using assms(1) by (simp_all add: local_midnight_def fixed_zone_def)
  show "m \<le> t" "t < m + ms_day" using time_in_day_bounds [of "t + off"] assms(2) by simp_all
qed

lemma parse_word:
  assumes "w \<noteq> []" and "\<forall>c \<in> set w. is_lower c" and "resolveKeyword ck w = Some b"
  shows "parseTimeExpression ck a w = Inr b"
proof -
  have plain: "\<not> is_digit c \<and> \<not> is_space c \<and> \<not> is_upper c \<and> c \<noteq> CHR ''-'' \<and> c \<noteq> CHR ''+'' \<and> c \<noteq> CHR ''*''" if "is_lower c" for c
    using that by (auto simp: is_lower_def is_digit_def is_space_def is_upper_def code_def)
  have "js_trim w = w" by (rule trim_ends) (use assms(1,2) plain in auto)
  moreover have "lower_char c = c" if "is_lower c" for c using that by (simp add: lower_char_def is_lower_def is_upper_def)
  then have "js_lower w = w" unfolding js_lower_def using assms(2) by (intro map_idI) blast
  moreover have "match_offset w = None"
  proof -
    obtain c r where w: "w = c # r" using assms(1) by (cases w) auto
    then have "\<not> is_digit c" "c \<noteq> CHR ''-''" "c \<noteq> CHR ''+''" using assms(2) plain [of c] by simp_all
    then show ?thesis by (simp add: w match_offset_def Let_def)
  qed
  moreover have "word_of w = w" unfolding word_of_def using assms(2) by (simp add: takeWhile_eq_all_conv)
  then have "base_of ck w = Some (b, [], w)"
  proof -
    obtain c r where w: "w = c # r" using assms(1) by (cases w) auto
    then have "c \<noteq> CHR ''*''" using assms(2) plain [of c] by simp
    with w \<open>word_of w = w\<close> assms(3) show ?thesis by (simp add: base_of_def)
  qed
  ultimately show ?thesis using assms(1) by (simp add: parseTimeExpression_def)
qed

lemma weekday_names:
  assumes "i < 7" and "w = WEEKDAYS ! i \<or> w = WEEKDAYS_FULL ! i"
  shows "resolveKeyword ck w = Some (resolveWeekday ck i)" "w \<noteq> []" "\<forall>c \<in> set w. is_lower c"
proof -
  have all: "list_all (\<lambda>i. list_all (\<lambda>w. name_index WEEKDAYS WEEKDAYS_FULL w = Some i \<and> w \<noteq> [] \<and> list_all is_lower w
      \<and> \<not> set_mem [''now'', ''t'', ''today'', ''y'', ''yesterday''] w) [WEEKDAYS ! i, WEEKDAYS_FULL ! i]) [0..<7]"
    by code_simp
  then have "name_index WEEKDAYS WEEKDAYS_FULL w = Some i \<and> w \<noteq> [] \<and> list_all is_lower w
      \<and> \<not> set_mem [''now'', ''t'', ''today'', ''y'', ''yesterday''] w"
    using assms(1) by (simp only: list_all_iff set_upt atLeast0LessThan lessThan_iff) (use assms(2) in auto)
  then show "resolveKeyword ck w = Some (resolveWeekday ck i)" "w \<noteq> []" "\<forall>c \<in> set w. is_lower c"
    by (simp_all add: resolveKeyword_def list_all_iff)
qed

text \<open>
  In a zone without clock changes the day keywords mean what the table at the head of the file says: today is the local
  midnight at or before now and less than a day ago, yesterday the one before it, and a weekday, short or in full, the
  midnight of its most recent occurrence, today included.
\<close>

theorem day_keywords:
  assumes "fixed_zone (cl_zone ck) off" and "m = cl_now ck - time_in_day (cl_now ck + off)"
    and "\<bar>cl_now ck\<bar> \<le> 8640000000000000 - 8 * ms_day"
  shows "m \<le> cl_now ck \<and> cl_now ck < m + ms_day \<and> time_in_day (local_of (cl_zone ck) m) = 0
    \<and> (\<forall>w \<in> {''t'', ''today''}. parseTimeExpression ck a w = Inr (Some m))
    \<and> (\<forall>w \<in> {''y'', ''yesterday''}. parseTimeExpression ck a w = Inr (Some (m - ms_day)))
    \<and> (\<forall>i < 7. \<forall>w \<in> {WEEKDAYS ! i, WEEKDAYS_FULL ! i}. \<exists>k. 0 \<le> k \<and> k \<le> 6
          \<and> parseTimeExpression ck a w = Inr (Some (m - k * ms_day)) \<and> get_day (cl_zone ck) (m - k * ms_day) = int i)"
proof -
  let ?z = "cl_zone ck" and ?n = "cl_now ck"
  note mid = midnight [OF assms(1,2)]
  have ms: "ms_day = 86400000" by (simp add: ms_day_def)
  have clip: "time_clip (m - k * ms_day) = Some (m - k * ms_day)" if "0 \<le> k" "k \<le> 6" for k
    using mid(2,3) assms(3) that unfolding time_clip_def ms by (auto simp: abs_le_iff)
  have start: "startOfDay ck ?n = Some m" using mid(1) clip [of 0] by (simp add: startOfDay_def)
  have words: "list_all is_lower w \<and> w \<noteq> []" if "w \<in> {''t'', ''today'', ''y'', ''yesterday''}" for w
    using that by (auto simp: is_lower_def code_def)
  have today: "parseTimeExpression ck a w = Inr (Some m)" if "w \<in> {''t'', ''today''}" for w
    by (rule parse_word) (use that words [of w] start in \<open>auto simp: resolveKeyword_def list_all_iff\<close>)
  have yesterday: "parseTimeExpression ck a w = Inr (Some (m - ms_day))" if "w \<in> {''y'', ''yesterday''}" for w
    by (rule parse_word)
      (use that words [of w] start set_date_back [OF assms(1), of m 1] clip [of 1] in \<open>auto simp: resolveKeyword_def list_all_iff\<close>)
  have day: "get_day ?z (m - k * ms_day) = (day_of (?n + off) - k + 4) mod 7" for k
  proof -
    have "local_of ?z (m - k * ms_day) = make_date (day_of (?n + off) - k) 0"
      using mid(4) assms(1) by (simp add: fixed_zone_def make_date_def left_diff_distrib)
    then show ?thesis by (simp add: get_day_def ms_day_def)
  qed
  have weekday: "\<exists>k. 0 \<le> k \<and> k \<le> 6 \<and> parseTimeExpression ck a w = Inr (Some (m - k * ms_day)) \<and> get_day ?z (m - k * ms_day) = int i"
    if "i < 7" "w \<in> {WEEKDAYS ! i, WEEKDAYS_FULL ! i}" for i w
  proof -
    define g where "g = get_day ?z m"
    define k where "k = (if g - int i < 0 then g - int i + 7 else g - int i)"
    have g: "g = (day_of (?n + off) + 4) mod 7" using day [of 0] by (simp add: g_def)
    then have k: "0 \<le> k" "k \<le> 6" using that(1) by (auto simp: k_def)
    have "(day_of (?n + off) + 4 - k) mod 7 = (g - k) mod 7" unfolding g by (simp add: mod_diff_left_eq)
    also have "\<dots> = int i" using that(1) mod_add_self2 [of "int i - 7" 7] by (simp add: k_def)
    finally have "(day_of (?n + off) - k + 4) mod 7 = int i" by (simp add: algebra_simps)
    moreover have "resolveWeekday ck i = Some (m - k * ms_day)"
      using start set_date_back [OF assms(1), of m k] clip [OF k]
      by (cases "g < int i") (simp_all add: resolveWeekday_def Let_def g_def [symmetric] k_def)
    moreover have "w = WEEKDAYS ! i \<or> w = WEEKDAYS_FULL ! i" using that(2) by simp
    note parse_word [OF weekday_names(2,3,1) [OF that(1) this], of ck a]
    ultimately show ?thesis using k day [of k] by auto
  qed
  show ?thesis using mid today yesterday weekday by (simp add: ms_day_def)
qed

theorem day_keywords_witness:
  "parseTimeExpression epoch_clock None ''today'' = Inr (Some (- 3600000))
     \<and> parseTimeExpression epoch_clock None ''thursday'' = Inr (Some (- 3600000))"
proof -
  have z: "fixed_zone (cl_zone epoch_clock) 3600000" by (simp add: fixed_zone_def epoch_clock_def)
  have m: "- 3600000 = cl_now epoch_clock - time_in_day (cl_now epoch_clock + 3600000)"
    by (simp add: epoch_clock_def time_in_day_def ms_day_def)
  have "\<bar>cl_now epoch_clock\<bar> \<le> 8640000000000000 - 8 * ms_day" by (simp add: epoch_clock_def ms_day_def)
  note all = day_keywords [OF z m this, of None]
  from all have today: "parseTimeExpression epoch_clock None ''today'' = Inr (Some (- 3600000))" by simp
  from all obtain k where k: "0 \<le> k" "k \<le> 6" "parseTimeExpression epoch_clock None (WEEKDAYS_FULL ! 4) = Inr (Some (- 3600000 - k * ms_day))"
    "get_day (cl_zone epoch_clock) (- 3600000 - k * ms_day) = 4" by (auto dest!: spec [of _ 4])
  have "get_day (cl_zone epoch_clock) (- 3600000 - k * ms_day) = (4 - k) mod 7"
    using nonzero_mult_div_cancel_right [of 86400000 "- k"] by (simp add: get_day_def epoch_clock_def day_of_def ms_day_def)
  with k(1,2,4) have "k = 0" by presburger
  with k(3) today show ?thesis by (simp add: WEEKDAYS_FULL_def)
qed

section \<open>Fixed expressions\<close>

lemma keyword_or_not: "resolveKeyword ck w = None \<longleftrightarrow> resolveKeyword ck' w = None"
  by (simp add: resolveKeyword_def split: option.splits)

text \<open>
  An expression that is not relative stays put: it means the same instant, or the same error, whatever the time, the zone and
  the anchor, if the host reads other date strings alike.
\<close>

theorem fixed_expressions_stay:
  assumes "\<not> isRelativeExpression ck x" and "cl_other ck = cl_other ck'"
  shows "parseTimeExpression ck a x = parseTimeExpression ck' a' x"
proof -
  define s where "s = js_lower (js_trim x)"
  show ?thesis
  proof (cases "js_trim x = []")
    case False
    then have s: "s \<noteq> []" by (simp add: s_def js_lower_def)
    have "\<not> starts_with s ''*''" "match_offset s = None" "word_of s = [] \<or> resolveKeyword ck (word_of s) = None"
      using assms(1) s unfolding isRelativeExpression_def s_def [symmetric] Let_def by metis+
    then have "base_of ck s = None" "base_of ck' s = None" "match_offset s = None"
      using s keyword_or_not [of ck "word_of s" ck'] by (cases s; auto simp: base_of_def starts_with_def)+
    then show ?thesis using False assms(2) by (simp add: parseTimeExpression_def s_def [symmetric] Let_def date_of_string_def split: option.splits)
  qed (simp add: parseTimeExpression_def)
qed

section \<open>Presets\<close>

text \<open>A preset that was just applied is the one that is shown as active; stepped away from now it is a custom range.\<close>

lemma find_preset:
  assumes "sorted_wrt (\<lambda>p q. 2 * SPAN_TOLERANCE_MS < rp_ms q - rp_ms p) ps" and "p \<in> set ps"
  shows "find (\<lambda>q. \<bar>rp_ms q - rp_ms p\<bar> \<le> SPAN_TOLERANCE_MS) ps = Some p"
  using assms
proof (induction ps)
  case (Cons q ps)
  have "0 < SPAN_TOLERANCE_MS" by (simp add: SPAN_TOLERANCE_MS_def)
  with Cons show ?case by (cases "q = p") fastforce+
qed simp

theorem presets_shown:
  assumes "presets \<in> {RANGE_PRESETS, EXPLORER_PRESETS}" and "p \<in> set presets" and "presetRange (rp_ms p) now = (a, b)" and "dir \<noteq> 0"
  shows "activePreset a b now presets = rp_key p
    \<and> (case stepRange a b dir of (a', b') \<Rightarrow> b' - a' = b - a \<and> activePreset a' b' now presets = ''custom'' \<and> stepRange a' b' (- dir) = (a, b))"
proof -
  have sorted: "sorted_wrt (\<lambda>p q. 2 * SPAN_TOLERANCE_MS < rp_ms q - rp_ms p) presets"
    using assms(1) by (auto simp: RANGE_PRESETS_def EXPLORER_PRESETS_def preset_def SPAN_TOLERANCE_MS_def)
  have ab: "a = now - rp_ms p" "b = now" using assms(3) by (simp_all add: presetRange_def)
  have big: "LIVE_TOLERANCE_MS < rp_ms p"
    using assms(1,2) by (auto simp: RANGE_PRESETS_def EXPLORER_PRESETS_def preset_def LIVE_TOLERANCE_MS_def)
  have "rp_ms p \<le> \<bar>dir\<bar> * rp_ms p"
    using mult_right_mono [of 1 "\<bar>dir\<bar>" "rp_ms p"] assms(4) big by (simp add: LIVE_TOLERANCE_MS_def)
  moreover have "\<bar>now - (now + dir * rp_ms p)\<bar> = \<bar>dir\<bar> * rp_ms p" using big by (simp add: abs_mult LIVE_TOLERANCE_MS_def)
  ultimately have "LIVE_TOLERANCE_MS < \<bar>now - (now + dir * rp_ms p)\<bar>" using big by linarith
  moreover have "activePreset a b now presets = rp_key p"
    using find_preset [OF sorted assms(2)] by (simp add: ab activePreset_def LIVE_TOLERANCE_MS_def)
  ultimately show ?thesis by (simp add: stepRange_def Let_def ab activePreset_def)
qed

end
