(* ===== verification/Designer_Types.thy ===== *)
theory Designer_Types
  imports Live_Store
begin

text \<open>
  The display document of the designer (src/frontend-ob/src/components/Designer/types.ts): a canvas item with its
  optional parts, and the settings that are saved with the items.

  An optional property is an \<open>option\<close>, a string or number or boolean a \<open>js_val\<close>, a closed set of strings the string
  itself.  A number is the rational it denotes.  The properties of the two OpenBridge families
  (automationTypes.ts, obcCatalogTypes.ts) are association lists of their names.  \<open>CanvasItem\<close> is recursive (the cell
  of a collection holds items), so an item is a record of its other properties and the collection it carries.
\<close>

section \<open>Parts of an item\<close>

record point =
  px :: rat
  py :: rat

record extent =
  wd :: rat
  ht :: rat

record format_options =
  fo_decimals :: "rat option"
  fo_unit :: "string option"
  fo_prefix :: "string option"
  fo_suffix :: "string option"
  fo_showUnit :: "bool option"
  fo_showLabel :: "bool option"
  fo_valueColor :: "string option"
  fo_backgroundColor :: "string option"

record alarm_limits =
  al_hiHi :: "rat option"
  al_hi :: "rat option"
  al_lo :: "rat option"
  al_loLo :: "rat option"
  al_deadband :: "rat option"

record item_style =
  is_fill :: "string option"
  is_stroke :: "string option"
  is_strokeWidth :: "rat option"
  is_strokeDasharray :: "string option"
  is_opacity :: "rat option"
  is_fontSize :: "rat option"
  is_fontWeight :: "string option"
  is_textAlign :: "string option"
  is_borderRadius :: "rat option"
  is_fontFamily :: "string option"
  is_fontStyle :: "string option"
  is_textDecoration :: "string option"
  is_background :: "string option"

record shape_props =
  sp_points :: "point list option"
  sp_cornerRadius :: "rat option"
  sp_startAngle :: "rat option"
  sp_endAngle :: "rat option"

record text_props =
  tp_text :: "string option"
  tp_multiline :: "bool option"
  tp_verticalAlign :: "string option"

record navigation_link =
  nl_targetDisplayId :: "string option"
  nl_targetUrl :: "string option"
  nl_label :: "string option"
  nl_openMode :: "string option"
  nl_assetContextMode :: "string option"
  nl_assetContext :: "string option"
  nl_includeTimeRange :: "bool option"

datatype rule_operator = OpGt | OpGe | OpLt | OpLe | OpEq | OpNe | OpBetween | OpOutside

datatype rule_effect = EffColor | EffBlink | EffHidden | EffRotate

record visual_rule =
  vr_slot :: "string option"
  vr_op :: rule_operator
  vr_value :: js_val
  vr_value2 :: "rat option"
  vr_effect :: rule_effect
  vr_color :: "string option"
  vr_rotateDeg :: "rat option"

record multi_state_item =
  ms_min :: "rat option"
  ms_max :: "rat option"
  ms_equals :: "js_val option"
  ms_label :: "string option"
  ms_color :: string
  ms_blink :: "bool option"

record multi_state_default =
  md_label :: "string option"
  md_color :: "string option"

record multi_state_config =
  mc_slot :: "string option"
  mc_states :: "multi_state_item list"
  mc_default :: "multi_state_default option"

record state_map_entry =
  se_when :: js_val
  se_label :: string
  se_color :: "string option"

record trend_trace =
  tt_color :: "string option"
  tt_width :: "rat option"
  tt_style :: "string option"
  tt_showMarkers :: "bool option"
  tt_hidden :: "bool option"

record trend_scale =
  ts_auto :: "bool option"
  ts_min :: "rat option"
  ts_max :: "rat option"

record collection_criteria =
  cc_root :: "string option"
  cc_returnAllDescendants :: "bool option"
  cc_assetType :: "rat option"
  cc_template :: "string option"

record collection_config =
  co_criteria :: collection_criteria
  co_cell :: extent
  co_columns :: rat
  co_gap :: rat
  co_maxInstances :: "rat option"
  co_sort :: "(string \<times> string) option"

section \<open>An item\<close>

record item_core =
  ci_id :: string
  ci_type :: string
  ci_position :: point
  ci_size :: extent
  ci_bindings :: "(string \<times> string) list option"
  ci_label :: "string option"
  ci_formatting :: "format_options option"
  ci_style :: "item_style option"
  ci_rotation :: "rat option"
  ci_zIndex :: "rat option"
  ci_locked :: "bool option"
  ci_hidden :: "bool option"
  ci_flipH :: "bool option"
  ci_flipV :: "bool option"
  ci_groupId :: "string option"

record item_base = item_core +
  ci_alarmLimits :: "alarm_limits option"
  ci_shapeProps :: "shape_props option"
  ci_textProps :: "text_props option"
  ci_automationProps :: "js_record option"
  ci_obcProps :: "js_record option"
  ci_navigationLink :: "navigation_link option"
  ci_alarmSource :: "string option"
  ci_rules :: "visual_rule list option"
  ci_multiStateConfig :: "multi_state_config option"
  ci_timeMode :: "string option"
  ci_mediaId :: "string option"
  ci_comparison :: "(collection_criteria \<times> string list) option"
  ci_summaryColumns :: "string list option"
  ci_uom :: "string option"
  ci_showQuality :: "bool option"
  ci_inheritLimits :: "bool option"
  ci_showTimestamp :: "bool option"
  ci_stateMap :: "state_map_entry list option"
  ci_trace :: "(string \<times> trend_trace) list option"
  ci_trendScale :: "trend_scale option"
  ci_steppedLines :: "bool option"
  ci_showRegression :: "bool option"
  ci_transpose :: "bool option"

text \<open>The property \<open>collectionConfig\<close>: the settings and the items of the cell.\<close>

datatype canvas_item =
  CanvasItem (ci_base: item_base) (ci_collection: "(collection_config \<times> canvas_item list) option")

definition item_id :: "canvas_item \<Rightarrow> string" where
  "item_id it = ci_id (ci_base it)"

definition item_pos :: "canvas_item \<Rightarrow> point" where
  "item_pos it = ci_position (ci_base it)"

definition item_size :: "canvas_item \<Rightarrow> extent" where
  "item_size it = ci_size (ci_base it)"

definition item_z :: "canvas_item \<Rightarrow> rat" where
  "item_z it = nullish (ci_zIndex (ci_base it)) 0"

definition item_hidden :: "canvas_item \<Rightarrow> bool" where
  "item_hidden it = (ci_hidden (ci_base it) = Some True)"

definition item_locked :: "canvas_item \<Rightarrow> bool" where
  "item_locked it = (ci_locked (ci_base it) = Some True)"

text \<open>The spread \<open>{ ...it, ...changes }\<close>, the changes as a function on the properties.\<close>

definition patch_item :: "(item_base \<Rightarrow> item_base) \<Rightarrow> canvas_item \<Rightarrow> canvas_item" where
  "patch_item f it = CanvasItem (f (ci_base it)) (ci_collection it)"

definition item_right :: "canvas_item \<Rightarrow> rat" where
  "item_right it = px (item_pos it) + wd (item_size it)"

definition item_bottom :: "canvas_item \<Rightarrow> rat" where
  "item_bottom it = py (item_pos it) + ht (item_size it)"

lemma patch_item_simps [simp]:
  "ci_base (patch_item f it) = f (ci_base it)"
  "ci_collection (patch_item f it) = ci_collection it"
  by (simp_all add: patch_item_def)

lemmas item_defs = item_id_def item_pos_def item_size_def item_z_def item_hidden_def item_locked_def
  item_right_def item_bottom_def

text \<open>An item that has only its mandatory properties.\<close>

definition bare_item :: "string \<Rightarrow> string \<Rightarrow> point \<Rightarrow> extent \<Rightarrow> item_base" where
  "bare_item i t p s =
     \<lparr>ci_id = i, ci_type = t, ci_position = p, ci_size = s, ci_bindings = None, ci_label = None, ci_formatting = None,
      ci_style = None, ci_rotation = None, ci_zIndex = None, ci_locked = None, ci_hidden = None, ci_flipH = None,
      ci_flipV = None, ci_groupId = None, ci_alarmLimits = None, ci_shapeProps = None, ci_textProps = None,
      ci_automationProps = None, ci_obcProps = None, ci_navigationLink = None, ci_alarmSource = None, ci_rules = None,
      ci_multiStateConfig = None, ci_timeMode = None, ci_mediaId = None, ci_comparison = None, ci_summaryColumns = None,
      ci_uom = None, ci_showQuality = None, ci_inheritLimits = None, ci_showTimestamp = None, ci_stateMap = None,
      ci_trace = None, ci_trendScale = None, ci_steppedLines = None, ci_showRegression = None, ci_transpose = None\<rparr>"

lemma bare_item_simps [simp]:
  "ci_id (bare_item i t p s) = i" "ci_type (bare_item i t p s) = t" "ci_position (bare_item i t p s) = p"
  "ci_size (bare_item i t p s) = s" "ci_zIndex (bare_item i t p s) = None" "ci_groupId (bare_item i t p s) = None"
  by (simp_all add: bare_item_def)

section \<open>The saved document\<close>

text \<open>
  \<open>DisplaySettings\<close> of DisplayDesigner.tsx; a document read from the server may lack any of them.  The report of an
  import (services/import/pdixImport.ts) is carried along; its source is always ''pdix''.
\<close>

record unmapped_symbol =
  un_id :: string
  un_name :: string
  un_piType :: string
  un_reason :: string
  un_ref :: "string option"

record import_report =
  ir_productVersion :: "string option"
  ir_importedAt :: "string option"
  ir_total :: rat
  ir_rendered :: rat
  ir_placeholders :: rat
  ir_bindingsTotal :: rat
  ir_bindingsUnresolved :: rat
  ir_multiStateDropped :: rat
  ir_navImported :: rat
  ir_navNeedsRemap :: rat
  ir_byType :: "(string \<times> rat) list"
  ir_unmapped :: "unmapped_symbol list"
  ir_notes :: "string list"

record display_settings =
  ds_gridSize :: "rat option"
  ds_showGrid :: "bool option"
  ds_backgroundColor :: "string option"
  ds_backgroundImageId :: "string option"
  ds_canvasWidth :: "rat option"
  ds_canvasHeight :: "rat option"
  ds_importReport :: "import_report option"

record display_content =
  dc_items :: "canvas_item list"
  dc_settings :: "display_settings option"

end
