(* ===== verification/Custom_Symbols.thy ===== *)
theory Custom_Symbols
  imports Designer_Types
begin

text \<open>
  The custom symbols of the designer (src/frontend-ob/src/components/Designer/customSymbolRegistry.ts): the registry
  in local storage with its cache, the check that refuses active content, and the rendering of a template.

  The stored text is what parsing it gives: \<open>None\<close> where there is none, \<open>Some None\<close> where it does not parse.  The
  listeners only re-render.  \<open>text_of\<close> is \<open>String(v)\<close> on values that are no strings, \<open>fixed_text\<close> is \<open>toFixed\<close>.
\<close>

record custom_slot =
  cs_name :: string
  cs_kind :: string
  cs_label :: "string option"

record custom_def =
  cd_id :: string
  cd_name :: string
  cd_category :: string
  cd_svg :: string
  cd_slots :: "custom_slot list"
  cd_size :: "extent option"
  cd_collections :: "bool option"

record custom_state =
  cu_storage :: "custom_def list option option"
  cu_cache :: "custom_def list option"

section \<open>The check of a template\<close>

text \<open>\<open>/\son[a-z]+\s*=/\<close> at the start of a text, the text in lower case.\<close>

definition handler_at :: "string \<Rightarrow> bool" where
  "handler_at t =
     (case t of
        c # d # e # r \<Rightarrow>
          is_space c \<and> d = CHR ''o'' \<and> e = CHR ''n'' \<and> takeWhile is_lower r \<noteq> [] \<and>
          (case dropWhile is_space (dropWhile is_lower r) of x # _ \<Rightarrow> x = CHR ''='' | [] \<Rightarrow> False)
      | _ \<Rightarrow> False)"

definition is_word_char :: "char \<Rightarrow> bool" where
  "is_word_char c \<longleftrightarrow> is_lower c \<or> is_upper c \<or> is_digit c \<or> c = CHR ''_''"

text \<open>\<open>/<\s*(script|iframe|foreignobject|object|embed)\b/\<close> at the start of a text.\<close>

definition active_element_at :: "string \<Rightarrow> bool" where
  "active_element_at t =
     (case t of
        c # r \<Rightarrow>
          c = CHR ''<'' \<and>
          list_ex (\<lambda>w. starts_with (dropWhile is_space r) w \<and>
                       (case drop (length w) (dropWhile is_space r) of x # _ \<Rightarrow> \<not> is_word_char x | [] \<Rightarrow> True))
            [''script'', ''iframe'', ''foreignobject'', ''object'', ''embed'']
      | [] \<Rightarrow> False)"

definition isSafeSvg :: "string \<Rightarrow> bool" where
  "isSafeSvg svg =
     (let s = js_lower svg in
      \<not> list_ex handler_at (suffixes s) \<and> \<not> js_includes s ''javascript:'' \<and> \<not> list_ex active_element_at (suffixes s))"

section \<open>The registry\<close>

text \<open>An empty stored text is falsy, so it reads as none.\<close>

definition load_symbols :: "custom_state \<Rightarrow> custom_def list \<times> custom_state" where
  "load_symbols st =
     (case cu_cache st of
        Some defs \<Rightarrow> (defs, st)
      | None \<Rightarrow> let defs = (case cu_storage st of Some (Some ds) \<Rightarrow> ds | _ \<Rightarrow> []) in (defs, st\<lparr>cu_cache := Some defs\<rparr>))"

text \<open>\<open>quota\<close>: whether the storage takes the write.\<close>

definition persist_symbols :: "bool \<Rightarrow> custom_def list \<Rightarrow> custom_state \<Rightarrow> custom_state" where
  "persist_symbols quota defs st =
     st\<lparr>cu_cache := Some defs, cu_storage := (if quota then Some (Some defs) else cu_storage st)\<rparr>"

definition listCustomSymbols :: "custom_state \<Rightarrow> custom_def list \<times> custom_state" where
  "listCustomSymbols st = load_symbols st"

definition custom_prefix :: string where
  "custom_prefix = ''custom:''"

definition getCustomSymbol :: "string \<Rightarrow> custom_state \<Rightarrow> custom_def option \<times> custom_state" where
  "getCustomSymbol i st =
     (let key = (if starts_with i custom_prefix then drop (length custom_prefix) i else i);
          (defs, st') = load_symbols st in
      (find (\<lambda>d. cd_id d = key) defs, st'))"

definition isCustomSymbolType :: "string \<Rightarrow> custom_state \<Rightarrow> bool \<times> custom_state" where
  "isCustomSymbolType t st =
     (if starts_with t custom_prefix then (let (r, st') = getCustomSymbol t st in (r \<noteq> None, st')) else (False, st))"

text \<open>\<open>Inl ()\<close>: the error for active content.\<close>

definition registerCustomSymbol :: "bool \<Rightarrow> custom_def \<Rightarrow> custom_state \<Rightarrow> (unit + string) \<times> custom_state" where
  "registerCustomSymbol quota d st =
     (if \<not> isSafeSvg (cd_svg d) then (Inl (), st)
      else let (defs, st') = load_symbols st in
           (Inr (custom_prefix @ cd_id d), persist_symbols quota (filter (\<lambda>x. cd_id x \<noteq> cd_id d) defs @ [d]) st'))"

definition removeCustomSymbol :: "bool \<Rightarrow> string \<Rightarrow> custom_state \<Rightarrow> custom_state" where
  "removeCustomSymbol quota i st =
     (let (defs, st') = load_symbols st in persist_symbols quota (filter (\<lambda>x. cd_id x \<noteq> i) defs) st')"

section \<open>The rendering of a template\<close>

definition replace_char :: "char \<Rightarrow> string \<Rightarrow> string \<Rightarrow> string" where
  "replace_char a w s = concat (map (\<lambda>c. if c = a then w else [c]) s)"

definition escapeXml :: "string \<Rightarrow> string" where
  "escapeXml s =
     replace_char (CHR 0x27) ''&#39;'' (replace_char (CHR 0x22) ''&quot;'' (replace_char (CHR ''>'') ''&gt;''
       (replace_char (CHR ''<'') ''&lt;'' (replace_char (CHR ''&'') ''&amp;'' s))))"

text \<open>
  \<open>/\{\{\s*([\w.]+)(?::fixed(\d+))?\s*\}\}/\<close> at the start of a text: the name, the decimals and the rest.  No two parts
  of the expression share a character, so the greedy match is the only one.
\<close>

definition fixed_part :: "string \<Rightarrow> string option \<times> string" where
  "fixed_part r =
     (if starts_with r '':fixed'' \<and> takeWhile is_digit (drop 6 r) \<noteq> []
      then (Some (takeWhile is_digit (drop 6 r)), dropWhile is_digit (drop 6 r)) else (None, r))"

definition hole_at :: "string \<Rightarrow> (string \<times> string option \<times> string) option" where
  "hole_at t =
     (if \<not> starts_with t ''{{'' then None
      else let r = dropWhile is_space (drop 2 t);
               name = takeWhile (\<lambda>c. is_word_char c \<or> c = CHR ''.'') r;
               (dec, r') = fixed_part (dropWhile (\<lambda>c. is_word_char c \<or> c = CHR ''.'') r);
               e = dropWhile is_space r' in
           if name \<noteq> [] \<and> starts_with e ''}}'' then Some (name, dec, drop 2 e) else None)"

text \<open>\<open>toFixed\<close> takes 0 to 100 digits and throws on more: the \<open>None\<close>.\<close>

definition fill_hole ::
  "(js_val \<Rightarrow> string) \<Rightarrow> (rat \<Rightarrow> nat \<Rightarrow> string) \<Rightarrow> (string \<Rightarrow> js_val) \<Rightarrow> (string \<Rightarrow> js_val) \<Rightarrow> string \<Rightarrow> string option \<Rightarrow> string option" where
  "fill_hole text_of fixed_text vals style name dec =
     (if starts_with name ''style.'' then
        (let v = style (drop 6 name) in Some (if nullish_val v then [] else escapeXml (js_text text_of v)))
      else let v = vals name in
        if nullish_val v then Some ''--''
        else case (dec, v) of
               (Some ds, VNum n) \<Rightarrow>
                 if digits_value ds \<le> 100 then Some (escapeXml (fixed_text n (nat (digits_value ds)))) else None
             | _ \<Rightarrow> Some (escapeXml (js_text text_of v)))"

lemma length_fixed_part: "length (snd (fixed_part r)) \<le> length r"
  using length_dropWhile_le [of is_digit "drop 6 r"] by (auto simp: fixed_part_def)

lemma hole_at_shorter: "hole_at t = Some (name, dec, r) \<Longrightarrow> length r < length t"
proof -
  assume a: "hole_at t = Some (name, dec, r)"
  define u where "u = dropWhile is_space (drop 2 t)"
  define v where "v = dropWhile (\<lambda>c. is_word_char c \<or> c = CHR ''.'') u"
  have s: "starts_with t ''{{''" and r: "r = drop 2 (dropWhile is_space (snd (fixed_part v)))"
    using a by (auto simp: hole_at_def u_def v_def Let_def split: if_splits prod.splits)
  have "length r \<le> length (snd (fixed_part v))" unfolding r
    using length_dropWhile_le [of is_space "snd (fixed_part v)"] by simp
  also have "\<dots> \<le> length v" by (rule length_fixed_part)
  also have "\<dots> \<le> length u" unfolding v_def by (rule length_dropWhile_le)
  also have "\<dots> \<le> length (drop 2 t)" unfolding u_def by (rule length_dropWhile_le)
  also have "\<dots> < length t" using s by (cases t) (auto simp: starts_with_def)
  finally show ?thesis .
qed

function render_from :: "(string \<Rightarrow> string option \<Rightarrow> string option) \<Rightarrow> string \<Rightarrow> string option" where
  "render_from fill t =
     (case hole_at t of
        Some (name, dec, r) \<Rightarrow>
          (case fill name dec of None \<Rightarrow> None | Some w \<Rightarrow> map_option ((@) w) (render_from fill r))
      | None \<Rightarrow> (case t of [] \<Rightarrow> Some [] | c # r \<Rightarrow> map_option ((#) c) (render_from fill r)))"
  by pat_completeness auto
termination
  by (relation "measure (\<lambda>(fill, t). length t)") (auto dest: hole_at_shorter)

declare render_from.simps [simp del]

definition renderTemplate ::
  "(js_val \<Rightarrow> string) \<Rightarrow> (rat \<Rightarrow> nat \<Rightarrow> string) \<Rightarrow> custom_def \<Rightarrow> (string \<Rightarrow> js_val) \<Rightarrow> (string \<Rightarrow> js_val) \<Rightarrow> string option" where
  "renderTemplate text_of fixed_text d vals style = render_from (fill_hole text_of fixed_text vals style) (cd_svg d)"

section \<open>What rendering keeps of a template\<close>

text \<open>The characters that open or close markup, and no others, are escaped; the ampersand that escapes is kept aside.\<close>

definition is_markup :: "char \<Rightarrow> bool" where
  "is_markup c \<longleftrightarrow> c = CHR ''<'' \<or> c = CHR ''>'' \<or> c = CHR 0x22 \<or> c = CHR 0x27"

abbreviation markup :: "string \<Rightarrow> string" where
  "markup s \<equiv> filter is_markup s"

lemma replace_char_append [simp]: "replace_char a w (s @ t) = replace_char a w s @ replace_char a w t"
  by (simp add: replace_char_def)

lemma replace_char_simps [simp]:
  "replace_char a w [] = []" "replace_char a w (c # s) = (if c = a then w else [c]) @ replace_char a w s"
  by (simp_all add: replace_char_def)

lemma escapeXml_append [simp]: "escapeXml (s @ t) = escapeXml s @ escapeXml t"
  by (simp add: escapeXml_def)

lemma escapeXml_char:
  "escapeXml [c] = (if c = CHR ''&'' then ''&amp;'' else if c = CHR ''<'' then ''&lt;'' else if c = CHR ''>'' then ''&gt;''
     else if c = CHR 0x22 then ''&quot;'' else if c = CHR 0x27 then ''&#39;'' else [c])"
  by (simp add: escapeXml_def)

lemma markup_escapeXml [simp]: "markup (escapeXml s) = []"
proof (induction s)
  case Nil
  show ?case by (simp add: escapeXml_def)
next
  case (Cons c s)
  have "escapeXml (c # s) = escapeXml [c] @ escapeXml s" using escapeXml_append [of "[c]" s] by simp
  then show ?case using Cons by (simp add: escapeXml_char is_markup_def)
qed

lemma markup_fill: "fill_hole text_of fixed_text vals style name dec = Some w \<Longrightarrow> markup w = []"
  by (auto simp: fill_hole_def Let_def is_markup_def split: if_splits option.splits js_val.splits)

lemma markup_takeWhile: "(\<And>c. P c \<Longrightarrow> \<not> is_markup c) \<Longrightarrow> markup t = markup (dropWhile P t)"
  by (induction t) auto

lemma markup_prefix: "starts_with t p \<Longrightarrow> markup p = [] \<Longrightarrow> length p = n \<Longrightarrow> markup t = markup (drop n t)"
  by (metis append_Nil append_take_drop_id filter_append starts_with_def)

lemma plain_classes:
  "is_space c \<Longrightarrow> \<not> is_markup c" "is_word_char c \<or> c = CHR ''.'' \<Longrightarrow> \<not> is_markup c" "is_digit c \<Longrightarrow> \<not> is_markup c"
  by (auto simp: is_markup_def is_space_def is_word_char_def is_lower_def is_upper_def is_digit_def code_def)

lemma markup_fixed_part: "markup (snd (fixed_part r)) = markup r"
proof (cases "starts_with r '':fixed'' \<and> takeWhile is_digit (drop 6 r) \<noteq> []")
  case True
  then have "markup r = markup (drop 6 r)" using markup_prefix [of r "'':fixed''" 6] by (simp add: is_markup_def)
  then show ?thesis using True markup_takeWhile [of is_digit "drop 6 r"] plain_classes(3) by (simp add: fixed_part_def)
qed (auto simp: fixed_part_def)

lemma markup_hole: "hole_at t = Some (name, dec, r) \<Longrightarrow> markup r = markup t"
proof -
  assume a: "hole_at t = Some (name, dec, r)"
  define u where "u = dropWhile is_space (drop 2 t)"
  define v where "v = dropWhile (\<lambda>c. is_word_char c \<or> c = CHR ''.'') u"
  define e where "e = dropWhile is_space (snd (fixed_part v))"
  have s: "starts_with t ''{{''" "starts_with e ''}}''" and r: "r = drop 2 e"
    using a by (auto simp: hole_at_def u_def v_def e_def Let_def split: if_splits prod.splits)
  have "markup t = markup (drop 2 t)" using markup_prefix [OF s(1), of 2] by (simp add: is_markup_def)
  also have "\<dots> = markup u" unfolding u_def by (rule markup_takeWhile) (rule plain_classes(1))
  also have "\<dots> = markup v" unfolding v_def by (rule markup_takeWhile) (rule plain_classes(2))
  also have "\<dots> = markup (snd (fixed_part v))" by (simp add: markup_fixed_part)
  also have "\<dots> = markup e" unfolding e_def by (rule markup_takeWhile) (rule plain_classes(1))
  also have "\<dots> = markup r" using markup_prefix [OF s(2), of 2] by (simp add: is_markup_def r)
  finally show ?thesis ..
qed

lemma markup_render:
  "(\<And>name dec w. fill name dec = Some w \<Longrightarrow> markup w = []) \<Longrightarrow> render_from fill t = Some out \<Longrightarrow> markup out = markup t"
proof (induction fill t arbitrary: out rule: render_from.induct)
  case (1 fill t)
  show ?case
  proof (cases "hole_at t")
    case None
    with 1(4) have "(case t of [] \<Rightarrow> Some [] | c # r \<Rightarrow> map_option ((#) c) (render_from fill r)) = Some out"
      by (subst (asm) render_from.simps) simp
    then show ?thesis using 1(1) [OF None _ 1(3)] by (cases t) auto
  next
    case (Some q)
    obtain name dec r where q: "q = (name, dec, r)" by (cases q)
    with Some 1(4) obtain w o' where w: "fill name dec = Some w" "render_from fill r = Some o'" "out = w @ o'"
      by (auto simp: render_from.simps [of fill t] split: option.splits)
    have "markup o' = markup r" using 1(2) [OF Some q [symmetric] refl w(1) _ w(2)] 1(3) by blast
    then show ?thesis using w(3) 1(3) [OF w(1)] markup_hole [OF Some [unfolded q]] by simp
  qed
qed

end
