(* ===== verification/Symbol_Library.thy ===== *)
theory Symbol_Library
  imports Custom_Symbols
begin

text \<open>
  The symbols an item may show (src/frontend-ob/src/components/Designer): the OpenBridge automation and catalogue
  libraries with their default properties, the registry that loads a category on first use
  (lazyCategoryRegistry.ts) and the lookup of a definition (symbolLibraryService.ts).

  A definition leaves out the glyph of its icon.  A dynamic import settles once: it is under way, has failed or has
  loaded, and a promise that hangs on a loaded module settles in the same turn.
\<close>

section \<open>Definitions of symbols\<close>

record symbol_def =
  sy_type :: string
  sy_label :: string
  sy_category :: string
  sy_size :: extent
  sy_slots :: "string list"
  sy_alarmLimits :: "bool option"
  sy_description :: "string option"
  sy_isOpenBridge :: "bool option"

record symbol_category =
  sc_id :: string
  sc_name :: string
  sc_symbols :: "symbol_def list"

definition auto_sym :: "string \<Rightarrow> string \<Rightarrow> string \<Rightarrow> rat \<Rightarrow> rat \<Rightarrow> string list \<Rightarrow> bool \<Rightarrow> string option \<Rightarrow> symbol_def" where
  "auto_sym t l c w h slots hasLim d =
     \<lparr>sy_type = t, sy_label = l, sy_category = c, sy_size = \<lparr>wd = w, ht = h\<rparr>, sy_slots = slots,
      sy_alarmLimits = (if hasLim then Some True else None), sy_description = d, sy_isOpenBridge = Some True\<rparr>"

definition device :: "string \<Rightarrow> string \<Rightarrow> string list \<Rightarrow> rat \<Rightarrow> rat \<Rightarrow> symbol_def" where
  "device i l slots w h =
     auto_sym (''obc.auto.'' @ i) l ''automation-devices'' w h slots False
       (Some (''OpenBridge '' @ l @ '' (ISA automation symbol)''))"

definition catalog_sym ::
  "string \<Rightarrow> string \<Rightarrow> string \<Rightarrow> string \<Rightarrow> rat \<Rightarrow> rat \<Rightarrow> string list \<Rightarrow> bool option \<Rightarrow> symbol_def" where
  "catalog_sym p c i l w h slots hasLim =
     \<lparr>sy_type = ''obc.ob.'' @ p @ ''.'' @ i, sy_label = l, sy_category = c, sy_size = \<lparr>wd = w,
      ht = h\<rparr>, sy_slots = slots,
      sy_alarmLimits = hasLim, sy_description = Some (''OpenBridge '' @ l), sy_isOpenBridge = Some True\<rparr>"

section \<open>openBridgeAutomationLibrary.ts and openBridgeCatalogLibrary.ts\<close>

definition lib_automation_devices :: symbol_category where
  "lib_automation_devices = \<lparr>sc_id = ''automation-devices'', sc_name = ''Automation Devices'', sc_symbols =
    [device ''analog-valve'' ''Analog Valve'' [''status'', ''position''] 66 82,
     device ''automation-button'' ''Automation Button'' [''command'', ''status''] 66 82,
     device ''bipolar-transistor'' ''Bipolar Transistor'' [''status''] 66 66,
     device ''capacitor'' ''Capacitor'' [''status''] 66 66,
     device ''converter'' ''Converter'' [''status''] 66 66,
     device ''damper'' ''Damper'' [''status''] 66 66,
     device ''digital-valve'' ''Digital Valve'' [''status''] 66 82,
     device ''diodes'' ''Diodes'' [''status''] 66 66,
     device ''fan'' ''Fan'' [''status'', ''speed''] 66 82,
     device ''filter'' ''Filter'' [''status''] 66 66,
     device ''ground'' ''Ground'' [] 40 40,
     device ''logic'' ''Logic'' [''status''] 66 66,
     device ''mosfet'' ''Mosfet'' [''status''] 66 66,
     device ''motor'' ''Motor'' [''status'', ''speed''] 66 82,
     device ''pump'' ''Pump'' [''status'', ''speed''] 66 82,
     device ''resistor'' ''Resistor'' [''status''] 66 66,
     device ''router'' ''Router'' [''status''] 66 66,
     device ''source'' ''Source'' [''status''] 66 66,
     device ''switch'' ''Switch'' [''status''] 66 66,
     device ''transformer'' ''Transformer'' [''status''] 66 66]\<rparr>"

definition lib_automation_config :: symbol_category where
  "lib_automation_config = \<lparr>sc_id = ''automation-config'', sc_name = ''Automation Configurations'',
      sc_symbols =
    [auto_sym ''obc.auto.automation-badge'' ''Automation Badge'' ''automation-config'' 32 32 [] False (Some ''Auto / duty / command-locked badge overlay''),
     auto_sym ''obc.auto.automation-input-modal'' ''Input Modal'' ''automation-config'' 200 120 [''value''] False (Some ''Automation numeric input modal''),
     auto_sym ''obc.auto.readout-stack'' ''Readout Stack'' ''automation-config'' 120 80 [''value''] False (Some ''Automation button readout stack'')]\<rparr>"

definition lib_automation_control :: symbol_category where
  "lib_automation_control = \<lparr>sc_id = ''automation-control'', sc_name = ''Automation Control'', sc_symbols =
    [auto_sym ''obc.auto.control-compact'' ''Control (Compact)'' ''automation-control'' 66 66 [''command'',
      ''status''] False (Some ''Compact automation control button'')]\<rparr>"

definition lib_automation_readouts :: symbol_category where
  "lib_automation_readouts = \<lparr>sc_id = ''automation-readouts'', sc_name = ''Readouts'', sc_symbols =
    [auto_sym ''obc.auto.automation-readout'' ''Automation Readout'' ''automation-readouts'' 120 40 [''value''] False (Some ''OpenBridge automation readout with unit'')]\<rparr>"

definition lib_automation_tanks :: symbol_category where
  "lib_automation_tanks = \<lparr>sc_id = ''automation-tanks'', sc_name = ''Tanks'', sc_symbols =
    [auto_sym ''obc.auto.automation-tank'' ''Tank'' ''automation-tanks'' 168 173 [''level''] True (Some ''Vertical tank with level, trend, and tag''),
     auto_sym ''obc.auto.automation-tank-compact'' ''Tank (Compact)'' ''automation-tanks'' 120 100 [''level''] True (Some ''Compact tank variant'')]\<rparr>"

definition lib_automation_lines :: symbol_category where
  "lib_automation_lines = \<lparr>sc_id = ''automation-lines'', sc_name = ''Line'', sc_symbols =
    [auto_sym ''obc.auto.horizontal-line'' ''Horizontal Line'' ''automation-lines'' 120 12 [] False (Some ''Horizontal process line''),
     auto_sym ''obc.auto.vertical-line'' ''Vertical Line'' ''automation-lines'' 12 120 [] False (Some ''Vertical process line''),
     auto_sym ''obc.auto.corner-line'' ''Corner Line'' ''automation-lines'' 40 40 [] False (Some (''90'' @ [CHR 0xB0] @ '' corner connection'')),
     auto_sym ''obc.auto.three-way-line'' ''Three-Way Line'' ''automation-lines'' 40 40 [] False (Some ''T-junction line''),
     auto_sym ''obc.auto.direction-line'' ''Direction Line'' ''automation-lines'' 40 40 [] False (Some ''Flow direction indicator''),
     auto_sym ''obc.auto.end-point-line'' ''End Point Line'' ''automation-lines'' 24 24 [] False (Some ''Line end cap''),
     auto_sym ''obc.auto.line-cross'' ''Line Cross'' ''automation-lines'' 40 40 [] False (Some ''Crossing lines''),
     auto_sym ''obc.auto.line-overlap'' ''Line Overlap'' ''automation-lines'' 40 40 [] False (Some ''Overlapping line segment'')]\<rparr>"

definition lib_automation_icons :: symbol_category where
  "lib_automation_icons = \<lparr>sc_id = ''automation-icons'', sc_name = ''Icon'', sc_symbols =
    [auto_sym ''obc.auto.valve-three-way-icon'' ''Valve Analog Three Way'' ''automation-icons'' 80 80 [''position'', ''position2''] False (Some ''Three-way analog valve icon (open/closed/half-open states)''),
     auto_sym ''obc.auto.valve-two-way-icon'' ''Valve Analog Two Way'' ''automation-icons'' 80 80 [''position''] False (Some ''Two-way analog valve icon'')]\<rparr>"

definition lib_automation_sequence :: symbol_category where
  "lib_automation_sequence = \<lparr>sc_id = ''automation-sequence'', sc_name = ''Sequence'', sc_symbols =
    [auto_sym ''obc.auto.sequence-connector'' ''Sequence Connector'' ''automation-sequence'' 80 12 [] False (Some ''Step connector line''),
     auto_sym ''obc.auto.sequence-item'' ''Sequence Item'' ''automation-sequence'' 200 60 [] False (Some ''Sequence step with title and subtitle''),
     auto_sym ''obc.auto.sequence-step'' ''Sequence Step'' ''automation-sequence'' 40 40 [] False (Some ''Sequence step indicator''),
     auto_sym ''obc.auto.sequence-toolbar'' ''Sequence Toolbar'' ''automation-sequence'' 320 48 [] False (Some ''Sequence navigation toolbar''),
     auto_sym ''obc.auto.sequence-card'' ''Sequence Card'' ''automation-sequence'' 280 120 [] False (Some ''Timeline sequence card'')]\<rparr>"

definition lib_obc_ui :: symbol_category where
  "lib_obc_ui = \<lparr>sc_id = ''obc-ui'', sc_name = ''UI Components'', sc_symbols =
    [catalog_sym ''ui'' ''obc-ui'' ''button'' ''Button'' 120 44 [''command''] None,
     catalog_sym ''ui'' ''obc-ui'' ''icon-button'' ''Icon Button'' 44 44 [] None,
     catalog_sym ''ui'' ''obc-ui'' ''check-button'' ''Check Button'' 100 36 [''state''] None,
     catalog_sym ''ui'' ''obc-ui'' ''command-button'' ''Command Button'' 120 44 [''command''] None,
     catalog_sym ''ui'' ''obc-ui'' ''rich-button'' ''Rich Button'' 140 52 [] None,
     catalog_sym ''ui'' ''obc-ui'' ''toggle-switch'' ''Toggle Switch'' 60 32 [''state''] None,
     catalog_sym ''ui'' ''obc-ui'' ''start-stop-switch'' ''Start/Stop Switch'' 80 40 [''state''] None,
     catalog_sym ''ui'' ''obc-ui'' ''slider'' ''Slider'' 40 150 [''value''] None,
     catalog_sym ''ui'' ''obc-ui'' ''slider-double'' ''Double Slider'' 40 150 [''value'', ''setpoint''] None,
     catalog_sym ''ui'' ''obc-ui'' ''number-input'' ''Number Input'' 120 44 [''value''] None,
     catalog_sym ''ui'' ''obc-ui'' ''text-input'' ''Text Input'' 160 44 [''text''] None,
     catalog_sym ''ui'' ''obc-ui'' ''textarea'' ''Text Area'' 200 80 [''text''] None,
     catalog_sym ''ui'' ''obc-ui'' ''dropdown-button'' ''Dropdown'' 140 44 [] None,
     catalog_sym ''ui'' ''obc-ui'' ''split-button'' ''Split Button'' 140 44 [] None,
     catalog_sym ''ui'' ''obc-ui'' ''menu-button'' ''Menu Button'' 120 44 [] None,
     catalog_sym ''ui'' ''obc-ui'' ''card'' ''Card'' 240 160 [] None,
     catalog_sym ''ui'' ''obc-ui'' ''elevated-card'' ''Elevated Card'' 240 160 [] None,
     catalog_sym ''ui'' ''obc-ui'' ''tabbed-card'' ''Tabbed Card'' 280 200 [] None,
     catalog_sym ''ui'' ''obc-ui'' ''accordion-card'' ''Accordion Card'' 280 120 [] None,
     catalog_sym ''ui'' ''obc-ui'' ''divider'' ''Divider'' 200 2 [] None,
     catalog_sym ''ui'' ''obc-ui'' ''navigation-item'' ''Nav Item'' 160 44 [] None,
     catalog_sym ''ui'' ''obc-ui'' ''breadcrumb'' ''Breadcrumb'' 320 32 [] None,
     catalog_sym ''ui'' ''obc-ui'' ''table'' ''Table'' 400 200 [] None,
     catalog_sym ''ui'' ''obc-ui'' ''pagination'' ''Pagination'' 240 40 [] None,
     catalog_sym ''ui'' ''obc-ui'' ''modal-window'' ''Modal Window'' 360 240 [] None,
     catalog_sym ''ui'' ''obc-ui'' ''tooltip'' ''Tooltip'' 120 32 [] None,
     catalog_sym ''ui'' ''obc-ui'' ''alert-button'' ''Alert Button'' 100 44 [''alarms''] None,
     catalog_sym ''ui'' ''obc-ui'' ''form-container'' ''Form Container'' 280 200 [] None,
     catalog_sym ''ui'' ''obc-ui'' ''radio'' ''Radio'' 120 32 [''state''] None,
     catalog_sym ''ui'' ''obc-ui'' ''checkbox'' ''Checkbox'' 120 32 [''state''] None,
     catalog_sym ''ui'' ''obc-ui'' ''tag'' ''Tag'' 80 28 [''text''] None,
     catalog_sym ''ui'' ''obc-ui'' ''filter-chip'' ''Filter Chip'' 100 32 [] None,
     catalog_sym ''ui'' ''obc-ui'' ''progress-button'' ''Progress Button'' 120 44 [] None,
     catalog_sym ''ui'' ''obc-ui'' ''clock'' ''Clock'' 100 32 [] None,
     catalog_sym ''ui'' ''obc-ui'' ''badge'' ''Badge'' 80 28 [''text''] None,
     catalog_sym ''ui'' ''obc-ui'' ''notification-button'' ''Notification'' 44 44 [] None,
     catalog_sym ''ui'' ''obc-ui'' ''keyboard-numeric'' ''Numeric Keyboard'' 240 280 [] None,
     catalog_sym ''ui'' ''obc-ui'' ''stepper-box'' ''Stepper Box'' 200 48 [] None,
     catalog_sym ''ui'' ''obc-ui'' ''title-container'' ''Title Container'' 240 48 [] None,
     catalog_sym ''ui'' ''obc-ui'' ''event-list'' ''Event List'' 320 200 [] None,
     catalog_sym ''ui'' ''obc-ui'' ''advice-button'' ''Advice Button'' 120 44 [] None,
     catalog_sym ''ui'' ''obc-ui'' ''system-button'' ''System Button'' 120 44 [] None,
     catalog_sym ''ui'' ''obc-ui'' ''vendor-button'' ''Vendor Button'' 120 44 [] None]\<rparr>"

definition lib_obc_bars_graphs :: symbol_category where
  "lib_obc_bars_graphs = \<lparr>sc_id = ''obc-bars-graphs'', sc_name = ''Bars and Graphs'', sc_symbols =
    [catalog_sym ''graph'' ''obc-bars-graphs'' ''bar-vertical'' ''Bar Vertical'' 80 200 [''value''] (Some True),
     catalog_sym ''graph'' ''obc-bars-graphs'' ''bar-horizontal'' ''Bar Horizontal'' 200 80 [''value''] (Some True),
     catalog_sym ''graph'' ''obc-bars-graphs'' ''progress-bar'' ''Progress Bar'' 200 24 [''value''] None,
     catalog_sym ''graph'' ''obc-bars-graphs'' ''circular-progress'' ''Circular Progress'' 80 80 [''value''] None,
     catalog_sym ''graph'' ''obc-bars-graphs'' ''graph-mini'' ''Mini Graph'' 200 80 [''value''] None,
     catalog_sym ''graph'' ''obc-bars-graphs'' ''gauge-trend'' ''Gauge Trend'' 280 180 [''value''] (Some True)]\<rparr>"

definition lib_obc_instruments :: symbol_category where
  "lib_obc_instruments = \<lparr>sc_id = ''obc-instruments'', sc_name = ''Instruments'', sc_symbols =
    [catalog_sym ''inst'' ''obc-instruments'' ''gauge-radial'' ''Gauge Radial'' 160 160 [''value''] (Some True),
     catalog_sym ''inst'' ''obc-instruments'' ''gauge-vertical'' ''Gauge Vertical'' 80 200 [''value''] (Some True),
     catalog_sym ''inst'' ''obc-instruments'' ''gauge-horizontal'' ''Gauge Horizontal'' 200 80 [''value''] (Some True),
     catalog_sym ''inst'' ''obc-instruments'' ''instrument-radial'' ''Instrument Radial'' 160 160 [''value''] (Some True),
     catalog_sym ''inst'' ''obc-instruments'' ''thruster'' ''Thruster'' 80 200 [''value''] None,
     catalog_sym ''inst'' ''obc-instruments'' ''azimuth-thruster'' ''Azimuth Thruster'' 120 120 [''value''] None,
     catalog_sym ''inst'' ''obc-instruments'' ''main-engine'' ''Main Engine'' 80 200 [''value'', ''status''] None,
     catalog_sym ''inst'' ''obc-instruments'' ''compass'' ''Compass'' 160 160 [''value''] None,
     catalog_sym ''inst'' ''obc-instruments'' ''compass-flat'' ''Compass Flat'' 200 80 [''value''] None,
     catalog_sym ''inst'' ''obc-instruments'' ''compass-indicator'' ''Compass Indicator'' 120 120 [''value''] None,
     catalog_sym ''inst'' ''obc-instruments'' ''speed-gauge'' ''Speed Gauge'' 160 160 [''value''] None,
     catalog_sym ''inst'' ''obc-instruments'' ''speed-indicator'' ''Speed Indicator'' 120 48 [''value''] None,
     catalog_sym ''inst'' ''obc-instruments'' ''speed-arrows'' ''Speed Arrows'' 120 48 [''value''] None,
     catalog_sym ''inst'' ''obc-instruments'' ''rudder'' ''Rudder'' 120 80 [''value''] None,
     catalog_sym ''inst'' ''obc-instruments'' ''rot-indicator'' ''ROT Indicator'' 120 80 [''value''] None,
     catalog_sym ''inst'' ''obc-instruments'' ''heading'' ''Heading'' 120 48 [''value''] None,
     catalog_sym ''inst'' ''obc-instruments'' ''wind'' ''Wind'' 120 120 [''value''] None,
     catalog_sym ''inst'' ''obc-instruments'' ''wind-indicator'' ''Wind Indicator'' 80 80 [''value''] None,
     catalog_sym ''inst'' ''obc-instruments'' ''pitch'' ''Pitch'' 120 80 [''value''] None,
     catalog_sym ''inst'' ''obc-instruments'' ''roll'' ''Roll'' 120 80 [''value''] None,
     catalog_sym ''inst'' ''obc-instruments'' ''pitch-roll'' ''Pitch & Roll'' 160 120 [''value''] None,
     catalog_sym ''inst'' ''obc-instruments'' ''depth-actual'' ''Depth Actual'' 80 200 [''value''] None,
     catalog_sym ''inst'' ''obc-instruments'' ''heave'' ''Heave'' 80 120 [''value''] None,
     catalog_sym ''inst'' ''obc-instruments'' ''rate-of-turn'' ''Rate of Turn'' 120 80 [''value''] None,
     catalog_sym ''inst'' ''obc-instruments'' ''instrument-field'' ''Instrument Field'' 120 48 [''value''] None,
     catalog_sym ''inst'' ''obc-instruments'' ''bearing-indicator'' ''Bearing Indicator'' 120 48 [''value''] None,
     catalog_sym ''inst'' ''obc-instruments'' ''watch'' ''Watch'' 200 200 [''value''] None,
     catalog_sym ''inst'' ''obc-instruments'' ''watch-flat'' ''Watch Flat'' 280 120 [''value''] None,
     catalog_sym ''inst'' ''obc-instruments'' ''velocity-projection-plot'' ''Velocity Plot'' 200 200 [''value''] None]\<rparr>"

definition lib_obc_indicators :: symbol_category where
  "lib_obc_indicators = \<lparr>sc_id = ''obc-indicators'', sc_name = ''Indicators'', sc_symbols =
    [catalog_sym ''ind'' ''obc-indicators'' ''status-indicator'' ''Status Indicator'' 120 32 [''status''] None,
     catalog_sym ''ind'' ''obc-indicators'' ''battery-icon'' ''Battery Icon'' 48 24 [''value''] None,
     catalog_sym ''ind'' ''obc-indicators'' ''progress-dots'' ''Progress Dots'' 80 16 [] None,
     catalog_sym ''ind'' ''obc-indicators'' ''alert-icon'' ''Alert Icon'' 40 40 [''state''] None,
     catalog_sym ''ind'' ''obc-indicators'' ''alert-frame'' ''Alert Frame'' 120 80 [''state''] None,
     catalog_sym ''ind'' ''obc-indicators'' ''badge-command'' ''Badge Command'' 48 48 [] None]\<rparr>"

definition lib_obc_ar :: symbol_category where
  "lib_obc_ar = \<lparr>sc_id = ''obc-ar'', sc_name = ''AR'', sc_symbols =
    [catalog_sym ''ar'' ''obc-ar'' ''poi-vessel'' ''POI Vessel'' 48 48 [''asset''] None,
     catalog_sym ''ar'' ''obc-ar'' ''poi-aton'' ''POI ATON'' 48 48 [] None,
     catalog_sym ''ar'' ''obc-ar'' ''poi-data'' ''POI Data'' 48 48 [''value''] None,
     catalog_sym ''ar'' ''obc-ar'' ''poi-card'' ''POI Card'' 240 120 [] None,
     catalog_sym ''ar'' ''obc-ar'' ''poi-card-header'' ''POI Card Header'' 240 48 [] None,
     catalog_sym ''ar'' ''obc-ar'' ''poi-controller'' ''POI Controller'' 200 48 [] None,
     catalog_sym ''ar'' ''obc-ar'' ''poi-group'' ''POI Group'' 200 120 [] None,
     catalog_sym ''ar'' ''obc-ar'' ''poi-layer'' ''POI Layer'' 200 48 [] None,
     catalog_sym ''ar'' ''obc-ar'' ''poi-layer-stack'' ''POI Layer Stack'' 200 120 [] None,
     catalog_sym ''ar'' ''obc-ar'' ''poi-button-vessel'' ''POI Button Vessel'' 48 48 [] None,
     catalog_sym ''ar'' ''obc-ar'' ''poi-button-aton'' ''POI Button ATON'' 48 48 [] None,
     catalog_sym ''ar'' ''obc-ar'' ''poi-button-data'' ''POI Button Data'' 48 48 [] None,
     catalog_sym ''ar'' ''obc-ar'' ''poi-object-vessel'' ''POI Object Vessel'' 48 48 [] None,
     catalog_sym ''ar'' ''obc-ar'' ''poi-object-aton'' ''POI Object ATON'' 48 48 [] None,
     catalog_sym ''ar'' ''obc-ar'' ''poi-object-data'' ''POI Object Data'' 48 48 [] None,
     catalog_sym ''ar'' ''obc-ar'' ''chart-object-vessel-button'' ''Chart Vessel Button'' 48 48 [] None]\<rparr>"

definition lib_obc_building_blocks :: symbol_category where
  "lib_obc_building_blocks = \<lparr>sc_id = ''obc-building-blocks'', sc_name = ''Building Blocks'', sc_symbols =
    [catalog_sym ''bb'' ''obc-building-blocks'' ''alert-list'' ''Alert List'' 320 240 [''source''] None,
     catalog_sym ''bb'' ''obc-building-blocks'' ''bar-vertical'' ''Bar Vertical (BB)'' 80 200 [''value''] (Some True),
     catalog_sym ''bb'' ''obc-building-blocks'' ''bar-horizontal'' ''Bar Horizontal (BB)'' 200 80 [''value''] (Some True),
     catalog_sym ''bb'' ''obc-building-blocks'' ''circular-progress'' ''Circular Progress (BB)'' 80 80 [''value''] None,
     catalog_sym ''bb'' ''obc-building-blocks'' ''instrument-radial'' ''Instrument Radial (BB)'' 160 160 [''value''] (Some True)]\<rparr>"

definition OPENBRIDGE_AUTOMATION_LIBRARY :: "symbol_category list" where
  "OPENBRIDGE_AUTOMATION_LIBRARY =
     [lib_automation_devices, lib_automation_config, lib_automation_control, lib_automation_readouts,
      lib_automation_tanks, lib_automation_lines, lib_automation_icons, lib_automation_sequence]"

definition OPENBRIDGE_CATALOG_LIBRARY :: "symbol_category list" where
  "OPENBRIDGE_CATALOG_LIBRARY =
     [lib_obc_ui, lib_obc_bars_graphs, lib_obc_instruments, lib_obc_indicators, lib_obc_ar, lib_obc_building_blocks]"

section \<open>automationTypes.ts and obcCatalogTypes.ts\<close>

definition isAutomationType :: "string \<Rightarrow> bool" where
  "isAutomationType t = starts_with t ''obc.auto.''"

definition isObcCatalogType :: "string \<Rightarrow> bool" where
  "isObcCatalogType t = starts_with t ''obc.ob.''"

definition DEFAULT_AUTOMATION_PROPS :: "(string \<times> js_record) list" where
  "DEFAULT_AUTOMATION_PROPS =
   [(''obc.auto.analog-valve'', [(''open'', VBool False), (''value'', VNum 50), (''vertical'', VBool False),
      (''variant'', VStr ''regular'')]),
    (''obc.auto.digital-valve'', [(''open'', VBool False), (''vertical'', VBool False), (''variant'',
      VStr ''regular'')]),
    (''obc.auto.pump'', [(''on'', VBool False), (''vertical'', VBool False), (''speedInPercent'', VNum 100),
      (''showReadoutStack'', VBool True)]),
    (''obc.auto.motor'', [(''on'', VBool False), (''speedInPercent'', VNum 100), (''showReadoutStack'',
      VBool True), (''variant'', VStr ''regular'')]),
    (''obc.auto.fan'', [(''on'', VBool False), (''speedInPercent'', VNum 100), (''showReadoutStack'', VBool True)]),
    (''obc.auto.damper'', [(''on'', VBool False), (''variant'', VStr ''square'')]),
    (''obc.auto.automation-button'', [(''state'', VStr ''closed''), (''showReadoutStack'', VBool True),
      (''variant'', VStr ''regular'')]),
    (''obc.auto.automation-readout'', [(''value'', VNum 0), (''numberOfDigits'', VNum 3), (''readoutPosition'',
      VStr ''right''), (''lineType'', VStr ''fluid'')]),
    (''obc.auto.automation-tank'', [(''value'', VNum 65), (''max'', VNum 100), (''medium'', VStr ''water''),
      (''trend'', VStr ''stable''), (''tankVariant'', VStr ''vertical''), (''tag'', VStr ''TK-101'')]),
    (''obc.auto.horizontal-line'', [(''medium'', VStr ''water''), (''lineType'', VStr ''fluid''), (''length'',
      VNum 100)]),
    (''obc.auto.vertical-line'', [(''medium'', VStr ''water''), (''lineType'', VStr ''fluid''), (''length'',
      VNum 100)]),
    (''obc.auto.corner-line'', [(''medium'', VStr ''water''), (''lineType'', VStr ''fluid''), (''direction'',
      VStr ''top-right'')]),
    (''obc.auto.three-way-line'', [(''medium'', VStr ''water''), (''lineType'', VStr ''fluid''), (''direction'',
      VStr ''top'')]),
    (''obc.auto.direction-line'', [(''medium'', VStr ''water''), (''lineType'', VStr ''fluid'')]),
    (''obc.auto.end-point-line'', [(''medium'', VStr ''water''), (''lineType'', VStr ''fluid'')]),
    (''obc.auto.line-cross'', [(''medium'', VStr ''water''), (''lineType'', VStr ''fluid'')]),
    (''obc.auto.line-overlap'', [(''medium'', VStr ''water''), (''lineType'', VStr ''fluid'')]),
    (''obc.auto.valve-three-way-icon'', [(''value'', VNum 50), (''value2'', VNum 50), (''closed'', VBool False),
      (''horizontal'', VBool False)]),
    (''obc.auto.valve-two-way-icon'', [(''value'', VNum 50), (''closed'', VBool False), (''vertical'', VBool False)]),
    (''obc.auto.sequence-step'', [(''sequenceType'', VStr ''medium''), (''sequenceValue'', VStr ''regular''),
      (''sequenceOrientation'', VStr ''horizontal''), (''sequenceStyle'', VStr ''regular''), (''stepLabel'',
      VStr ''1'')]),
    (''obc.auto.sequence-connector'', [(''sequenceType'', VStr ''medium''), (''connectorState'',
      VStr ''completed''), (''sequenceOrientation'', VStr ''horizontal''), (''loadingBarPercent'', VNum 50)]),
    (''obc.auto.sequence-item'', [(''title'', VStr ''Step''), (''subtitle'', VStr ''Description''),
      (''sequenceValue'', VStr ''active''), (''stepLabel'', VStr ''1'')]),
    (''obc.auto.sequence-toolbar'', [(''toolbarType'', VStr ''sequential''), (''hasAdd'', VBool False)]),
    (''obc.auto.sequence-card'', [(''cardTitle'', VStr ''Event''), (''subtitle'', VStr ''Details''),
      (''sequenceValue'', VStr ''active'')]),
    (''obc.auto.automation-badge'', [(''badgeMode'', VStr ''regular''), (''badgeType'', VStr ''auto'')])]"

definition DEFAULT_OBC_PROPS :: "(string \<times> js_record) list" where
  "DEFAULT_OBC_PROPS =
   [(''obc.ob.graph.bar-vertical'', [(''value'', VNum 65), (''minValue'', VNum 0), (''maxValue'', VNum 100),
      (''hasScale'', VBool True), (''showLabels'', VBool True)]),
    (''obc.ob.graph.bar-horizontal'', [(''value'', VNum 65), (''minValue'', VNum 0), (''maxValue'', VNum 100),
      (''hasScale'', VBool True), (''showLabels'', VBool True)]),
    (''obc.ob.graph.progress-bar'', [(''value'', VNum 60)]),
    (''obc.ob.graph.circular-progress'', [(''value'', VNum 65), (''progressMode'', VStr ''determinate'')]),
    (''obc.ob.graph.graph-mini'', [(''value'', VNum 50), (''minValue'', VNum 0), (''maxValue'', VNum 100)]),
    (''obc.ob.graph.gauge-trend'', [(''value'', VNum 50), (''minValue'', VNum 0), (''maxValue'', VNum 100)]),
    (''obc.ob.inst.gauge-radial'', [(''value'', VNum 65), (''minValue'', VNum 0), (''maxValue'', VNum 100),
      (''gaugeType'', VStr ''needle'')]),
    (''obc.ob.inst.gauge-vertical'', [(''value'', VNum 65), (''minValue'', VNum 0), (''maxValue'', VNum 100)]),
    (''obc.ob.inst.gauge-horizontal'', [(''value'', VNum 65), (''minValue'', VNum 0), (''maxValue'', VNum 100)]),
    (''obc.ob.inst.instrument-radial'', [(''value'', VNum 65), (''minValue'', VNum 0), (''maxValue'', VNum 100),
      (''gaugeType'', VStr ''needle'')]),
    (''obc.ob.inst.thruster'', [(''value'', VNum 50), (''minValue'', VNum (- 100)), (''maxValue'', VNum 100)]),
    (''obc.ob.inst.main-engine'', [(''value'', VNum 75), (''minValue'', VNum 0), (''maxValue'', VNum 100)]),
    (''obc.ob.inst.compass'', [(''value'', VNum 180)]),
    (''obc.ob.inst.speed-gauge'', [(''value'', VNum 12), (''minValue'', VNum 0), (''maxValue'', VNum 25)]),
    (''obc.ob.inst.rudder'', [(''value'', VNum 0), (''minValue'', VNum (- 35)), (''maxValue'', VNum 35)]),
    (''obc.ob.inst.heading'', [(''value'', VNum 270)]),
    (''obc.ob.inst.depth-actual'', [(''value'', VNum 42), (''minValue'', VNum 0), (''maxValue'', VNum 100)]),
    (''obc.ob.ind.status-indicator'', [(''status'', VStr ''active'')]),
    (''obc.ob.ind.battery-icon'', [(''level'', VNum 75), (''charging'', VBool False)]),
    (''obc.ob.ind.alert-icon'', [(''alertType'', VStr ''caution'')]),
    (''obc.ob.ind.progress-dots'', [(''value'', VNum 2)]),
    (''obc.ob.ui.toggle-switch'', [(''checked'', VBool False)]),
    (''obc.ob.ui.slider'', [(''value'', VNum 50), (''minValue'', VNum 0), (''maxValue'', VNum 100)]),
    (''obc.ob.ui.number-input'', [(''value'', VNum 0)]),
    (''obc.ob.bb.alert-list'', []),
    (''obc.ob.bb.circular-progress'', [(''value'', VNum 65), (''progressMode'', VStr ''determinate'')])]"

definition getDefaultAutomationProps :: "string \<Rightarrow> js_record" where
  "getDefaultAutomationProps t = nullish (map_of DEFAULT_AUTOMATION_PROPS t) [(''on'', VBool False)]"

definition getDefaultObcProps :: "string \<Rightarrow> js_record" where
  "getDefaultObcProps t = nullish (map_of DEFAULT_OBC_PROPS t) [(''value'', VNum 0)]"

section \<open>lazyCategoryRegistry.ts\<close>

definition AUTOMATION_TYPES :: "(string \<times> string) list" where
  "AUTOMATION_TYPES =
   [(''obc.auto.analog-valve'', ''automation-devices''),
    (''obc.auto.automation-button'', ''automation-devices''),
    (''obc.auto.bipolar-transistor'', ''automation-devices''),
    (''obc.auto.capacitor'', ''automation-devices''),
    (''obc.auto.converter'', ''automation-devices''),
    (''obc.auto.damper'', ''automation-devices''),
    (''obc.auto.digital-valve'', ''automation-devices''),
    (''obc.auto.diodes'', ''automation-devices''),
    (''obc.auto.fan'', ''automation-devices''),
    (''obc.auto.filter'', ''automation-devices''),
    (''obc.auto.ground'', ''automation-devices''),
    (''obc.auto.logic'', ''automation-devices''),
    (''obc.auto.mosfet'', ''automation-devices''),
    (''obc.auto.motor'', ''automation-devices''),
    (''obc.auto.pump'', ''automation-devices''),
    (''obc.auto.resistor'', ''automation-devices''),
    (''obc.auto.router'', ''automation-devices''),
    (''obc.auto.source'', ''automation-devices''),
    (''obc.auto.switch'', ''automation-devices''),
    (''obc.auto.transformer'', ''automation-devices''),
    (''obc.auto.automation-badge'', ''automation-config''),
    (''obc.auto.automation-input-modal'', ''automation-config''),
    (''obc.auto.readout-stack'', ''automation-config''),
    (''obc.auto.control-compact'', ''automation-control''),
    (''obc.auto.automation-readout'', ''automation-readouts''),
    (''obc.auto.automation-tank'', ''automation-tanks''),
    (''obc.auto.automation-tank-compact'', ''automation-tanks''),
    (''obc.auto.horizontal-line'', ''automation-lines''),
    (''obc.auto.vertical-line'', ''automation-lines''),
    (''obc.auto.corner-line'', ''automation-lines''),
    (''obc.auto.three-way-line'', ''automation-lines''),
    (''obc.auto.direction-line'', ''automation-lines''),
    (''obc.auto.end-point-line'', ''automation-lines''),
    (''obc.auto.line-cross'', ''automation-lines''),
    (''obc.auto.line-overlap'', ''automation-lines''),
    (''obc.auto.valve-three-way-icon'', ''automation-icons''),
    (''obc.auto.valve-two-way-icon'', ''automation-icons''),
    (''obc.auto.sequence-connector'', ''automation-sequence''),
    (''obc.auto.sequence-item'', ''automation-sequence''),
    (''obc.auto.sequence-step'', ''automation-sequence''),
    (''obc.auto.sequence-toolbar'', ''automation-sequence''),
    (''obc.auto.sequence-card'', ''automation-sequence'')]"

definition registerCatalogTypes :: "string \<times> string \<times> string list \<Rightarrow> (string \<times> string) list" where
  "registerCatalogTypes r = map (\<lambda>i. (''obc.ob.'' @ fst r @ ''.'' @ i, fst (snd r))) (snd (snd r))"

definition CATALOG_TYPES :: "(string \<times> string \<times> string list) list" where
  "CATALOG_TYPES =
   [(''ui'', ''obc-ui'', [''button'', ''icon-button'', ''check-button'', ''command-button'', ''rich-button'',
      ''toggle-switch'', ''start-stop-switch'', ''slider'', ''slider-double'', ''number-input'', ''text-input'',
      ''textarea'', ''dropdown-button'', ''split-button'', ''menu-button'', ''card'', ''elevated-card'',
      ''tabbed-card'', ''accordion-card'', ''divider'', ''navigation-item'', ''breadcrumb'', ''table'',
      ''pagination'', ''modal-window'', ''tooltip'', ''alert-button'', ''form-container'', ''radio'', ''checkbox'',
      ''tag'', ''filter-chip'', ''progress-button'', ''clock'', ''badge'', ''notification-button'',
      ''keyboard-numeric'', ''stepper-box'', ''title-container'', ''event-list'', ''advice-button'',
      ''system-button'', ''vendor-button'']),
    (''graph'', ''obc-bars-graphs'', [''bar-vertical'', ''bar-horizontal'', ''progress-bar'',
      ''circular-progress'', ''graph-mini'', ''gauge-trend'']),
    (''inst'', ''obc-instruments'', [''gauge-radial'', ''gauge-vertical'', ''gauge-horizontal'',
      ''instrument-radial'', ''thruster'', ''azimuth-thruster'', ''main-engine'', ''compass'', ''compass-flat'',
      ''compass-indicator'', ''speed-gauge'', ''speed-indicator'', ''speed-arrows'', ''rudder'', ''rot-indicator'',
      ''heading'', ''wind'', ''wind-indicator'', ''pitch'', ''roll'', ''pitch-roll'', ''depth-actual'', ''heave'',
      ''rate-of-turn'', ''instrument-field'', ''bearing-indicator'', ''watch'', ''watch-flat'',
      ''velocity-projection-plot'']),
    (''ind'', ''obc-indicators'', [''status-indicator'', ''battery-icon'', ''progress-dots'', ''alert-icon'',
      ''alert-frame'', ''badge-command'']),
    (''ar'', ''obc-ar'', [''poi-vessel'', ''poi-aton'', ''poi-data'', ''poi-card'', ''poi-card-header'',
      ''poi-controller'', ''poi-group'', ''poi-layer'', ''poi-layer-stack'', ''poi-button-vessel'',
      ''poi-button-aton'', ''poi-button-data'', ''poi-object-vessel'', ''poi-object-aton'', ''poi-object-data'',
      ''chart-object-vessel-button'']),
    (''bb'', ''obc-building-blocks'', [''alert-list'', ''bar-vertical'', ''bar-horizontal'', ''circular-progress'',
      ''instrument-radial''])]"

definition TYPE_TO_CATEGORY :: "(string \<times> string) list" where
  "TYPE_TO_CATEGORY = AUTOMATION_TYPES @ concat (map registerCatalogTypes CATALOG_TYPES)"

datatype family = Automation | Catalog

definition CATEGORY_TO_RENDERER :: "(string \<times> family) list" where
  "CATEGORY_TO_RENDERER =
     [(''automation-devices'', Automation), (''automation-config'', Automation), (''automation-control'', Automation),
      (''automation-readouts'', Automation), (''automation-tanks'', Automation), (''automation-lines'', Automation),
      (''automation-icons'', Automation), (''automation-sequence'', Automation),
      (''obc-ui'', Catalog), (''obc-bars-graphs'', Catalog), (''obc-instruments'', Catalog),
      (''obc-indicators'', Catalog), (''obc-ar'', Catalog), (''obc-building-blocks'', Catalog)]"

definition resolveCategoryId :: "string \<Rightarrow> string option" where
  "resolveCategoryId t =
     (case map_of TYPE_TO_CATEGORY t of
        Some c \<Rightarrow> Some c
      | None \<Rightarrow> if starts_with t ''obc.auto.'' then Some ''automation-devices''
                else if starts_with t ''obc.ob.'' then Some ''obc-ui'' else None)"

definition resolveRendererGroup :: "string \<Rightarrow> family option" where
  "resolveRendererGroup t = (case resolveCategoryId t of Some c \<Rightarrow> map_of CATEGORY_TO_RENDERER c | None \<Rightarrow> None)"

definition isLazyObcType :: "string \<Rightarrow> bool" where
  "isLazyObcType t \<longleftrightarrow> starts_with t ''obc.auto.'' \<or> starts_with t ''obc.ob.''"

text \<open>The loaders: the family of a category, and its place in the library of the family.\<close>

definition AUTOMATION_CATEGORY_INDEX :: "(string \<times> nat) list" where
  "AUTOMATION_CATEGORY_INDEX =
     [(''automation-devices'', 0), (''automation-config'', 1), (''automation-control'', 2),
      (''automation-readouts'', 3),
      (''automation-tanks'', 4), (''automation-lines'', 5), (''automation-icons'', 6), (''automation-sequence'', 7)]"

definition CATALOG_CATEGORY_INDEX :: "(string \<times> nat) list" where
  "CATALOG_CATEGORY_INDEX =
     [(''obc-ui'', 0), (''obc-bars-graphs'', 1), (''obc-instruments'', 2), (''obc-indicators'', 3), (''obc-ar'', 4),
      (''obc-building-blocks'', 5)]"

definition library_entry :: "string \<Rightarrow> (family \<times> symbol_category) option" where
  "library_entry c =
     (case map_of AUTOMATION_CATEGORY_INDEX c of
        Some i \<Rightarrow> Some (Automation, OPENBRIDGE_AUTOMATION_LIBRARY ! i)
      | None \<Rightarrow> map_option (\<lambda>i. (Catalog,
      OPENBRIDGE_CATALOG_LIBRARY ! i)) (map_of CATALOG_CATEGORY_INDEX c))"

datatype chunk = NotAsked | Asked | Loaded | Failed

text \<open>The module promises, the category promises,
      the cache and the promises of the two renderer modules.\<close>

record lib_state =
  lb_auto :: chunk
  lb_catalog :: chunk
  lb_promises :: "string list"
  lb_cache :: "(string \<times> symbol_category) list"
  lb_renderers :: "(family \<times> chunk) list"

definition lib_start :: lib_state where
  "lib_start = \<lparr>lb_auto = NotAsked, lb_catalog = NotAsked, lb_promises = [], lb_cache = [],
      lb_renderers = []\<rparr>"

fun chunk_of :: "family \<Rightarrow> lib_state \<Rightarrow> chunk" where
  "chunk_of Automation st = lb_auto st"
| "chunk_of Catalog st = lb_catalog st"

fun set_chunk :: "family \<Rightarrow> chunk \<Rightarrow> lib_state \<Rightarrow> lib_state" where
  "set_chunk Automation c st = st\<lparr>lb_auto := c\<rparr>"
| "set_chunk Catalog c st = st\<lparr>lb_catalog := c\<rparr>"

text \<open>The continuations of the category promises that hang on a module: each puts its category into the cache.\<close>

definition settle_category :: "family \<Rightarrow> string \<Rightarrow> (string \<times> symbol_category) list \<Rightarrow> (string \<times> symbol_category) list" where
  "settle_category f c cache =
     (case library_entry c of
        Some (g, lib) \<Rightarrow> if g = f \<and> map_of cache c = None then AList.update c lib cache else cache
      | None \<Rightarrow> cache)"

definition settle_family :: "family \<Rightarrow> lib_state \<Rightarrow> lib_state" where
  "settle_family f st =
     (if chunk_of f st = Loaded then st\<lparr>lb_cache := fold (settle_category f) (lb_promises st) (lb_cache st)\<rparr> else st)"

text \<open>A category and its module are asked for once; the promise is kept, whatever becomes of it.\<close>

definition loadCategoryLibrary :: "string \<Rightarrow> lib_state \<Rightarrow> lib_state" where
  "loadCategoryLibrary c st =
     (if map_of (lb_cache st) c \<noteq> None \<or> set_mem (lb_promises st) c then st
      else case library_entry c of
        None \<Rightarrow> st
      | Some (f, _) \<Rightarrow>
          let st1 = (if chunk_of f st = NotAsked then set_chunk f Asked st else st) in
          settle_family f (st1\<lparr>lb_promises := lb_promises st1 @ [c]\<rparr>))"

definition module_settles :: "family \<Rightarrow> bool \<Rightarrow> lib_state \<Rightarrow> lib_state" where
  "module_settles f ok st =
     (if chunk_of f st = Asked then settle_family f (set_chunk f (if ok then Loaded else Failed) st) else st)"

definition load_renderer :: "family \<Rightarrow> lib_state \<Rightarrow> lib_state" where
  "load_renderer f st =
     (if map_of (lb_renderers st) f = None then st\<lparr>lb_renderers := AList.update f Asked (lb_renderers st)\<rparr> else st)"

definition loadRendererForType :: "string \<Rightarrow> lib_state \<Rightarrow> lib_state" where
  "loadRendererForType t st = (case resolveRendererGroup t of Some f \<Rightarrow> load_renderer f st | None \<Rightarrow> st)"

fun family_sample :: "family \<Rightarrow> string" where
  "family_sample Automation = ''obc.auto.pump''"
| "family_sample Catalog = ''obc.ob.ui.button''"

definition preloadCategory :: "string \<Rightarrow> lib_state \<Rightarrow> lib_state" where
  "preloadCategory c st =
     loadRendererForType (case map_of CATEGORY_TO_RENDERER c of Some Automation \<Rightarrow> ''obc.auto.pump'' | _ \<Rightarrow> ''obc.ob.ui.button'')
       (loadCategoryLibrary c st)"

definition preloadForSymbolTypes :: "string list \<Rightarrow> lib_state \<Rightarrow> lib_state" where
  "preloadForSymbolTypes ts st =
     (let cats = js_uniq (List.map_filter resolveCategoryId ts);
          groups = js_uniq (List.map_filter resolveRendererGroup ts) in
      fold (\<lambda>g. loadRendererForType (family_sample g)) groups (fold loadCategoryLibrary cats st))"

definition findCachedSymbol :: "string \<Rightarrow> lib_state \<Rightarrow> symbol_def option" where
  "findCachedSymbol t st =
     (case resolveCategoryId t of
        None \<Rightarrow> None
      | Some c \<Rightarrow> case map_of (lb_cache st) c of
                    Some lib \<Rightarrow> find (\<lambda>s. sy_type s = t) (sc_symbols lib)
                  | None \<Rightarrow> None)"

section \<open>symbolLibraryService.ts\<close>

definition custom_symbol :: "custom_def \<Rightarrow> symbol_def" where
  "custom_symbol d =
     \<lparr>sy_type = custom_prefix @ cd_id d, sy_label = cd_name d,
      sy_category = (if cd_category d = [] then ''custom'' else cd_category d),
      sy_size = nullish (cd_size d) \<lparr>wd = 120, ht = 80\<rparr>, sy_slots = map cs_name (cd_slots d),
      sy_alarmLimits = None,
      sy_description = Some ''Custom symbol'', sy_isOpenBridge = Some False\<rparr>"

text \<open>\<open>statics\<close>: the categories the palette registers.\<close>

definition findSymbolDefinition ::
  "symbol_category list \<Rightarrow> custom_state \<Rightarrow> lib_state \<Rightarrow> string \<Rightarrow> symbol_def option" where
  "findSymbolDefinition statics cu st t =
     (if starts_with t custom_prefix then map_option custom_symbol (fst (getCustomSymbol t cu))
      else orelse (findCachedSymbol t st) (find (\<lambda>s. sy_type s = t) (concat (map sc_symbols statics))))"

definition getDefaultSizeSync :: "(string \<Rightarrow> symbol_def option) \<Rightarrow> string \<Rightarrow> extent" where
  "getDefaultSizeSync find_def t = (case find_def t of Some d \<Rightarrow> sy_size d | None \<Rightarrow> \<lparr>wd = 100, ht = 60\<rparr>)"

end
