(* ===== verification/Symbol_Props.thy ===== *)
theory Symbol_Props
  imports Symbol_Library
begin

text \<open>Properties of the symbol libraries and of the custom symbols.\<close>

section \<open>The libraries agree with the registry\<close>

lemmas lib_tables = lib_automation_devices_def lib_automation_config_def lib_automation_control_def
  lib_automation_readouts_def lib_automation_tanks_def lib_automation_lines_def lib_automation_icons_def
  lib_automation_sequence_def lib_obc_ui_def lib_obc_bars_graphs_def lib_obc_instruments_def lib_obc_indicators_def
  lib_obc_ar_def lib_obc_building_blocks_def

definition typed_rows :: "symbol_category list \<Rightarrow> (string \<times> string) list" where
  "typed_rows libs = map (\<lambda>s. (sy_type s, sy_category s)) (concat (map sc_symbols libs))"

lemma typed_rows_append: "typed_rows (xs @ ys) = typed_rows xs @ typed_rows ys"
  by (simp add: typed_rows_def)

lemma typed_rows_Cons:
  "typed_rows [] = []" "typed_rows (c # cs) = map (\<lambda>s. (sy_type s, sy_category s)) (sc_symbols c) @ typed_rows cs"
  by (simp_all add: typed_rows_def)

lemma automation_rows: "typed_rows OPENBRIDGE_AUTOMATION_LIBRARY = AUTOMATION_TYPES"
  unfolding OPENBRIDGE_AUTOMATION_LIBRARY_def typed_rows_Cons
  by (simp add: lib_tables AUTOMATION_TYPES_def device_def auto_sym_def)

lemma catalog_rows: "typed_rows OPENBRIDGE_CATALOG_LIBRARY = concat (map registerCatalogTypes CATALOG_TYPES)"
  unfolding OPENBRIDGE_CATALOG_LIBRARY_def typed_rows_Cons
  by (simp add: lib_tables CATALOG_TYPES_def registerCatalogTypes_def catalog_sym_def)

lemma type_rows: "typed_rows (OPENBRIDGE_AUTOMATION_LIBRARY @ OPENBRIDGE_CATALOG_LIBRARY) = TYPE_TO_CATEGORY"
  by (simp add: typed_rows_append automation_rows catalog_rows TYPE_TO_CATEGORY_def)

lemma distinct_automation: "distinct (map fst AUTOMATION_TYPES)"
  by (simp add: AUTOMATION_TYPES_def)

text \<open>The prefix of a catalogue type is read off the type, so two groups share none.\<close>

definition group_of :: "string \<Rightarrow> string" where
  "group_of t = takeWhile (\<lambda>c. c \<noteq> CHR ''.'') (drop 7 t)"

lemma group_of_key: "CHR ''.'' \<notin> set (fst r) \<Longrightarrow> t \<in> fst ` set (registerCatalogTypes r) \<Longrightarrow> group_of t = fst r"
  by (auto simp: registerCatalogTypes_def group_of_def takeWhile_append)

lemma distinct_group: "distinct (snd (snd r)) \<Longrightarrow> distinct (map fst (registerCatalogTypes r))"
  by (simp add: registerCatalogTypes_def distinct_map comp_def inj_on_def)

lemma keys_disjoint:
  "list_all (\<lambda>x. P (fst x)) xs \<Longrightarrow> list_all (\<lambda>x. Q (fst x)) ys \<Longrightarrow> (\<And>t. P t \<Longrightarrow> \<not> Q t) \<Longrightarrow>
   set (map fst xs) \<inter> set (map fst ys) = {}"
proof -
  assume a: "list_all (\<lambda>x. P (fst x)) xs" "list_all (\<lambda>x. Q (fst x)) ys" "\<And>t. P t \<Longrightarrow> \<not> Q t"
  have "\<forall>t \<in> set (map fst xs). P t" "\<forall>t \<in> set (map fst ys). Q t" using a(1,2) by (simp_all add: list_all_iff)
  then show ?thesis using a(3) by blast
qed

lemma distinct_groups:
  assumes "distinct (map fst rs)" "list_all (\<lambda>r. CHR ''.'' \<notin> set (fst r) \<and> distinct (snd (snd r))) rs"
  shows "distinct (map fst (concat (map registerCatalogTypes rs)))"
  using assms
proof (induction rs)
  case (Cons r rs)
  have "list_all (\<lambda>x. group_of (fst x) = fst r) (registerCatalogTypes r)"
    using Cons.prems(2) group_of_key [of r] by (auto simp: list_all_iff)
  moreover have "list_all (\<lambda>x. group_of (fst x) \<noteq> fst r) (registerCatalogTypes q)" if "q \<in> set rs" for q
  proof -
    have "fst q \<in> fst ` set rs" using that by simp
    moreover have "fst r \<notin> fst ` set rs" using Cons.prems(1) by simp
    ultimately have "fst q \<noteq> fst r" by metis
    moreover have "CHR ''.'' \<notin> set (fst q)" using Cons.prems(2) that by (simp add: list_all_iff)
    ultimately have "fst q \<noteq> fst r" "CHR ''.'' \<notin> set (fst q)" by simp_all
    then show ?thesis using group_of_key [of q] by (force simp: list_all_iff)
  qed
  then have "list_all (\<lambda>x. group_of (fst x) \<noteq> fst r) (concat (map registerCatalogTypes rs))"
    by (simp add: list_all_iff)
  ultimately have "set (map fst (registerCatalogTypes r)) \<inter> set (map fst (concat (map registerCatalogTypes rs))) = {}"
    by (rule keys_disjoint) simp
  then show ?case using Cons distinct_group [of r] unfolding list.map concat.simps map_append distinct_append by simp
qed simp

lemma distinct_catalog: "distinct (map fst (concat (map registerCatalogTypes CATALOG_TYPES)))"
  by (rule distinct_groups) (simp_all add: CATALOG_TYPES_def)

lemma automation_prefix: "list_all (\<lambda>tc. isAutomationType (fst tc)) AUTOMATION_TYPES"
  by (simp add: AUTOMATION_TYPES_def isAutomationType_def starts_with_def)

lemma catalog_prefix: "list_all (\<lambda>tc. isObcCatalogType (fst tc)) (concat (map registerCatalogTypes CATALOG_TYPES))"
  by (auto simp: list_all_iff registerCatalogTypes_def isObcCatalogType_def starts_with_def)

lemma starts_with_split: "starts_with t p \<Longrightarrow> \<exists>r. t = p @ r"
  by (metis append_take_drop_id starts_with_def)

lemma prefixes_differ: "isAutomationType t \<Longrightarrow> \<not> isObcCatalogType t"
  by (auto simp: isAutomationType_def isObcCatalogType_def starts_with_def [of _ "''obc.ob.''"] dest!: starts_with_split)

lemma distinct_types: "distinct (map fst TYPE_TO_CATEGORY)"
proof -
  have "set (map fst AUTOMATION_TYPES) \<inter> set (map fst (concat (map registerCatalogTypes CATALOG_TYPES))) = {}"
    by (rule keys_disjoint [OF automation_prefix catalog_prefix]) (rule prefixes_differ)
  then show ?thesis using distinct_automation distinct_catalog
    unfolding TYPE_TO_CATEGORY_def map_append distinct_append by blast
qed

definition library_rows :: "(string \<times> family \<times> symbol_category) list" where
  "library_rows =
     map2 (\<lambda>(c, f) lib. (c, f, lib)) CATEGORY_TO_RENDERER (OPENBRIDGE_AUTOMATION_LIBRARY @ OPENBRIDGE_CATALOG_LIBRARY)"

lemmas row_defs = library_rows_def CATEGORY_TO_RENDERER_def OPENBRIDGE_AUTOMATION_LIBRARY_def
  OPENBRIDGE_CATALOG_LIBRARY_def

lemma index_rows:
  "list_all (\<lambda>(c, i). (c, Automation, OPENBRIDGE_AUTOMATION_LIBRARY ! i) \<in> set library_rows) AUTOMATION_CATEGORY_INDEX"
  "list_all (\<lambda>(c, i). (c, Catalog, OPENBRIDGE_CATALOG_LIBRARY ! i) \<in> set library_rows) CATALOG_CATEGORY_INDEX"
  by (simp_all add: AUTOMATION_CATEGORY_INDEX_def CATALOG_CATEGORY_INDEX_def row_defs)

lemma library_entry_row: "library_entry c = Some (f, lib) \<Longrightarrow> (c, f, lib) \<in> set library_rows"
  using index_rows by (auto simp: library_entry_def list_all_iff split: option.splits dest!: map_of_SomeD)

lemma rows_in_library:
  "(c, f, lib) \<in> set library_rows \<Longrightarrow> lib \<in> set (OPENBRIDGE_AUTOMATION_LIBRARY @ OPENBRIDGE_CATALOG_LIBRARY)"
  by (auto simp: library_rows_def dest: set_zip_rightD)

lemma row_families: "list_all (\<lambda>(c, f, lib). map_of CATEGORY_TO_RENDERER c = Some f) library_rows"
  by (simp add: row_defs)

lemma row_family: "(c, f, lib) \<in> set library_rows \<Longrightarrow> map_of CATEGORY_TO_RENDERER c = Some f"
  using row_families by (auto simp: list_all_iff)

lemma rows_named: "list_all (\<lambda>(c, f, lib). sc_id lib = c \<and> list_all (\<lambda>s. sy_category s = c) (sc_symbols lib)) library_rows"
  by (simp add: row_defs lib_tables device_def auto_sym_def catalog_sym_def)

lemma symbol_row: "lib \<in> set libs \<Longrightarrow> s \<in> set (sc_symbols lib) \<Longrightarrow> (sy_type s, sy_category s) \<in> set (typed_rows libs)"
  by (force simp: typed_rows_def)

lemma resolve_row: "(t, c) \<in> set TYPE_TO_CATEGORY \<Longrightarrow> resolveCategoryId t = Some c"
  using map_of_is_SomeI [OF distinct_types] by (simp add: resolveCategoryId_def)

lemma entry_symbol:
  assumes "library_entry c = Some (f, lib)" "s \<in> set (sc_symbols lib)"
  shows "sy_category s = c" "resolveCategoryId (sy_type s) = Some c"
proof -
  note r = library_entry_row [OF assms(1)]
  show c: "sy_category s = c" using rows_named r assms(2) by (fastforce simp: list_all_iff)
  have "(sy_type s, sy_category s) \<in> set TYPE_TO_CATEGORY"
    using symbol_row [OF rows_in_library [OF r] assms(2)] by (simp only: type_rows)
  then show "resolveCategoryId (sy_type s) = Some c" unfolding c by (rule resolve_row)
qed

lemma distinct_in_category:
  assumes "lib \<in> set libs" "distinct (map fst (typed_rows libs))"
  shows "distinct (map sy_type (sc_symbols lib))"
  using assms by (induction libs) (auto simp: typed_rows_Cons comp_def)

lemma entry_distinct:
  assumes "library_entry c = Some (f, lib)"
  shows "distinct (map sy_type (sc_symbols lib))"
  using distinct_in_category [OF rows_in_library [OF library_entry_row [OF assms]]] distinct_types by (simp add: type_rows)



lemma renderer_of_prefix:
  "resolveRendererGroup t =
     (if isAutomationType t then Some Automation else if isObcCatalogType t then Some Catalog else None)"
proof -
  have a: "list_all (\<lambda>tc. map_of CATEGORY_TO_RENDERER (snd tc) = Some Automation) AUTOMATION_TYPES"
    by (simp add: AUTOMATION_TYPES_def CATEGORY_TO_RENDERER_def)
  have "list_all (\<lambda>r. map_of CATEGORY_TO_RENDERER (fst (snd r)) = Some Catalog) CATALOG_TYPES"
    by (simp add: CATALOG_TYPES_def CATEGORY_TO_RENDERER_def)
  then have b: "list_all (\<lambda>tc. map_of CATEGORY_TO_RENDERER (snd tc) = Some Catalog)
      (concat (map registerCatalogTypes CATALOG_TYPES))"
    by (auto simp: list_all_iff registerCatalogTypes_def)
  have c: "map_of CATEGORY_TO_RENDERER ''automation-devices'' = Some Automation"
          "map_of CATEGORY_TO_RENDERER ''obc-ui'' = Some Catalog" by (simp_all add: CATEGORY_TO_RENDERER_def)
  show ?thesis
  proof (cases "map_of TYPE_TO_CATEGORY t")
    case None
    then show ?thesis
      by (simp add: resolveRendererGroup_def resolveCategoryId_def isAutomationType_def isObcCatalogType_def c)
  next
    case (Some q)
    then have "(t, q) \<in> set AUTOMATION_TYPES \<or> (t, q) \<in> set (concat (map registerCatalogTypes CATALOG_TYPES))"
      using map_of_SomeD [OF Some] unfolding TYPE_TO_CATEGORY_def set_append by blast
    then show ?thesis using Some a b automation_prefix catalog_prefix prefixes_differ [of t]
      by (fastforce simp: resolveRendererGroup_def resolveCategoryId_def list_all_iff)
  qed
qed

section \<open>Loading a category\<close>

datatype lib_event = AskCategory string | AskTypes "string list" | ModuleSettles family bool

fun lib_step :: "lib_event \<Rightarrow> lib_state \<Rightarrow> lib_state" where
  "lib_step (AskCategory c) st = preloadCategory c st"
| "lib_step (AskTypes ts) st = preloadForSymbolTypes ts st"
| "lib_step (ModuleSettles f ok) st = module_settles f ok st"

definition lib_run :: "lib_event list \<Rightarrow> lib_state \<Rightarrow> lib_state" where
  "lib_run evs st = fold lib_step evs st"

text \<open>The cache holds libraries of loaded modules only, and every category that was promised by a loaded module.\<close>

definition cache_sound :: "lib_state \<Rightarrow> bool" where
  "cache_sound st \<longleftrightarrow>
     (\<forall>c lib. map_of (lb_cache st) c = Some lib \<longrightarrow> (\<exists>f. library_entry c = Some (f, lib) \<and> chunk_of f st = Loaded))"

definition promises_kept :: "lib_state \<Rightarrow> bool" where
  "promises_kept st \<longleftrightarrow>
     (\<forall>c f lib. c \<in> set (lb_promises st) \<longrightarrow> library_entry c = Some (f, lib) \<longrightarrow> chunk_of f st = Loaded \<longrightarrow>
                map_of (lb_cache st) c = Some lib)"

lemma chunk_simps [simp]:
  "chunk_of f (st\<lparr>lb_promises := ps\<rparr>) = chunk_of f st" "chunk_of f (st\<lparr>lb_cache := cs\<rparr>) = chunk_of f st"
  "chunk_of f (st\<lparr>lb_renderers := rs\<rparr>) = chunk_of f st"
  "chunk_of g (set_chunk f ch st) = (if g = f then ch else chunk_of g st)"
  "lb_cache (set_chunk f ch st) = lb_cache st" "lb_promises (set_chunk f ch st) = lb_promises st"
  by (cases f; simp; cases g; simp)+

lemma map_of_settle:
  "map_of (settle_category f c cache) k =
     (if k = c \<and> map_of cache k = None \<and> (\<exists>lib. library_entry c = Some (f, lib))
      then map_option snd (library_entry c) else map_of cache k)"
  by (auto simp: settle_category_def map_of_update split: option.splits)

lemma map_of_settle_fold:
  "map_of (fold (settle_category f) cs cache) k =
     (if k \<in> set cs \<and> map_of cache k = None \<and> (\<exists>lib. library_entry k = Some (f, lib))
      then map_option snd (library_entry k) else map_of cache k)"
  by (induction cs arbitrary: cache) (auto simp: map_of_settle)

lemma settle_family_simps [simp]:
  "chunk_of g (settle_family f st) = chunk_of g st" "lb_promises (settle_family f st) = lb_promises st"
  by (simp_all add: settle_family_def)

lemma settle_family_cache:
  "map_of (lb_cache (settle_family f st)) k =
     (if chunk_of f st = Loaded \<and> k \<in> set (lb_promises st) \<and> map_of (lb_cache st) k = None \<and>
         (\<exists>lib. library_entry k = Some (f, lib))
      then map_option snd (library_entry k) else map_of (lb_cache st) k)"
  by (auto simp: settle_family_def map_of_settle_fold)

lemma cache_sound_mono:
  assumes "cache_sound st" "lb_cache st' = lb_cache st" "\<And>g. chunk_of g st = Loaded \<Longrightarrow> chunk_of g st' = Loaded"
  shows "cache_sound st'"
  using assms(1) assms(3) unfolding cache_sound_def assms(2) by meson

lemma settle_family_sound: "cache_sound st \<Longrightarrow> cache_sound (settle_family f st)"
  unfolding cache_sound_def settle_family_cache by (intro allI impI) (auto split: if_split_asm)

lemma settle_family_kept:
  assumes s: "cache_sound st" and o: "\<And>c g lib. c \<in> set (lb_promises st) \<Longrightarrow> library_entry c = Some (g, lib) \<Longrightarrow> g \<noteq> f \<Longrightarrow>
      chunk_of g st = Loaded \<Longrightarrow> map_of (lb_cache st) c = Some lib"
  shows "promises_kept (settle_family f st)"
  unfolding promises_kept_def settle_family_simps
proof (intro allI impI)
  fix c g lib
  assume a: "c \<in> set (lb_promises st)" "library_entry c = Some (g, lib)" "chunk_of g st = Loaded"
  show "map_of (lb_cache (settle_family f st)) c = Some lib"
  proof (cases "map_of (lb_cache st) c")
    case None
    then have "g = f" using o [OF a(1,2)] a(3) by auto
    then show ?thesis using None a by (simp add: settle_family_cache)
  next
    case (Some l)
    then have "library_entry c \<noteq> None \<and> snd (the (library_entry c)) = l" using s unfolding cache_sound_def by force
    then show ?thesis using Some a(2) by (simp add: settle_family_cache)
  qed
qed

lemma load_category_inv:
  assumes "cache_sound st" "promises_kept st"
  shows "cache_sound (loadCategoryLibrary c st) \<and> promises_kept (loadCategoryLibrary c st)"
proof (cases "map_of (lb_cache st) c \<noteq> None \<or> set_mem (lb_promises st) c \<or> library_entry c = None")
  case True
  with assms show ?thesis by (auto simp: loadCategoryLibrary_def split: option.splits)
next
  case False
  then obtain f lib where e: "library_entry c = Some (f, lib)" by auto
  define s1 where "s1 = (if chunk_of f st = NotAsked then set_chunk f Asked st else st)"
  define s2 where "s2 = s1\<lparr>lb_promises := lb_promises s1 @ [c]\<rparr>"
  have r: "loadCategoryLibrary c st = settle_family f s2"
    using False e by (simp add: loadCategoryLibrary_def s1_def s2_def Let_def)
  have s: "cache_sound s2" by (rule cache_sound_mono [OF assms(1)]) (auto simp: s1_def s2_def)
  have o: "map_of (lb_cache s2) k = Some l"
    if "k \<in> set (lb_promises s2)" "library_entry k = Some (g, l)" "g \<noteq> f" "chunk_of g s2 = Loaded" for k g l
    using that e assms(2) by (auto simp: promises_kept_def s1_def s2_def split: if_splits)
  show ?thesis unfolding r by (rule conjI [OF settle_family_sound [OF s] settle_family_kept [OF s o]])
qed

lemma module_settles_inv:
  assumes "cache_sound st" "promises_kept st"
  shows "cache_sound (module_settles f ok st) \<and> promises_kept (module_settles f ok st)"
proof (cases "chunk_of f st = Asked")
  case True
  define s1 where "s1 = set_chunk f (if ok then Loaded else Failed) st"
  have s: "cache_sound s1" by (rule cache_sound_mono [OF assms(1)]) (auto simp: s1_def True)
  have o: "map_of (lb_cache s1) k = Some l"
    if "k \<in> set (lb_promises s1)" "library_entry k = Some (g, l)" "g \<noteq> f" "chunk_of g s1 = Loaded" for k g l
    using that assms(2) by (auto simp: promises_kept_def s1_def)
  have r: "module_settles f ok st = settle_family f s1" using True by (simp add: module_settles_def s1_def)
  show ?thesis unfolding r by (rule conjI [OF settle_family_sound [OF s] settle_family_kept [OF s o]])
qed (use assms in \<open>simp add: module_settles_def\<close>)

lemma renderer_inv:
  "cache_sound (loadRendererForType t st) = cache_sound st" "promises_kept (loadRendererForType t st) = promises_kept st"
  by (simp_all add: loadRendererForType_def load_renderer_def cache_sound_def promises_kept_def split: option.split)

definition lib_inv :: "lib_state \<Rightarrow> bool" where
  "lib_inv st \<longleftrightarrow> cache_sound st \<and> promises_kept st"

lemma fold_inv: "(\<And>x st. P st \<Longrightarrow> P (f x st)) \<Longrightarrow> P st \<Longrightarrow> P (fold f xs st)"
  by (induction xs arbitrary: st) simp_all

lemma lib_inv_steps:
  "lib_inv st \<Longrightarrow> lib_inv (loadCategoryLibrary c st)" "lib_inv st \<Longrightarrow> lib_inv (loadRendererForType t st)"
  "lib_inv st \<Longrightarrow> lib_inv (module_settles f ok st)"
  unfolding lib_inv_def renderer_inv using load_category_inv module_settles_inv by blast+

lemma lib_step_inv: "lib_inv st \<Longrightarrow> lib_inv (lib_step e st)"
  by (cases e) (auto simp: preloadCategory_def preloadForSymbolTypes_def Let_def
      intro!: lib_inv_steps fold_inv [where P = lib_inv])

lemma lib_run_inv: "lib_inv st \<Longrightarrow> lib_inv (lib_run evs st)"
  unfolding lib_run_def by (rule fold_inv [where P = lib_inv]) (rule lib_step_inv)

lemma lib_start_inv: "lib_inv lib_start"
  by (simp add: lib_inv_def cache_sound_def promises_kept_def lib_start_def)

lemma find_distinct: "distinct (map f xs) \<Longrightarrow> s \<in> set xs \<Longrightarrow> find (\<lambda>x. f x = f s) xs = Some s"
  by (induction xs) auto

lemma library_not_custom:
  assumes "library_entry c = Some (f, lib)" "s \<in> set (sc_symbols lib)"
  shows "\<not> starts_with (sy_type s) custom_prefix"
proof -
  have "isAutomationType (sy_type s) \<or> isObcCatalogType (sy_type s)"
    using entry_symbol(2) [OF assms] row_family [OF library_entry_row [OF assms(1)]] renderer_of_prefix [of "sy_type s"]
    by (auto simp: resolveRendererGroup_def split: if_splits)
  then show ?thesis
    by (auto simp: isAutomationType_def isObcCatalogType_def custom_prefix_def starts_with_def [of _ "''custom:''"]
        dest!: starts_with_split)
qed

text \<open>
  A category that was asked for is found once its module is loaded: whatever was asked for and loaded before or
  since, the lookup of a symbol of the category's library gives that symbol.
\<close>

theorem asked_category_found:
  assumes "st = lib_run evs lib_start" "c \<in> set (lb_promises st)" "library_entry c = Some (f, lib)"
      and "chunk_of f st = Loaded" "s \<in> set (sc_symbols lib)"
  shows "findSymbolDefinition statics cu st (sy_type s) = Some s"
proof -
  have "promises_kept st" using lib_run_inv [OF lib_start_inv] by (simp add: assms(1) lib_inv_def)
  then have c: "map_of (lb_cache st) c = Some lib" using assms(2-4) unfolding promises_kept_def by blast
  have f: "find (\<lambda>x. sy_type x = sy_type s) (sc_symbols lib) = Some s"
    using entry_distinct [OF assms(3)] assms(5) by (rule find_distinct)
  show ?thesis
    using library_not_custom [OF assms(3,5)] entry_symbol(2) [OF assms(3,5)] c f
    by (simp add: findSymbolDefinition_def findCachedSymbol_def)
qed

theorem asked_category_found_witness:
  "sy_size (the (findSymbolDefinition [] \<lparr>cu_storage = None, cu_cache = None\<rparr>
     (lib_run [AskCategory ''obc-building-blocks'', ModuleSettles Catalog True] lib_start) ''obc.ob.bb.alert-list'')) =
   \<lparr>wd = 320, ht = 240\<rparr>"
proof -
  define st where "st = lib_run [AskCategory ''obc-building-blocks'', ModuleSettles Catalog True] lib_start"
  have e: "library_entry ''obc-building-blocks'' = Some (Catalog, lib_obc_building_blocks)"
    by (simp add: library_entry_def AUTOMATION_CATEGORY_INDEX_def CATALOG_CATEGORY_INDEX_def
        OPENBRIDGE_CATALOG_LIBRARY_def)
  have r: "resolveRendererGroup ''obc.ob.ui.button'' = Some Catalog"
    by (simp add: renderer_of_prefix isAutomationType_def isObcCatalogType_def starts_with_def)
  have p: "''obc-building-blocks'' \<in> set (lb_promises st)" "chunk_of Catalog st = Loaded"
    by (simp_all add: st_def lib_run_def lib_start_def preloadCategory_def loadCategoryLibrary_def e Let_def
        settle_family_def module_settles_def CATEGORY_TO_RENDERER_def loadRendererForType_def r load_renderer_def)
  have s: "hd (sc_symbols lib_obc_building_blocks) \<in> set (sc_symbols lib_obc_building_blocks)"
    by (simp add: lib_obc_building_blocks_def)
  show ?thesis
    using asked_category_found [OF st_def p(1) e p(2) s, of "[]" "\<lparr>cu_storage = None, cu_cache = None\<rparr>"]
    unfolding st_def by (simp add: lib_obc_building_blocks_def catalog_sym_def)
qed

lemma chunk_failed_step: "chunk_of f st = Failed \<Longrightarrow> chunk_of f (lib_step e st) = Failed"
proof -
  have a: "chunk_of f s = Failed \<Longrightarrow> chunk_of f (loadCategoryLibrary c s) = Failed" for c s
    by (auto simp: loadCategoryLibrary_def Let_def split: option.split)
  have b: "chunk_of f (loadRendererForType t s) = chunk_of f s" for t s
    by (simp add: loadRendererForType_def load_renderer_def split: option.split)
  show "chunk_of f st = Failed \<Longrightarrow> ?thesis"
    by (cases e) (auto simp: preloadCategory_def preloadForSymbolTypes_def Let_def module_settles_def a b
        intro!: fold_inv [where P = "\<lambda>s. chunk_of f s = Failed"])
qed

text \<open>
  C34. A module that failed to load is never asked for again: however the designer runs on, no built-in symbol
  of its family is known any more, so its items keep the default footprint and offer no binding slot.
\<close>

theorem failed_module_is_final:
  assumes "st = lib_run evs lib_start" "chunk_of f st = Failed" "resolveRendererGroup t = Some f"
  shows "findCachedSymbol t (lib_run evs' st) = None"
proof -
  define s where "s = lib_run evs' st"
  have "lib_inv s" unfolding s_def assms(1) by (intro lib_run_inv lib_start_inv)
  moreover have n: "chunk_of f s = Failed" unfolding s_def lib_run_def
    by (rule fold_inv [where P = "\<lambda>s. chunk_of f s = Failed"]) (auto intro: chunk_failed_step assms(2))
  ultimately have "map_of (lb_cache s) c = None" if "map_of CATEGORY_TO_RENDERER c = Some f" for c
    using that row_family [OF library_entry_row, of c] unfolding lib_inv_def cache_sound_def
    by (cases "map_of (lb_cache s) c") fastforce+
  then show ?thesis using assms(3)
    by (auto simp: findCachedSymbol_def resolveRendererGroup_def s_def [symmetric] split: option.splits)
qed

theorem failed_module_is_final_witness:
  "findCachedSymbol ''obc.auto.pump''
     (lib_run [AskTypes [''obc.auto.pump''], ModuleSettles Automation True]
       (lib_run [AskCategory ''automation-devices'', ModuleSettles Automation False] lib_start)) = None"
proof (rule failed_module_is_final [OF refl])
  have e: "library_entry ''automation-devices'' = Some (Automation, lib_automation_devices)"
    by (simp add: library_entry_def AUTOMATION_CATEGORY_INDEX_def OPENBRIDGE_AUTOMATION_LIBRARY_def)
  show r: "resolveRendererGroup ''obc.auto.pump'' = Some Automation"
    by (simp add: renderer_of_prefix isAutomationType_def starts_with_def)
  show "chunk_of Automation (lib_run [AskCategory ''automation-devices'', ModuleSettles Automation False] lib_start) = Failed"
    by (simp add: lib_run_def lib_start_def preloadCategory_def loadCategoryLibrary_def e Let_def
        settle_family_def module_settles_def CATEGORY_TO_RENDERER_def loadRendererForType_def r load_renderer_def)
qed

section \<open>Custom symbols\<close>



definition defs_safe :: "custom_def list \<Rightarrow> bool" where
  "defs_safe ds = list_all (\<lambda>d. isSafeSvg (cd_svg d)) ds"




lemma defs_safe_filter: "defs_safe ds \<Longrightarrow> defs_safe (filter P ds)"
  by (simp add: defs_safe_def list_all_iff)



definition demo_symbol :: "string \<Rightarrow> string \<Rightarrow> custom_def" where
  "demo_symbol i svg =
     \<lparr>cd_id = i, cd_name = i, cd_category = [], cd_svg = svg, cd_slots = [\<lparr>cs_name = ''pv'', cs_kind = ''value'', cs_label = None\<rparr>],
      cd_size = None, cd_collections = None\<rparr>"



text \<open>What the check lets through, and what never meets it: a handler after a slash, and a stored text of another origin.\<close>

lemma slash_handler_accepted: "isSafeSvg ''<svg/onload=alert(1)>''"
  by (simp add: isSafeSvg_def js_lower_def lower_char_def is_upper_def code_def handler_at_def active_element_at_def
      js_includes_def starts_with_def sublist_code is_space_def)

lemma stored_text_unchecked:
  "fst (listCustomSymbols \<lparr>cu_storage = Some (Some [d]), cu_cache = None\<rparr>) = [d]"
  by (simp add: listCustomSymbols_def load_symbols_def Let_def)

text \<open>
  C14. A live reading never brings markup: the angle brackets and quotes of a rendered template are those
  of the template, in the same order, whatever the values, the style and the text of numbers are.
\<close>

theorem rendered_markup_is_template:
  assumes "renderTemplate text_of fixed_text d vals style = Some out"
  shows "filter is_markup out = filter is_markup (cd_svg d)"
  using assms markup_fill unfolding renderTemplate_def by (rule markup_render [rotated]) auto

lemma demo_render:
  "renderTemplate (\<lambda>_. []) (\<lambda>_ _. []) (demo_symbol i ''<b>{{pv}}</b>'') (\<lambda>_. VStr ''<i>'') (\<lambda>_. VUndef) =
   Some ''<b>&lt;i&gt;</b>''"
  by (simp add: renderTemplate_def demo_symbol_def render_from.simps hole_at_def starts_with_def fill_hole_def
      fixed_part_def Let_def is_word_char_def is_lower_def is_upper_def is_digit_def is_space_def code_def
      nullish_val_def js_text_def escapeXml_def)

theorem rendered_markup_is_template_witness:
  "filter is_markup ''<b>&lt;i&gt;</b>'' = filter is_markup (cd_svg (demo_symbol ''a'' ''<b>{{pv}}</b>''))"
  by (rule rendered_markup_is_template [OF demo_render])

end
