(* ===== verification/Designer_Editor.thy ===== *)
theory Designer_Editor
  imports Symbol_Library
begin

text \<open>
  The display designer (src/frontend-ob/src/components/Designer/DisplayDesigner.tsx): the items on the canvas with
  their selection, the undo history, the clipboard, the settings that are saved with the items, and the save,
  revert and restore round trips.

  One operation is one event of the page, followed by a render, so that the references to the latest items are
  current when the next operation starts.  The identifiers of new items come from \<open>gen\<close> (the time and a random
  number), one for each copy.  \<open>find_def\<close> is the lookup of a symbol definition.  Messages to the user, the preview
  image and the metadata queries leave the state as it is.
\<close>

section \<open>The state\<close>

text \<open>
  \<open>ed_shown\<close> is the copy of index and length that the toolbar reads.  \<open>ed_seeded\<close> is the display the canvas was seeded
  with, \<open>ed_loaded\<close> the document of the query.
\<close>

record editor =
  ed_items :: "canvas_item list"
  ed_selected :: "string list"
  ed_dirty :: bool
  ed_history :: "canvas_item list list"
  ed_index :: int
  ed_shown :: "int \<times> nat"
  ed_clipboard :: "canvas_item list"
  ed_seeded :: "string option"
  ed_loaded :: "display_content option"
  ed_zoom :: rat
  ed_showGrid :: bool
  ed_gridSize :: rat
  ed_snap :: bool
  ed_canvas :: extent
  ed_bgColor :: string
  ed_bgImage :: "string option"
  ed_report :: "import_report option"

definition fresh_editor :: editor where
  "fresh_editor =
     \<lparr>ed_items = [], ed_selected = [], ed_dirty = False, ed_history = [], ed_index = -1, ed_shown = (-1, 0), ed_clipboard = [],
      ed_seeded = None, ed_loaded = None, ed_zoom = 1, ed_showGrid = True, ed_gridSize = 10, ed_snap = True,
      ed_canvas = \<lparr>wd = 1920, ht = 1080\<rparr>, ed_bgColor = ''var(--ams-canvas-bg)'', ed_bgImage = None, ed_report = None\<rparr>"

section \<open>The history\<close>

definition slice_last :: "nat \<Rightarrow> 'a list \<Rightarrow> 'a list" where
  "slice_last n xs = drop (length xs - n) xs"

definition commit :: "canvas_item list \<Rightarrow> editor \<Rightarrow> editor" where
  "commit snapshot ed =
     (let truncated = take (nat (ed_index ed + 1)) (ed_history ed);
          next = slice_last 50 (truncated @ [snapshot]) in
      ed\<lparr>ed_history := next, ed_index := int (length next) - 1, ed_shown := (int (length next) - 1, length next)\<rparr>)"

definition commitNow :: "editor \<Rightarrow> editor" where
  "commitNow ed = commit (ed_items ed) ed"

definition undo :: "editor \<Rightarrow> editor" where
  "undo ed =
     (if 0 < ed_index ed then
        let i = ed_index ed - 1 in
        ed\<lparr>ed_index := i, ed_items := ed_history ed ! nat i, ed_shown := (i, length (ed_history ed)), ed_dirty := True\<rparr>
      else ed)"

definition redo :: "editor \<Rightarrow> editor" where
  "redo ed =
     (if ed_index ed < int (length (ed_history ed)) - 1 then
        let i = ed_index ed + 1 in
        ed\<lparr>ed_index := i, ed_items := ed_history ed ! nat i, ed_shown := (i, length (ed_history ed)), ed_dirty := True\<rparr>
      else ed)"

definition apply_items :: "canvas_item list \<Rightarrow> bool \<Rightarrow> editor \<Rightarrow> editor" where
  "apply_items next snapshot ed =
     (let ed1 = ed\<lparr>ed_items := next, ed_dirty := True\<rparr> in if snapshot then commit next ed1 else ed1)"

section \<open>Operations on items\<close>

abbreviation chosen :: "editor \<Rightarrow> canvas_item list" where
  "chosen ed \<equiv> filter (\<lambda>it. set_mem (ed_selected ed) (item_id it)) (ed_items ed)"

definition map_selected :: "(canvas_item \<Rightarrow> canvas_item) \<Rightarrow> editor \<Rightarrow> canvas_item list" where
  "map_selected f ed = map (\<lambda>it. if set_mem (ed_selected ed) (item_id it) then f it else it) (ed_items ed)"

definition basic_format :: format_options where
  "basic_format = \<lparr>fo_decimals = Some 1, fo_unit = None, fo_prefix = None, fo_suffix = None, fo_showUnit = None,
     fo_showLabel = None, fo_valueColor = None, fo_backgroundColor = None\<rparr>"

definition addItem :: "(string \<Rightarrow> symbol_def option) \<Rightarrow> string \<Rightarrow> string \<Rightarrow> point \<Rightarrow> editor \<Rightarrow> editor" where
  "addItem find_def gen t pos ed =
     (let b = (bare_item gen t pos (getDefaultSizeSync find_def t))
                \<lparr>ci_label := Some [], ci_bindings := Some [], ci_formatting := Some basic_format\<rparr>;
          b1 = (if isAutomationType t then b\<lparr>ci_automationProps := Some (getDefaultAutomationProps t)\<rparr> else b);
          b2 = (if isObcCatalogType t then b1\<lparr>ci_obcProps := Some (getDefaultObcProps t)\<rparr> else b1) in
      (apply_items (ed_items ed @ [CanvasItem b2 None]) True ed)\<lparr>ed_selected := [gen]\<rparr>)"

text \<open>A drag or resize in progress: no entry in the history.  Of two updates of an item the last counts.\<close>

definition updateItemsLive :: "(string \<times> (item_base \<Rightarrow> item_base)) list \<Rightarrow> editor \<Rightarrow> editor" where
  "updateItemsLive updates ed =
     apply_items (map (\<lambda>it. case map_of (rev updates) (item_id it) of Some f \<Rightarrow> patch_item f it | None \<Rightarrow> it) (ed_items ed)) False ed"

definition updateMany :: "string list \<Rightarrow> (canvas_item \<Rightarrow> item_base \<Rightarrow> item_base) \<Rightarrow> editor \<Rightarrow> editor" where
  "updateMany ids patch ed =
     apply_items (map (\<lambda>it. if set_mem ids (item_id it) then patch_item (patch it) it else it) (ed_items ed)) True ed"

definition updateItem :: "string \<Rightarrow> (item_base \<Rightarrow> item_base) \<Rightarrow> editor \<Rightarrow> editor" where
  "updateItem i changes ed =
     apply_items (map (\<lambda>it. if item_id it = i then patch_item changes it else it) (ed_items ed)) True ed"

definition PRIMARY_SLOT_ORDER :: "string list" where
  "PRIMARY_SLOT_ORDER = [''value'', ''pv'', ''level'', ''speed'', ''position'', ''pressure'', ''temperature'', ''current'',
     ''flow'', ''setpoint'', ''sp'', ''status'', ''command'']"

definition primarySlotFor :: "(string \<Rightarrow> symbol_def option) \<Rightarrow> canvas_item \<Rightarrow> string" where
  "primarySlotFor find_def it =
     (case find_def (ci_type (ci_base it)) of
        None \<Rightarrow> ''value''
      | Some d \<Rightarrow> case sy_slots d of
                    [] \<Rightarrow> ''value''
                  | s # _ \<Rightarrow> nullish (find (\<lambda>x. set_mem PRIMARY_SLOT_ORDER x) (sy_slots d)) s)"

definition path_leaf :: "string \<Rightarrow> string" where
  "path_leaf path = last (js_split (CHR ''/'') path)"

definition addBoundSymbol :: "(string \<Rightarrow> symbol_def option) \<Rightarrow> string \<Rightarrow> string \<Rightarrow> point \<Rightarrow> editor \<Rightarrow> editor" where
  "addBoundSymbol find_def gen path pos ed =
     (let t = ''obc.readout-unit'';
          b = (bare_item gen t pos (getDefaultSizeSync find_def t))
                \<lparr>ci_label := Some (path_leaf path), ci_bindings := Some [(''value'', path)], ci_formatting := Some basic_format\<rparr> in
      (apply_items (ed_items ed @ [CanvasItem b None]) True ed)\<lparr>ed_selected := [gen]\<rparr>)"

definition bind_slot :: "string \<Rightarrow> string \<Rightarrow> item_base \<Rightarrow> item_base" where
  "bind_slot slot path b = b\<lparr>ci_bindings := Some (AList.update slot path (nullish (ci_bindings b) []))\<rparr>"

definition bindTagToItem :: "(string \<Rightarrow> symbol_def option) \<Rightarrow> string \<Rightarrow> string \<Rightarrow> editor \<Rightarrow> editor" where
  "bindTagToItem find_def i path ed =
     (case find (\<lambda>it. item_id it = i) (ed_items ed) of
        None \<Rightarrow> ed
      | Some it \<Rightarrow>
          let slots = (case find_def (ci_type (ci_base it)) of Some d \<Rightarrow> sy_slots d | None \<Rightarrow> []);
              bound = nullish (ci_bindings (ci_base it)) [];
              slot = nullish (find (\<lambda>s. \<not> truthy (map_of bound s)) slots) (primarySlotFor find_def it) in
          updateItem i (\<lambda>b. b\<lparr>ci_bindings := Some (AList.update slot path bound)\<rparr>) ed)"

text \<open>A click on a tag in the asset tree binds the primary slot of the first selected item.\<close>

definition bindPrimary :: "(string \<Rightarrow> symbol_def option) \<Rightarrow> string \<Rightarrow> editor \<Rightarrow> editor" where
  "bindPrimary find_def path ed =
     (case ed_selected ed of
        [] \<Rightarrow> ed
      | i # _ \<Rightarrow> case find (\<lambda>it. item_id it = i) (ed_items ed) of
                   None \<Rightarrow> ed
                 | Some it \<Rightarrow> updateItem i (\<lambda>b. b\<lparr>ci_bindings :=
                     Some (AList.update (primarySlotFor find_def it) path (nullish (ci_bindings (ci_base it)) []))\<rparr>) ed)"

definition deleteSelected :: "editor \<Rightarrow> editor" where
  "deleteSelected ed =
     (apply_items (filter (\<lambda>it. \<not> set_mem (ed_selected ed) (item_id it)) (ed_items ed)) True ed)\<lparr>ed_selected := []\<rparr>"

definition deleteItem :: "string \<Rightarrow> editor \<Rightarrow> editor" where
  "deleteItem i ed =
     (apply_items (filter (\<lambda>it. item_id it \<noteq> i) (ed_items ed)) True ed)
       \<lparr>ed_selected := filter (\<lambda>x. x \<noteq> i) (ed_selected ed)\<rparr>"

definition move_by :: "rat \<Rightarrow> rat \<Rightarrow> item_base \<Rightarrow> item_base" where
  "move_by dx dy b = b\<lparr>ci_position := \<lparr>px = px (ci_position b) + dx, py = py (ci_position b) + dy\<rparr>\<rparr>"

definition copies :: "(nat \<Rightarrow> string) \<Rightarrow> canvas_item list \<Rightarrow> canvas_item list" where
  "copies gen its =
     map2 (\<lambda>n it. patch_item (\<lambda>b. move_by 20 20 (b\<lparr>ci_id := gen n, ci_groupId := None\<rparr>)) it) [0..<length its] its"

definition duplicateSelected :: "(nat \<Rightarrow> string) \<Rightarrow> editor \<Rightarrow> editor" where
  "duplicateSelected gen ed =
     (let cs = copies gen (chosen ed) in
      if cs = [] then ed
      else (apply_items (ed_items ed @ cs) True ed)\<lparr>ed_selected := map item_id cs\<rparr>)"

definition nudge :: "rat \<Rightarrow> rat \<Rightarrow> editor \<Rightarrow> editor" where
  "nudge dx dy ed = apply_items (map_selected (patch_item (move_by dx dy)) ed) True ed"

definition groupSelected :: "string \<Rightarrow> editor \<Rightarrow> editor" where
  "groupSelected gen ed =
     (if length (ed_selected ed) < 2 then ed
      else apply_items (map_selected (patch_item (\<lambda>b. b\<lparr>ci_groupId := Some (''grp-'' @ gen)\<rparr>)) ed) True ed)"

definition ungroupSelected :: "editor \<Rightarrow> editor" where
  "ungroupSelected ed = apply_items (map_selected (patch_item (\<lambda>b. b\<lparr>ci_groupId := None\<rparr>)) ed) True ed"

definition min_list :: "rat list \<Rightarrow> rat" where
  "min_list xs = fold min (tl xs) (hd xs)"

definition max_list :: "rat list \<Rightarrow> rat" where
  "max_list xs = fold max (tl xs) (hd xs)"

text \<open>The bounding box of a selection: left, top, right, bottom.\<close>

definition bounds :: "canvas_item list \<Rightarrow> rat \<times> rat \<times> rat \<times> rat" where
  "bounds sel =
     (min_list (map (\<lambda>i. px (item_pos i)) sel), min_list (map (\<lambda>i. py (item_pos i)) sel),
      max_list (map item_right sel), max_list (map item_bottom sel))"

definition convertToCollection :: "string \<Rightarrow> editor \<Rightarrow> editor" where
  "convertToCollection gen ed =
     (let sel = chosen ed in
      if sel = [] then ed
      else
        let (minX, minY, maxX, maxY) = bounds sel;
            cellW = max 20 (maxX - minX); cellH = max 20 (maxY - minY);
            cellItems = map (patch_item (\<lambda>b. (move_by (- minX) (- minY) b)\<lparr>ci_groupId := None\<rparr>)) sel;
            container = CanvasItem
              (bare_item gen ''collection.container'' \<lparr>px = minX, py = minY\<rparr> \<lparr>wd = cellW * 2 + 24, ht = cellH * 3 + 40\<rparr>)
              (Some (\<lparr>co_criteria = \<lparr>cc_root = None, cc_returnAllDescendants = Some True, cc_assetType = None, cc_template = None\<rparr>,
                      co_cell = \<lparr>wd = cellW, ht = cellH\<rparr>, co_columns = 2, co_gap = 12, co_maxInstances = Some 24,
                      co_sort = None\<rparr>, cellItems)) in
        (apply_items (filter (\<lambda>it. \<not> set_mem (ed_selected ed) (item_id it)) (ed_items ed) @ [container]) True ed)
          \<lparr>ed_selected := [gen]\<rparr>)"

text \<open>\<open>Math.round\<close>: halves go up.\<close>

definition js_round :: "rat \<Rightarrow> rat" where
  "js_round x = of_int \<lfloor>x + 1 / 2\<rfloor>"

datatype align_dir = AlignLeft | AlignRight | AlignTop | AlignBottom | AlignCenterH | AlignCenterV

fun align_pos :: "align_dir \<Rightarrow> rat \<times> rat \<times> rat \<times> rat \<Rightarrow> item_base \<Rightarrow> point" where
  "align_pos AlignLeft (minX, minY, maxX, maxY) b = (ci_position b)\<lparr>px := minX\<rparr>"
| "align_pos AlignRight (minX, minY, maxX, maxY) b = (ci_position b)\<lparr>px := maxX - wd (ci_size b)\<rparr>"
| "align_pos AlignTop (minX, minY, maxX, maxY) b = (ci_position b)\<lparr>py := minY\<rparr>"
| "align_pos AlignBottom (minX, minY, maxX, maxY) b = (ci_position b)\<lparr>py := maxY - ht (ci_size b)\<rparr>"
| "align_pos AlignCenterH (minX, minY, maxX, maxY) b =
     (ci_position b)\<lparr>px := js_round ((minX + maxX) / 2 - wd (ci_size b) / 2)\<rparr>"
| "align_pos AlignCenterV (minX, minY, maxX, maxY) b =
     (ci_position b)\<lparr>py := js_round ((minY + maxY) / 2 - ht (ci_size b) / 2)\<rparr>"

definition alignSelected :: "align_dir \<Rightarrow> editor \<Rightarrow> editor" where
  "alignSelected dir ed =
     (let sel = chosen ed in
      if length sel < 2 then ed
      else let bs = bounds sel in
           apply_items (map_selected (patch_item (\<lambda>b. b\<lparr>ci_position := align_pos dir bs b\<rparr>)) ed) True ed)"

definition sameSize :: "editor \<Rightarrow> editor" where
  "sameSize ed =
     (let sel = chosen ed in
      if length sel < 2 then ed
      else let s = item_size (hd sel) in apply_items (map_selected (patch_item (\<lambda>b. b\<lparr>ci_size := s\<rparr>)) ed) True ed)"

datatype z_dir = ZFront | ZBack | ZForward | ZBackward

definition zOrder :: "z_dir \<Rightarrow> editor \<Rightarrow> editor" where
  "zOrder dir ed =
     (let zs = map item_z (ed_items ed);
          set_z = (\<lambda>z. apply_items (map_selected (patch_item (\<lambda>b. b\<lparr>ci_zIndex := Some z\<rparr>)) ed) True ed);
          add_z = (\<lambda>d. apply_items (map_selected (\<lambda>it. patch_item (\<lambda>b. b\<lparr>ci_zIndex := Some (item_z it + d)\<rparr>) it) ed) True ed) in
      case dir of
        ZFront \<Rightarrow> set_z (max_list (0 # zs) + 1)
      | ZBack \<Rightarrow> set_z (min_list (0 # zs) - 1)
      | ZForward \<Rightarrow> add_z 1
      | ZBackward \<Rightarrow> add_z (- 1))"

datatype axis = AxisH | AxisV

fun coord :: "axis \<Rightarrow> point \<Rightarrow> rat" where
  "coord AxisH p = px p"
| "coord AxisV p = py p"

fun set_coord :: "axis \<Rightarrow> rat \<Rightarrow> point \<Rightarrow> point" where
  "set_coord AxisH v p = p\<lparr>px := v\<rparr>"
| "set_coord AxisV v p = p\<lparr>py := v\<rparr>"

text \<open>The items between the first and the last, by their stable order along the axis, and where each goes.\<close>

definition distribute_targets :: "axis \<Rightarrow> canvas_item list \<Rightarrow> (string \<times> rat) list" where
  "distribute_targets ax sel =
     (let sorted = sort_key (\<lambda>it. coord ax (item_pos it)) sel;
          start = coord ax (item_pos (hd sorted)); stop = coord ax (item_pos (last sorted));
          gap = (stop - start) / of_nat (length sorted - 1) in
      map (\<lambda>i. (item_id (sorted ! i), js_round (start + gap * of_nat i))) [1..<length sorted - 1])"

definition distributeSelected :: "axis \<Rightarrow> editor \<Rightarrow> editor" where
  "distributeSelected ax ed =
     (let sel = chosen ed in
      if length sel < 3 then ed
      else let targets = distribute_targets ax sel in
           apply_items (map (\<lambda>it. case map_of (rev targets) (item_id it) of
               Some v \<Rightarrow> patch_item (\<lambda>b. b\<lparr>ci_position := set_coord ax v (ci_position b)\<rparr>) it | None \<Rightarrow> it) (ed_items ed)) True ed)"

definition flipSelected :: "axis \<Rightarrow> editor \<Rightarrow> editor" where
  "flipSelected ax ed =
     apply_items (map_selected (patch_item (\<lambda>b. case ax of
         AxisH \<Rightarrow> b\<lparr>ci_flipH := Some (ci_flipH b \<noteq> Some True)\<rparr>
       | AxisV \<Rightarrow> b\<lparr>ci_flipV := Some (ci_flipV b \<noteq> Some True)\<rparr>)) ed) True ed"

section \<open>Clipboard, selection and zoom\<close>

definition copySelected :: "editor \<Rightarrow> editor" where
  "copySelected ed = ed\<lparr>ed_clipboard := chosen ed\<rparr>"

definition cut_selected :: "editor \<Rightarrow> editor" where
  "cut_selected ed =
     (let sel = chosen ed in
      if sel = [] then ed
      else (apply_items (filter (\<lambda>it. \<not> set_mem (ed_selected ed) (item_id it)) (ed_items ed)) True (ed\<lparr>ed_clipboard := sel\<rparr>))
             \<lparr>ed_selected := []\<rparr>)"

definition paste :: "(nat \<Rightarrow> string) \<Rightarrow> editor \<Rightarrow> editor" where
  "paste gen ed =
     (if ed_clipboard ed = [] then ed
      else let cs = copies gen (ed_clipboard ed) in
           (apply_items (ed_items ed @ cs) True ed)\<lparr>ed_selected := map item_id cs\<rparr>)"

definition selectMany :: "string list \<Rightarrow> editor \<Rightarrow> editor" where
  "selectMany ids ed = ed\<lparr>ed_selected := ids\<rparr>"

definition toggleSelect :: "string \<Rightarrow> editor \<Rightarrow> editor" where
  "toggleSelect i ed =
     ed\<lparr>ed_selected := (if set_mem (ed_selected ed) i then filter (\<lambda>x. x \<noteq> i) (ed_selected ed) else ed_selected ed @ [i])\<rparr>"

definition selectForMenu :: "string \<Rightarrow> editor \<Rightarrow> editor" where
  "selectForMenu i ed = ed\<lparr>ed_selected := (if set_mem (ed_selected ed) i then ed_selected ed else [i])\<rparr>"

definition selectAllItems :: "editor \<Rightarrow> editor" where
  "selectAllItems ed = ed\<lparr>ed_selected := map item_id (ed_items ed)\<rparr>"

definition zoomBy :: "rat \<Rightarrow> editor \<Rightarrow> editor" where
  "zoomBy f ed = ed\<lparr>ed_zoom := max (1 / 4) (min 3 (ed_zoom ed * f))\<rparr>"

text \<open>\<open>toFixed(2)\<close> read back: the nearest hundredth, the larger of two.\<close>

definition fitToScreen :: "rat \<Rightarrow> rat \<Rightarrow> editor \<Rightarrow> editor" where
  "fitToScreen w h ed =
     (let z = min ((w - 48) / wd (ed_canvas ed)) ((h - 48) / ht (ed_canvas ed)) in
      ed\<lparr>ed_zoom := max (1 / 10) (min 3 (of_int \<lfloor>100 * z + 1 / 2\<rfloor> / 100))\<rparr>)"

section \<open>Loading, saving, reverting\<close>

text \<open>The seed effect: once per display.  A width, height or grid of zero and an empty colour or image are falsy.\<close>

definition pos_num :: "rat option \<Rightarrow> bool" where
  "pos_num x = (case x of Some v \<Rightarrow> v \<noteq> 0 | None \<Rightarrow> False)"

definition no_settings :: display_settings where
  "no_settings = \<lparr>ds_gridSize = None, ds_showGrid = None, ds_backgroundColor = None, ds_backgroundImageId = None,
     ds_canvasWidth = None, ds_canvasHeight = None, ds_importReport = None\<rparr>"

definition seed_from :: "string \<Rightarrow> display_content \<Rightarrow> editor \<Rightarrow> editor" where
  "seed_from display doc ed =
     (let s = nullish (dc_settings doc) no_settings in
      ed\<lparr>ed_seeded := Some display, ed_items := dc_items doc, ed_history := [dc_items doc], ed_index := 0, ed_shown := (0, 1),
         ed_canvas := (if pos_num (ds_canvasWidth s) \<and> pos_num (ds_canvasHeight s)
                       then \<lparr>wd = the (ds_canvasWidth s), ht = the (ds_canvasHeight s)\<rparr> else ed_canvas ed),
         ed_showGrid := nullish (ds_showGrid s) (ed_showGrid ed),
         ed_gridSize := (if pos_num (ds_gridSize s) then the (ds_gridSize s) else ed_gridSize ed),
         ed_bgColor := (if truthy (ds_backgroundColor s) then the (ds_backgroundColor s) else ed_bgColor ed),
         ed_bgImage := (if truthy (ds_backgroundImageId s) then ds_backgroundImageId s else None),
         ed_report := ds_importReport s\<rparr>)"

definition seed_effect :: "string \<Rightarrow> editor \<Rightarrow> editor" where
  "seed_effect display ed =
     (case ed_loaded ed of
        None \<Rightarrow> ed
      | Some doc \<Rightarrow> if ed_seeded ed = Some display then ed else seed_from display doc ed)"

text \<open>The document that a save sends.\<close>

definition save_payload :: "editor \<Rightarrow> display_content" where
  "save_payload ed =
     \<lparr>dc_items = ed_items ed,
      dc_settings = Some \<lparr>ds_gridSize = Some (ed_gridSize ed), ds_showGrid = Some (ed_showGrid ed),
        ds_backgroundColor = Some (ed_bgColor ed), ds_backgroundImageId = ed_bgImage ed,
        ds_canvasWidth = Some (wd (ed_canvas ed)), ds_canvasHeight = Some (ht (ed_canvas ed)), ds_importReport = ed_report ed\<rparr>\<rparr>"

definition save_done :: "editor \<Rightarrow> editor" where
  "save_done ed = ed\<lparr>ed_dirty := False\<rparr>"

text \<open>
  After a revert or a restore the canvas is seeded again from the query, whose refetch may have failed (\<open>None\<close>) and
  then keeps its former document.
\<close>

definition reseedFromServer :: "string \<Rightarrow> display_content option \<Rightarrow> editor \<Rightarrow> editor" where
  "reseedFromServer display refetched ed =
     seed_effect display (ed\<lparr>ed_seeded := None, ed_loaded := orelse refetched (ed_loaded ed)\<rparr>)"

definition revert_done :: "string \<Rightarrow> display_content option \<Rightarrow> editor \<Rightarrow> editor" where
  "revert_done display refetched ed = reseedFromServer display refetched (ed\<lparr>ed_dirty := False\<rparr>)"

section \<open>Settings edited in the toolbar\<close>

definition setBgColor :: "string \<Rightarrow> editor \<Rightarrow> editor" where
  "setBgColor c ed = ed\<lparr>ed_bgColor := c, ed_dirty := True\<rparr>"

definition setBgImageId :: "string option \<Rightarrow> editor \<Rightarrow> editor" where
  "setBgImageId i ed = ed\<lparr>ed_bgImage := i, ed_dirty := True\<rparr>"

definition setCanvasSize :: "extent \<Rightarrow> editor \<Rightarrow> editor" where
  "setCanvasSize s ed = ed\<lparr>ed_canvas := s, ed_dirty := True\<rparr>"

definition setShowGrid :: "bool \<Rightarrow> editor \<Rightarrow> editor" where
  "setShowGrid v ed = ed\<lparr>ed_showGrid := v\<rparr>"

definition setSnapEnabled :: "bool \<Rightarrow> editor \<Rightarrow> editor" where
  "setSnapEnabled v ed = ed\<lparr>ed_snap := v\<rparr>"

end
