(* ===== verification/Designer_History.thy ===== *)
theory Designer_History
  imports Designer_Editor
begin

text \<open>
  The undo history of the designer: the array of snapshots with its index is a zipper of at most fifty
  entries, and the invariants of the designer over every run of operations.
\<close>

section \<open>The history as a zipper\<close>

text \<open>What the history promises: the states before, the latest first, the present one, and those undone, the next first.\<close>

record 'a zipper =
  past :: "'a list"
  present :: 'a
  future :: "'a list"

definition zip_push :: "nat \<Rightarrow> 'a \<Rightarrow> 'a zipper \<Rightarrow> 'a zipper" where
  "zip_push n x z = \<lparr>past = take (n - 1) (present z # past z), present = x, future = []\<rparr>"

definition zip_back :: "'a zipper \<Rightarrow> 'a zipper" where
  "zip_back z = (case past z of [] \<Rightarrow> z | p # ps \<Rightarrow> \<lparr>past = ps, present = p, future = present z # future z\<rparr>)"

definition zip_forth :: "'a zipper \<Rightarrow> 'a zipper" where
  "zip_forth z = (case future z of [] \<Rightarrow> z | p # ps \<Rightarrow> \<lparr>past = present z # past z, present = p, future = ps\<rparr>)"

text \<open>The laws of an undo stack, whatever holds it.\<close>

locale undo_stack =
  fixes abs :: "'s \<Rightarrow> 'a zipper" and ok :: "'s \<Rightarrow> bool"
    and push :: "'a \<Rightarrow> 's \<Rightarrow> 's" and prev :: "'s \<Rightarrow> 's" and succ :: "'s \<Rightarrow> 's" and cap :: nat
  assumes cap_pos: "1 < cap"
    and push_abs: "ok s \<Longrightarrow> abs (push x s) = zip_push cap x (abs s)"
    and back_abs: "ok s \<Longrightarrow> abs (prev s) = zip_back (abs s)"
    and forth_abs: "ok s \<Longrightarrow> abs (succ s) = zip_forth (abs s)"
    and push_ok: "ok s \<Longrightarrow> ok (push x s)" and back_ok: "ok s \<Longrightarrow> ok (prev s)" and forth_ok: "ok s \<Longrightarrow> ok (succ s)"
begin

lemma back_push: "ok s \<Longrightarrow> present (abs (prev (push x s))) = present (abs s)"
  using cap_pos by (cases "cap - 1") (auto simp: push_abs back_abs push_ok zip_push_def zip_back_def)

lemma forth_back_push: "ok s \<Longrightarrow> abs (succ (prev (push x s))) = abs (push x s)"
  using cap_pos by (cases "cap - 1")
    (auto simp: push_abs back_abs forth_abs push_ok back_ok zip_push_def zip_back_def zip_forth_def)

lemma forth_push: "ok s \<Longrightarrow> abs (succ (push x s)) = abs (push x s)"
  by (simp add: push_abs forth_abs push_ok zip_push_def zip_forth_def)

lemma back_forth: "ok s \<Longrightarrow> future (abs s) \<noteq> [] \<Longrightarrow> abs (prev (succ s)) = abs s"
  by (cases "future (abs s)") (auto simp: back_abs forth_abs forth_ok zip_back_def zip_forth_def)

lemma backs_take: "ok s \<Longrightarrow> ok ((prev ^^ n) s) \<and> past (abs ((prev ^^ n) s)) = drop n (past (abs s))"
proof (induction n)
  case (Suc n)
  then show ?case
    by (cases "drop n (past (abs s))")
       (auto simp: back_abs back_ok zip_back_def drop_Suc drop_tl split: list.split)
qed simp

end

definition hist_ok :: "editor \<Rightarrow> bool" where
  "hist_ok ed \<longleftrightarrow>
     0 \<le> ed_index ed \<and> ed_index ed < int (length (ed_history ed)) \<and> length (ed_history ed) \<le> 50 \<and>
     ed_shown ed = (ed_index ed, length (ed_history ed))"

definition at_present :: "editor \<Rightarrow> bool" where
  "at_present ed \<longleftrightarrow> ed_items ed = ed_history ed ! nat (ed_index ed)"

definition zip_of :: "editor \<Rightarrow> canvas_item list zipper" where
  "zip_of ed =
     (let i = nat (ed_index ed); h = ed_history ed in
      \<lparr>past = rev (take i h), present = h ! i, future = drop (Suc i) h\<rparr>)"

lemma take_rev_drop: "rev (drop (length xs - n) xs) = take n (rev xs)"
  by (simp add: take_rev)

lemma slice_last_length [simp]: "length (slice_last n xs) = min n (length xs)"
  by (simp add: slice_last_def)

lemma last_slice_last: "n \<noteq> 0 \<Longrightarrow> xs \<noteq> [] \<Longrightarrow> slice_last n xs ! (length (slice_last n xs) - 1) = last xs"
proof -
  assume a: "n \<noteq> 0" "xs \<noteq> []"
  then have "length xs - n < length xs" by (cases xs) auto
  then have "slice_last n xs \<noteq> []" "last (slice_last n xs) = last xs" by (simp_all add: slice_last_def last_drop)
  then show ?thesis by (metis last_conv_nth)
qed

lemma commit_fields:
  "ed_history (commit x ed) = slice_last 50 (take (nat (ed_index ed + 1)) (ed_history ed) @ [x])"
  "ed_index (commit x ed) = int (length (ed_history (commit x ed))) - 1"
  "ed_shown (commit x ed) = (ed_index (commit x ed), length (ed_history (commit x ed)))"
  by (simp_all add: commit_def Let_def)

lemma commit_ok: "hist_ok (commit x ed)"
  by (simp add: hist_ok_def commit_fields)

lemma commit_last: "ed_history (commit x ed) ! nat (ed_index (commit x ed)) = x"
proof -
  define xs where "xs = take (nat (ed_index ed + 1)) (ed_history ed) @ [x]"
  have "nat (ed_index (commit x ed)) = length (slice_last 50 xs) - 1" by (simp add: commit_fields xs_def nat_diff_distrib')
  then show ?thesis using last_slice_last [of 50 xs] by (simp add: commit_fields(1) xs_def)
qed

lemma zip_simps:
  "past (zip_of ed) = rev (take (nat (ed_index ed)) (ed_history ed))"
  "present (zip_of ed) = ed_history ed ! nat (ed_index ed)"
  "future (zip_of ed) = drop (Suc (nat (ed_index ed))) (ed_history ed)"
  by (simp_all add: zip_of_def Let_def)

lemma zip_eqI: "past y = past z \<Longrightarrow> present y = present z \<Longrightarrow> future y = future z \<Longrightarrow> y = (z :: 'a zipper)"
  by (cases y; cases z) simp

lemma commit_zip:
  assumes "hist_ok ed"
  shows "zip_of (commit x ed) = zip_push 50 x (zip_of ed)"
proof -
  define i where "i = nat (ed_index ed)"
  define h where "h = ed_history ed"
  define t where "t = take (Suc i) h"
  define n where "n = slice_last 50 (t @ [x])"
  have i: "i < length h" "nat (ed_index ed + 1) = Suc i" using assms by (auto simp: hist_ok_def i_def h_def)
  have t: "t = take i h @ [h ! i]" using i(1) by (simp add: t_def take_Suc_conv_app_nth)
  have n: "ed_history (commit x ed) = n" by (simp add: commit_fields(1) n_def t_def h_def i(2))
  have ix: "nat (ed_index (commit x ed)) = length n - 1" by (simp add: commit_fields(2) n nat_diff_distrib')
  have "n = drop (length t - 49) t @ [x]" by (simp add: n_def slice_last_def t)
  then have "rev (take (length n - 1) n) = rev (drop (length t - 49) t)" by simp
  also have "\<dots> = take 49 (rev t)" by (rule take_rev_drop)
  finally have p: "rev (take (length n - 1) n) = take 49 (rev t)" .
  have l: "length n \<noteq> 0" by (simp add: n_def)
  show ?thesis
  proof (rule zip_eqI)
    have "past (zip_of (commit x ed)) = rev (take (length n - 1) n)" by (simp only: zip_simps n ix)
    also have "\<dots> = past (zip_push 50 x (zip_of ed))"
      unfolding p by (simp add: zip_push_def zip_simps t flip: i_def h_def)
    finally show "past (zip_of (commit x ed)) = past (zip_push 50 x (zip_of ed))" .
    show "present (zip_of (commit x ed)) = present (zip_push 50 x (zip_of ed))"
      by (simp add: zip_simps commit_last zip_push_def)
    show "future (zip_of (commit x ed)) = future (zip_push 50 x (zip_of ed))"
      using l by (simp add: zip_simps n ix zip_push_def)
  qed
qed

lemma undo_ok: "hist_ok ed \<Longrightarrow> hist_ok (undo ed)"
  by (auto simp: undo_def hist_ok_def Let_def)

lemma redo_ok: "hist_ok ed \<Longrightarrow> hist_ok (redo ed)"
  by (auto simp: redo_def hist_ok_def Let_def)

lemma undo_zip:
  assumes "hist_ok ed"
  shows "zip_of (undo ed) = zip_back (zip_of ed)"
proof (cases "0 < ed_index ed")
  case True
  then obtain k where k: "nat (ed_index ed) = Suc k" "nat (ed_index ed - 1) = k" by (cases "nat (ed_index ed)") auto
  with assms have l: "Suc k < length (ed_history ed)" by (auto simp: hist_ok_def)
  have p: "past (zip_of ed) = ed_history ed ! k # rev (take k (ed_history ed))"
    using k l by (simp add: zip_simps take_Suc_conv_app_nth)
  have b: "zip_back (zip_of ed) = \<lparr>past = rev (take k (ed_history ed)), present = ed_history ed ! k,
      future = present (zip_of ed) # future (zip_of ed)\<rparr>" by (simp add: zip_back_def p)
  show ?thesis unfolding b
    by (rule zip_eqI) (use True k l in \<open>simp_all add: zip_simps undo_def Let_def Cons_nth_drop_Suc\<close>)
next
  case False
  with assms have "past (zip_of ed) = []" by (simp add: hist_ok_def zip_simps)
  with False show ?thesis by (simp add: undo_def zip_back_def)
qed

lemma redo_zip:
  assumes "hist_ok ed"
  shows "zip_of (redo ed) = zip_forth (zip_of ed)"
proof (cases "ed_index ed < int (length (ed_history ed)) - 1")
  case True
  define i where "i = nat (ed_index ed)"
  have i: "Suc i < length (ed_history ed)" "nat (ed_index ed + 1) = Suc i" "nat (ed_index ed) = i"
    using True assms by (auto simp: hist_ok_def i_def)
  then have f: "future (zip_of ed) = ed_history ed ! Suc i # drop (Suc (Suc i)) (ed_history ed)"
    by (simp add: zip_simps Cons_nth_drop_Suc)
  have b: "zip_forth (zip_of ed) = \<lparr>past = present (zip_of ed) # past (zip_of ed), present = ed_history ed ! Suc i,
      future = drop (Suc (Suc i)) (ed_history ed)\<rparr>" by (simp add: zip_forth_def f)
  show ?thesis unfolding b
    by (rule zip_eqI) (use True i in \<open>simp_all add: zip_simps redo_def Let_def take_Suc_conv_app_nth\<close>)
next
  case False
  with assms have "future (zip_of ed) = []" by (auto simp: hist_ok_def zip_simps)
  with False show ?thesis by (simp add: redo_def zip_forth_def)
qed

interpretation hist: undo_stack zip_of hist_ok commit undo redo 50
  by unfold_locales (auto simp: commit_zip undo_zip redo_zip commit_ok undo_ok redo_ok)

lemma present_at: "at_present ed \<Longrightarrow> present (zip_of ed) = ed_items ed"
  by (simp add: at_present_def zip_of_def Let_def)

section \<open>Runs of the designer\<close>

text \<open>The operations of the page, with what each is given.\<close>

datatype ed_op =
    OpAdd string string point
  | OpAddBound string string point
  | OpBindTag string string
  | OpBindPrimary string
  | OpLive "(string \<times> (item_base \<Rightarrow> item_base)) list"
  | OpCommit
  | OpUpdate string "item_base \<Rightarrow> item_base"
  | OpUpdateMany "string list" "canvas_item \<Rightarrow> item_base \<Rightarrow> item_base"
  | OpDelete
  | OpDeleteItem string
  | OpDuplicate "nat \<Rightarrow> string"
  | OpNudge rat rat
  | OpGroup string
  | OpUngroup
  | OpCollection string
  | OpAlign align_dir
  | OpSameSize
  | OpZOrder z_dir
  | OpDistribute axis
  | OpFlip axis
  | OpCopy
  | OpCut
  | OpPaste "nat \<Rightarrow> string"
  | OpSelect "string list"
  | OpToggle string
  | OpMenu string
  | OpSelectAll
  | OpUndo
  | OpRedo
  | OpZoom rat
  | OpFit rat rat
  | OpBgColor string
  | OpBgImage "string option"
  | OpCanvas extent
  | OpShowGrid bool
  | OpSnap bool

fun ed_step :: "(string \<Rightarrow> symbol_def option) \<Rightarrow> ed_op \<Rightarrow> editor \<Rightarrow> editor" where
  "ed_step D (OpAdd gen t pos) ed = addItem D gen t pos ed"
| "ed_step D (OpAddBound gen path pos) ed = addBoundSymbol D gen path pos ed"
| "ed_step D (OpBindTag i path) ed = bindTagToItem D i path ed"
| "ed_step D (OpBindPrimary path) ed = bindPrimary D path ed"
| "ed_step D (OpLive us) ed = updateItemsLive us ed"
| "ed_step D OpCommit ed = commitNow ed"
| "ed_step D (OpUpdate i f) ed = updateItem i f ed"
| "ed_step D (OpUpdateMany ids f) ed = updateMany ids f ed"
| "ed_step D OpDelete ed = deleteSelected ed"
| "ed_step D (OpDeleteItem i) ed = deleteItem i ed"
| "ed_step D (OpDuplicate gen) ed = duplicateSelected gen ed"
| "ed_step D (OpNudge dx dy) ed = nudge dx dy ed"
| "ed_step D (OpGroup gen) ed = groupSelected gen ed"
| "ed_step D OpUngroup ed = ungroupSelected ed"
| "ed_step D (OpCollection gen) ed = convertToCollection gen ed"
| "ed_step D (OpAlign dir) ed = alignSelected dir ed"
| "ed_step D OpSameSize ed = sameSize ed"
| "ed_step D (OpZOrder dir) ed = zOrder dir ed"
| "ed_step D (OpDistribute ax) ed = distributeSelected ax ed"
| "ed_step D (OpFlip ax) ed = flipSelected ax ed"
| "ed_step D OpCopy ed = copySelected ed"
| "ed_step D OpCut ed = cut_selected ed"
| "ed_step D (OpPaste gen) ed = paste gen ed"
| "ed_step D (OpSelect ids) ed = selectMany ids ed"
| "ed_step D (OpToggle i) ed = toggleSelect i ed"
| "ed_step D (OpMenu i) ed = selectForMenu i ed"
| "ed_step D OpSelectAll ed = selectAllItems ed"
| "ed_step D OpUndo ed = undo ed"
| "ed_step D OpRedo ed = redo ed"
| "ed_step D (OpZoom f) ed = zoomBy f ed"
| "ed_step D (OpFit w h) ed = fitToScreen w h ed"
| "ed_step D (OpBgColor c) ed = setBgColor c ed"
| "ed_step D (OpBgImage i) ed = setBgImageId i ed"
| "ed_step D (OpCanvas s) ed = setCanvasSize s ed"
| "ed_step D (OpShowGrid v) ed = setShowGrid v ed"
| "ed_step D (OpSnap v) ed = setSnapEnabled v ed"

definition ed_run :: "(string \<Rightarrow> symbol_def option) \<Rightarrow> ed_op list \<Rightarrow> editor \<Rightarrow> editor" where
  "ed_run D ops ed = fold (ed_step D) ops ed"

text \<open>
  Every operation is one of four kinds: it leaves items and history alone, it pushes a new list of items, it changes
  the items and leaves the history (a drag in progress), or it walks the history.
\<close>

definition same_history :: "editor \<Rightarrow> editor \<Rightarrow> bool" where
  "same_history ed ed' \<longleftrightarrow>
     ed_items ed' = ed_items ed \<and> ed_history ed' = ed_history ed \<and> ed_index ed' = ed_index ed \<and> ed_shown ed' = ed_shown ed"

definition pushed :: "canvas_item list \<Rightarrow> editor \<Rightarrow> editor \<Rightarrow> bool" where
  "pushed next ed ed' \<longleftrightarrow>
     ed_items ed' = next \<and> ed_history ed' = ed_history (commit next ed) \<and> ed_index ed' = ed_index (commit next ed) \<and>
     ed_shown ed' = ed_shown (commit next ed)"

lemma commit_more [simp]:
  "ed_items (commit x ed) = ed_items ed" "ed_selected (commit x ed) = ed_selected ed" "ed_dirty (commit x ed) = ed_dirty ed"
  "ed_clipboard (commit x ed) = ed_clipboard ed" "ed_canvas (commit x ed) = ed_canvas ed"
  "ed_bgColor (commit x ed) = ed_bgColor ed" "ed_bgImage (commit x ed) = ed_bgImage ed" "ed_loaded (commit x ed) = ed_loaded ed"
  "ed_gridSize (commit x ed) = ed_gridSize ed" "ed_showGrid (commit x ed) = ed_showGrid ed"
  "ed_report (commit x ed) = ed_report ed" "ed_seeded (commit x ed) = ed_seeded ed" "ed_snap (commit x ed) = ed_snap ed"
  "ed_zoom (commit x ed) = ed_zoom ed"
  by (simp_all add: commit_def Let_def)

lemma commit_other [simp]:
  "ed_history (commit x (ed\<lparr>ed_items := y, ed_dirty := b\<rparr>)) = ed_history (commit x ed)"
  "ed_history (commit x (ed\<lparr>ed_clipboard := c, ed_items := y, ed_dirty := b\<rparr>)) = ed_history (commit x ed)"
  by (simp_all add: commit_def Let_def)

lemma apply_pushed: "pushed next ed (apply_items next True ed)"
  by (simp add: apply_items_def pushed_def commit_fields)

lemma apply_pushed_select: "pushed next ed ((apply_items next True ed)\<lparr>ed_selected := s\<rparr>)"
  by (simp add: apply_items_def pushed_def commit_fields)

lemma apply_pushed_cut: "pushed next ed ((apply_items next True (ed\<lparr>ed_clipboard := c\<rparr>))\<lparr>ed_selected := s\<rparr>)"
  by (simp add: apply_items_def pushed_def commit_fields)

lemmas push_rules = apply_pushed apply_pushed_select apply_pushed_cut

lemmas edit_defs = addItem_def addBoundSymbol_def bindTagToItem_def bindPrimary_def updateItem_def updateMany_def
  deleteSelected_def deleteItem_def duplicateSelected_def nudge_def groupSelected_def ungroupSelected_def
  convertToCollection_def alignSelected_def sameSize_def zOrder_def distributeSelected_def flipSelected_def
  cut_selected_def paste_def commitNow_def

lemmas view_defs = copySelected_def selectMany_def toggleSelect_def selectForMenu_def selectAllItems_def zoomBy_def
  fitToScreen_def setBgColor_def setBgImageId_def setCanvasSize_def setShowGrid_def setSnapEnabled_def

lemma pushed_commit: "pushed (ed_items ed) ed (commit (ed_items ed) ed)"
  by (simp add: pushed_def)

lemma same_history_refl [simp]: "same_history ed ed"
  by (simp add: same_history_def)

lemma step_kinds:
  assumes "\<And>us. op \<noteq> OpLive us" "op \<noteq> OpUndo" "op \<noteq> OpRedo"
  shows "same_history ed (ed_step D op ed) \<or> (\<exists>ns. pushed ns ed (ed_step D op ed))"
  using assms
  by (cases op)
     (auto simp: edit_defs view_defs same_history_def Let_def split: option.split list.split z_dir.split prod.split
       intro: push_rules pushed_commit exI)

lemma pushed_ok: "pushed ns ed ed' \<Longrightarrow> hist_ok ed' \<and> at_present ed'"
  using commit_ok [of ns ed] commit_last [of ns ed] by (simp add: pushed_def hist_ok_def at_present_def)

lemma same_history_ok:
  "same_history ed ed' \<Longrightarrow> hist_ok ed' = hist_ok ed" "same_history ed ed' \<Longrightarrow> at_present ed' = at_present ed"
  by (simp_all add: same_history_def hist_ok_def at_present_def)

lemma live_history:
  "ed_history (updateItemsLive us ed) = ed_history ed" "ed_index (updateItemsLive us ed) = ed_index ed"
  "ed_shown (updateItemsLive us ed) = ed_shown ed"
  by (simp_all add: updateItemsLive_def apply_items_def)

lemma walk_present: "at_present ed \<Longrightarrow> at_present (undo ed)" "at_present ed \<Longrightarrow> at_present (redo ed)"
  by (auto simp: at_present_def undo_def redo_def Let_def)

lemma ed_step_ok: "hist_ok ed \<Longrightarrow> hist_ok (ed_step D op ed)"
proof (cases "(\<exists>us. op = OpLive us) \<or> op = OpUndo \<or> op = OpRedo")
  case True
  assume "hist_ok ed"
  with True undo_ok redo_ok live_history show ?thesis by (auto simp: hist_ok_def [of "updateItemsLive _ _"] hist_ok_def [of ed])
next
  case False
  assume "hist_ok ed"
  with False step_kinds [of op ed D] pushed_ok same_history_ok(1) show ?thesis by blast
qed

lemma step_present: "at_present ed \<Longrightarrow> (\<And>us. op \<noteq> OpLive us) \<Longrightarrow> at_present (ed_step D op ed)"
proof -
  assume a: "at_present ed" "\<And>us. op \<noteq> OpLive us"
  show ?thesis
  proof (cases "op = OpUndo \<or> op = OpRedo")
    case True
    with a(1) walk_present show ?thesis by auto
  next
    case False
    with a step_kinds [of op ed D] pushed_ok same_history_ok(2) show ?thesis by blast
  qed
qed

end
