(* ===== verification/Designer_Props.thy ===== *)
theory Designer_Props
  imports Designer_History
begin

text \<open>Properties of the designer: the undo history, the identity of items, saving and arranging.\<close>

section \<open>Undo and redo\<close>











lemma pushed_zip: "hist_ok ed \<Longrightarrow> pushed ns ed ed' \<Longrightarrow> zip_of ed' = zip_push 50 ns (zip_of ed)"
  using commit_zip [of ed ns] by (simp add: pushed_def zip_of_def)


lemma ed_run_ok: "hist_ok ed \<Longrightarrow> hist_ok (ed_run D ops ed)"
  by (induction ops arbitrary: ed) (simp_all add: ed_run_def ed_step_ok)




lemma seed_ok: "hist_ok (seed_from display doc ed)" "at_present (seed_from display doc ed)"
  by (simp_all add: seed_from_def hist_ok_def at_present_def Let_def)

definition demo_item :: "string \<Rightarrow> rat \<Rightarrow> rat \<Rightarrow> rat \<Rightarrow> rat \<Rightarrow> canvas_item" where
  "demo_item i x y w h = CanvasItem (bare_item i ''obc.auto.pump'' \<lparr>px = x, py = y\<rparr> \<lparr>wd = w, ht = h\<rparr>) None"

definition demo_doc :: display_content where
  "demo_doc = \<lparr>dc_items = [demo_item ''a'' 0 0 100 50, demo_item ''b'' 40 200 60 60], dc_settings = None\<rparr>"

definition demo_ed :: editor where
  "demo_ed = seed_from ''d1'' demo_doc fresh_editor"


text \<open>
  C37. Each operation is the zipper's: an undo steps back, a redo steps forth, and any other operation
  leaves the zipper or pushes the items it shows, dropping what was undone and what is older than fifty states; the items on
  the canvas are the zipper's present, a drag in progress aside.
\<close>

theorem designer_refines_zipper:
  assumes "hist_ok ed" "at_present ed" "\<And>us. op \<noteq> OpLive us" "ed' = ed_step D op ed"
  shows "present (zip_of ed') = ed_items ed' \<and>
         (if op = OpUndo then zip_of ed' = zip_back (zip_of ed)
          else if op = OpRedo then zip_of ed' = zip_forth (zip_of ed)
          else zip_of ed' = zip_of ed \<or> zip_of ed' = zip_push 50 (ed_items ed') (zip_of ed))"
proof -
  have "present (zip_of ed') = ed_items ed'" using step_present [OF assms(2,3)] assms(4) by (simp add: present_at)
  moreover have "zip_of ed' = zip_of ed \<or> zip_of ed' = zip_push 50 (ed_items ed') (zip_of ed)"
    if "op \<noteq> OpUndo" "op \<noteq> OpRedo"
  proof (cases "same_history ed ed'")
    case False
    with step_kinds [OF assms(3) that] assms(4) obtain ns where ns: "pushed ns ed ed'" by blast
    then have "ed_items ed' = ns" by (simp add: pushed_def)
    with pushed_zip [OF assms(1) ns] show ?thesis by simp
  qed (simp add: same_history_def zip_of_def)
  ultimately show ?thesis using hist.back_abs [OF assms(1)] hist.forth_abs [OF assms(1)] assms(4) by auto
qed

theorem designer_refines_zipper_witness:
  "zip_of (ed_step (\<lambda>_. None) OpUndo demo_ed) = zip_back (zip_of demo_ed)"
  using designer_refines_zipper [of demo_ed OpUndo "ed_step (\<lambda>_. None) OpUndo demo_ed" "\<lambda>_. None"]
  by (simp add: demo_ed_def seed_ok)

text \<open>
  The history is bounded and its index valid in every run from a loaded display: one to fifty states, the index within
  them, and the toolbar shows exactly that index and length, whatever is undone and redone.
\<close>

theorem history_bounded:
  assumes "ed = ed_run D ops (seed_from display doc ed0)"
  shows "1 \<le> length (ed_history ed) \<and> length (ed_history ed) \<le> 50 \<and> 0 \<le> ed_index ed \<and>
         ed_index ed < int (length (ed_history ed)) \<and> ed_shown ed = (ed_index ed, length (ed_history ed))"
  using ed_run_ok [OF seed_ok(1), of D ops display doc ed0] by (auto simp: assms hist_ok_def)

theorem history_bounded_witness:
  "length (ed_history (ed_run (\<lambda>_. None) (replicate 60 OpCommit) demo_ed)) \<le> 50"
  using history_bounded [OF refl, of "\<lambda>_. None" "replicate 60 OpCommit" "''d1''" demo_doc fresh_editor]
  by (simp add: demo_ed_def)

section \<open>The identity of items\<close>


definition keeps_id :: "(item_base \<Rightarrow> item_base) \<Rightarrow> bool" where
  "keeps_id f \<longleftrightarrow> (\<forall>b. ci_id (f b) = ci_id b)"












lemma edit_keeps [simp]:
  "keeps_id (move_by dx dy)" "keeps_id (\<lambda>b. b\<lparr>ci_groupId := g\<rparr>)" "keeps_id (\<lambda>b. b\<lparr>ci_position := p b\<rparr>)"
  "keeps_id (\<lambda>b. b\<lparr>ci_size := s\<rparr>)" "keeps_id (\<lambda>b. b\<lparr>ci_zIndex := z\<rparr>)" "keeps_id (\<lambda>b. b\<lparr>ci_bindings := m\<rparr>)"
  "keeps_id (\<lambda>b. case ax of AxisH \<Rightarrow> b\<lparr>ci_flipH := h b\<rparr> | AxisV \<Rightarrow> b\<lparr>ci_flipV := v b\<rparr>)"
  by (auto simp: keeps_id_def move_by_def split: axis.split)




lemma items_commit_select [simp]: "ed_items (apply_items ns snap ed) = ns"
  by (simp add: apply_items_def Let_def)









end
