(* ===== verification/Designer_Session.thy ===== *)
theory Designer_Session
  imports Designer_History
begin

text \<open>
  Saving a display from the designer: the editor beside the document the server holds, with saves under way.  A save
  answers with success or failure; a revert puts the published version on the server and seeds the canvas from the
  refetch, which may fail.
\<close>

section \<open>Sessions\<close>

record designer =
  dn_ed :: editor
  dn_server :: display_content
  dn_flight :: "display_content list"

datatype ds_event = SOp ed_op | SSave | SSaved | SSaveFailed | SRevert display_content "display_content option"

text \<open>The save button and the shortcut are dead while the canvas is clean.\<close>

fun ds_step :: "(string \<Rightarrow> symbol_def option) \<Rightarrow> string \<Rightarrow> ds_event \<Rightarrow> designer \<Rightarrow> designer" where
  "ds_step D display (SOp op) s = s\<lparr>dn_ed := ed_step D op (dn_ed s)\<rparr>"
| "ds_step D display SSave s =
     (if ed_dirty (dn_ed s) then s\<lparr>dn_flight := dn_flight s @ [save_payload (dn_ed s)]\<rparr> else s)"
| "ds_step D display SSaved s =
     (case dn_flight s of
        [] \<Rightarrow> s
      | p # ps \<Rightarrow> s\<lparr>dn_ed := save_done (dn_ed s), dn_server := p, dn_flight := ps\<rparr>)"
| "ds_step D display SSaveFailed s = s\<lparr>dn_flight := tl (dn_flight s)\<rparr>"
| "ds_step D display (SRevert published refetched) s =
     s\<lparr>dn_ed := revert_done display refetched (dn_ed s), dn_server := published\<rparr>"

definition ds_run :: "(string \<Rightarrow> symbol_def option) \<Rightarrow> string \<Rightarrow> ds_event list \<Rightarrow> designer \<Rightarrow> designer" where
  "ds_run D display evs s = fold (ds_step D display) evs s"

definition opened :: "string \<Rightarrow> display_content \<Rightarrow> designer" where
  "opened display doc =
     \<lparr>dn_ed = seed_effect display (fresh_editor\<lparr>ed_loaded := Some doc\<rparr>), dn_server = doc, dn_flight = []\<rparr>"

section \<open>What a clean canvas promises\<close>

text \<open>A designer opened on the document shows the same items, artboard, colour, image, grid size and report.\<close>

definition shows_same :: "string \<Rightarrow> editor \<Rightarrow> display_content \<Rightarrow> bool" where
  "shows_same display ed doc =
     (let r = seed_from display doc fresh_editor in
      ed_items r = ed_items ed \<and> ed_canvas r = ed_canvas ed \<and> ed_bgColor r = ed_bgColor ed \<and> ed_bgImage r = ed_bgImage ed \<and>
      ed_gridSize r = ed_gridSize ed \<and> ed_report r = ed_report ed)"







definition kept :: "editor \<Rightarrow> editor \<Rightarrow> bool" where
  "kept ed ed' \<longleftrightarrow>
     ed_canvas ed' = ed_canvas ed \<and> ed_bgColor ed' = ed_bgColor ed \<and> ed_bgImage ed' = ed_bgImage ed \<and>
     ed_gridSize ed' = ed_gridSize ed \<and> ed_report ed' = ed_report ed"

lemma kept_refl [simp]: "kept ed ed"
  by (simp add: kept_def)










lemma extent_eta [simp]: "\<lparr>wd = wd s, ht = ht s\<rparr> = (s :: extent)"
  by (cases s) simp


lemma seed_same: "shows_same display (seed_from d doc fresh_editor) doc"
  by (simp add: shows_same_def seed_from_def Let_def)










definition small_doc :: display_content where
  "small_doc = \<lparr>dc_items = [CanvasItem (bare_item ''a'' ''shape.rect'' \<lparr>px = 0, py = 0\<rparr> \<lparr>wd = 10, ht = 10\<rparr>) None], dc_settings = None\<rparr>"


lemma map_fixed: "map f xs = xs \<Longrightarrow> x \<in> set xs \<Longrightarrow> f x = x"
  by (induction xs) auto

text \<open>
  C32. An edit made while a save is under way is marked as saved: the answer of the save clears the mark of
  the edit too, although the server holds the items without it, so leaving the designer asks nothing and the edit is lost.
\<close>

theorem edit_during_save_unmarked:
  assumes "dn_flight s = []" "ed_dirty (dn_ed s)" "it \<in> set (ed_items (dn_ed s))" "item_id it \<in> set (ed_selected (dn_ed s))"
      and "dx \<noteq> 0" "t = ds_run D display [SSave, SOp (OpNudge dx dy), SSaved] s"
  shows "\<not> ed_dirty (dn_ed t) \<and> dc_items (dn_server t) = ed_items (dn_ed s) \<and> ed_items (dn_ed t) \<noteq> dc_items (dn_server t)"
proof -
  have t: "dn_server t = save_payload (dn_ed s)" "dn_ed t = save_done (nudge dx dy (dn_ed s))"
    using assms(1,2,6) by (simp_all add: ds_run_def)
  have "px (item_pos (patch_item (move_by dx dy) it)) = px (item_pos it) + dx" by (simp add: item_pos_def move_by_def)
  then have "patch_item (move_by dx dy) it \<noteq> it" using assms(5) by auto
  then have "map_selected (patch_item (move_by dx dy)) (dn_ed s) \<noteq> ed_items (dn_ed s)"
    using map_fixed [OF _ assms(3)] assms(4) by (fastforce simp: map_selected_def)
  then show ?thesis using t by (simp add: save_done_def nudge_def save_payload_def apply_items_def Let_def)
qed

theorem edit_during_save_unmarked_witness:
  "\<not> ed_dirty (dn_ed (ds_run (\<lambda>_. None) ''d'' [SSave, SOp (OpNudge 1 0), SSaved]
       (ds_run (\<lambda>_. None) ''d'' [SOp OpSelectAll, SOp (OpNudge 1 0)] (opened ''d'' small_doc))))"
  using edit_during_save_unmarked
    [of "ds_run (\<lambda>_. None) ''d'' [SOp OpSelectAll, SOp (OpNudge 1 0)] (opened ''d'' small_doc)",
     OF _ _ _ _ _ refl, of "patch_item (move_by 1 0) (hd (dc_items small_doc))" 1 "\<lambda>_. None" "''d''" 0]
  by (simp add: ds_run_def opened_def seed_effect_def seed_from_def small_doc_def view_defs nudge_def map_selected_def
      item_id_def move_by_def fresh_editor_def apply_items_def Let_def)

text \<open>
  A revert whose refetch failed seeds the canvas from the former document of the query and calls it clean.
\<close>

lemma revert_without_refetch:
  "dn_ed (ds_step D display (SRevert published None) s) =
     (case ed_loaded (dn_ed s) of
        Some doc \<Rightarrow> seed_from display doc ((dn_ed s)\<lparr>ed_dirty := False, ed_seeded := None\<rparr>)
      | None \<Rightarrow> (dn_ed s)\<lparr>ed_dirty := False, ed_seeded := None\<rparr>)"
  by (simp add: revert_done_def reseedFromServer_def seed_effect_def split: option.split)

end
