(* ===== verification/Designer_Canvas.thy ===== *)
theory Designer_Canvas
  imports Designer_Editor
begin

text \<open>
  The canvas of the designer (src/frontend-ob/src/components/Designer/DesignerCanvas.tsx): snapping and alignment guides,
  the drag, resize, rotate and marquee gestures, drops and keys; and the order of the layers panel (LayersPanel.tsx).

  Pointer positions are in screen units, \<open>origin\<close> is the corner of the canvas on the screen, \<open>angle\<close> the arc tangent of
  a vector in degrees.  Moves are those an animation frame processes, the last of each frame.  Panning and the
  wheel's scrolling leave the document as it is.
\<close>

section \<open>Snapping\<close>

definition snap :: "rat \<Rightarrow> rat \<Rightarrow> rat" where
  "snap v g = js_round (v / g) * g"

definition GUIDE_TOLERANCE :: rat where
  "GUIDE_TOLERANCE = 6"

record guide =
  gd_axis :: axis
  gd_at :: rat

record moving_item =
  mv_id :: string
  mv_x :: rat
  mv_y :: rat

definition size_of :: "canvas_item list \<Rightarrow> string \<Rightarrow> extent" where
  "size_of items i = (case find (\<lambda>it. item_id it = i) items of Some it \<Rightarrow> item_size it | None \<Rightarrow> \<lparr>wd = 0, ht = 0\<rparr>)"

text \<open>The closest pair of a line of the selection and a line of another item, below the tolerance: the first of several.\<close>

definition best_step :: "rat \<times> rat \<Rightarrow> rat \<times> rat option \<times> rat \<Rightarrow> rat \<times> rat option \<times> rat" where
  "best_step st acc =
     (case (st, acc) of ((s, t), (d, on, near)) \<Rightarrow> if \<bar>t - s\<bar> < near then (t - s, Some t, \<bar>t - s\<bar>) else (d, on, near))"

definition best_snap :: "rat \<Rightarrow> rat list \<Rightarrow> rat list \<Rightarrow> rat \<times> rat option \<times> rat" where
  "best_snap tol sel targets = fold best_step (List.product sel targets) (0, None, tol)"

definition sel_lines :: "rat \<Rightarrow> rat \<Rightarrow> rat list" where
  "sel_lines lo hi = [lo, (lo + hi) / 2, hi]"

definition lines_x :: "canvas_item \<Rightarrow> rat list" where
  "lines_x it = [px (item_pos it), px (item_pos it) + wd (item_size it) / 2, item_right it]"

definition lines_y :: "canvas_item \<Rightarrow> rat list" where
  "lines_y it = [py (item_pos it), py (item_pos it) + ht (item_size it) / 2, item_bottom it]"

definition guide_items :: "moving_item list \<Rightarrow> canvas_item list \<Rightarrow> canvas_item list" where
  "guide_items moving items =
     filter (\<lambda>it. \<not> (set_mem (map mv_id moving) (item_id it) \<or> item_hidden it)) items"

definition computeSmartSnap :: "moving_item list \<Rightarrow> canvas_item list \<Rightarrow> rat \<Rightarrow> rat \<times> rat \<times> guide list" where
  "computeSmartSnap moving items tol =
     (if moving = [] then (0, 0, [])
      else
        let minX = min_list (map mv_x moving); minY = min_list (map mv_y moving);
            maxX = max_list (map (\<lambda>m. mv_x m + wd (size_of items (mv_id m))) moving);
            maxY = max_list (map (\<lambda>m. mv_y m + ht (size_of items (mv_id m))) moving);
            others = guide_items moving items;
            (dx, atx, _) = best_snap tol (sel_lines minX maxX) (concat (map lines_x others));
            (dy, aty, _) = best_snap tol (sel_lines minY maxY) (concat (map lines_y others)) in
        (dx, dy, (case atx of Some t \<Rightarrow> [\<lparr>gd_axis = AxisH, gd_at = t\<rparr>] | None \<Rightarrow> []) @
                 (case aty of Some t \<Rightarrow> [\<lparr>gd_axis = AxisV, gd_at = t\<rparr>] | None \<Rightarrow> [])))"

section \<open>Gestures\<close>

record drag_state =
  dr_sx :: rat
  dr_sy :: rat
  dr_starts :: "(string \<times> point) list"

record resize_state =
  rs_handle :: string
  rs_sx :: rat
  rs_sy :: rat
  rs_w :: rat
  rs_h :: rat
  rs_x :: rat
  rs_y :: rat
  rs_id :: string

record rotate_state =
  ro_id :: string
  ro_cx :: rat
  ro_cy :: rat

record marquee_state =
  mq_x0 :: rat
  mq_y0 :: rat
  mq_x1 :: rat
  mq_y1 :: rat

record canvas =
  cv_design :: bool
  cv_drag :: "drag_state option"
  cv_resize :: "resize_state option"
  cv_rotate :: "rotate_state option"
  cv_marquee :: "marquee_state option"
  cv_guides :: "guide list"
  cv_space :: bool
  cv_ed :: editor

record pointer =
  pt_x :: rat
  pt_y :: rat
  pt_shift :: bool
  pt_ctrl :: bool
  pt_alt :: bool

definition toCanvas :: "rat \<times> rat \<Rightarrow> rat \<Rightarrow> pointer \<Rightarrow> point" where
  "toCanvas origin zoom e = \<lparr>px = (pt_x e - fst origin) / zoom, py = (pt_y e - snd origin) / zoom\<rparr>"

definition groupMembers :: "canvas_item list \<Rightarrow> canvas_item \<Rightarrow> string list" where
  "groupMembers items it =
     (if truthy (ci_groupId (ci_base it))
      then map item_id (filter (\<lambda>i. ci_groupId (ci_base i) = ci_groupId (ci_base it)) items) else [item_id it])"

definition starts_of :: "canvas_item list \<Rightarrow> string list \<Rightarrow> (string \<times> point) list" where
  "starts_of items ids =
     fold (\<lambda>i m. case find (\<lambda>it. item_id it = i) items of Some it \<Rightarrow> AList.update i (item_pos it) m | None \<Rightarrow> m) ids []"

text \<open>\<open>primary\<close> is the left button; the middle button and Space are left to panning.\<close>

definition itemMouseDown :: "nat \<Rightarrow> pointer \<Rightarrow> canvas_item \<Rightarrow> canvas \<Rightarrow> canvas" where
  "itemMouseDown button e it cv =
     (if button = 1 \<or> cv_space cv \<or> \<not> cv_design cv \<or> item_locked it then cv
      else
        let ed = cv_ed cv; members = groupMembers (ed_items ed) it in
        if pt_shift e \<or> pt_ctrl e then cv\<lparr>cv_ed := toggleSelect (item_id it) ed\<rparr>
        else
          let (sel, ed1) = (if set_mem (ed_selected ed) (item_id it) then (ed_selected ed, ed)
                            else (members, selectMany members ed)) in
          if button = 0 then
            cv\<lparr>cv_ed := ed1,
               cv_drag := Some \<lparr>dr_sx = pt_x e, dr_sy = pt_y e,
                                dr_starts = starts_of (ed_items ed) (if sel = [] then members else sel)\<rparr>\<rparr>
          else cv\<lparr>cv_ed := ed1\<rparr>)"

definition resizeMouseDown :: "pointer \<Rightarrow> canvas_item \<Rightarrow> string \<Rightarrow> canvas \<Rightarrow> canvas" where
  "resizeMouseDown e it handle cv =
     (if \<not> cv_design cv \<or> item_locked it then cv
      else cv\<lparr>cv_resize := Some \<lparr>rs_handle = handle, rs_sx = pt_x e, rs_sy = pt_y e, rs_w = wd (item_size it),
        rs_h = ht (item_size it), rs_x = px (item_pos it), rs_y = py (item_pos it), rs_id = item_id it\<rparr>\<rparr>)"

definition rotateMouseDown :: "canvas_item \<Rightarrow> canvas \<Rightarrow> canvas" where
  "rotateMouseDown it cv =
     (if \<not> cv_design cv \<or> item_locked it then cv
      else cv\<lparr>cv_rotate := Some \<lparr>ro_id = item_id it, ro_cx = px (item_pos it) + wd (item_size it) / 2,
        ro_cy = py (item_pos it) + ht (item_size it) / 2\<rparr>\<rparr>)"

definition canvasMouseDown :: "rat \<times> rat \<Rightarrow> bool \<Rightarrow> pointer \<Rightarrow> canvas \<Rightarrow> canvas" where
  "canvasMouseDown origin onEmpty e cv =
     (if \<not> cv_design cv \<or> \<not> onEmpty \<or> cv_space cv then cv
      else let p = toCanvas origin (ed_zoom (cv_ed cv)) e;
               cv1 = cv\<lparr>cv_marquee := Some \<lparr>mq_x0 = px p, mq_y0 = py p, mq_x1 = px p, mq_y1 = py p\<rparr>\<rparr> in
           if pt_shift e \<or> pt_ctrl e then cv1 else cv1\<lparr>cv_ed := selectMany [] (cv_ed cv)\<rparr>)"

definition drag_targets :: "editor \<Rightarrow> drag_state \<Rightarrow> pointer \<Rightarrow> moving_item list" where
  "drag_targets ed d e =
     (let g = (\<lambda>v. if ed_snap ed \<and> \<not> pt_alt e then snap v (ed_gridSize ed) else js_round v);
          dx = (pt_x e - dr_sx d) / ed_zoom ed; dy = (pt_y e - dr_sy d) / ed_zoom ed in
      map (\<lambda>(i, s). \<lparr>mv_id = i, mv_x = g (px s + dx), mv_y = g (py s + dy)\<rparr>) (dr_starts d))"

definition drag_adjust :: "editor \<Rightarrow> drag_state \<Rightarrow> pointer \<Rightarrow> rat \<times> rat \<times> guide list" where
  "drag_adjust ed d e =
     (if ed_snap ed \<and> \<not> pt_alt e
      then computeSmartSnap (drag_targets ed d e) (ed_items ed) (GUIDE_TOLERANCE / ed_zoom ed) else (0, 0, []))"

definition place_at :: "rat \<Rightarrow> rat \<Rightarrow> item_base \<Rightarrow> item_base" where
  "place_at x y b = b\<lparr>ci_position := \<lparr>px = x, py = y\<rparr>\<rparr>"

definition drag_updates :: "editor \<Rightarrow> drag_state \<Rightarrow> pointer \<Rightarrow> (string \<times> (item_base \<Rightarrow> item_base)) list" where
  "drag_updates ed d e =
     (case drag_adjust ed d e of (dx, dy, _) \<Rightarrow>
        map (\<lambda>m. (mv_id m, place_at (mv_x m + dx) (mv_y m + dy))) (drag_targets ed d e))"

definition has :: "string \<Rightarrow> char \<Rightarrow> bool" where
  "has handle c = set_mem handle c"

text \<open>The size and position a resize asks for, before they are snapped.\<close>

definition resize_box :: "rat \<Rightarrow> resize_state \<Rightarrow> pointer \<Rightarrow> rat \<times> rat \<times> rat \<times> rat" where
  "resize_box zoom r e =
     (let dx = (pt_x e - rs_sx r) / zoom; dy = (pt_y e - rs_sy r) / zoom; hd = rs_handle r;
          w1 = (if has hd (CHR ''e'') then max 20 (rs_w r + dx) else rs_w r);
          w2 = (if has hd (CHR ''w'') then max 20 (rs_w r - dx) else w1);
          h1 = (if has hd (CHR ''s'') then max 20 (rs_h r + dy) else rs_h r);
          h2 = (if has hd (CHR ''n'') then max 20 (rs_h r - dy) else h1);
          aspect = rs_w r / rs_h r;
          wChanged = (has hd (CHR ''e'') \<or> has hd (CHR ''w'')); hChanged = (has hd (CHR ''n'') \<or> has hd (CHR ''s''));
          (w, h) = (if pt_shift e \<and> 0 < rs_w r \<and> 0 < rs_h r
                    then if hChanged \<and> \<not> wChanged then (max 20 (h2 * aspect), h2) else (w2, max 20 (w2 / aspect))
                    else (w2, h2));
          x = (if has hd (CHR ''w'') then rs_x r + (rs_w r - w) else rs_x r);
          y = (if has hd (CHR ''n'') then rs_y r + (rs_h r - h) else rs_y r) in
      (x, y, w, h))"

definition resize_patch :: "editor \<Rightarrow> resize_state \<Rightarrow> pointer \<Rightarrow> item_base \<Rightarrow> item_base" where
  "resize_patch ed r e b =
     (case resize_box (ed_zoom ed) r e of (x, y, w, h) \<Rightarrow>
        let g = ed_gridSize ed in
        b\<lparr>ci_position := \<lparr>px = snap x g, py = snap y g\<rparr>, ci_size := \<lparr>wd = snap w g, ht = snap h g\<rparr>\<rparr>)"

definition processMove :: "(rat \<Rightarrow> rat \<Rightarrow> rat) \<Rightarrow> rat \<times> rat \<Rightarrow> pointer \<Rightarrow> canvas \<Rightarrow> canvas" where
  "processMove angle origin e cv =
     (let ed = cv_ed cv in
      case cv_drag cv of
        Some d \<Rightarrow> cv\<lparr>cv_guides := snd (snd (drag_adjust ed d e)), cv_ed := updateItemsLive (drag_updates ed d e) ed\<rparr>
      | None \<Rightarrow> (case cv_resize cv of
          Some r \<Rightarrow> cv\<lparr>cv_ed := updateItemsLive [(rs_id r, resize_patch ed r e)] ed\<rparr>
        | None \<Rightarrow> (case cv_rotate cv of
            Some r \<Rightarrow>
              let p = toCanvas origin (ed_zoom ed) e;
                  deg = js_round ((angle (py p - ro_cy r) (px p - ro_cx r) + 90) / 5) * 5 in
              cv\<lparr>cv_ed := updateItemsLive [(ro_id r, \<lambda>b. b\<lparr>ci_rotation := Some deg\<rparr>)] ed\<rparr>
          | None \<Rightarrow> (case cv_marquee cv of
              Some m \<Rightarrow> let p = toCanvas origin (ed_zoom ed) e in cv\<lparr>cv_marquee := Some (m\<lparr>mq_x1 := px p, mq_y1 := py p\<rparr>)\<rparr>
            | None \<Rightarrow> cv))))"

definition marquee_hits :: "marquee_state \<Rightarrow> canvas_item list \<Rightarrow> string list option" where
  "marquee_hits m items =
     (let x = min (mq_x0 m) (mq_x1 m); y = min (mq_y0 m) (mq_y1 m);
          w = \<bar>mq_x1 m - mq_x0 m\<bar>; h = \<bar>mq_y1 m - mq_y0 m\<bar> in
      if w > 3 \<or> h > 3
      then Some (map item_id (filter (\<lambda>it. px (item_pos it) < x + w \<and> item_right it > x \<and>
                                           py (item_pos it) < y + h \<and> item_bottom it > y) items))
      else None)"

definition mouseUp :: "canvas \<Rightarrow> canvas" where
  "mouseUp cv =
     (let ed1 = (case cv_marquee cv of
                   Some m \<Rightarrow> (case marquee_hits m (ed_items (cv_ed cv)) of Some ids \<Rightarrow> selectMany ids (cv_ed cv) | None \<Rightarrow> cv_ed cv)
                 | None \<Rightarrow> cv_ed cv);
          ed2 = (if cv_drag cv \<noteq> None \<or> cv_resize cv \<noteq> None \<or> cv_rotate cv \<noteq> None then commitNow ed1 else ed1) in
      cv\<lparr>cv_ed := ed2, cv_marquee := None, cv_drag := None, cv_resize := None, cv_rotate := None\<rparr>)"

section \<open>Keys and drops\<close>

definition keyDown :: "string \<Rightarrow> bool \<Rightarrow> bool \<Rightarrow> canvas \<Rightarrow> canvas" where
  "keyDown key shift typing cv =
     (if typing then cv
      else if key = '' '' then cv\<lparr>cv_space := True\<rparr>
      else if \<not> cv_design cv \<or> ed_selected (cv_ed cv) = [] then cv
      else let n = (if shift then 10 else 1); ed = cv_ed cv in
        if key = ''Delete'' \<or> key = ''Backspace'' then cv\<lparr>cv_ed := deleteSelected ed\<rparr>
        else if key = ''ArrowUp'' then cv\<lparr>cv_ed := nudge 0 (- n) ed\<rparr>
        else if key = ''ArrowDown'' then cv\<lparr>cv_ed := nudge 0 n ed\<rparr>
        else if key = ''ArrowLeft'' then cv\<lparr>cv_ed := nudge (- n) 0 ed\<rparr>
        else if key = ''ArrowRight'' then cv\<lparr>cv_ed := nudge n 0 ed\<rparr>
        else if key = ''Escape'' then cv\<lparr>cv_ed := selectMany [] ed\<rparr>
        else cv)"

definition keyUp :: "string \<Rightarrow> canvas \<Rightarrow> canvas" where
  "keyUp key cv = (if key = '' '' then cv\<lparr>cv_space := False\<rparr> else cv)"

definition covers :: "point \<Rightarrow> canvas_item \<Rightarrow> bool" where
  "covers p it \<longleftrightarrow> px (item_pos it) \<le> px p \<and> px p \<le> item_right it \<and> py (item_pos it) \<le> py p \<and> py p \<le> item_bottom it"

text \<open>The symbol that a dropped tag is bound to: items by falling level, stable, the first under the pointer.\<close>

definition drop_hit :: "point \<Rightarrow> canvas_item list \<Rightarrow> canvas_item option" where
  "drop_hit p items = find (covers p) (sort_key (\<lambda>it. - item_z it) items)"

definition dropSymbol :: "(string \<Rightarrow> symbol_def option) \<Rightarrow> string \<Rightarrow> rat \<times> rat \<Rightarrow> string \<Rightarrow> pointer \<Rightarrow> editor \<Rightarrow> editor" where
  "dropSymbol find_def gen origin t e ed =
     (let p = toCanvas origin (ed_zoom ed) e; d = getDefaultSizeSync find_def t; g = ed_gridSize ed in
      addItem find_def gen t \<lparr>px = snap (px p - wd d / 2) g, py = snap (py p - ht d / 2) g\<rparr> ed)"

definition dropTag :: "(string \<Rightarrow> symbol_def option) \<Rightarrow> string \<Rightarrow> rat \<times> rat \<Rightarrow> string \<Rightarrow> pointer \<Rightarrow> editor \<Rightarrow> editor" where
  "dropTag find_def gen origin path e ed =
     (let p = toCanvas origin (ed_zoom ed) e; g = ed_gridSize ed in
      case drop_hit p (ed_items ed) of
        Some it \<Rightarrow> bindTagToItem find_def (item_id it) path ed
      | None \<Rightarrow> addBoundSymbol find_def gen path \<lparr>px = snap (px p) g, py = snap (py p) g\<rparr> ed)"

text \<open>The order of painting, the last on top, and which items are painted.\<close>

definition painted :: "bool \<Rightarrow> canvas_item list \<Rightarrow> canvas_item list" where
  "painted design items = filter (\<lambda>it. design \<or> \<not> item_hidden it) (sort_key item_z items)"

definition itemName :: "canvas_item \<Rightarrow> string" where
  "itemName it =
     (if truthy (ci_label (ci_base it)) then the (ci_label (ci_base it))
      else case find (\<lambda>v. set_mem v (CHR ''/'')) (map snd (nullish (ci_bindings (ci_base it)) [])) of
             Some v \<Rightarrow> ''{'' @ path_leaf v @ ''}''
           | None \<Rightarrow> last (js_split (CHR ''.'') (ci_type (ci_base it))))"

definition layer_rows :: "string \<Rightarrow> canvas_item list \<Rightarrow> canvas_item list" where
  "layer_rows text items =
     (let q = js_lower (js_trim text) in
      filter (\<lambda>it. q = [] \<or> js_includes (js_lower (itemName it)) q \<or> js_includes (js_lower (ci_type (ci_base it))) q)
        (sort_key (\<lambda>it. - item_z it) items))"

end
