(* ===== verification/Canvas_Props.thy ===== *)
theory Canvas_Props
  imports Designer_Canvas
begin

text \<open>Properties of the gestures on the canvas: guides, drags, resizes, drops.\<close>

section \<open>Alignment guides\<close>

definition snap_result :: "rat \<Rightarrow> (rat \<times> rat) list \<Rightarrow> rat \<times> rat option \<times> rat \<Rightarrow> bool" where
  "snap_result tol pairs r =
     (case r of (d, on, near) \<Rightarrow>
        (\<forall>(s, t) \<in> set pairs. near \<le> \<bar>t - s\<bar>) \<and>
        ((on = None \<and> d = 0 \<and> near = tol) \<or> (\<exists>(s, t) \<in> set pairs. on = Some t \<and> d = t - s \<and> near = \<bar>d\<bar> \<and> near < tol)))"

lemma best_step_simp [simp]:
  "best_step (s, t) (d, on, near) = (if \<bar>t - s\<bar> < near then (t - s, Some t, \<bar>t - s\<bar>) else (d, on, near))"
  by (simp add: best_step_def)

lemma best_fold: "snap_result tol pairs (fold best_step pairs (0, None, tol))"
proof (induction pairs rule: rev_induct)
  case (snoc st pairs)
  obtain s t where st: "st = (s, t)" by (cases st)
  obtain d on near where r: "fold best_step pairs (0, None, tol) = (d, on, near)" by (metis prod_cases3)
  have i: "snap_result tol pairs (d, on, near)" using snoc r by simp
  show ?case
  proof (cases "\<bar>t - s\<bar> < near")
    case True
    with i have "snap_result tol (pairs @ [st]) (t - s, Some t, \<bar>t - s\<bar>)"
      by (fastforce simp: snap_result_def st)
    then show ?thesis by (simp add: r st True)
  next
    case False
    with i have "snap_result tol (pairs @ [st]) (d, on, near)" by (auto simp: snap_result_def st)
    then show ?thesis by (simp add: r st False)
  qed
qed (simp add: snap_result_def)

lemma best_snap_sound:
  assumes "best_snap tol sel targets = (d, on, near)" "0 < tol"
  shows "\<bar>d\<bar> < tol \<and> (\<forall>t. on = Some t \<longrightarrow> t \<in> set targets \<and> t - d \<in> set sel) \<and>
         (on \<noteq> None \<longrightarrow> (\<forall>s \<in> set sel. \<forall>t \<in> set targets. \<bar>d\<bar> \<le> \<bar>t - s\<bar>))"
  using best_fold [of tol "List.product sel targets"] assms by (fastforce simp: best_snap_def snap_result_def)

text \<open>
  C35. Snapping to a guide moves a dragged selection by less than the tolerance, and every guide drawn is true: it is an
  edge or centre of an item that is visible and not dragged, and after the correction an edge or centre of the
  selection lies exactly on it, no other pair being closer.
\<close>

theorem smart_snap_sound:
  assumes "computeSmartSnap moving items tol = (dx, dy, gs)" "0 < tol" "moving \<noteq> []"
      and "sx = sel_lines (min_list (map mv_x moving)) (max_list (map (\<lambda>m. mv_x m + wd (size_of items (mv_id m))) moving))"
      and "sy = sel_lines (min_list (map mv_y moving)) (max_list (map (\<lambda>m. mv_y m + ht (size_of items (mv_id m))) moving))"
  shows "\<bar>dx\<bar> < tol \<and> \<bar>dy\<bar> < tol \<and>
         (\<forall>g \<in> set gs. \<exists>it \<in> set items. \<not> item_hidden it \<and> item_id it \<notin> set (map mv_id moving) \<and>
            (case gd_axis g of
               AxisH \<Rightarrow> gd_at g \<in> set (lines_x it) \<and> gd_at g \<in> set (map ((+) dx) sx) \<and>
                        (\<forall>s \<in> set sx. \<forall>t \<in> set (lines_x it). \<bar>dx\<bar> \<le> \<bar>t - s\<bar>)
             | AxisV \<Rightarrow> gd_at g \<in> set (lines_y it) \<and> gd_at g \<in> set (map ((+) dy) sy) \<and>
                        (\<forall>s \<in> set sy. \<forall>t \<in> set (lines_y it). \<bar>dy\<bar> \<le> \<bar>t - s\<bar>)))"
proof -
  define others where "others = guide_items moving items"
  obtain ax ox nx where x: "best_snap tol sx (concat (map lines_x others)) = (ax, ox, nx)" by (metis prod_cases3)
  obtain ay oy ny where y: "best_snap tol sy (concat (map lines_y others)) = (ay, oy, ny)" by (metis prod_cases3)
  have r: "dx = ax" "dy = ay" "gs = (case ox of Some t \<Rightarrow> [\<lparr>gd_axis = AxisH, gd_at = t\<rparr>] | None \<Rightarrow> []) @
      (case oy of Some t \<Rightarrow> [\<lparr>gd_axis = AxisV, gd_at = t\<rparr>] | None \<Rightarrow> [])"
    using assms(1,3) x y by (auto simp: computeSmartSnap_def Let_def others_def assms(4,5))
  have o: "it \<in> set items \<and> \<not> item_hidden it \<and> item_id it \<notin> set (map mv_id moving)" if "it \<in> set others" for it
    using that by (auto simp: others_def guide_items_def)
  note bx = best_snap_sound [OF x assms(2)] and by' = best_snap_sound [OF y assms(2)]
  have hx: "\<exists>it \<in> set items. \<not> item_hidden it \<and> item_id it \<notin> set (map mv_id moving) \<and> t \<in> set (lines_x it) \<and>
      t \<in> set (map ((+) dx) sx) \<and> (\<forall>s \<in> set sx. \<forall>t \<in> set (lines_x it). \<bar>dx\<bar> \<le> \<bar>t - s\<bar>)" if "ox = Some t" for t
  proof -
    have "t \<in> set (concat (map lines_x others))" "t - ax \<in> set sx" using bx that by blast+
    then obtain it where it: "it \<in> set others" "t \<in> set (lines_x it)" by auto
    have m: "t \<in> set (map ((+) ax) sx)" using \<open>t - ax \<in> set sx\<close> by (force simp: image_iff)
    have "\<forall>s \<in> set sx. \<forall>t \<in> set (lines_x it). \<bar>ax\<bar> \<le> \<bar>t - s\<bar>" using bx that it(1) by fastforce
    then show ?thesis using it o m r(1) by blast
  qed
  have hy: "\<exists>it \<in> set items. \<not> item_hidden it \<and> item_id it \<notin> set (map mv_id moving) \<and> t \<in> set (lines_y it) \<and>
      t \<in> set (map ((+) dy) sy) \<and> (\<forall>s \<in> set sy. \<forall>t \<in> set (lines_y it). \<bar>dy\<bar> \<le> \<bar>t - s\<bar>)" if "oy = Some t" for t
  proof -
    have "t \<in> set (concat (map lines_y others))" "t - ay \<in> set sy" using by' that by blast+
    then obtain it where it: "it \<in> set others" "t \<in> set (lines_y it)" by auto
    have m: "t \<in> set (map ((+) ay) sy)" using \<open>t - ay \<in> set sy\<close> by (force simp: image_iff)
    have "\<forall>s \<in> set sy. \<forall>t \<in> set (lines_y it). \<bar>ay\<bar> \<le> \<bar>t - s\<bar>" using by' that it(1) by fastforce
    then show ?thesis using it o m r(2) by blast
  qed
  have "gd_axis g = AxisH \<and> ox = Some (gd_at g) \<or> gd_axis g = AxisV \<and> oy = Some (gd_at g)" if "g \<in> set gs" for g
    using that by (auto simp: r(3) split: option.splits)
  then show ?thesis using bx by' hx hy r(1,2) by (fastforce split: axis.split)
qed

definition box_item :: "string \<Rightarrow> rat \<Rightarrow> rat \<Rightarrow> canvas_item" where
  "box_item i x y = CanvasItem (bare_item i ''shape.rect'' \<lparr>px = x, py = y\<rparr> \<lparr>wd = 10, ht = 10\<rparr>) None"

theorem smart_snap_sound_witness:
  "\<bar>fst (computeSmartSnap [\<lparr>mv_id = ''a'', mv_x = 2, mv_y = 90\<rparr>] [box_item ''a'' 0 0, box_item ''b'' 4 40] 6)\<bar> < 6"
proof -
  obtain dx dy gs where r: "computeSmartSnap [\<lparr>mv_id = ''a'', mv_x = 2, mv_y = 90\<rparr>]
      [box_item ''a'' 0 0, box_item ''b'' 4 40] 6 = (dx, dy, gs)" by (metis prod_cases3)
  show ?thesis using smart_snap_sound [OF r _ _ refl refl] by (simp add: r)
qed

section \<open>Drags\<close>

lemma place_place [simp]: "patch_item (place_at x y) (patch_item (place_at x' y') it) = patch_item (place_at x y) it"
  by (simp add: patch_item_def place_at_def)

definition placed :: "(string \<times> (item_base \<Rightarrow> item_base)) list \<Rightarrow> canvas_item \<Rightarrow> canvas_item" where
  "placed us it = (case map_of (rev us) (item_id it) of Some f \<Rightarrow> patch_item f it | None \<Rightarrow> it)"

lemma live_items: "ed_items (updateItemsLive us ed) = map (placed us) (ed_items ed)"
  by (simp add: updateItemsLive_def apply_items_def placed_def Let_def)

definition placing :: "(string \<times> (item_base \<Rightarrow> item_base)) list \<Rightarrow> bool" where
  "placing us \<longleftrightarrow> (\<forall>(i, f) \<in> set us. \<exists>x y. f = place_at x y)"

lemma placed_cases:
  assumes "placing us"
  shows "item_id it \<notin> set (map fst us) \<and> placed us it = it \<or>
         item_id it \<in> set (map fst us) \<and> (\<exists>x y. map_of (rev us) (item_id it) = Some (place_at x y) \<and>
           placed us it = patch_item (place_at x y) it)"
proof (cases "map_of (rev us) (item_id it)")
  case None
  then have "item_id it \<notin> set (map fst us)" by (simp add: map_of_eq_None_iff)
  with None show ?thesis by (simp add: placed_def)
next
  case (Some f)
  then have "(item_id it, f) \<in> set us" using map_of_SomeD by fastforce
  with assms obtain x y where "f = place_at x y" by (auto simp: placing_def)
  with Some \<open>(item_id it, f) \<in> set us\<close> show ?thesis by (force simp: placed_def)
qed

lemma placed_same [simp]:
  assumes "placing us"
  shows "item_id (placed us it) = item_id it" "item_size (placed us it) = item_size it" "item_hidden (placed us it) = item_hidden it"
  using placed_cases [OF assms, of it] by (auto simp: item_defs place_at_def)

lemma placed_twice:
  assumes "placing us" "placing vs" "set (map fst us) = set (map fst vs)"
  shows "placed vs (placed us it) = placed vs it"
proof -
  have "item_id (placed us it) = item_id it" using assms(1) by simp
  then show ?thesis
    using placed_cases [OF assms(1), of it] placed_cases [OF assms(2), of it] placed_cases [OF assms(2), of "placed us it"] assms(3)
    by auto
qed

lemma updates_placing: "placing (drag_updates ed d e)"
  by (auto simp: placing_def drag_updates_def split: prod.split)

lemma updates_ids: "map fst (drag_updates ed d e) = map fst (dr_starts d)"
  by (simp add: drag_updates_def drag_targets_def comp_def case_prod_beta Let_def split: prod.split)

lemma targets_ids: "map mv_id (drag_targets ed d e) = map fst (dr_starts d)"
  by (simp add: drag_targets_def comp_def case_prod_beta Let_def)

lemma find_map_same: "(\<And>x. P (f x) = P x) \<Longrightarrow> find P (map f xs) = map_option f (find P xs)"
  by (induction xs) auto

lemma size_of_placed: "placing us \<Longrightarrow> size_of (map (placed us) items) i = size_of items i"
  by (simp add: size_of_def find_map_same split: option.split)

lemma guide_items_placed:
  assumes "placing us" "map fst us = map mv_id moving"
  shows "guide_items moving (map (placed us) items) = guide_items moving items"
proof (induction items)
  case (Cons it items)
  have "item_id it \<in> set (map fst us) \<or> placed us it = it" using placed_cases [OF assms(1), of it] by blast
  then have "item_id it \<in> set (map mv_id moving) \<or> placed us it = it" by (simp only: assms(2))
  with Cons show ?case using assms(1) by (auto simp: guide_items_def)
qed (simp add: guide_items_def)

lemma snap_placed:
  "placing us \<Longrightarrow> map fst us = map mv_id moving \<Longrightarrow>
   computeSmartSnap moving (map (placed us) items) tol = computeSmartSnap moving items tol"
  by (simp add: computeSmartSnap_def size_of_placed guide_items_placed)

lemma live_fields [simp]:
  "ed_zoom (updateItemsLive us ed) = ed_zoom ed" "ed_snap (updateItemsLive us ed) = ed_snap ed"
  "ed_gridSize (updateItemsLive us ed) = ed_gridSize ed"
  by (simp_all add: updateItemsLive_def apply_items_def Let_def)

lemma updates_again:
  "drag_updates (updateItemsLive (drag_updates ed d e) ed) d e' = drag_updates ed d e'"
  "drag_adjust (updateItemsLive (drag_updates ed d e) ed) d e' = drag_adjust ed d e'"
proof -
  have t: "drag_targets (updateItemsLive (drag_updates ed d e) ed) d e' = drag_targets ed d e'"
    unfolding drag_targets_def live_fields ..
  show "drag_adjust (updateItemsLive (drag_updates ed d e) ed) d e' = drag_adjust ed d e'"
    by (simp add: drag_adjust_def t live_items snap_placed updates_placing updates_ids targets_ids)
  then show "drag_updates (updateItemsLive (drag_updates ed d e) ed) d e' = drag_updates ed d e'"
    unfolding drag_updates_def [of "updateItemsLive (drag_updates ed d e) ed" d e'] drag_updates_def [of ed d e'] t
    by simp
qed

text \<open>
  C36. The outcome of a drag does not depend on its path: after any moves of the pointer, the whole state of the canvas is what
  the last move alone gives, guides and snapping included.
\<close>

theorem drag_path_independent:
  assumes "cv_drag cv = Some d"
  shows "processMove angle origin e' (fold (processMove angle origin) es cv) = processMove angle origin e' cv"
proof -
  have two: "processMove angle origin e' (processMove angle origin e c) = processMove angle origin e' c"
    if c: "cv_drag c = Some d" for c e
  proof -
    define us where "us = drag_updates (cv_ed c) d e"
    define vs where "vs = drag_updates (cv_ed c) d e'"
    have "map (placed vs) (map (placed us) its) = map (placed vs) its" for its
      by (simp add: placed_twice us_def vs_def updates_placing updates_ids)
    then have "updateItemsLive vs (updateItemsLive us (cv_ed c)) = updateItemsLive vs (cv_ed c)"
      by (simp add: updateItemsLive_def apply_items_def Let_def flip: placed_def)
    then show ?thesis using c by (simp add: processMove_def Let_def updates_again us_def vs_def)
  qed
  have keep: "cv_drag (processMove angle origin e c) = cv_drag c" if "cv_drag c = Some d" for c e
    using that by (simp add: processMove_def Let_def)
  show ?thesis using assms
  proof (induction es arbitrary: cv)
    case (Cons e es)
    have "cv_drag (processMove angle origin e cv) = Some d" using keep Cons.prems by simp
    from Cons.IH [OF this] show ?case using two [OF Cons.prems] by simp
  qed simp
qed

definition demo_canvas :: canvas where
  "demo_canvas =
     \<lparr>cv_design = True, cv_drag = None, cv_resize = None, cv_rotate = None, cv_marquee = None, cv_guides = [], cv_space = False,
      cv_ed = fresh_editor\<lparr>ed_items := [box_item ''a'' 0 0, box_item ''b'' 40 40]\<rparr>\<rparr>"

definition pointer_at :: "rat \<Rightarrow> rat \<Rightarrow> pointer" where
  "pointer_at x y = \<lparr>pt_x = x, pt_y = y, pt_shift = False, pt_ctrl = False, pt_alt = False\<rparr>"

theorem drag_path_independent_witness:
  "cv_drag (itemMouseDown 0 (pointer_at 5 5) (box_item ''a'' 0 0) demo_canvas) \<noteq> None \<and>
   processMove (\<lambda>_ _. 0) (0, 0) (pointer_at 20 9)
     (fold (processMove (\<lambda>_ _. 0) (0, 0)) [pointer_at 300 7] (itemMouseDown 0 (pointer_at 5 5) (box_item ''a'' 0 0) demo_canvas)) =
   processMove (\<lambda>_ _. 0) (0, 0) (pointer_at 20 9) (itemMouseDown 0 (pointer_at 5 5) (box_item ''a'' 0 0) demo_canvas)"
proof -
  have "cv_drag (itemMouseDown 0 (pointer_at 5 5) (box_item ''a'' 0 0) demo_canvas) \<noteq> None"
    by (simp add: itemMouseDown_def demo_canvas_def box_item_def item_locked_def pointer_at_def bare_item_def
        fresh_editor_def Let_def split: prod.split)
  then show ?thesis using drag_path_independent by blast
qed

section \<open>Resizes\<close>

lemma round_near: "\<bar>js_round x - x\<bar> \<le> 1 / 2"
  unfolding js_round_def by linarith

lemma snap_near: "0 < g \<Longrightarrow> \<bar>snap v g - v\<bar> \<le> g / 2"
proof -
  assume g: "0 < g"
  have "snap v g - v = (js_round (v / g) - v / g) * g" using g by (simp add: snap_def field_simps)
  then have "\<bar>snap v g - v\<bar> = \<bar>js_round (v / g) - v / g\<bar> * g" using g by (simp add: abs_mult)
  also have "\<dots> \<le> 1 / 2 * g" using round_near [of "v / g"] g by (intro mult_right_mono) simp_all
  finally show ?thesis by simp
qed

lemma resize_box_min:
  assumes "resize_box zoom r e = (x, y, w, h)" "has (rs_handle r) (CHR ''w'') \<or> has (rs_handle r) (CHR ''e'')"
      and "has (rs_handle r) (CHR ''n'') \<or> has (rs_handle r) (CHR ''s'')"
  shows "20 \<le> w \<and> 20 \<le> h"
  using assms by (auto simp: resize_box_def Let_def split: if_splits)

lemma resize_box_anchor:
  assumes "resize_box zoom r e = (x, y, w, h)"
  shows "x = (if has (rs_handle r) (CHR ''w'') then rs_x r + (rs_w r - w) else rs_x r)"
    "y = (if has (rs_handle r) (CHR ''n'') then rs_y r + (rs_h r - h) else rs_y r)"
  using assms by (auto simp: resize_box_def Let_def split: if_splits)

text \<open>
  A corner resize keeps the opposite corner within one grid step and the size at least twenty less half a
  step, whatever the pointer does, with or without the aspect ratio: on a grid above forty it can reach zero.
\<close>

theorem corner_resize_bounds:
  assumes "b' = resize_patch ed r e b" "0 < ed_gridSize ed" "g = ed_gridSize ed" "rs_handle r = ''nw''"
  shows "\<bar>(px (ci_position b') + wd (ci_size b')) - (rs_x r + rs_w r)\<bar> \<le> g \<and>
         \<bar>(py (ci_position b') + ht (ci_size b')) - (rs_y r + rs_h r)\<bar> \<le> g \<and>
         20 - g / 2 \<le> wd (ci_size b') \<and> 20 - g / 2 \<le> ht (ci_size b')"
proof -
  obtain x y w h where b: "resize_box (ed_zoom ed) r e = (x, y, w, h)" by (metis prod_cases4)
  have p: "px (ci_position b') = snap x g" "py (ci_position b') = snap y g" "wd (ci_size b') = snap w g" "ht (ci_size b') = snap h g"
    using b assms(1,3) by (simp_all add: resize_patch_def Let_def)
  have "x + w = rs_x r + rs_w r" "y + h = rs_y r + rs_h r"
    using resize_box_anchor [OF b] assms(4) by (simp_all add: has_def)
  moreover have "20 \<le> w \<and> 20 \<le> h" using resize_box_min [OF b] assms(4) by (simp add: has_def)
  moreover have near: "\<bar>snap v g - v\<bar> \<le> g / 2" for v using snap_near assms(2,3) by simp
  ultimately show ?thesis unfolding p using near [of x] near [of y] near [of w] near [of h] by (intro conjI) linarith+
qed

theorem corner_resize_bounds_witness:
  "20 - 10 / 2 \<le> wd (ci_size (resize_patch fresh_editor
     \<lparr>rs_handle = ''nw'', rs_sx = 0, rs_sy = 0, rs_w = 100, rs_h = 60, rs_x = 0, rs_y = 0, rs_id = ''a''\<rparr> (pointer_at 500 0)
     (ci_base (box_item ''a'' 0 0))))"
  using corner_resize_bounds [OF refl _ refl, of fresh_editor] by (simp add: fresh_editor_def)

lemma coarse_grid_resize_to_zero: "snap 20 50 = 0"
  by (simp add: snap_def js_round_def floor_eq_iff)

section \<open>Drops\<close>

lemma sort_hd:
  fixes f :: "'a \<Rightarrow> 'b :: linorder"
  assumes "xs \<noteq> []"
  defines "a \<equiv> hd (sort_key f xs)"
  shows "a \<in> set xs \<and> (\<forall>x \<in> set xs. f a \<le> f x) \<and> a = hd (filter (\<lambda>x. f x = f a) xs)"
proof -
  have ne: "sort_key f xs \<noteq> []" using assms(1) by (metis set_empty set_sort)
  then obtain S where S: "sort_key f xs = a # S" unfolding a_def by (metis list.exhaust_sel)
  have "sorted (map f (a # S))" using sorted_sort_key [of f xs] by (simp add: S)
  then have "\<forall>x \<in> set (sort_key f xs). f a \<le> f x" by (auto simp: S)
  moreover have "a = hd (filter (\<lambda>x. f x = f a) (sort_key f xs))" by (simp add: S)
  ultimately show ?thesis using hd_in_set [OF ne] by (simp add: sort_key_stable a_def)
qed

lemma sort_last:
  fixes f :: "'a \<Rightarrow> 'b :: linorder"
  assumes "xs \<noteq> []"
  defines "a \<equiv> last (sort_key f xs)"
  shows "a \<in> set xs \<and> (\<forall>x \<in> set xs. f x \<le> f a) \<and> a = last (filter (\<lambda>x. f x = f a) xs)"
proof -
  have ne: "sort_key f xs \<noteq> []" using assms(1) by (metis set_empty set_sort)
  then have S: "sort_key f xs = butlast (sort_key f xs) @ [a]" unfolding a_def by simp
  have "sorted (map f (butlast (sort_key f xs) @ [a]))" using sorted_sort_key [of f xs] by (simp flip: S)
  then have "\<forall>x \<in> set (butlast (sort_key f xs)) \<union> {a}. f x \<le> f a" by (auto simp: sorted_append)
  then have "\<forall>x \<in> set (sort_key f xs). f x \<le> f a" by (subst S) simp
  moreover have "a = last (filter (\<lambda>x. f x = f a) (sort_key f xs))" by (subst S) simp
  ultimately show ?thesis using last_in_set [OF ne] by (simp add: sort_key_stable a_def)
qed

lemma find_filter: "find P xs = (if filter P xs = [] then None else Some (hd (filter P xs)))"
  by (induction xs) auto

text \<open>
  A tag dropped on the canvas is bound to an item of the highest level under the pointer, but of several on that level to the
  first of the document, while painting puts the last of them on top: with levels left at their default the symbol that
  receives the tag is the one at the bottom.
\<close>

theorem drop_hit_and_painted_top:
  assumes "drop_hit p items = Some it"
  shows "it \<in> set items \<and> covers p it \<and> (\<forall>x \<in> set items. covers p x \<longrightarrow> item_z x \<le> item_z it) \<and>
         it = hd (filter (\<lambda>x. covers p x \<and> item_z x = item_z it) items) \<and>
         last (filter (covers p) (painted True items)) = last (filter (\<lambda>x. covers p x \<and> item_z x = item_z it) items)"
proof -
  define F where "F = filter (covers p) items"
  have h: "filter (covers p) (sort_key (\<lambda>x. - item_z x) items) = sort_key (\<lambda>x. - item_z x) F"
    and l: "filter (covers p) (painted True items) = sort_key item_z F"
    by (simp_all add: F_def filter_sort painted_def)
  have F: "F \<noteq> []" "it = hd (sort_key (\<lambda>x. - item_z x) F)"
    using assms h by (auto simp: drop_hit_def find_filter split: if_splits)
  define top where "top = last (sort_key item_z F)"
  note a = sort_hd [OF F(1), of "\<lambda>x. - item_z x", folded F(2)]
  note b = sort_last [OF F(1), of item_z, folded top_def]
  have z: "item_z top = item_z it" using a b by (meson antisym neg_le_iff_le)
  have e: "filter (\<lambda>x. item_z x = item_z it) F = filter (\<lambda>x. covers p x \<and> item_z x = item_z it) items"
    by (auto simp: F_def intro: filter_cong)
  have "it = hd (filter (\<lambda>x. item_z x = item_z it) F)" using a by simp
  moreover have "top = last (filter (\<lambda>x. item_z x = item_z it) F)" using b z by simp
  moreover have "it \<in> set items" "covers p it" "\<forall>x \<in> set items. covers p x \<longrightarrow> item_z x \<le> item_z it"
    using a by (auto simp: F_def)
  ultimately show ?thesis unfolding l top_def [symmetric] e by simp
qed

theorem drop_hit_and_painted_top_witness:
  "drop_hit \<lparr>px = 5, py = 5\<rparr> [box_item ''bottom'' 0 0, box_item ''top'' 0 0] = Some (box_item ''bottom'' 0 0) \<and>
   last (filter (covers \<lparr>px = 5, py = 5\<rparr>) (painted True [box_item ''bottom'' 0 0, box_item ''top'' 0 0])) = box_item ''top'' 0 0"
proof -
  have h: "drop_hit \<lparr>px = 5, py = 5\<rparr> [box_item ''bottom'' 0 0, box_item ''top'' 0 0] = Some (box_item ''bottom'' 0 0)"
    by (simp add: drop_hit_def covers_def box_item_def item_defs)
  show ?thesis using drop_hit_and_painted_top [OF h] h by (simp add: covers_def box_item_def item_defs)
qed

text \<open>The lines of the last drag stay on the canvas when the button is released.\<close>

lemma release_keeps_guides: "cv_guides (mouseUp cv) = cv_guides cv"
  by (simp add: mouseUp_def Let_def)

end
