(* ===== verification/Display_Import.thy ===== *)
theory Display_Import
  imports Custom_Symbols "HOL-Library.Word"
begin

unbundle bit_operations_syntax

text \<open>
  The import of a PI Vision display (src/frontend-ob/src/services/import/pdixImport.ts): the symbols of the file become
  items of a display, placeholders for what has no counterpart, and the counts of a report.

  The display is what parsing the entry of the archive gives, or none.  A property that a symbol lacks is \<open>VUndef\<close>;
  lists of data sources are lists of values.  \<open>text_of\<close> is \<open>String(v)\<close> on values that are no strings, \<open>fixed_text\<close> is
  \<open>toFixed\<close>, \<open>decode\<close> is \<open>decodeURIComponent\<close> with \<open>None\<close> where it throws.  Types are looked up in association lists,
  so a type that names a property of every object is one without an entry.
\<close>

section \<open>The source file and the result\<close>

record pi_symbol =
  pi_SymbolType :: js_val
  pi_Type :: js_val
  pi_Name :: js_val
  pi_Configuration :: "js_record option"
  pi_DataSources :: "js_val list option"
  pi_MSDataSources :: "js_val list option"
  pi_MSSymbolsIds :: "js_val list option"

record pi_display =
  pd_Symbols :: "pi_symbol list option"
  pd_symbols :: "pi_symbol list option"
  pd_ProductVersion :: js_val
  pd_Name :: js_val

record imported_display =
  im_name :: string
  im_items :: "canvas_item list"
  im_settings :: display_settings
  im_unmapped :: "unmapped_symbol list"
  im_stats :: "(string \<times> rat) list"
  im_report :: import_report

section \<open>Types\<close>

definition TYPE_MAP :: "(string \<times> string) list" where
  "TYPE_MAP =
     [(''rectangle'', ''shape.rect''), (''simplerectangle'', ''shape.rect''), (''rect'', ''shape.rect''),
      (''line'', ''shape.line''), (''simpleline'', ''shape.line''),
      (''ellipse'', ''shape.circle''), (''circle'', ''shape.circle''), (''simplecircle'', ''shape.circle''),
      (''polygon'', ''shape.polygon''),
      (''statictext'', ''shape.label''), (''text'', ''shape.label''), (''label'', ''shape.label''), (''simpletext'', ''shape.label''),
      (''value'', ''obc.readout-unit''), (''numeric'', ''obc.readout-unit''), (''indicator'', ''obc.readout-unit''),
      (''trend'', ''chart.trend''), (''chart'', ''chart.trend''),
      (''radial'', ''ind.gauge''), (''radialgauge'', ''ind.gauge''), (''gauge'', ''ind.gauge''),
      (''bargauge'', ''ind.gauge''), (''verticalgauge'', ''ind.gauge''),
      (''table'', ''table.value''), (''valuetable'', ''table.value''),
      (''timeseries'', ''table.timeseries''), (''timeseriestable'', ''table.timeseries''),
      (''xyplot'', ''chart.xy''), (''scatter'', ''chart.xy''),
      (''barchart'', ''chart.bar''), (''bar'', ''chart.bar''), (''horizontalstackedbar'', ''chart.bar''),
      (''assetcomparisontable'', ''table.compare''), (''comparisontable'', ''table.compare''),
      (''collection'', ''collection.container''), (''symbolcollection'', ''collection.container''),
      (''eventtable'', ''alarm.table''), (''eventframetable'', ''alarm.table''), (''events'', ''alarm.table'')]"

definition DATASHAPE_MAP :: "(string \<times> string) list" where
  "DATASHAPE_MAP =
     [(''value'', ''obc.readout-unit''), (''trend'', ''chart.trend''), (''table'', ''table.value''),
      (''timeseries'', ''table.timeseries''), (''timeseriestable'', ''table.timeseries''),
      (''xyplot'', ''chart.xy''),
      (''gauge'', ''ind.gauge''), (''radialgauge'', ''ind.gauge''), (''verticalgauge'', ''ind.gauge''),
      (''bar'', ''chart.bar''), (''horizontalstackedbar'', ''chart.bar''),
      (''assetcomparisontable'', ''table.compare''),
      (''collection'', ''collection.container''), (''symbolcollection'', ''collection.container'')]"

definition RENDERABLE_MAPPED_TYPES :: "string list" where
  "RENDERABLE_MAPPED_TYPES =
     [''shape.rect'', ''shape.line'', ''shape.circle'', ''shape.polygon'', ''shape.label'',
      ''obc.readout-unit'', ''chart.trend'', ''ind.gauge'',
      ''table.value'', ''table.timeseries'', ''table.compare'', ''chart.xy'', ''chart.bar'', ''collection.container'', ''alarm.table'']"

section \<open>Keywords of library graphics\<close>

text \<open>
  A position in a text is the character before it and the text after it; a pattern gives the positions at which a
  match from a position may end.
\<close>

type_synonym spot = "char option \<times> string"
type_synonym pattern = "spot \<Rightarrow> spot list"

definition lit :: "string \<Rightarrow> pattern" where
  "lit w p = (if starts_with (snd p) w then [(Some (last w), drop (length w) (snd p))] else [])"

definition maybe :: "(char \<Rightarrow> bool) \<Rightarrow> pattern" where
  "maybe P p = p # (case snd p of c # r \<Rightarrow> if P c then [(Some c, r)] else [] | [] \<Rightarrow> [])"

definition spaces :: pattern where
  "spaces p = map (\<lambda>k. (if k = 0 then fst p else Some (snd p ! (k - 1)), drop k (snd p))) [0..<Suc (length (takeWhile is_space (snd p)))]"

definition word_edge :: pattern where
  "word_edge p =
     (let before = (case fst p of Some c \<Rightarrow> is_word_char c | None \<Rightarrow> False);
          after = (case snd p of c # _ \<Rightarrow> is_word_char c | [] \<Rightarrow> False) in
      if before \<noteq> after then [p] else [])"

definition in_turn :: "pattern list \<Rightarrow> pattern" where
  "in_turn ms p = fold (\<lambda>m ps. concat (map m ps)) ms [p]"

definition any_of :: "pattern list \<Rightarrow> pattern" where
  "any_of ms p = concat (map (\<lambda>m. m p) ms)"

definition word :: "string \<Rightarrow> pattern" where
  "word w = in_turn [word_edge, lit w, word_edge]"

definition spots :: "string \<Rightarrow> spot list" where
  "spots s = map (\<lambda>k. (if k = 0 then None else Some (s ! (k - 1)), drop k s)) [0..<Suc (length s)]"

definition found :: "pattern \<Rightarrow> string \<Rightarrow> bool" where
  "found m s = list_ex (\<lambda>p. m p \<noteq> []) (spots s)"

definition GRAPHIC_KEYWORD_MAP :: "(pattern \<times> string) list" where
  "GRAPHIC_KEYWORD_MAP =
     [(any_of [in_turn [lit ''on'', maybe (\<lambda>c. is_space c \<or> set_mem ''_/-'' c), lit ''off'', spaces, lit ''valve''],
               in_turn [lit ''solenoid'', spaces, lit ''valve'']], ''equip.valve-onoff''),
      (any_of [lit ''valve'', lit ''butterfly'', word ''ball'', word ''gate'', lit ''globe''], ''equip.valve''),
      (lit ''compressor'', ''equip.compressor''),
      (any_of [word ''fan'', lit ''blower''], ''equip.fan''),
      (any_of [word ''pump'', lit ''slurry''], ''equip.pump''),
      (word ''motor'', ''equip.motor''),
      (any_of [in_turn [lit ''heat'', maybe (\<lambda>c. is_space c \<or> set_mem ''_-'' c), lit ''exchanger''], word ''hx''], ''equip.hx''),
      (any_of [lit ''agitator'', lit ''mixer'', lit ''stirrer''], ''equip.agitator''),
      (lit ''conveyor'', ''equip.conveyor''),
      (any_of [word ''tank'', lit ''vessel'', lit ''silo'', word ''drum'', lit ''hopper''], ''equip.tank'')]"

definition GRAPHIC_ICON_MAX_PX :: rat where
  "GRAPHIC_ICON_MAX_PX = 600"

text \<open>\<open>v ?? ''''\<close> in a template.\<close>

definition text_or_empty :: "(js_val \<Rightarrow> string) \<Rightarrow> js_val \<Rightarrow> string" where
  "text_or_empty text_of v = (if nullish_val v then [] else js_text text_of v)"

definition mapGraphicSymbol :: "(js_val \<Rightarrow> string) \<Rightarrow> js_val \<Rightarrow> js_val \<Rightarrow> rat \<Rightarrow> rat \<Rightarrow> string option" where
  "mapGraphicSymbol text_of dirKey fileKey w h =
     (if GRAPHIC_ICON_MAX_PX \<le> w \<or> GRAPHIC_ICON_MAX_PX \<le> h then None
      else let hay = js_lower (text_or_empty text_of dirKey @ '' '' @ text_or_empty text_of fileKey) in
           map_option snd (find (\<lambda>(m, t). found m hay) GRAPHIC_KEYWORD_MAP))"

section \<open>Values of the configuration\<close>

definition decimalsFromFormat :: "js_val \<Rightarrow> rat option" where
  "decimalsFromFormat ft =
     (case ft of
        VStr (c # ds) \<Rightarrow> if set_mem ''NFPnfp'' c \<and> ds \<noteq> [] \<and> list_all is_digit ds then Some (of_int (digits_value ds)) else None
      | _ \<Rightarrow> None)"

fun cut_query :: "string \<Rightarrow> string" where
  "cut_query [] = []"
| "cut_query (c # cs) =
     (if (c = CHR ''#'' \<or> c = CHR ''?'') \<and> \<not> list_ex (\<lambda>d. d = CHR 0x0A \<or> d = CHR 0x0D) cs then [] else c # cut_query cs)"

text \<open>Runs of characters of a class become one character.\<close>

function squeeze :: "(char \<Rightarrow> bool) \<Rightarrow> char \<Rightarrow> string \<Rightarrow> string" where
  "squeeze P a [] = []"
| "squeeze P a (c # cs) = (if P c then a # squeeze P a (dropWhile P cs) else c # squeeze P a cs)"
  by pat_completeness auto
termination
  by (relation "measure (\<lambda>(P, a, s). length s)") (auto simp: length_dropWhile_le less_Suc_eq_le)

definition is_slash :: "char \<Rightarrow> bool" where
  "is_slash c \<longleftrightarrow> c = CHR ''/'' \<or> c = CHR 0x5C"

definition path_pieces :: "(char \<Rightarrow> bool) \<Rightarrow> string \<Rightarrow> string list" where
  "path_pieces P s = js_split (CHR ''/'') (map (\<lambda>c. if P c then CHR ''/'' else c) s)"

definition navFromLinkUrl ::
  "(js_val \<Rightarrow> string) \<Rightarrow> (string \<Rightarrow> string option) \<Rightarrow> js_val \<Rightarrow> (navigation_link \<times> bool) option" where
  "navFromLinkUrl text_of decode lu =
     (let raw = js_trim (text_or_empty text_of lu) in
      if raw = [] then None
      else
        let parts = filter (\<lambda>w. w \<noteq> []) (path_pieces is_slash raw);
            seg = (if parts = [] then raw else last parts);
            label = js_trim (squeeze (\<lambda>c. c = CHR ''_'' \<or> c = CHR ''-'') (CHR '' '') (cut_query (nullish (decode seg) seg)));
            functional = (js_lower (take 6 raw) = ''https:'' \<or> (starts_with raw ''/'' \<and> \<not> starts_with raw ''//'')) in
        Some (\<lparr>nl_targetDisplayId = None, nl_targetUrl = Some raw, nl_label = (if label = [] then None else Some label),
               nl_openMode = Some ''replace'', nl_assetContextMode = None, nl_assetContext = None, nl_includeTimeRange = None\<rparr>,
              functional))"

definition IMPORT_PLACEHOLDER_TYPE :: string where
  "IMPORT_PLACEHOLDER_TYPE = ''import.unmapped''"

definition num_or :: "rat \<Rightarrow> js_val \<Rightarrow> rat" where
  "num_or d v = nullish (to_number v) d"

text \<open>The 32 bits that the bit operators of the language read of a number.\<close>

definition to_int32 :: "rat \<Rightarrow> 32 word" where
  "to_int32 n = word_of_int (if n < 0 then - \<lfloor>- n\<rfloor> else \<lfloor>n\<rfloor>)"

definition color_byte :: "nat \<Rightarrow> 32 word \<Rightarrow> nat" where
  "color_byte k w = unat (drop_bit k w AND 0xFF)"

definition convertColor :: "(js_val \<Rightarrow> string) \<Rightarrow> (rat \<Rightarrow> nat \<Rightarrow> string) \<Rightarrow> js_val \<Rightarrow> string option" where
  "convertColor text_of fixed_text c =
     (if nullish_val c \<or> c = VStr [] then None
      else case c of
        VNum n \<Rightarrow>
          let w = to_int32 n; a = color_byte 24 w in
          if a = 0 then Some ''none''
          else Some (''rgba('' @ show_nat (color_byte 16 w) @ '','' @ show_nat (color_byte 8 w) @ '','' @
                     show_nat (color_byte 0 w) @ '','' @ fixed_text (of_nat a / 255) 2 @ '')'')
      | _ \<Rightarrow>
          let s = js_trim (js_text text_of c) in
          if js_lower s = ''transparent'' \<or> s = ''rgba(0,0,0,0)'' \<or> s = ''rgba(255,255,255,0)'' then Some ''none'' else Some s)"

section \<open>Tag paths\<close>

definition is_slug_char :: "char \<Rightarrow> bool" where
  "is_slug_char c \<longleftrightarrow> is_lower c \<or> is_digit c"

definition slug :: "string \<Rightarrow> string" where
  "slug seg =
     rev (dropWhile (\<lambda>c. c = CHR ''_'') (rev (dropWhile (\<lambda>c. c = CHR ''_'')
       (squeeze (\<lambda>c. \<not> is_slug_char c) (CHR ''_'') (js_lower seg)))))"

definition is_guid_char :: "char \<Rightarrow> bool" where
  "is_guid_char c \<longleftrightarrow> hex_val c \<noteq> None \<or> c = CHR ''-''"

function strip_guids :: "string \<Rightarrow> string" where
  "strip_guids [] = []"
| "strip_guids (c # cs) =
     (if c = CHR ''?'' \<and> 8 \<le> length (takeWhile is_guid_char cs) then strip_guids (dropWhile is_guid_char cs)
      else c # strip_guids cs)"
  by pat_completeness auto
termination
  by (relation "measure length") (auto simp: length_dropWhile_le less_Suc_eq_le)

definition strip_scheme :: "string \<Rightarrow> string" where
  "strip_scheme s = (if js_lower (take 5 s) \<in> {''pi:'' @ [CHR 0x5C, CHR 0x5C], ''af:'' @ [CHR 0x5C, CHR 0x5C]} then drop 5 s else s)"

definition tag_names :: "string \<Rightarrow> string list" where
  "tag_names s = filter (\<lambda>w. w \<noteq> []) (map slug (path_pieces (\<lambda>c. is_slash c \<or> c = CHR ''|'')
     (takeWhile (\<lambda>c. c \<noteq> CHR ''#'') (strip_guids (strip_scheme s)))))"

definition path_of :: "string list \<Rightarrow> string option" where
  "path_of segs =
     (let n = length segs in
      if n = 0 then None
      else if n = 1 then Some (segs ! 0)
      else if n = 2 then Some (segs ! 0 @ ''/'' @ segs ! 1)
      else Some (js_join ''/'' (take (n - 2) segs) @ ''/'' @ segs ! (n - 2) @ ''.'' @ segs ! (n - 1)))"

definition normalizeBinding :: "(js_val \<Rightarrow> string) \<Rightarrow> js_val \<Rightarrow> string option" where
  "normalizeBinding text_of raw = (if \<not> to_bool raw then None else path_of (tag_names (js_text text_of raw)))"

definition firstBinding :: "(js_val \<Rightarrow> string) \<Rightarrow> pi_symbol \<Rightarrow> string option" where
  "firstBinding text_of ps =
     (case nullish (orelse (pi_DataSources ps) (pi_MSDataSources ps)) [] of [] \<Rightarrow> None | d # _ \<Rightarrow> normalizeBinding text_of d)"

definition hasMultiState :: "pi_symbol \<Rightarrow> bool" where
  "hasMultiState ps \<longleftrightarrow> nullish (pi_MSSymbolsIds ps) [] \<noteq> [] \<or> nullish (pi_MSDataSources ps) [] \<noteq> []"

section \<open>The import\<close>

text \<open>What \<open>importPdix\<close> has gathered; the counts of symbols are natural numbers.\<close>

record gathered =
  ga_items :: "canvas_item list"
  ga_unmapped :: "unmapped_symbol list"
  ga_stats :: "(string \<times> rat) list"
  ga_maxX :: rat
  ga_maxY :: rat
  ga_multiState :: nat
  ga_nav :: nat
  ga_remap :: nat
  ga_bindings :: nat
  ga_groups :: nat

definition nothing_gathered :: gathered where
  "nothing_gathered = \<lparr>ga_items = [], ga_unmapped = [], ga_stats = [], ga_maxX = 0, ga_maxY = 0, ga_multiState = 0,
     ga_nav = 0, ga_remap = 0, ga_bindings = 0, ga_groups = 0\<rparr>"

definition no_style :: item_style where
  "no_style = \<lparr>is_fill = None, is_stroke = None, is_strokeWidth = None, is_strokeDasharray = None, is_opacity = None,
     is_fontSize = None, is_fontWeight = None, is_textAlign = None, is_borderRadius = None, is_fontFamily = None,
     is_fontStyle = None, is_textDecoration = None, is_background = None\<rparr>"

definition no_format :: format_options where
  "no_format = \<lparr>fo_decimals = None, fo_unit = None, fo_prefix = None, fo_suffix = None, fo_showUnit = None,
     fo_showLabel = None, fo_valueColor = None, fo_backgroundColor = None\<rparr>"

text \<open>The item every branch starts from: identifier, type, position, size and rotation.\<close>

definition placed_item :: "string \<Rightarrow> string \<Rightarrow> point \<Rightarrow> extent \<Rightarrow> rat \<Rightarrow> item_base" where
  "placed_item i t p s r = (bare_item i t p s)\<lparr>ci_rotation := Some r\<rparr>"

definition pdix_id :: "nat \<Rightarrow> string" where
  "pdix_id n = ''pdix-'' @ show_nat n"

definition pi_config :: "pi_symbol \<Rightarrow> js_record" where
  "pi_config ps = nullish (pi_Configuration ps) []"

definition pi_type :: "(js_val \<Rightarrow> string) \<Rightarrow> pi_symbol \<Rightarrow> string" where
  "pi_type text_of ps =
     js_lower (if \<not> nullish_val (pi_SymbolType ps) then js_text text_of (pi_SymbolType ps)
               else if \<not> nullish_val (pi_Type ps) then js_text text_of (pi_Type ps) else ''?'')"

definition pi_pos :: "pi_symbol \<Rightarrow> point" where
  "pi_pos ps = \<lparr>px = num_or 0 (field (pi_config ps) ''Left''), py = num_or 0 (field (pi_config ps) ''Top'')\<rparr>"

definition pi_size :: "(js_val \<Rightarrow> string) \<Rightarrow> pi_symbol \<Rightarrow> extent" where
  "pi_size text_of ps =
     \<lparr>wd = num_or (if pi_type text_of ps = ''value'' \<or> pi_type text_of ps = ''statictext'' then 90 else 40) (field (pi_config ps) ''Width''),
      ht = num_or 24 (field (pi_config ps) ''Height'')\<rparr>"

definition placeholder ::
  "string \<Rightarrow> string \<Rightarrow> string \<Rightarrow> string \<Rightarrow> point \<Rightarrow> extent \<Rightarrow> rat \<Rightarrow> string option \<Rightarrow> gathered \<Rightarrow> gathered" where
  "placeholder i name piType reason p s r ref g =
     g\<lparr>ga_unmapped := ga_unmapped g @ [\<lparr>un_id = i, un_name = name, un_piType = piType, un_reason = reason, un_ref = ref\<rparr>],
       ga_items := ga_items g @ [CanvasItem ((placed_item i IMPORT_PLACEHOLDER_TYPE p s r)
         \<lparr>ci_label := Some (''(!) '' @ (if truthy ref then the ref else piType)),
          ci_textProps := Some \<lparr>tp_text = Some (piType @ (if truthy ref then '' - '' @ the ref else []) @ '' - '' @ reason),
                                tp_multiline = None, tp_verticalAlign = None\<rparr>\<rparr>) None]\<rparr>"

definition trim_slash :: "string \<Rightarrow> string" where
  "trim_slash s =
     (let s1 = (if starts_with s ''/'' then drop 1 s else s) in
      if s1 \<noteq> [] \<and> last s1 = CHR ''/'' then butlast s1 else s1)"

definition graphic_item :: "(js_val \<Rightarrow> string) \<Rightarrow> string \<Rightarrow> string \<Rightarrow> pi_symbol \<Rightarrow> item_base" where
  "graphic_item text_of i equip ps =
     (let cfg = pi_config ps in
      (placed_item i equip (pi_pos ps) (pi_size text_of ps) (num_or 0 (field cfg ''Rotation'')))
        \<lparr>ci_label := Some (text_or_empty text_of (field cfg ''FileKey'')),
         ci_bindings := map_option (\<lambda>driver. [(''status'', driver)]) (firstBinding text_of ps)\<rparr>)"

definition import_graphic :: "(js_val \<Rightarrow> string) \<Rightarrow> string \<Rightarrow> string \<Rightarrow> pi_symbol \<Rightarrow> gathered \<Rightarrow> gathered" where
  "import_graphic text_of i name ps g =
     (let cfg = pi_config ps; s = pi_size text_of ps; dirKey = field cfg ''DirectoryKey''; fileKey = field cfg ''FileKey'';
          g1 = (if hasMultiState ps then g\<lparr>ga_multiState := ga_multiState g + 1\<rparr> else g) in
      case mapGraphicSymbol text_of dirKey fileKey (wd s) (ht s) of
        Some equip \<Rightarrow>
          g1\<lparr>ga_items := ga_items g1 @ [CanvasItem (graphic_item text_of i equip ps) None],
             ga_bindings := (if firstBinding text_of ps = None then ga_bindings g1 else ga_bindings g1 + 1)\<rparr>
      | None \<Rightarrow>
          placeholder i name (pi_type text_of ps)
            ''External SVG symbol (DirectoryKey/FileKey) - no local equivalent; rebuild from the AMS catalog''
            (pi_pos ps) s (num_or 0 (field cfg ''Rotation''))
            (Some (trim_slash (text_or_empty text_of dirKey @ ''/'' @ text_or_empty text_of fileKey))) g1)"

definition pen_name :: "nat \<Rightarrow> string" where
  "pen_name i = (if i = 0 then ''value'' else ''pen'' @ show_nat (i + 1))"

text \<open>The bindings of an item: one pen for each source of a trend, the first source of any other.  None is no property.\<close>

definition pi_bindings :: "(js_val \<Rightarrow> string) \<Rightarrow> string \<Rightarrow> pi_symbol \<Rightarrow> (string \<times> string) list" where
  "pi_bindings text_of mapped ps =
     (if mapped = ''chart.trend'' then
        List.map_filter (\<lambda>(i, d). map_option (Pair (pen_name i)) (normalizeBinding text_of d)) (enumerate 0 (nullish (pi_DataSources ps) []))
      else case firstBinding text_of ps of Some b \<Rightarrow> [(''value'', b)] | None \<Rightarrow> [])"

definition mapped_style :: "(js_val \<Rightarrow> string) \<Rightarrow> (rat \<Rightarrow> nat \<Rightarrow> string) \<Rightarrow> js_record \<Rightarrow> item_style" where
  "mapped_style text_of fixed_text cfg =
     no_style\<lparr>is_fill := convertColor text_of fixed_text (field cfg ''Fill''),
              is_stroke := convertColor text_of fixed_text (field cfg ''Stroke''),
              is_strokeWidth := Some (num_or 1 (field cfg ''StrokeWidth'')),
              is_fontSize := (let f = num_or 0 (field cfg ''FontSize'') in if f = 0 then None else Some f)\<rparr>"

definition mapped_label :: "(js_val \<Rightarrow> string) \<Rightarrow> pi_symbol \<Rightarrow> string" where
  "mapped_label text_of ps =
     (let cfg = pi_config ps in
      text_or_empty text_of (if \<not> nullish_val (field cfg ''StaticText'') then field cfg ''StaticText''
                             else if \<not> nullish_val (field cfg ''Text'') then field cfg ''Text'' else pi_Name ps))"

definition readout_format :: "js_record \<Rightarrow> format_options" where
  "readout_format cfg = no_format\<lparr>fo_decimals := Some (nullish (decimalsFromFormat (field cfg ''FormatType'')) 1),
                                  fo_showUnit := Some (field cfg ''ShowUOM'' = VBool True)\<rparr>"

definition mapped_item ::
  "(js_val \<Rightarrow> string) \<Rightarrow> (rat \<Rightarrow> nat \<Rightarrow> string) \<Rightarrow> string \<Rightarrow> string \<Rightarrow> (string \<times> string) list \<Rightarrow> navigation_link option \<Rightarrow> pi_symbol \<Rightarrow> item_base" where
  "mapped_item text_of fixed_text i mapped bs link ps =
     (let cfg = pi_config ps in
      (placed_item i mapped (pi_pos ps) (pi_size text_of ps) (num_or 0 (field cfg ''Rotation'')))
        \<lparr>ci_style := Some (mapped_style text_of fixed_text cfg),
         ci_label := (if mapped = ''shape.label'' then Some (mapped_label text_of ps) else None),
         ci_bindings := (if bs = [] then None else Some bs),
         ci_formatting := (if mapped = ''obc.readout-unit'' then Some (readout_format cfg) else None),
         ci_navigationLink := link\<rparr>)"

definition import_mapped ::
  "(js_val \<Rightarrow> string) \<Rightarrow> (rat \<Rightarrow> nat \<Rightarrow> string) \<Rightarrow> (string \<Rightarrow> string option) \<Rightarrow> string \<Rightarrow> string \<Rightarrow> pi_symbol \<Rightarrow> gathered \<Rightarrow> gathered" where
  "import_mapped text_of fixed_text decode i mapped ps g =
     (let bs = pi_bindings text_of mapped ps; nav = navFromLinkUrl text_of decode (field (pi_config ps) ''LinkURL'') in
      g\<lparr>ga_items := ga_items g @ [CanvasItem (mapped_item text_of fixed_text i mapped bs (map_option fst nav) ps) None],
        ga_bindings := (if bs = [] then ga_bindings g else ga_bindings g + 1),
        ga_nav := (if nav = None then ga_nav g else ga_nav g + 1),
        ga_remap := (case nav of Some (_, functional) \<Rightarrow> if functional then ga_remap g else ga_remap g + 1 | None \<Rightarrow> ga_remap g),
        ga_multiState := (if hasMultiState ps then ga_multiState g + 1 else ga_multiState g)\<rparr>)"

definition mapped_type :: "(js_val \<Rightarrow> string) \<Rightarrow> pi_symbol \<Rightarrow> string option" where
  "mapped_type text_of ps =
     orelse (map_of DATASHAPE_MAP (js_lower (text_or_empty text_of (field (pi_config ps) ''DataShape''))))
       (map_of TYPE_MAP (pi_type text_of ps))"

text \<open>The counts that every symbol is entered in, before its type is looked at.\<close>

definition note_symbol :: "(js_val \<Rightarrow> string) \<Rightarrow> pi_symbol \<Rightarrow> gathered \<Rightarrow> gathered" where
  "note_symbol text_of ps g =
     (let t = pi_type text_of ps; p = pi_pos ps; s = pi_size text_of ps in
      g\<lparr>ga_stats := AList.update t (nullish (map_of (ga_stats g) t) 0 + 1) (ga_stats g),
        ga_maxX := max (ga_maxX g) (px p + wd s), ga_maxY := max (ga_maxY g) (py p + ht s)\<rparr>)"

definition import_symbol ::
  "(js_val \<Rightarrow> string) \<Rightarrow> (rat \<Rightarrow> nat \<Rightarrow> string) \<Rightarrow> (string \<Rightarrow> string option) \<Rightarrow> nat \<times> pi_symbol \<Rightarrow> gathered \<Rightarrow> gathered" where
  "import_symbol text_of fixed_text decode ip g =
     (let (n, ps) = ip; i = pdix_id n; t = pi_type text_of ps; g1 = note_symbol text_of ps g;
          name = (if nullish_val (pi_Name ps) then i else js_text text_of (pi_Name ps)) in
      if t = ''group'' then g1\<lparr>ga_groups := ga_groups g1 + 1\<rparr>
      else if t = ''graphic'' then import_graphic text_of i name ps g1
      else case mapped_type text_of ps of
        Some m \<Rightarrow>
          if set_mem RENDERABLE_MAPPED_TYPES m then import_mapped text_of fixed_text decode i m ps g1
          else placeholder i name t (''Mapped type '' @ [CHR 0x27] @ m @ [CHR 0x27] @ '' has no renderer'') (pi_pos ps) (pi_size text_of ps)
                 (num_or 0 (field (pi_config ps) ''Rotation'')) None g1
      | None \<Rightarrow> placeholder i name t ''Unknown PI Vision symbol type'' (pi_pos ps) (pi_size text_of ps)
                 (num_or 0 (field (pi_config ps) ''Rotation'')) None g1)"

definition import_symbols ::
  "(js_val \<Rightarrow> string) \<Rightarrow> (rat \<Rightarrow> nat \<Rightarrow> string) \<Rightarrow> (string \<Rightarrow> string option) \<Rightarrow> pi_symbol list \<Rightarrow> gathered" where
  "import_symbols text_of fixed_text decode syms = fold (import_symbol text_of fixed_text decode) (enumerate 0 syms) nothing_gathered"

section \<open>The report\<close>

definition import_notes :: "gathered \<Rightarrow> string list" where
  "import_notes g =
     (if ga_bindings g = 0 then [] else [show_nat (ga_bindings g) @ '' tag binding(s) imported and normalized to UNS paths; they resolve to live data once the referenced assets exist in the Asset Model (or an alias mapping is added).'']) @
     (if ga_groups g = 0 then [] else [show_nat (ga_groups g) @ '' group container(s) skipped - their children import individually.'']) @
     (if ga_multiState g = 0 then [] else [show_nat (ga_multiState g) @ '' symbol(s) had PI MultiState dynamics (colour/visibility-by-value) that PI Vision does not export in the .pdix - re-author them in the designer.'']) @
     (if ga_nav g = 0 then [] else [show_nat (ga_nav g) @ '' navigation link(s) imported'' @
        (if ga_remap g = 0 then '' as external links.''
         else '' - '' @ show_nat (ga_remap g) @ '' point to internal PI Vision displays and need repointing to the matching AMS display; the rest open as external links.'')])"

definition pi_symbols :: "pi_display \<Rightarrow> pi_symbol list" where
  "pi_symbols d = nullish (orelse (pd_Symbols d) (pd_symbols d)) []"

definition report_of :: "(js_val \<Rightarrow> string) \<Rightarrow> pi_display \<Rightarrow> gathered \<Rightarrow> import_report" where
  "report_of text_of d g =
     \<lparr>ir_productVersion = (if to_bool (pd_ProductVersion d) then Some (js_text text_of (pd_ProductVersion d)) else None),
      ir_importedAt = None, ir_total = of_nat (length (pi_symbols d)),
      ir_rendered = of_nat (length (ga_items g)) - of_nat (length (ga_unmapped g)),
      ir_placeholders = of_nat (length (ga_unmapped g)), ir_bindingsTotal = of_nat (ga_bindings g),
      ir_bindingsUnresolved = of_nat (ga_bindings g), ir_multiStateDropped = of_nat (ga_multiState g),
      ir_navImported = of_nat (ga_nav g), ir_navNeedsRemap = of_nat (ga_remap g), ir_byType = ga_stats g,
      ir_unmapped = ga_unmapped g, ir_notes = import_notes g\<rparr>"

definition canvas_side :: "rat \<Rightarrow> rat \<Rightarrow> rat" where
  "canvas_side m d = (let c = of_int \<lceil>m + 40\<rceil> in if c = 0 then d else c)"

text \<open>\<open>entry\<close>: the display of the archive; without one the import throws.\<close>

definition importPdix ::
  "(js_val \<Rightarrow> string) \<Rightarrow> (rat \<Rightarrow> nat \<Rightarrow> string) \<Rightarrow> (string \<Rightarrow> string option) \<Rightarrow> pi_display option \<Rightarrow> imported_display option" where
  "importPdix text_of fixed_text decode entry =
     (case entry of
        None \<Rightarrow> None
      | Some d \<Rightarrow>
          let g = import_symbols text_of fixed_text decode (pi_symbols d); report = report_of text_of d g in
          Some \<lparr>im_name = (if nullish_val (pd_Name d) then ''Imported PI Vision Display'' else js_text text_of (pd_Name d)),
                im_items = ga_items g,
                im_settings = \<lparr>ds_gridSize = Some 10, ds_showGrid = Some True, ds_backgroundColor = Some ''var(--ams-canvas-bg)'',
                  ds_backgroundImageId = None, ds_canvasWidth = Some (canvas_side (ga_maxX g) 1920),
                  ds_canvasHeight = Some (canvas_side (ga_maxY g) 1080), ds_importReport = Some report\<rparr>,
                im_unmapped = ga_unmapped g, im_stats = ga_stats g, im_report = report\<rparr>)"

end
