(* ===== verification/Import_Props.thy ===== *)
theory Import_Props
  imports Display_Import Artifact_Legend
begin

text \<open>
  What an import accounts for, where its items lie, which types and paths it may give, and the colours it reads.
\<close>

section \<open>Tag paths\<close>

definition uns_name :: "string \<Rightarrow> bool" where
  "uns_name w \<longleftrightarrow> w \<noteq> [] \<and> list_all (\<lambda>c. is_slug_char c \<or> c = CHR ''_'') w \<and> hd w \<noteq> CHR ''_'' \<and> last w \<noteq> CHR ''_''"

text \<open>Names separated by slashes, the last of which may be split once by a dot.\<close>

definition uns_path :: "string \<Rightarrow> bool" where
  "uns_path p \<longleftrightarrow>
     list_all uns_name (js_split (CHR ''/'') (map (\<lambda>c. if c = CHR ''.'' then CHR ''/'' else c) p)) \<and>
     length (filter (\<lambda>c. c = CHR ''.'') p) \<le> 1"

lemma squeeze_chars: "set (squeeze P a s) \<subseteq> insert a {c \<in> set s. \<not> P c}"
  by (induction P a s rule: squeeze.induct) (auto dest: set_dropWhileD)

lemma hd_trimmed: assumes "dropWhile P (rev d) \<noteq> []" shows "hd (rev (dropWhile P (rev d))) = hd d"
proof -
  have "rev (takeWhile P (rev d) @ dropWhile P (rev d)) = d" by simp
  then have "hd d = hd (rev (dropWhile P (rev d)) @ rev (takeWhile P (rev d)))" unfolding rev_append by simp
  also have "\<dots> = hd (rev (dropWhile P (rev d)))" using assms by (intro hd_append2) simp
  finally show ?thesis by simp
qed

lemma slug_name: assumes "slug s \<noteq> []" shows "uns_name (slug s)"
proof -
  let ?u = "\<lambda>c. c = CHR ''_''"
  let ?q = "squeeze (\<lambda>c. \<not> is_slug_char c) (CHR ''_'') (js_lower s)"
  let ?d = "dropWhile ?u ?q"
  have eq: "slug s = rev (dropWhile ?u (rev ?d))" by (simp add: slug_def)
  have sub: "set (slug s) \<subseteq> set ?q" unfolding eq by (auto dest!: set_dropWhileD)
  have chars: "list_all (\<lambda>c. is_slug_char c \<or> ?u c) (slug s)"
    using sub squeeze_chars [of "\<lambda>c. \<not> is_slug_char c" "CHR ''_''" "js_lower s"] by (auto simp: list_all_iff)
  have ne: "dropWhile ?u (rev ?d) \<noteq> []" using assms eq by simp
  have last_ok: "\<not> ?u (last (slug s))"
    using hd_dropWhile [OF ne] unfolding eq by (simp add: last_rev)
  have "?d \<noteq> []" using ne by (metis dropWhile.simps(1) rev.simps(1))
  have "hd (slug s) = hd ?d" unfolding eq by (rule hd_trimmed [OF ne])
  with hd_dropWhile [OF \<open>?d \<noteq> []\<close>] have "\<not> ?u (hd (slug s))" by simp
  with last_ok chars assms show ?thesis by (simp add: uns_name_def)
qed

lemma name_no_sep: "uns_name w \<Longrightarrow> CHR ''/'' \<notin> set w \<and> CHR ''.'' \<notin> set w"
  by (auto simp: uns_name_def list_all_iff is_slug_char_def is_lower_def is_digit_def code_def)

lemma name_kept: "uns_name w \<Longrightarrow> map (\<lambda>c. if c = CHR ''.'' then CHR ''/'' else c) w = w"
  using name_no_sep by (intro map_idI) auto

lemma name_undotted: "uns_name w \<Longrightarrow> filter (\<lambda>c. c = CHR ''.'') w = []"
  using name_no_sep by (auto simp: filter_empty_conv)

lemma path_single: "uns_name w \<Longrightarrow> uns_path w"
  using name_no_sep [of w] by (simp add: uns_path_def name_kept js_split_none name_undotted)

lemma path_cons: "uns_name w \<Longrightarrow> uns_path p \<Longrightarrow> uns_path (w @ ''/'' @ p)"
  using name_no_sep [of w] by (simp add: uns_path_def name_kept js_split_none js_split_join name_undotted)

lemma path_joined: "list_all uns_name ws \<Longrightarrow> uns_path p \<Longrightarrow> ws \<noteq> [] \<Longrightarrow> uns_path (js_join ''/'' ws @ ''/'' @ p)"
  by (induction "''/''" ws rule: js_join.induct) (use path_cons in auto)

lemma path_dot: "uns_name u \<Longrightarrow> uns_name w \<Longrightarrow> uns_path (u @ ''.'' @ w)"
  using name_no_sep [of u] name_no_sep [of w]
  by (simp add: uns_path_def name_kept js_split_none js_split_join name_undotted)

lemma path_of_names: assumes "list_all uns_name segs" "path_of segs = Some p" shows "uns_path p"
proof -
  have nth: "i < length segs \<Longrightarrow> uns_name (segs ! i)" for i using assms(1) by (simp add: list_all_length)
  have front: "list_all uns_name (take (length segs - 2) segs)"
    using assms(1) by (auto simp: list_all_iff dest: in_set_takeD)
  consider "length segs = 0" | "length segs = 1" | "length segs = 2" | "3 \<le> length segs" by linarith
  then show ?thesis
  proof cases
    case 1 then show ?thesis using assms(2) by (simp add: path_of_def)
  next
    case 2 then show ?thesis using assms(2) path_single nth by (auto simp: path_of_def)
  next
    case 3 then show ?thesis using assms(2) path_cons [OF nth path_single [OF nth], of 0 1] by (auto simp: path_of_def)
  next
    case 4
    then have "take (length segs - 2) segs \<noteq> []" by auto
    with 4 assms(2) front path_dot [OF nth nth, of "length segs - 2" "length segs - 1"] path_joined show ?thesis
      by (auto simp: path_of_def Let_def)
  qed
qed

lemma binding_is_path: "normalizeBinding T raw = Some p \<Longrightarrow> uns_path p"
  by (auto simp: normalizeBinding_def tag_names_def list_all_iff intro: slug_name intro!: path_of_names split: if_splits)

section \<open>One symbol\<close>

definition is_group :: "(js_val \<Rightarrow> string) \<Rightarrow> pi_symbol \<Rightarrow> bool" where
  "is_group T ps \<longleftrightarrow> pi_type T ps = ''group''"

definition import_types :: "string list" where
  "import_types = RENDERABLE_MAPPED_TYPES @ map snd GRAPHIC_KEYWORD_MAP"

definition paths_ok :: "item_base \<Rightarrow> bool" where
  "paths_ok b \<longleftrightarrow> list_all (\<lambda>(s, p). uns_path p) (nullish (ci_bindings b) [])"

text \<open>
  The item a symbol becomes: with its identifier, where the source has it, of a type that can be shown, and its paths
  well formed; or a placeholder that is listed under the same identifier.
\<close>

definition item_for :: "(js_val \<Rightarrow> string) \<Rightarrow> nat \<times> pi_symbol \<Rightarrow> canvas_item \<Rightarrow> bool" where
  "item_for T ip it \<longleftrightarrow>
     item_id it = pdix_id (fst ip) \<and> item_pos it = pi_pos (snd ip) \<and> item_size it = pi_size T (snd ip) \<and>
     (ci_type (ci_base it) = IMPORT_PLACEHOLDER_TYPE \<or> ci_type (ci_base it) \<in> set import_types) \<and> paths_ok (ci_base it)"

definition is_placeholder :: "canvas_item \<Rightarrow> bool" where
  "is_placeholder it \<longleftrightarrow> ci_type (ci_base it) = IMPORT_PLACEHOLDER_TYPE"

definition entered :: "(js_val \<Rightarrow> string) \<Rightarrow> nat \<times> pi_symbol \<Rightarrow> gathered \<Rightarrow> gathered \<Rightarrow> bool" where
  "entered T ip g g' \<longleftrightarrow>
     ga_stats g' = ga_stats g \<and> ga_maxX g' = ga_maxX g \<and> ga_maxY g' = ga_maxY g \<and> ga_groups g' = ga_groups g \<and>
     (\<exists>it. ga_items g' = ga_items g @ [it] \<and> item_for T ip it \<and>
           map un_id (ga_unmapped g') = map un_id (ga_unmapped g) @ (if is_placeholder it then [item_id it] else []))"

lemma placed_item_simps [simp]:
  "ci_id (placed_item i t p s r) = i" "ci_type (placed_item i t p s r) = t" "ci_position (placed_item i t p s r) = p"
  "ci_size (placed_item i t p s r) = s" "ci_bindings (placed_item i t p s r) = None"
  by (simp_all add: placed_item_def bare_item_def)

lemmas item_for_defs = item_for_def is_placeholder_def paths_ok_def item_id_def item_pos_def item_size_def

lemma placeholder_not_type: "t \<in> set import_types \<Longrightarrow> t \<noteq> IMPORT_PLACEHOLDER_TYPE"
  by (auto simp: import_types_def RENDERABLE_MAPPED_TYPES_def GRAPHIC_KEYWORD_MAP_def IMPORT_PLACEHOLDER_TYPE_def)

lemma entered_placeholder:
  "entered T (n, ps) g (placeholder (pdix_id n) name t reason (pi_pos ps) (pi_size T ps) r ref g)"
  by (simp add: entered_def placeholder_def item_for_defs)

lemma first_is_path: "firstBinding T ps = Some p \<Longrightarrow> uns_path p"
  by (auto simp: firstBinding_def binding_is_path split: list.splits)

lemma bindings_are_paths: "list_all (\<lambda>(s, p). uns_path p) (pi_bindings T m ps)"
  by (auto simp: pi_bindings_def list_all_iff map_filter_def first_is_path binding_is_path split: option.splits)

lemma entered_item:
  assumes "ga_items g' = ga_items g @ [CanvasItem b None]" "ga_stats g' = ga_stats g" "ga_maxX g' = ga_maxX g"
    "ga_maxY g' = ga_maxY g" "ga_groups g' = ga_groups g" "ga_unmapped g' = ga_unmapped g"
    "ci_id b = pdix_id n" "ci_position b = pi_pos ps" "ci_size b = pi_size T ps" "ci_type b \<in> set import_types" "paths_ok b"
  shows "entered T (n, ps) g g'"
  using assms placeholder_not_type [OF assms(10)]
  by (auto simp: entered_def item_for_def is_placeholder_def item_id_def item_pos_def item_size_def)

lemma graphic_type: "mapGraphicSymbol T d f w h = Some t \<Longrightarrow> t \<in> set import_types"
  by (auto simp: mapGraphicSymbol_def import_types_def Let_def find_Some_iff split: if_splits) (metis nth_mem snd_conv image_eqI)

lemma entered_multi: "entered T ip (g\<lparr>ga_multiState := k\<rparr>) g' \<Longrightarrow> entered T ip g g'"
  by (simp add: entered_def)

lemma graphic_item_simps [simp]:
  "ci_id (graphic_item T i t ps) = i" "ci_type (graphic_item T i t ps) = t" "ci_position (graphic_item T i t ps) = pi_pos ps"
  "ci_size (graphic_item T i t ps) = pi_size T ps"
  "ci_bindings (graphic_item T i t ps) = map_option (\<lambda>d. [(''status'', d)]) (firstBinding T ps)"
  by (simp_all add: graphic_item_def Let_def)

lemma mapped_item_simps [simp]:
  "ci_id (mapped_item T F i t bs l ps) = i" "ci_type (mapped_item T F i t bs l ps) = t"
  "ci_position (mapped_item T F i t bs l ps) = pi_pos ps" "ci_size (mapped_item T F i t bs l ps) = pi_size T ps"
  "ci_bindings (mapped_item T F i t bs l ps) = (if bs = [] then None else Some bs)"
  by (simp_all add: mapped_item_def Let_def)

lemma entered_graphic: "entered T (n, ps) g (import_graphic T (pdix_id n) name ps g)"
proof (cases "mapGraphicSymbol T (field (pi_config ps) ''DirectoryKey'') (field (pi_config ps) ''FileKey'')
    (wd (pi_size T ps)) (ht (pi_size T ps))")
  case None
  then show ?thesis
    by (auto simp: import_graphic_def Let_def intro: entered_placeholder entered_multi)
next
  case (Some t)
  have "paths_ok (graphic_item T (pdix_id n) t ps)"
    by (cases "firstBinding T ps") (simp_all add: paths_ok_def first_is_path)
  then show ?thesis using graphic_type [OF Some]
    by (intro entered_item [where b = "graphic_item T (pdix_id n) t ps"]) (simp_all add: import_graphic_def Some Let_def)
qed

lemma entered_mapped:
  assumes "m \<in> set RENDERABLE_MAPPED_TYPES" shows "entered T (n, ps) g (import_mapped T F D (pdix_id n) m ps g)"
  by (rule entered_item, simp add: import_mapped_def Let_def)
     (use assms bindings_are_paths [of T m ps] in \<open>simp_all add: import_mapped_def Let_def import_types_def paths_ok_def\<close>)

lemma map_targets: "list_all (\<lambda>(t, m). m \<in> set RENDERABLE_MAPPED_TYPES) (DATASHAPE_MAP @ TYPE_MAP)"
  by code_simp

lemma mapped_type_renderable: "mapped_type T ps = Some m \<Longrightarrow> m \<in> set RENDERABLE_MAPPED_TYPES"
  using map_targets by (auto simp: mapped_type_def orelse_def list_all_iff dest!: map_of_SomeD split: option.splits)

lemma import_symbol_enters:
  "\<not> is_group T ps \<Longrightarrow> entered T (n, ps) (note_symbol T ps g) (import_symbol T F D (n, ps) g)"
  using entered_graphic entered_placeholder entered_mapped mapped_type_renderable
  by (auto simp: import_symbol_def is_group_def Let_def split: option.splits)

lemma import_group:
  "is_group T ps \<Longrightarrow> import_symbol T F D (n, ps) g = (note_symbol T ps g)\<lparr>ga_groups := ga_groups g + 1\<rparr>"
  by (simp add: import_symbol_def is_group_def Let_def note_symbol_def)

section \<open>A whole file\<close>

lemma import_symbols_snoc:
  "import_symbols T F D (xs @ [x]) = import_symbol T F D (length xs, x) (import_symbols T F D xs)"
  by (simp add: import_symbols_def enumerate_append_eq)

definition drawn :: "(js_val \<Rightarrow> string) \<Rightarrow> pi_symbol list \<Rightarrow> (nat \<times> pi_symbol) list" where
  "drawn T xs = filter (\<lambda>(n, ps). \<not> is_group T ps) (enumerate 0 xs)"

definition inside :: "gathered \<Rightarrow> canvas_item \<Rightarrow> bool" where
  "inside g it \<longleftrightarrow> item_right it \<le> ga_maxX g \<and> item_bottom it \<le> ga_maxY g"

definition accounted :: "(js_val \<Rightarrow> string) \<Rightarrow> pi_symbol list \<Rightarrow> gathered \<Rightarrow> bool" where
  "accounted T xs g \<longleftrightarrow>
     list_all2 (item_for T) (drawn T xs) (ga_items g) \<and>
     map un_id (ga_unmapped g) = map item_id (filter is_placeholder (ga_items g)) \<and>
     ga_groups g = length (filter (is_group T) xs) \<and>
     (\<forall>t. nullish (map_of (ga_stats g) t) 0 = of_nat (length (filter (\<lambda>ps. pi_type T ps = t) xs))) \<and>
     list_all (inside g) (ga_items g) \<and> 0 \<le> ga_maxX g \<and> 0 \<le> ga_maxY g"

lemma drawn_snoc: "drawn T (xs @ [x]) = drawn T xs @ (if is_group T x then [] else [(length xs, x)])"
  by (simp add: drawn_def enumerate_append_eq)

lemma note_symbol_simps [simp]:
  "ga_items (note_symbol T ps g) = ga_items g" "ga_unmapped (note_symbol T ps g) = ga_unmapped g"
  "ga_groups (note_symbol T ps g) = ga_groups g"
  "ga_maxX (note_symbol T ps g) = max (ga_maxX g) (px (pi_pos ps) + wd (pi_size T ps))"
  "ga_maxY (note_symbol T ps g) = max (ga_maxY g) (py (pi_pos ps) + ht (pi_size T ps))"
  "ga_stats (note_symbol T ps g) = AList.update (pi_type T ps) (nullish (map_of (ga_stats g) (pi_type T ps)) 0 + 1) (ga_stats g)"
  by (simp_all add: note_symbol_def Let_def)

lemma inside_mono: "inside g it \<Longrightarrow> ga_maxX g \<le> ga_maxX g' \<Longrightarrow> ga_maxY g \<le> ga_maxY g' \<Longrightarrow> inside g' it"
  by (auto simp: inside_def)

lemma accounted_step: assumes "accounted T xs g" shows "accounted T (xs @ [x]) (import_symbol T F D (length xs, x) g)"
proof (cases "is_group T x")
  case True
  have "list_all (inside (note_symbol T x g)) (ga_items g)"
    using assms by (auto simp: accounted_def list_all_iff intro: inside_mono)
  then show ?thesis using assms True
    by (auto simp: accounted_def import_group drawn_snoc update_conv inside_def list_all_iff)
next
  case False
  define g1 where "g1 = note_symbol T x g"
  obtain it where *: "ga_items (import_symbol T F D (length xs, x) g) = ga_items g @ [it]" "item_for T (length xs, x) it"
    "map un_id (ga_unmapped (import_symbol T F D (length xs, x) g)) = map un_id (ga_unmapped g) @ (if is_placeholder it then [item_id it] else [])"
    "ga_stats (import_symbol T F D (length xs, x) g) = ga_stats g1" "ga_maxX (import_symbol T F D (length xs, x) g) = ga_maxX g1"
    "ga_maxY (import_symbol T F D (length xs, x) g) = ga_maxY g1" "ga_groups (import_symbol T F D (length xs, x) g) = ga_groups g"
    using import_symbol_enters [OF False, of "length xs" g F D] by (auto simp: entered_def g1_def)
  have old: "list_all (inside g1) (ga_items g)"
    using assms by (auto simp: accounted_def list_all_iff g1_def intro: inside_mono)
  have new: "inside g1 it" using *(2) by (auto simp: inside_def g1_def item_for_def item_right_def item_bottom_def)
  have "list_all2 (item_for T) (drawn T (xs @ [x])) (ga_items g @ [it])"
    using assms *(2) False by (simp add: accounted_def drawn_snoc list_all2_appendI)
  moreover have "nullish (map_of (ga_stats g1) t) 0 = of_nat (length (filter (\<lambda>ps. pi_type T ps = t) (xs @ [x])))" for t
    using assms by (simp add: accounted_def g1_def update_conv)
  moreover have "0 \<le> ga_maxX g1" "0 \<le> ga_maxY g1" using assms by (auto simp: accounted_def g1_def)
  ultimately show ?thesis using assms * old new False
    by (simp add: accounted_def inside_def [abs_def])
qed

lemma import_accounted: "accounted T xs (import_symbols T F D xs)"
proof (induction xs rule: rev_induct)
  case Nil
  show ?case by (simp add: accounted_def import_symbols_def nothing_gathered_def drawn_def)
next
  case (snoc x xs)
  then show ?case by (simp add: import_symbols_snoc accounted_step)
qed

lemma show_nat_eq: "show_nat m = show_nat n \<longleftrightarrow> m = n"
  using digits_value_show_nat by (metis of_nat_eq_iff)

lemma drawn_ids: "distinct (map (pdix_id \<circ> fst) (drawn T xs))"
proof -
  have "distinct (map fst (drawn T xs))" by (simp add: drawn_def distinct_map_filter)
  then show ?thesis by (auto simp: distinct_map pdix_id_def inj_on_def show_nat_eq)
qed

lemma item_ids_drawn: "list_all2 (item_for T) ips its \<Longrightarrow> map item_id its = map (pdix_id \<circ> fst) ips"
  by (induction rule: list_all2_induct) (simp_all add: item_for_def)

lemma length_drawn: "length (drawn T xs) + length (filter (is_group T) xs) = length xs"
  by (induction xs rule: rev_induct) (simp_all add: drawn_snoc drawn_def [of T "[]"])

text \<open>
  C16. Nothing is lost silently: every symbol of the file is a group, an item that is rendered or a placeholder listed as
  unmapped, under an identifier of its own, and the report counts each of them, in all and by type.
\<close>

theorem import_accounts_for_all:
  "\<exists>im. importPdix T F D (Some d) = Some im \<and>
     ir_rendered (im_report im) + ir_placeholders (im_report im) + of_nat (length (filter (is_group T) (pi_symbols d))) =
       ir_total (im_report im) \<and>
     ir_total (im_report im) = of_nat (length (pi_symbols d)) \<and>
     ir_rendered (im_report im) = of_nat (length (filter (\<lambda>it. \<not> is_placeholder it) (im_items im))) \<and>
     map un_id (im_unmapped im) = map item_id (filter is_placeholder (im_items im)) \<and>
     distinct (map item_id (im_items im)) \<and>
     (\<forall>t. nullish (map_of (ir_byType (im_report im)) t) 0 = of_nat (length (filter (\<lambda>ps. pi_type T ps = t) (pi_symbols d))))"
proof -
  define g where "g = import_symbols T F D (pi_symbols d)"
  have acc: "accounted T (pi_symbols d) g" unfolding g_def by (rule import_accounted)
  have len: "length (ga_items g) + length (filter (is_group T) (pi_symbols d)) = length (pi_symbols d)"
    using acc length_drawn [of T "pi_symbols d"] by (auto simp: accounted_def dest: list_all2_lengthD)
  have un: "length (ga_unmapped g) = length (filter is_placeholder (ga_items g))"
    using acc by (metis accounted_def length_map)
  have split: "length (filter (\<lambda>it. \<not> is_placeholder it) (ga_items g)) + length (filter is_placeholder (ga_items g)) = length (ga_items g)"
    by (metis add.commute sum_length_filter_compl)
  have "distinct (map item_id (ga_items g))"
    using acc drawn_ids by (auto simp: accounted_def dest!: item_ids_drawn)
  moreover have "of_nat (length (ga_items g)) - (of_nat (length (ga_unmapped g)) :: rat) =
      of_nat (length (filter (\<lambda>it. \<not> is_placeholder it) (ga_items g)))"
    unfolding un split [symmetric] by simp
  moreover have "of_nat (length (ga_items g)) + (of_nat (length (filter (is_group T) (pi_symbols d))) :: rat) = of_nat (length (pi_symbols d))"
    unfolding len [symmetric] by simp
  ultimately show ?thesis using acc
    by (auto simp: importPdix_def Let_def report_of_def accounted_def g_def [symmetric])
qed



section \<open>Colours\<close>

lemma color_byte_eq: "color_byte k w = unat w div 2 ^ k mod 256"
proof -
  have lt: "unat w < 2 ^ 32" using unsigned_less [where ?'a = nat, of w] by simp
  have "drop_bit k w AND 0xFF = take_bit 8 (drop_bit k w)" by (simp add: take_bit_eq_mask mask_eq_exp_minus_1)
  moreover have "unat (take_bit 8 (drop_bit k w)) = take_bit 8 (drop_bit k (unat w))"
    using lt by (simp add: unsigned_take_bit_eq unsigned_drop_bit_eq take_bit_nat_eq_self)
  ultimately show ?thesis unfolding color_byte_def by (simp only: take_bit_eq_mod drop_bit_eq_div) simp
qed

lemma byte_split: "y < 256 \<Longrightarrow> (256 * x + y) div 256 = (x :: nat) \<and> (256 * x + y) mod 256 = y"
  by auto

lemma to_int32_of_int: "to_int32 (of_int i) = word_of_int i"
  by (simp add: to_int32_def)

definition argb :: "nat \<Rightarrow> nat \<Rightarrow> nat \<Rightarrow> nat \<Rightarrow> int" where
  "argb a r g b = int a * 2 ^ 24 + int r * 2 ^ 16 + int g * 2 ^ 8 + int b"

text \<open>
  A colour is read whole, whether the file stores its 32 bits as a signed or an unsigned number: the three
  channels and the opacity are those it was made of, and no opacity is no colour.
\<close>

theorem argb_read_back:
  assumes "a < 256" "r < 256" "g < 256" "b < 256" "n = argb a r g b \<or> n = argb a r g b - 2 ^ 32"
  shows "convertColor T F (VNum (of_int n)) =
    Some (if a = 0 then ''none''
          else ''rgba('' @ show_nat r @ '','' @ show_nat g @ '','' @ show_nat b @ '','' @ F (of_nat a / 255) 2 @ '')'')"
proof -
  define m where "m = a * 2 ^ 24 + r * 2 ^ 16 + g * 2 ^ 8 + b"
  have lt: "m < 2 ^ 32" using assms(1-4) by (simp add: m_def)
  have "argb a r g b = int m" by (simp add: argb_def m_def)
  then have "(word_of_int n :: 32 word) = word_of_int (int m)"
    using assms(5) by (auto simp: word_of_int_eq_iff take_bit_eq_mod)
  then have w: "to_int32 (of_int n) = of_nat m" by (simp add: to_int32_of_int)
  have m: "m = 256 * (256 * (256 * a + r) + g) + b" by (simp add: m_def)
  have d: "m div 256 = 256 * (256 * a + r) + g" "m mod 256 = b" using byte_split [OF assms(4)] unfolding m by blast+
  have d2: "m div 2 ^ 16 = m div 256 div 256" "m div 2 ^ 24 = m div 256 div 256 div 256" "m div 2 ^ 8 = m div 256" "m div 2 ^ 0 = m"
    by (simp_all add: div_mult2_eq [symmetric])
  have d3: "m div 256 div 256 = 256 * a + r" using byte_split [OF assms(3), of "256 * a + r"] by (simp only: d)
  have bytes: "m div 2 ^ 24 mod 256 = a" "m div 2 ^ 16 mod 256 = r" "m div 2 ^ 8 mod 256 = g" "m div 2 ^ 0 mod 256 = b"
    using assms(1) byte_split [OF assms(2), of a] byte_split [OF assms(3), of "256 * a + r"]
    by (simp_all only: d2 d3 d) simp
  have "unat (of_nat m :: 32 word) = m" using lt by (simp add: unsigned_of_nat take_bit_nat_eq_self)
  then have "color_byte 24 (of_nat m) = a" "color_byte 16 (of_nat m) = r" "color_byte 8 (of_nat m) = g" "color_byte 0 (of_nat m) = b"
    by (simp_all only: color_byte_eq bytes)
  then show ?thesis by (simp add: convertColor_def nullish_val_def w Let_def)
qed


text \<open>A file with one symbol of each kind.\<close>

definition demo_symbol_of :: "string \<Rightarrow> js_record \<Rightarrow> string list \<Rightarrow> pi_symbol" where
  "demo_symbol_of t cfg ds = \<lparr>pi_SymbolType = VStr t, pi_Type = VUndef, pi_Name = VStr ''Symbol'', pi_Configuration = Some cfg,
     pi_DataSources = Some (map VStr ds), pi_MSDataSources = None, pi_MSSymbolsIds = None\<rparr>"

definition demo_file :: pi_display where
  "demo_file = \<lparr>pd_Symbols = Some
     [demo_symbol_of ''Value'' [(''Left'', VNum 100), (''Top'', VNum 50)] [''PI:'' @ [CHR 0x5C, CHR 0x5C] @ ''SRV/Kiln 3/Speed#Value''],
      demo_symbol_of ''Group'' [] [], demo_symbol_of ''Graphic'' [(''FileKey'', VStr ''Gate Valve'')] [],
      demo_symbol_of ''Hologram'' [] []], pd_symbols = None, pd_ProductVersion = VUndef, pd_Name = VStr ''Kiln''\<rparr>"


lemma three_numbers: "show_nat 18 = ''18''" "show_nat 52 = ''52''" "show_nat 86 = ''86''"
  by code_simp+

theorem argb_read_back_witness:
  "convertColor (\<lambda>_. []) (\<lambda>_ _. ''1.00'') (VNum (of_int (argb 255 18 52 86 - 2 ^ 32))) = Some ''rgba(18,52,86,1.00)''"
  using argb_read_back [of 255 18 52 86 "argb 255 18 52 86 - 2 ^ 32" "\<lambda>_. []" "\<lambda>_ _. ''1.00''"]
  by (simp add: three_numbers)

section \<open>What a reader of the source would not expect\<close>

lemma empty_file_small_canvas:
  "map_option (\<lambda>im. (ds_canvasWidth (im_settings im), ds_canvasHeight (im_settings im)))
     (importPdix T F D (Some (demo_file\<lparr>pd_Symbols := Some []\<rparr>))) = Some (Some 40, Some 40)"
  by (simp add: importPdix_def pi_symbols_def demo_file_def import_symbols_def nothing_gathered_def canvas_side_def Let_def)

lemma device_path_has_no_slash: "normalizeBinding T (VStr ''Speed'') = Some ''speed''"
  by code_simp

lemma graphic_link_dropped:
  "ci_navigationLink (graphic_item T i t ps) = None"
  by (simp add: graphic_item_def Let_def placed_item_def bare_item_def)

end
