(* ===== verification/Display_Rules.thy ===== *)
theory Display_Rules
  imports Designer_Types
begin

text \<open>
  What a symbol shows of its readings (src/frontend-ob/src/components/Designer/ruleEngine.ts): the rules of conditional
  formatting and the states of a multi-state symbol.  \<open>text_of\<close> is \<open>String(v)\<close> on values that are no strings,
  \<open>get\<close> the reading of a slot.
\<close>

section \<open>The comparison\<close>

record rule_outcome =
  ro_hidden :: bool
  ro_blink :: bool
  ro_color :: "string option"
  ro_rotateDeg :: "rat option"

definition strict_eq :: "js_val \<Rightarrow> js_val \<Rightarrow> bool" where
  "strict_eq v a = (case v of VNaN \<Rightarrow> False | VObj \<Rightarrow> False | VLong i \<Rightarrow> False | _ \<Rightarrow> v = a)"

text \<open>A relation of two numbers; a NaN is in none.\<close>

definition num_rel :: "(rat \<Rightarrow> rat \<Rightarrow> bool) \<Rightarrow> rat option \<Rightarrow> rat option \<Rightarrow> bool" where
  "num_rel R m n = (case (m, n) of (Some x, Some y) \<Rightarrow> R x y | _ \<Rightarrow> False)"

definition same_value :: "(js_val \<Rightarrow> string) \<Rightarrow> js_val \<Rightarrow> js_val \<Rightarrow> bool" where
  "same_value text_of v a \<longleftrightarrow>
     strict_eq v a \<or> num_rel (=) (to_number v) (to_number a) \<or> js_text text_of v = js_text text_of a"

fun compare :: "(js_val \<Rightarrow> string) \<Rightarrow> rule_operator \<Rightarrow> js_val \<Rightarrow> js_val \<Rightarrow> rat option \<Rightarrow> bool" where
  "compare text_of OpGt v a b = num_rel (>) (to_number v) (to_number a)"
| "compare text_of OpGe v a b = num_rel (\<ge>) (to_number v) (to_number a)"
| "compare text_of OpLt v a b = num_rel (<) (to_number v) (to_number a)"
| "compare text_of OpLe v a b = num_rel (\<le>) (to_number v) (to_number a)"
| "compare text_of OpEq v a b = same_value text_of v a"
| "compare text_of OpNe v a b =
     (\<not> (strict_eq v a \<or> js_text text_of v = js_text text_of a \<or> num_rel (=) (to_number v) (to_number a)))"
| "compare text_of OpBetween v a b =
     (b \<noteq> None \<and> num_rel (\<ge>) (to_number v) (to_number a) \<and> num_rel (\<le>) (to_number v) b)"
| "compare text_of OpOutside v a b =
     (b \<noteq> None \<and> (num_rel (<) (to_number v) (to_number a) \<or> num_rel (>) (to_number v) b))"

section \<open>The rules\<close>

definition no_outcome :: rule_outcome where
  "no_outcome = \<lparr>ro_hidden = False, ro_blink = False, ro_color = None, ro_rotateDeg = None\<rparr>"

fun apply_effect :: "visual_rule \<Rightarrow> rule_effect \<Rightarrow> rule_outcome \<Rightarrow> rule_outcome" where
  "apply_effect r EffColor out = (if truthy (vr_color r) then out\<lparr>ro_color := vr_color r\<rparr> else out)"
| "apply_effect r EffBlink out = out\<lparr>ro_blink := True\<rparr>"
| "apply_effect r EffHidden out = out\<lparr>ro_hidden := True\<rparr>"
| "apply_effect r EffRotate out = (if vr_rotateDeg r \<noteq> None then out\<lparr>ro_rotateDeg := vr_rotateDeg r\<rparr> else out)"

definition rule_applies :: "(js_val \<Rightarrow> string) \<Rightarrow> (string option \<Rightarrow> js_val) \<Rightarrow> visual_rule \<Rightarrow> bool" where
  "rule_applies text_of get r \<longleftrightarrow>
     \<not> nullish_val (get (vr_slot r)) \<and> compare text_of (vr_op r) (get (vr_slot r)) (vr_value r) (vr_value2 r)"

definition rule_step :: "(js_val \<Rightarrow> string) \<Rightarrow> (string option \<Rightarrow> js_val) \<Rightarrow> visual_rule \<Rightarrow> rule_outcome \<Rightarrow> rule_outcome" where
  "rule_step text_of get r out = (if rule_applies text_of get r then apply_effect r (vr_effect r) out else out)"

definition evaluateRules :: "(js_val \<Rightarrow> string) \<Rightarrow> visual_rule list option \<Rightarrow> (string option \<Rightarrow> js_val) \<Rightarrow> rule_outcome" where
  "evaluateRules text_of rules get = fold (rule_step text_of get) (nullish rules []) no_outcome"

section \<open>Multi-state\<close>

record multi_state_outcome =
  mo_color :: "string option"
  mo_label :: "string option"
  mo_blink :: "bool option"

definition shows_state :: "multi_state_item \<Rightarrow> multi_state_outcome" where
  "shows_state s = \<lparr>mo_color = Some (ms_color s), mo_label = ms_label s, mo_blink = ms_blink s\<rparr>"

definition state_matches :: "(js_val \<Rightarrow> string) \<Rightarrow> js_val \<Rightarrow> multi_state_item \<Rightarrow> bool" where
  "state_matches text_of v s =
     (case ms_equals s of
        Some e \<Rightarrow> strict_eq v e \<or> js_text text_of v = js_text text_of e
      | None \<Rightarrow> (case to_number v of
                  None \<Rightarrow> False
                | Some n \<Rightarrow> (case ms_min s of Some m \<Rightarrow> m \<le> n | None \<Rightarrow> True) \<and> (case ms_max s of Some m \<Rightarrow> n \<le> m | None \<Rightarrow> True)))"

definition evaluateMultiState ::
  "(js_val \<Rightarrow> string) \<Rightarrow> multi_state_config option \<Rightarrow> (string option \<Rightarrow> js_val) \<Rightarrow> multi_state_outcome option" where
  "evaluateMultiState text_of cfg get =
     (case cfg of
        None \<Rightarrow> None
      | Some c \<Rightarrow>
          if mc_states c = [] then None
          else case find (state_matches text_of (get (mc_slot c))) (mc_states c) of
            Some s \<Rightarrow> Some (shows_state s)
          | None \<Rightarrow> map_option (\<lambda>d. \<lparr>mo_color = md_color d, mo_label = md_label d, mo_blink = None\<rparr>) (mc_default c))"

section \<open>Properties\<close>

text \<open>The last rule, of those that apply, that sets a colour or an angle.\<close>

definition last_set :: "(visual_rule \<Rightarrow> bool) \<Rightarrow> (visual_rule \<Rightarrow> 'b option) \<Rightarrow> visual_rule list \<Rightarrow> 'b option" where
  "last_set P f rs = (if filter P rs = [] then None else f (last (filter P rs)))"

lemma last_set_Nil [simp]: "last_set P f [] = None"
  by (simp add: last_set_def)

lemma last_set_snoc [simp]: "last_set P f (rs @ [r]) = (if P r then f r else last_set P f rs)"
  by (simp add: last_set_def)

definition sets_color :: "(js_val \<Rightarrow> string) \<Rightarrow> (string option \<Rightarrow> js_val) \<Rightarrow> visual_rule \<Rightarrow> bool" where
  "sets_color T get r \<longleftrightarrow> rule_applies T get r \<and> vr_effect r = EffColor \<and> truthy (vr_color r)"

definition sets_angle :: "(js_val \<Rightarrow> string) \<Rightarrow> (string option \<Rightarrow> js_val) \<Rightarrow> visual_rule \<Rightarrow> bool" where
  "sets_angle T get r \<longleftrightarrow> rule_applies T get r \<and> vr_effect r = EffRotate \<and> vr_rotateDeg r \<noteq> None"

lemma evaluate_snoc: "evaluateRules T (Some (rs @ [r])) get = rule_step T get r (evaluateRules T (Some rs) get)"
  by (simp add: evaluateRules_def)

text \<open>
  C38. The order of the rules matters only for what they set: a symbol is hidden, or blinks, when some applicable rule
  says so, and has the colour, and the angle, of the last applicable rule that gives one.
\<close>

theorem rules_declarative:
  "evaluateRules T (Some rs) get =
    \<lparr>ro_hidden = list_ex (\<lambda>r. rule_applies T get r \<and> vr_effect r = EffHidden) rs,
     ro_blink = list_ex (\<lambda>r. rule_applies T get r \<and> vr_effect r = EffBlink) rs,
     ro_color = last_set (sets_color T get) vr_color rs,
     ro_rotateDeg = last_set (sets_angle T get) vr_rotateDeg rs\<rparr>"
proof (induction rs rule: rev_induct)
  case Nil
  show ?case by (simp add: evaluateRules_def no_outcome_def)
next
  case (snoc r rs)
  have sets: "sets_color T get r \<longleftrightarrow> rule_applies T get r \<and> vr_effect r = EffColor \<and> truthy (vr_color r)"
    "sets_angle T get r \<longleftrightarrow> rule_applies T get r \<and> vr_effect r = EffRotate \<and> vr_rotateDeg r \<noteq> None"
    by (simp_all add: sets_color_def sets_angle_def)
  show ?case unfolding evaluate_snoc snoc
    by (cases "rule_applies T get r"; cases "vr_effect r") (simp_all add: rule_step_def sets)
qed

text \<open>
  The operators are the ones their names say: different is the negation of equal, and of a number and two bounds in
  order exactly one of inside and outside holds.
\<close>

theorem operators_complement:
  assumes "to_number v = Some n" "to_number a = Some lo"
  shows "(compare T OpNe v a b \<longleftrightarrow> \<not> compare T OpEq v a b) \<and>
    (compare T OpOutside v a (Some hi) \<longleftrightarrow> \<not> compare T OpBetween v a (Some hi))"
  using assms by (auto simp: same_value_def num_rel_def)

theorem operators_complement_witness:
  "compare (\<lambda>_. []) OpOutside (VBool True) (VNum 8) (Some 9) \<and> \<not> compare (\<lambda>_. []) OpBetween (VBool True) (VNum 8) (Some 9)"
proof -
  have n: "to_number (VBool True) = Some 1" by simp
  have "\<not> compare (\<lambda>_. []) OpBetween (VBool True) (VNum 8) (Some 9)" by (simp only: compare.simps num_rel_def n to_number.simps(1)) simp
  with conjunct2 [OF operators_complement [OF n to_number.simps(1) [of 8], of "\<lambda>_. []" None 9]] show ?thesis by blast
qed

text \<open>A missing reading is skipped by the rules, but counts as zero in the ranges of a multi-state symbol.\<close>

lemma missing_reading_is_zero:
  "state_matches T VNull \<lparr>ms_min = Some 0, ms_max = Some 10, ms_equals = None, ms_label = None, ms_color = ''green'', ms_blink = None\<rparr>"
  "\<not> rule_applies T (\<lambda>_. VNull) r"
  by (simp_all add: state_matches_def rule_applies_def nullish_val_def)

end
