(* ===== verification/Units_Quality.thy ===== *)
theory Units_Quality
  imports Js_Lib
begin

text \<open>
  The unit of a reading and its quality (src/frontend-ob/src/utils/uom.ts, utils/quality.ts).  A factor is the rational
  the source writes; a value that is not a finite number is \<open>None\<close>.  The glyphs of the badges are left out.
\<close>

section \<open>Units\<close>

datatype dimension =
    Pressure | Temperature | Flow | Level | Speed | Rotation | Velocity | Ratio
  | Current | Voltage | Power | Frequency | Length | Mass | Volume | Unitless

record unit_def =
  ud_symbol :: string
  ud_dimension :: dimension
  ud_factor :: rat
  ud_offset :: rat
  ud_aliases :: "string list"

abbreviation degree_sign :: char where "degree_sign \<equiv> CHR 0xB0"
abbreviation cubed_sign :: char where "cubed_sign \<equiv> CHR 0xB3"

definition measure_unit :: "string \<Rightarrow> dimension \<Rightarrow> rat \<Rightarrow> rat \<Rightarrow> string list \<Rightarrow> unit_def" where
  "measure_unit s d f off al = \<lparr>ud_symbol = s, ud_dimension = d, ud_factor = f, ud_offset = off, ud_aliases = al\<rparr>"

definition UNITS :: "unit_def list" where
  "UNITS =
    [measure_unit ''Pa'' Pressure 1 0 [''pa'', ''pascal''],
     measure_unit ''kPa'' Pressure 1000 0 [''kpa''],
     measure_unit ''bar'' Pressure 100000 0 [''bar''],
     measure_unit ''psi'' Pressure (6894757 / 1000) 0 [''psi'', ''psig''],
     measure_unit ''MPa'' Pressure 1000000 0 [''mpa''],
     measure_unit (degree_sign # ''C'') Temperature 1 (27315 / 100) [''degc'', ''c'', degree_sign # ''c'', ''celsius''],
     measure_unit (degree_sign # ''F'') Temperature (5 / 9) (255372 / 1000) [''degf'', ''f'', degree_sign # ''f'', ''fahrenheit''],
     measure_unit ''K'' Temperature 1 0 [''k'', ''kelvin''],
     measure_unit (''m'' @ cubed_sign # ''/h'') Flow (1 / 3600) 0 [''m3/h'', ''m3/hr'', ''m'' @ cubed_sign # ''/hr''],
     measure_unit ''L/s'' Flow (1 / 1000) 0 [''l/s'', ''lps''],
     measure_unit ''gpm'' Flow (630902 / 10000000000) 0 [''gpm'', ''gal/min''],
     measure_unit ''%'' Level 1 0 [''%'', ''pct'', ''percent''],
     measure_unit ''m/s'' Speed 1 0 [''m/s'', ''mps''],
     measure_unit ''RPM'' Rotation 1 0 [''rpm''],
     measure_unit ''A'' Current 1 0 [''a'', ''amp'', ''amps''],
     measure_unit ''mA'' Current (1 / 1000) 0 [''ma''],
     measure_unit ''V'' Voltage 1 0 [''v'', ''volt'', ''volts''],
     measure_unit ''kV'' Voltage 1000 0 [''kv''],
     measure_unit ''kW'' Power 1000 0 [''kw''],
     measure_unit ''MW'' Power 1000000 0 [''mw''],
     measure_unit ''Hz'' Frequency 1 0 [''hz''],
     measure_unit ''mm/s'' Velocity (1 / 1000) 0 [''mm/s'']]"

text \<open>The keys of the map in the order they are set; a later entry replaces an earlier one.\<close>

definition unit_keys :: "(string \<times> unit_def) list" where
  "unit_keys = concat (map (\<lambda>u. map (\<lambda>k. (k, u)) (js_lower (ud_symbol u) # ud_aliases u)) UNITS)"

definition resolveUnit :: "string option \<Rightarrow> unit_def option" where
  "resolveUnit u = (if truthy u then map_of (rev unit_keys) (js_lower (js_trim (the u))) else None)"

definition dimensionOf :: "string option \<Rightarrow> dimension" where
  "dimensionOf u = (case resolveUnit u of Some d \<Rightarrow> ud_dimension d | None \<Rightarrow> Unitless)"

definition canonicalUnit :: "string option \<Rightarrow> string" where
  "canonicalUnit u = (case resolveUnit u of Some d \<Rightarrow> ud_symbol d | None \<Rightarrow> nullish u [])"

definition compatibleUnits :: "string option \<Rightarrow> string list" where
  "compatibleUnits u =
     (if dimensionOf u = Unitless then (if canonicalUnit u = [] then [] else [canonicalUnit u])
      else map ud_symbol (filter (\<lambda>d. ud_dimension d = dimensionOf u) UNITS))"

definition convertible :: "string option \<Rightarrow> string option \<Rightarrow> bool" where
  "convertible u w =
     (case (resolveUnit u, resolveUnit w) of (Some a, Some b) \<Rightarrow> ud_dimension a = ud_dimension b | _ \<Rightarrow> False)"

definition convert_units :: "rat \<Rightarrow> unit_def \<Rightarrow> unit_def \<Rightarrow> rat" where
  "convert_units v a b = (v * ud_factor a + ud_offset a - ud_offset b) / ud_factor b"

definition convert :: "rat option \<Rightarrow> string option \<Rightarrow> string option \<Rightarrow> rat option" where
  "convert v u w =
     (case (v, resolveUnit u, resolveUnit w) of
        (Some x, Some a, Some b) \<Rightarrow>
          if ud_dimension a \<noteq> ud_dimension b \<or> ud_symbol a = ud_symbol b then v else Some (convert_units x a b)
      | _ \<Rightarrow> v)"

section \<open>Quality\<close>

datatype quality_state = Good | Uncertain | Bad | Maintenance | OutOfService

record quality_info =
  qi_state :: quality_state
  qi_ne107 :: string
  qi_color :: "string option"
  qi_label :: string

fun qualityInfo :: "quality_state \<Rightarrow> quality_info" where
  "qualityInfo Good = \<lparr>qi_state = Good, qi_ne107 = ''Good'', qi_color = None, qi_label = ''Good''\<rparr>"
| "qualityInfo Uncertain = \<lparr>qi_state = Uncertain, qi_ne107 = ''Out of Specification'', qi_color = Some ''var(--ams-caut)'', qi_label = ''Uncertain''\<rparr>"
| "qualityInfo Bad = \<lparr>qi_state = Bad, qi_ne107 = ''Failure'', qi_color = Some ''var(--ams-crit)'', qi_label = ''Bad''\<rparr>"
| "qualityInfo Maintenance = \<lparr>qi_state = Maintenance, qi_ne107 = ''Maintenance Required'', qi_color = Some ''var(--ams-advisory)'', qi_label = ''Maintenance''\<rparr>"
| "qualityInfo OutOfService = \<lparr>qi_state = OutOfService, qi_ne107 = ''Function Check'', qi_color = Some ''var(--ams-warn)'', qi_label = ''Out of Service''\<rparr>"

definition code_state :: "rat option \<Rightarrow> quality_state" where
  "code_state q =
     (case q of
        None \<Rightarrow> Good
      | Some c \<Rightarrow> if c = 12 \<or> c = 28 then Maintenance else if c = 8 \<or> c = 24 then OutOfService
                  else if 192 \<le> c then Good else if 64 \<le> c then Uncertain else Bad)"

definition qualityFromCode :: "rat option \<Rightarrow> bool \<Rightarrow> quality_state" where
  "qualityFromCode q stale =
     (let state = code_state q in
      if state \<in> {Bad, Maintenance, OutOfService} then state else if stale then Uncertain else state)"

definition qualityFrom :: "rat option \<Rightarrow> bool \<Rightarrow> quality_info" where
  "qualityFrom q stale = qualityInfo (qualityFromCode q stale)"

section \<open>Properties of the conversion\<close>


lemma units_distinct: "distinct (map ud_symbol UNITS)"
  by (simp add: UNITS_def measure_unit_def)

text \<open>The table of the keys, with the symbols they stand for.\<close>

lemma key_table: "map (\<lambda>(k, u). (k, ud_symbol u)) unit_keys =
   [(''pa'', ''Pa''), (''pa'', ''Pa''), (''pascal'', ''Pa''), (''kpa'', ''kPa''),
    (''kpa'', ''kPa''), (''bar'', ''bar''), (''bar'', ''bar''), (''psi'', ''psi''),
    (''psi'', ''psi''), (''psig'', ''psi''), (''mpa'', ''MPa''), (''mpa'', ''MPa''),
    (degree_sign # ''c'', degree_sign # ''C''), (''degc'', degree_sign # ''C''), (''c'', degree_sign # ''C''), (degree_sign # ''c'', degree_sign # ''C''),
    (''celsius'', degree_sign # ''C''), (degree_sign # ''f'', degree_sign # ''F''), (''degf'', degree_sign # ''F''), (''f'', degree_sign # ''F''),
    (degree_sign # ''f'', degree_sign # ''F''), (''fahrenheit'', degree_sign # ''F''), (''k'', ''K''), (''k'', ''K''),
    (''kelvin'', ''K''), (''m'' @ cubed_sign # ''/h'', ''m'' @ cubed_sign # ''/h''), (''m3/h'', ''m'' @ cubed_sign # ''/h''), (''m3/hr'', ''m'' @ cubed_sign # ''/h''),
    (''m'' @ cubed_sign # ''/hr'', ''m'' @ cubed_sign # ''/h''), (''l/s'', ''L/s''), (''l/s'', ''L/s''), (''lps'', ''L/s''),
    (''gpm'', ''gpm''), (''gpm'', ''gpm''), (''gal/min'', ''gpm''), (''%'', ''%''),
    (''%'', ''%''), (''pct'', ''%''), (''percent'', ''%''), (''m/s'', ''m/s''),
    (''m/s'', ''m/s''), (''mps'', ''m/s''), (''rpm'', ''RPM''), (''rpm'', ''RPM''),
    (''a'', ''A''), (''a'', ''A''), (''amp'', ''A''), (''amps'', ''A''),
    (''ma'', ''mA''), (''ma'', ''mA''), (''v'', ''V''), (''v'', ''V''),
    (''volt'', ''V''), (''volts'', ''V''), (''kv'', ''kV''), (''kv'', ''kV''),
    (''kw'', ''kW''), (''kw'', ''kW''), (''mw'', ''MW''), (''mw'', ''MW''),
    (''hz'', ''Hz''), (''hz'', ''Hz''), (''mm/s'', ''mm/s''), (''mm/s'', ''mm/s'')]"
  by code_simp

lemma symbol_keys: "map (\<lambda>u. js_lower (js_trim (ud_symbol u))) UNITS =
   [''pa'', ''kpa'', ''bar'', ''psi'', ''mpa'', degree_sign # ''c'', degree_sign # ''f'', ''k'',
    ''m'' @ cubed_sign # ''/h'', ''l/s'', ''gpm'', ''%'', ''m/s'', ''rpm'', ''a'', ''ma'',
    ''v'', ''kv'', ''kw'', ''mw'', ''hz'', ''mm/s'']"
  by code_simp

lemma resolve_symbol: "map_option ud_symbol (resolveUnit u) =
    (if truthy u then map_of (rev (map (\<lambda>(k, u). (k, ud_symbol u)) unit_keys)) (js_lower (js_trim (the u))) else None)"
  by (simp add: resolveUnit_def rev_map map_of_map)

lemma units_found: "map (\<lambda>u. map_option ud_symbol (resolveUnit (Some (ud_symbol u)))) UNITS = map (Some \<circ> ud_symbol) UNITS"
proof -
  have "map (\<lambda>u. map_of (rev (map (\<lambda>(k, u). (k, ud_symbol u)) unit_keys)) (js_lower (js_trim (ud_symbol u)))) UNITS =
      map (map_of (rev (map (\<lambda>(k, u). (k, ud_symbol u)) unit_keys))) (map (\<lambda>u. js_lower (js_trim (ud_symbol u))) UNITS)"
    by simp
  also have "\<dots> = map (Some \<circ> ud_symbol) UNITS"
    unfolding key_table symbol_keys by (simp add: UNITS_def measure_unit_def)
  finally show ?thesis unfolding resolve_symbol by (simp add: UNITS_def measure_unit_def)
qed

lemma resolved_is_unit: "resolveUnit u = Some a \<Longrightarrow> a \<in> set UNITS"
  by (auto simp: resolveUnit_def unit_keys_def dest!: map_of_SomeD split: if_splits)








text \<open>
  Every unit that is offered in place of another can be converted to, and is found again by its own symbol.
\<close>

theorem offered_units_convert:
  assumes "w \<in> set (compatibleUnits u)" "dimensionOf u \<noteq> Unitless"
  shows "convertible u (Some w) \<and> canonicalUnit (Some w) = w"
proof -
  obtain b where b: "b \<in> set UNITS" "ud_dimension b = dimensionOf u" "w = ud_symbol b"
    using assms by (auto simp: compatibleUnits_def)
  then have "map_option ud_symbol (resolveUnit (Some w)) = Some (ud_symbol b)" using units_found by simp
  then have "resolveUnit (Some w) = Some b" using resolved_is_unit b units_distinct by (auto dest: inj_onD simp: distinct_map)
  with b assms(2) show ?thesis
    by (auto simp: convertible_def canonicalUnit_def dimensionOf_def split: option.splits)
qed

theorem offered_units_convert_witness: "convertible (Some '' PSIG '') (Some ''bar'') \<and> canonicalUnit (Some ''bar'') = ''bar''"
proof -
  have "''bar'' \<in> set (compatibleUnits (Some '' PSIG ''))" "dimensionOf (Some '' PSIG '') \<noteq> Unitless" by code_simp+
  then show ?thesis by (rule offered_units_convert)
qed

section \<open>Properties of the quality\<close>

text \<open>
  A reading is shown as good only when its code is good, or absent, and it is not stale; staleness never hides a
  failure, and only what is good has no colour.
\<close>

theorem quality_never_masked:
  "(qualityFromCode q stale = Good \<longleftrightarrow> code_state q = Good \<and> \<not> stale) \<and>
   (qualityFromCode q stale = Uncertain \<longleftrightarrow> code_state q = Uncertain \<or> code_state q = Good \<and> stale) \<and>
   (code_state q \<notin> {Good, Uncertain} \<longrightarrow> qualityFromCode q stale = code_state q) \<and>
   (qi_color (qualityFrom q stale) = None \<longleftrightarrow> qualityFromCode q stale = Good)"
  by (cases "code_state q") (auto simp: qualityFromCode_def qualityFrom_def)

theorem quality_never_masked_witness: "qualityFromCode (Some 0) True = Bad"
  using quality_never_masked [of "Some 0" True] by (simp add: code_state_def)

text \<open>The lookup ignores case, and with it the difference of milli and mega.\<close>

lemma milliwatt_is_megawatt: "canonicalUnit (Some ''mW'') = ''MW''" "convert (Some 1) (Some ''mW'') (Some ''kW'') = Some 1000"
  by code_simp+

end
