(* ===== verification/Thumbnail.thy ===== *)
theory Thumbnail
  imports Designer_Editor
begin

text \<open>
  The preview of a display (src/frontend-ob/src/components/Designer/thumbnail.ts): a drawing of the items as boxes and
  labels, as text.  \<open>num_text\<close> is the text of a number in a template.
\<close>

definition THUMB_W :: rat where
  "THUMB_W = 400"

definition mentions :: "string list \<Rightarrow> string \<Rightarrow> bool" where
  "mentions ws t \<longleftrightarrow> list_ex (js_includes t) ws"

definition kindColor :: "string \<Rightarrow> string" where
  "kindColor t =
     (if mentions [''import.unmapped'', ''unmapped'', ''placeholder''] t then ''var(--alert-caution-color)''
      else if mentions [''alarm''] t then ''var(--alert-alarm-color)''
      else if mentions [''trend'', ''chart'', ''graph''] t then ''var(--ams-pen-2)''
      else if mentions [''readout'', ''numeric'', ''digital'', ''value'', ''label'', ''text''] t then ''var(--element-neutral-color)''
      else if mentions [''tank'', ''pump'', ''motor'', ''valve'', ''fan'', ''equip'', ''automation''] t
           then ''var(--selected-enabled-background-color)''
      else ''var(--element-inactive-color)'')"

definition esc :: "string \<Rightarrow> string" where
  "esc s =
     replace_char (CHR 0x22) ''&quot;'' (replace_char (CHR ''>'') ''&gt;'' (replace_char (CHR ''<'') ''&lt;''
       (replace_char (CHR ''&'') ''&amp;'' s)))"

abbreviation dq :: string where "dq \<equiv> [CHR 0x22]"

definition svg_attr :: "string \<Rightarrow> string \<Rightarrow> string" where
  "svg_attr name v = '' '' @ name @ ''='' @ dq @ v @ dq"

definition thumb_shape :: "(rat \<Rightarrow> string) \<Rightarrow> canvas_item \<Rightarrow> string" where
  "thumb_shape num_text it =
     (let x = px (item_pos it); y = py (item_pos it); iw = max 2 (wd (item_size it)); ih = max 2 (ht (item_size it));
          t = ci_type (ci_base it); fill = kindColor t; label = ci_label (ci_base it) in
      if mentions [''label'', ''text''] t \<and> truthy label then
        let fs = max 8 (min (ih * (8 / 10)) 20) in
        ''<text'' @ svg_attr ''x'' (num_text x) @ svg_attr ''y'' (num_text (y + ih * (75 / 100))) @ svg_attr ''font-size'' (num_text fs) @
        svg_attr ''fill'' fill @ svg_attr ''font-family'' ''sans-serif'' @ ''>'' @ esc (take 40 (the label)) @ ''</text>''
      else
        ''<rect'' @ svg_attr ''x'' (num_text x) @ svg_attr ''y'' (num_text y) @ svg_attr ''width'' (num_text iw) @ svg_attr ''height'' (num_text ih) @
        svg_attr ''rx'' ''3'' @ svg_attr ''fill'' fill @ svg_attr ''fill-opacity'' ''0.28'' @ svg_attr ''stroke'' fill @ svg_attr ''stroke-width'' ''1.5'' @ ''/>'')"

definition thumb_items :: "canvas_item list \<Rightarrow> canvas_item list" where
  "thumb_items items = take 400 (sort_key item_z (filter (\<lambda>it. \<not> item_hidden it) items))"

definition renderThumbnailSvg :: "(rat \<Rightarrow> string) \<Rightarrow> canvas_item list \<Rightarrow> extent \<Rightarrow> string \<Rightarrow> string" where
  "renderThumbnailSvg num_text items ext background =
     (let w = max 1 (wd ext); h = max 1 (ht ext); scale = THUMB_W / w; thumbH = js_round (h * scale) in
      ''<svg'' @ svg_attr ''xmlns'' ''http://www.w3.org/2000/svg'' @ svg_attr ''viewBox'' (''0 0 '' @ num_text w @ '' '' @ num_text h) @
      svg_attr ''width'' (num_text THUMB_W) @ svg_attr ''height'' (num_text thumbH) @ svg_attr ''preserveAspectRatio'' ''xMidYMid meet'' @
      svg_attr ''role'' ''img'' @ svg_attr ''aria-label'' ''Display preview'' @ ''>'' @
      ''<rect'' @ svg_attr ''width'' (num_text w) @ svg_attr ''height'' (num_text h) @ svg_attr ''fill'' (esc background) @ ''/>'' @
      concat (map (thumb_shape num_text) (thumb_items items)) @ ''</svg>'')"

section \<open>Properties\<close>

text \<open>The characters that open or close an element or an attribute of this drawing.\<close>

definition opens :: "char \<Rightarrow> bool" where
  "opens c \<longleftrightarrow> c = CHR ''<'' \<or> c = CHR ''>'' \<or> c = CHR 0x22"

lemma esc_char: "filter opens (esc [c]) = []"
  by (simp add: esc_def replace_char_def opens_def)

lemma esc_append: "esc (s @ t) = esc s @ esc t"
  by (simp add: esc_def)

lemma esc_plain [simp]: "filter opens (esc s) = []"
proof (induction s)
  case Nil
  show ?case by (simp add: esc_def)
next
  case (Cons c s)
  then show ?case using esc_char [of c] esc_append [of "[c]" s] by simp
qed

text \<open>An item with its texts blanked: the same box, an identifier and bindings of no meaning, and a label of one letter.\<close>

definition blanked :: "canvas_item \<Rightarrow> canvas_item" where
  "blanked it = patch_item (\<lambda>b. b\<lparr>ci_id := [], ci_bindings := None, ci_label := (if truthy (ci_label b) then Some ''x'' else None)\<rparr>) it"

lemma blanked_simps [simp]:
  "item_z (blanked it) = item_z it" "item_hidden (blanked it) = item_hidden it" "item_pos (blanked it) = item_pos it"
  "item_size (blanked it) = item_size it" "ci_type (ci_base (blanked it)) = ci_type (ci_base it)"
  "truthy (ci_label (ci_base (blanked it))) = truthy (ci_label (ci_base it))"
  by (simp_all add: blanked_def item_z_def item_hidden_def item_pos_def item_size_def truthy_def)

lemma map_insort_blanked: "insort_key item_z (blanked it) (map blanked xs) = map blanked (insort_key item_z it xs)"
  by (induction xs) simp_all

lemma thumb_items_blanked: "thumb_items (map blanked its) = map blanked (thumb_items its)"
proof -
  have "sort_key item_z (map blanked xs) = map blanked (sort_key item_z xs)" for xs
    by (induction xs) (simp_all add: map_insort_blanked)
  then show ?thesis by (simp add: thumb_items_def take_map filter_map o_def)
qed

lemma shape_markup: "filter opens (thumb_shape N (blanked it)) = filter opens (thumb_shape N it)"
proof (cases "mentions [''label'', ''text''] (ci_type (ci_base it)) \<and> truthy (ci_label (ci_base it))")
  case True
  then show ?thesis by (simp only: thumb_shape_def Let_def blanked_simps if_True simp_thms filter_append esc_plain)
next
  case False
  then show ?thesis by (simp only: thumb_shape_def Let_def blanked_simps if_False)
qed

lemma filter_concat_map: "filter P (concat (map f xs)) = concat (map (\<lambda>x. filter P (f x)) xs)"
  by (induction xs) simp_all

text \<open>
  C40. No text of a display becomes markup of its preview: the elements and attributes are those of the display with
  its labels, tags, identifiers and background blanked, so nothing an author or an import writes can add one.
\<close>

theorem thumbnail_markup_fixed:
  "filter opens (renderThumbnailSvg N items ext bg) = filter opens (renderThumbnailSvg N (map blanked items) ext [])"
proof -
  have "filter opens (concat (map (thumb_shape N) (thumb_items (map blanked items)))) =
      filter opens (concat (map (thumb_shape N) (thumb_items items)))"
    by (simp add: filter_concat_map thumb_items_blanked shape_markup o_def)
  then show ?thesis by (simp only: renderThumbnailSvg_def svg_attr_def Let_def filter_append esc_plain)
qed

text \<open>
  A preview is small and shows what the runtime would paint first: at most four hundred items, none of them
  hidden, in the order of painting.
\<close>

theorem thumbnail_items_bounded:
  "length (thumb_items its) \<le> 400 \<and> sorted (map item_z (thumb_items its)) \<and>
   set (thumb_items its) \<subseteq> {it \<in> set its. \<not> item_hidden it} \<and>
   (length its \<le> 400 \<longrightarrow> set (thumb_items its) = {it \<in> set its. \<not> item_hidden it})"
proof -
  have "length its \<le> 400 \<Longrightarrow> thumb_items its = sort_key item_z (filter (\<lambda>it. \<not> item_hidden it) its)"
    by (simp add: thumb_items_def order_trans [OF length_filter_le])
  then show ?thesis
    by (auto simp: thumb_items_def take_map [symmetric] dest!: in_set_takeD)
qed

definition thumb_demo :: "bool \<Rightarrow> canvas_item" where
  "thumb_demo h = CanvasItem ((bare_item ''a'' ''equip.pump'' \<lparr>px = 0, py = 0\<rparr> \<lparr>wd = 40, ht = 24\<rparr>)\<lparr>ci_hidden := Some h\<rparr>) None"

theorem thumbnail_items_bounded_witness: "set (thumb_items [thumb_demo False, thumb_demo True]) = {thumb_demo False}"
proof -
  have h: "item_hidden (thumb_demo h) = h" for h by (simp add: thumb_demo_def item_hidden_def)
  have "{it \<in> set [thumb_demo False, thumb_demo True]. \<not> item_hidden it} = {thumb_demo False}" using h by auto
  then show ?thesis using thumbnail_items_bounded [of "[thumb_demo False, thumb_demo True]"] by simp
qed

end
