(* ===== verification/Spec2Isabelle.thy ===== *)
theory Spec2Isabelle
  imports Auth_System Session_Props Alarm_Props Artifact_Legend Session_Link Live_Props Live_Feed Loop_Import_Props Manifest_Batcher Chunk_Source Time_Props Symbol_Props Designer_Props Designer_Session Canvas_Props Import_Props Display_Rules Units_Quality Thumbnail
begin

text \<open>
  \<^bold>\<open>OpenBridge: sessions, roles, alarms, live values, evidence, imports, time and displays.\<close>

  OpenBridge is an industrial portal.  This library verifies the TypeScript that decides who may do
  what and what an operator sees: the authentication service (src/services/auth-service/src) and the state
  kept by the browser client (src/frontend-ob/src).

  \<^bold>\<open>How the parts interact.\<close>  The browser logs in through the HTTP edge of auth-service, which checks guards,
  runs a handler and answers with a token and a refresh cookie.  The service keeps users, roles, permissions and
  refresh tokens in a relational store; the permission catalog is reconciled into it at startup; tokens are signed
  with keys that can be rotated.  The client's session store refreshes the token before it expires and attaches it to
  every call.  Its alarm store merges pages fetched over HTTP with deltas pushed by a hub into one map and keeps an
  index per source for the displays.  Its evidence page downloads framed, compressed columns and
  verifies their checksums before it draws them; manifests are read in batches and chunks through bundles.  Its live
  store keeps the newest value of every metric from a snapshot endpoint and an MQTT stream, for the screens that
  subscribe.  An engineer imports control loops from a CSV file, and the pages take their time window from one store.
  An engineer also draws displays: the designer edits a document of items, each showing a symbol of a library that is
  loaded on first use or of a registry of custom symbols, or imports one from a PI Vision file; rules, units and the
  quality of a reading decide what a symbol shows of the live values.

  \<^bold>\<open>The theories.\<close>

  \<^item> \<open>Prelude\<close>, \<open>Js_Lib\<close>: strings, decimal text, splitting, lists and maps, the error monad \<open>bindE\<close> over a sum,
    and the JavaScript operators the source uses (truthiness, \<open>??\<close>, the three cases absent, null and value).
  \<^item> \<open>Auth_Types\<close> (utils/errors.ts, utils/roles.ts, utils/duration.ts), \<open>Auth_Db\<close> (types/index.ts, config/database.ts
    and the tables of the schema): one record per table, one record \<open>db\<close> for the store, a function per
    statement; a statement that violates a constraint gives the driver error.  \<open>db_inv\<close> is all the constraints.
  \<^item> \<open>Rbac_Catalog\<close>, \<open>Rbac_Service\<close> (rbac/*.ts, services/permission.service.ts): the catalog and every method of
    the service.  \<open>Rbac_Laws\<close> gives their closed forms, \<open>Catalog_Sync\<close> the startup reconciliation, \<open>Rbac_Props\<close> the
    properties.
  \<^item> \<open>Keys\<close> (config/keys.ts, tools/rotate-keys.ts, tools/generate-keys.ts): loading and rotation over a map of files.
  \<^item> \<open>Auth_Session\<close>, \<open>Auth_Users\<close> (services/auth.service.ts, database/seed-admin.ts), \<open>Bulk_Import\<close>
    (services/bulkImportService.ts).  A refresh is cut at its await into \<open>refresh_check\<close> and \<open>refresh_commit\<close>, so that
    other requests run between its read and its write.  \<open>Token_Store\<close> states the refresh-token table as an
    interface, interpreted on the SQL statements of the service.  \<open>Auth_Effects\<close> and \<open>Session_Props\<close> hold the
    laws and properties, \<open>Demo_Env\<close> a concrete instance of the parameters for the witnesses.
  \<^item> \<open>Http_Guards\<close> (config/cookies.ts, utils/validation.ts, middleware/*.ts, services/audit-emitter.ts) and \<open>Auth_Http\<close>
    (controllers/*.ts, routes/auth.routes.ts): every route as its guards and its handler.  \<open>Auth_System\<close> composes them:
    \<open>serve\<close> runs a request on the store, and the invariants are shown for every run of requests.
  \<^item> \<open>Alarm_Model\<close> (utils/alarmReconciliation.ts, utils/opcAlarmFilter.ts, utils/opcAckWriteable.ts), \<open>Alarm_Store\<close>
    (store/alarmStore.ts, api/alarmApi.ts, api/alarmMappers.ts): the alarm, its merge and acknowledge lifecycle, the store
    and every handler.  A hydration is a chain of producer calls; \<open>Alarm_Run\<close> interleaves its
    steps with hub events and user actions.  \<open>Alarm_Laws\<close>, \<open>Alarm_Props\<close>: laws and properties.
  \<^item> \<open>Sha256\<close>, \<open>Artifact_Codec\<close> (components/Cpm/evidence/artifactCodec.ts): the digest beside FIPS 180-4, the frames, the
    decoder, the legends and the cache.  \<open>Artifact_Laws\<close>, \<open>Artifact_Props\<close>, \<open>Artifact_Legend\<close>: laws and properties.
  \<^item> \<open>Session_Client\<close> (auth/sessionClock.ts, auth/refreshPolicy.ts, store/authStore.ts, api/authApi.ts, api/apiFetch.ts,
    api/http.ts): the browser session, each asynchronous function cut at its awaits.  \<open>Session_Runs\<close> is its transition
    system; \<open>Session_Link\<close> runs it against the refresh route of auth-service.
  \<^item> \<open>Live_Store\<close> (store/liveMetric.ts, store/mqttStore.ts): metric and alarm readings, chart buffers, the batching of
    snapshot requests, the message handler.  \<open>Live_Registry\<close> counts the subscriptions, \<open>Live_Run\<close> is the
    transition system, \<open>Live_Flush\<close> the coalescing of updates; \<open>Live_Laws\<close>, \<open>Live_Wired\<close>, \<open>Live_Props\<close>,
    \<open>Live_Feed\<close>: laws and properties.
  \<^item> \<open>Csv_Text\<close> (utils/csv.ts, the readers of BulkImportDialog.tsx and plantLocation.tsx), \<open>Loop_Import\<close>
    (components/Cpm/csvImport.ts, utils/loopSeries.ts, utils/escapeHtml.ts): CSV text and the loops made of it;
    \<open>Loop_Import_Props\<close>: the properties.
  \<^item> \<open>Manifest_Batcher\<close> and \<open>Chunk_Source\<close> (components/Cpm/evidence/manifestBatcher.ts, chunkSource.ts): requests and
    answers as events of a run; what a caller is given whatever their order.
  \<^item> \<open>Date_Time\<close>: calendar, zones and ISO text of ECMAScript.  \<open>Time_Expr\<close> (utils/timeExpression.ts, store/timeStore.ts,
    components/Cpm/historical/timeRange.ts): time expressions, the store and the window; \<open>Time_Props\<close>: the properties.
  \<^item> \<open>Designer_Types\<close> (components/Designer/types.ts): the item and the saved document.  \<open>Custom_Symbols\<close>
    (customSymbolRegistry.ts) and \<open>Symbol_Library\<close> (both openBridge libraries, automationTypes.ts, obcCatalogTypes.ts,
    lazyCategoryRegistry.ts, symbolLibraryService.ts): what an item may show; \<open>Symbol_Props\<close>: the properties.
  \<^item> \<open>Designer_Editor\<close> (DisplayDesigner.tsx): the state of the page as one record \<open>editor\<close>, a function per operation.
    \<open>Designer_History\<close> states the undo history as the interface \<open>undo_stack\<close>, a bounded zipper, and interprets
    it on the editor; \<open>Designer_Props\<close> and \<open>Designer_Session\<close> run the operations, and with them saves and reverts.
  \<^item> \<open>Designer_Canvas\<close> (DesignerCanvas.tsx, LayersPanel.tsx): gestures, guides, drops and the order of painting;
    \<open>Canvas_Props\<close>: the properties.
  \<^item> \<open>Display_Import\<close> (services/import/pdixImport.ts) with \<open>Import_Props\<close>, \<open>Display_Rules\<close> (ruleEngine.ts),
    \<open>Units_Quality\<close> (utils/uom.ts, utils/quality.ts) and \<open>Thumbnail\<close> (thumbnail.ts).

  \<^bold>\<open>What the lemmas show.\<close>  Of the service: every store reached by requests keeps all constraints and the built-in
  roles; a guarded route is only served for an accepted token with the permission; the exact outcome of each role, session and
  key operation, errors included; which operations end which sessions.  Of the alarm store: its invariant over every
  interleaving, that the index refines the alarm map, that batching does not change the outcome, and two
  interleavings in which the operator loses sight of an alarm.  Of the evidence codec: round trips, refusal of what was cut
  or altered, and that the digest is SHA-256.  Of the browser session: one refresh in flight, the retry policy, the bounds of
  bootstrap, and the races with logout, bootstrap and a failing server.  Of the live store: the subscriptions it holds are
  those the screens count, a metric never goes back in time, and coalescing updates does not change what is shown.  Of
  the imports: what is written as CSV reads back, and an imported loop satisfies the checks its row was given.  Of the
  evidence loading: every caller of the batcher is answered, and a bundle serves the bytes the single request would.  Of the
  time window: its ends are in order, and which expressions it refuses.  Of the designer: undo and redo take back and
  repeat exactly what was done, identifiers stay unique, a clean canvas is what the server holds unless an edit falls into a
  save, a drag depends on where it ends and not on its path, no live reading becomes markup, and the library is
  consistent.  Of the displays: an import accounts for every symbol of its file and gives items that can be shown, the
  rules mean what their list says, units convert without loss, and staleness never hides a failure.

  \<^bold>\<open>Bounds and fuel.\<close>  The digest is SHA-256 for messages shorter than \<open>2 ^ 31 - 72\<close> bytes, where the 32-bit lengths of the
  source do not wrap.  \<open>split_loop\<close> and \<open>fetch_pages\<close> may run forever in the source (a chunk size of zero, a server that
  always has a next page) and are \<open>partial_function (option)\<close>; that they return is a theorem with
  its condition.  The other loops are structural or have a measure.  \<open>bootstrap_loop\<close> recurs on the attempts left, three at most.

  \<^bold>\<open>Modelling notes.\<close>  Times are milliseconds as integers; the database clock is an argument.  Text is in
  code units below 256, and text of the source outside ASCII is written in ASCII.  Database names are ordered by code unit.
  Identifiers generated by the database are arguments.  Body fields are strings where the validators require it.
  A time zone is a record of its offsets, and a text that is no ISO time is read by a parameter of the host.
  Numbers of the client that are not counts are rationals, without the rounding of doubles; a float64 of the
  evidence codec is its 64 bits.  jsonwebtoken, bcrypt, express-validator, inflate, the native digest, \<open>atob\<close> with
  \<open>JSON.parse\<close> and the HTTP requests are parameters.

  Of the designer, an operation is one event of the page followed by a render, and a gesture is the moves that an
  animation frame processes; \<open>String\<close> of a value that is no string, \<open>toFixed\<close>, \<open>decodeURIComponent\<close> and the angle of a
  vector are parameters.  Icons and glyphs are left out.

  \<^bold>\<open>Not modelled.\<close>  The connection pool and a connection lost inside a transaction, express (path matching,
  rate limits, CORS), the logger, migrations and the Kafka producer: I/O.  The SignalR connection, the
  alarm sound and the decoding of raw hub payloads.  The rendering of the React components: the
  dashboards and alarm pages, the property inspector, the display list with publishing and sharing, and the symbol renderers;
  the wording of the CPM pages and their generated catalogue; the formatting of Intl.  The services in other languages (.NET, Java) beside these.
\<close>

end
